(* ===== verification/Prelude.thy ===== *)
theory Prelude
  imports Complex_Main "HOL-Library.Word" "HOL-Library.Char_ord" "HOL-Library.List_Lexorder"
begin

text \<open>
  Shared vocabulary of the development: Go's errors as values, the functions of the Go standard
  library that the modelled code calls on strings and numbers, and Go maps whose keys are
  enumerated (because they are marshalled) as sorted association lists.

  Strings are Go strings, that is byte sequences; letter case and white space are handled as Go
  handles ASCII.  A Go map that is only ever looked up is a HOL map; one that is ranged over is a
  \<open>gmap\<close>, a list sorted by key, which fixes one of the orders that Go leaves open.
\<close>

section \<open>Errors\<close>

text \<open>
  Go errors are values.  Only the sentinels that the code tests with \<open>errors.Is\<close> are told apart;
  \<open>ErrWrap\<close> is \<open>fmt.Errorf(...%w...)\<close> and \<open>ErrJoin\<close> is \<open>errors.Join\<close>.
\<close>

datatype go_error =
    ErrNoRows
  | ErrDeadline
  | ErrCanceled
  | ErrPermission
  | ErrNotExist
  | ErrJson
  | ErrSql string
  | ErrText string
  | ErrWrap string go_error
  | ErrJoin go_error go_error

type_synonym 'a res = "go_error + 'a"

fun err_is :: "go_error \<Rightarrow> go_error \<Rightarrow> bool" where
  "err_is t (ErrWrap m e) = (t = ErrWrap m e \<or> err_is t e)"
| "err_is t (ErrJoin a b) = (t = ErrJoin a b \<or> err_is t a \<or> err_is t b)"
| "err_is t e = (t = e)"

lemma err_is_refl [simp]: "err_is e e"
  by (cases e) auto

text \<open>Sequencing of fallible computations: the early return on a non-nil error.\<close>

definition attempt :: "'a res \<Rightarrow> ('a \<Rightarrow> 'b res) \<Rightarrow> 'b res" where
  "attempt r f = (case r of Inl e \<Rightarrow> Inl e | Inr a \<Rightarrow> f a)"

lemma attempt_simps [simp]: "attempt (Inl e) f = Inl e" "attempt (Inr a) f = f a"
  by (simp_all add: attempt_def)

lemma attempt_Inr_iff: "attempt r f = Inr b \<longleftrightarrow> (\<exists>a. r = Inr a \<and> f a = Inr b)"
  by (cases r) auto

lemma attempt_Inl_iff: "attempt r f = Inl e \<longleftrightarrow> r = Inl e \<or> (\<exists>a. r = Inr a \<and> f a = Inl e)"
  by (cases r) auto

fun map_res :: "('a \<Rightarrow> 'b res) \<Rightarrow> 'a list \<Rightarrow> 'b list res" where
  "map_res f [] = Inr []"
| "map_res f (x # xs) = attempt (f x) (\<lambda>y. attempt (map_res f xs) (\<lambda>ys. Inr (y # ys)))"

lemma map_res_total:
  "(\<And>x. x \<in> set xs \<Longrightarrow> f x = Inr (g x)) \<Longrightarrow> map_res f xs = Inr (map g xs)"
  by (induction xs) auto

lemma map_res_map: "map_res f (map g xs) = map_res (f \<circ> g) xs"
  by (induction xs) auto

lemma map_res_length: "map_res f xs = Inr ys \<Longrightarrow> length ys = length xs"
  by (induction xs arbitrary: ys) (auto simp: attempt_Inr_iff)

fun fold_res :: "('s \<Rightarrow> 'a \<Rightarrow> 's res) \<Rightarrow> 's \<Rightarrow> 'a list \<Rightarrow> 's res" where
  "fold_res f s [] = Inr s"
| "fold_res f s (x # xs) = attempt (f s x) (\<lambda>s'. fold_res f s' xs)"

lemma fold_res_total:
  "(\<And>s x. x \<in> set xs \<Longrightarrow> f s x = Inr (g s x)) \<Longrightarrow> fold_res f s xs = Inr (foldl g s xs)"
  by (induction xs arbitrary: s) auto

lemma fold_res_append: "fold_res f s (xs @ ys) = attempt (fold_res f s xs) (\<lambda>s'. fold_res f s' ys)"
  by (induction xs arbitrary: s) (auto simp: attempt_def split: sum.splits)

lemma fold_res_invariant:
  "fold_res f s xs = Inr t \<Longrightarrow> I s \<Longrightarrow> (\<And>s x s'. x \<in> set xs \<Longrightarrow> I s \<Longrightarrow> f s x = Inr s' \<Longrightarrow> I s') \<Longrightarrow> I t"
  by (induction xs arbitrary: s) (auto simp: attempt_Inr_iff)

lemma foldl_invariant:
  "I s \<Longrightarrow> (\<And>s x. I s \<Longrightarrow> x \<in> set xs \<Longrightarrow> I (f s x)) \<Longrightarrow> I (foldl f s xs)"
  by (induction xs arbitrary: s) auto

section \<open>Strings\<close>

definition lower_char :: "char \<Rightarrow> char" where
  "lower_char c = (let n = of_char c :: nat in
     if 65 \<le> n \<and> n \<le> 90 then char_of (n + 32) else c)"

definition upper_char :: "char \<Rightarrow> char" where
  "upper_char c = (let n = of_char c :: nat in
     if 97 \<le> n \<and> n \<le> 122 then char_of (n - 32) else c)"

definition to_lower :: "string \<Rightarrow> string" where
  "to_lower s = map lower_char s"

definition to_upper :: "string \<Rightarrow> string" where
  "to_upper s = map upper_char s"

definition equal_fold :: "string \<Rightarrow> string \<Rightarrow> bool" where
  "equal_fold a b = (to_lower a = to_lower b)"

definition is_space :: "char \<Rightarrow> bool" where
  "is_space c = (let n = of_char c :: nat in n = 32 \<or> (9 \<le> n \<and> n \<le> 13))"

definition trim_space :: "string \<Rightarrow> string" where
  "trim_space s = rev (dropWhile is_space (rev (dropWhile is_space s)))"

definition has_prefix :: "string \<Rightarrow> string \<Rightarrow> bool" where
  "has_prefix p s = (take (length p) s = p)"

definition has_suffix :: "string \<Rightarrow> string \<Rightarrow> bool" where
  "has_suffix p s = has_prefix (rev p) (rev s)"

fun split_on :: "char \<Rightarrow> string \<Rightarrow> string list" where
  "split_on d [] = [[]]"
| "split_on d (c # cs) =
     (if c = d then [] # split_on d cs
      else case split_on d cs of [] \<Rightarrow> [[c]] | p # ps \<Rightarrow> (c # p) # ps)"

text \<open>\<open>strings.Cut\<close> at a single byte: before, after, found.\<close>

fun cut_at :: "char \<Rightarrow> string \<Rightarrow> (string \<times> string) option" where
  "cut_at d [] = None"
| "cut_at d (c # cs) =
     (if c = d then Some ([], cs)
      else map_option (\<lambda>(a, b). (c # a, b)) (cut_at d cs))"

text \<open>\<open>strings.Fields\<close>: the maximal runs of non-space bytes.\<close>

fun fields_aux :: "string \<Rightarrow> string \<Rightarrow> string list" where
  "fields_aux acc [] = (if acc = [] then [] else [rev acc])"
| "fields_aux acc (c # cs) =
     (if is_space c then (if acc = [] then fields_aux [] cs else rev acc # fields_aux [] cs)
      else fields_aux (c # acc) cs)"

definition fields :: "string \<Rightarrow> string list" where
  "fields s = fields_aux [] s"

fun join_with :: "string \<Rightarrow> string list \<Rightarrow> string" where
  "join_with sep [] = []"
| "join_with sep [s] = s"
| "join_with sep (s # t # ss) = s @ sep @ join_with sep (t # ss)"

lemma lower_char_idem [simp]: "lower_char (lower_char c) = lower_char c"
proof -
  show ?thesis
    by (auto simp: lower_char_def Let_def of_char_of)
qed

lemma to_lower_idem [simp]: "to_lower (to_lower s) = to_lower s"
  by (simp add: to_lower_def)

lemma to_lower_append [simp]: "to_lower (a @ b) = to_lower a @ to_lower b"
  by (simp add: to_lower_def)

lemma is_space_lower_char [simp]: "is_space (lower_char c) = is_space c"
proof -
  show ?thesis
    by (auto simp: lower_char_def is_space_def Let_def of_char_of)
qed

lemma to_lower_dropWhile_space:
  "to_lower (dropWhile is_space s) = dropWhile is_space (to_lower s)"
  by (induction s) (auto simp: to_lower_def)

lemma to_lower_trim: "to_lower (trim_space s) = trim_space (to_lower s)"
proof -
  have r: "to_lower (rev xs) = rev (to_lower xs)" for xs
    by (simp add: to_lower_def rev_map)
  show ?thesis
    by (simp add: trim_space_def r to_lower_dropWhile_space)
qed

lemma dropWhile_trim_end:
  assumes "dropWhile P s = s"
  shows "dropWhile P (rev (dropWhile P (rev s))) = rev (dropWhile P (rev s))"
proof (cases s)
  case Nil
  then show ?thesis by simp
next
  case (Cons c cs)
  with assms have c: "\<not> P c"
    using dropWhile_eq_self_iff by fastforce
  have "dropWhile P (rev cs @ [c]) = dropWhile P (rev cs) @ [c]"
    using c by (simp add: dropWhile_append3)
  then show ?thesis using Cons c by simp
qed

lemma trim_space_idem [simp]: "trim_space (trim_space s) = trim_space s"
proof -
  let ?a = "dropWhile is_space s"
  have 1: "dropWhile is_space ?a = ?a"
    by (rule dropWhile_idem)
  show ?thesis
    unfolding trim_space_def
    by (subst dropWhile_trim_end [OF 1]) (simp add: dropWhile_idem)
qed

lemma equal_fold_refl [simp]: "equal_fold a a"
  by (simp add: equal_fold_def)

lemma equal_fold_lower [simp]: "equal_fold (to_lower a) b = equal_fold a b"
  by (simp add: equal_fold_def)

section \<open>Numbers in text\<close>

definition digit_value :: "char \<Rightarrow> nat option" where
  "digit_value c = (let n = of_char c :: nat in
     if 48 \<le> n \<and> n \<le> 57 then Some (n - 48) else None)"

fun digits_value :: "nat \<Rightarrow> string \<Rightarrow> nat option" where
  "digits_value acc [] = Some acc"
| "digits_value acc (c # cs) =
     (case digit_value c of None \<Rightarrow> None | Some d \<Rightarrow> digits_value (10 * acc + d) cs)"

text \<open>\<open>strconv.ParseUint(s, 10, bits)\<close>, with \<open>None\<close> for a syntax or range error.\<close>

definition parse_uint :: "nat \<Rightarrow> string \<Rightarrow> nat option" where
  "parse_uint bits s =
     (if s = [] then None
      else case digits_value 0 s of
        None \<Rightarrow> None
      | Some n \<Rightarrow> if n < 2 ^ bits then Some n else None)"

text \<open>\<open>strconv.ParseInt(s, 10, 64)\<close>, which is also \<open>strconv.Atoi\<close> on a 64-bit platform.\<close>

definition parse_int64 :: "string \<Rightarrow> int option" where
  "parse_int64 s =
     (case s of
        [] \<Rightarrow> None
      | c # cs \<Rightarrow>
          let neg = (c = CHR ''-'');
              body = (if neg \<or> c = CHR ''+'' then cs else s)
          in if body = [] then None
             else case digits_value 0 body of
               None \<Rightarrow> None
             | Some n \<Rightarrow>
                 if \<not> neg \<and> n \<ge> 2 ^ 63 then None
                 else if neg \<and> n > 2 ^ 63 then None
                 else Some (if neg then - int n else int n))"

lemma parse_uint_bound: "parse_uint bits s = Some n \<Longrightarrow> n < 2 ^ bits"
  by (auto simp: parse_uint_def split: if_splits option.splits)

lemma parse_int64_bound: "parse_int64 s = Some i \<Longrightarrow> - (2 ^ 63) \<le> i \<and> i < 2 ^ 63"
  by (auto simp: parse_int64_def Let_def split: if_splits option.splits list.splits)

text \<open>\<open>strconv.FormatInt(n, 10)\<close>.\<close>

fun nat_digits :: "nat \<Rightarrow> string" where
  "nat_digits n =
     (if n < 10 then [char_of (48 + n)] else nat_digits (n div 10) @ [char_of (48 + n mod 10)])"

declare nat_digits.simps [simp del]

definition format_int :: "int \<Rightarrow> string" where
  "format_int i = (if i < 0 then CHR ''-'' # nat_digits (nat (- i)) else nat_digits (nat i))"

lemma digit_value_char_of: "d < 10 \<Longrightarrow> digit_value (char_of (48 + d)) = Some d"
  by (simp add: digit_value_def of_char_of Let_def)

lemma digits_value_append:
  "digits_value acc (xs @ ys) =
     (case digits_value acc xs of None \<Rightarrow> None | Some a \<Rightarrow> digits_value a ys)"
  by (induction xs arbitrary: acc) (auto split: option.splits)

lemma digits_value_nat_digits: "digits_value 0 (nat_digits n) = Some n"
proof (induction n rule: nat_digits.induct)
  case (1 n)
  show ?case
  proof (cases "n < 10")
    case True
    then show ?thesis
      by (simp add: nat_digits.simps [of n] digit_value_char_of)
  next
    case False
    with 1 have "digits_value 0 (nat_digits (n div 10)) = Some (n div 10)"
      by simp
    with False show ?thesis
      by (simp add: nat_digits.simps [of n] digits_value_append digit_value_char_of)
  qed
qed

lemma nat_digits_not_Nil [simp]: "nat_digits n \<noteq> []"
  by (subst nat_digits.simps) simp

lemma hd_nat_digits: "\<exists>d < 10. hd (nat_digits n) = char_of (48 + d :: nat)"
proof (induction n rule: nat_digits.induct)
  case (1 n)
  show ?case
  proof (cases "n < 10")
    case True
    then show ?thesis by (subst nat_digits.simps) auto
  next
    case False
    with 1 show ?thesis by (subst nat_digits.simps) simp
  qed
qed

lemma nat_digits_unsigned: "\<exists>c cs. nat_digits n = c # cs \<and> c \<noteq> CHR ''-'' \<and> c \<noteq> CHR ''+''"
proof -
  obtain c cs where c: "nat_digits n = c # cs"
    using nat_digits_not_Nil by (meson list.exhaust)
  obtain d where d: "d < 10" "c = char_of (48 + d :: nat)"
    using hd_nat_digits [of n] c by auto
  have "of_char c = 48 + d"
    using d by (simp add: of_char_of)
  then have "c \<noteq> CHR ''-'' \<and> c \<noteq> CHR ''+''"
    by auto
  with c show ?thesis by blast
qed

text \<open>Formatting a 64-bit integer and parsing it back is the identity.\<close>

lemma parse_format_int:
  assumes "- (2 ^ 63) \<le> i" "i < 2 ^ 63"
  shows "parse_int64 (format_int i) = Some i"
proof (cases "i < 0")
  case True
  then have "nat (- i) \<le> 2 ^ 63" using assms by simp
  with True show ?thesis
    by (simp add: format_int_def parse_int64_def digits_value_nat_digits)
next
  case False
  then have "nat i < 2 ^ 63" using assms by simp
  moreover obtain c cs where "nat_digits (nat i) = c # cs" "c \<noteq> CHR ''-''" "c \<noteq> CHR ''+''"
    using nat_digits_unsigned by blast
  ultimately show ?thesis
    using False digits_value_nat_digits [of "nat i"]
    by (simp add: format_int_def parse_int64_def)
qed

text \<open>Go's integer division truncates towards zero; \<open>b\<close> is never zero where it is used.\<close>

definition quot :: "int \<Rightarrow> int \<Rightarrow> int" where
  "quot a b = sgn a * sgn b * (\<bar>a\<bar> div \<bar>b\<bar>)"

lemma quot_nonneg: "0 \<le> a \<Longrightarrow> 0 < b \<Longrightarrow> quot a b = a div b"
  by (cases "a = 0") (auto simp: quot_def)

section \<open>Go maps that are ranged over\<close>

type_synonym ('k, 'v) gmap = "('k \<times> 'v) list"

definition mget :: "('k, 'v) gmap \<Rightarrow> 'k \<Rightarrow> 'v option" where
  "mget m k = map_of m k"

fun mput :: "'k::linorder \<Rightarrow> 'v \<Rightarrow> ('k, 'v) gmap \<Rightarrow> ('k, 'v) gmap" where
  "mput k v [] = [(k, v)]"
| "mput k v ((k', v') # m) =
     (if k < k' then (k, v) # (k', v') # m
      else if k = k' then (k, v) # m
      else (k', v') # mput k v m)"

definition msorted :: "('k::linorder, 'v) gmap \<Rightarrow> bool" where
  "msorted m = sorted_wrt (<) (map fst m)"

definition mvals :: "('v \<Rightarrow> 'w) \<Rightarrow> ('k, 'v) gmap \<Rightarrow> ('k, 'w) gmap" where
  "mvals f m = map (\<lambda>(k, v). (k, f v)) m"

lemma mget_Nil [simp]: "mget [] k = None"
  by (simp add: mget_def)

lemma mget_Cons [simp]: "mget ((a, v) # m) k = (if a = k then Some v else mget m k)"
  by (simp add: mget_def)

lemma mget_mput [simp]: "mget (mput k v m) k' = (if k = k' then Some v else mget m k')"
  by (induction k v m rule: mput.induct) auto

lemma set_fst_mput [simp]: "fst ` set (mput k v m) = insert k (fst ` set m)"
  by (induction k v m rule: mput.induct) auto

lemma msorted_Nil [simp]: "msorted []"
  by (simp add: msorted_def)

lemma msorted_Cons: "msorted ((k, v) # m) \<longleftrightarrow> (\<forall>k' \<in> fst ` set m. k < k') \<and> msorted m"
  by (simp add: msorted_def)

lemma set_mput: "set (mput k v m) \<subseteq> insert (k, v) (set m)"
  by (induction k v m rule: mput.induct) auto

lemma msorted_mput: "msorted m \<Longrightarrow> msorted (mput k v m)"
  by (induction k v m rule: mput.induct) (auto simp: msorted_Cons)

lemma mget_None_iff: "mget m k = None \<longleftrightarrow> k \<notin> fst ` set m"
  by (simp add: mget_def map_of_eq_None_iff)

lemma mget_mvals [simp]: "mget (mvals f m) k = map_option f (mget m k)"
  by (induction m) (auto simp: mvals_def)

lemma fst_set_mvals [simp]: "fst ` set (mvals f m) = fst ` set m"
  by (force simp: mvals_def)

lemma msorted_mvals [simp]: "msorted (mvals f m) = msorted m"
  by (simp add: msorted_def mvals_def comp_def case_prod_unfold)

lemma mget_SomeD: "mget m k = Some v \<Longrightarrow> (k, v) \<in> set m"
  by (simp add: mget_def map_of_SomeD)

lemma mget_set: "msorted m \<Longrightarrow> (k, v) \<in> set m \<Longrightarrow> mget m k = Some v"
  by (induction m) (force simp: msorted_Cons)+

text \<open>A sorted map is determined by its lookups.\<close>

lemma msorted_ext:
  assumes "msorted m1" "msorted m2" "\<And>k. mget m1 k = mget m2 k"
  shows "m1 = m2"
proof -
  have s: "set m1 = set m2"
  proof (rule set_eqI)
    fix p :: "'a \<times> 'b"
    obtain k v where p: "p = (k, v)" by (cases p)
    have "p \<in> set m1 \<longleftrightarrow> mget m1 k = Some v" "p \<in> set m2 \<longleftrightarrow> mget m2 k = Some v"
      unfolding p using assms(1,2) by (blast intro: mget_SomeD mget_set)+
    with assms(3) show "p \<in> set m1 \<longleftrightarrow> p \<in> set m2" by simp
  qed
  have d: "distinct (map fst m)" "sorted (map fst m)" if "msorted m" for m :: "('a \<times> 'b) list"
    using that by (auto simp: msorted_def strict_sorted_iff)
  show ?thesis
    by (rule map_sorted_distinct_set_unique [where f = fst])
       (use assms s d in \<open>auto simp: distinct_map\<close>)
qed

end
