(* ===== verification/Float64.thy ===== *)
theory Float64
  imports Prelude
begin

text \<open>
  Go's \<open>float64\<close>: IEEE 754 binary64 with rounding to nearest, ties to even.  A finite value is its
  exact rational value, so every operation is the exact rational operation followed by
  \<open>rnd\<close>, which is how the standard defines it.  Negative zero, the infinities and a single NaN
  are values of their own.  Operations are not fused (the code generator for amd64, the
  platform the project releases for, never fuses), and the conversions to integers follow amd64
  where the language leaves the result of an out-of-range conversion open.
\<close>

section \<open>Powers of two and the exponent of a rational\<close>

definition pow2 :: "int \<Rightarrow> rat" where
  "pow2 e = (if 0 \<le> e then 2 ^ nat e else 1 / 2 ^ nat (- e))"

lemma pow2_pos [simp]: "0 < pow2 e"
  by (simp add: pow2_def)

lemma pow2_nonneg [simp]: "0 \<le> pow2 e"
  by (simp add: less_imp_le)

lemma pow2_nz [simp]: "pow2 e \<noteq> 0"
  using pow2_pos [of e] by linarith

lemma pow2_powi: "pow2 e = 2 powi e"
  by (simp add: pow2_def power_int_def inverse_eq_divide power_one_over)

lemma pow2_add: "pow2 (a + b) = pow2 a * pow2 b"
  by (simp add: pow2_powi power_int_add)

lemma pow2_diff: "pow2 (a - b) = pow2 a / pow2 b"
  by (simp add: pow2_powi power_int_diff)

lemma pow2_mono: "a \<le> b \<Longrightarrow> pow2 a \<le> pow2 b"
  by (simp add: pow2_powi power_int_increasing)

lemma pow2_strict_mono: "a < b \<Longrightarrow> pow2 a < pow2 b"
  by (simp add: pow2_powi power_int_strict_increasing)

lemma pow2_less_cancel: "pow2 a < pow2 b \<Longrightarrow> a < b"
  using pow2_mono [of b a] by force

lemma pow2_int: "0 \<le> e \<Longrightarrow> pow2 e = of_int (2 ^ nat e)"
  by (simp add: pow2_def)

fun bits :: "int \<Rightarrow> int" where
  "bits n = (if n \<le> 0 then 0 else 1 + bits (n div 2))"

declare bits.simps [simp del]

lemma bits_nonneg: "0 \<le> bits n"
  by (induction n rule: bits.induct) (subst bits.simps, simp)

lemma bits_bounds: "0 < n \<Longrightarrow> 0 < bits n \<and> pow2 (bits n - 1) \<le> of_int n \<and> of_int n < pow2 (bits n)"
proof (induction n rule: bits.induct)
  case (1 n)
  then have e: "bits n = 1 + bits (n div 2)" by (subst bits.simps) simp
  show ?case
  proof (cases "n = 1")
    case True
    have "bits 0 = 0" by (subst bits.simps) simp
    with True e show ?thesis by (simp add: pow2_def)
  next
    case False
    with 1 have h: "0 < n div 2" by linarith
    with 1 have IH: "pow2 (bits (n div 2) - 1) \<le> of_int (n div 2)" "of_int (n div 2) < pow2 (bits (n div 2))"
      and pos: "0 < bits (n div 2)" by auto
    have "2 * (n div 2) \<le> n" "n \<le> 2 * (n div 2) + 1" by linarith+
    then have "(of_int (2 * (n div 2)) :: rat) \<le> of_int n"
      "(of_int n :: rat) \<le> of_int (2 * (n div 2) + 1)"
      by (simp_all only: of_int_le_iff)
    then have d: "2 * (of_int (n div 2) :: rat) \<le> of_int n"
      "of_int n \<le> 2 * (of_int (n div 2) :: rat) + 1"
      by simp_all
    have p1: "pow2 (bits (n div 2)) = 2 * pow2 (bits (n div 2) - 1)"
      using pow2_add [of 1 "bits (n div 2) - 1"] by (simp add: pow2_def)
    have ni: "of_int (n div 2) + 1 \<le> pow2 (bits (n div 2))"
    proof -
      have "pow2 (bits (n div 2)) = of_int (2 ^ nat (bits (n div 2)))"
        using pos by (intro pow2_int) simp
      with IH(2) show ?thesis
        by (metis of_int_1 of_int_add of_int_le_iff of_int_less_iff zless_imp_add1_zle)
    qed
    have p2: "pow2 (1 + bits (n div 2)) = 2 * pow2 (bits (n div 2))"
      by (simp add: pow2_add) (simp add: pow2_def)
    show ?thesis
      using e pos IH d p1 p2 ni by auto
  qed
qed

text \<open>\<open>\<lfloor>log\<^sub>2 q\<rfloor>\<close> of a positive rational.\<close>

definition ilog :: "rat \<Rightarrow> int" where
  "ilog q = (let (n, d) = quotient_of q; k = bits n - bits d
             in if pow2 k \<le> q then k else k - 1)"

lemma ilog_bounds:
  assumes "0 < q"
  shows "pow2 (ilog q) \<le> q" "q < pow2 (ilog q + 1)"
proof -
  obtain n d where nd: "quotient_of q = (n, d)" by (cases "quotient_of q")
  have d: "0 < d" using nd by (rule quotient_of_denom_pos)
  have q: "q = of_int n / of_int d" using nd by (rule quotient_of_div)
  have n: "0 < n" using assms d q by (simp add: zero_less_divide_iff)
  let ?k = "bits n - bits d"
  have bn: "pow2 (bits n - 1) \<le> of_int n" "of_int n < pow2 (bits n)"
    and bd: "pow2 (bits d - 1) \<le> of_int d" "of_int d < pow2 (bits d)"
    using bits_bounds [OF n] bits_bounds [OF d] by auto
  have dp: "(0 :: rat) < of_int d" using d by simp
  have up: "q < pow2 (?k + 1)"
  proof -
    have "q < pow2 (bits n) / of_int d" using bn(2) dp q by (simp add: divide_strict_right_mono)
    also have "\<dots> \<le> pow2 (bits n) / pow2 (bits d - 1)"
      using bd(1) d by (intro divide_left_mono) simp_all
    also have "\<dots> = pow2 (?k + 1)" by (simp add: pow2_diff [symmetric] algebra_simps)
    finally show ?thesis .
  qed
  have low: "pow2 (?k - 1) < q"
  proof -
    have "pow2 (?k - 1) = pow2 (bits n - 1) / pow2 (bits d)" by (simp add: pow2_diff [symmetric] algebra_simps)
    also have "\<dots> < pow2 (bits n - 1) / of_int d"
      using bd(2) dp by (intro divide_strict_left_mono) auto
    also have "\<dots> \<le> q" using bn(1) dp q by (simp add: divide_right_mono)
    finally show ?thesis .
  qed
  have i: "ilog q = (if pow2 ?k \<le> q then ?k else ?k - 1)"
    by (simp add: ilog_def nd)
  show "pow2 (ilog q) \<le> q" using i low by auto
  show "q < pow2 (ilog q + 1)" using i up by auto
qed

lemma ilog_unique: "pow2 k \<le> q \<Longrightarrow> q < pow2 (k + 1) \<Longrightarrow> ilog q = k"
proof -
  assume a: "pow2 k \<le> q" "q < pow2 (k + 1)"
  then have q: "0 < q" using pow2_pos [of k] by linarith
  have "pow2 k < pow2 (ilog q + 1)" "pow2 (ilog q) < pow2 (k + 1)"
    using ilog_bounds [OF q] a by linarith+
  then show "ilog q = k" by (auto dest!: pow2_less_cancel)
qed

lemma ilog_mono: "0 < p \<Longrightarrow> p \<le> q \<Longrightarrow> ilog p \<le> ilog q"
proof -
  assume a: "0 < p" "p \<le> q"
  then have "pow2 (ilog p) < pow2 (ilog q + 1)"
    using ilog_bounds(1) [of p] ilog_bounds(2) [of q] by linarith
  then show ?thesis by (auto dest: pow2_less_cancel)
qed

section \<open>Rounding\<close>

text \<open>Round to the nearest integer, ties to even.\<close>

definition rne :: "rat \<Rightarrow> int" where
  "rne x = (let f = \<lfloor>x\<rfloor>; r = x - of_int f in
     if r < 1 / 2 then f else if r > 1 / 2 then f + 1 else if even f then f else f + 1)"

lemma rne_of_int [simp]: "rne (of_int i) = i"
  by (simp add: rne_def)

lemma rne_floor: "rne x = \<lfloor>x\<rfloor> \<or> rne x = \<lfloor>x\<rfloor> + 1"
  by (simp add: rne_def Let_def)

lemma rne_mono: "x \<le> y \<Longrightarrow> rne x \<le> rne y"
proof (cases "\<lfloor>x\<rfloor> = \<lfloor>y\<rfloor>")
  case True
  assume "x \<le> y"
  with True show ?thesis by (auto simp: rne_def Let_def)
next
  case False
  assume "x \<le> y"
  with False have "\<lfloor>x\<rfloor> + 1 \<le> \<lfloor>y\<rfloor>" using floor_mono [of x y] by linarith
  then show ?thesis using rne_floor [of x] rne_floor [of y] by linarith
qed

text \<open>The scale of the last significant bit: 53 bits, or the subnormal floor.\<close>

definition ulp_exp :: "rat \<Rightarrow> int" where
  "ulp_exp q = max (ilog q - 52) (- 1074)"

definition rnd_pos :: "rat \<Rightarrow> rat" where
  "rnd_pos q = of_int (rne (q / pow2 (ulp_exp q))) * pow2 (ulp_exp q)"

definition rnd_val :: "rat \<Rightarrow> rat" where
  "rnd_val q = (if q = 0 then 0 else if q < 0 then - rnd_pos (- q) else rnd_pos q)"

lemma rnd_pos_nonneg: "0 < q \<Longrightarrow> 0 \<le> rnd_pos q"
proof -
  assume "0 < q"
  then have "rne 0 \<le> rne (q / pow2 (ulp_exp q))"
    by (intro rne_mono) simp
  then show ?thesis
    using rne_of_int [of 0] by (simp add: rnd_pos_def)
qed

text \<open>A multiple of \<open>pow2 k\<close> with \<open>k\<close> no finer than the last bit is a bound rounding respects.\<close>

lemma rnd_pos_le_scaled:
  assumes "0 < q" "q \<le> of_int m * pow2 k" "ulp_exp q \<le> k"
  shows "rnd_pos q \<le> of_int m * pow2 k"
proof -
  let ?e = "ulp_exp q"
  have s: "of_int m * pow2 k = of_int (m * 2 ^ nat (k - ?e)) * pow2 ?e"
    using assms(3) pow2_add [of "k - ?e" ?e] pow2_int [of "k - ?e"] by simp
  have "q / pow2 ?e \<le> of_int (m * 2 ^ nat (k - ?e))"
    using assms(2) s by (simp add: pos_divide_le_eq)
  then have "rne (q / pow2 ?e) \<le> m * 2 ^ nat (k - ?e)"
    using rne_mono rne_of_int by metis
  then have "of_int (rne (q / pow2 ?e)) * pow2 ?e \<le> of_int (m * 2 ^ nat (k - ?e)) * pow2 ?e"
    by (intro mult_right_mono) (simp_all only: of_int_le_iff pow2_nonneg)
  then show ?thesis unfolding rnd_pos_def s .
qed

lemma rnd_pos_ge_scaled:
  assumes "0 < q" "of_int m * pow2 k \<le> q" "ulp_exp q \<le> k"
  shows "of_int m * pow2 k \<le> rnd_pos q"
proof -
  let ?e = "ulp_exp q"
  have s: "of_int m * pow2 k = of_int (m * 2 ^ nat (k - ?e)) * pow2 ?e"
    using assms(3) pow2_add [of "k - ?e" ?e] pow2_int [of "k - ?e"] by simp
  have "of_int (m * 2 ^ nat (k - ?e)) \<le> q / pow2 ?e"
    using assms(2) s by (simp add: pos_le_divide_eq)
  then have "m * 2 ^ nat (k - ?e) \<le> rne (q / pow2 ?e)"
    using rne_mono rne_of_int by metis
  then have "of_int (m * 2 ^ nat (k - ?e)) * pow2 ?e \<le> of_int (rne (q / pow2 ?e)) * pow2 ?e"
    by (intro mult_right_mono) (simp_all only: of_int_le_iff pow2_nonneg)
  then show ?thesis unfolding rnd_pos_def s .
qed

lemma rnd_pos_mono:
  assumes "0 < p" "p \<le> q"
  shows "rnd_pos p \<le> rnd_pos q"
proof (cases "ulp_exp p = ulp_exp q")
  case True
  have "rne (p / pow2 (ulp_exp p)) \<le> rne (q / pow2 (ulp_exp p))"
    using assms(2) by (intro rne_mono divide_right_mono) auto
  with True show ?thesis
    by (simp add: rnd_pos_def mult_right_mono)
next
  case False
  have q: "0 < q" using assms by linarith
  have le: "ilog p \<le> ilog q" using assms by (rule ilog_mono)
  with False have lt: "ilog p < ilog q" "ulp_exp q = ilog q - 52" "ulp_exp p \<le> ilog q"
    by (auto simp: ulp_exp_def)
  have "p < pow2 (ilog p + 1)" using assms(1) by (rule ilog_bounds(2))
  also have "\<dots> \<le> pow2 (ilog q)" using lt(1) by (intro pow2_mono) simp
  finally have "rnd_pos p \<le> of_int 1 * pow2 (ilog q)"
    using assms(1) lt(3) by (intro rnd_pos_le_scaled) auto
  also have "\<dots> \<le> rnd_pos q"
    using q ilog_bounds(1) [OF q] lt(2) by (intro rnd_pos_ge_scaled) auto
  finally show ?thesis .
qed

lemma rnd_val_mono: "p \<le> q \<Longrightarrow> rnd_val p \<le> rnd_val q"
  using rnd_pos_mono [of p q] rnd_pos_mono [of "- q" "- p"] rnd_pos_nonneg [of "- p"] rnd_pos_nonneg [of q]
  by (auto simp: rnd_val_def)

lemma rnd_val_0 [simp]: "rnd_val 0 = 0"
  by (simp add: rnd_val_def)

lemma rnd_val_minus [simp]: "rnd_val (- q) = - rnd_val q"
  by (simp add: rnd_val_def)

lemma rnd_val_nonneg: "0 \<le> q \<Longrightarrow> 0 \<le> rnd_val q"
  using rnd_val_mono [of 0 q] by simp

text \<open>Integers of at most 53 bits are represented exactly.\<close>

lemma rnd_val_of_int:
  assumes "\<bar>i\<bar> \<le> 2 ^ 53"
  shows "rnd_val (of_int i) = of_int i"
proof -
  have pos: "rnd_pos (of_int j) = of_int j" if j: "0 < j" "j \<le> 2 ^ 53" for j
  proof (cases "j = 2 ^ 53")
    case True
    have "ilog (of_int j) = 53"
      by (rule ilog_unique) (simp_all add: True pow2_def)
    then have u: "ulp_exp (of_int j) = 1" by (simp add: ulp_exp_def)
    have "(of_int j :: rat) / pow2 1 = of_int (2 ^ 52)"
      by (simp add: True pow2_def)
    then show ?thesis unfolding rnd_pos_def u by (simp only: rne_of_int) (simp add: True pow2_def)
  next
    case False
    with j have "(of_int j :: rat) < of_int (2 ^ 53)" by (subst of_int_less_iff) simp
    then have "(of_int j :: rat) < pow2 53" by (simp add: pow2_def)
    moreover have "pow2 (ilog (of_int j)) \<le> of_int j" using j by (intro ilog_bounds) simp
    ultimately have "pow2 (ilog (of_int j)) < pow2 53" by linarith
    then have "ulp_exp (of_int j) \<le> 0" by (auto dest: pow2_less_cancel simp: ulp_exp_def)
    with j show ?thesis
      using rnd_pos_le_scaled [of "of_int j" j 0] rnd_pos_ge_scaled [of "of_int j" j 0]
      by (simp add: pow2_def)
  qed
  show ?thesis
    using assms pos [of i] pos [of "- i"] by (auto simp: rnd_val_def)
qed

lemma rnd_val_numeral [simp]: "numeral n \<le> (2 ^ 53 :: int) \<Longrightarrow> rnd_val (numeral n) = numeral n"
  using rnd_val_of_int [of "numeral n"] by simp

lemma rnd_val_1 [simp]: "rnd_val 1 = 1"
  using rnd_val_of_int [of 1] by simp

section \<open>Values and arithmetic\<close>

datatype f64 = NaN | Inf bool | NegZero | Num rat

text \<open>\<open>Inf True\<close> is minus infinity; the bool is the sign bit throughout.\<close>

definition max_f64 :: rat where
  "max_f64 = (2 ^ 53 - 1) * 2 ^ 971"

fun fval :: "f64 \<Rightarrow> rat" where
  "fval (Num q) = q"
| "fval _ = 0"

fun fin :: "f64 \<Rightarrow> bool" where
  "fin (Num q) = True"
| "fin NegZero = True"
| "fin _ = False"

fun fsign :: "f64 \<Rightarrow> bool" where
  "fsign (Num q) = (q < 0)"
| "fsign NegZero = True"
| "fsign (Inf s) = s"
| "fsign NaN = False"

text \<open>Round an exact result; \<open>s\<close> is the sign of a zero result.\<close>

definition rnd :: "bool \<Rightarrow> rat \<Rightarrow> f64" where
  "rnd s q = (let r = rnd_val q in
     if r = 0 then (if s then NegZero else Num 0)
     else if \<bar>r\<bar> > max_f64 then Inf (r < 0)
     else Num r)"

fun fneg :: "f64 \<Rightarrow> f64" where
  "fneg NaN = NaN"
| "fneg (Inf s) = Inf (\<not> s)"
| "fneg NegZero = Num 0"
| "fneg (Num q) = (if q = 0 then NegZero else Num (- q))"

fun fadd :: "f64 \<Rightarrow> f64 \<Rightarrow> f64" where
  "fadd NaN y = NaN"
| "fadd x NaN = NaN"
| "fadd (Inf s) (Inf t) = (if s = t then Inf s else NaN)"
| "fadd (Inf s) y = Inf s"
| "fadd x (Inf t) = Inf t"
| "fadd NegZero NegZero = NegZero"
| "fadd x y = rnd (fval x + fval y < 0) (fval x + fval y)"

definition fsub :: "f64 \<Rightarrow> f64 \<Rightarrow> f64" where
  "fsub x y = fadd x (fneg y)"

definition fmul :: "f64 \<Rightarrow> f64 \<Rightarrow> f64" where
  "fmul x y =
     (if x = NaN \<or> y = NaN then NaN
      else let s = (fsign x \<noteq> fsign y) in
        if \<not> fin x \<or> \<not> fin y
        then (if (fin x \<and> fval x = 0) \<or> (fin y \<and> fval y = 0) then NaN else Inf s)
        else rnd s (fval x * fval y))"

definition fdiv :: "f64 \<Rightarrow> f64 \<Rightarrow> f64" where
  "fdiv x y =
     (if x = NaN \<or> y = NaN then NaN
      else let s = (fsign x \<noteq> fsign y) in
        if \<not> fin x then (if \<not> fin y then NaN else Inf s)
        else if \<not> fin y then (if s then NegZero else Num 0)
        else if fval y = 0 then (if fval x = 0 then NaN else Inf s)
        else rnd s (fval x / fval y))"

text \<open>The ordering predicates are false when an operand is NaN; the two zeros are equal.\<close>

fun flt :: "f64 \<Rightarrow> f64 \<Rightarrow> bool" where
  "flt NaN y = False"
| "flt x NaN = False"
| "flt (Inf s) (Inf t) = (s \<and> \<not> t)"
| "flt (Inf s) y = s"
| "flt x (Inf t) = (\<not> t)"
| "flt x y = (fval x < fval y)"

fun fle :: "f64 \<Rightarrow> f64 \<Rightarrow> bool" where
  "fle NaN y = False"
| "fle x NaN = False"
| "fle (Inf s) (Inf t) = (s \<or> \<not> t)"
| "fle (Inf s) y = s"
| "fle x (Inf t) = (\<not> t)"
| "fle x y = (fval x \<le> fval y)"

definition feq :: "f64 \<Rightarrow> f64 \<Rightarrow> bool" where
  "feq x y = (fle x y \<and> fle y x)"

definition is_zero :: "f64 \<Rightarrow> bool" where
  "is_zero x = (x = Num 0 \<or> x = NegZero)"

text \<open>The builtin \<open>max\<close> on floats, and \<open>math.Max\<close>, \<open>math.Min\<close>.\<close>

definition fmax :: "f64 \<Rightarrow> f64 \<Rightarrow> f64" where
  "fmax x y =
     (if x = NaN \<or> y = NaN then NaN
      else if is_zero x \<and> is_zero y then (if fsign x then y else x)
      else if flt y x then x else y)"

definition math_max :: "f64 \<Rightarrow> f64 \<Rightarrow> f64" where
  "math_max x y = (if x = Inf False \<or> y = Inf False then Inf False else fmax x y)"

definition math_min :: "f64 \<Rightarrow> f64 \<Rightarrow> f64" where
  "math_min x y =
     (if x = Inf True \<or> y = Inf True then Inf True
      else if x = NaN \<or> y = NaN then NaN
      else if is_zero x \<and> is_zero y then (if fsign x then x else y)
      else if flt x y then x else y)"

text \<open>\<open>math.Round\<close>: to the nearest integer, halves away from zero, keeping the sign of zero.\<close>

definition round_half_away :: "rat \<Rightarrow> int" where
  "round_half_away q = (if q < 0 then - \<lfloor>- q + 1 / 2\<rfloor> else \<lfloor>q + 1 / 2\<rfloor>)"

fun fround :: "f64 \<Rightarrow> f64" where
  "fround (Num q) =
     (let i = round_half_away q in
      if i = 0 \<and> q < 0 then NegZero else Num (of_int i))"
| "fround x = x"

section \<open>Conversions\<close>

definition of_uint64 :: "64 word \<Rightarrow> f64" where
  "of_uint64 w = rnd False (of_int (uint w))"

definition of_nat_f :: "nat \<Rightarrow> f64" where
  "of_nat_f n = rnd False (of_nat n)"

definition of_int_f :: "int \<Rightarrow> f64" where
  "of_int_f i = rnd False (of_int i)"

definition trunc :: "rat \<Rightarrow> int" where
  "trunc q = (if q < 0 then - \<lfloor>- q\<rfloor> else \<lfloor>q\<rfloor>)"

text \<open>
  \<open>uint64(f)\<close>: truncation where the value fits.  Out of range (NaN, infinities, at least
  \<open>2\<^sup>6\<^sup>4\<close>, below \<open>-2\<^sup>6\<^sup>3\<close>) amd64 yields 0 or the conversion instruction's indefinite value.
\<close>

definition to_uint64 :: "f64 \<Rightarrow> 64 word" where
  "to_uint64 x =
     (if x = NaN then 0
      else if \<not> fin x then (if x = Inf False then 0 else 2 ^ 63)
      else let t = trunc (fval x) in
        if t \<ge> 2 ^ 64 then 0 else if t < - (2 ^ 63) then 2 ^ 63 else word_of_int t)"

text \<open>\<open>uint8(f)\<close>: the low byte of the 32-bit truncation.\<close>

definition to_uint8 :: "f64 \<Rightarrow> 8 word" where
  "to_uint8 x =
     (if \<not> fin x then 0
      else let t = trunc (fval x) in
        if t \<ge> 2 ^ 31 \<or> t < - (2 ^ 31) then 0 else word_of_int t)"

section \<open>Facts about the operations\<close>

lemma fval_rnd: "\<bar>rnd_val q\<bar> \<le> max_f64 \<Longrightarrow> fval (rnd s q) = rnd_val q \<and> fin (rnd s q)"
  by (auto simp: rnd_def Let_def)

text \<open>A result between two integers of at most 53 bits stays between them and is finite.\<close>

lemma rnd_between:
  assumes "of_int a \<le> q" "q \<le> of_int b" "\<bar>a\<bar> \<le> 2 ^ 53" "\<bar>b\<bar> \<le> 2 ^ 53"
  shows "fin (rnd s q) \<and> of_int a \<le> fval (rnd s q) \<and> fval (rnd s q) \<le> of_int b"
proof -
  have r: "of_int a \<le> rnd_val q" "rnd_val q \<le> of_int b"
    using rnd_val_mono [OF assms(1)] rnd_val_mono [OF assms(2)] assms(3,4) by (simp_all add: rnd_val_of_int)
  have m: "(of_int (2 ^ 53) :: rat) \<le> max_f64" by (simp add: max_f64_def)
  have "(of_int \<bar>a\<bar> :: rat) \<le> of_int (2 ^ 53)" "(of_int \<bar>b\<bar> :: rat) \<le> of_int (2 ^ 53)"
    using assms(3,4) by (simp_all only: of_int_le_iff)
  then have "\<bar>of_int a :: rat\<bar> \<le> max_f64" "\<bar>of_int b :: rat\<bar> \<le> max_f64"
    using m by (simp_all del: of_int_power of_int_numeral)
  with r have "\<bar>rnd_val q\<bar> \<le> max_f64" by linarith
  with r show ?thesis using fval_rnd by metis
qed

lemma fin_cases: "fin x \<longleftrightarrow> x = NegZero \<or> (\<exists>q. x = Num q)"
  by (cases x) auto

lemma fle_fin: "fin x \<Longrightarrow> fin y \<Longrightarrow> fle x y \<longleftrightarrow> fval x \<le> fval y"
  by (cases x; cases y) auto

lemma flt_fin: "fin x \<Longrightarrow> fin y \<Longrightarrow> flt x y \<longleftrightarrow> fval x < fval y"
  by (cases x; cases y) auto

lemma fle_refl [simp]: "fle x x \<longleftrightarrow> x \<noteq> NaN"
  by (cases x) auto

lemma fle_trans: "fle x y \<Longrightarrow> fle y z \<Longrightarrow> fle x z"
  by (cases x; cases y; cases z) auto

lemma not_flt: "x \<noteq> NaN \<Longrightarrow> y \<noteq> NaN \<Longrightarrow> \<not> flt x y \<longleftrightarrow> fle y x"
  by (cases x; cases y) auto

lemma flt_imp_fle: "flt x y \<Longrightarrow> fle x y"
  by (cases x; cases y) auto

lemma is_zero_fval: "is_zero x \<Longrightarrow> fin x \<and> fval x = 0"
  by (auto simp: is_zero_def)

lemma fmax_ub:
  assumes "x \<noteq> NaN" "y \<noteq> NaN"
  shows "fle x (fmax x y)" "fle y (fmax x y)" "fmax x y \<noteq> NaN"
  using assms not_flt [of y x] flt_imp_fle [of y x]
  by (auto simp: fmax_def fle_fin dest!: is_zero_fval)

lemma fmax_NaN: "fmax x y = NaN \<longleftrightarrow> x = NaN \<or> y = NaN"
  by (auto simp: fmax_def)

lemma fmax_choice: "x \<noteq> NaN \<Longrightarrow> y \<noteq> NaN \<Longrightarrow> fmax x y = x \<or> fmax x y = y"
  by (auto simp: fmax_def)

lemma fmax_mono: "fle a b \<Longrightarrow> c \<noteq> NaN \<Longrightarrow> fle a (fmax b c) \<and> fle a (fmax c b)"
proof -
  assume a: "fle a b" "c \<noteq> NaN"
  then have "b \<noteq> NaN" by (cases a; cases b) auto
  with a show ?thesis using fmax_ub [of b c] fmax_ub [of c b] by (auto intro: fle_trans)
qed

lemma fround_fin [simp]: "fin (fround x) = fin x"
  by (cases x) (auto simp: Let_def)

lemma floor_half [simp]: "\<lfloor>1 / 2 :: rat\<rfloor> = 0"
  by (rule floor_unique) simp_all

lemma round_half_away_0 [simp]: "round_half_away 0 = 0"
  by (simp add: round_half_away_def)

lemma fround_fval: "fin x \<Longrightarrow> fval (fround x) = of_int (round_half_away (fval x))"
  by (cases x) (auto simp: Let_def round_half_away_def)

lemma round_half_away_mono: "p \<le> q \<Longrightarrow> round_half_away p \<le> round_half_away q"
proof -
  assume a: "p \<le> q"
  consider "q < 0" | "p < 0" "0 \<le> q" | "0 \<le> p" by linarith
  then show ?thesis
  proof cases
    case 1
    then have "\<lfloor>- q + 1 / 2\<rfloor> \<le> \<lfloor>- p + 1 / 2\<rfloor>" using a by (intro floor_mono) simp
    then show ?thesis using 1 a by (simp add: round_half_away_def)
  next
    case 2
    then have "0 \<le> \<lfloor>- p + 1 / 2\<rfloor>" "0 \<le> \<lfloor>q + 1 / 2\<rfloor>" by simp_all
    then have "- \<lfloor>- p + 1 / 2\<rfloor> \<le> \<lfloor>q + 1 / 2\<rfloor>" by linarith
    then show ?thesis using 2 by (simp only: round_half_away_def) simp
  next
    case 3
    then have "\<lfloor>p + 1 / 2\<rfloor> \<le> \<lfloor>q + 1 / 2\<rfloor>" using a by (intro floor_mono) simp
    then show ?thesis using 3 a by (simp add: round_half_away_def)
  qed
qed

lemma round_half_away_of_int [simp]: "round_half_away (of_int i) = i"
proof -
  have "\<lfloor>of_int j + 1 / 2 :: rat\<rfloor> = j" for j
    by (rule floor_unique) simp_all
  from this [of i] this [of "- i"] show ?thesis by (auto simp: round_half_away_def)
qed

lemma fmul_fin: "fin x \<Longrightarrow> fin y \<Longrightarrow> fmul x y = rnd (fsign x \<noteq> fsign y) (fval x * fval y)"
  by (cases x; cases y) (simp_all add: fmul_def)

lemma fdiv_fin:
  "fin x \<Longrightarrow> fin y \<Longrightarrow> fval y \<noteq> 0 \<Longrightarrow> fdiv x y = rnd (fsign x \<noteq> fsign y) (fval x / fval y)"
  by (cases x; cases y) (simp_all add: fdiv_def)

lemma fadd_fin: "fin x \<Longrightarrow> fin y \<Longrightarrow> \<bar>rnd_val (fval x + fval y)\<bar> \<le> max_f64
    \<Longrightarrow> fin (fadd x y) \<and> fval (fadd x y) = rnd_val (fval x + fval y)"
  by (cases x; cases y) (auto simp: fval_rnd)

lemma fsub_fin: "fin x \<Longrightarrow> fin y \<Longrightarrow> \<bar>rnd_val (fval x - fval y)\<bar> \<le> max_f64
    \<Longrightarrow> fin (fsub x y) \<and> fval (fsub x y) = rnd_val (fval x - fval y)"
proof -
  assume a: "fin x" "fin y" "\<bar>rnd_val (fval x - fval y)\<bar> \<le> max_f64"
  have "fin (fneg y)" "fval (fneg y) = - fval y"
    using a(2) by (cases y; simp)+
  with a show ?thesis using fadd_fin [of x "fneg y"] by (simp add: fsub_def)
qed

section \<open>internal/utils/utils.go\<close>

definition two_decimals :: "f64 \<Rightarrow> f64" where
  "two_decimals value = fdiv (fround (fmul value (Num 100))) (Num 100)"

definition bytes_to_megabytes :: "f64 \<Rightarrow> f64" where
  "bytes_to_megabytes b = two_decimals (fdiv b (Num 1048576))"

definition bytes_to_gigabytes :: "64 word \<Rightarrow> f64" where
  "bytes_to_gigabytes b = two_decimals (fdiv (of_uint64 b) (Num 1073741824))"

text \<open>\<open>ReadStringFileOK\<close> and \<open>ReadUintFile\<close>; the file's content is \<open>None\<close> when reading fails.\<close>

definition read_string_file_ok :: "string option \<Rightarrow> string \<times> bool" where
  "read_string_file_ok file = (case file of None \<Rightarrow> ([], False) | Some b \<Rightarrow> (trim_space b, True))"

definition read_string_file :: "string option \<Rightarrow> string" where
  "read_string_file file = fst (read_string_file_ok file)"

definition read_uint_file :: "string option \<Rightarrow> 64 word \<times> bool" where
  "read_uint_file file =
     (let (raw, ok) = read_string_file_ok file in
      if \<not> ok then (0, False)
      else case parse_uint 64 raw of None \<Rightarrow> (0, False) | Some n \<Rightarrow> (of_nat n, True))"

text \<open>
  Rounding to two decimals keeps a value inside every integer interval it was in, as long as the
  scaled ends still have at most 53 bits.
\<close>

lemma two_decimals_range:
  assumes x: "fin x" "of_int a \<le> fval x" "fval x \<le> of_int b"
    and ab: "\<bar>100 * a\<bar> \<le> 2 ^ 53" "\<bar>100 * b\<bar> \<le> 2 ^ 53"
  shows "fin (two_decimals x) \<and> of_int a \<le> fval (two_decimals x) \<and> fval (two_decimals x) \<le> of_int b"
proof -
  let ?m = "fmul x (Num 100)"
  have m: "fin ?m \<and> of_int (100 * a) \<le> fval ?m \<and> fval ?m \<le> of_int (100 * b)"
    unfolding fmul_fin [OF x(1), of "Num 100", simplified]
    using x(2,3) by (intro rnd_between ab) simp_all
  then have "round_half_away (of_int (100 * a)) \<le> round_half_away (fval ?m)"
    "round_half_away (fval ?m) \<le> round_half_away (of_int (100 * b))"
    by (blast intro: round_half_away_mono)+
  then have r: "100 * a \<le> round_half_away (fval ?m)" "round_half_away (fval ?m) \<le> 100 * b"
    by (simp_all only: round_half_away_of_int)
  let ?r = "fround ?m"
  have fr: "fin ?r" "fval ?r = of_int (round_half_away (fval ?m))"
    using m fround_fval by auto
  have le: "of_int a \<le> fval ?r / 100" "fval ?r / 100 \<le> of_int b"
  proof -
    have "of_int (100 * a) \<le> (of_int (round_half_away (fval ?m)) :: rat)"
      "(of_int (round_half_away (fval ?m)) :: rat) \<le> of_int (100 * b)"
      using r by (simp_all only: of_int_le_iff)
    then show "of_int a \<le> fval ?r / 100" "fval ?r / 100 \<le> of_int b"
      using fr(2) by simp_all
  qed
  show ?thesis
    unfolding two_decimals_def fdiv_fin [OF fr(1), of "Num 100", simplified]
    using le ab by (intro rnd_between) simp_all
qed

lemma two_decimals_NaN [simp]: "two_decimals NaN = NaN"
  by (simp add: two_decimals_def fmul_def fdiv_def)

lemma two_decimals_zero [simp]: "two_decimals (Num 0) = Num 0"
  by (simp add: two_decimals_def fmul_def fdiv_def rnd_def)

end
