(* ===== verification/Golib.thy ===== *)
theory Golib
  imports Float64
begin

text \<open>
  The parts of Go's standard library that the configuration relies on: \<open>time.ParseDuration\<close>,
  \<open>net.SplitHostPort\<close>, \<open>net.JoinHostPort\<close>, \<open>net.ParseIP\<close> with \<open>IsLoopback\<close>, and
  \<open>strings.Trim\<close> with a cut set.  Durations are \<open>int64\<close> nanoseconds, as integers.
\<close>

section \<open>Durations\<close>

definition nanosecond :: int where "nanosecond = 1"
definition millisecond :: int where "millisecond = 1000000"
definition second :: int where "second = 1000000000"
definition minute :: int where "minute = 60 * second"
definition hour :: int where "hour = 60 * minute"

text \<open>\<open>d.Milliseconds()\<close> truncates towards zero.\<close>

definition milliseconds :: "int \<Rightarrow> int" where
  "milliseconds d = quot d millisecond"

definition is_digit :: "char \<Rightarrow> bool" where
  "is_digit c = (digit_value c \<noteq> None)"

text \<open>\<open>leadingInt\<close>: the digits in front, or an overflow beyond \<open>2\<^sup>6\<^sup>3\<close>.\<close>

fun leading_int :: "int \<Rightarrow> string \<Rightarrow> (int \<times> string) option" where
  "leading_int x [] = Some (x, [])"
| "leading_int x (c # cs) = (case digit_value c of
     None \<Rightarrow> Some (x, c # cs)
   | Some d \<Rightarrow>
       if 2 ^ 63 div 10 < x then None
       else let y = x * 10 + int d in if 2 ^ 63 < y then None else leading_int y cs)"

text \<open>\<open>leadingFraction\<close>: digits beyond the precision are skipped; the scale is a float.\<close>

fun leading_fraction :: "int \<Rightarrow> f64 \<Rightarrow> bool \<Rightarrow> string \<Rightarrow> int \<times> f64 \<times> string" where
  "leading_fraction x scale overflow [] = (x, scale, [])"
| "leading_fraction x scale overflow (c # cs) = (case digit_value c of
     None \<Rightarrow> (x, scale, c # cs)
   | Some d \<Rightarrow>
       if overflow then leading_fraction x scale True cs
       else if (2 ^ 63 - 1) div 10 < x then leading_fraction x scale True cs
       else let y = x * 10 + int d in
         if 2 ^ 63 < y then leading_fraction x scale True cs
         else leading_fraction y (fmul scale (Num 10)) False cs)"

definition unit_map :: "(string \<times> int) list" where
  "unit_map = [(''ns'', 1), (''us'', 1000), ([CHR 0xC2, CHR 0xB5, CHR ''s''], 1000),
     ([CHR 0xCE, CHR 0xBC, CHR ''s''], 1000), (''ms'', 1000000), (''s'', 1000000000),
     (''m'', 60000000000), (''h'', 3600000000000)]"

definition unit_char :: "char \<Rightarrow> bool" where
  "unit_char c = (c \<noteq> CHR ''.'' \<and> \<not> is_digit c)"

text \<open>One number with its unit: the amount added, and the rest.\<close>

definition duration_part :: "string \<Rightarrow> (int \<times> string) option" where
  "duration_part s =
     (if s = [] \<or> \<not> (hd s = CHR ''.'' \<or> is_digit (hd s)) then None
      else case leading_int 0 s of
        None \<Rightarrow> None
      | Some (v, s1) \<Rightarrow>
          let pre = (length s \<noteq> length s1);
              (f, scale, s2, post) = (if s1 \<noteq> [] \<and> hd s1 = CHR ''.''
                then (let (f, scale, s2) = leading_fraction 0 (Num 1) False (tl s1)
                      in (f, scale, s2, length (tl s1) \<noteq> length s2))
                else (0, Num 1, s1, False));
              u = takeWhile unit_char s2; s3 = dropWhile unit_char s2
          in if \<not> pre \<and> \<not> post then None
             else if u = [] then None
             else case map_of unit_map u of
               None \<Rightarrow> None
             | Some w \<Rightarrow>
                 if 2 ^ 63 div w < v then None
                 else let v1 = v * w;
                          v2 = (if 0 < f
                            then v1 + uint (to_uint64 (fmul (of_uint64 (word_of_int f)) (fdiv (of_uint64 (word_of_int w)) scale)))
                            else v1)
                      in if 2 ^ 63 < v2 then None else Some (v2, s3))"

fun duration_parts :: "nat \<Rightarrow> int \<Rightarrow> string \<Rightarrow> int option" where
  "duration_parts 0 d s = (if s = [] then Some d else None)"
| "duration_parts (Suc fuel) d s =
     (if s = [] then Some d
      else case duration_part s of
        None \<Rightarrow> None
      | Some (v, rest) \<Rightarrow> if 2 ^ 63 < d + v then None else duration_parts fuel (d + v) rest)"

text \<open>Every part consumes at least one byte, so the length of the text is fuel enough.\<close>

definition parse_duration :: "string \<Rightarrow> int option" where
  "parse_duration s0 =
     (let signed = (s0 \<noteq> [] \<and> (hd s0 = CHR ''-'' \<or> hd s0 = CHR ''+''));
          neg = (s0 \<noteq> [] \<and> hd s0 = CHR ''-'');
          s = (if signed then tl s0 else s0)
      in if s = ''0'' then Some 0
         else if s = [] then None
         else case duration_parts (length s) 0 s of
           None \<Rightarrow> None
         | Some d \<Rightarrow> if neg then Some (- d) else if d \<le> 2 ^ 63 - 1 then Some d else None)"

text \<open>\<open>Duration.String\<close>: the fraction without trailing zeros, and units from hours down to seconds.\<close>

definition frac_string :: "nat \<Rightarrow> int \<Rightarrow> string" where
  "frac_string prec v =
     (let ds = format_int v;
          padded = replicate (prec - length ds) (CHR ''0'') @ ds;
          trimmed = rev (dropWhile (\<lambda>c. c = CHR ''0'') (rev padded))
      in if trimmed = [] then [] else CHR ''.'' # trimmed)"

definition duration_string :: "int \<Rightarrow> string" where
  "duration_string d =
     (let u = \<bar>d\<bar>; secs = u div second; mins = secs div 60; hours = mins div 60;
          body = (if u < 1000 then format_int u @ ''ns''
            else if u < millisecond then format_int (u div 1000) @ frac_string 3 (u mod 1000) @ [CHR 0xC2, CHR 0xB5, CHR ''s'']
            else if u < second then format_int (u div millisecond) @ frac_string 6 (u mod millisecond) @ ''ms''
            else (if 0 < hours then format_int hours @ ''h'' else [])
              @ (if 0 < mins then format_int (mins mod 60) @ ''m'' else [])
              @ format_int (secs mod 60) @ frac_string 9 (u mod second) @ ''s'')
      in if d = 0 then ''0s'' else if d < 0 then CHR ''-'' # body else body)"

section \<open>Hosts and ports\<close>

definition trim_set :: "char list \<Rightarrow> string \<Rightarrow> string" where
  "trim_set cutset s = rev (dropWhile (\<lambda>c. c \<in> set cutset) (rev (dropWhile (\<lambda>c. c \<in> set cutset) s)))"

fun index_of :: "char \<Rightarrow> string \<Rightarrow> nat option" where
  "index_of c [] = None"
| "index_of c (x # xs) = (if x = c then Some 0 else map_option Suc (index_of c xs))"

definition last_index_of :: "char \<Rightarrow> string \<Rightarrow> nat option" where
  "last_index_of c s = map_option (\<lambda>i. length s - 1 - i) (index_of c (rev s))"

definition split_host_port :: "string \<Rightarrow> (string \<times> string) option" where
  "split_host_port hostport = (case last_index_of (CHR '':'') hostport of
     None \<Rightarrow> None
   | Some i \<Rightarrow>
       let r = (if hd hostport = CHR ''['' then
             (case index_of (CHR '']'') hostport of
                None \<Rightarrow> None
              | Some e \<Rightarrow> if e + 1 = i then Some (drop 1 (take e hostport), 1, e + 1) else None)
           else (let host = take i hostport in
             if CHR '':'' \<in> set host then None else Some (host, 0, 0)))
       in case r of
         None \<Rightarrow> None
       | Some (host, j, k) \<Rightarrow>
           if CHR ''['' \<in> set (drop j hostport) \<or> CHR '']'' \<in> set (drop k hostport) then None
           else Some (host, drop (i + 1) hostport))"

definition join_host_port :: "string \<Rightarrow> string \<Rightarrow> string" where
  "join_host_port host port =
     (if CHR '':'' \<in> set host then ''['' @ host @ '']:'' @ port else host @ '':'' @ port)"

section \<open>IP addresses\<close>

fun ipv4_field :: "nat \<Rightarrow> nat \<Rightarrow> string \<Rightarrow> nat option" where
  "ipv4_field val digits [] = (if digits = 0 then None else Some val)"
| "ipv4_field val digits (c # cs) = (case digit_value c of
     None \<Rightarrow> None
   | Some d \<Rightarrow>
       if digits = 1 \<and> val = 0 then None
       else let v = val * 10 + d in if 255 < v then None else ipv4_field v (digits + 1) cs)"

definition parse_ipv4 :: "string \<Rightarrow> nat list option" where
  "parse_ipv4 s = (let parts = map (ipv4_field 0 0) (split_on (CHR ''.'') s) in
     if length parts = 4 \<and> None \<notin> set parts then Some (map the parts) else None)"

definition hex_value :: "char \<Rightarrow> nat option" where
  "hex_value c = (let n = of_char c :: nat in
     if 48 \<le> n \<and> n \<le> 57 then Some (n - 48)
     else if 97 \<le> n \<and> n \<le> 102 then Some (n - 87)
     else if 65 \<le> n \<and> n \<le> 70 then Some (n - 55)
     else None)"

text \<open>Up to four hexadecimal digits; five are an error, which \<open>None\<close> stands for.\<close>

fun hex_group :: "nat \<Rightarrow> nat \<Rightarrow> string \<Rightarrow> (nat \<times> nat \<times> string) option" where
  "hex_group acc off [] = Some (acc, off, [])"
| "hex_group acc off (c # cs) = (case hex_value c of
     None \<Rightarrow> Some (acc, off, c # cs)
   | Some d \<Rightarrow> if 3 < off then None else hex_group (acc * 16 + d) (off + 1) cs)"

text \<open>
  The loop of \<open>parseIPv6\<close> over the bytes written so far; each round adds two, so eight rounds
  fill the sixteen.  The result is the bytes, the place of the ellipsis and what is left.
\<close>

fun ipv6_groups :: "nat \<Rightarrow> nat list \<Rightarrow> nat option \<Rightarrow> string \<Rightarrow> (nat list \<times> nat option \<times> string) option" where
  "ipv6_groups 0 ip ell s = Some (ip, ell, s)"
| "ipv6_groups (Suc fuel) ip ell s = (case hex_group 0 0 s of
     None \<Rightarrow> None
   | Some (acc, off, rest) \<Rightarrow>
       if off = 0 then None
       else if rest \<noteq> [] \<and> hd rest = CHR ''.'' then
         (if (ell = None \<and> length ip \<noteq> 12) \<or> 16 < length ip + 4 then None
          else map_option (\<lambda>v4. (ip @ v4, ell, [])) (parse_ipv4 s))
       else
         let ip' = ip @ [acc div 256, acc mod 256] in
         if rest = [] then Some (ip', ell, [])
         else if hd rest \<noteq> CHR '':'' \<or> length rest = 1 then None
         else
           let s1 = tl rest in
           if hd s1 = CHR '':'' then
             (if ell \<noteq> None then None
              else let s2 = tl s1 in
                if s2 = [] then Some (ip', Some (length ip'), [])
                else ipv6_groups fuel ip' (Some (length ip')) s2)
           else ipv6_groups fuel ip' ell s1)"

definition parse_ipv6 :: "string \<Rightarrow> nat list option" where
  "parse_ipv6 s =
     (let lead = (take 2 s = ''::'');
          ell0 = (if lead then Some 0 else None);
          s0 = (if lead then drop 2 s else s)
      in if lead \<and> s0 = [] then Some (replicate 16 0)
         else case ipv6_groups 8 [] ell0 s0 of
           None \<Rightarrow> None
         | Some (ip, ell, rest) \<Rightarrow>
             if rest \<noteq> [] then None
             else if length ip < 16 then (case ell of
                 None \<Rightarrow> None
               | Some e \<Rightarrow> Some (take e ip @ replicate (16 - length ip) 0 @ drop e ip))
             else if ell \<noteq> None then None
             else Some ip)"

text \<open>\<open>net.ParseIP\<close>: the first of a dot, a colon or a percent sign decides; zones are refused.\<close>

definition parse_ip :: "string \<Rightarrow> nat list option" where
  "parse_ip s = (case dropWhile (\<lambda>c. c \<notin> {CHR ''.'', CHR '':'', CHR ''%''}) s of
     [] \<Rightarrow> None
   | c # _ \<Rightarrow>
       if c = CHR ''.'' then parse_ipv4 s
       else if c = CHR '':'' then (if CHR ''%'' \<in> set s then None else parse_ipv6 s)
       else None)"

definition is_loopback :: "nat list \<Rightarrow> bool" where
  "is_loopback ip =
     (if length ip = 4 then ip ! 0 = 127
      else if take 12 ip = replicate 10 0 @ [255, 255] then ip ! 12 = 127
      else ip = replicate 15 0 @ [1])"

end
