(* ===== verification/Health.thy ===== *)
theory Health
  imports Golib
begin

text \<open>
  \<open>internal/health/health.go\<close>: the health file, whose modification time is the time of the last
  persisted collection.  Of the file system the model keeps the modification times; which calls of
  the operating system fail is an argument.  The path of the file is a global variable of the
  package and therefore part of the state.
\<close>

section \<open>State\<close>

record health =
  hl_files :: "string \<rightharpoonup> int"
  hl_path :: string

text \<open>What the calls on a path answer: \<open>OpenFile\<close>, \<open>Close\<close>, \<open>Chmod\<close>, \<open>Chtimes\<close>.\<close>

record file_answers =
  fa_open :: "go_error option"
  fa_close :: "go_error option"
  fa_chmod :: "go_error option"
  fa_chtimes :: "go_error option"

record status =
  hs_last_updated :: int
  hs_healthy :: bool
  hs_age :: int

definition unhealthy_after :: int where
  "unhealthy_after = 91 * second"

section \<open>Operations\<close>

definition health_file_path :: "(string \<Rightarrow> bool) \<Rightarrow> string \<Rightarrow> string \<Rightarrow> string" where
  "health_file_path is_directory preferred_dir fallback_dir =
     (if is_directory preferred_dir then preferred_dir else fallback_dir) @ ''/go_monitoring_health''"

text \<open>Opening truncates the file, which also sets its time; the clock is read once.\<close>

definition update_health_file ::
  "file_answers \<Rightarrow> int \<Rightarrow> string \<Rightarrow> (string \<rightharpoonup> int) \<Rightarrow> go_error option \<times> (string \<rightharpoonup> int)" where
  "update_health_file fa now path fs = (case fa_open fa of
     Some e \<Rightarrow> (Some e, fs)
   | None \<Rightarrow>
       let fs' = fs(path \<mapsto> now) in
       (case fa_close fa of
          Some e \<Rightarrow> (Some e, fs')
        | None \<Rightarrow> (case fa_chmod fa of
            Some e \<Rightarrow> if err_is ErrPermission e then (fa_chtimes fa, fs') else (Some e, fs')
          | None \<Rightarrow> (fa_chtimes fa, fs'))))"

text \<open>\<open>permissionFallbackHealthFilePath\<close> is the argument \<open>fallback\<close>.\<close>

definition health_update ::
  "(string \<Rightarrow> file_answers) \<Rightarrow> int \<Rightarrow> string \<Rightarrow> health \<Rightarrow> unit res \<times> health" where
  "health_update answers now fallback h =
     (case update_health_file (answers (hl_path h)) now (hl_path h) (hl_files h) of
        (None, fs) \<Rightarrow> (Inr (), h\<lparr>hl_files := fs\<rparr>)
      | (Some err, fs) \<Rightarrow>
          if \<not> err_is ErrPermission err then (Inl err, h\<lparr>hl_files := fs\<rparr>)
          else if fallback = hl_path h then (Inl err, h\<lparr>hl_files := fs\<rparr>)
          else (case update_health_file (answers fallback) now fallback fs of
              (Some fallback_err, fs') \<Rightarrow> (Inl (ErrJoin err fallback_err), h\<lparr>hl_files := fs'\<rparr>)
            | (None, fs') \<Rightarrow> (Inr (), \<lparr>hl_files = fs', hl_path = fallback\<rparr>)))"

definition get_status :: "int \<Rightarrow> health \<Rightarrow> status res" where
  "get_status now h = (case hl_files h (hl_path h) of
     None \<Rightarrow> Inl ErrNotExist
   | Some mod_time \<Rightarrow> let age = now - mod_time in
       Inr \<lparr>hs_last_updated = mod_time, hs_healthy = (age \<le> unhealthy_after), hs_age = age\<rparr>)"

definition health_check :: "int \<Rightarrow> health \<Rightarrow> unit res" where
  "health_check now h = attempt (get_status now h) (\<lambda>st.
     if \<not> hs_healthy st then Inl (ErrText ''unhealthy: over 90 seconds since last successful persist'') else Inr ())"

definition health_clean_up :: "go_error option \<Rightarrow> health \<Rightarrow> unit res \<times> health" where
  "health_clean_up remove_err h = (case remove_err of
     Some e \<Rightarrow> (Inl e, h)
   | None \<Rightarrow> if hl_files h (hl_path h) = None then (Inl ErrNotExist, h)
       else (Inr (), h\<lparr>hl_files := (hl_files h)(hl_path h := None)\<rparr>))"

section \<open>Facts\<close>

lemma update_health_file_None:
  "update_health_file fa now path fs = (None, fs') \<Longrightarrow> fs' = fs(path \<mapsto> now)"
  by (auto simp: update_health_file_def Let_def split: option.splits if_splits)

lemma health_update_ok:
  "health_update answers now fallback h = (Inr u, h') \<Longrightarrow> hl_files h' (hl_path h') = Some now"
  by (auto simp: health_update_def split: prod.splits option.splits if_splits dest!: update_health_file_None)

text \<open>A failed update leaves the path and touches only the two files.\<close>

lemma health_update_path:
  "health_update answers now fallback h = (Inl e, h') \<Longrightarrow> hl_path h' = hl_path h"
  by (auto simp: health_update_def split: prod.splits option.splits if_splits)

section \<open>Properties\<close>

text \<open>
  After an update that returns no error, at whichever of the two paths it succeeded, the agent is
  reported healthy for exactly 91 seconds, and the check fails from then on.
\<close>

theorem health_reported_for_91s:
  assumes "health_update answers now fallback h = (Inr (), h')"
  shows "(health_check later h' = Inr ()) = (later - now \<le> 91 * second)
    \<and> get_status later h' = Inr \<lparr>hs_last_updated = now, hs_healthy = (later - now \<le> 91 * second), hs_age = later - now\<rparr>"
  using health_update_ok [OF assms] by (simp add: health_check_def get_status_def Let_def unhealthy_after_def)

definition permission_denied :: file_answers where
  "permission_denied = \<lparr>fa_open = Some ErrPermission, fa_close = None, fa_chmod = None, fa_chtimes = None\<rparr>"

definition all_ok :: file_answers where
  "all_ok = \<lparr>fa_open = None, fa_close = None, fa_chmod = Some ErrPermission, fa_chtimes = None\<rparr>"

theorem health_reported_for_91s_witness:
  "health_check (100 * second) (snd (health_update ((\<lambda>_. all_ok)(''/dev/shm/h'' := permission_denied)) (9 * second) ''/tmp/h''
     \<lparr>hl_files = Map.empty, hl_path = ''/dev/shm/h''\<rparr>)) = Inr ()"
proof -
  have u: "health_update ((\<lambda>_. all_ok)(''/dev/shm/h'' := permission_denied)) (9 * second) ''/tmp/h''
     \<lparr>hl_files = Map.empty, hl_path = ''/dev/shm/h''\<rparr> = (Inr (), \<lparr>hl_files = [''/tmp/h'' \<mapsto> 9 * second], hl_path = ''/tmp/h''\<rparr>)"
    by (simp add: health_update_def update_health_file_def permission_denied_def all_ok_def)
  show ?thesis
    unfolding u using health_reported_for_91s [OF u, of "100 * second"] by (simp add: second_def)
qed

end
