(* ===== verification/Json.thy ===== *)
theory Json
  imports Float64
begin

text \<open>
  What the code uses of \<open>encoding/json\<close>.  A JSON document is its tree; a text column of the
  database holds either a document or text that does not parse (\<open>JBad\<close>).  A number is an integer
  literal (\<open>JInt\<close>) or any other literal, which stands for the float it parses to (\<open>JFlt\<close>): Go
  writes the shortest literal that reads back as the same float, so writing and reading a
  finite float is the identity, and an integral float below \<open>2\<^sup>5\<^sup>3\<close> is written as an
  integer literal.

  Encoders are total functions to trees; \<open>marshal\<close> fails when the tree holds a NaN or an
  infinity, which JSON cannot express.  Decoders read a struct by its (lower-case) field tags:
  keys are matched without regard to case, the last of several matching keys wins, an absent key
  or \<open>null\<close> leaves the zero value, unknown keys are skipped.
\<close>

datatype json =
    JNull
  | JBool bool
  | JInt int
  | JFlt f64
  | JStr string
  | JArr "json list"
  | JObj "(string \<times> json) list"

datatype jtext = JText json | JBad string

fun jfinite :: "json \<Rightarrow> bool" where
  "jfinite (JFlt x) = fin x"
| "jfinite (JArr xs) = (\<forall>x \<in> set xs. jfinite x)"
| "jfinite (JObj fs) = (\<forall>f \<in> set fs. jfinite (snd f))"
| "jfinite _ = True"

definition marshal :: "json \<Rightarrow> jtext res" where
  "marshal j = (if jfinite j then Inr (JText j) else Inl ErrJson)"

definition unmarshal :: "(json \<Rightarrow> 'a res) \<Rightarrow> jtext \<Rightarrow> 'a res" where
  "unmarshal dec t = (case t of JBad _ \<Rightarrow> Inl ErrJson | JText j \<Rightarrow> dec j)"

lemma unmarshal_simps [simp]:
  "unmarshal dec (JText j) = dec j" "unmarshal dec (JBad s) = Inl ErrJson"
  by (simp_all add: unmarshal_def)

section \<open>Encoders\<close>

definition enc_f64 :: "f64 \<Rightarrow> json" where
  "enc_f64 x = (case x of
      Num q \<Rightarrow> if q = of_int \<lfloor>q\<rfloor> \<and> \<bar>\<lfloor>q\<rfloor>\<bar> < 2 ^ 53 then JInt \<lfloor>q\<rfloor> else JFlt x
    | _ \<Rightarrow> JFlt x)"

definition enc_word :: "'n::len word \<Rightarrow> json" where
  "enc_word w = JInt (uint w)"

definition enc_pair :: "('a \<Rightarrow> json) \<Rightarrow> 'a \<times> 'a \<Rightarrow> json" where
  "enc_pair e p = JArr [e (fst p), e (snd p)]"

definition enc_arr :: "('a \<Rightarrow> json) \<Rightarrow> 'a list \<Rightarrow> json" where
  "enc_arr e xs = JArr (map e xs)"

definition enc_map :: "('v \<Rightarrow> json) \<Rightarrow> (string, 'v) gmap \<Rightarrow> json" where
  "enc_map e m = JObj (map (\<lambda>(k, v). (k, e v)) m)"

text \<open>A nil slice or map is \<open>null\<close>.\<close>

definition enc_opt :: "('a \<Rightarrow> json) \<Rightarrow> 'a option \<Rightarrow> json" where
  "enc_opt e x = (case x of None \<Rightarrow> JNull | Some a \<Rightarrow> e a)"

text \<open>Struct fields: always written, or written unless empty (\<open>omitempty\<close>, \<open>omitzero\<close>).\<close>

definition jf :: "string \<Rightarrow> json \<Rightarrow> (string \<times> json) list" where
  "jf k v = [(k, v)]"

definition jopt :: "bool \<Rightarrow> string \<Rightarrow> json \<Rightarrow> (string \<times> json) list" where
  "jopt c k v = (if c then [(k, v)] else [])"

definition empty_opt :: "'a list option \<Rightarrow> bool" where
  "empty_opt x = (case x of None \<Rightarrow> True | Some xs \<Rightarrow> xs = [])"

section \<open>Decoders\<close>

definition dec_f64 :: "json \<Rightarrow> f64 res" where
  "dec_f64 j = (case j of
      JInt n \<Rightarrow> (let x = rnd False (of_int n) in if fin x then Inr x else Inl ErrJson)
    | JFlt x \<Rightarrow> Inr x
    | JNull \<Rightarrow> Inr (Num 0)
    | _ \<Rightarrow> Inl ErrJson)"

definition dec_word :: "json \<Rightarrow> 'n::len word res" where
  "dec_word j = (case j of
      JInt n \<Rightarrow> if 0 \<le> n \<and> n < 2 ^ LENGTH('n) then Inr (word_of_int n) else Inl ErrJson
    | JNull \<Rightarrow> Inr 0
    | _ \<Rightarrow> Inl ErrJson)"

text \<open>\<open>int\<close>, \<open>int64\<close> (and, with its width, \<open>int32\<close>).\<close>

definition dec_int :: "nat \<Rightarrow> json \<Rightarrow> int res" where
  "dec_int w j = (case j of
      JInt n \<Rightarrow> if - (2 ^ (w - 1)) \<le> n \<and> n < 2 ^ (w - 1) then Inr n else Inl ErrJson
    | JNull \<Rightarrow> Inr 0
    | _ \<Rightarrow> Inl ErrJson)"

definition dec_str :: "json \<Rightarrow> string res" where
  "dec_str j = (case j of JStr s \<Rightarrow> Inr s | JNull \<Rightarrow> Inr [] | _ \<Rightarrow> Inl ErrJson)"

definition dec_bool :: "json \<Rightarrow> bool res" where
  "dec_bool j = (case j of JBool b \<Rightarrow> Inr b | JNull \<Rightarrow> Inr False | _ \<Rightarrow> Inl ErrJson)"

text \<open>Slices and maps: \<open>null\<close> is nil.\<close>

definition dec_slice :: "(json \<Rightarrow> 'a res) \<Rightarrow> json \<Rightarrow> 'a list option res" where
  "dec_slice dec j = (case j of
      JNull \<Rightarrow> Inr None
    | JArr xs \<Rightarrow> attempt (map_res dec xs) (\<lambda>ys. Inr (Some ys))
    | _ \<Rightarrow> Inl ErrJson)"

definition dec_map :: "(json \<Rightarrow> 'v res) \<Rightarrow> json \<Rightarrow> (string, 'v) gmap option res" where
  "dec_map dec j = (case j of
      JNull \<Rightarrow> Inr None
    | JObj fs \<Rightarrow>
        attempt (fold_res (\<lambda>m f. attempt (dec (snd f)) (\<lambda>v. Inr (mput (fst f) v m))) [] fs)
          (\<lambda>m. Inr (Some m))
    | _ \<Rightarrow> Inl ErrJson)"

text \<open>A slice whose nil and empty values are not told apart, and a pointer.\<close>

definition dec_list :: "(json \<Rightarrow> 'a res) \<Rightarrow> json \<Rightarrow> 'a list res" where
  "dec_list dec j = attempt (dec_slice dec j) (\<lambda>r. Inr (case r of None \<Rightarrow> [] | Some xs \<Rightarrow> xs))"

definition dec_ptr :: "(json \<Rightarrow> 'a res) \<Rightarrow> json \<Rightarrow> 'a option res" where
  "dec_ptr dec j = (case j of JNull \<Rightarrow> Inr None | _ \<Rightarrow> attempt (dec j) (\<lambda>x. Inr (Some x)))"

text \<open>Fixed arrays: missing elements are zero, surplus ones are dropped.\<close>

definition dec_arr :: "nat \<Rightarrow> 'a \<Rightarrow> (json \<Rightarrow> 'a res) \<Rightarrow> json \<Rightarrow> 'a list res" where
  "dec_arr n z dec j = (case j of
      JNull \<Rightarrow> Inr (replicate n z)
    | JArr xs \<Rightarrow> attempt (map_res dec (take n xs)) (\<lambda>ys. Inr (ys @ replicate (n - length ys) z))
    | _ \<Rightarrow> Inl ErrJson)"

text \<open>The zero value of a float array.\<close>

definition zeros :: "nat \<Rightarrow> f64 list" where
  "zeros n = replicate n (Num 0)"

lemma length_zeros [simp]: "length (zeros n) = n"
  by (simp add: zeros_def)

definition dec_pair :: "'a \<Rightarrow> (json \<Rightarrow> 'a res) \<Rightarrow> json \<Rightarrow> ('a \<times> 'a) res" where
  "dec_pair z dec j = attempt (dec_arr 2 z dec j) (\<lambda>ys. Inr (ys ! 0, ys ! 1))"

text \<open>Struct fields.\<close>

definition fold_keys :: "(string \<times> json) list \<Rightarrow> (string \<times> json) list" where
  "fold_keys fs = map (\<lambda>(k, v). (to_lower k, v)) fs"

fun jlast :: "(string \<times> json) list \<Rightarrow> string \<Rightarrow> json option" where
  "jlast [] k = None"
| "jlast ((a, v) # fs) k =
     (case jlast fs k of Some w \<Rightarrow> Some w | None \<Rightarrow> if a = k then Some v else None)"

definition jfield :: "(string \<times> json) list \<Rightarrow> string \<Rightarrow> 'a \<Rightarrow> (json \<Rightarrow> 'a res) \<Rightarrow> 'a res" where
  "jfield fs k z dec = (case jlast fs k of
      None \<Rightarrow> Inr z
    | Some JNull \<Rightarrow> Inr z
    | Some j \<Rightarrow> dec j)"

definition dec_struct :: "((string \<times> json) list \<Rightarrow> 'a res) \<Rightarrow> 'a \<Rightarrow> json \<Rightarrow> 'a res" where
  "dec_struct body z j = (case j of
      JObj fs \<Rightarrow> body (fold_keys fs)
    | JNull \<Rightarrow> Inr z
    | _ \<Rightarrow> Inl ErrJson)"

section \<open>Reading back what was written\<close>

lemma dec_enc_f64 [simp]: "fin x \<Longrightarrow> dec_f64 (enc_f64 x) = Inr x"
proof (cases x)
  case (Num q)
  show ?thesis
  proof (cases "q = of_int \<lfloor>q\<rfloor> \<and> \<bar>\<lfloor>q\<rfloor>\<bar> < 2 ^ 53")
    case True
    then have r: "rnd_val (of_int \<lfloor>q\<rfloor>) = of_int \<lfloor>q\<rfloor>" by (intro rnd_val_of_int) simp
    have b: "fin (rnd False (of_int \<lfloor>q\<rfloor>))"
      using True rnd_between [of "\<lfloor>q\<rfloor>" "of_int \<lfloor>q\<rfloor>" "\<lfloor>q\<rfloor>"] by simp
    then have "rnd False (of_int \<lfloor>q\<rfloor>) = Num (of_int \<lfloor>q\<rfloor>)"
      using r by (auto simp: rnd_def Let_def split: if_splits)
    then show ?thesis using True Num by (simp add: enc_f64_def dec_f64_def)
  next
    case False
    then have "enc_f64 x = JFlt x" unfolding Num enc_f64_def by (simp only: f64.case if_False)
    then show ?thesis by (simp add: dec_f64_def)
  qed
qed (simp_all add: enc_f64_def dec_f64_def)

lemma jfinite_enc_f64 [simp]: "jfinite (enc_f64 x) = fin x"
  by (cases x) (auto simp: enc_f64_def)

lemma enc_f64_not_null [simp]: "enc_f64 x \<noteq> JNull"
  by (cases x) (auto simp: enc_f64_def)

lemma dec_enc_word [simp]: "dec_word (enc_word w) = Inr w"
  by (simp add: dec_word_def enc_word_def)

lemma enc_word_simps [simp]: "jfinite (enc_word w)" "enc_word w \<noteq> JNull"
  by (simp_all add: enc_word_def)

lemma map_res_inverse:
  "(\<And>x. x \<in> set xs \<Longrightarrow> dec (enc x) = Inr x) \<Longrightarrow> map_res dec (map enc xs) = Inr xs"
  by (induction xs) auto

lemma dec_enc_arr [simp]:
  "(\<And>x. x \<in> set xs \<Longrightarrow> dec (enc x) = Inr x) \<Longrightarrow> length xs = n \<Longrightarrow>
    dec_arr n z dec (enc_arr enc xs) = Inr xs"
  by (simp add: dec_arr_def enc_arr_def map_res_inverse take_map)

lemma dec_enc_slice [simp]:
  "(\<And>x. x \<in> set xs \<Longrightarrow> dec (enc x) = Inr x) \<Longrightarrow> dec_slice dec (enc_arr enc xs) = Inr (Some xs)"
  by (simp add: dec_slice_def enc_arr_def map_res_inverse)

lemma enc_arr_simps [simp]:
  "jfinite (enc_arr e xs) = (\<forall>x \<in> set xs. jfinite (e x))" "enc_arr e xs \<noteq> JNull"
  by (auto simp: enc_arr_def)

lemma dec_enc_pair [simp]:
  "dec (enc (fst p)) = Inr (fst p) \<Longrightarrow> dec (enc (snd p)) = Inr (snd p) \<Longrightarrow>
    dec_pair z dec (enc_pair enc p) = Inr p"
  by (simp add: dec_pair_def enc_pair_def dec_arr_def)

lemma enc_pair_simps [simp]:
  "jfinite (enc_pair e p) = (jfinite (e (fst p)) \<and> jfinite (e (snd p)))" "enc_pair e p \<noteq> JNull"
  by (auto simp: enc_pair_def)

lemma mput_snoc: "msorted (m @ [(k, v)]) \<Longrightarrow> mput k v m = m @ [(k, v)]"
  by (induction m) (auto simp: msorted_def)

lemma fold_mput_inverse:
  assumes "\<And>k v. (k, v) \<in> set m \<Longrightarrow> dec (enc v) = Inr (g v)" "msorted (acc @ mvals g m)"
  shows "fold_res (\<lambda>m f. attempt (dec (snd f)) (\<lambda>v. Inr (mput (fst f) v m))) acc
    (map (\<lambda>(k, v). (k, enc v)) m) = Inr (acc @ mvals g m)"
  using assms
proof (induction m arbitrary: acc)
  case Nil
  then show ?case by (simp add: mvals_def)
next
  case (Cons p m)
  obtain k v where p: "p = (k, v)" by (cases p)
  have "msorted (acc @ [(k, g v)])"
    using Cons.prems(2) p by (auto simp: msorted_def sorted_wrt_append mvals_def)
  then have m: "mput k (g v) acc = acc @ [(k, g v)]" by (rule mput_snoc)
  have d: "dec (enc v) = Inr (g v)" using Cons.prems(1) [of k v] p by simp
  have s: "acc @ mvals g (p # m) = (acc @ [(k, g v)]) @ mvals g m"
    using p by (simp add: mvals_def)
  have "\<And>k v. (k, v) \<in> set m \<Longrightarrow> dec (enc v) = Inr (g v)"
    by (rule Cons.prems(1)) (rule list.set_intros(2))
  moreover have "msorted ((acc @ [(k, g v)]) @ mvals g m)"
    using Cons.prems(2) s by simp
  ultimately show ?case
    using Cons.IH [of "acc @ [(k, g v)]"] p m d s by simp
qed

lemma dec_enc_map:
  assumes "\<And>k v. (k, v) \<in> set m \<Longrightarrow> dec (enc v) = Inr (g v)" "msorted m"
  shows "dec_map dec (enc_map enc m) = Inr (Some (mvals g m))"
  using fold_mput_inverse [of m dec enc g "[]"] assms by (simp add: dec_map_def enc_map_def)

lemma mvals_id [simp]: "mvals (\<lambda>v. v) m = m"
  by (simp add: mvals_def)

lemma enc_map_simps [simp]:
  "jfinite (enc_map e m) = (\<forall>p \<in> set m. jfinite (e (snd p)))" "enc_map e m \<noteq> JNull"
  by (auto simp: enc_map_def)

definition orelse :: "'a option \<Rightarrow> 'a option \<Rightarrow> 'a option" where
  "orelse a b = (case a of Some w \<Rightarrow> Some w | None \<Rightarrow> b)"

lemma orelse_simps [simp]: "orelse None b = b" "orelse (Some w) b = Some w" "orelse a None = a"
  by (simp_all add: orelse_def split: option.splits)

lemma jlast_append: "jlast (a @ b) k = orelse (jlast b k) (jlast a k)"
  by (induction a) (auto simp: orelse_def split: option.splits)

lemma jlast_jf: "jlast (jf n v) k = (if n = k then Some v else None)"
  by (simp add: jf_def)

lemma jlast_jopt:
  "jlast (jopt (\<not> c) n v) k = (if n = k then if c then None else Some v else None)"
  "jlast (jopt (a \<noteq> b) n v) k = (if n = k then if a = b then None else Some v else None)"
  by (simp_all add: jopt_def)

lemma fold_keys_append: "fold_keys (a @ b) = fold_keys a @ fold_keys b"
  by (simp add: fold_keys_def)

lemma fold_keys_jf: "fold_keys (jf n v) = jf (to_lower n) v"
  by (simp add: jf_def fold_keys_def)

lemma fold_keys_jopt: "fold_keys (jopt c n v) = jopt c (to_lower n) v"
  by (simp add: jopt_def fold_keys_def)

lemmas fold_keys_simps = fold_keys_append fold_keys_jf fold_keys_jopt
lemmas jlast_simps = jlast_append jlast_jf jlast_jopt

text \<open>The value a field is read to, given how it was written.\<close>

definition field_val :: "json option \<Rightarrow> 'a \<Rightarrow> (json \<Rightarrow> 'a res) \<Rightarrow> 'a res" where
  "field_val jo z dec = (case jo of None \<Rightarrow> Inr z | Some JNull \<Rightarrow> Inr z | Some j \<Rightarrow> dec j)"

lemma jfield_val: "jfield fs k z dec = field_val (jlast fs k) z dec"
  by (simp add: jfield_def field_val_def)

lemma field_val_Some [simp]: "j \<noteq> JNull \<Longrightarrow> field_val (Some j) z dec = dec j"
  by (cases j) (auto simp: field_val_def)

lemma field_val_None [simp]: "field_val None z dec = Inr z"
  by (simp add: field_val_def)

text \<open>A field omitted when it equals the zero value reads back as itself.\<close>

lemma field_val_if:
  "j \<noteq> JNull \<Longrightarrow> dec j = Inr x \<Longrightarrow> (c \<Longrightarrow> x = z) \<Longrightarrow>
    field_val (if c then None else Some j) z dec = Inr x"
  by auto

definition clean :: "f64 \<Rightarrow> bool" where
  "clean x = (fin x \<and> x \<noteq> NegZero)"

lemma clean_fin [simp]: "clean x \<Longrightarrow> fin x"
  by (simp add: clean_def)

lemma clean_zero: "clean x \<Longrightarrow> is_zero x \<Longrightarrow> x = Num 0"
  by (auto simp: clean_def is_zero_def)

lemma clean_zeros: "list_all clean xs \<Longrightarrow> list_all is_zero xs \<Longrightarrow> length xs = n \<Longrightarrow> xs = zeros n"
  by (induction xs arbitrary: n) (auto simp: clean_zero zeros_def)

lemma enc_opt_simps [simp]: "enc_opt e None = JNull" "enc_opt e (Some a) = e a"
  by (simp_all add: enc_opt_def)

lemma empty_opt_simps [simp]: "empty_opt None" "empty_opt (Some xs) = (xs = [])"
  by (simp_all add: empty_opt_def)

text \<open>A nil or empty slice or map is omitted, and an empty one comes back as nil.\<close>

definition nonempty_opt :: "'a list option \<Rightarrow> 'a list option" where
  "nonempty_opt x = (if empty_opt x then None else x)"

lemma field_rt_f64 [simp]:
  "clean x \<Longrightarrow> field_val (if is_zero x then None else Some (enc_f64 x)) (Num 0) dec_f64 = Inr x"
  by (simp add: field_val_if clean_zero)

lemma field_rt_word [simp]:
  "field_val (if x = 0 then None else Some (enc_word x)) 0 dec_word = Inr x"
  by (simp add: field_val_if)

lemma field_rt_word_pair [simp]:
  "field_val (if x = (0, 0) then None else Some (enc_pair enc_word x)) (0, 0) (dec_pair 0 dec_word) = Inr x"
  by (simp add: field_val_if)

lemma field_rt_floats [simp]:
  "list_all clean xs \<Longrightarrow> length xs = n \<Longrightarrow>
    field_val (if list_all is_zero xs then None else Some (enc_arr enc_f64 xs)) (zeros n) (dec_arr n (Num 0) dec_f64) = Inr xs"
  by (auto simp: field_val_if clean_zeros list_all_iff)

lemma dec_enc_floats [simp]:
  "list_all clean xs \<Longrightarrow> length xs = n \<Longrightarrow> dec_arr n (Num 0) dec_f64 (enc_arr enc_f64 xs) = Inr xs"
  by (rule dec_enc_arr) (auto simp: list_all_iff)

lemma field_rt_str [simp]:
  "field_val (if s = [] then None else Some (JStr s)) [] dec_str = Inr s"
  "dec_str (JStr s) = Inr s"
  by (auto simp: dec_str_def field_val_def)

lemma jopt_not: "jopt (\<not> c) n v = (if c then [] else [(n, v)])"
  by (simp add: jopt_def)

text \<open>A map field: every value \<open>v\<close> reads back as \<open>g v\<close>.\<close>

definition opt_sorted :: "('k::linorder, 'v) gmap option \<Rightarrow> bool" where
  "opt_sorted x = (case x of None \<Rightarrow> True | Some m \<Rightarrow> msorted m)"

definition opt_all :: "('v \<Rightarrow> bool) \<Rightarrow> ('k, 'v) gmap option \<Rightarrow> bool" where
  "opt_all P x = (case x of None \<Rightarrow> True | Some m \<Rightarrow> (\<forall>p \<in> set m. P (snd p)))"

lemma field_map_general:
  assumes "\<And>v. P v \<Longrightarrow> dec (enc v) = Inr (g v)" "opt_sorted x" "opt_all P x"
  shows "field_val (if empty_opt x then None else Some (enc_opt (enc_map enc) x)) None (dec_map dec)
    = Inr (map_option (mvals g) (nonempty_opt x))"
proof (cases x)
  case None
  then show ?thesis by (simp add: nonempty_opt_def)
next
  case (Some m)
  have "dec_map dec (enc_map enc m) = Inr (Some (mvals g m))"
    by (rule dec_enc_map) (use assms Some in \<open>auto simp: opt_all_def opt_sorted_def\<close>)
  then show ?thesis using Some by (auto simp: nonempty_opt_def)
qed

lemma mvals_id_fun [simp]: "mvals (\<lambda>v. v) = (\<lambda>m. m)"
  by (rule ext) simp

lemma field_map_f64 [simp]:
  "opt_sorted x \<Longrightarrow> opt_all fin x \<Longrightarrow>
    field_val (if empty_opt x then None else Some (enc_opt (enc_map enc_f64) x)) None (dec_map dec_f64)
    = Inr (nonempty_opt x)"
  using field_map_general [of fin dec_f64 enc_f64 "\<lambda>v. v" x]
  by (simp add: option.map_ident)

lemma field_slice_general:
  assumes "\<And>v. P v \<Longrightarrow> dec (enc v) = Inr v" "\<And>xs. x = Some xs \<Longrightarrow> list_all P xs"
  shows "field_val (if empty_opt x then None else Some (enc_opt (enc_arr enc) x)) None (dec_slice dec)
    = Inr (nonempty_opt x)"
proof (cases x)
  case None
  then show ?thesis by (simp add: nonempty_opt_def)
next
  case (Some xs)
  have "dec_slice dec (enc_arr enc xs) = Inr (Some xs)"
    by (rule dec_enc_slice) (use assms Some in \<open>auto simp: list_all_iff\<close>)
  then show ?thesis using Some by (auto simp: nonempty_opt_def)
qed

lemma field_slice_f64 [simp]:
  "(\<And>xs. x = Some xs \<Longrightarrow> list_all fin xs) \<Longrightarrow>
    field_val (if empty_opt x then None else Some (enc_opt (enc_arr enc_f64) x)) None (dec_slice dec_f64)
    = Inr (nonempty_opt x)"
  by (rule field_slice_general [of fin]) simp_all

lemma field_slice_word [simp]:
  "field_val (if empty_opt x then None else Some (enc_opt (enc_arr enc_word) x)) None (dec_slice dec_word)
    = Inr (nonempty_opt x)"
  by (rule field_slice_general [of "\<lambda>_. True"]) (simp_all add: list_all_iff)

lemma jfinite_append: "(\<forall>f \<in> set (a @ b). P f) = ((\<forall>f \<in> set a. P f) \<and> (\<forall>f \<in> set b. P f))"
  by auto

end
