(* ===== verification/System_Model.thy ===== *)
theory System_Model
  imports Json
begin

text \<open>
  The data types of \<open>internal/domain\<close> and the constructors over them: the statistics of one
  tick (\<open>system.Stats\<close>), the combined snapshot, the compact summary, containers, processes,
  connections, interrupts and systemd services.  A Go struct is a record with the fields in the
  source's order; \<open>[2]T\<close> is a pair, \<open>[4]T\<close> a quadruple, longer arrays are lists; a slice,
  map or pointer that may be nil is an option; \<open>time.Time\<close> is nanoseconds, \<open>None\<close> for the zero
  time.
\<close>

type_synonym gotime = "int option"
type_synonym u64 = "64 word"
type_synonym u8 = "8 word"
type_synonym quad = "u64 \<times> u64 \<times> u64 \<times> u64"

section \<open>internal/domain/container\<close>

datatype docker_health = HealthNone | HealthStarting | HealthHealthy | HealthUnhealthy

definition docker_health_strings :: "string \<rightharpoonup> docker_health" where
  "docker_health_strings = map_of
     [(''none'', HealthNone), (''starting'', HealthStarting),
      (''healthy'', HealthHealthy), (''unhealthy'', HealthUnhealthy)]"

definition docker_health_code :: "docker_health \<Rightarrow> u8" where
  "docker_health_code h = (case h of
     HealthNone \<Rightarrow> 0 | HealthStarting \<Rightarrow> 1 | HealthHealthy \<Rightarrow> 2 | HealthUnhealthy \<Rightarrow> 3)"

record container_stats =
  ct_name :: string
  ct_cpu :: f64
  ct_mem :: f64
  ct_bandwidth :: "u64 \<times> u64"
  ct_health :: u8
  ct_status :: string
  ct_id :: string
  ct_image :: string
  ct_ports :: string
  ct_cpu_system :: u64
  ct_cpu_container :: u64
  ct_prev_read_time :: gotime

section \<open>internal/domain/network\<close>

record connection_stats =
  cn_net_connections_enabled :: bool
  cn_nf_conntrack_enabled :: bool
  cn_total :: int
  cn_tcp :: int
  cn_udp :: int
  cn_listen :: int
  cn_established :: int
  cn_syn_sent :: int
  cn_syn_recv :: int
  cn_fin_wait1 :: int
  cn_fin_wait2 :: int
  cn_time_wait :: int
  cn_close :: int
  cn_close_wait :: int
  cn_last_ack :: int
  cn_closing :: int
  cn_statuses :: "(string, int) gmap option"
  cn_nf_conntrack_count :: u64
  cn_nf_conntrack_max :: u64
  cn_nf_conntrack_percent :: f64

record irq_stat =
  irq_irq :: string
  irq_total :: u64
  irq_cpu_counts :: "u64 list"
  irq_description :: string

section \<open>internal/domain/process\<close>

record memory_info =
  mi_rss :: u64
  mi_vms :: u64
  mi_hwm :: u64
  mi_data :: u64
  mi_stack :: u64
  mi_locked :: u64
  mi_swap :: u64

record io_counters =
  io_read_count :: u64
  io_write_count :: u64
  io_read_bytes :: u64
  io_write_bytes :: u64
  io_disk_read_bytes :: u64
  io_disk_write_bytes :: u64

record process_item =
  pr_pid :: int
  pr_name :: string
  pr_cmdline :: "string list"
  pr_username :: string
  pr_status :: string
  pr_num_threads :: int
  pr_cpu_percent :: f64
  pr_memory_percent :: f64
  pr_memory_info :: memory_info
  pr_nice :: int
  pr_create_time :: int
  pr_io_counters :: io_counters

record process_count =
  pc_total :: int
  pc_running :: int
  pc_sleeping :: int
  pc_stopped :: int
  pc_zombie :: int
  pc_blocked :: int
  pc_idle :: int
  pc_thread :: int
  pc_pid_max :: int

record program_item =
  pg_name :: string
  pg_count :: int
  pg_cpu_percent :: f64
  pg_memory_percent :: f64
  pg_memory_rss_bytes :: u64
  pg_pids :: "int list"

section \<open>internal/domain/system\<close>

record gpu_data =
  gpu_name :: string
  gpu_temperature :: f64
  gpu_memory_used :: f64
  gpu_memory_total :: f64
  gpu_usage :: f64
  gpu_power :: f64
  gpu_count :: f64
  gpu_engines :: "(string, f64) gmap option"
  gpu_power_pkg :: f64

record fs_stats =
  fs_time :: gotime
  fs_root :: bool
  fs_mountpoint :: string
  fs_name :: string
  fs_disk_total :: f64
  fs_disk_used :: f64
  fs_total_read :: u64
  fs_total_write :: u64
  fs_disk_read_ps :: f64
  fs_disk_write_ps :: f64
  fs_max_disk_read_ps :: f64
  fs_max_disk_write_ps :: f64
  fs_disk_read_bytes :: u64
  fs_disk_write_bytes :: u64
  fs_max_disk_read_bytes :: u64
  fs_max_disk_write_bytes :: u64
  fs_disk_io_stats :: "f64 list"
  fs_max_disk_io_stats :: "f64 list"

record stats =
  s_cpu :: f64
  s_max_cpu :: f64
  s_mem :: f64
  s_max_mem :: f64
  s_mem_used :: f64
  s_mem_pct :: f64
  s_mem_buff_cache :: f64
  s_mem_zfs_arc :: f64
  s_swap :: f64
  s_swap_used :: f64
  s_swap_pct :: f64
  s_mem_available :: f64
  s_mem_cached :: f64
  s_mem_buffers :: f64
  s_disk_total :: f64
  s_disk_used :: f64
  s_disk_pct :: f64
  s_disk_read_ps :: f64
  s_disk_write_ps :: f64
  s_max_disk_read_ps :: f64
  s_max_disk_write_ps :: f64
  s_temperatures :: "(string, f64) gmap option"
  s_extra_fs :: "(string, fs_stats) gmap option"
  s_gpu_data :: "(string, gpu_data) gmap option"
  s_bandwidth :: "u64 \<times> u64"
  s_max_bandwidth :: "u64 \<times> u64"
  s_load_avg :: "f64 list"
  s_battery :: "u8 \<times> u8"
  s_network_interfaces :: "(string, quad) gmap option"
  s_disk_io :: "u64 \<times> u64"
  s_max_disk_io :: "u64 \<times> u64"
  s_cpu_breakdown :: "f64 list option"
  s_cpu_cores_usage :: "u8 list option"
  s_disk_io_stats :: "f64 list"
  s_max_disk_io_stats :: "f64 list"

record net_io_stats =
  ni_bytes_recv :: u64
  ni_bytes_sent :: u64
  ni_time :: gotime
  ni_name :: string

record info =
  in_threads :: int
  in_uptime :: u64
  in_cpu :: f64
  in_mem_pct :: f64
  in_disk_pct :: f64
  in_agent_version :: string
  in_gpu_pct :: f64
  in_dashboard_temp :: f64
  in_bandwidth_bytes :: u64
  in_load_avg :: "f64 list"
  in_connection_type :: u8
  in_extra_fs_pct :: "(string, f64) gmap option"
  in_services :: "(16 word) list"
  in_battery :: "u8 \<times> u8"

record details =
  dt_hostname :: string
  dt_kernel :: string
  dt_cores :: int
  dt_threads :: int
  dt_cpu_model :: string
  dt_os_name :: string
  dt_arch :: string
  dt_podman :: bool
  dt_memory_total :: u64
  dt_smart_interval :: int

section \<open>internal/domain/systemd\<close>

datatype service_state =
    StatusActive | StatusInactive | StatusFailed | StatusActivating | StatusDeactivating
  | StatusReloading

datatype service_sub_state =
    SubStateDead | SubStateRunning | SubStateExited | SubStateFailed | SubStateUnknown

definition parse_service_status :: "string \<Rightarrow> service_state" where
  "parse_service_status status =
     (if status = ''active'' then StatusActive
      else if status = ''inactive'' then StatusInactive
      else if status = ''failed'' then StatusFailed
      else if status = ''activating'' then StatusActivating
      else if status = ''deactivating'' then StatusDeactivating
      else if status = ''reloading'' then StatusReloading
      else StatusInactive)"

definition parse_service_sub_state :: "string \<Rightarrow> service_sub_state" where
  "parse_service_sub_state sub =
     (if sub = ''dead'' then SubStateDead
      else if sub = ''running'' then SubStateRunning
      else if sub = ''exited'' then SubStateExited
      else if sub = ''failed'' then SubStateFailed
      else SubStateUnknown)"

text \<open>The constants are numbered from 0 (\<open>iota\<close>); a service holds the number.\<close>

definition service_state_code :: "service_state \<Rightarrow> u8" where
  "service_state_code s = (case s of
     StatusActive \<Rightarrow> 0 | StatusInactive \<Rightarrow> 1 | StatusFailed \<Rightarrow> 2
   | StatusActivating \<Rightarrow> 3 | StatusDeactivating \<Rightarrow> 4 | StatusReloading \<Rightarrow> 5)"

definition service_sub_state_code :: "service_sub_state \<Rightarrow> u8" where
  "service_sub_state_code s = (case s of
     SubStateDead \<Rightarrow> 0 | SubStateRunning \<Rightarrow> 1 | SubStateExited \<Rightarrow> 2
   | SubStateFailed \<Rightarrow> 3 | SubStateUnknown \<Rightarrow> 4)"

record service =
  sv_name :: string
  sv_state :: u8
  sv_cpu :: f64
  sv_mem :: u64
  sv_mem_peak :: u64
  sv_sub :: u8
  sv_cpu_peak :: f64
  sv_prev_cpu_usage :: u64
  sv_prev_read_time :: gotime

text \<open>
  \<open>UpdateCPUPercent\<close>; \<open>now\<close> is the clock in nanoseconds, \<open>num_cpu\<close> is
  \<open>runtime.NumCPU()\<close>.  \<open>PrevReadTime.IsZero()\<close> is \<open>None\<close>.
\<close>

definition update_cpu_percent :: "int \<Rightarrow> int \<Rightarrow> u64 \<Rightarrow> service \<Rightarrow> service" where
  "update_cpu_percent num_cpu now cpu_usage s =
     (case sv_prev_read_time s of
        None \<Rightarrow> s\<lparr>sv_cpu := Num 0, sv_prev_cpu_usage := cpu_usage, sv_prev_read_time := Some now\<rparr>
      | Some prev \<Rightarrow>
          if cpu_usage < sv_prev_cpu_usage s
          then s\<lparr>sv_cpu := Num 0, sv_prev_cpu_usage := cpu_usage, sv_prev_read_time := Some now\<rparr>
          else let duration = now - prev in
            if duration \<le> 0
            then s\<lparr>sv_prev_cpu_usage := cpu_usage, sv_prev_read_time := Some now\<rparr>
            else
              let duration' = duration * num_cpu;
                  usage_delta = cpu_usage - sv_prev_cpu_usage s;
                  cpu_percent = fdiv (of_uint64 usage_delta) (of_int_f duration');
                  cpu = two_decimals (fmul cpu_percent (Num 100));
                  peak = (if flt (sv_cpu_peak s) cpu then cpu else sv_cpu_peak s)
              in s\<lparr>sv_cpu := cpu, sv_cpu_peak := peak,
                   sv_prev_cpu_usage := cpu_usage, sv_prev_read_time := Some now\<rparr>)"

section \<open>The combined snapshot and its summary\<close>

record combined_data =
  cd_stats :: stats
  cd_info :: info
  cd_containers :: "container_stats option list"
  cd_systemd_services :: "service list option"
  cd_details :: "details option"
  cd_process_count :: "process_count option"
  cd_processes :: "process_item list option"
  cd_programs :: "program_item list option"
  cd_connections :: "connection_stats option"
  cd_irqs :: "irq_stat list option"

record summary =
  sm_hostname :: string
  sm_os_name :: string
  sm_kernel :: string
  sm_architecture :: string
  sm_uptime :: u64
  sm_cpu_percent :: f64
  sm_load_average :: "f64 list"
  sm_cpu_model :: string
  sm_cores :: int
  sm_threads :: int
  sm_memory_total_gb :: f64
  sm_memory_used_gb :: f64
  sm_memory_percent :: f64
  sm_memory_bytes :: u64
  sm_temperatures :: "(string, f64) gmap option"
  sm_disk_percent :: f64
  sm_gpu_percent :: f64
  sm_battery :: "u8 \<times> u8"
  sm_agent_version :: string

definition zero_summary :: summary where
  "zero_summary = \<lparr>sm_hostname = [], sm_os_name = [], sm_kernel = [], sm_architecture = [],
     sm_uptime = 0, sm_cpu_percent = Num 0, sm_load_average = zeros 3,
     sm_cpu_model = [], sm_cores = 0, sm_threads = 0, sm_memory_total_gb = Num 0,
     sm_memory_used_gb = Num 0, sm_memory_percent = Num 0, sm_memory_bytes = 0,
     sm_temperatures = None, sm_disk_percent = Num 0, sm_gpu_percent = Num 0,
     sm_battery = (0, 0), sm_agent_version = []\<rparr>"

text \<open>\<open>NewSummary\<close>: the details when there are any, then the fallbacks for zero values.\<close>

definition new_summary :: "combined_data option \<Rightarrow> summary" where
  "new_summary data = (case data of
     None \<Rightarrow> zero_summary
   | Some d \<Rightarrow>
       let st = cd_stats d; inf = cd_info d;
           s0 = zero_summary\<lparr>
             sm_uptime := in_uptime inf,
             sm_cpu_percent := s_cpu st,
             sm_load_average := s_load_avg st,
             sm_memory_total_gb := s_mem st,
             sm_memory_used_gb := s_mem_used st,
             sm_memory_percent := s_mem_pct st,
             sm_temperatures := s_temperatures st,
             sm_disk_percent := s_disk_pct st,
             sm_gpu_percent := in_gpu_pct inf,
             sm_battery := in_battery inf,
             sm_agent_version := in_agent_version inf\<rparr>;
           s1 = (case cd_details d of
               None \<Rightarrow> s0
             | Some dt \<Rightarrow> s0\<lparr>
                 sm_hostname := dt_hostname dt,
                 sm_os_name := dt_os_name dt,
                 sm_kernel := dt_kernel dt,
                 sm_architecture := dt_arch dt,
                 sm_cpu_model := dt_cpu_model dt,
                 sm_cores := dt_cores dt,
                 sm_threads := dt_threads dt,
                 sm_memory_bytes := dt_memory_total dt\<rparr>);
           s2 = (if sm_threads s1 = 0 then s1\<lparr>sm_threads := in_threads inf\<rparr> else s1);
           s3 = (if is_zero (sm_cpu_percent s2) then s2\<lparr>sm_cpu_percent := in_cpu inf\<rparr> else s2);
           s4 = (if is_zero (sm_memory_percent s3)
                 then s3\<lparr>sm_memory_percent := in_mem_pct inf\<rparr> else s3);
           s5 = (if is_zero (sm_disk_percent s4)
                 then s4\<lparr>sm_disk_percent := in_disk_pct inf\<rparr> else s4);
           s6 = (if sm_battery s5 = (0, 0) then s5\<lparr>sm_battery := s_battery st\<rparr> else s5)
       in s6)"

end
