(* ===== verification/Codecs.thy ===== *)
theory Codecs
  imports System_Model
begin

text \<open>
  The JSON form of the domain types, field by field as their struct tags say: the key, whether
  the field is dropped when empty, and the type it is read back as.  Fields tagged
  \<open>json:"-"\<close> are not written and read back as zero.  The order of the fields is the source's.
\<close>


section \<open>Arrays of four counters\<close>

definition enc_quad :: "quad \<Rightarrow> json" where
  "enc_quad q = (case q of (a, b, c, d) \<Rightarrow> enc_arr enc_word [a, b, c, d])"

definition dec_quad :: "json \<Rightarrow> quad res" where
  "dec_quad j = attempt (dec_arr 4 0 dec_word j) (\<lambda>ys. Inr (ys ! 0, ys ! 1, ys ! 2, ys ! 3))"

lemma dec_enc_quad [simp]: "dec_quad (enc_quad q) = Inr q"
  by (cases q) (simp add: dec_quad_def enc_quad_def)

lemma enc_quad_simps [simp]: "jfinite (enc_quad q)" "enc_quad q \<noteq> JNull"
  by (cases q; simp add: enc_quad_def)+

section \<open>internal/domain/system\<close>

definition enc_fs_stats_fields :: "fs_stats \<Rightarrow> (string \<times> json) list" where
  "enc_fs_stats_fields x =
     jf ''disk_total_gb'' (enc_f64 (fs_disk_total x)) @
     jf ''disk_used_gb'' (enc_f64 (fs_disk_used x)) @
     jf ''disk_read_mb_per_second'' (enc_f64 (fs_disk_read_ps x)) @
     jf ''disk_write_mb_per_second'' (enc_f64 (fs_disk_write_ps x)) @
     jopt (\<not> is_zero (fs_max_disk_read_ps x)) ''max_disk_read_mb_per_second'' (enc_f64 (fs_max_disk_read_ps x)) @
     jopt (\<not> is_zero (fs_max_disk_write_ps x)) ''max_disk_write_mb_per_second'' (enc_f64 (fs_max_disk_write_ps x)) @
     jf ''disk_read_bytes_per_second'' (enc_word (fs_disk_read_bytes x)) @
     jf ''disk_write_bytes_per_second'' (enc_word (fs_disk_write_bytes x)) @
     jopt (fs_max_disk_read_bytes x \<noteq> 0) ''max_disk_read_bytes_per_second'' (enc_word (fs_max_disk_read_bytes x)) @
     jopt (fs_max_disk_write_bytes x \<noteq> 0) ''max_disk_write_bytes_per_second'' (enc_word (fs_max_disk_write_bytes x)) @
     jopt (\<not> list_all is_zero (fs_disk_io_stats x)) ''disk_io_stats'' (enc_arr enc_f64 (fs_disk_io_stats x)) @
     jopt (\<not> list_all is_zero (fs_max_disk_io_stats x)) ''max_disk_io_stats'' (enc_arr enc_f64 (fs_max_disk_io_stats x))"

definition enc_fs_stats :: "fs_stats \<Rightarrow> json" where
  "enc_fs_stats x = JObj (enc_fs_stats_fields x)"


definition zero_fs_stats :: fs_stats where
  "zero_fs_stats = \<lparr>fs_time = None,
     fs_root = False,
     fs_mountpoint = [],
     fs_name = [],
     fs_disk_total = (Num 0),
     fs_disk_used = (Num 0),
     fs_total_read = 0,
     fs_total_write = 0,
     fs_disk_read_ps = (Num 0),
     fs_disk_write_ps = (Num 0),
     fs_max_disk_read_ps = (Num 0),
     fs_max_disk_write_ps = (Num 0),
     fs_disk_read_bytes = 0,
     fs_disk_write_bytes = 0,
     fs_max_disk_read_bytes = 0,
     fs_max_disk_write_bytes = 0,
     fs_disk_io_stats = (zeros 6),
     fs_max_disk_io_stats = (zeros 6)\<rparr>"


definition dec_fs_stats_body :: "(string \<times> json) list \<Rightarrow> fs_stats res" where
  "dec_fs_stats_body fs =
     attempt (jfield fs ''disk_total_gb'' (Num 0) dec_f64) (\<lambda>v_fs_disk_total.
     attempt (jfield fs ''disk_used_gb'' (Num 0) dec_f64) (\<lambda>v_fs_disk_used.
     attempt (jfield fs ''disk_read_mb_per_second'' (Num 0) dec_f64) (\<lambda>v_fs_disk_read_ps.
     attempt (jfield fs ''disk_write_mb_per_second'' (Num 0) dec_f64) (\<lambda>v_fs_disk_write_ps.
     attempt (jfield fs ''max_disk_read_mb_per_second'' (Num 0) dec_f64) (\<lambda>v_fs_max_disk_read_ps.
     attempt (jfield fs ''max_disk_write_mb_per_second'' (Num 0) dec_f64) (\<lambda>v_fs_max_disk_write_ps.
     attempt (jfield fs ''disk_read_bytes_per_second'' 0 dec_word) (\<lambda>v_fs_disk_read_bytes.
     attempt (jfield fs ''disk_write_bytes_per_second'' 0 dec_word) (\<lambda>v_fs_disk_write_bytes.
     attempt (jfield fs ''max_disk_read_bytes_per_second'' 0 dec_word) (\<lambda>v_fs_max_disk_read_bytes.
     attempt (jfield fs ''max_disk_write_bytes_per_second'' 0 dec_word) (\<lambda>v_fs_max_disk_write_bytes.
     attempt (jfield fs ''disk_io_stats'' (zeros 6) (dec_arr 6 (Num 0) dec_f64)) (\<lambda>v_fs_disk_io_stats.
     attempt (jfield fs ''max_disk_io_stats'' (zeros 6) (dec_arr 6 (Num 0) dec_f64)) (\<lambda>v_fs_max_disk_io_stats.
     Inr (zero_fs_stats\<lparr>fs_disk_total := v_fs_disk_total,
       fs_disk_used := v_fs_disk_used,
       fs_disk_read_ps := v_fs_disk_read_ps,
       fs_disk_write_ps := v_fs_disk_write_ps,
       fs_max_disk_read_ps := v_fs_max_disk_read_ps,
       fs_max_disk_write_ps := v_fs_max_disk_write_ps,
       fs_disk_read_bytes := v_fs_disk_read_bytes,
       fs_disk_write_bytes := v_fs_disk_write_bytes,
       fs_max_disk_read_bytes := v_fs_max_disk_read_bytes,
       fs_max_disk_write_bytes := v_fs_max_disk_write_bytes,
       fs_disk_io_stats := v_fs_disk_io_stats,
       fs_max_disk_io_stats := v_fs_max_disk_io_stats\<rparr>)))))))))))))"


definition dec_fs_stats :: "json \<Rightarrow> fs_stats res" where
  "dec_fs_stats = dec_struct dec_fs_stats_body zero_fs_stats"

definition enc_gpu_data_fields :: "gpu_data \<Rightarrow> (string \<times> json) list" where
  "enc_gpu_data_fields x =
     jf ''name'' (JStr (gpu_name x)) @
     jopt (\<not> is_zero (gpu_memory_used x)) ''memory_used_mb'' (enc_f64 (gpu_memory_used x)) @
     jopt (\<not> is_zero (gpu_memory_total x)) ''memory_total_mb'' (enc_f64 (gpu_memory_total x)) @
     jf ''usage_percent'' (enc_f64 (gpu_usage x)) @
     jopt (\<not> is_zero (gpu_power x)) ''power_watts'' (enc_f64 (gpu_power x)) @
     jopt (\<not> empty_opt (gpu_engines x)) ''engines'' (enc_opt (enc_map enc_f64) (gpu_engines x)) @
     jopt (\<not> is_zero (gpu_power_pkg x)) ''package_power_watts'' (enc_f64 (gpu_power_pkg x))"

definition enc_gpu_data :: "gpu_data \<Rightarrow> json" where
  "enc_gpu_data x = JObj (enc_gpu_data_fields x)"


definition zero_gpu_data :: gpu_data where
  "zero_gpu_data = \<lparr>gpu_name = [],
     gpu_temperature = (Num 0),
     gpu_memory_used = (Num 0),
     gpu_memory_total = (Num 0),
     gpu_usage = (Num 0),
     gpu_power = (Num 0),
     gpu_count = (Num 0),
     gpu_engines = None,
     gpu_power_pkg = (Num 0)\<rparr>"


definition dec_gpu_data_body :: "(string \<times> json) list \<Rightarrow> gpu_data res" where
  "dec_gpu_data_body fs =
     attempt (jfield fs ''name'' [] dec_str) (\<lambda>v_gpu_name.
     attempt (jfield fs ''memory_used_mb'' (Num 0) dec_f64) (\<lambda>v_gpu_memory_used.
     attempt (jfield fs ''memory_total_mb'' (Num 0) dec_f64) (\<lambda>v_gpu_memory_total.
     attempt (jfield fs ''usage_percent'' (Num 0) dec_f64) (\<lambda>v_gpu_usage.
     attempt (jfield fs ''power_watts'' (Num 0) dec_f64) (\<lambda>v_gpu_power.
     attempt (jfield fs ''engines'' None (dec_map dec_f64)) (\<lambda>v_gpu_engines.
     attempt (jfield fs ''package_power_watts'' (Num 0) dec_f64) (\<lambda>v_gpu_power_pkg.
     Inr (zero_gpu_data\<lparr>gpu_name := v_gpu_name,
       gpu_memory_used := v_gpu_memory_used,
       gpu_memory_total := v_gpu_memory_total,
       gpu_usage := v_gpu_usage,
       gpu_power := v_gpu_power,
       gpu_engines := v_gpu_engines,
       gpu_power_pkg := v_gpu_power_pkg\<rparr>))))))))"


definition dec_gpu_data :: "json \<Rightarrow> gpu_data res" where
  "dec_gpu_data = dec_struct dec_gpu_data_body zero_gpu_data"

definition enc_stats_fields :: "stats \<Rightarrow> (string \<times> json) list" where
  "enc_stats_fields x =
     jf ''cpu_percent'' (enc_f64 (s_cpu x)) @
     jopt (\<not> is_zero (s_max_cpu x)) ''max_cpu_percent'' (enc_f64 (s_max_cpu x)) @
     jf ''memory_gb'' (enc_f64 (s_mem x)) @
     jopt (\<not> is_zero (s_max_mem x)) ''max_memory_gb'' (enc_f64 (s_max_mem x)) @
     jf ''memory_used_gb'' (enc_f64 (s_mem_used x)) @
     jf ''memory_percent'' (enc_f64 (s_mem_pct x)) @
     jf ''memory_buffer_cache_gb'' (enc_f64 (s_mem_buff_cache x)) @
     jopt (\<not> is_zero (s_mem_zfs_arc x)) ''memory_zfs_arc_gb'' (enc_f64 (s_mem_zfs_arc x)) @
     jopt (\<not> is_zero (s_swap x)) ''swap_gb'' (enc_f64 (s_swap x)) @
     jopt (\<not> is_zero (s_swap_used x)) ''swap_used_gb'' (enc_f64 (s_swap_used x)) @
     jopt (\<not> is_zero (s_swap_pct x)) ''memory_swap_percent'' (enc_f64 (s_swap_pct x)) @
     jopt (\<not> is_zero (s_mem_available x)) ''memory_available_gb'' (enc_f64 (s_mem_available x)) @
     jopt (\<not> is_zero (s_mem_cached x)) ''memory_cached_gb'' (enc_f64 (s_mem_cached x)) @
     jopt (\<not> is_zero (s_mem_buffers x)) ''memory_buffers_gb'' (enc_f64 (s_mem_buffers x)) @
     jf ''disk_total_gb'' (enc_f64 (s_disk_total x)) @
     jf ''disk_used_gb'' (enc_f64 (s_disk_used x)) @
     jf ''disk_percent'' (enc_f64 (s_disk_pct x)) @
     jopt (\<not> is_zero (s_disk_read_ps x)) ''disk_read_mb_per_second'' (enc_f64 (s_disk_read_ps x)) @
     jopt (\<not> is_zero (s_disk_write_ps x)) ''disk_write_mb_per_second'' (enc_f64 (s_disk_write_ps x)) @
     jopt (\<not> is_zero (s_max_disk_read_ps x)) ''max_disk_read_mb_per_second'' (enc_f64 (s_max_disk_read_ps x)) @
     jopt (\<not> is_zero (s_max_disk_write_ps x)) ''max_disk_write_mb_per_second'' (enc_f64 (s_max_disk_write_ps x)) @
     jopt (\<not> empty_opt (s_temperatures x)) ''temperatures'' (enc_opt (enc_map enc_f64) (s_temperatures x)) @
     jopt (\<not> empty_opt (s_extra_fs x)) ''extra_filesystems'' (enc_opt (enc_map enc_fs_stats) (s_extra_fs x)) @
     jopt (\<not> empty_opt (s_gpu_data x)) ''gpus'' (enc_opt (enc_map enc_gpu_data) (s_gpu_data x)) @
     jopt (s_bandwidth x \<noteq> (0, 0)) ''bandwidth_bytes_per_second'' (enc_pair enc_word (s_bandwidth x)) @
     jopt (s_max_bandwidth x \<noteq> (0, 0)) ''max_bandwidth_bytes_per_second'' (enc_pair enc_word (s_max_bandwidth x)) @
     jf ''load_average'' (enc_arr enc_f64 (s_load_avg x)) @
     jopt (s_battery x \<noteq> (0, 0)) ''battery'' (enc_pair enc_word (s_battery x)) @
     jopt (\<not> empty_opt (s_network_interfaces x)) ''network_interfaces'' (enc_opt (enc_map enc_quad) (s_network_interfaces x)) @
     jopt (s_disk_io x \<noteq> (0, 0)) ''disk_io_bytes_per_second'' (enc_pair enc_word (s_disk_io x)) @
     jopt (s_max_disk_io x \<noteq> (0, 0)) ''max_disk_io_bytes_per_second'' (enc_pair enc_word (s_max_disk_io x)) @
     jopt (\<not> empty_opt (s_cpu_breakdown x)) ''cpu_breakdown_percent'' (enc_opt (enc_arr enc_f64) (s_cpu_breakdown x)) @
     jopt (\<not> empty_opt (s_cpu_cores_usage x)) ''cpu_cores_percent'' (enc_opt (enc_arr enc_word) (s_cpu_cores_usage x)) @
     jopt (\<not> list_all is_zero (s_disk_io_stats x)) ''disk_io_stats'' (enc_arr enc_f64 (s_disk_io_stats x)) @
     jopt (\<not> list_all is_zero (s_max_disk_io_stats x)) ''max_disk_io_stats'' (enc_arr enc_f64 (s_max_disk_io_stats x))"

definition enc_stats :: "stats \<Rightarrow> json" where
  "enc_stats x = JObj (enc_stats_fields x)"


definition zero_stats :: stats where
  "zero_stats = \<lparr>s_cpu = (Num 0),
     s_max_cpu = (Num 0),
     s_mem = (Num 0),
     s_max_mem = (Num 0),
     s_mem_used = (Num 0),
     s_mem_pct = (Num 0),
     s_mem_buff_cache = (Num 0),
     s_mem_zfs_arc = (Num 0),
     s_swap = (Num 0),
     s_swap_used = (Num 0),
     s_swap_pct = (Num 0),
     s_mem_available = (Num 0),
     s_mem_cached = (Num 0),
     s_mem_buffers = (Num 0),
     s_disk_total = (Num 0),
     s_disk_used = (Num 0),
     s_disk_pct = (Num 0),
     s_disk_read_ps = (Num 0),
     s_disk_write_ps = (Num 0),
     s_max_disk_read_ps = (Num 0),
     s_max_disk_write_ps = (Num 0),
     s_temperatures = None,
     s_extra_fs = None,
     s_gpu_data = None,
     s_bandwidth = (0, 0),
     s_max_bandwidth = (0, 0),
     s_load_avg = (zeros 3),
     s_battery = (0, 0),
     s_network_interfaces = None,
     s_disk_io = (0, 0),
     s_max_disk_io = (0, 0),
     s_cpu_breakdown = None,
     s_cpu_cores_usage = None,
     s_disk_io_stats = (zeros 6),
     s_max_disk_io_stats = (zeros 6)\<rparr>"


definition dec_stats_body :: "(string \<times> json) list \<Rightarrow> stats res" where
  "dec_stats_body fs =
     attempt (jfield fs ''cpu_percent'' (Num 0) dec_f64) (\<lambda>v_s_cpu.
     attempt (jfield fs ''max_cpu_percent'' (Num 0) dec_f64) (\<lambda>v_s_max_cpu.
     attempt (jfield fs ''memory_gb'' (Num 0) dec_f64) (\<lambda>v_s_mem.
     attempt (jfield fs ''max_memory_gb'' (Num 0) dec_f64) (\<lambda>v_s_max_mem.
     attempt (jfield fs ''memory_used_gb'' (Num 0) dec_f64) (\<lambda>v_s_mem_used.
     attempt (jfield fs ''memory_percent'' (Num 0) dec_f64) (\<lambda>v_s_mem_pct.
     attempt (jfield fs ''memory_buffer_cache_gb'' (Num 0) dec_f64) (\<lambda>v_s_mem_buff_cache.
     attempt (jfield fs ''memory_zfs_arc_gb'' (Num 0) dec_f64) (\<lambda>v_s_mem_zfs_arc.
     attempt (jfield fs ''swap_gb'' (Num 0) dec_f64) (\<lambda>v_s_swap.
     attempt (jfield fs ''swap_used_gb'' (Num 0) dec_f64) (\<lambda>v_s_swap_used.
     attempt (jfield fs ''memory_swap_percent'' (Num 0) dec_f64) (\<lambda>v_s_swap_pct.
     attempt (jfield fs ''memory_available_gb'' (Num 0) dec_f64) (\<lambda>v_s_mem_available.
     attempt (jfield fs ''memory_cached_gb'' (Num 0) dec_f64) (\<lambda>v_s_mem_cached.
     attempt (jfield fs ''memory_buffers_gb'' (Num 0) dec_f64) (\<lambda>v_s_mem_buffers.
     attempt (jfield fs ''disk_total_gb'' (Num 0) dec_f64) (\<lambda>v_s_disk_total.
     attempt (jfield fs ''disk_used_gb'' (Num 0) dec_f64) (\<lambda>v_s_disk_used.
     attempt (jfield fs ''disk_percent'' (Num 0) dec_f64) (\<lambda>v_s_disk_pct.
     attempt (jfield fs ''disk_read_mb_per_second'' (Num 0) dec_f64) (\<lambda>v_s_disk_read_ps.
     attempt (jfield fs ''disk_write_mb_per_second'' (Num 0) dec_f64) (\<lambda>v_s_disk_write_ps.
     attempt (jfield fs ''max_disk_read_mb_per_second'' (Num 0) dec_f64) (\<lambda>v_s_max_disk_read_ps.
     attempt (jfield fs ''max_disk_write_mb_per_second'' (Num 0) dec_f64) (\<lambda>v_s_max_disk_write_ps.
     attempt (jfield fs ''temperatures'' None (dec_map dec_f64)) (\<lambda>v_s_temperatures.
     attempt (jfield fs ''extra_filesystems'' None (dec_map dec_fs_stats)) (\<lambda>v_s_extra_fs.
     attempt (jfield fs ''gpus'' None (dec_map dec_gpu_data)) (\<lambda>v_s_gpu_data.
     attempt (jfield fs ''bandwidth_bytes_per_second'' (0, 0) (dec_pair 0 dec_word)) (\<lambda>v_s_bandwidth.
     attempt (jfield fs ''max_bandwidth_bytes_per_second'' (0, 0) (dec_pair 0 dec_word)) (\<lambda>v_s_max_bandwidth.
     attempt (jfield fs ''load_average'' (zeros 3) (dec_arr 3 (Num 0) dec_f64)) (\<lambda>v_s_load_avg.
     attempt (jfield fs ''battery'' (0, 0) (dec_pair 0 dec_word)) (\<lambda>v_s_battery.
     attempt (jfield fs ''network_interfaces'' None (dec_map dec_quad)) (\<lambda>v_s_network_interfaces.
     attempt (jfield fs ''disk_io_bytes_per_second'' (0, 0) (dec_pair 0 dec_word)) (\<lambda>v_s_disk_io.
     attempt (jfield fs ''max_disk_io_bytes_per_second'' (0, 0) (dec_pair 0 dec_word)) (\<lambda>v_s_max_disk_io.
     attempt (jfield fs ''cpu_breakdown_percent'' None (dec_slice dec_f64)) (\<lambda>v_s_cpu_breakdown.
     attempt (jfield fs ''cpu_cores_percent'' None (dec_slice dec_word)) (\<lambda>v_s_cpu_cores_usage.
     attempt (jfield fs ''disk_io_stats'' (zeros 6) (dec_arr 6 (Num 0) dec_f64)) (\<lambda>v_s_disk_io_stats.
     attempt (jfield fs ''max_disk_io_stats'' (zeros 6) (dec_arr 6 (Num 0) dec_f64)) (\<lambda>v_s_max_disk_io_stats.
     Inr (zero_stats\<lparr>s_cpu := v_s_cpu,
       s_max_cpu := v_s_max_cpu,
       s_mem := v_s_mem,
       s_max_mem := v_s_max_mem,
       s_mem_used := v_s_mem_used,
       s_mem_pct := v_s_mem_pct,
       s_mem_buff_cache := v_s_mem_buff_cache,
       s_mem_zfs_arc := v_s_mem_zfs_arc,
       s_swap := v_s_swap,
       s_swap_used := v_s_swap_used,
       s_swap_pct := v_s_swap_pct,
       s_mem_available := v_s_mem_available,
       s_mem_cached := v_s_mem_cached,
       s_mem_buffers := v_s_mem_buffers,
       s_disk_total := v_s_disk_total,
       s_disk_used := v_s_disk_used,
       s_disk_pct := v_s_disk_pct,
       s_disk_read_ps := v_s_disk_read_ps,
       s_disk_write_ps := v_s_disk_write_ps,
       s_max_disk_read_ps := v_s_max_disk_read_ps,
       s_max_disk_write_ps := v_s_max_disk_write_ps,
       s_temperatures := v_s_temperatures,
       s_extra_fs := v_s_extra_fs,
       s_gpu_data := v_s_gpu_data,
       s_bandwidth := v_s_bandwidth,
       s_max_bandwidth := v_s_max_bandwidth,
       s_load_avg := v_s_load_avg,
       s_battery := v_s_battery,
       s_network_interfaces := v_s_network_interfaces,
       s_disk_io := v_s_disk_io,
       s_max_disk_io := v_s_max_disk_io,
       s_cpu_breakdown := v_s_cpu_breakdown,
       s_cpu_cores_usage := v_s_cpu_cores_usage,
       s_disk_io_stats := v_s_disk_io_stats,
       s_max_disk_io_stats := v_s_max_disk_io_stats\<rparr>))))))))))))))))))))))))))))))))))))"


definition dec_stats :: "json \<Rightarrow> stats res" where
  "dec_stats = dec_struct dec_stats_body zero_stats"

definition enc_info_fields :: "info \<Rightarrow> (string \<times> json) list" where
  "enc_info_fields x =
     jopt (in_threads x \<noteq> 0) ''threads'' (JInt (in_threads x)) @
     jf ''uptime_seconds'' (enc_word (in_uptime x)) @
     jf ''cpu_percent'' (enc_f64 (in_cpu x)) @
     jf ''memory_percent'' (enc_f64 (in_mem_pct x)) @
     jf ''disk_percent'' (enc_f64 (in_disk_pct x)) @
     jf ''agent_version'' (JStr (in_agent_version x)) @
     jopt (\<not> is_zero (in_gpu_pct x)) ''gpu_percent'' (enc_f64 (in_gpu_pct x)) @
     jopt (\<not> is_zero (in_dashboard_temp x)) ''dashboard_temperature_celsius'' (enc_f64 (in_dashboard_temp x)) @
     jf ''bandwidth_bytes_per_second'' (enc_word (in_bandwidth_bytes x)) @
     jf ''load_average'' (enc_arr enc_f64 (in_load_avg x)) @
     jopt (in_connection_type x \<noteq> 0) ''connection_type'' (enc_word (in_connection_type x)) @
     jopt (\<not> empty_opt (in_extra_fs_pct x)) ''extra_filesystem_percent'' (enc_opt (enc_map enc_f64) (in_extra_fs_pct x)) @
     jopt (in_services x \<noteq> []) ''services'' (enc_arr enc_word (in_services x)) @
     jopt (in_battery x \<noteq> (0, 0)) ''battery'' (enc_pair enc_word (in_battery x))"

definition enc_info :: "info \<Rightarrow> json" where
  "enc_info x = JObj (enc_info_fields x)"


definition zero_info :: info where
  "zero_info = \<lparr>in_threads = 0,
     in_uptime = 0,
     in_cpu = (Num 0),
     in_mem_pct = (Num 0),
     in_disk_pct = (Num 0),
     in_agent_version = [],
     in_gpu_pct = (Num 0),
     in_dashboard_temp = (Num 0),
     in_bandwidth_bytes = 0,
     in_load_avg = (zeros 3),
     in_connection_type = 0,
     in_extra_fs_pct = None,
     in_services = [],
     in_battery = (0, 0)\<rparr>"


definition dec_info_body :: "(string \<times> json) list \<Rightarrow> info res" where
  "dec_info_body fs =
     attempt (jfield fs ''threads'' 0 (dec_int 64)) (\<lambda>v_in_threads.
     attempt (jfield fs ''uptime_seconds'' 0 dec_word) (\<lambda>v_in_uptime.
     attempt (jfield fs ''cpu_percent'' (Num 0) dec_f64) (\<lambda>v_in_cpu.
     attempt (jfield fs ''memory_percent'' (Num 0) dec_f64) (\<lambda>v_in_mem_pct.
     attempt (jfield fs ''disk_percent'' (Num 0) dec_f64) (\<lambda>v_in_disk_pct.
     attempt (jfield fs ''agent_version'' [] dec_str) (\<lambda>v_in_agent_version.
     attempt (jfield fs ''gpu_percent'' (Num 0) dec_f64) (\<lambda>v_in_gpu_pct.
     attempt (jfield fs ''dashboard_temperature_celsius'' (Num 0) dec_f64) (\<lambda>v_in_dashboard_temp.
     attempt (jfield fs ''bandwidth_bytes_per_second'' 0 dec_word) (\<lambda>v_in_bandwidth_bytes.
     attempt (jfield fs ''load_average'' (zeros 3) (dec_arr 3 (Num 0) dec_f64)) (\<lambda>v_in_load_avg.
     attempt (jfield fs ''connection_type'' 0 dec_word) (\<lambda>v_in_connection_type.
     attempt (jfield fs ''extra_filesystem_percent'' None (dec_map dec_f64)) (\<lambda>v_in_extra_fs_pct.
     attempt (jfield fs ''services'' [] (dec_list dec_word)) (\<lambda>v_in_services.
     attempt (jfield fs ''battery'' (0, 0) (dec_pair 0 dec_word)) (\<lambda>v_in_battery.
     Inr (zero_info\<lparr>in_threads := v_in_threads,
       in_uptime := v_in_uptime,
       in_cpu := v_in_cpu,
       in_mem_pct := v_in_mem_pct,
       in_disk_pct := v_in_disk_pct,
       in_agent_version := v_in_agent_version,
       in_gpu_pct := v_in_gpu_pct,
       in_dashboard_temp := v_in_dashboard_temp,
       in_bandwidth_bytes := v_in_bandwidth_bytes,
       in_load_avg := v_in_load_avg,
       in_connection_type := v_in_connection_type,
       in_extra_fs_pct := v_in_extra_fs_pct,
       in_services := v_in_services,
       in_battery := v_in_battery\<rparr>)))))))))))))))"


definition dec_info :: "json \<Rightarrow> info res" where
  "dec_info = dec_struct dec_info_body zero_info"

definition enc_details_fields :: "details \<Rightarrow> (string \<times> json) list" where
  "enc_details_fields x =
     jf ''hostname'' (JStr (dt_hostname x)) @
     jopt (dt_kernel x \<noteq> []) ''kernel_version'' (JStr (dt_kernel x)) @
     jf ''cores'' (JInt (dt_cores x)) @
     jf ''threads'' (JInt (dt_threads x)) @
     jf ''cpu_model'' (JStr (dt_cpu_model x)) @
     jf ''os_name'' (JStr (dt_os_name x)) @
     jf ''architecture'' (JStr (dt_arch x)) @
     jopt (dt_podman x) ''podman'' (JBool (dt_podman x)) @
     jf ''memory_total_bytes'' (enc_word (dt_memory_total x)) @
     jopt (dt_smart_interval x \<noteq> 0) ''smart_refresh_interval_nanoseconds'' (JInt (dt_smart_interval x))"

definition enc_details :: "details \<Rightarrow> json" where
  "enc_details x = JObj (enc_details_fields x)"


definition zero_details :: details where
  "zero_details = \<lparr>dt_hostname = [],
     dt_kernel = [],
     dt_cores = 0,
     dt_threads = 0,
     dt_cpu_model = [],
     dt_os_name = [],
     dt_arch = [],
     dt_podman = False,
     dt_memory_total = 0,
     dt_smart_interval = 0\<rparr>"


definition dec_details_body :: "(string \<times> json) list \<Rightarrow> details res" where
  "dec_details_body fs =
     attempt (jfield fs ''hostname'' [] dec_str) (\<lambda>v_dt_hostname.
     attempt (jfield fs ''kernel_version'' [] dec_str) (\<lambda>v_dt_kernel.
     attempt (jfield fs ''cores'' 0 (dec_int 64)) (\<lambda>v_dt_cores.
     attempt (jfield fs ''threads'' 0 (dec_int 64)) (\<lambda>v_dt_threads.
     attempt (jfield fs ''cpu_model'' [] dec_str) (\<lambda>v_dt_cpu_model.
     attempt (jfield fs ''os_name'' [] dec_str) (\<lambda>v_dt_os_name.
     attempt (jfield fs ''architecture'' [] dec_str) (\<lambda>v_dt_arch.
     attempt (jfield fs ''podman'' False dec_bool) (\<lambda>v_dt_podman.
     attempt (jfield fs ''memory_total_bytes'' 0 dec_word) (\<lambda>v_dt_memory_total.
     attempt (jfield fs ''smart_refresh_interval_nanoseconds'' 0 (dec_int 64)) (\<lambda>v_dt_smart_interval.
     Inr (zero_details\<lparr>dt_hostname := v_dt_hostname,
       dt_kernel := v_dt_kernel,
       dt_cores := v_dt_cores,
       dt_threads := v_dt_threads,
       dt_cpu_model := v_dt_cpu_model,
       dt_os_name := v_dt_os_name,
       dt_arch := v_dt_arch,
       dt_podman := v_dt_podman,
       dt_memory_total := v_dt_memory_total,
       dt_smart_interval := v_dt_smart_interval\<rparr>)))))))))))"


definition dec_details :: "json \<Rightarrow> details res" where
  "dec_details = dec_struct dec_details_body zero_details"

definition enc_summary_fields :: "summary \<Rightarrow> (string \<times> json) list" where
  "enc_summary_fields x =
     jopt (sm_hostname x \<noteq> []) ''hostname'' (JStr (sm_hostname x)) @
     jopt (sm_os_name x \<noteq> []) ''os_name'' (JStr (sm_os_name x)) @
     jopt (sm_kernel x \<noteq> []) ''kernel_version'' (JStr (sm_kernel x)) @
     jopt (sm_architecture x \<noteq> []) ''architecture'' (JStr (sm_architecture x)) @
     jf ''uptime_seconds'' (enc_word (sm_uptime x)) @
     jf ''cpu_percent'' (enc_f64 (sm_cpu_percent x)) @
     jf ''load_average'' (enc_arr enc_f64 (sm_load_average x)) @
     jopt (sm_cpu_model x \<noteq> []) ''cpu_model'' (JStr (sm_cpu_model x)) @
     jopt (sm_cores x \<noteq> 0) ''cores'' (JInt (sm_cores x)) @
     jopt (sm_threads x \<noteq> 0) ''threads'' (JInt (sm_threads x)) @
     jf ''memory_gb'' (enc_f64 (sm_memory_total_gb x)) @
     jf ''memory_used_gb'' (enc_f64 (sm_memory_used_gb x)) @
     jf ''memory_percent'' (enc_f64 (sm_memory_percent x)) @
     jopt (sm_memory_bytes x \<noteq> 0) ''memory_total_bytes'' (enc_word (sm_memory_bytes x)) @
     jopt (\<not> empty_opt (sm_temperatures x)) ''temperatures'' (enc_opt (enc_map enc_f64) (sm_temperatures x)) @
     jopt (\<not> is_zero (sm_disk_percent x)) ''disk_percent'' (enc_f64 (sm_disk_percent x)) @
     jopt (\<not> is_zero (sm_gpu_percent x)) ''gpu_percent'' (enc_f64 (sm_gpu_percent x)) @
     jopt (sm_battery x \<noteq> (0, 0)) ''battery'' (enc_pair enc_word (sm_battery x)) @
     jopt (sm_agent_version x \<noteq> []) ''agent_version'' (JStr (sm_agent_version x))"

definition enc_summary :: "summary \<Rightarrow> json" where
  "enc_summary x = JObj (enc_summary_fields x)"

definition dec_summary_body :: "(string \<times> json) list \<Rightarrow> summary res" where
  "dec_summary_body fs =
     attempt (jfield fs ''hostname'' [] dec_str) (\<lambda>v_sm_hostname.
     attempt (jfield fs ''os_name'' [] dec_str) (\<lambda>v_sm_os_name.
     attempt (jfield fs ''kernel_version'' [] dec_str) (\<lambda>v_sm_kernel.
     attempt (jfield fs ''architecture'' [] dec_str) (\<lambda>v_sm_architecture.
     attempt (jfield fs ''uptime_seconds'' 0 dec_word) (\<lambda>v_sm_uptime.
     attempt (jfield fs ''cpu_percent'' (Num 0) dec_f64) (\<lambda>v_sm_cpu_percent.
     attempt (jfield fs ''load_average'' (zeros 3) (dec_arr 3 (Num 0) dec_f64)) (\<lambda>v_sm_load_average.
     attempt (jfield fs ''cpu_model'' [] dec_str) (\<lambda>v_sm_cpu_model.
     attempt (jfield fs ''cores'' 0 (dec_int 64)) (\<lambda>v_sm_cores.
     attempt (jfield fs ''threads'' 0 (dec_int 64)) (\<lambda>v_sm_threads.
     attempt (jfield fs ''memory_gb'' (Num 0) dec_f64) (\<lambda>v_sm_memory_total_gb.
     attempt (jfield fs ''memory_used_gb'' (Num 0) dec_f64) (\<lambda>v_sm_memory_used_gb.
     attempt (jfield fs ''memory_percent'' (Num 0) dec_f64) (\<lambda>v_sm_memory_percent.
     attempt (jfield fs ''memory_total_bytes'' 0 dec_word) (\<lambda>v_sm_memory_bytes.
     attempt (jfield fs ''temperatures'' None (dec_map dec_f64)) (\<lambda>v_sm_temperatures.
     attempt (jfield fs ''disk_percent'' (Num 0) dec_f64) (\<lambda>v_sm_disk_percent.
     attempt (jfield fs ''gpu_percent'' (Num 0) dec_f64) (\<lambda>v_sm_gpu_percent.
     attempt (jfield fs ''battery'' (0, 0) (dec_pair 0 dec_word)) (\<lambda>v_sm_battery.
     attempt (jfield fs ''agent_version'' [] dec_str) (\<lambda>v_sm_agent_version.
     Inr (zero_summary\<lparr>sm_hostname := v_sm_hostname,
       sm_os_name := v_sm_os_name,
       sm_kernel := v_sm_kernel,
       sm_architecture := v_sm_architecture,
       sm_uptime := v_sm_uptime,
       sm_cpu_percent := v_sm_cpu_percent,
       sm_load_average := v_sm_load_average,
       sm_cpu_model := v_sm_cpu_model,
       sm_cores := v_sm_cores,
       sm_threads := v_sm_threads,
       sm_memory_total_gb := v_sm_memory_total_gb,
       sm_memory_used_gb := v_sm_memory_used_gb,
       sm_memory_percent := v_sm_memory_percent,
       sm_memory_bytes := v_sm_memory_bytes,
       sm_temperatures := v_sm_temperatures,
       sm_disk_percent := v_sm_disk_percent,
       sm_gpu_percent := v_sm_gpu_percent,
       sm_battery := v_sm_battery,
       sm_agent_version := v_sm_agent_version\<rparr>))))))))))))))))))))"

definition dec_summary :: "json \<Rightarrow> summary res" where
  "dec_summary = dec_struct dec_summary_body zero_summary"

section \<open>internal/domain/container, network, process, systemd\<close>

definition enc_container_stats_fields :: "container_stats \<Rightarrow> (string \<times> json) list" where
  "enc_container_stats_fields x =
     jf ''name'' (JStr (ct_name x)) @
     jf ''cpu_percent'' (enc_f64 (ct_cpu x)) @
     jf ''memory_mb'' (enc_f64 (ct_mem x)) @
     jopt (ct_bandwidth x \<noteq> (0, 0)) ''bandwidth_bytes'' (enc_pair enc_word (ct_bandwidth x))"

definition enc_container_stats :: "container_stats \<Rightarrow> json" where
  "enc_container_stats x = JObj (enc_container_stats_fields x)"


definition zero_container_stats :: container_stats where
  "zero_container_stats = \<lparr>ct_name = [],
     ct_cpu = (Num 0),
     ct_mem = (Num 0),
     ct_bandwidth = (0, 0),
     ct_health = 0,
     ct_status = [],
     ct_id = [],
     ct_image = [],
     ct_ports = [],
     ct_cpu_system = 0,
     ct_cpu_container = 0,
     ct_prev_read_time = None\<rparr>"


definition dec_container_stats_body :: "(string \<times> json) list \<Rightarrow> container_stats res" where
  "dec_container_stats_body fs =
     attempt (jfield fs ''name'' [] dec_str) (\<lambda>v_ct_name.
     attempt (jfield fs ''cpu_percent'' (Num 0) dec_f64) (\<lambda>v_ct_cpu.
     attempt (jfield fs ''memory_mb'' (Num 0) dec_f64) (\<lambda>v_ct_mem.
     attempt (jfield fs ''bandwidth_bytes'' (0, 0) (dec_pair 0 dec_word)) (\<lambda>v_ct_bandwidth.
     Inr (zero_container_stats\<lparr>ct_name := v_ct_name,
       ct_cpu := v_ct_cpu,
       ct_mem := v_ct_mem,
       ct_bandwidth := v_ct_bandwidth\<rparr>)))))"


definition dec_container_stats :: "json \<Rightarrow> container_stats res" where
  "dec_container_stats = dec_struct dec_container_stats_body zero_container_stats"

definition enc_connection_stats_fields :: "connection_stats \<Rightarrow> (string \<times> json) list" where
  "enc_connection_stats_fields x =
     jf ''net_connections_enabled'' (JBool (cn_net_connections_enabled x)) @
     jf ''nf_conntrack_enabled'' (JBool (cn_nf_conntrack_enabled x)) @
     jf ''total'' (JInt (cn_total x)) @
     jf ''tcp'' (JInt (cn_tcp x)) @
     jf ''udp'' (JInt (cn_udp x)) @
     jopt (cn_listen x \<noteq> 0) ''listen'' (JInt (cn_listen x)) @
     jopt (cn_established x \<noteq> 0) ''established'' (JInt (cn_established x)) @
     jopt (cn_syn_sent x \<noteq> 0) ''syn_sent'' (JInt (cn_syn_sent x)) @
     jopt (cn_syn_recv x \<noteq> 0) ''syn_recv'' (JInt (cn_syn_recv x)) @
     jopt (cn_fin_wait1 x \<noteq> 0) ''fin_wait1'' (JInt (cn_fin_wait1 x)) @
     jopt (cn_fin_wait2 x \<noteq> 0) ''fin_wait2'' (JInt (cn_fin_wait2 x)) @
     jopt (cn_time_wait x \<noteq> 0) ''time_wait'' (JInt (cn_time_wait x)) @
     jopt (cn_close x \<noteq> 0) ''close'' (JInt (cn_close x)) @
     jopt (cn_close_wait x \<noteq> 0) ''close_wait'' (JInt (cn_close_wait x)) @
     jopt (cn_last_ack x \<noteq> 0) ''last_ack'' (JInt (cn_last_ack x)) @
     jopt (cn_closing x \<noteq> 0) ''closing'' (JInt (cn_closing x)) @
     jopt (\<not> empty_opt (cn_statuses x)) ''statuses'' (enc_opt (enc_map JInt) (cn_statuses x)) @
     jopt (cn_nf_conntrack_count x \<noteq> 0) ''nf_conntrack_count'' (enc_word (cn_nf_conntrack_count x)) @
     jopt (cn_nf_conntrack_max x \<noteq> 0) ''nf_conntrack_max'' (enc_word (cn_nf_conntrack_max x)) @
     jopt (\<not> is_zero (cn_nf_conntrack_percent x)) ''nf_conntrack_percent'' (enc_f64 (cn_nf_conntrack_percent x))"

definition enc_connection_stats :: "connection_stats \<Rightarrow> json" where
  "enc_connection_stats x = JObj (enc_connection_stats_fields x)"


definition zero_connection_stats :: connection_stats where
  "zero_connection_stats = \<lparr>cn_net_connections_enabled = False,
     cn_nf_conntrack_enabled = False,
     cn_total = 0,
     cn_tcp = 0,
     cn_udp = 0,
     cn_listen = 0,
     cn_established = 0,
     cn_syn_sent = 0,
     cn_syn_recv = 0,
     cn_fin_wait1 = 0,
     cn_fin_wait2 = 0,
     cn_time_wait = 0,
     cn_close = 0,
     cn_close_wait = 0,
     cn_last_ack = 0,
     cn_closing = 0,
     cn_statuses = None,
     cn_nf_conntrack_count = 0,
     cn_nf_conntrack_max = 0,
     cn_nf_conntrack_percent = (Num 0)\<rparr>"


definition dec_connection_stats_body :: "(string \<times> json) list \<Rightarrow> connection_stats res" where
  "dec_connection_stats_body fs =
     attempt (jfield fs ''net_connections_enabled'' False dec_bool) (\<lambda>v_cn_net_connections_enabled.
     attempt (jfield fs ''nf_conntrack_enabled'' False dec_bool) (\<lambda>v_cn_nf_conntrack_enabled.
     attempt (jfield fs ''total'' 0 (dec_int 64)) (\<lambda>v_cn_total.
     attempt (jfield fs ''tcp'' 0 (dec_int 64)) (\<lambda>v_cn_tcp.
     attempt (jfield fs ''udp'' 0 (dec_int 64)) (\<lambda>v_cn_udp.
     attempt (jfield fs ''listen'' 0 (dec_int 64)) (\<lambda>v_cn_listen.
     attempt (jfield fs ''established'' 0 (dec_int 64)) (\<lambda>v_cn_established.
     attempt (jfield fs ''syn_sent'' 0 (dec_int 64)) (\<lambda>v_cn_syn_sent.
     attempt (jfield fs ''syn_recv'' 0 (dec_int 64)) (\<lambda>v_cn_syn_recv.
     attempt (jfield fs ''fin_wait1'' 0 (dec_int 64)) (\<lambda>v_cn_fin_wait1.
     attempt (jfield fs ''fin_wait2'' 0 (dec_int 64)) (\<lambda>v_cn_fin_wait2.
     attempt (jfield fs ''time_wait'' 0 (dec_int 64)) (\<lambda>v_cn_time_wait.
     attempt (jfield fs ''close'' 0 (dec_int 64)) (\<lambda>v_cn_close.
     attempt (jfield fs ''close_wait'' 0 (dec_int 64)) (\<lambda>v_cn_close_wait.
     attempt (jfield fs ''last_ack'' 0 (dec_int 64)) (\<lambda>v_cn_last_ack.
     attempt (jfield fs ''closing'' 0 (dec_int 64)) (\<lambda>v_cn_closing.
     attempt (jfield fs ''statuses'' None (dec_map (dec_int 64))) (\<lambda>v_cn_statuses.
     attempt (jfield fs ''nf_conntrack_count'' 0 dec_word) (\<lambda>v_cn_nf_conntrack_count.
     attempt (jfield fs ''nf_conntrack_max'' 0 dec_word) (\<lambda>v_cn_nf_conntrack_max.
     attempt (jfield fs ''nf_conntrack_percent'' (Num 0) dec_f64) (\<lambda>v_cn_nf_conntrack_percent.
     Inr (zero_connection_stats\<lparr>cn_net_connections_enabled := v_cn_net_connections_enabled,
       cn_nf_conntrack_enabled := v_cn_nf_conntrack_enabled,
       cn_total := v_cn_total,
       cn_tcp := v_cn_tcp,
       cn_udp := v_cn_udp,
       cn_listen := v_cn_listen,
       cn_established := v_cn_established,
       cn_syn_sent := v_cn_syn_sent,
       cn_syn_recv := v_cn_syn_recv,
       cn_fin_wait1 := v_cn_fin_wait1,
       cn_fin_wait2 := v_cn_fin_wait2,
       cn_time_wait := v_cn_time_wait,
       cn_close := v_cn_close,
       cn_close_wait := v_cn_close_wait,
       cn_last_ack := v_cn_last_ack,
       cn_closing := v_cn_closing,
       cn_statuses := v_cn_statuses,
       cn_nf_conntrack_count := v_cn_nf_conntrack_count,
       cn_nf_conntrack_max := v_cn_nf_conntrack_max,
       cn_nf_conntrack_percent := v_cn_nf_conntrack_percent\<rparr>)))))))))))))))))))))"


definition dec_connection_stats :: "json \<Rightarrow> connection_stats res" where
  "dec_connection_stats = dec_struct dec_connection_stats_body zero_connection_stats"

definition enc_irq_stat_fields :: "irq_stat \<Rightarrow> (string \<times> json) list" where
  "enc_irq_stat_fields x =
     jf ''irq'' (JStr (irq_irq x)) @
     jf ''total'' (enc_word (irq_total x)) @
     jopt (irq_cpu_counts x \<noteq> []) ''cpu_counts'' (enc_arr enc_word (irq_cpu_counts x)) @
     jopt (irq_description x \<noteq> []) ''description'' (JStr (irq_description x))"

definition enc_irq_stat :: "irq_stat \<Rightarrow> json" where
  "enc_irq_stat x = JObj (enc_irq_stat_fields x)"


definition zero_irq_stat :: irq_stat where
  "zero_irq_stat = \<lparr>irq_irq = [],
     irq_total = 0,
     irq_cpu_counts = [],
     irq_description = []\<rparr>"


definition dec_irq_stat_body :: "(string \<times> json) list \<Rightarrow> irq_stat res" where
  "dec_irq_stat_body fs =
     attempt (jfield fs ''irq'' [] dec_str) (\<lambda>v_irq_irq.
     attempt (jfield fs ''total'' 0 dec_word) (\<lambda>v_irq_total.
     attempt (jfield fs ''cpu_counts'' [] (dec_list dec_word)) (\<lambda>v_irq_cpu_counts.
     attempt (jfield fs ''description'' [] dec_str) (\<lambda>v_irq_description.
     Inr (zero_irq_stat\<lparr>irq_irq := v_irq_irq,
       irq_total := v_irq_total,
       irq_cpu_counts := v_irq_cpu_counts,
       irq_description := v_irq_description\<rparr>)))))"


definition dec_irq_stat :: "json \<Rightarrow> irq_stat res" where
  "dec_irq_stat = dec_struct dec_irq_stat_body zero_irq_stat"

definition enc_memory_info_fields :: "memory_info \<Rightarrow> (string \<times> json) list" where
  "enc_memory_info_fields x =
     jf ''rss'' (enc_word (mi_rss x)) @
     jf ''vms'' (enc_word (mi_vms x)) @
     jopt (mi_hwm x \<noteq> 0) ''hwm'' (enc_word (mi_hwm x)) @
     jopt (mi_data x \<noteq> 0) ''data'' (enc_word (mi_data x)) @
     jopt (mi_stack x \<noteq> 0) ''stack'' (enc_word (mi_stack x)) @
     jopt (mi_locked x \<noteq> 0) ''locked'' (enc_word (mi_locked x)) @
     jopt (mi_swap x \<noteq> 0) ''swap'' (enc_word (mi_swap x))"

definition enc_memory_info :: "memory_info \<Rightarrow> json" where
  "enc_memory_info x = JObj (enc_memory_info_fields x)"


definition zero_memory_info :: memory_info where
  "zero_memory_info = \<lparr>mi_rss = 0,
     mi_vms = 0,
     mi_hwm = 0,
     mi_data = 0,
     mi_stack = 0,
     mi_locked = 0,
     mi_swap = 0\<rparr>"


definition dec_memory_info_body :: "(string \<times> json) list \<Rightarrow> memory_info res" where
  "dec_memory_info_body fs =
     attempt (jfield fs ''rss'' 0 dec_word) (\<lambda>v_mi_rss.
     attempt (jfield fs ''vms'' 0 dec_word) (\<lambda>v_mi_vms.
     attempt (jfield fs ''hwm'' 0 dec_word) (\<lambda>v_mi_hwm.
     attempt (jfield fs ''data'' 0 dec_word) (\<lambda>v_mi_data.
     attempt (jfield fs ''stack'' 0 dec_word) (\<lambda>v_mi_stack.
     attempt (jfield fs ''locked'' 0 dec_word) (\<lambda>v_mi_locked.
     attempt (jfield fs ''swap'' 0 dec_word) (\<lambda>v_mi_swap.
     Inr (zero_memory_info\<lparr>mi_rss := v_mi_rss,
       mi_vms := v_mi_vms,
       mi_hwm := v_mi_hwm,
       mi_data := v_mi_data,
       mi_stack := v_mi_stack,
       mi_locked := v_mi_locked,
       mi_swap := v_mi_swap\<rparr>))))))))"


definition dec_memory_info :: "json \<Rightarrow> memory_info res" where
  "dec_memory_info = dec_struct dec_memory_info_body zero_memory_info"

definition enc_io_counters_fields :: "io_counters \<Rightarrow> (string \<times> json) list" where
  "enc_io_counters_fields x =
     jopt (io_read_count x \<noteq> 0) ''read_count'' (enc_word (io_read_count x)) @
     jopt (io_write_count x \<noteq> 0) ''write_count'' (enc_word (io_write_count x)) @
     jopt (io_read_bytes x \<noteq> 0) ''read_bytes'' (enc_word (io_read_bytes x)) @
     jopt (io_write_bytes x \<noteq> 0) ''write_bytes'' (enc_word (io_write_bytes x)) @
     jopt (io_disk_read_bytes x \<noteq> 0) ''disk_read_bytes'' (enc_word (io_disk_read_bytes x)) @
     jopt (io_disk_write_bytes x \<noteq> 0) ''disk_write_bytes'' (enc_word (io_disk_write_bytes x))"

definition enc_io_counters :: "io_counters \<Rightarrow> json" where
  "enc_io_counters x = JObj (enc_io_counters_fields x)"


definition zero_io_counters :: io_counters where
  "zero_io_counters = \<lparr>io_read_count = 0,
     io_write_count = 0,
     io_read_bytes = 0,
     io_write_bytes = 0,
     io_disk_read_bytes = 0,
     io_disk_write_bytes = 0\<rparr>"


definition dec_io_counters_body :: "(string \<times> json) list \<Rightarrow> io_counters res" where
  "dec_io_counters_body fs =
     attempt (jfield fs ''read_count'' 0 dec_word) (\<lambda>v_io_read_count.
     attempt (jfield fs ''write_count'' 0 dec_word) (\<lambda>v_io_write_count.
     attempt (jfield fs ''read_bytes'' 0 dec_word) (\<lambda>v_io_read_bytes.
     attempt (jfield fs ''write_bytes'' 0 dec_word) (\<lambda>v_io_write_bytes.
     attempt (jfield fs ''disk_read_bytes'' 0 dec_word) (\<lambda>v_io_disk_read_bytes.
     attempt (jfield fs ''disk_write_bytes'' 0 dec_word) (\<lambda>v_io_disk_write_bytes.
     Inr (zero_io_counters\<lparr>io_read_count := v_io_read_count,
       io_write_count := v_io_write_count,
       io_read_bytes := v_io_read_bytes,
       io_write_bytes := v_io_write_bytes,
       io_disk_read_bytes := v_io_disk_read_bytes,
       io_disk_write_bytes := v_io_disk_write_bytes\<rparr>)))))))"


definition dec_io_counters :: "json \<Rightarrow> io_counters res" where
  "dec_io_counters = dec_struct dec_io_counters_body zero_io_counters"

definition enc_process_item_fields :: "process_item \<Rightarrow> (string \<times> json) list" where
  "enc_process_item_fields x =
     jf ''pid'' (JInt (pr_pid x)) @
     jf ''name'' (JStr (pr_name x)) @
     jopt (pr_cmdline x \<noteq> []) ''cmdline'' (enc_arr JStr (pr_cmdline x)) @
     jopt (pr_username x \<noteq> []) ''username'' (JStr (pr_username x)) @
     jopt (pr_status x \<noteq> []) ''status'' (JStr (pr_status x)) @
     jopt (pr_num_threads x \<noteq> 0) ''num_threads'' (JInt (pr_num_threads x)) @
     jf ''cpu_percent'' (enc_f64 (pr_cpu_percent x)) @
     jf ''memory_percent'' (enc_f64 (pr_memory_percent x)) @
     jf ''memory_info'' (enc_memory_info (pr_memory_info x)) @
     jopt (pr_nice x \<noteq> 0) ''nice'' (JInt (pr_nice x)) @
     jopt (pr_create_time x \<noteq> 0) ''create_time'' (JInt (pr_create_time x)) @
     jf ''io_counters'' (enc_io_counters (pr_io_counters x))"

definition enc_process_item :: "process_item \<Rightarrow> json" where
  "enc_process_item x = JObj (enc_process_item_fields x)"


definition zero_process_item :: process_item where
  "zero_process_item = \<lparr>pr_pid = 0,
     pr_name = [],
     pr_cmdline = [],
     pr_username = [],
     pr_status = [],
     pr_num_threads = 0,
     pr_cpu_percent = (Num 0),
     pr_memory_percent = (Num 0),
     pr_memory_info = zero_memory_info,
     pr_nice = 0,
     pr_create_time = 0,
     pr_io_counters = zero_io_counters\<rparr>"


definition dec_process_item_body :: "(string \<times> json) list \<Rightarrow> process_item res" where
  "dec_process_item_body fs =
     attempt (jfield fs ''pid'' 0 (dec_int 32)) (\<lambda>v_pr_pid.
     attempt (jfield fs ''name'' [] dec_str) (\<lambda>v_pr_name.
     attempt (jfield fs ''cmdline'' [] (dec_list dec_str)) (\<lambda>v_pr_cmdline.
     attempt (jfield fs ''username'' [] dec_str) (\<lambda>v_pr_username.
     attempt (jfield fs ''status'' [] dec_str) (\<lambda>v_pr_status.
     attempt (jfield fs ''num_threads'' 0 (dec_int 32)) (\<lambda>v_pr_num_threads.
     attempt (jfield fs ''cpu_percent'' (Num 0) dec_f64) (\<lambda>v_pr_cpu_percent.
     attempt (jfield fs ''memory_percent'' (Num 0) dec_f64) (\<lambda>v_pr_memory_percent.
     attempt (jfield fs ''memory_info'' zero_memory_info dec_memory_info) (\<lambda>v_pr_memory_info.
     attempt (jfield fs ''nice'' 0 (dec_int 32)) (\<lambda>v_pr_nice.
     attempt (jfield fs ''create_time'' 0 (dec_int 64)) (\<lambda>v_pr_create_time.
     attempt (jfield fs ''io_counters'' zero_io_counters dec_io_counters) (\<lambda>v_pr_io_counters.
     Inr (zero_process_item\<lparr>pr_pid := v_pr_pid,
       pr_name := v_pr_name,
       pr_cmdline := v_pr_cmdline,
       pr_username := v_pr_username,
       pr_status := v_pr_status,
       pr_num_threads := v_pr_num_threads,
       pr_cpu_percent := v_pr_cpu_percent,
       pr_memory_percent := v_pr_memory_percent,
       pr_memory_info := v_pr_memory_info,
       pr_nice := v_pr_nice,
       pr_create_time := v_pr_create_time,
       pr_io_counters := v_pr_io_counters\<rparr>)))))))))))))"


definition dec_process_item :: "json \<Rightarrow> process_item res" where
  "dec_process_item = dec_struct dec_process_item_body zero_process_item"

definition enc_process_count_fields :: "process_count \<Rightarrow> (string \<times> json) list" where
  "enc_process_count_fields x =
     jf ''total'' (JInt (pc_total x)) @
     jf ''running'' (JInt (pc_running x)) @
     jf ''sleeping'' (JInt (pc_sleeping x)) @
     jopt (pc_stopped x \<noteq> 0) ''stopped'' (JInt (pc_stopped x)) @
     jopt (pc_zombie x \<noteq> 0) ''zombie'' (JInt (pc_zombie x)) @
     jopt (pc_blocked x \<noteq> 0) ''blocked'' (JInt (pc_blocked x)) @
     jopt (pc_idle x \<noteq> 0) ''idle'' (JInt (pc_idle x)) @
     jf ''thread'' (JInt (pc_thread x)) @
     jopt (pc_pid_max x \<noteq> 0) ''pid_max'' (JInt (pc_pid_max x))"

definition enc_process_count :: "process_count \<Rightarrow> json" where
  "enc_process_count x = JObj (enc_process_count_fields x)"


definition zero_process_count :: process_count where
  "zero_process_count = \<lparr>pc_total = 0,
     pc_running = 0,
     pc_sleeping = 0,
     pc_stopped = 0,
     pc_zombie = 0,
     pc_blocked = 0,
     pc_idle = 0,
     pc_thread = 0,
     pc_pid_max = 0\<rparr>"


definition dec_process_count_body :: "(string \<times> json) list \<Rightarrow> process_count res" where
  "dec_process_count_body fs =
     attempt (jfield fs ''total'' 0 (dec_int 64)) (\<lambda>v_pc_total.
     attempt (jfield fs ''running'' 0 (dec_int 64)) (\<lambda>v_pc_running.
     attempt (jfield fs ''sleeping'' 0 (dec_int 64)) (\<lambda>v_pc_sleeping.
     attempt (jfield fs ''stopped'' 0 (dec_int 64)) (\<lambda>v_pc_stopped.
     attempt (jfield fs ''zombie'' 0 (dec_int 64)) (\<lambda>v_pc_zombie.
     attempt (jfield fs ''blocked'' 0 (dec_int 64)) (\<lambda>v_pc_blocked.
     attempt (jfield fs ''idle'' 0 (dec_int 64)) (\<lambda>v_pc_idle.
     attempt (jfield fs ''thread'' 0 (dec_int 64)) (\<lambda>v_pc_thread.
     attempt (jfield fs ''pid_max'' 0 (dec_int 64)) (\<lambda>v_pc_pid_max.
     Inr (zero_process_count\<lparr>pc_total := v_pc_total,
       pc_running := v_pc_running,
       pc_sleeping := v_pc_sleeping,
       pc_stopped := v_pc_stopped,
       pc_zombie := v_pc_zombie,
       pc_blocked := v_pc_blocked,
       pc_idle := v_pc_idle,
       pc_thread := v_pc_thread,
       pc_pid_max := v_pc_pid_max\<rparr>))))))))))"


definition dec_process_count :: "json \<Rightarrow> process_count res" where
  "dec_process_count = dec_struct dec_process_count_body zero_process_count"

definition enc_program_item_fields :: "program_item \<Rightarrow> (string \<times> json) list" where
  "enc_program_item_fields x =
     jf ''name'' (JStr (pg_name x)) @
     jf ''count'' (JInt (pg_count x)) @
     jf ''cpu_percent'' (enc_f64 (pg_cpu_percent x)) @
     jf ''memory_percent'' (enc_f64 (pg_memory_percent x)) @
     jf ''memory_rss_bytes'' (enc_word (pg_memory_rss_bytes x)) @
     jopt (pg_pids x \<noteq> []) ''pids'' (enc_arr JInt (pg_pids x))"

definition enc_program_item :: "program_item \<Rightarrow> json" where
  "enc_program_item x = JObj (enc_program_item_fields x)"


definition zero_program_item :: program_item where
  "zero_program_item = \<lparr>pg_name = [],
     pg_count = 0,
     pg_cpu_percent = (Num 0),
     pg_memory_percent = (Num 0),
     pg_memory_rss_bytes = 0,
     pg_pids = []\<rparr>"


definition dec_program_item_body :: "(string \<times> json) list \<Rightarrow> program_item res" where
  "dec_program_item_body fs =
     attempt (jfield fs ''name'' [] dec_str) (\<lambda>v_pg_name.
     attempt (jfield fs ''count'' 0 (dec_int 64)) (\<lambda>v_pg_count.
     attempt (jfield fs ''cpu_percent'' (Num 0) dec_f64) (\<lambda>v_pg_cpu_percent.
     attempt (jfield fs ''memory_percent'' (Num 0) dec_f64) (\<lambda>v_pg_memory_percent.
     attempt (jfield fs ''memory_rss_bytes'' 0 dec_word) (\<lambda>v_pg_memory_rss_bytes.
     attempt (jfield fs ''pids'' [] (dec_list (dec_int 32))) (\<lambda>v_pg_pids.
     Inr (zero_program_item\<lparr>pg_name := v_pg_name,
       pg_count := v_pg_count,
       pg_cpu_percent := v_pg_cpu_percent,
       pg_memory_percent := v_pg_memory_percent,
       pg_memory_rss_bytes := v_pg_memory_rss_bytes,
       pg_pids := v_pg_pids\<rparr>)))))))"


definition dec_program_item :: "json \<Rightarrow> program_item res" where
  "dec_program_item = dec_struct dec_program_item_body zero_program_item"

definition enc_service_fields :: "service \<Rightarrow> (string \<times> json) list" where
  "enc_service_fields x =
     jf ''name'' (JStr (sv_name x)) @
     jf ''state'' (enc_word (sv_state x)) @
     jf ''cpu_percent'' (enc_f64 (sv_cpu x)) @
     jf ''memory_bytes'' (enc_word (sv_mem x)) @
     jf ''memory_peak_bytes'' (enc_word (sv_mem_peak x)) @
     jf ''sub_state'' (enc_word (sv_sub x)) @
     jf ''cpu_peak_percent'' (enc_f64 (sv_cpu_peak x))"

definition enc_service :: "service \<Rightarrow> json" where
  "enc_service x = JObj (enc_service_fields x)"


definition zero_service :: service where
  "zero_service = \<lparr>sv_name = [],
     sv_state = 0,
     sv_cpu = (Num 0),
     sv_mem = 0,
     sv_mem_peak = 0,
     sv_sub = 0,
     sv_cpu_peak = (Num 0),
     sv_prev_cpu_usage = 0,
     sv_prev_read_time = None\<rparr>"


definition dec_service_body :: "(string \<times> json) list \<Rightarrow> service res" where
  "dec_service_body fs =
     attempt (jfield fs ''name'' [] dec_str) (\<lambda>v_sv_name.
     attempt (jfield fs ''state'' 0 dec_word) (\<lambda>v_sv_state.
     attempt (jfield fs ''cpu_percent'' (Num 0) dec_f64) (\<lambda>v_sv_cpu.
     attempt (jfield fs ''memory_bytes'' 0 dec_word) (\<lambda>v_sv_mem.
     attempt (jfield fs ''memory_peak_bytes'' 0 dec_word) (\<lambda>v_sv_mem_peak.
     attempt (jfield fs ''sub_state'' 0 dec_word) (\<lambda>v_sv_sub.
     attempt (jfield fs ''cpu_peak_percent'' (Num 0) dec_f64) (\<lambda>v_sv_cpu_peak.
     Inr (zero_service\<lparr>sv_name := v_sv_name,
       sv_state := v_sv_state,
       sv_cpu := v_sv_cpu,
       sv_mem := v_sv_mem,
       sv_mem_peak := v_sv_mem_peak,
       sv_sub := v_sv_sub,
       sv_cpu_peak := v_sv_cpu_peak\<rparr>))))))))"


definition dec_service :: "json \<Rightarrow> service res" where
  "dec_service = dec_struct dec_service_body zero_service"

section \<open>Reading back the statistics\<close>

text \<open>
  What survives a trip through JSON: fields without a tag are zeroed, empty maps and slices
  become nil.  The \<open>clean\<close> predicates collect what the trip needs of a value: floats finite and
  not negative zero (which an omitted field would lose), arrays of their declared length, maps
  in key order.
\<close>

lemmas enc_shape = fold_keys_simps to_lower_def lower_char_def

lemma lower_fs_stats: "fold_keys (enc_fs_stats_fields x) = enc_fs_stats_fields x"
  unfolding enc_fs_stats_fields_def by (simp add: enc_shape)

lemma lower_gpu_data: "fold_keys (enc_gpu_data_fields x) = enc_gpu_data_fields x"
  unfolding enc_gpu_data_fields_def by (simp add: enc_shape)

lemma lower_stats: "fold_keys (enc_stats_fields x) = enc_stats_fields x"
  unfolding enc_stats_fields_def by (simp add: enc_shape)

definition fs_stats_public :: "fs_stats \<Rightarrow> fs_stats" where
  "fs_stats_public x = x\<lparr>fs_time := None, fs_root := False, fs_mountpoint := [], fs_name := [],
     fs_total_read := 0, fs_total_write := 0\<rparr>"

definition fs_stats_clean :: "fs_stats \<Rightarrow> bool" where
  "fs_stats_clean x = (list_all clean [fs_disk_total x, fs_disk_used x, fs_disk_read_ps x,
      fs_disk_write_ps x, fs_max_disk_read_ps x, fs_max_disk_write_ps x]
    \<and> length (fs_disk_io_stats x) = 6 \<and> list_all clean (fs_disk_io_stats x)
    \<and> length (fs_max_disk_io_stats x) = 6 \<and> list_all clean (fs_max_disk_io_stats x))"

lemma dec_enc_fs_stats [simp]:
  assumes "fs_stats_clean x"
  shows "dec_fs_stats (enc_fs_stats x) = Inr (fs_stats_public x)"
  using assms unfolding dec_fs_stats_def dec_struct_def enc_fs_stats_def json.case lower_fs_stats
  by (simp add: dec_fs_stats_body_def enc_fs_stats_fields_def jfield_val jlast_simps
      fs_stats_clean_def fs_stats_public_def zero_fs_stats_def split del: if_split)

definition gpu_data_public :: "gpu_data \<Rightarrow> gpu_data" where
  "gpu_data_public x = x\<lparr>gpu_temperature := Num 0, gpu_count := Num 0,
     gpu_engines := nonempty_opt (gpu_engines x)\<rparr>"

definition gpu_data_clean :: "gpu_data \<Rightarrow> bool" where
  "gpu_data_clean x = (list_all clean [gpu_memory_used x, gpu_memory_total x, gpu_usage x,
      gpu_power x, gpu_power_pkg x]
    \<and> opt_sorted (gpu_engines x) \<and> opt_all fin (gpu_engines x))"

lemma dec_enc_gpu_data [simp]:
  assumes "gpu_data_clean x"
  shows "dec_gpu_data (enc_gpu_data x) = Inr (gpu_data_public x)"
  using assms unfolding dec_gpu_data_def dec_struct_def enc_gpu_data_def json.case lower_gpu_data
  by (simp add: dec_gpu_data_body_def enc_gpu_data_fields_def jfield_val jlast_simps
      gpu_data_clean_def gpu_data_public_def zero_gpu_data_def split del: if_split)

text \<open>
  What the maps of a struct need of the codec of their values: a value that can be stored is read back as
  its exported part.
\<close>

locale value_codec =
  fixes enc :: "'a \<Rightarrow> json" and dec :: "json \<Rightarrow> 'a res" and public :: "'a \<Rightarrow> 'a" and storable :: "'a \<Rightarrow> bool"
  assumes read_back: "storable x \<Longrightarrow> dec (enc x) = Inr (public x)"
begin

lemma field_map:
  "opt_sorted x \<Longrightarrow> opt_all storable x \<Longrightarrow>
    field_val (if empty_opt x then None else Some (enc_opt (enc_map enc) x)) None (dec_map dec)
    = Inr (map_option (mvals public) (nonempty_opt x))"
  by (rule field_map_general [of storable]) (simp_all add: read_back)

end

interpretation fs_stats_codec: value_codec enc_fs_stats dec_fs_stats fs_stats_public fs_stats_clean
  by unfold_locales simp

interpretation gpu_data_codec: value_codec enc_gpu_data dec_gpu_data gpu_data_public gpu_data_clean
  by unfold_locales simp

interpretation quad_codec: value_codec enc_quad dec_quad "\<lambda>v. v" "\<lambda>_. True"
  by unfold_locales simp

lemmas field_map_fs_stats [simp] = fs_stats_codec.field_map
lemmas field_map_gpu_data [simp] = gpu_data_codec.field_map

lemma field_map_quad [simp]:
  "opt_sorted x \<Longrightarrow>
    field_val (if empty_opt x then None else Some (enc_opt (enc_map enc_quad) x)) None (dec_map dec_quad)
    = Inr (nonempty_opt x)"
  using quad_codec.field_map [of x] by (cases x) (simp_all add: option.map_ident opt_all_def)

definition stats_public :: "stats \<Rightarrow> stats" where
  "stats_public x = x\<lparr>
     s_temperatures := nonempty_opt (s_temperatures x),
     s_extra_fs := map_option (mvals fs_stats_public) (nonempty_opt (s_extra_fs x)),
     s_gpu_data := map_option (mvals gpu_data_public) (nonempty_opt (s_gpu_data x)),
     s_network_interfaces := nonempty_opt (s_network_interfaces x),
     s_cpu_breakdown := nonempty_opt (s_cpu_breakdown x),
     s_cpu_cores_usage := nonempty_opt (s_cpu_cores_usage x)\<rparr>"

definition stats_floats :: "stats \<Rightarrow> f64 list" where
  "stats_floats x = [s_cpu x, s_max_cpu x, s_mem x, s_max_mem x, s_mem_used x, s_mem_pct x,
     s_mem_buff_cache x, s_mem_zfs_arc x, s_swap x, s_swap_used x, s_swap_pct x,
     s_mem_available x, s_mem_cached x, s_mem_buffers x, s_disk_total x, s_disk_used x,
     s_disk_pct x, s_disk_read_ps x, s_disk_write_ps x, s_max_disk_read_ps x,
     s_max_disk_write_ps x]"

definition stats_clean :: "stats \<Rightarrow> bool" where
  "stats_clean x = (list_all clean (stats_floats x)
    \<and> opt_sorted (s_temperatures x) \<and> opt_all fin (s_temperatures x)
    \<and> opt_sorted (s_extra_fs x) \<and> opt_all fs_stats_clean (s_extra_fs x)
    \<and> opt_sorted (s_gpu_data x) \<and> opt_all gpu_data_clean (s_gpu_data x)
    \<and> opt_sorted (s_network_interfaces x)
    \<and> length (s_load_avg x) = 3 \<and> list_all clean (s_load_avg x)
    \<and> (\<forall>xs. s_cpu_breakdown x = Some xs \<longrightarrow> list_all fin xs)
    \<and> length (s_disk_io_stats x) = 6 \<and> list_all clean (s_disk_io_stats x)
    \<and> length (s_max_disk_io_stats x) = 6 \<and> list_all clean (s_max_disk_io_stats x))"

lemma dec_enc_stats [simp]:
  assumes "stats_clean x"
  shows "dec_stats (enc_stats x) = Inr (stats_public x)"
  using assms unfolding dec_stats_def dec_struct_def enc_stats_def json.case lower_stats
  by (simp add: dec_stats_body_def enc_stats_fields_def jfield_val jlast_simps
      stats_clean_def stats_floats_def stats_public_def zero_stats_def split del: if_split)

text \<open>Clean statistics marshal: no NaN and no infinity anywhere.\<close>

lemma jfinite_obj_append:
  "jfinite (JObj (a @ b)) = (jfinite (JObj a) \<and> jfinite (JObj b))"
  "jfinite (JObj (jf k v)) = jfinite v"
  "jfinite (JObj (jopt c k v)) = (c \<longrightarrow> jfinite v)"
  by (auto simp: jf_def jopt_def)

lemma jfinite_enc_opt_map:
  "(\<And>v. P v \<Longrightarrow> jfinite (e v)) \<Longrightarrow> opt_all P x \<Longrightarrow> jfinite (enc_opt (enc_map e) x)"
  by (cases x) (auto simp: opt_all_def)

lemma jfinite_floats [simp]: "list_all clean xs \<Longrightarrow> jfinite (enc_arr enc_f64 xs)"
  by (auto simp: list_all_iff)

lemma jfinite_fs_stats: "fs_stats_clean x \<Longrightarrow> jfinite (enc_fs_stats x)"
  unfolding enc_fs_stats_def enc_fs_stats_fields_def jfinite_obj_append
  by (simp add: fs_stats_clean_def del: enc_arr_simps)

lemma jfinite_engines [simp]: "opt_all fin x \<Longrightarrow> jfinite (enc_opt (enc_map enc_f64) x)"
  by (rule jfinite_enc_opt_map) simp_all

lemma jfinite_gpu_data: "gpu_data_clean x \<Longrightarrow> jfinite (enc_gpu_data x)"
  unfolding enc_gpu_data_def enc_gpu_data_fields_def jfinite_obj_append
  by (simp add: gpu_data_clean_def)

lemma jfinite_maps [simp]:
  "opt_all fs_stats_clean f \<Longrightarrow> jfinite (enc_opt (enc_map enc_fs_stats) f)"
  "opt_all gpu_data_clean g \<Longrightarrow> jfinite (enc_opt (enc_map enc_gpu_data) g)"
  "jfinite (enc_opt (enc_map enc_quad) q)"
  "jfinite (enc_opt (enc_arr enc_word) w)"
  by (rule jfinite_enc_opt_map [OF jfinite_fs_stats] jfinite_enc_opt_map [OF jfinite_gpu_data]; assumption)+
     (cases q; auto simp: enc_opt_def; fail | cases w; auto simp: enc_opt_def)+

lemma jfinite_breakdown [simp]:
  "\<forall>xs. b = Some xs \<longrightarrow> list_all fin xs \<Longrightarrow> jfinite (enc_opt (enc_arr enc_f64) b)"
  by (cases b) (auto simp: list_all_iff)

lemma jfinite_stats: "stats_clean x \<Longrightarrow> jfinite (enc_stats x)"
  unfolding enc_stats_def enc_stats_fields_def jfinite_obj_append
  by (simp add: stats_clean_def stats_floats_def del: enc_arr_simps)

end
