(* ===== verification/Plugins.thy ===== *)
theory Plugins
  imports Codecs
begin

text \<open>
  \<open>internal/store/plugins.go\<close>: the plugin names and the history allowlist, the payload type
  of every plugin with its JSON form, how a snapshot is cut into payloads and how a stored
  payload is put back into a snapshot.
\<close>

section \<open>Names\<close>

abbreviation (input) "PluginCPU \<equiv> ''cpu''"
abbreviation (input) "PluginMem \<equiv> ''mem''"
abbreviation (input) "PluginSwap \<equiv> ''swap''"
abbreviation (input) "PluginLoad \<equiv> ''load''"
abbreviation (input) "PluginDiskIO \<equiv> ''diskio''"
abbreviation (input) "PluginFS \<equiv> ''fs''"
abbreviation (input) "PluginNetwork \<equiv> ''network''"
abbreviation (input) "PluginGPU \<equiv> ''gpu''"
abbreviation (input) "PluginSensors \<equiv> ''sensors''"
abbreviation (input) "PluginContainers \<equiv> ''containers''"
abbreviation (input) "PluginSystemd \<equiv> ''systemd''"
abbreviation (input) "PluginProcesses \<equiv> ''processes''"
abbreviation (input) "PluginPrograms \<equiv> ''programs''"
abbreviation (input) "PluginConnections \<equiv> ''connections''"
abbreviation (input) "PluginIRQ \<equiv> ''irq''"
abbreviation (input) "PluginSmart \<equiv> ''smart''"

definition plugin_names :: "string list" where
  "plugin_names = [PluginCPU, PluginMem, PluginSwap, PluginLoad, PluginDiskIO, PluginFS,
     PluginNetwork, PluginGPU, PluginSensors, PluginContainers, PluginSystemd, PluginProcesses,
     PluginPrograms, PluginConnections, PluginIRQ, PluginSmart]"

definition default_history_plugin_names :: "string list" where
  "default_history_plugin_names = [PluginCPU, PluginMem, PluginSwap, PluginDiskIO, PluginNetwork,
     PluginContainers]"

definition is_plugin_name :: "string \<Rightarrow> bool" where
  "is_plugin_name name = (name \<in> set plugin_names)"

definition plugin_current_table :: "string \<Rightarrow> string" where
  "plugin_current_table plugin = plugin @ ''_current''"

definition plugin_history_table :: "string \<Rightarrow> string" where
  "plugin_history_table plugin = plugin @ ''_history''"

lemma distinct_plugin_names: "distinct plugin_names"
  by (simp add: plugin_names_def)

lemma default_history_are_plugins: "set default_history_plugin_names \<subseteq> set plugin_names"
  by (simp add: default_history_plugin_names_def plugin_names_def)

section \<open>Payload types\<close>

record cpu_data =
  cpu_cpu :: f64
  cpu_max_cpu :: f64
  cpu_breakdown :: "f64 list option"
  cpu_cores_usage :: "u8 list option"

record mem_data =
  mem_mem :: f64
  mem_max_mem :: f64
  mem_used :: f64
  mem_pct :: f64
  mem_buff_cache :: f64
  mem_zfs_arc :: f64
  mem_swap_total :: f64
  mem_swap_used :: f64
  mem_swap_pct :: f64
  mem_available :: f64
  mem_cached :: f64
  mem_buffers :: f64

record swap_data =
  sw_swap :: f64
  sw_swap_used :: f64

record load_data =
  ld_load_avg :: "f64 list"
  ld_battery :: "u8 \<times> u8"

record disk_io_data =
  di_disk_total :: f64
  di_disk_used :: f64
  di_disk_pct :: f64
  di_disk_read_ps :: f64
  di_disk_write_ps :: f64
  di_max_disk_read_ps :: f64
  di_max_disk_write_ps :: f64
  di_disk_io :: "u64 \<times> u64"
  di_max_disk_io :: "u64 \<times> u64"
  di_disk_io_stats :: "f64 list"
  di_max_disk_io_stats :: "f64 list"

record fs_data =
  fd_extra_fs :: "(string, fs_stats) gmap option"

record network_data =
  nd_bandwidth :: "u64 \<times> u64"
  nd_max_bandwidth :: "u64 \<times> u64"
  nd_network_interfaces :: "(string, quad) gmap option"

record sensors_data =
  sd_temperatures :: "(string, f64) gmap option"

record processes_data =
  pd_count :: "process_count option"
  pd_items :: "process_item list option"

record container_current_record =
  cc_id :: string
  cc_name :: string
  cc_image :: string
  cc_ports :: string
  cc_status :: string
  cc_health :: u8
  cc_cpu :: f64
  cc_mem :: f64
  cc_bandwidth :: "u64 \<times> u64"

datatype payload =
    PCpu cpu_data
  | PMem mem_data
  | PSwap swap_data
  | PLoad load_data
  | PDiskIO disk_io_data
  | PFs fs_data
  | PNetwork network_data
  | PGpu "(string, gpu_data) gmap"
  | PSensors sensors_data
  | PContainers "container_current_record list"
  | PSystemd "service list"
  | PProcesses processes_data
  | PPrograms "program_item list"
  | PConnections connection_stats
  | PIrq "irq_stat list"

section \<open>JSON forms\<close>

definition enc_cpu_data_fields :: "cpu_data \<Rightarrow> (string \<times> json) list" where
  "enc_cpu_data_fields x =
     jf ''cpu_percent'' (enc_f64 (cpu_cpu x)) @
     jopt (\<not> is_zero (cpu_max_cpu x)) ''max_cpu_percent'' (enc_f64 (cpu_max_cpu x)) @
     jopt (\<not> empty_opt (cpu_breakdown x)) ''cpu_breakdown_percent'' (enc_opt (enc_arr enc_f64) (cpu_breakdown x)) @
     jopt (\<not> empty_opt (cpu_cores_usage x)) ''cpu_cores_percent'' (enc_opt (enc_arr enc_word) (cpu_cores_usage x))"

definition enc_cpu_data :: "cpu_data \<Rightarrow> json" where
  "enc_cpu_data x = JObj (enc_cpu_data_fields x)"


definition zero_cpu_data :: cpu_data where
  "zero_cpu_data = \<lparr>cpu_cpu = (Num 0),
     cpu_max_cpu = (Num 0),
     cpu_breakdown = None,
     cpu_cores_usage = None\<rparr>"


definition dec_cpu_data_body :: "(string \<times> json) list \<Rightarrow> cpu_data res" where
  "dec_cpu_data_body fs =
     attempt (jfield fs ''cpu_percent'' (Num 0) dec_f64) (\<lambda>v_cpu_cpu.
     attempt (jfield fs ''max_cpu_percent'' (Num 0) dec_f64) (\<lambda>v_cpu_max_cpu.
     attempt (jfield fs ''cpu_breakdown_percent'' None (dec_slice dec_f64)) (\<lambda>v_cpu_breakdown.
     attempt (jfield fs ''cpu_cores_percent'' None (dec_slice dec_word)) (\<lambda>v_cpu_cores_usage.
     Inr (zero_cpu_data\<lparr>cpu_cpu := v_cpu_cpu,
       cpu_max_cpu := v_cpu_max_cpu,
       cpu_breakdown := v_cpu_breakdown,
       cpu_cores_usage := v_cpu_cores_usage\<rparr>)))))"


definition dec_cpu_data :: "json \<Rightarrow> cpu_data res" where
  "dec_cpu_data = dec_struct dec_cpu_data_body zero_cpu_data"

definition enc_mem_data_fields :: "mem_data \<Rightarrow> (string \<times> json) list" where
  "enc_mem_data_fields x =
     jf ''memory_gb'' (enc_f64 (mem_mem x)) @
     jopt (\<not> is_zero (mem_max_mem x)) ''max_memory_gb'' (enc_f64 (mem_max_mem x)) @
     jf ''memory_used_gb'' (enc_f64 (mem_used x)) @
     jf ''memory_percent'' (enc_f64 (mem_pct x)) @
     jf ''memory_buffer_cache_gb'' (enc_f64 (mem_buff_cache x)) @
     jopt (\<not> is_zero (mem_zfs_arc x)) ''memory_zfs_arc_gb'' (enc_f64 (mem_zfs_arc x)) @
     jf ''memory_swap_total_gb'' (enc_f64 (mem_swap_total x)) @
     jf ''memory_swap_used_gb'' (enc_f64 (mem_swap_used x)) @
     jf ''memory_swap_percent'' (enc_f64 (mem_swap_pct x)) @
     jf ''memory_available_gb'' (enc_f64 (mem_available x)) @
     jf ''memory_cached_gb'' (enc_f64 (mem_cached x)) @
     jf ''memory_buffers_gb'' (enc_f64 (mem_buffers x))"

definition enc_mem_data :: "mem_data \<Rightarrow> json" where
  "enc_mem_data x = JObj (enc_mem_data_fields x)"


definition zero_mem_data :: mem_data where
  "zero_mem_data = \<lparr>mem_mem = (Num 0),
     mem_max_mem = (Num 0),
     mem_used = (Num 0),
     mem_pct = (Num 0),
     mem_buff_cache = (Num 0),
     mem_zfs_arc = (Num 0),
     mem_swap_total = (Num 0),
     mem_swap_used = (Num 0),
     mem_swap_pct = (Num 0),
     mem_available = (Num 0),
     mem_cached = (Num 0),
     mem_buffers = (Num 0)\<rparr>"


definition dec_mem_data_body :: "(string \<times> json) list \<Rightarrow> mem_data res" where
  "dec_mem_data_body fs =
     attempt (jfield fs ''memory_gb'' (Num 0) dec_f64) (\<lambda>v_mem_mem.
     attempt (jfield fs ''max_memory_gb'' (Num 0) dec_f64) (\<lambda>v_mem_max_mem.
     attempt (jfield fs ''memory_used_gb'' (Num 0) dec_f64) (\<lambda>v_mem_used.
     attempt (jfield fs ''memory_percent'' (Num 0) dec_f64) (\<lambda>v_mem_pct.
     attempt (jfield fs ''memory_buffer_cache_gb'' (Num 0) dec_f64) (\<lambda>v_mem_buff_cache.
     attempt (jfield fs ''memory_zfs_arc_gb'' (Num 0) dec_f64) (\<lambda>v_mem_zfs_arc.
     attempt (jfield fs ''memory_swap_total_gb'' (Num 0) dec_f64) (\<lambda>v_mem_swap_total.
     attempt (jfield fs ''memory_swap_used_gb'' (Num 0) dec_f64) (\<lambda>v_mem_swap_used.
     attempt (jfield fs ''memory_swap_percent'' (Num 0) dec_f64) (\<lambda>v_mem_swap_pct.
     attempt (jfield fs ''memory_available_gb'' (Num 0) dec_f64) (\<lambda>v_mem_available.
     attempt (jfield fs ''memory_cached_gb'' (Num 0) dec_f64) (\<lambda>v_mem_cached.
     attempt (jfield fs ''memory_buffers_gb'' (Num 0) dec_f64) (\<lambda>v_mem_buffers.
     Inr (zero_mem_data\<lparr>mem_mem := v_mem_mem,
       mem_max_mem := v_mem_max_mem,
       mem_used := v_mem_used,
       mem_pct := v_mem_pct,
       mem_buff_cache := v_mem_buff_cache,
       mem_zfs_arc := v_mem_zfs_arc,
       mem_swap_total := v_mem_swap_total,
       mem_swap_used := v_mem_swap_used,
       mem_swap_pct := v_mem_swap_pct,
       mem_available := v_mem_available,
       mem_cached := v_mem_cached,
       mem_buffers := v_mem_buffers\<rparr>)))))))))))))"


definition dec_mem_data :: "json \<Rightarrow> mem_data res" where
  "dec_mem_data = dec_struct dec_mem_data_body zero_mem_data"

definition enc_swap_data_fields :: "swap_data \<Rightarrow> (string \<times> json) list" where
  "enc_swap_data_fields x =
     jopt (\<not> is_zero (sw_swap x)) ''swap_gb'' (enc_f64 (sw_swap x)) @
     jopt (\<not> is_zero (sw_swap_used x)) ''swap_used_gb'' (enc_f64 (sw_swap_used x))"

definition enc_swap_data :: "swap_data \<Rightarrow> json" where
  "enc_swap_data x = JObj (enc_swap_data_fields x)"


definition zero_swap_data :: swap_data where
  "zero_swap_data = \<lparr>sw_swap = (Num 0),
     sw_swap_used = (Num 0)\<rparr>"


definition dec_swap_data_body :: "(string \<times> json) list \<Rightarrow> swap_data res" where
  "dec_swap_data_body fs =
     attempt (jfield fs ''swap_gb'' (Num 0) dec_f64) (\<lambda>v_sw_swap.
     attempt (jfield fs ''swap_used_gb'' (Num 0) dec_f64) (\<lambda>v_sw_swap_used.
     Inr (zero_swap_data\<lparr>sw_swap := v_sw_swap,
       sw_swap_used := v_sw_swap_used\<rparr>)))"


definition dec_swap_data :: "json \<Rightarrow> swap_data res" where
  "dec_swap_data = dec_struct dec_swap_data_body zero_swap_data"

definition enc_load_data_fields :: "load_data \<Rightarrow> (string \<times> json) list" where
  "enc_load_data_fields x =
     jf ''load_average'' (enc_arr enc_f64 (ld_load_avg x)) @
     jopt (ld_battery x \<noteq> (0, 0)) ''battery'' (enc_pair enc_word (ld_battery x))"

definition enc_load_data :: "load_data \<Rightarrow> json" where
  "enc_load_data x = JObj (enc_load_data_fields x)"


definition zero_load_data :: load_data where
  "zero_load_data = \<lparr>ld_load_avg = (zeros 3),
     ld_battery = (0, 0)\<rparr>"


definition dec_load_data_body :: "(string \<times> json) list \<Rightarrow> load_data res" where
  "dec_load_data_body fs =
     attempt (jfield fs ''load_average'' (zeros 3) (dec_arr 3 (Num 0) dec_f64)) (\<lambda>v_ld_load_avg.
     attempt (jfield fs ''battery'' (0, 0) (dec_pair 0 dec_word)) (\<lambda>v_ld_battery.
     Inr (zero_load_data\<lparr>ld_load_avg := v_ld_load_avg,
       ld_battery := v_ld_battery\<rparr>)))"


definition dec_load_data :: "json \<Rightarrow> load_data res" where
  "dec_load_data = dec_struct dec_load_data_body zero_load_data"

definition enc_disk_io_data_fields :: "disk_io_data \<Rightarrow> (string \<times> json) list" where
  "enc_disk_io_data_fields x =
     jf ''disk_total_gb'' (enc_f64 (di_disk_total x)) @
     jf ''disk_used_gb'' (enc_f64 (di_disk_used x)) @
     jf ''disk_percent'' (enc_f64 (di_disk_pct x)) @
     jopt (\<not> is_zero (di_disk_read_ps x)) ''disk_read_mb_per_second'' (enc_f64 (di_disk_read_ps x)) @
     jopt (\<not> is_zero (di_disk_write_ps x)) ''disk_write_mb_per_second'' (enc_f64 (di_disk_write_ps x)) @
     jopt (\<not> is_zero (di_max_disk_read_ps x)) ''max_disk_read_mb_per_second'' (enc_f64 (di_max_disk_read_ps x)) @
     jopt (\<not> is_zero (di_max_disk_write_ps x)) ''max_disk_write_mb_per_second'' (enc_f64 (di_max_disk_write_ps x)) @
     jopt (di_disk_io x \<noteq> (0, 0)) ''disk_io_bytes_per_second'' (enc_pair enc_word (di_disk_io x)) @
     jopt (di_max_disk_io x \<noteq> (0, 0)) ''max_disk_io_bytes_per_second'' (enc_pair enc_word (di_max_disk_io x)) @
     jopt (\<not> list_all is_zero (di_disk_io_stats x)) ''disk_io_stats'' (enc_arr enc_f64 (di_disk_io_stats x)) @
     jopt (\<not> list_all is_zero (di_max_disk_io_stats x)) ''max_disk_io_stats'' (enc_arr enc_f64 (di_max_disk_io_stats x))"

definition enc_disk_io_data :: "disk_io_data \<Rightarrow> json" where
  "enc_disk_io_data x = JObj (enc_disk_io_data_fields x)"


definition zero_disk_io_data :: disk_io_data where
  "zero_disk_io_data = \<lparr>di_disk_total = (Num 0),
     di_disk_used = (Num 0),
     di_disk_pct = (Num 0),
     di_disk_read_ps = (Num 0),
     di_disk_write_ps = (Num 0),
     di_max_disk_read_ps = (Num 0),
     di_max_disk_write_ps = (Num 0),
     di_disk_io = (0, 0),
     di_max_disk_io = (0, 0),
     di_disk_io_stats = (zeros 6),
     di_max_disk_io_stats = (zeros 6)\<rparr>"


definition dec_disk_io_data_body :: "(string \<times> json) list \<Rightarrow> disk_io_data res" where
  "dec_disk_io_data_body fs =
     attempt (jfield fs ''disk_total_gb'' (Num 0) dec_f64) (\<lambda>v_di_disk_total.
     attempt (jfield fs ''disk_used_gb'' (Num 0) dec_f64) (\<lambda>v_di_disk_used.
     attempt (jfield fs ''disk_percent'' (Num 0) dec_f64) (\<lambda>v_di_disk_pct.
     attempt (jfield fs ''disk_read_mb_per_second'' (Num 0) dec_f64) (\<lambda>v_di_disk_read_ps.
     attempt (jfield fs ''disk_write_mb_per_second'' (Num 0) dec_f64) (\<lambda>v_di_disk_write_ps.
     attempt (jfield fs ''max_disk_read_mb_per_second'' (Num 0) dec_f64) (\<lambda>v_di_max_disk_read_ps.
     attempt (jfield fs ''max_disk_write_mb_per_second'' (Num 0) dec_f64) (\<lambda>v_di_max_disk_write_ps.
     attempt (jfield fs ''disk_io_bytes_per_second'' (0, 0) (dec_pair 0 dec_word)) (\<lambda>v_di_disk_io.
     attempt (jfield fs ''max_disk_io_bytes_per_second'' (0, 0) (dec_pair 0 dec_word)) (\<lambda>v_di_max_disk_io.
     attempt (jfield fs ''disk_io_stats'' (zeros 6) (dec_arr 6 (Num 0) dec_f64)) (\<lambda>v_di_disk_io_stats.
     attempt (jfield fs ''max_disk_io_stats'' (zeros 6) (dec_arr 6 (Num 0) dec_f64)) (\<lambda>v_di_max_disk_io_stats.
     Inr (zero_disk_io_data\<lparr>di_disk_total := v_di_disk_total,
       di_disk_used := v_di_disk_used,
       di_disk_pct := v_di_disk_pct,
       di_disk_read_ps := v_di_disk_read_ps,
       di_disk_write_ps := v_di_disk_write_ps,
       di_max_disk_read_ps := v_di_max_disk_read_ps,
       di_max_disk_write_ps := v_di_max_disk_write_ps,
       di_disk_io := v_di_disk_io,
       di_max_disk_io := v_di_max_disk_io,
       di_disk_io_stats := v_di_disk_io_stats,
       di_max_disk_io_stats := v_di_max_disk_io_stats\<rparr>))))))))))))"


definition dec_disk_io_data :: "json \<Rightarrow> disk_io_data res" where
  "dec_disk_io_data = dec_struct dec_disk_io_data_body zero_disk_io_data"

definition enc_fs_data_fields :: "fs_data \<Rightarrow> (string \<times> json) list" where
  "enc_fs_data_fields x =
     jopt (\<not> empty_opt (fd_extra_fs x)) ''extra_filesystems'' (enc_opt (enc_map enc_fs_stats) (fd_extra_fs x))"

definition enc_fs_data :: "fs_data \<Rightarrow> json" where
  "enc_fs_data x = JObj (enc_fs_data_fields x)"


definition zero_fs_data :: fs_data where
  "zero_fs_data = \<lparr>fd_extra_fs = None\<rparr>"


definition dec_fs_data_body :: "(string \<times> json) list \<Rightarrow> fs_data res" where
  "dec_fs_data_body fs =
     attempt (jfield fs ''extra_filesystems'' None (dec_map dec_fs_stats)) (\<lambda>v_fd_extra_fs.
     Inr (zero_fs_data\<lparr>fd_extra_fs := v_fd_extra_fs\<rparr>))"


definition dec_fs_data :: "json \<Rightarrow> fs_data res" where
  "dec_fs_data = dec_struct dec_fs_data_body zero_fs_data"

definition enc_network_data_fields :: "network_data \<Rightarrow> (string \<times> json) list" where
  "enc_network_data_fields x =
     jopt (nd_bandwidth x \<noteq> (0, 0)) ''bandwidth_bytes_per_second'' (enc_pair enc_word (nd_bandwidth x)) @
     jopt (nd_max_bandwidth x \<noteq> (0, 0)) ''max_bandwidth_bytes_per_second'' (enc_pair enc_word (nd_max_bandwidth x)) @
     jopt (\<not> empty_opt (nd_network_interfaces x)) ''network_interfaces'' (enc_opt (enc_map enc_quad) (nd_network_interfaces x))"

definition enc_network_data :: "network_data \<Rightarrow> json" where
  "enc_network_data x = JObj (enc_network_data_fields x)"


definition zero_network_data :: network_data where
  "zero_network_data = \<lparr>nd_bandwidth = (0, 0),
     nd_max_bandwidth = (0, 0),
     nd_network_interfaces = None\<rparr>"


definition dec_network_data_body :: "(string \<times> json) list \<Rightarrow> network_data res" where
  "dec_network_data_body fs =
     attempt (jfield fs ''bandwidth_bytes_per_second'' (0, 0) (dec_pair 0 dec_word)) (\<lambda>v_nd_bandwidth.
     attempt (jfield fs ''max_bandwidth_bytes_per_second'' (0, 0) (dec_pair 0 dec_word)) (\<lambda>v_nd_max_bandwidth.
     attempt (jfield fs ''network_interfaces'' None (dec_map dec_quad)) (\<lambda>v_nd_network_interfaces.
     Inr (zero_network_data\<lparr>nd_bandwidth := v_nd_bandwidth,
       nd_max_bandwidth := v_nd_max_bandwidth,
       nd_network_interfaces := v_nd_network_interfaces\<rparr>))))"


definition dec_network_data :: "json \<Rightarrow> network_data res" where
  "dec_network_data = dec_struct dec_network_data_body zero_network_data"

definition enc_sensors_data_fields :: "sensors_data \<Rightarrow> (string \<times> json) list" where
  "enc_sensors_data_fields x =
     jopt (\<not> empty_opt (sd_temperatures x)) ''temperatures'' (enc_opt (enc_map enc_f64) (sd_temperatures x))"

definition enc_sensors_data :: "sensors_data \<Rightarrow> json" where
  "enc_sensors_data x = JObj (enc_sensors_data_fields x)"


definition zero_sensors_data :: sensors_data where
  "zero_sensors_data = \<lparr>sd_temperatures = None\<rparr>"


definition dec_sensors_data_body :: "(string \<times> json) list \<Rightarrow> sensors_data res" where
  "dec_sensors_data_body fs =
     attempt (jfield fs ''temperatures'' None (dec_map dec_f64)) (\<lambda>v_sd_temperatures.
     Inr (zero_sensors_data\<lparr>sd_temperatures := v_sd_temperatures\<rparr>))"


definition dec_sensors_data :: "json \<Rightarrow> sensors_data res" where
  "dec_sensors_data = dec_struct dec_sensors_data_body zero_sensors_data"

definition enc_processes_data_fields :: "processes_data \<Rightarrow> (string \<times> json) list" where
  "enc_processes_data_fields x =
     jopt (pd_count x \<noteq> None) ''count'' (enc_opt enc_process_count (pd_count x)) @
     jf ''items'' (enc_opt (enc_arr enc_process_item) (pd_items x))"

definition enc_processes_data :: "processes_data \<Rightarrow> json" where
  "enc_processes_data x = JObj (enc_processes_data_fields x)"


definition zero_processes_data :: processes_data where
  "zero_processes_data = \<lparr>pd_count = None,
     pd_items = None\<rparr>"


definition dec_processes_data_body :: "(string \<times> json) list \<Rightarrow> processes_data res" where
  "dec_processes_data_body fs =
     attempt (jfield fs ''count'' None (dec_ptr dec_process_count)) (\<lambda>v_pd_count.
     attempt (jfield fs ''items'' None (dec_slice dec_process_item)) (\<lambda>v_pd_items.
     Inr (zero_processes_data\<lparr>pd_count := v_pd_count,
       pd_items := v_pd_items\<rparr>)))"


definition dec_processes_data :: "json \<Rightarrow> processes_data res" where
  "dec_processes_data = dec_struct dec_processes_data_body zero_processes_data"

definition enc_container_current_record_fields :: "container_current_record \<Rightarrow> (string \<times> json) list" where
  "enc_container_current_record_fields x =
     jf ''id'' (JStr (cc_id x)) @
     jf ''name'' (JStr (cc_name x)) @
     jopt (cc_image x \<noteq> []) ''image'' (JStr (cc_image x)) @
     jopt (cc_ports x \<noteq> []) ''ports'' (JStr (cc_ports x)) @
     jopt (cc_status x \<noteq> []) ''status'' (JStr (cc_status x)) @
     jopt (cc_health x \<noteq> 0) ''health'' (enc_word (cc_health x)) @
     jf ''cpu_percent'' (enc_f64 (cc_cpu x)) @
     jf ''memory_mb'' (enc_f64 (cc_mem x)) @
     jopt (cc_bandwidth x \<noteq> (0, 0)) ''bandwidth_bytes'' (enc_pair enc_word (cc_bandwidth x))"

definition enc_container_current_record :: "container_current_record \<Rightarrow> json" where
  "enc_container_current_record x = JObj (enc_container_current_record_fields x)"


definition zero_container_current_record :: container_current_record where
  "zero_container_current_record = \<lparr>cc_id = [],
     cc_name = [],
     cc_image = [],
     cc_ports = [],
     cc_status = [],
     cc_health = 0,
     cc_cpu = (Num 0),
     cc_mem = (Num 0),
     cc_bandwidth = (0, 0)\<rparr>"


definition dec_container_current_record_body :: "(string \<times> json) list \<Rightarrow> container_current_record res" where
  "dec_container_current_record_body fs =
     attempt (jfield fs ''id'' [] dec_str) (\<lambda>v_cc_id.
     attempt (jfield fs ''name'' [] dec_str) (\<lambda>v_cc_name.
     attempt (jfield fs ''image'' [] dec_str) (\<lambda>v_cc_image.
     attempt (jfield fs ''ports'' [] dec_str) (\<lambda>v_cc_ports.
     attempt (jfield fs ''status'' [] dec_str) (\<lambda>v_cc_status.
     attempt (jfield fs ''health'' 0 dec_word) (\<lambda>v_cc_health.
     attempt (jfield fs ''cpu_percent'' (Num 0) dec_f64) (\<lambda>v_cc_cpu.
     attempt (jfield fs ''memory_mb'' (Num 0) dec_f64) (\<lambda>v_cc_mem.
     attempt (jfield fs ''bandwidth_bytes'' (0, 0) (dec_pair 0 dec_word)) (\<lambda>v_cc_bandwidth.
     Inr (zero_container_current_record\<lparr>cc_id := v_cc_id,
       cc_name := v_cc_name,
       cc_image := v_cc_image,
       cc_ports := v_cc_ports,
       cc_status := v_cc_status,
       cc_health := v_cc_health,
       cc_cpu := v_cc_cpu,
       cc_mem := v_cc_mem,
       cc_bandwidth := v_cc_bandwidth\<rparr>))))))))))"


definition dec_container_current_record :: "json \<Rightarrow> container_current_record res" where
  "dec_container_current_record = dec_struct dec_container_current_record_body zero_container_current_record"

definition enc_payload :: "payload \<Rightarrow> json" where
  "enc_payload p = (case p of
     PCpu d \<Rightarrow> enc_cpu_data d
   | PMem d \<Rightarrow> enc_mem_data d
   | PSwap d \<Rightarrow> enc_swap_data d
   | PLoad d \<Rightarrow> enc_load_data d
   | PDiskIO d \<Rightarrow> enc_disk_io_data d
   | PFs d \<Rightarrow> enc_fs_data d
   | PNetwork d \<Rightarrow> enc_network_data d
   | PGpu m \<Rightarrow> enc_map enc_gpu_data m
   | PSensors d \<Rightarrow> enc_sensors_data d
   | PContainers xs \<Rightarrow> enc_arr enc_container_current_record xs
   | PSystemd xs \<Rightarrow> enc_arr enc_service xs
   | PProcesses d \<Rightarrow> enc_processes_data d
   | PPrograms xs \<Rightarrow> enc_arr enc_program_item xs
   | PConnections d \<Rightarrow> enc_connection_stats d
   | PIrq xs \<Rightarrow> enc_arr enc_irq_stat xs)"

section \<open>From a snapshot to payloads\<close>

definition non_nil :: "'a list option \<Rightarrow> 'a list" where
  "non_nil items = (case items of None \<Rightarrow> [] | Some xs \<Rightarrow> xs)"

definition non_nil_pointer :: "connection_stats option \<Rightarrow> connection_stats" where
  "non_nil_pointer item = (case item of None \<Rightarrow> zero_connection_stats | Some c \<Rightarrow> c)"

fun container_current_records :: "container_stats option list \<Rightarrow> container_current_record list" where
  "container_current_records [] = []"
| "container_current_records (None # items) = container_current_records items"
| "container_current_records (Some item # items) =
     \<lparr>cc_id = ct_id item, cc_name = ct_name item, cc_image = ct_image item,
      cc_ports = ct_ports item, cc_status = ct_status item, cc_health = ct_health item,
      cc_cpu = ct_cpu item, cc_mem = ct_mem item, cc_bandwidth = ct_bandwidth item\<rparr>
     # container_current_records items"

definition cpu_payload :: "stats \<Rightarrow> cpu_data" where
  "cpu_payload st = \<lparr>cpu_cpu = s_cpu st, cpu_max_cpu = s_max_cpu st,
     cpu_breakdown = s_cpu_breakdown st, cpu_cores_usage = s_cpu_cores_usage st\<rparr>"

definition mem_payload :: "stats \<Rightarrow> mem_data" where
  "mem_payload st = \<lparr>mem_mem = s_mem st, mem_max_mem = s_max_mem st, mem_used = s_mem_used st,
     mem_pct = s_mem_pct st, mem_buff_cache = s_mem_buff_cache st,
     mem_zfs_arc = s_mem_zfs_arc st, mem_swap_total = s_swap st, mem_swap_used = s_swap_used st,
     mem_swap_pct = s_swap_pct st, mem_available = s_mem_available st,
     mem_cached = s_mem_cached st, mem_buffers = s_mem_buffers st\<rparr>"

definition swap_payload :: "stats \<Rightarrow> swap_data" where
  "swap_payload st = \<lparr>sw_swap = s_swap st, sw_swap_used = s_swap_used st\<rparr>"

definition load_payload :: "stats \<Rightarrow> load_data" where
  "load_payload st = \<lparr>ld_load_avg = s_load_avg st, ld_battery = s_battery st\<rparr>"

definition disk_io_payload :: "stats \<Rightarrow> disk_io_data" where
  "disk_io_payload st = \<lparr>di_disk_total = s_disk_total st, di_disk_used = s_disk_used st,
     di_disk_pct = s_disk_pct st, di_disk_read_ps = s_disk_read_ps st,
     di_disk_write_ps = s_disk_write_ps st, di_max_disk_read_ps = s_max_disk_read_ps st,
     di_max_disk_write_ps = s_max_disk_write_ps st, di_disk_io = s_disk_io st,
     di_max_disk_io = s_max_disk_io st, di_disk_io_stats = s_disk_io_stats st,
     di_max_disk_io_stats = s_max_disk_io_stats st\<rparr>"

definition network_payload :: "stats \<Rightarrow> network_data" where
  "network_payload st = \<lparr>nd_bandwidth = s_bandwidth st, nd_max_bandwidth = s_max_bandwidth st,
     nd_network_interfaces = s_network_interfaces st\<rparr>"

definition snapshot_plugin_payloads :: "combined_data \<Rightarrow> (string \<times> payload) list" where
  "snapshot_plugin_payloads data = (let st = cd_stats data in
     [(PluginCPU, PCpu (cpu_payload st)),
      (PluginMem, PMem (mem_payload st)),
      (PluginSwap, PSwap (swap_payload st)),
      (PluginLoad, PLoad (load_payload st)),
      (PluginDiskIO, PDiskIO (disk_io_payload st)),
      (PluginFS, PFs \<lparr>fd_extra_fs = s_extra_fs st\<rparr>),
      (PluginNetwork, PNetwork (network_payload st)),
      (PluginGPU, PGpu (non_nil (s_gpu_data st))),
      (PluginSensors, PSensors \<lparr>sd_temperatures = s_temperatures st\<rparr>),
      (PluginContainers, PContainers (container_current_records (cd_containers data))),
      (PluginSystemd, PSystemd (non_nil (cd_systemd_services data))),
      (PluginProcesses, PProcesses \<lparr>pd_count = cd_process_count data,
         pd_items = Some (non_nil (cd_processes data))\<rparr>),
      (PluginPrograms, PPrograms (non_nil (cd_programs data))),
      (PluginConnections, PConnections (non_nil_pointer (cd_connections data))),
      (PluginIRQ, PIrq (non_nil (cd_irqs data)))])"

section \<open>From stored payloads back to a snapshot\<close>

text \<open>The assignments of one payload's fields to \<open>system.Stats\<close>, shared with the rollup code.\<close>

definition fill_cpu :: "cpu_data \<Rightarrow> stats \<Rightarrow> stats" where
  "fill_cpu d st = st\<lparr>s_cpu := cpu_cpu d, s_max_cpu := cpu_max_cpu d,
     s_cpu_breakdown := cpu_breakdown d, s_cpu_cores_usage := cpu_cores_usage d\<rparr>"

definition fill_mem :: "mem_data \<Rightarrow> stats \<Rightarrow> stats" where
  "fill_mem d st = st\<lparr>s_mem := mem_mem d, s_max_mem := mem_max_mem d, s_mem_used := mem_used d,
     s_mem_pct := mem_pct d, s_mem_buff_cache := mem_buff_cache d, s_mem_zfs_arc := mem_zfs_arc d,
     s_swap := mem_swap_total d, s_swap_used := mem_swap_used d, s_swap_pct := mem_swap_pct d,
     s_mem_available := mem_available d, s_mem_cached := mem_cached d,
     s_mem_buffers := mem_buffers d\<rparr>"

definition fill_swap :: "swap_data \<Rightarrow> stats \<Rightarrow> stats" where
  "fill_swap d st = st\<lparr>s_swap := sw_swap d, s_swap_used := sw_swap_used d\<rparr>"

definition fill_load :: "load_data \<Rightarrow> stats \<Rightarrow> stats" where
  "fill_load d st = st\<lparr>s_load_avg := ld_load_avg d, s_battery := ld_battery d\<rparr>"

definition fill_disk_io :: "disk_io_data \<Rightarrow> stats \<Rightarrow> stats" where
  "fill_disk_io d st = st\<lparr>s_disk_total := di_disk_total d, s_disk_used := di_disk_used d,
     s_disk_pct := di_disk_pct d, s_disk_read_ps := di_disk_read_ps d,
     s_disk_write_ps := di_disk_write_ps d, s_max_disk_read_ps := di_max_disk_read_ps d,
     s_max_disk_write_ps := di_max_disk_write_ps d, s_disk_io := di_disk_io d,
     s_max_disk_io := di_max_disk_io d, s_disk_io_stats := di_disk_io_stats d,
     s_max_disk_io_stats := di_max_disk_io_stats d\<rparr>"

definition fill_fs :: "fs_data \<Rightarrow> stats \<Rightarrow> stats" where
  "fill_fs d st = st\<lparr>s_extra_fs := fd_extra_fs d\<rparr>"

definition fill_network :: "network_data \<Rightarrow> stats \<Rightarrow> stats" where
  "fill_network d st = st\<lparr>s_bandwidth := nd_bandwidth d, s_max_bandwidth := nd_max_bandwidth d,
     s_network_interfaces := nd_network_interfaces d\<rparr>"

definition fill_sensors :: "sensors_data \<Rightarrow> stats \<Rightarrow> stats" where
  "fill_sensors d st = st\<lparr>s_temperatures := sd_temperatures d\<rparr>"

definition upd_stats :: "(stats \<Rightarrow> stats) \<Rightarrow> combined_data \<Rightarrow> combined_data" where
  "upd_stats f data = data\<lparr>cd_stats := f (cd_stats data)\<rparr>"

text \<open>Unmarshalling into a map that already exists adds to it.\<close>

definition merge_map :: "(string, 'v) gmap option \<Rightarrow> (string, 'v) gmap option \<Rightarrow> (string, 'v) gmap option" where
  "merge_map old new = (case (old, new) of
     (Some m, Some n) \<Rightarrow> Some (foldl (\<lambda>a (k, v). mput k v a) m n)
   | _ \<Rightarrow> new)"

definition apply_plugin_payload :: "string \<Rightarrow> jtext \<Rightarrow> combined_data \<Rightarrow> combined_data res" where
  "apply_plugin_payload plugin raw data =
     (if plugin = PluginCPU then
        attempt (unmarshal dec_cpu_data raw) (\<lambda>item. Inr (upd_stats (fill_cpu item) data))
      else if plugin = PluginMem then
        attempt (unmarshal dec_mem_data raw) (\<lambda>item. Inr (upd_stats (fill_mem item) data))
      else if plugin = PluginSwap then
        attempt (unmarshal dec_swap_data raw) (\<lambda>item. Inr (upd_stats (fill_swap item) data))
      else if plugin = PluginLoad then
        attempt (unmarshal dec_load_data raw) (\<lambda>item. Inr (upd_stats (fill_load item) data))
      else if plugin = PluginDiskIO then
        attempt (unmarshal dec_disk_io_data raw) (\<lambda>item. Inr (upd_stats (fill_disk_io item) data))
      else if plugin = PluginFS then
        attempt (unmarshal dec_fs_data raw) (\<lambda>item. Inr (upd_stats (fill_fs item) data))
      else if plugin = PluginNetwork then
        attempt (unmarshal dec_network_data raw) (\<lambda>item. Inr (upd_stats (fill_network item) data))
      else if plugin = PluginGPU then
        attempt (unmarshal (dec_map dec_gpu_data) raw)
          (\<lambda>m. Inr (upd_stats (\<lambda>st. st\<lparr>s_gpu_data := merge_map (s_gpu_data st) m\<rparr>) data))
      else if plugin = PluginSensors then
        attempt (unmarshal dec_sensors_data raw) (\<lambda>item. Inr (upd_stats (fill_sensors item) data))
      else if plugin = PluginContainers then
        attempt (unmarshal (dec_list (dec_ptr dec_container_stats)) raw)
          (\<lambda>xs. Inr (data\<lparr>cd_containers := xs\<rparr>))
      else if plugin = PluginSystemd then
        attempt (unmarshal (dec_slice dec_service) raw)
          (\<lambda>xs. Inr (data\<lparr>cd_systemd_services := xs\<rparr>))
      else if plugin = PluginProcesses then
        attempt (unmarshal dec_processes_data raw)
          (\<lambda>item. Inr (data\<lparr>cd_process_count := pd_count item, cd_processes := pd_items item\<rparr>))
      else if plugin = PluginPrograms then
        attempt (unmarshal (dec_slice dec_program_item) raw)
          (\<lambda>xs. Inr (data\<lparr>cd_programs := xs\<rparr>))
      else if plugin = PluginConnections then
        (if raw = JText JNull then Inr data
         else attempt (unmarshal dec_connection_stats raw)
           (\<lambda>c. Inr (data\<lparr>cd_connections := Some c\<rparr>)))
      else if plugin = PluginIRQ then
        attempt (unmarshal (dec_slice dec_irq_stat) raw)
          (\<lambda>xs. Inr (data\<lparr>cd_irqs := xs\<rparr>))
      else Inr data)"

section \<open>The history allowlist\<close>

text \<open>
  The loop over the comma-separated names: blank parts are skipped, an unknown name stops with
  an error, a repeated name is kept once.
\<close>

fun collect_plugins :: "string list \<Rightarrow> string list \<Rightarrow> string list res" where
  "collect_plugins out [] = Inr out"
| "collect_plugins out (part # parts) =
     (let plugin = trim_space part in
      if plugin = [] then collect_plugins out parts
      else if \<not> is_plugin_name plugin then Inl (ErrText (''unknown history plugin '' @ plugin))
      else if plugin \<in> set out then collect_plugins out parts
      else collect_plugins (out @ [plugin]) parts)"

definition parse_history_plugins ::
  "string \<Rightarrow> bool \<Rightarrow> (string \<Rightarrow> string option) \<Rightarrow> string list res" where
  "parse_history_plugins raw explicit env =
     (let (raw, explicit) =
        (if \<not> explicit then (case env ''HISTORY'' of Some value \<Rightarrow> (value, True) | None \<Rightarrow> (raw, explicit))
         else (raw, explicit))
      in if \<not> explicit \<or> trim_space raw = [] then Inr default_history_plugin_names
         else let normalized = to_lower (trim_space raw) in
           if normalized = ''all'' then Inr plugin_names
           else if normalized = ''none'' then Inr []
           else collect_plugins [] (split_on (CHR '','') normalized))"

lemma collect_plugins_ok:
  "collect_plugins out parts = Inr ps \<Longrightarrow> distinct out \<Longrightarrow> set out \<subseteq> set plugin_names \<Longrightarrow>
    distinct ps \<and> set ps \<subseteq> set plugin_names \<and>
    set ps = set out \<union> {trim_space p | p. p \<in> set parts \<and> trim_space p \<noteq> []}"
proof (induction out parts rule: collect_plugins.induct)
  case (1 out)
  then show ?case by auto
next
  case (2 out part parts)
  then show ?case
    by (auto simp: Let_def is_plugin_name_def split: if_splits)
qed

lemma collect_plugins_error:
  "(\<exists>e. collect_plugins out parts = Inl e) \<longleftrightarrow>
    (\<exists>p \<in> set parts. trim_space p \<noteq> [] \<and> \<not> is_plugin_name (trim_space p))"
  by (induction out parts rule: collect_plugins.induct) (auto simp: Let_def)

end
