(* ===== verification/Aggregation.thy ===== *)
theory Aggregation
  imports Plugins
begin

text \<open>
  How several stored payloads become one: \<open>averageSystemStatsJSON\<close>,
  \<open>averageContainerStatsJSON\<close> (\<open>internal/store/rollups.go\<close>) and
  \<open>aggregatePluginHistoryJSON\<close> (\<open>internal/store/plugins.go\<close>).  The loop over the rows is a
  fold whose state is the local variables of the Go function.  Go leaves the order of the
  container rollup open (it ranges over a map); here it is the order of the names.
\<close>

section \<open>Summation\<close>

record avg_state =
  av_sum :: stats
  av_battery_sum :: int
  av_temp_count :: f64
  av_cores_sums :: "u64 list"
  av_breakdown_sums :: "f64 list"

definition avg_init :: avg_state where
  "avg_init = \<lparr>av_sum = zero_stats, av_battery_sum = 0, av_temp_count = Num 0,
     av_cores_sums = [], av_breakdown_sums = []\<rparr>"

text \<open>Grow the sums with zeros to the length of the values, then add index by index.\<close>

fun add_each :: "('a \<Rightarrow> 'b \<Rightarrow> 'a) \<Rightarrow> 'a list \<Rightarrow> 'b list \<Rightarrow> 'a list" where
  "add_each f (s # ss) (x # xs) = f s x # add_each f ss xs"
| "add_each f ss [] = ss"
| "add_each f [] xs = []"

definition grow_add :: "'a \<Rightarrow> ('a \<Rightarrow> 'b \<Rightarrow> 'a) \<Rightarrow> 'a list \<Rightarrow> 'b list option \<Rightarrow> 'a list" where
  "grow_add z f acc values = (case values of
     None \<Rightarrow> acc
   | Some xs \<Rightarrow> add_each f (acc @ replicate (length xs - length acc) z) xs)"

definition max3 :: "f64 \<Rightarrow> f64 \<Rightarrow> f64 \<Rightarrow> f64" where
  "max3 a b c = fmax (fmax a b) c"

definition max3u :: "u64 \<Rightarrow> u64 \<Rightarrow> u64 \<Rightarrow> u64" where
  "max3u a b c = max (max a b) c"

definition add_pair :: "u64 \<times> u64 \<Rightarrow> u64 \<times> u64 \<Rightarrow> u64 \<times> u64" where
  "add_pair p q = (fst p + fst q, snd p + snd q)"

definition max3_pair :: "u64 \<times> u64 \<Rightarrow> u64 \<times> u64 \<Rightarrow> u64 \<times> u64 \<Rightarrow> u64 \<times> u64" where
  "max3_pair p q r = (max3u (fst p) (fst q) (fst r), max3u (snd p) (snd q) (snd r))"

fun max3_list :: "f64 list \<Rightarrow> f64 list \<Rightarrow> f64 list \<Rightarrow> f64 list" where
  "max3_list (a # as) (b # bs) (c # cs) = max3 a b c # max3_list as bs cs"
| "max3_list as _ _ = as"

definition sum_scalars :: "stats \<Rightarrow> stats \<Rightarrow> stats" where
  "sum_scalars su temp = su\<lparr>
     s_cpu := fadd (s_cpu su) (s_cpu temp),
     s_mem := fadd (s_mem su) (s_mem temp),
     s_mem_used := fadd (s_mem_used su) (s_mem_used temp),
     s_mem_pct := fadd (s_mem_pct su) (s_mem_pct temp),
     s_mem_buff_cache := fadd (s_mem_buff_cache su) (s_mem_buff_cache temp),
     s_mem_zfs_arc := fadd (s_mem_zfs_arc su) (s_mem_zfs_arc temp),
     s_swap := fadd (s_swap su) (s_swap temp),
     s_swap_used := fadd (s_swap_used su) (s_swap_used temp),
     s_swap_pct := fadd (s_swap_pct su) (s_swap_pct temp),
     s_mem_available := fadd (s_mem_available su) (s_mem_available temp),
     s_mem_cached := fadd (s_mem_cached su) (s_mem_cached temp),
     s_mem_buffers := fadd (s_mem_buffers su) (s_mem_buffers temp),
     s_disk_total := fadd (s_disk_total su) (s_disk_total temp),
     s_disk_used := fadd (s_disk_used su) (s_disk_used temp),
     s_disk_pct := fadd (s_disk_pct su) (s_disk_pct temp),
     s_disk_read_ps := fadd (s_disk_read_ps su) (s_disk_read_ps temp),
     s_disk_write_ps := fadd (s_disk_write_ps su) (s_disk_write_ps temp),
     s_load_avg := add_each fadd (s_load_avg su) (s_load_avg temp),
     s_bandwidth := add_pair (s_bandwidth su) (s_bandwidth temp),
     s_disk_io := add_pair (s_disk_io su) (s_disk_io temp),
     s_disk_io_stats := add_each fadd (s_disk_io_stats su) (s_disk_io_stats temp),
     s_battery := (fst (s_battery su), snd (s_battery temp))\<rparr>"

definition track_peaks :: "stats \<Rightarrow> stats \<Rightarrow> stats" where
  "track_peaks su temp = su\<lparr>
     s_max_cpu := max3 (s_max_cpu su) (s_max_cpu temp) (s_cpu temp),
     s_max_mem := max3 (s_max_mem su) (s_max_mem temp) (s_mem_used temp),
     s_max_disk_read_ps := max3 (s_max_disk_read_ps su) (s_max_disk_read_ps temp) (s_disk_read_ps temp),
     s_max_disk_write_ps := max3 (s_max_disk_write_ps su) (s_max_disk_write_ps temp) (s_disk_write_ps temp),
     s_max_bandwidth := max3_pair (s_max_bandwidth su) (s_max_bandwidth temp) (s_bandwidth temp),
     s_max_disk_io := max3_pair (s_max_disk_io su) (s_max_disk_io temp) (s_disk_io temp),
     s_max_disk_io_stats := max3_list (s_max_disk_io_stats su) (s_max_disk_io_stats temp) (s_disk_io_stats temp)\<rparr>"

definition sum_quad :: "quad \<Rightarrow> quad \<Rightarrow> quad" where
  "sum_quad p q = (case (p, q) of ((a, b, c, d), (a', b', c', d')) \<Rightarrow>
     (a + a', b + b', max c c', max d d'))"

definition sum_interfaces :: "stats \<Rightarrow> stats \<Rightarrow> stats" where
  "sum_interfaces su temp =
     (let m0 = non_nil (s_network_interfaces su);
          m = foldl (\<lambda>m (key, value).
                mput key (sum_quad (case mget m key of None \<Rightarrow> (0, 0, 0, 0) | Some q \<Rightarrow> q) value) m)
              m0 (non_nil (s_network_interfaces temp))
      in su\<lparr>s_network_interfaces := Some m\<rparr>)"

definition sum_float_map :: "(string, f64) gmap \<Rightarrow> (string, f64) gmap \<Rightarrow> (string, f64) gmap" where
  "sum_float_map m0 values = foldl (\<lambda>m (key, value).
     mput key (fadd (case mget m key of None \<Rightarrow> Num 0 | Some v \<Rightarrow> v) value) m) m0 values"

definition sum_fs :: "fs_stats \<Rightarrow> fs_stats \<Rightarrow> fs_stats" where
  "sum_fs fs value = fs\<lparr>
     fs_disk_total := fadd (fs_disk_total fs) (fs_disk_total value),
     fs_disk_used := fadd (fs_disk_used fs) (fs_disk_used value),
     fs_disk_write_ps := fadd (fs_disk_write_ps fs) (fs_disk_write_ps value),
     fs_disk_read_ps := fadd (fs_disk_read_ps fs) (fs_disk_read_ps value),
     fs_max_disk_read_ps := max3 (fs_max_disk_read_ps fs) (fs_max_disk_read_ps value) (fs_disk_read_ps value),
     fs_max_disk_write_ps := max3 (fs_max_disk_write_ps fs) (fs_max_disk_write_ps value) (fs_disk_write_ps value),
     fs_disk_read_bytes := fs_disk_read_bytes fs + fs_disk_read_bytes value,
     fs_disk_write_bytes := fs_disk_write_bytes fs + fs_disk_write_bytes value,
     fs_max_disk_read_bytes := max3u (fs_max_disk_read_bytes fs) (fs_max_disk_read_bytes value) (fs_disk_read_bytes value),
     fs_max_disk_write_bytes := max3u (fs_max_disk_write_bytes fs) (fs_max_disk_write_bytes value) (fs_disk_write_bytes value),
     fs_disk_io_stats := add_each fadd (fs_disk_io_stats fs) (fs_disk_io_stats value),
     fs_max_disk_io_stats := max3_list (fs_max_disk_io_stats fs) (fs_max_disk_io_stats value) (fs_disk_io_stats value)\<rparr>"

definition sum_gpu :: "gpu_data \<Rightarrow> gpu_data \<Rightarrow> gpu_data" where
  "sum_gpu gpu value = gpu\<lparr>
     gpu_temperature := fadd (gpu_temperature gpu) (gpu_temperature value),
     gpu_memory_used := fadd (gpu_memory_used gpu) (gpu_memory_used value),
     gpu_memory_total := fadd (gpu_memory_total gpu) (gpu_memory_total value),
     gpu_usage := fadd (gpu_usage gpu) (gpu_usage value),
     gpu_power := fadd (gpu_power gpu) (gpu_power value),
     gpu_count := fadd (gpu_count gpu) (gpu_count value),
     gpu_engines := (case gpu_engines value of
         None \<Rightarrow> gpu_engines gpu
       | Some es \<Rightarrow> Some (sum_float_map (non_nil (gpu_engines gpu)) es))\<rparr>"

definition sum_temperatures :: "stats \<Rightarrow> stats \<Rightarrow> stats" where
  "sum_temperatures su temp = (case s_temperatures temp of
     None \<Rightarrow> su
   | Some ts \<Rightarrow> su\<lparr>s_temperatures := Some (sum_float_map (non_nil (s_temperatures su)) ts)\<rparr>)"

definition sum_extra_fs :: "stats \<Rightarrow> stats \<Rightarrow> stats" where
  "sum_extra_fs su temp = (case s_extra_fs temp of
     None \<Rightarrow> su
   | Some values \<Rightarrow> su\<lparr>s_extra_fs := Some (foldl (\<lambda>m (key, value).
       mput key (sum_fs (case mget m key of None \<Rightarrow> zero_fs_stats | Some fs \<Rightarrow> fs) value) m)
       (non_nil (s_extra_fs su)) values)\<rparr>)"

definition sum_gpus :: "stats \<Rightarrow> stats \<Rightarrow> stats" where
  "sum_gpus su temp = (case s_gpu_data temp of
     None \<Rightarrow> su
   | Some values \<Rightarrow> su\<lparr>s_gpu_data := Some (foldl (\<lambda>m (id, value).
       mput id (sum_gpu (case mget m id of
           None \<Rightarrow> zero_gpu_data\<lparr>gpu_name := gpu_name value\<rparr> | Some gpu \<Rightarrow> gpu) value) m)
       (non_nil (s_gpu_data su)) values)\<rparr>)"

definition avg_step :: "avg_state \<Rightarrow> stats \<Rightarrow> avg_state" where
  "avg_step a temp = \<lparr>
     av_sum = sum_gpus (sum_extra_fs (sum_temperatures (sum_interfaces
       (track_peaks (sum_scalars (av_sum a) temp) temp) temp) temp) temp) temp,
     av_battery_sum = av_battery_sum a + uint (fst (s_battery temp)),
     av_temp_count = (if s_temperatures temp = None then av_temp_count a
       else fadd (av_temp_count a) (Num 1)),
     av_cores_sums = grow_add 0 (\<lambda>s v. s + ucast v) (av_cores_sums a) (s_cpu_cores_usage temp),
     av_breakdown_sums = grow_add (Num 0) fadd (av_breakdown_sums a) (s_cpu_breakdown temp)\<rparr>"

section \<open>Division by the number of rows\<close>

definition mean :: "f64 \<Rightarrow> f64 \<Rightarrow> f64" where
  "mean count x = two_decimals (fdiv x count)"

definition div_pair :: "u64 \<Rightarrow> u64 \<times> u64 \<Rightarrow> u64 \<times> u64" where
  "div_pair n p = (fst p div n, snd p div n)"

definition div_quad :: "u64 \<Rightarrow> quad \<Rightarrow> quad" where
  "div_quad n q = (case q of (a, b, c, d) \<Rightarrow> (a div n, b div n, c, d))"

definition mean_fs :: "f64 \<Rightarrow> fs_stats \<Rightarrow> fs_stats" where
  "mean_fs count fs = fs\<lparr>
     fs_disk_total := mean count (fs_disk_total fs),
     fs_disk_used := mean count (fs_disk_used fs),
     fs_disk_write_ps := mean count (fs_disk_write_ps fs),
     fs_disk_read_ps := mean count (fs_disk_read_ps fs),
     fs_disk_read_bytes := fs_disk_read_bytes fs div to_uint64 count,
     fs_disk_write_bytes := fs_disk_write_bytes fs div to_uint64 count,
     fs_disk_io_stats := map (mean count) (fs_disk_io_stats fs)\<rparr>"

definition mean_gpu :: "f64 \<Rightarrow> gpu_data \<Rightarrow> gpu_data" where
  "mean_gpu count gpu = gpu\<lparr>
     gpu_temperature := mean count (gpu_temperature gpu),
     gpu_memory_used := mean count (gpu_memory_used gpu),
     gpu_memory_total := mean count (gpu_memory_total gpu),
     gpu_usage := mean count (gpu_usage gpu),
     gpu_power := mean count (gpu_power gpu),
     gpu_count := mean count (gpu_count gpu),
     gpu_engines := map_option (mvals (mean count)) (gpu_engines gpu)\<rparr>"

definition avg_finish :: "f64 \<Rightarrow> avg_state \<Rightarrow> stats" where
  "avg_finish count a = (let su = av_sum a in
     if \<not> flt (Num 0) count then su
     else su\<lparr>
       s_cpu := mean count (s_cpu su),
       s_mem := mean count (s_mem su),
       s_mem_used := mean count (s_mem_used su),
       s_mem_pct := mean count (s_mem_pct su),
       s_mem_buff_cache := mean count (s_mem_buff_cache su),
       s_mem_zfs_arc := mean count (s_mem_zfs_arc su),
       s_swap := mean count (s_swap su),
       s_swap_used := mean count (s_swap_used su),
       s_swap_pct := mean count (s_swap_pct su),
       s_mem_available := mean count (s_mem_available su),
       s_mem_cached := mean count (s_mem_cached su),
       s_mem_buffers := mean count (s_mem_buffers su),
       s_disk_total := mean count (s_disk_total su),
       s_disk_used := mean count (s_disk_used su),
       s_disk_pct := mean count (s_disk_pct su),
       s_disk_read_ps := mean count (s_disk_read_ps su),
       s_disk_write_ps := mean count (s_disk_write_ps su),
       s_disk_io := div_pair (to_uint64 count) (s_disk_io su),
       s_disk_io_stats := map (mean count) (s_disk_io_stats su),
       s_load_avg := map (mean count) (s_load_avg su),
       s_bandwidth := div_pair (to_uint64 count) (s_bandwidth su),
       s_battery := (word_of_int (quot (av_battery_sum a) (trunc (fval count))), snd (s_battery su)),
       s_network_interfaces := map_option (mvals (div_quad (to_uint64 count))) (s_network_interfaces su),
       s_temperatures := (if flt (Num 0) (av_temp_count a)
         then map_option (mvals (mean (av_temp_count a))) (s_temperatures su)
         else s_temperatures su),
       s_extra_fs := map_option (mvals (mean_fs count)) (s_extra_fs su),
       s_gpu_data := map_option (mvals (mean_gpu count)) (s_gpu_data su),
       s_cpu_cores_usage := (if av_cores_sums a \<noteq> []
         then Some (map (\<lambda>s. to_uint8 (fround (fdiv (of_uint64 s) count))) (av_cores_sums a))
         else s_cpu_cores_usage su),
       s_cpu_breakdown := (if av_breakdown_sums a \<noteq> []
         then Some (map (mean count) (av_breakdown_sums a))
         else s_cpu_breakdown su)\<rparr>)"

definition average_system_stats_json :: "jtext list \<Rightarrow> stats res" where
  "average_system_stats_json items =
     attempt (fold_res (\<lambda>a raw. attempt (unmarshal dec_stats raw) (\<lambda>temp. Inr (avg_step a temp)))
        avg_init items)
       (\<lambda>a. Inr (avg_finish (of_nat_f (length items)) a))"

section \<open>Containers\<close>

definition add_container :: "(string, container_stats) gmap \<Rightarrow> container_stats \<Rightarrow> (string, container_stats) gmap" where
  "add_container acc st =
     (let cur = (case mget acc (ct_name st) of
          None \<Rightarrow> zero_container_stats\<lparr>ct_name := ct_name st\<rparr> | Some c \<Rightarrow> c)
      in mput (ct_name st) (cur\<lparr>
           ct_cpu := fadd (ct_cpu cur) (ct_cpu st),
           ct_mem := fadd (ct_mem cur) (ct_mem st),
           ct_bandwidth := add_pair (ct_bandwidth cur) (ct_bandwidth st)\<rparr>) acc)"

definition mean_container :: "f64 \<Rightarrow> container_stats \<Rightarrow> container_stats" where
  "mean_container count value = zero_container_stats\<lparr>
     ct_name := ct_name value,
     ct_cpu := mean count (ct_cpu value),
     ct_mem := mean count (ct_mem value),
     ct_bandwidth := (to_uint64 (fdiv (of_uint64 (fst (ct_bandwidth value))) count),
                      to_uint64 (fdiv (of_uint64 (snd (ct_bandwidth value))) count))\<rparr>"

definition average_container_stats_json :: "jtext list \<Rightarrow> container_stats list res" where
  "average_container_stats_json items =
     attempt (fold_res (\<lambda>acc raw. attempt (unmarshal (dec_list dec_container_stats) raw)
          (\<lambda>stats. Inr (foldl add_container acc stats))) [] items)
       (\<lambda>acc. Inr (map (\<lambda>(_, value). mean_container (of_nat_f (length items)) value) acc))"

section \<open>Dispatch by plugin\<close>

definition average_via_system_stats ::
  "(jtext \<Rightarrow> stats res) \<Rightarrow> (stats \<Rightarrow> json) \<Rightarrow> jtext list \<Rightarrow> jtext res" where
  "average_via_system_stats fill extract items =
     attempt (map_res (\<lambda>raw. attempt (fill raw) (\<lambda>stats. marshal (enc_stats stats))) items)
       (\<lambda>system_stats_json. attempt (average_system_stats_json system_stats_json)
         (\<lambda>averaged. marshal (extract averaged)))"

definition fill_with :: "(json \<Rightarrow> 'd res) \<Rightarrow> ('d \<Rightarrow> stats \<Rightarrow> stats) \<Rightarrow> jtext \<Rightarrow> stats res" where
  "fill_with dec fill raw = attempt (unmarshal dec raw) (\<lambda>item. Inr (fill item zero_stats))"

definition aggregate_plugin_history_json :: "string \<Rightarrow> jtext list \<Rightarrow> jtext res" where
  "aggregate_plugin_history_json plugin items =
     (if items = [] then Inl (ErrText ''no history items to aggregate'')
      else if plugin = PluginCPU then
        average_via_system_stats (fill_with dec_cpu_data fill_cpu)
          (\<lambda>st. enc_cpu_data (cpu_payload st)) items
      else if plugin = PluginMem then
        average_via_system_stats (fill_with dec_mem_data fill_mem)
          (\<lambda>st. enc_mem_data (mem_payload st)) items
      else if plugin = PluginSwap then
        average_via_system_stats (fill_with dec_swap_data fill_swap)
          (\<lambda>st. enc_swap_data (swap_payload st)) items
      else if plugin = PluginLoad then
        average_via_system_stats (fill_with dec_load_data fill_load)
          (\<lambda>st. enc_load_data (load_payload st)) items
      else if plugin = PluginDiskIO then
        average_via_system_stats (fill_with dec_disk_io_data fill_disk_io)
          (\<lambda>st. enc_disk_io_data (disk_io_payload st)) items
      else if plugin = PluginFS then
        average_via_system_stats (fill_with dec_fs_data fill_fs)
          (\<lambda>st. enc_fs_data \<lparr>fd_extra_fs = s_extra_fs st\<rparr>) items
      else if plugin = PluginNetwork then
        average_via_system_stats (fill_with dec_network_data fill_network)
          (\<lambda>st. enc_network_data (network_payload st)) items
      else if plugin = PluginGPU then
        average_via_system_stats
          (fill_with (dec_map dec_gpu_data) (\<lambda>m st. st\<lparr>s_gpu_data := m\<rparr>))
          (\<lambda>st. enc_opt (enc_map enc_gpu_data) (s_gpu_data st)) items
      else if plugin = PluginSensors then
        average_via_system_stats (fill_with dec_sensors_data fill_sensors)
          (\<lambda>st. enc_sensors_data \<lparr>sd_temperatures = s_temperatures st\<rparr>) items
      else if plugin = PluginContainers then
        attempt (average_container_stats_json items)
          (\<lambda>averaged. marshal (enc_arr enc_container_stats averaged))
      else Inr (last items))"

end
