(* ===== verification/Go_Number.thy ===== *)
theory Go_Number
  imports Golib
begin

text \<open>
  \<open>strconv\<close>: integers with a base prefix and floating-point numbers in Go syntax.
\<close>

section \<open>Numbers in Go syntax\<close>

text \<open>
  \<open>strconv.ParseUint(s, 0, 64)\<close>: the base is chosen by the prefix; underscores may separate digits,
  and the prefix from the digits, when there is a prefix.
\<close>

definition digit_in_base :: "nat \<Rightarrow> char \<Rightarrow> nat option" where
  "digit_in_base base c = (let n = of_char (lower_char c) :: nat;
      d = (if 48 \<le> n \<and> n \<le> 57 then Some (n - 48)
           else if 97 \<le> n \<and> n \<le> 122 then Some (n - 87) else None)
    in case d of None \<Rightarrow> None | Some d \<Rightarrow> if d < base then Some d else None)"

fun base_value :: "nat \<Rightarrow> nat \<Rightarrow> string \<Rightarrow> nat option" where
  "base_value base acc [] = Some acc"
| "base_value base acc (c # cs) =
     (if c = CHR ''_'' then base_value base acc cs
      else case digit_in_base base c of None \<Rightarrow> None | Some d \<Rightarrow> base_value base (base * acc + d) cs)"

text \<open>
  \<open>underscoreOK\<close>: the state is what came before, a digit or the prefix (\<open>CHR ''0''\<close>), an underscore,
  the beginning (\<open>CHR ''^''\<close>) or anything else (\<open>CHR ''!''\<close>).
\<close>

fun underscores_ok :: "bool \<Rightarrow> char \<Rightarrow> string \<Rightarrow> bool" where
  "underscores_ok hex i [] = (i \<noteq> CHR ''_'')"
| "underscores_ok hex i (c # cs) =
     (if digit_in_base (if hex then 16 else 10) c \<noteq> None then underscores_ok hex (CHR ''0'') cs
      else if c = CHR ''_'' then i = CHR ''0'' \<and> underscores_ok hex (CHR ''_'') cs
      else i \<noteq> CHR ''_'' \<and> underscores_ok hex (CHR ''!'') cs)"

definition drop_sign :: "string \<Rightarrow> string" where
  "drop_sign s = (case s of c # cs \<Rightarrow> if c = CHR ''-'' \<or> c = CHR ''+'' then cs else s | [] \<Rightarrow> [])"

definition underscore_ok :: "string \<Rightarrow> bool" where
  "underscore_ok s0 = (let s = drop_sign s0 in case s of
     z # b # rest \<Rightarrow>
       if z = CHR ''0'' \<and> lower_char b \<in> {CHR ''b'', CHR ''o'', CHR ''x''}
       then underscores_ok (lower_char b = CHR ''x'') (CHR ''0'') rest
       else underscores_ok False (CHR ''^'') s
   | _ \<Rightarrow> underscores_ok False (CHR ''^'') s)"

definition base_prefix :: "string \<Rightarrow> nat \<times> string" where
  "base_prefix s = (case s of
     z # b # c # rest \<Rightarrow>
       if z \<noteq> CHR ''0'' then (10, s)
       else if lower_char b = CHR ''b'' then (2, c # rest)
       else if lower_char b = CHR ''o'' then (8, c # rest)
       else if lower_char b = CHR ''x'' then (16, c # rest)
       else (8, b # c # rest)
   | z # rest \<Rightarrow> if z = CHR ''0'' then (8, rest) else (10, s)
   | [] \<Rightarrow> (10, []))"

definition parse_uint_any :: "string \<Rightarrow> nat option" where
  "parse_uint_any s =
     (if s = [] then None
      else case base_prefix s of (base, body) \<Rightarrow>
        (case base_value base 0 body of
           None \<Rightarrow> None
         | Some n \<Rightarrow> if n < 2 ^ 64 \<and> (CHR ''_'' \<in> set body \<longrightarrow> underscore_ok s) then Some n else None))"

text \<open>
  \<open>strconv.ParseFloat(s, 64)\<close>: decimal and hexadecimal literals, infinities and NaN, correctly
  rounded.  The flag is false for an overflow, which is an error with an infinity.  The mantissa is read up to the first byte that is not part of
  it: its digits as a number, how many of them follow the point, whether there are any, the rest.
\<close>

fun scan_mantissa :: "nat \<Rightarrow> bool \<Rightarrow> nat \<Rightarrow> nat \<Rightarrow> bool \<Rightarrow> string \<Rightarrow> nat \<times> nat \<times> bool \<times> string" where
  "scan_mantissa base dot acc fracs digits [] = (acc, fracs, digits, [])"
| "scan_mantissa base dot acc fracs digits (c # cs) =
     (if c = CHR ''_'' then scan_mantissa base dot acc fracs digits cs
      else if c = CHR ''.'' then
        (if dot then (acc, fracs, digits, c # cs) else scan_mantissa base True acc fracs digits cs)
      else case digit_in_base base c of
        None \<Rightarrow> (acc, fracs, digits, c # cs)
      | Some d \<Rightarrow> scan_mantissa base dot (base * acc + d) (if dot then fracs + 1 else fracs) True cs)"

fun scan_exponent :: "nat \<Rightarrow> string \<Rightarrow> nat \<times> string" where
  "scan_exponent e [] = (e, [])"
| "scan_exponent e (c # cs) =
     (if c = CHR ''_'' then scan_exponent e cs
      else case digit_in_base 10 c of
        None \<Rightarrow> (e, c # cs)
      | Some d \<Rightarrow> scan_exponent (if e < 10000 then 10 * e + d else e) cs)"

definition exponent_part :: "char \<Rightarrow> string \<Rightarrow> (int \<times> string) option" where
  "exponent_part mark s = (case s of
     c # rest \<Rightarrow>
       if lower_char c \<noteq> mark then (if mark = CHR ''p'' then None else Some (0, s))
       else (let body = drop_sign rest in
         if body = [] \<or> digit_in_base 10 (hd body) = None then None
         else case scan_exponent 0 body of (e, tail) \<Rightarrow>
           Some (if hd rest = CHR ''-'' then - int e else int e, tail))
   | [] \<Rightarrow> if mark = CHR ''p'' then None else Some (0, []))"

definition scale_by :: "nat \<Rightarrow> int \<Rightarrow> rat \<Rightarrow> rat" where
  "scale_by base e q = (if 0 \<le> e then q * of_nat base ^ nat e else q / of_nat base ^ nat (- e))"

definition read_float :: "string \<Rightarrow> (f64 \<times> bool) option" where
  "read_float s =
     (let neg = (s \<noteq> [] \<and> hd s = CHR ''-''); body = drop_sign s;
          hex = (2 < length body \<and> hd body = CHR ''0'' \<and> lower_char (body ! 1) = CHR ''x'');
          base = (if hex then 16 else 10);
          mark = (if hex then CHR ''p'' else CHR ''e'')
      in if to_lower body \<in> {''inf'', ''infinity''} then Some (Inf neg, True)
         else if to_lower s = ''nan'' then Some (NaN, True)
         else case scan_mantissa base False 0 0 False (if hex then drop 2 body else body) of
           (m, fracs, digits, rest) \<Rightarrow>
             if \<not> digits then None
             else (case exponent_part mark rest of
               None \<Rightarrow> None
             | Some (e, tail) \<Rightarrow>
                 if tail \<noteq> [] \<or> (CHR ''_'' \<in> set s \<and> \<not> underscore_ok s) then None
                 else (let q = (if hex then scale_by 2 (e - 4 * int fracs) (of_nat m)
                               else scale_by 10 (e - int fracs) (of_nat m));
                           x = rnd neg (if neg then - q else q)
                       in Some (x, fin x))))"

definition parse_float :: "string \<Rightarrow> f64 option" where
  "parse_float s = (case read_float s of Some (x, True) \<Rightarrow> Some x | _ \<Rightarrow> None)"

text \<open>What is left in \<open>x\<close> by \<open>x, _ = strconv.ParseFloat(s, 64)\<close>.\<close>

definition float_or_zero :: "string \<Rightarrow> f64" where
  "float_or_zero s = (case read_float s of None \<Rightarrow> Num 0 | Some (x, _) \<Rightarrow> x)"

end
