(* ===== verification/Smart_Data.thy ===== *)
theory Smart_Data
  imports Codecs Go_Number
begin

text \<open>
  \<open>internal/domain/smart\<close>: the JSON that \<open>smartctl\<close> prints, one record per struct with the decoder
  its tags define, and the record that the agent keeps per device with its JSON form.

  A raw value is read from the text of its literal.  Integers and booleans have one text; the text
  of any other value is the argument \<open>render\<close>.  A quoted value is taken without escape sequences.
\<close>

section \<open>Raw values\<close>

text \<open>The first run of digits that is a 64-bit number.\<close>

function first_number :: "string \<Rightarrow> nat option" where
  "first_number s = (let t = dropWhile (\<lambda>c. \<not> is_digit c) s in
     if t = [] then None
     else case parse_uint 64 (takeWhile is_digit t) of
       Some n \<Rightarrow> Some n
     | None \<Rightarrow> first_number (dropWhile is_digit t))"
  by auto
termination
proof (relation "measure length")
  show "wf (measure (length :: string \<Rightarrow> nat))" by simp
next
  fix s t :: string
  assume t: "t = dropWhile (\<lambda>c. \<not> is_digit c) s" "t \<noteq> []"
  have "is_digit (hd t)" using t hd_dropWhile by blast
  then have "length (dropWhile is_digit t) < length t"
    using t(2) by (cases t) (auto simp: le_imp_less_Suc length_dropWhile_le)
  moreover have "length t \<le> length s" using t(1) by (simp add: length_dropWhile_le)
  ultimately show "(dropWhile is_digit t, s) \<in> measure length" by simp
qed

declare first_number.simps [simp del]

definition parse_smart_raw_value_string :: "string \<Rightarrow> u64 option" where
  "parse_smart_raw_value_string value0 =
     (let value = trim_space value0;
          hours = (case cut_at (CHR ''h'') value of
              None \<Rightarrow> None
            | Some (before, _) \<Rightarrow> if trim_space before = [] then None else parse_float (trim_space before))
      in if value = [] then None
         else case parse_uint_any value of
           Some n \<Rightarrow> Some (word_of_nat n)
         | None \<Rightarrow> (case hours of
             Some x \<Rightarrow> Some (to_uint64 x)
           | None \<Rightarrow> map_option word_of_nat (first_number value)))"

text \<open>The text of a JSON value that is not a string.\<close>

fun value_text :: "(json \<Rightarrow> string) \<Rightarrow> json \<Rightarrow> string" where
  "value_text render JNull = ''null''"
| "value_text render (JBool b) = (if b then ''true'' else ''false'')"
| "value_text render (JInt n) = format_int n"
| "value_text render j = render j"

definition dec_smart_raw_value :: "(json \<Rightarrow> string) \<Rightarrow> json \<Rightarrow> u64" where
  "dec_smart_raw_value render j = (case j of
     JNull \<Rightarrow> 0
   | JStr s \<Rightarrow> (case parse_smart_raw_value_string s of Some v \<Rightarrow> v | None \<Rightarrow> 0)
   | _ \<Rightarrow> (let trimmed = trim_space (value_text render j) in
       case parse_uint_any trimmed of
         Some n \<Rightarrow> word_of_nat n
       | None \<Rightarrow> (case parse_smart_raw_value_string trimmed of Some v \<Rightarrow> v | None \<Rightarrow> 0)))"

record raw_value =
  rv_value :: u64
  rv_string :: string

definition zero_raw_value :: raw_value where
  "zero_raw_value = \<lparr>rv_value = 0, rv_string = []\<rparr>"

definition dec_raw_value :: "(json \<Rightarrow> string) \<Rightarrow> json \<Rightarrow> raw_value res" where
  "dec_raw_value render j = (case j of
     JNull \<Rightarrow> Inr zero_raw_value
   | JObj fs0 \<Rightarrow> (let fs = fold_keys fs0 in
       attempt (jfield fs ''string'' [] dec_str) (\<lambda>text.
       let v = (case jlast fs ''value'' of None \<Rightarrow> 0 | Some raw \<Rightarrow> dec_smart_raw_value render raw) in
       Inr \<lparr>rv_value = (case parse_smart_raw_value_string text of Some p \<Rightarrow> p | None \<Rightarrow> v), rv_string = text\<rparr>))
   | _ \<Rightarrow> Inl ErrJson)"

section \<open>What smartctl prints\<close>

record smartctl_info =
  sci_version :: "int list"
  sci_svn_revision :: string
  sci_platform_info :: string
  sci_build_info :: string
  sci_argv :: "string list"
  sci_exit_status :: int

definition zero_smartctl_info :: smartctl_info where
  "zero_smartctl_info = \<lparr>sci_version = [0, 0],
     sci_svn_revision = [],
     sci_platform_info = [],
     sci_build_info = [],
     sci_argv = [],
     sci_exit_status = 0\<rparr>"

definition dec_smartctl_info_body :: "(string \<times> json) list \<Rightarrow> smartctl_info res" where
  "dec_smartctl_info_body fs =
     attempt (jfield fs ''version'' [0, 0] (dec_arr 2 0 (dec_int 64))) (\<lambda>v_sci_version.
     attempt (jfield fs ''svn_revision'' [] dec_str) (\<lambda>v_sci_svn_revision.
     attempt (jfield fs ''platform_info'' [] dec_str) (\<lambda>v_sci_platform_info.
     attempt (jfield fs ''build_info'' [] dec_str) (\<lambda>v_sci_build_info.
     attempt (jfield fs ''argv'' [] (dec_list dec_str)) (\<lambda>v_sci_argv.
     attempt (jfield fs ''exit_status'' 0 (dec_int 64)) (\<lambda>v_sci_exit_status.
     Inr \<lparr>sci_version = v_sci_version,
       sci_svn_revision = v_sci_svn_revision,
       sci_platform_info = v_sci_platform_info,
       sci_build_info = v_sci_build_info,
       sci_argv = v_sci_argv,
       sci_exit_status = v_sci_exit_status\<rparr>))))))"

definition dec_smartctl_info :: "json \<Rightarrow> smartctl_info res" where
  "dec_smartctl_info = dec_struct (dec_smartctl_info_body) zero_smartctl_info"

record smart_device_info =
  sdi_name :: string
  sdi_info_name :: string
  sdi_type :: string
  sdi_protocol :: string

definition zero_smart_device_info :: smart_device_info where
  "zero_smart_device_info = \<lparr>sdi_name = [],
     sdi_info_name = [],
     sdi_type = [],
     sdi_protocol = []\<rparr>"

definition dec_smart_device_info_body :: "(string \<times> json) list \<Rightarrow> smart_device_info res" where
  "dec_smart_device_info_body fs =
     attempt (jfield fs ''name'' [] dec_str) (\<lambda>v_sdi_name.
     attempt (jfield fs ''info_name'' [] dec_str) (\<lambda>v_sdi_info_name.
     attempt (jfield fs ''type'' [] dec_str) (\<lambda>v_sdi_type.
     attempt (jfield fs ''protocol'' [] dec_str) (\<lambda>v_sdi_protocol.
     Inr \<lparr>sdi_name = v_sdi_name,
       sdi_info_name = v_sdi_info_name,
       sdi_type = v_sdi_type,
       sdi_protocol = v_sdi_protocol\<rparr>))))"

definition dec_smart_device_info :: "json \<Rightarrow> smart_device_info res" where
  "dec_smart_device_info = dec_struct (dec_smart_device_info_body) zero_smart_device_info"

record user_capacity =
  uc_blocks :: u64
  uc_bytes :: u64

definition zero_user_capacity :: user_capacity where
  "zero_user_capacity = \<lparr>uc_blocks = 0,
     uc_bytes = 0\<rparr>"

definition dec_user_capacity_body :: "(string \<times> json) list \<Rightarrow> user_capacity res" where
  "dec_user_capacity_body fs =
     attempt (jfield fs ''blocks'' 0 dec_word) (\<lambda>v_uc_blocks.
     attempt (jfield fs ''bytes'' 0 dec_word) (\<lambda>v_uc_bytes.
     Inr \<lparr>uc_blocks = v_uc_blocks,
       uc_bytes = v_uc_bytes\<rparr>))"

definition dec_user_capacity :: "json \<Rightarrow> user_capacity res" where
  "dec_user_capacity = dec_struct (dec_user_capacity_body) zero_user_capacity"

record smart_status_info =
  ssi_passed :: bool

definition zero_smart_status_info :: smart_status_info where
  "zero_smart_status_info = \<lparr>ssi_passed = False\<rparr>"

definition dec_smart_status_info_body :: "(string \<times> json) list \<Rightarrow> smart_status_info res" where
  "dec_smart_status_info_body fs =
     attempt (jfield fs ''passed'' False dec_bool) (\<lambda>v_ssi_passed.
     Inr \<lparr>ssi_passed = v_ssi_passed\<rparr>)"

definition dec_smart_status_info :: "json \<Rightarrow> smart_status_info res" where
  "dec_smart_status_info = dec_struct (dec_smart_status_info_body) zero_smart_status_info"

record ata_attribute =
  aa_id :: "16 word"
  aa_name :: string
  aa_value :: "16 word"
  aa_worst :: "16 word"
  aa_thresh :: "16 word"
  aa_when_failed :: string
  aa_raw :: raw_value

definition zero_ata_attribute :: ata_attribute where
  "zero_ata_attribute = \<lparr>aa_id = 0,
     aa_name = [],
     aa_value = 0,
     aa_worst = 0,
     aa_thresh = 0,
     aa_when_failed = [],
     aa_raw = zero_raw_value\<rparr>"

definition dec_ata_attribute_body :: "(json \<Rightarrow> string) \<Rightarrow> (string \<times> json) list \<Rightarrow> ata_attribute res" where
  "dec_ata_attribute_body render fs =
     attempt (jfield fs ''id'' 0 dec_word) (\<lambda>v_aa_id.
     attempt (jfield fs ''name'' [] dec_str) (\<lambda>v_aa_name.
     attempt (jfield fs ''value'' 0 dec_word) (\<lambda>v_aa_value.
     attempt (jfield fs ''worst'' 0 dec_word) (\<lambda>v_aa_worst.
     attempt (jfield fs ''thresh'' 0 dec_word) (\<lambda>v_aa_thresh.
     attempt (jfield fs ''when_failed'' [] dec_str) (\<lambda>v_aa_when_failed.
     attempt (jfield fs ''raw'' zero_raw_value (dec_raw_value render)) (\<lambda>v_aa_raw.
     Inr \<lparr>aa_id = v_aa_id,
       aa_name = v_aa_name,
       aa_value = v_aa_value,
       aa_worst = v_aa_worst,
       aa_thresh = v_aa_thresh,
       aa_when_failed = v_aa_when_failed,
       aa_raw = v_aa_raw\<rparr>)))))))"

definition dec_ata_attribute :: "(json \<Rightarrow> string) \<Rightarrow> json \<Rightarrow> ata_attribute res" where
  "dec_ata_attribute render = dec_struct (dec_ata_attribute_body render) zero_ata_attribute"

record ata_smart_attributes =
  asa_table :: "ata_attribute list"

definition zero_ata_smart_attributes :: ata_smart_attributes where
  "zero_ata_smart_attributes = \<lparr>asa_table = []\<rparr>"

definition dec_ata_smart_attributes_body :: "(json \<Rightarrow> string) \<Rightarrow> (string \<times> json) list \<Rightarrow> ata_smart_attributes res" where
  "dec_ata_smart_attributes_body render fs =
     attempt (jfield fs ''table'' [] (dec_list (dec_ata_attribute render))) (\<lambda>v_asa_table.
     Inr \<lparr>asa_table = v_asa_table\<rparr>)"

definition dec_ata_smart_attributes :: "(json \<Rightarrow> string) \<Rightarrow> json \<Rightarrow> ata_smart_attributes res" where
  "dec_ata_smart_attributes render = dec_struct (dec_ata_smart_attributes_body render) zero_ata_smart_attributes"

record devstat_entry =
  dse_name :: string
  dse_value :: "int option"

definition zero_devstat_entry :: devstat_entry where
  "zero_devstat_entry = \<lparr>dse_name = [],
     dse_value = None\<rparr>"

definition dec_devstat_entry_body :: "(string \<times> json) list \<Rightarrow> devstat_entry res" where
  "dec_devstat_entry_body fs =
     attempt (jfield fs ''name'' [] dec_str) (\<lambda>v_dse_name.
     attempt (jfield fs ''value'' None (dec_ptr (dec_int 64))) (\<lambda>v_dse_value.
     Inr \<lparr>dse_name = v_dse_name,
       dse_value = v_dse_value\<rparr>))"

definition dec_devstat_entry :: "json \<Rightarrow> devstat_entry res" where
  "dec_devstat_entry = dec_struct (dec_devstat_entry_body) zero_devstat_entry"

record devstat_page =
  dsp_number :: "8 word"
  dsp_table :: "devstat_entry list"

definition zero_devstat_page :: devstat_page where
  "zero_devstat_page = \<lparr>dsp_number = 0,
     dsp_table = []\<rparr>"

definition dec_devstat_page_body :: "(string \<times> json) list \<Rightarrow> devstat_page res" where
  "dec_devstat_page_body fs =
     attempt (jfield fs ''number'' 0 dec_word) (\<lambda>v_dsp_number.
     attempt (jfield fs ''table'' [] (dec_list dec_devstat_entry)) (\<lambda>v_dsp_table.
     Inr \<lparr>dsp_number = v_dsp_number,
       dsp_table = v_dsp_table\<rparr>))"

definition dec_devstat_page :: "json \<Rightarrow> devstat_page res" where
  "dec_devstat_page = dec_struct (dec_devstat_page_body) zero_devstat_page"

record ata_device_statistics =
  ads_pages :: "devstat_page list"

definition zero_ata_device_statistics :: ata_device_statistics where
  "zero_ata_device_statistics = \<lparr>ads_pages = []\<rparr>"

definition dec_ata_device_statistics_body :: "(string \<times> json) list \<Rightarrow> ata_device_statistics res" where
  "dec_ata_device_statistics_body fs =
     attempt (jfield fs ''pages'' [] (dec_list dec_devstat_page)) (\<lambda>v_ads_pages.
     Inr \<lparr>ads_pages = v_ads_pages\<rparr>)"

definition dec_ata_device_statistics :: "json \<Rightarrow> ata_device_statistics res" where
  "dec_ata_device_statistics = dec_struct (dec_ata_device_statistics_body) zero_ata_device_statistics"

record temperature_info =
  ti_current :: "8 word"

definition zero_temperature_info :: temperature_info where
  "zero_temperature_info = \<lparr>ti_current = 0\<rparr>"

definition dec_temperature_info_body :: "(string \<times> json) list \<Rightarrow> temperature_info res" where
  "dec_temperature_info_body fs =
     attempt (jfield fs ''current'' 0 dec_word) (\<lambda>v_ti_current.
     Inr \<lparr>ti_current = v_ti_current\<rparr>)"

definition dec_temperature_info :: "json \<Rightarrow> temperature_info res" where
  "dec_temperature_info = dec_struct (dec_temperature_info_body) zero_temperature_info"

record sata_info =
  sata_smartctl :: smartctl_info
  sata_device :: smart_device_info
  sata_model_name :: string
  sata_serial_number :: string
  sata_firmware_version :: string
  sata_user_capacity :: user_capacity
  sata_scsi_vendor :: string
  sata_scsi_product :: string
  sata_smart_status :: smart_status_info
  sata_attributes :: ata_smart_attributes
  sata_device_statistics :: "json option"
  sata_temperature :: temperature_info

definition zero_sata_info :: sata_info where
  "zero_sata_info = \<lparr>sata_smartctl = zero_smartctl_info,
     sata_device = zero_smart_device_info,
     sata_model_name = [],
     sata_serial_number = [],
     sata_firmware_version = [],
     sata_user_capacity = zero_user_capacity,
     sata_scsi_vendor = [],
     sata_scsi_product = [],
     sata_smart_status = zero_smart_status_info,
     sata_attributes = zero_ata_smart_attributes,
     sata_device_statistics = None,
     sata_temperature = zero_temperature_info\<rparr>"

definition dec_sata_info_body :: "(json \<Rightarrow> string) \<Rightarrow> (string \<times> json) list \<Rightarrow> sata_info res" where
  "dec_sata_info_body render fs =
     attempt (jfield fs ''smartctl'' zero_smartctl_info dec_smartctl_info) (\<lambda>v_sata_smartctl.
     attempt (jfield fs ''device'' zero_smart_device_info dec_smart_device_info) (\<lambda>v_sata_device.
     attempt (jfield fs ''model_name'' [] dec_str) (\<lambda>v_sata_model_name.
     attempt (jfield fs ''serial_number'' [] dec_str) (\<lambda>v_sata_serial_number.
     attempt (jfield fs ''firmware_version'' [] dec_str) (\<lambda>v_sata_firmware_version.
     attempt (jfield fs ''user_capacity'' zero_user_capacity dec_user_capacity) (\<lambda>v_sata_user_capacity.
     attempt (jfield fs ''scsi_vendor'' [] dec_str) (\<lambda>v_sata_scsi_vendor.
     attempt (jfield fs ''scsi_product'' [] dec_str) (\<lambda>v_sata_scsi_product.
     attempt (jfield fs ''smart_status'' zero_smart_status_info dec_smart_status_info) (\<lambda>v_sata_smart_status.
     attempt (jfield fs ''ata_smart_attributes'' zero_ata_smart_attributes (dec_ata_smart_attributes render)) (\<lambda>v_sata_attributes.
     attempt (jfield fs ''temperature'' zero_temperature_info dec_temperature_info) (\<lambda>v_sata_temperature.
     Inr \<lparr>sata_smartctl = v_sata_smartctl,
       sata_device = v_sata_device,
       sata_model_name = v_sata_model_name,
       sata_serial_number = v_sata_serial_number,
       sata_firmware_version = v_sata_firmware_version,
       sata_user_capacity = v_sata_user_capacity,
       sata_scsi_vendor = v_sata_scsi_vendor,
       sata_scsi_product = v_sata_scsi_product,
       sata_smart_status = v_sata_smart_status,
       sata_attributes = v_sata_attributes,
       sata_device_statistics = jlast fs ''ata_device_statistics'',
       sata_temperature = v_sata_temperature\<rparr>)))))))))))"

definition dec_sata_info :: "(json \<Rightarrow> string) \<Rightarrow> json \<Rightarrow> sata_info res" where
  "dec_sata_info render = dec_struct (dec_sata_info_body render) zero_sata_info"

record temperature_info_scsi =
  tis_current :: "8 word"
  tis_drive_trip :: "8 word"

definition zero_temperature_info_scsi :: temperature_info_scsi where
  "zero_temperature_info_scsi = \<lparr>tis_current = 0,
     tis_drive_trip = 0\<rparr>"

definition dec_temperature_info_scsi_body :: "(string \<times> json) list \<Rightarrow> temperature_info_scsi res" where
  "dec_temperature_info_scsi_body fs =
     attempt (jfield fs ''current'' 0 dec_word) (\<lambda>v_tis_current.
     attempt (jfield fs ''drive_trip'' 0 dec_word) (\<lambda>v_tis_drive_trip.
     Inr \<lparr>tis_current = v_tis_current,
       tis_drive_trip = v_tis_drive_trip\<rparr>))"

definition dec_temperature_info_scsi :: "json \<Rightarrow> temperature_info_scsi res" where
  "dec_temperature_info_scsi = dec_struct (dec_temperature_info_scsi_body) zero_temperature_info_scsi"

record scsi_error_counter =
  sec_ecc_fast :: u64
  sec_ecc_delayed :: u64
  sec_rereads_rewrites :: u64
  sec_total_corrected :: u64
  sec_algorithm_invocations :: u64
  sec_gigabytes_processed :: string
  sec_total_uncorrected :: u64

definition zero_scsi_error_counter :: scsi_error_counter where
  "zero_scsi_error_counter = \<lparr>sec_ecc_fast = 0,
     sec_ecc_delayed = 0,
     sec_rereads_rewrites = 0,
     sec_total_corrected = 0,
     sec_algorithm_invocations = 0,
     sec_gigabytes_processed = [],
     sec_total_uncorrected = 0\<rparr>"

definition dec_scsi_error_counter_body :: "(string \<times> json) list \<Rightarrow> scsi_error_counter res" where
  "dec_scsi_error_counter_body fs =
     attempt (jfield fs ''errors_corrected_by_eccfast'' 0 dec_word) (\<lambda>v_sec_ecc_fast.
     attempt (jfield fs ''errors_corrected_by_eccdelayed'' 0 dec_word) (\<lambda>v_sec_ecc_delayed.
     attempt (jfield fs ''errors_corrected_by_rereads_rewrites'' 0 dec_word) (\<lambda>v_sec_rereads_rewrites.
     attempt (jfield fs ''total_errors_corrected'' 0 dec_word) (\<lambda>v_sec_total_corrected.
     attempt (jfield fs ''correction_algorithm_invocations'' 0 dec_word) (\<lambda>v_sec_algorithm_invocations.
     attempt (jfield fs ''gigabytes_processed'' [] dec_str) (\<lambda>v_sec_gigabytes_processed.
     attempt (jfield fs ''total_uncorrected_errors'' 0 dec_word) (\<lambda>v_sec_total_uncorrected.
     Inr \<lparr>sec_ecc_fast = v_sec_ecc_fast,
       sec_ecc_delayed = v_sec_ecc_delayed,
       sec_rereads_rewrites = v_sec_rereads_rewrites,
       sec_total_corrected = v_sec_total_corrected,
       sec_algorithm_invocations = v_sec_algorithm_invocations,
       sec_gigabytes_processed = v_sec_gigabytes_processed,
       sec_total_uncorrected = v_sec_total_uncorrected\<rparr>)))))))"

definition dec_scsi_error_counter :: "json \<Rightarrow> scsi_error_counter res" where
  "dec_scsi_error_counter = dec_struct (dec_scsi_error_counter_body) zero_scsi_error_counter"

record scsi_error_counter_log =
  sel_read :: scsi_error_counter
  sel_write :: scsi_error_counter
  sel_verify :: scsi_error_counter

definition zero_scsi_error_counter_log :: scsi_error_counter_log where
  "zero_scsi_error_counter_log = \<lparr>sel_read = zero_scsi_error_counter,
     sel_write = zero_scsi_error_counter,
     sel_verify = zero_scsi_error_counter\<rparr>"

definition dec_scsi_error_counter_log_body :: "(string \<times> json) list \<Rightarrow> scsi_error_counter_log res" where
  "dec_scsi_error_counter_log_body fs =
     attempt (jfield fs ''read'' zero_scsi_error_counter dec_scsi_error_counter) (\<lambda>v_sel_read.
     attempt (jfield fs ''write'' zero_scsi_error_counter dec_scsi_error_counter) (\<lambda>v_sel_write.
     attempt (jfield fs ''verify'' zero_scsi_error_counter dec_scsi_error_counter) (\<lambda>v_sel_verify.
     Inr \<lparr>sel_read = v_sel_read,
       sel_write = v_sel_write,
       sel_verify = v_sel_verify\<rparr>)))"

definition dec_scsi_error_counter_log :: "json \<Rightarrow> scsi_error_counter_log res" where
  "dec_scsi_error_counter_log = dec_struct (dec_scsi_error_counter_log_body) zero_scsi_error_counter_log"

record scsi_cycle_counter =
  scc_year :: string
  scc_week :: string
  scc_specified_cycles :: u64
  scc_start_stop_cycles :: u64
  scc_specified_load_unload :: u64
  scc_load_unload_cycles :: u64

definition zero_scsi_cycle_counter :: scsi_cycle_counter where
  "zero_scsi_cycle_counter = \<lparr>scc_year = [],
     scc_week = [],
     scc_specified_cycles = 0,
     scc_start_stop_cycles = 0,
     scc_specified_load_unload = 0,
     scc_load_unload_cycles = 0\<rparr>"

definition dec_scsi_cycle_counter_body :: "(string \<times> json) list \<Rightarrow> scsi_cycle_counter res" where
  "dec_scsi_cycle_counter_body fs =
     attempt (jfield fs ''year_of_manufacture'' [] dec_str) (\<lambda>v_scc_year.
     attempt (jfield fs ''week_of_manufacture'' [] dec_str) (\<lambda>v_scc_week.
     attempt (jfield fs ''specified_cycle_count_over_device_lifetime'' 0 dec_word) (\<lambda>v_scc_specified_cycles.
     attempt (jfield fs ''accumulated_start_stop_cycles'' 0 dec_word) (\<lambda>v_scc_start_stop_cycles.
     attempt (jfield fs ''specified_load_unload_count_over_device_lifetime'' 0 dec_word) (\<lambda>v_scc_specified_load_unload.
     attempt (jfield fs ''accumulated_load_unload_cycles'' 0 dec_word) (\<lambda>v_scc_load_unload_cycles.
     Inr \<lparr>scc_year = v_scc_year,
       scc_week = v_scc_week,
       scc_specified_cycles = v_scc_specified_cycles,
       scc_start_stop_cycles = v_scc_start_stop_cycles,
       scc_specified_load_unload = v_scc_specified_load_unload,
       scc_load_unload_cycles = v_scc_load_unload_cycles\<rparr>))))))"

definition dec_scsi_cycle_counter :: "json \<Rightarrow> scsi_cycle_counter res" where
  "dec_scsi_cycle_counter = dec_struct (dec_scsi_cycle_counter_body) zero_scsi_cycle_counter"

record power_on_time_scsi =
  pos_hours :: u64
  pos_minutes :: u64

definition zero_power_on_time_scsi :: power_on_time_scsi where
  "zero_power_on_time_scsi = \<lparr>pos_hours = 0,
     pos_minutes = 0\<rparr>"

definition dec_power_on_time_scsi_body :: "(string \<times> json) list \<Rightarrow> power_on_time_scsi res" where
  "dec_power_on_time_scsi_body fs =
     attempt (jfield fs ''hours'' 0 dec_word) (\<lambda>v_pos_hours.
     attempt (jfield fs ''minutes'' 0 dec_word) (\<lambda>v_pos_minutes.
     Inr \<lparr>pos_hours = v_pos_hours,
       pos_minutes = v_pos_minutes\<rparr>))"

definition dec_power_on_time_scsi :: "json \<Rightarrow> power_on_time_scsi res" where
  "dec_power_on_time_scsi = dec_struct (dec_power_on_time_scsi_body) zero_power_on_time_scsi"

record scsi_info =
  scsi_smartctl :: smartctl_info
  scsi_device :: smart_device_info
  scsi_vendor :: string
  scsi_product :: string
  scsi_model_name :: string
  scsi_revision :: string
  scsi_version :: string
  scsi_serial_number :: string
  scsi_user_capacity :: user_capacity
  scsi_temperature :: temperature_info_scsi
  scsi_smart_status :: smart_status_info
  scsi_power_on_time :: power_on_time_scsi
  scsi_cycle_counter :: scsi_cycle_counter
  scsi_grown_defect_list :: u64
  scsi_error_counter_log :: scsi_error_counter_log

definition zero_scsi_info :: scsi_info where
  "zero_scsi_info = \<lparr>scsi_smartctl = zero_smartctl_info,
     scsi_device = zero_smart_device_info,
     scsi_vendor = [],
     scsi_product = [],
     scsi_model_name = [],
     scsi_revision = [],
     scsi_version = [],
     scsi_serial_number = [],
     scsi_user_capacity = zero_user_capacity,
     scsi_temperature = zero_temperature_info_scsi,
     scsi_smart_status = zero_smart_status_info,
     scsi_power_on_time = zero_power_on_time_scsi,
     scsi_cycle_counter = zero_scsi_cycle_counter,
     scsi_grown_defect_list = 0,
     scsi_error_counter_log = zero_scsi_error_counter_log\<rparr>"

definition dec_scsi_info_body :: "(string \<times> json) list \<Rightarrow> scsi_info res" where
  "dec_scsi_info_body fs =
     attempt (jfield fs ''smartctl'' zero_smartctl_info dec_smartctl_info) (\<lambda>v_scsi_smartctl.
     attempt (jfield fs ''device'' zero_smart_device_info dec_smart_device_info) (\<lambda>v_scsi_device.
     attempt (jfield fs ''scsi_vendor'' [] dec_str) (\<lambda>v_scsi_vendor.
     attempt (jfield fs ''scsi_product'' [] dec_str) (\<lambda>v_scsi_product.
     attempt (jfield fs ''scsi_model_name'' [] dec_str) (\<lambda>v_scsi_model_name.
     attempt (jfield fs ''scsi_revision'' [] dec_str) (\<lambda>v_scsi_revision.
     attempt (jfield fs ''scsi_version'' [] dec_str) (\<lambda>v_scsi_version.
     attempt (jfield fs ''serial_number'' [] dec_str) (\<lambda>v_scsi_serial_number.
     attempt (jfield fs ''user_capacity'' zero_user_capacity dec_user_capacity) (\<lambda>v_scsi_user_capacity.
     attempt (jfield fs ''temperature'' zero_temperature_info_scsi dec_temperature_info_scsi) (\<lambda>v_scsi_temperature.
     attempt (jfield fs ''smart_status'' zero_smart_status_info dec_smart_status_info) (\<lambda>v_scsi_smart_status.
     attempt (jfield fs ''power_on_time'' zero_power_on_time_scsi dec_power_on_time_scsi) (\<lambda>v_scsi_power_on_time.
     attempt (jfield fs ''scsi_start_stop_cycle_counter'' zero_scsi_cycle_counter dec_scsi_cycle_counter) (\<lambda>v_scsi_cycle_counter.
     attempt (jfield fs ''scsi_grown_defect_list'' 0 dec_word) (\<lambda>v_scsi_grown_defect_list.
     attempt (jfield fs ''scsi_error_counter_log'' zero_scsi_error_counter_log dec_scsi_error_counter_log) (\<lambda>v_scsi_error_counter_log.
     Inr \<lparr>scsi_smartctl = v_scsi_smartctl,
       scsi_device = v_scsi_device,
       scsi_vendor = v_scsi_vendor,
       scsi_product = v_scsi_product,
       scsi_model_name = v_scsi_model_name,
       scsi_revision = v_scsi_revision,
       scsi_version = v_scsi_version,
       scsi_serial_number = v_scsi_serial_number,
       scsi_user_capacity = v_scsi_user_capacity,
       scsi_temperature = v_scsi_temperature,
       scsi_smart_status = v_scsi_smart_status,
       scsi_power_on_time = v_scsi_power_on_time,
       scsi_cycle_counter = v_scsi_cycle_counter,
       scsi_grown_defect_list = v_scsi_grown_defect_list,
       scsi_error_counter_log = v_scsi_error_counter_log\<rparr>)))))))))))))))"

definition dec_scsi_info :: "json \<Rightarrow> scsi_info res" where
  "dec_scsi_info = dec_struct (dec_scsi_info_body) zero_scsi_info"

record nvme_status_value =
  nsv_value :: int

definition zero_nvme_status_value :: nvme_status_value where
  "zero_nvme_status_value = \<lparr>nsv_value = 0\<rparr>"

definition dec_nvme_status_value_body :: "(string \<times> json) list \<Rightarrow> nvme_status_value res" where
  "dec_nvme_status_value_body fs =
     attempt (jfield fs ''value'' 0 (dec_int 64)) (\<lambda>v_nsv_value.
     Inr \<lparr>nsv_value = v_nsv_value\<rparr>)"

definition dec_nvme_status_value :: "json \<Rightarrow> nvme_status_value res" where
  "dec_nvme_status_value = dec_struct (dec_nvme_status_value_body) zero_nvme_status_value"

record nvme_status_info =
  nsi_passed :: bool
  nsi_nvme :: nvme_status_value

definition zero_nvme_status_info :: nvme_status_info where
  "zero_nvme_status_info = \<lparr>nsi_passed = False,
     nsi_nvme = zero_nvme_status_value\<rparr>"

definition dec_nvme_status_info_body :: "(string \<times> json) list \<Rightarrow> nvme_status_info res" where
  "dec_nvme_status_info_body fs =
     attempt (jfield fs ''passed'' False dec_bool) (\<lambda>v_nsi_passed.
     attempt (jfield fs ''nvme'' zero_nvme_status_value dec_nvme_status_value) (\<lambda>v_nsi_nvme.
     Inr \<lparr>nsi_passed = v_nsi_passed,
       nsi_nvme = v_nsi_nvme\<rparr>))"

definition dec_nvme_status_info :: "json \<Rightarrow> nvme_status_info res" where
  "dec_nvme_status_info = dec_struct (dec_nvme_status_info_body) zero_nvme_status_info"

record nvme_health_log =
  nhl_critical_warning :: u64
  nhl_temperature :: "8 word"
  nhl_available_spare :: u64
  nhl_available_spare_threshold :: u64
  nhl_percentage_used :: "8 word"
  nhl_data_units_read :: u64
  nhl_data_units_written :: u64
  nhl_host_reads :: u64
  nhl_host_writes :: u64
  nhl_controller_busy_time :: u64
  nhl_power_cycles :: "16 word"
  nhl_power_on_hours :: "32 word"
  nhl_unsafe_shutdowns :: "16 word"
  nhl_media_errors :: u64
  nhl_num_err_log_entries :: u64
  nhl_warning_temp_time :: u64
  nhl_critical_comp_time :: u64
  nhl_temperature_sensors :: "8 word list"

definition zero_nvme_health_log :: nvme_health_log where
  "zero_nvme_health_log = \<lparr>nhl_critical_warning = 0,
     nhl_temperature = 0,
     nhl_available_spare = 0,
     nhl_available_spare_threshold = 0,
     nhl_percentage_used = 0,
     nhl_data_units_read = 0,
     nhl_data_units_written = 0,
     nhl_host_reads = 0,
     nhl_host_writes = 0,
     nhl_controller_busy_time = 0,
     nhl_power_cycles = 0,
     nhl_power_on_hours = 0,
     nhl_unsafe_shutdowns = 0,
     nhl_media_errors = 0,
     nhl_num_err_log_entries = 0,
     nhl_warning_temp_time = 0,
     nhl_critical_comp_time = 0,
     nhl_temperature_sensors = []\<rparr>"

definition dec_nvme_health_log_body :: "(string \<times> json) list \<Rightarrow> nvme_health_log res" where
  "dec_nvme_health_log_body fs =
     attempt (jfield fs ''critical_warning'' 0 dec_word) (\<lambda>v_nhl_critical_warning.
     attempt (jfield fs ''temperature'' 0 dec_word) (\<lambda>v_nhl_temperature.
     attempt (jfield fs ''available_spare'' 0 dec_word) (\<lambda>v_nhl_available_spare.
     attempt (jfield fs ''available_spare_threshold'' 0 dec_word) (\<lambda>v_nhl_available_spare_threshold.
     attempt (jfield fs ''percentage_used'' 0 dec_word) (\<lambda>v_nhl_percentage_used.
     attempt (jfield fs ''data_units_read'' 0 dec_word) (\<lambda>v_nhl_data_units_read.
     attempt (jfield fs ''data_units_written'' 0 dec_word) (\<lambda>v_nhl_data_units_written.
     attempt (jfield fs ''host_reads'' 0 dec_word) (\<lambda>v_nhl_host_reads.
     attempt (jfield fs ''host_writes'' 0 dec_word) (\<lambda>v_nhl_host_writes.
     attempt (jfield fs ''controller_busy_time'' 0 dec_word) (\<lambda>v_nhl_controller_busy_time.
     attempt (jfield fs ''power_cycles'' 0 dec_word) (\<lambda>v_nhl_power_cycles.
     attempt (jfield fs ''power_on_hours'' 0 dec_word) (\<lambda>v_nhl_power_on_hours.
     attempt (jfield fs ''unsafe_shutdowns'' 0 dec_word) (\<lambda>v_nhl_unsafe_shutdowns.
     attempt (jfield fs ''media_errors'' 0 dec_word) (\<lambda>v_nhl_media_errors.
     attempt (jfield fs ''num_err_log_entries'' 0 dec_word) (\<lambda>v_nhl_num_err_log_entries.
     attempt (jfield fs ''warning_temp_time'' 0 dec_word) (\<lambda>v_nhl_warning_temp_time.
     attempt (jfield fs ''critical_comp_time'' 0 dec_word) (\<lambda>v_nhl_critical_comp_time.
     attempt (jfield fs ''temperature_sensors'' [] (dec_list dec_word)) (\<lambda>v_nhl_temperature_sensors.
     Inr \<lparr>nhl_critical_warning = v_nhl_critical_warning,
       nhl_temperature = v_nhl_temperature,
       nhl_available_spare = v_nhl_available_spare,
       nhl_available_spare_threshold = v_nhl_available_spare_threshold,
       nhl_percentage_used = v_nhl_percentage_used,
       nhl_data_units_read = v_nhl_data_units_read,
       nhl_data_units_written = v_nhl_data_units_written,
       nhl_host_reads = v_nhl_host_reads,
       nhl_host_writes = v_nhl_host_writes,
       nhl_controller_busy_time = v_nhl_controller_busy_time,
       nhl_power_cycles = v_nhl_power_cycles,
       nhl_power_on_hours = v_nhl_power_on_hours,
       nhl_unsafe_shutdowns = v_nhl_unsafe_shutdowns,
       nhl_media_errors = v_nhl_media_errors,
       nhl_num_err_log_entries = v_nhl_num_err_log_entries,
       nhl_warning_temp_time = v_nhl_warning_temp_time,
       nhl_critical_comp_time = v_nhl_critical_comp_time,
       nhl_temperature_sensors = v_nhl_temperature_sensors\<rparr>))))))))))))))))))"

definition dec_nvme_health_log :: "json \<Rightarrow> nvme_health_log res" where
  "dec_nvme_health_log = dec_struct (dec_nvme_health_log_body) zero_nvme_health_log"

record temperature_info_nvme =
  tin_current :: int

definition zero_temperature_info_nvme :: temperature_info_nvme where
  "zero_temperature_info_nvme = \<lparr>tin_current = 0\<rparr>"

definition dec_temperature_info_nvme_body :: "(string \<times> json) list \<Rightarrow> temperature_info_nvme res" where
  "dec_temperature_info_nvme_body fs =
     attempt (jfield fs ''current'' 0 (dec_int 64)) (\<lambda>v_tin_current.
     Inr \<lparr>tin_current = v_tin_current\<rparr>)"

definition dec_temperature_info_nvme :: "json \<Rightarrow> temperature_info_nvme res" where
  "dec_temperature_info_nvme = dec_struct (dec_temperature_info_nvme_body) zero_temperature_info_nvme"

record power_on_time_nvme =
  pon_hours :: int

definition zero_power_on_time_nvme :: power_on_time_nvme where
  "zero_power_on_time_nvme = \<lparr>pon_hours = 0\<rparr>"

definition dec_power_on_time_nvme_body :: "(string \<times> json) list \<Rightarrow> power_on_time_nvme res" where
  "dec_power_on_time_nvme_body fs =
     attempt (jfield fs ''hours'' 0 (dec_int 64)) (\<lambda>v_pon_hours.
     Inr \<lparr>pon_hours = v_pon_hours\<rparr>)"

definition dec_power_on_time_nvme :: "json \<Rightarrow> power_on_time_nvme res" where
  "dec_power_on_time_nvme = dec_struct (dec_power_on_time_nvme_body) zero_power_on_time_nvme"

record nvme_info =
  nvme_smartctl :: smartctl_info
  nvme_device :: smart_device_info
  nvme_model_name :: string
  nvme_serial_number :: string
  nvme_firmware_version :: string
  nvme_total_capacity :: u64
  nvme_user_capacity :: user_capacity
  nvme_smart_status :: nvme_status_info
  nvme_health_log :: nvme_health_log
  nvme_temperature :: temperature_info_nvme
  nvme_power_cycle_count :: "16 word"
  nvme_power_on_time :: power_on_time_nvme

definition zero_nvme_info :: nvme_info where
  "zero_nvme_info = \<lparr>nvme_smartctl = zero_smartctl_info,
     nvme_device = zero_smart_device_info,
     nvme_model_name = [],
     nvme_serial_number = [],
     nvme_firmware_version = [],
     nvme_total_capacity = 0,
     nvme_user_capacity = zero_user_capacity,
     nvme_smart_status = zero_nvme_status_info,
     nvme_health_log = zero_nvme_health_log,
     nvme_temperature = zero_temperature_info_nvme,
     nvme_power_cycle_count = 0,
     nvme_power_on_time = zero_power_on_time_nvme\<rparr>"

definition dec_nvme_info_body :: "(string \<times> json) list \<Rightarrow> nvme_info res" where
  "dec_nvme_info_body fs =
     attempt (jfield fs ''smartctl'' zero_smartctl_info dec_smartctl_info) (\<lambda>v_nvme_smartctl.
     attempt (jfield fs ''device'' zero_smart_device_info dec_smart_device_info) (\<lambda>v_nvme_device.
     attempt (jfield fs ''model_name'' [] dec_str) (\<lambda>v_nvme_model_name.
     attempt (jfield fs ''serial_number'' [] dec_str) (\<lambda>v_nvme_serial_number.
     attempt (jfield fs ''firmware_version'' [] dec_str) (\<lambda>v_nvme_firmware_version.
     attempt (jfield fs ''nvme_total_capacity'' 0 dec_word) (\<lambda>v_nvme_total_capacity.
     attempt (jfield fs ''user_capacity'' zero_user_capacity dec_user_capacity) (\<lambda>v_nvme_user_capacity.
     attempt (jfield fs ''smart_status'' zero_nvme_status_info dec_nvme_status_info) (\<lambda>v_nvme_smart_status.
     attempt (jfield fs ''nvme_smart_health_information_log'' zero_nvme_health_log dec_nvme_health_log) (\<lambda>v_nvme_health_log.
     attempt (jfield fs ''temperature'' zero_temperature_info_nvme dec_temperature_info_nvme) (\<lambda>v_nvme_temperature.
     attempt (jfield fs ''power_cycle_count'' 0 dec_word) (\<lambda>v_nvme_power_cycle_count.
     attempt (jfield fs ''power_on_time'' zero_power_on_time_nvme dec_power_on_time_nvme) (\<lambda>v_nvme_power_on_time.
     Inr \<lparr>nvme_smartctl = v_nvme_smartctl,
       nvme_device = v_nvme_device,
       nvme_model_name = v_nvme_model_name,
       nvme_serial_number = v_nvme_serial_number,
       nvme_firmware_version = v_nvme_firmware_version,
       nvme_total_capacity = v_nvme_total_capacity,
       nvme_user_capacity = v_nvme_user_capacity,
       nvme_smart_status = v_nvme_smart_status,
       nvme_health_log = v_nvme_health_log,
       nvme_temperature = v_nvme_temperature,
       nvme_power_cycle_count = v_nvme_power_cycle_count,
       nvme_power_on_time = v_nvme_power_on_time\<rparr>))))))))))))"

definition dec_nvme_info :: "json \<Rightarrow> nvme_info res" where
  "dec_nvme_info = dec_struct (dec_nvme_info_body) zero_nvme_info"

section \<open>What the agent keeps\<close>

record smart_attribute =
  sattr_id :: "16 word"
  sattr_name :: string
  sattr_value :: "16 word"
  sattr_worst :: "16 word"
  sattr_threshold :: "16 word"
  sattr_raw_value :: u64
  sattr_raw_string :: string
  sattr_when_failed :: string

definition enc_smart_attribute :: "smart_attribute \<Rightarrow> json" where
  "enc_smart_attribute a = JObj
     (jopt (sattr_id a \<noteq> 0) ''id'' (enc_word (sattr_id a)) @ jf ''name'' (JStr (sattr_name a))
      @ jopt (sattr_value a \<noteq> 0) ''value'' (enc_word (sattr_value a))
      @ jopt (sattr_worst a \<noteq> 0) ''worst'' (enc_word (sattr_worst a))
      @ jopt (sattr_threshold a \<noteq> 0) ''threshold'' (enc_word (sattr_threshold a))
      @ jf ''raw_value'' (enc_word (sattr_raw_value a))
      @ jopt (sattr_raw_string a \<noteq> []) ''raw_string'' (JStr (sattr_raw_string a))
      @ jopt (sattr_when_failed a \<noteq> []) ''when_failed'' (JStr (sattr_when_failed a)))"

record smart_data =
  smd_model_name :: string
  smd_serial_number :: string
  smd_firmware_version :: string
  smd_capacity :: u64
  smd_smart_status :: string
  smd_disk_name :: string
  smd_disk_type :: string
  smd_temperature :: "8 word"
  smd_attributes :: "smart_attribute list"

definition zero_smart_data :: smart_data where
  "zero_smart_data = \<lparr>smd_model_name = [], smd_serial_number = [], smd_firmware_version = [],
     smd_capacity = 0, smd_smart_status = [], smd_disk_name = [], smd_disk_type = [],
     smd_temperature = 0, smd_attributes = []\<rparr>"

definition enc_smart_data :: "smart_data \<Rightarrow> json" where
  "enc_smart_data d = JObj
     (jopt (smd_model_name d \<noteq> []) ''model_name'' (JStr (smd_model_name d))
      @ jopt (smd_serial_number d \<noteq> []) ''serial_number'' (JStr (smd_serial_number d))
      @ jopt (smd_firmware_version d \<noteq> []) ''firmware_version'' (JStr (smd_firmware_version d))
      @ jopt (smd_capacity d \<noteq> 0) ''capacity_bytes'' (enc_word (smd_capacity d))
      @ jopt (smd_smart_status d \<noteq> []) ''smart_status'' (JStr (smd_smart_status d))
      @ jopt (smd_disk_name d \<noteq> []) ''disk_name'' (JStr (smd_disk_name d))
      @ jopt (smd_disk_type d \<noteq> []) ''disk_type'' (JStr (smd_disk_type d))
      @ jopt (smd_temperature d \<noteq> 0) ''temperature_celsius'' (enc_word (smd_temperature d))
      @ jopt (smd_attributes d \<noteq> []) ''attributes'' (enc_arr enc_smart_attribute (smd_attributes d)))"


section \<open>Annotated raw values\<close>

lemma base_value_stops: "digit_in_base base c = None \<Longrightarrow> c \<noteq> CHR ''_'' \<Longrightarrow> c \<in> set s \<Longrightarrow> base_value base acc s = None"
  by (induction s arbitrary: acc) (auto split: option.splits)

lemma space_no_digit [simp]: "digit_in_base base (CHR '' '') = None"
  by (simp add: digit_in_base_def lower_char_def Let_def)

lemma lower_char_space [simp]: "lower_char (CHR '' '') = CHR '' ''"
  by (simp add: lower_char_def)

lemma is_digit_space [simp]: "\<not> is_digit (CHR '' '')"
  by (simp add: is_digit_def digit_value_def)

lemma parse_uint_any_space: "CHR '' '' \<in> set s \<Longrightarrow> parse_uint_any s = None"
proof -
  assume s: "CHR '' '' \<in> set s"
  obtain base body where b: "base_prefix s = (base, body)" by fastforce
  have "CHR '' '' \<in> set body"
    using s b by (auto simp: base_prefix_def split: list.splits if_splits)
  then have "base_value base 0 body = None"
    by (intro base_value_stops [OF space_no_digit]) simp_all
  then show ?thesis by (simp add: parse_uint_any_def b)
qed

lemma digit_char: "is_digit c \<Longrightarrow> \<exists>d < 10. c = char_of (48 + d :: nat)"
proof -
  assume "is_digit c"
  then have n: "48 \<le> (of_char c :: nat)" "(of_char c :: nat) \<le> 57"
    by (auto simp: is_digit_def digit_value_def Let_def split: if_splits)
  then have "of_char c = (48 + (of_char c - 48) :: nat)" by simp
  then have "c = char_of (48 + (of_char c - 48) :: nat)" by (metis char_of_char)
  with n show ?thesis by (intro exI [of _ "of_char c - 48 :: nat"]) auto
qed

lemma is_digit_nat_digits: "list_all is_digit (nat_digits n)"
proof (induction n rule: nat_digits.induct)
  case (1 n)
  have d: "d < 10 \<Longrightarrow> is_digit (char_of (48 + d :: nat))" for d
    by (simp add: is_digit_def digit_value_char_of)
  show ?case
  proof (cases "n < 10")
    case True
    then show ?thesis by (simp add: nat_digits.simps [of n] d)
  next
    case False
    then show ?thesis using 1 by (simp add: nat_digits.simps [of n] d)
  qed
qed

lemma scan_mantissa_space:
  "CHR '' '' \<in> set s \<Longrightarrow> scan_mantissa base dot acc f digits s = (m, f', g, rest) \<Longrightarrow> CHR '' '' \<in> set rest"
proof (induction s arbitrary: dot acc f digits)
  case (Cons c s)
  show ?case
  proof (cases "c = CHR '' ''")
    case True
    then show ?thesis using Cons.prems(2) by auto
  next
    case False
    then have s: "CHR '' '' \<in> set s" using Cons.prems(1) by simp
    note ih = Cons.IH [OF s]
    show ?thesis
      using Cons.prems(2) s ih by (simp split: if_split_asm option.split_asm) (fastforce dest: ih)+
  qed
qed simp

lemma scan_exponent_space: "CHR '' '' \<in> set s \<Longrightarrow> scan_exponent e s = (v, rest) \<Longrightarrow> CHR '' '' \<in> set rest"
proof (induction s arbitrary: e)
  case (Cons c s)
  show ?case
  proof (cases "c = CHR '' ''")
    case True
    then show ?thesis using Cons.prems(2) by auto
  next
    case False
    then have s: "CHR '' '' \<in> set s" using Cons.prems(1) by simp
    note ih = Cons.IH [OF s]
    show ?thesis
    proof (cases "c = CHR ''_''")
      case True
      then show ?thesis using Cons.prems(2) ih [of e] by simp
    next
      case u: False
      show ?thesis
      proof (cases "digit_in_base 10 c")
        case None
        then show ?thesis using Cons.prems(2) s u by (simp, metis list.set_intros(2))
      next
        case (Some d)
        then show ?thesis using Cons.prems(2) u ih by simp
      qed
    qed
  qed
qed simp

lemma drop_sign_space: "CHR '' '' \<in> set s \<Longrightarrow> CHR '' '' \<in> set (drop_sign s)"
proof (cases s)
  case (Cons c cs)
  assume "CHR '' '' \<in> set s"
  then show ?thesis using Cons by (cases "c = CHR '' ''") (auto simp: drop_sign_def)
qed (simp add: drop_sign_def)

lemma exponent_part_space:
  "CHR '' '' \<in> set s \<Longrightarrow> mark \<noteq> CHR '' '' \<Longrightarrow> exponent_part mark s = Some (e, tail) \<Longrightarrow> CHR '' '' \<in> set tail"
proof (cases s)
  case (Cons c rest)
  assume mark: "mark \<noteq> CHR '' ''" and s: "CHR '' '' \<in> set s" and e: "exponent_part mark s = Some (e, tail)"
  show ?thesis
  proof (cases "lower_char c = mark")
    case False
    then show ?thesis using s e Cons by (auto simp: exponent_part_def split: if_splits)
  next
    case True
    show ?thesis
    proof (cases "CHR '' '' \<in> set rest")
      case False
      then have "c = CHR '' ''" using s Cons by auto
      then show ?thesis using mark True by simp
    next
      case sp: True
      obtain v r where v: "scan_exponent 0 (drop_sign rest) = (v, r)" by fastforce
      have "CHR '' '' \<in> set r"
        by (rule scan_exponent_space [OF drop_sign_space [OF sp] v])
      then show ?thesis using e Cons True v by (auto simp: exponent_part_def Let_def split: if_splits)
    qed
  qed
qed simp

lemma parse_float_space: "CHR '' '' \<in> set s \<Longrightarrow> parse_float s = None"
proof -
  assume s: "CHR '' '' \<in> set s"
  let ?body = "drop_sign s"
  have b: "CHR '' '' \<in> set ?body" using s by (rule drop_sign_space)
  define hex where "hex = (2 < length ?body \<and> hd ?body = CHR ''0'' \<and> lower_char (?body ! 1) = CHR ''x'')"
  have lower: "CHR '' '' \<in> set (to_lower t)" if "CHR '' '' \<in> set t" for t
    using imageI [OF that, of lower_char] by (simp add: to_lower_def)
  have w: "to_lower ?body \<noteq> ''inf''" "to_lower ?body \<noteq> ''infinity''" "to_lower s \<noteq> ''nan''"
    using lower [OF b] lower [OF s] by auto
  obtain m f g rest where m: "scan_mantissa (if hex then 16 else 10) False 0 0 False (if hex then drop 2 ?body else ?body) = (m, f, g, rest)"
    by (metis prod_cases4)
  have "CHR '' '' \<in> set (if hex then drop 2 ?body else ?body)"
  proof (cases hex)
    case True
    then obtain x y r where e: "?body = x # y # r" "x = CHR ''0''" "lower_char y = CHR ''x''"
      by (cases ?body; cases "tl ?body") (auto simp: hex_def)
    have "y \<noteq> CHR '' ''" using e(3) by auto
    then show ?thesis using b e True by simp
  qed (use b in simp)
  then have r: "CHR '' '' \<in> set rest" by (rule scan_mantissa_space [OF _ m])
  have x: "exponent_part mark rest = Some (e, tail) \<Longrightarrow> mark \<noteq> CHR '' '' \<Longrightarrow> tail \<noteq> []" for mark e tail
    using exponent_part_space [OF r] by fastforce
  show ?thesis
    using m w x by (auto simp: parse_float_def read_float_def Let_def hex_def split: option.splits)
qed

lemma digit_char_facts:
  assumes "is_digit c"
  shows "\<not> is_space c" "c \<noteq> CHR ''_''" "c \<noteq> CHR ''-''" "c \<noteq> CHR ''+''" "c \<noteq> CHR ''h''" "c \<noteq> CHR ''.''"
    "lower_char c = c" "digit_in_base 10 c = digit_value c"
proof -
  obtain d where d: "d < 10" "c = char_of (48 + d :: nat)" using digit_char [OF assms] by blast
  then have n: "of_char c = (48 + d :: nat)" by (simp add: of_char_of)
  then show "\<not> is_space c" "lower_char c = c" "digit_in_base 10 c = digit_value c"
    using d(1) by (auto simp: is_space_def lower_char_def digit_in_base_def digit_value_def Let_def)
  show "c \<noteq> CHR ''_''" "c \<noteq> CHR ''-''" "c \<noteq> CHR ''+''" "c \<noteq> CHR ''h''" "c \<noteq> CHR ''.''"
    using n d(1) by auto
qed

lemma base_value_digits: "list_all is_digit s \<Longrightarrow> base_value 10 acc s = digits_value acc s"
proof (induction s arbitrary: acc)
  case (Cons c s)
  then have c: "is_digit c" by simp
  show ?case
    using Cons digit_char_facts(2,8) [OF c] by (simp split: option.splits)
qed simp

lemma hd_nat_digits_nonzero: "0 < n \<Longrightarrow> hd (nat_digits n) \<noteq> CHR ''0''"
proof (induction n rule: nat_digits.induct)
  case (1 n)
  show ?case
  proof (cases "n < 10")
    case True
    have "of_char (char_of (48 + n) :: char) \<noteq> (48 :: nat)" using True 1(2) by (simp add: of_char_of)
    then have "(char_of (48 + n) :: char) \<noteq> CHR ''0''" by fastforce
    then show ?thesis using True by (subst nat_digits.simps) simp
  next
    case False
    then show ?thesis using 1 by (subst nat_digits.simps) simp
  qed
qed

lemma parse_uint_any_digits: "n < 2 ^ 64 \<Longrightarrow> parse_uint_any (nat_digits n) = Some n"
proof -
  assume n: "n < 2 ^ 64"
  let ?d = "nat_digits n"
  have d: "list_all is_digit ?d" by (rule is_digit_nat_digits)
  have v: "base_value 10 0 ?d = Some n" by (simp add: base_value_digits [OF d] digits_value_nat_digits)
  have u: "CHR ''_'' \<notin> set ?d" using d digit_char_facts(2) by (auto simp: list_all_iff)
  show ?thesis
  proof (cases "n = 0")
    case True
    have "nat_digits 0 = ''0''" by code_simp
    then show ?thesis using True by (simp add: parse_uint_any_def base_prefix_def)
  next
    case False
    then have "hd ?d \<noteq> CHR ''0''" by (simp add: hd_nat_digits_nonzero)
    then have "base_prefix ?d = (10, ?d)" by (cases ?d) (auto simp: base_prefix_def split: list.splits)
    then show ?thesis using n u v by (simp add: parse_uint_any_def)
  qed
qed

lemma scan_mantissa_digits:
  "list_all is_digit s \<Longrightarrow> scan_mantissa 10 False acc 0 g s =
    (case digits_value acc s of Some n \<Rightarrow> (n, 0, g \<or> s \<noteq> [], []) | None \<Rightarrow> undefined)"
proof (induction s arbitrary: acc g)
  case (Cons c s)
  then have c: "is_digit c" by simp
  then obtain d where d: "digit_value c = Some d" by (auto simp: is_digit_def)
  show ?case
    using Cons digit_char_facts [OF c] d by (simp split: option.split)
qed simp

lemma rnd_of_nat: "n \<le> 2 ^ 53 \<Longrightarrow> rnd False (of_nat n) = Num (of_nat n)"
proof -
  assume n: "n \<le> 2 ^ 53"
  have "rnd_val (of_int (int n)) = of_int (int n)" by (rule rnd_val_of_int) (use n in simp)
  moreover have "of_nat n \<le> max_f64"
  proof -
    have "(of_nat n :: rat) \<le> of_nat (2 ^ 53)" using n by (simp only: of_nat_le_iff)
    also have "\<dots> \<le> max_f64" by (simp add: max_f64_def)
    finally show ?thesis .
  qed
  ultimately show ?thesis by (auto simp: rnd_def Let_def)
qed

lemma parse_float_digits: "n \<le> 2 ^ 53 \<Longrightarrow> parse_float (nat_digits n) = Some (Num (of_nat n))"
proof -
  assume n: "n \<le> 2 ^ 53"
  let ?d = "nat_digits n"
  have d: "list_all is_digit ?d" by (rule is_digit_nat_digits)
  obtain c cs where c: "?d = c # cs" by (cases ?d) auto
  then have hc: "is_digit c" using d by simp
  have s: "drop_sign ?d = ?d" using c digit_char_facts(3,4) [OF hc] by (simp add: drop_sign_def)
  have l: "lower_char (?d ! i) = ?d ! i \<and> is_digit (?d ! i)" if "i < length ?d" for i
    using d that digit_char_facts(7) by (auto simp: list_all_length)
  have nodig: "\<not> is_digit (CHR ''x'')" "\<not> is_digit (CHR ''i'')" "\<not> is_digit (CHR ''n'')"
    by (simp_all add: is_digit_def digit_value_def)
  have hex: "\<not> (2 < length ?d \<and> hd ?d = CHR ''0'' \<and> lower_char (?d ! 1) = CHR ''x'')"
    using l [of 1] nodig by auto
  have w: "to_lower ?d \<noteq> ''inf''" "to_lower ?d \<noteq> ''infinity''" "to_lower ?d \<noteq> ''nan''" "hd ?d \<noteq> CHR ''-''"
    using c hc nodig digit_char_facts(3,7) [OF hc] by (auto simp: to_lower_def)
  have m: "scan_mantissa 10 False 0 0 False ?d = (n, 0, True, [])"
    by (simp add: scan_mantissa_digits [OF d] digits_value_nat_digits)
  have u: "CHR ''_'' \<notin> set ?d" using d digit_char_facts(2) by (auto simp: list_all_iff)
  show ?thesis
    unfolding parse_float_def read_float_def Let_def s if_not_P [OF hex]
    using w u rnd_of_nat [OF n] by (simp add: m exponent_part_def scale_by_def)
qed

lemma cut_at_append:
  "c \<notin> set a \<Longrightarrow> cut_at c (a @ b) = map_option (\<lambda>(x, y). (a @ x, y)) (cut_at c b)"
  by (induction a) (auto simp: option.map_comp comp_def split_def option.map_ident)

lemma to_uint64_of_nat: "n < 2 ^ 64 \<Longrightarrow> to_uint64 (Num (of_nat n)) = word_of_nat n"
  by (simp add: to_uint64_def trunc_def Let_def)

lemma trim_space_after:
  assumes "a \<noteq> []" "\<not> is_space (hd a)" "\<not> is_space (last a)"
  shows "trim_space (a @ b) = a @ rev (dropWhile is_space (rev b))"
proof -
  have h: "dropWhile is_space (a @ b) = a @ b" using assms by (cases a) auto
  have l: "dropWhile is_space (rev a) = rev a"
    using assms by (simp add: dropWhile_eq_self_iff hd_rev)
  show ?thesis
    unfolding trim_space_def h by (cases "\<forall>c \<in> set b. is_space c") (auto simp: dropWhile_append l dropWhile_eq_Nil_conv)
qed

lemma trim_space_annotation:
  assumes "a \<noteq> []" "\<not> is_space (hd a)" "\<not> is_space (last a)"
  shows "trim_space (a @ CHR '' '' # b) = a \<or> (\<exists>t. trim_space (a @ CHR '' '' # b) = a @ CHR '' '' # t)"
proof -
  let ?r = "rev (dropWhile is_space (rev (CHR '' '' # b)))"
  have v: "trim_space (a @ CHR '' '' # b) = a @ ?r" by (rule trim_space_after [OF assms])
  have "rev (CHR '' '' # b) = takeWhile is_space (rev (CHR '' '' # b)) @ dropWhile is_space (rev (CHR '' '' # b))"
    by (rule takeWhile_dropWhile_id [symmetric])
  then have "CHR '' '' # b = ?r @ rev (takeWhile is_space (rev (CHR '' '' # b)))"
    by (metis rev_append rev_rev_ident)
  then have "?r = [] \<or> (\<exists>t. ?r = CHR '' '' # t)" by (metis Cons_eq_append_conv)
  then show ?thesis using v by (metis append_Nil2)
qed

lemma nat_digits_facts:
  "c \<in> set (nat_digits n) \<Longrightarrow> is_digit c" "\<not> is_space (hd (nat_digits n))" "\<not> is_space (last (nat_digits n))"
  "CHR ''h'' \<notin> set (nat_digits n)"
proof -
  show d: "\<And>c. c \<in> set (nat_digits n) \<Longrightarrow> is_digit c"
    using is_digit_nat_digits [of n] by (simp add: list_all_iff)
  show "\<not> is_space (hd (nat_digits n))" "\<not> is_space (last (nat_digits n))"
    using digit_char_facts(1) d by auto
  show "CHR ''h'' \<notin> set (nat_digits n)" using digit_char_facts(5) d by blast
qed

lemma first_number_annotated: "n < 2 ^ 64 \<Longrightarrow> first_number (nat_digits n @ CHR '' '' # t) = Some n"
proof -
  assume n: "n < 2 ^ 64"
  let ?v = "nat_digits n @ CHR '' '' # t"
  have h: "dropWhile (\<lambda>c. \<not> is_digit c) ?v = ?v" using nat_digits_facts(1) [of _ n] by (cases "nat_digits n") auto
  have k: "takeWhile is_digit ?v = nat_digits n" using nat_digits_facts(1) by (simp add: takeWhile_append)
  have u: "parse_uint 64 (nat_digits n) = Some n" using n by (simp add: parse_uint_def digits_value_nat_digits)
  have ne: "?v \<noteq> []" by simp
  show ?thesis by (subst first_number.simps) (simp only: Let_def h k u ne if_False option.case)
qed

text \<open>The part before an \<open>h\<close> is either the number itself or is no float.\<close>

lemma hours_annotated:
  assumes "n \<le> 2 ^ 53"
  shows "(case cut_at (CHR ''h'') (nat_digits n @ CHR '' '' # t) of None \<Rightarrow> None
      | Some (before, _) \<Rightarrow> if trim_space before = [] then None else parse_float (trim_space before))
    \<in> {None, Some (Num (of_nat n))}"
proof (cases "cut_at (CHR ''h'') (CHR '' '' # t)")
  case (Some q)
  obtain x y where q: "q = (x, y)" by (cases q)
  obtain b where b: "x = CHR '' '' # b" using Some q by auto
  have c: "cut_at (CHR ''h'') (nat_digits n @ CHR '' '' # t) = Some (nat_digits n @ CHR '' '' # b, y)"
    using Some q b by (simp add: cut_at_append nat_digits_facts(4))
  show ?thesis
    using trim_space_annotation [OF nat_digits_not_Nil nat_digits_facts(2,3), of n b]
    by (auto simp: c parse_float_digits [OF assms] parse_float_space)
qed (simp add: cut_at_append nat_digits_facts(4))

text \<open>
  A raw value that \<open>smartctl\<close> annotates, such as \<open>7344 (253d 8h)\<close> or \<open>7344 hours\<close>, is the number
  in front, whatever follows the space, exactly up to \<open>2\<^sup>5\<^sup>3\<close>.
\<close>

theorem annotated_raw_value:
  assumes "n \<le> 2 ^ 53"
  shows "parse_smart_raw_value_string (nat_digits n @ CHR '' '' # rest) = Some (word_of_nat n)"
proof -
  let ?raw = "trim_space (nat_digits n @ CHR '' '' # rest)"
  have n64: "n < 2 ^ 64" using assms by simp
  consider "?raw = nat_digits n" | t where "?raw = nat_digits n @ CHR '' '' # t"
    using trim_space_annotation [OF nat_digits_not_Nil nat_digits_facts(2,3)] by blast
  then show ?thesis
  proof cases
    case 1
    show ?thesis
      unfolding parse_smart_raw_value_string_def Let_def 1 parse_uint_any_digits [OF n64] by simp
  next
    case 2
    have p: "parse_uint_any (nat_digits n @ CHR '' '' # t) = None" and ne: "nat_digits n @ CHR '' '' # t \<noteq> []"
      by (simp_all add: parse_uint_any_space)
    show ?thesis
      using hours_annotated [OF assms, of t] first_number_annotated [OF n64, of t]
      unfolding parse_smart_raw_value_string_def Let_def 2 p if_not_P [OF ne]
      by (auto simp: to_uint64_of_nat [OF n64])
  qed
qed

theorem annotated_raw_value_witness:
  "parse_smart_raw_value_string (nat_digits 7344 @ '' (253d 8h)'') = Some 7344"
  using annotated_raw_value [where n = 7344 and rest = "''(253d 8h)''"] by simp

end
