(* ===== verification/Store.thy ===== *)
theory Store
  imports Aggregation Smart_Data
begin

text \<open>
  \<open>internal/store/store.go\<close>: the SQLite tables, the write transactions and the reads.  The
  database engine is not part of the repository.  What the store relies on is written into
  \<open>run_tx\<close> and \<open>sql\<close>: statements of a transaction act on a private copy that replaces the
  database at a successful commit, and any statement may fail.  Which statements fail, and with
  what error, is the parameter \<open>fault\<close> (the number of the statement, counted from the
  transaction's begin, to its error); for reads it is \<open>q\<close>, from the table read to the error.

  A history table is, per resolution, its rows in the order of \<open>captured_at\<close>, which with the
  resolution is the table's primary key.
\<close>

section \<open>Tables\<close>

datatype meta_value = MStr string | MJson jtext

record db =
  db_meta :: "string \<rightharpoonup> meta_value"
  db_current :: "string \<rightharpoonup> int \<times> jtext"
  db_history :: "string \<Rightarrow> string \<Rightarrow> (int, jtext) gmap"
  db_user_version :: int

definition empty_db :: db where
  "empty_db = \<lparr>db_meta = (\<lambda>_. None), db_current = (\<lambda>_. None), db_history = (\<lambda>_ _. []),
     db_user_version = 0\<rparr>"

record store =
  st_db :: db
  st_history_plugins :: "string set"

abbreviation (input) "resolution1m \<equiv> ''1m''"
abbreviation (input) "resolution10m \<equiv> ''10m''"
abbreviation (input) "resolution20m \<equiv> ''20m''"
abbreviation (input) "resolution120m \<equiv> ''120m''"
abbreviation (input) "resolution480m \<equiv> ''480m''"

definition minute_ms :: int where
  "minute_ms = 60000"

text \<open>\<open>historyRetention\<close>, in milliseconds.\<close>

definition history_retention :: "(string \<times> int) list" where
  "history_retention =
     [(resolution1m, 60 * minute_ms), (resolution10m, 12 * 60 * minute_ms),
      (resolution20m, 24 * 60 * minute_ms), (resolution120m, 7 * 24 * 60 * minute_ms),
      (resolution480m, 30 * 24 * 60 * minute_ms)]"

definition store_schema_version :: int where
  "store_schema_version = 4"

section \<open>Statements and transactions\<close>

type_synonym fault = "nat \<Rightarrow> go_error option"

record tx =
  tx_db :: db
  tx_stmts :: nat

type_synonym 'a txm = "fault \<Rightarrow> tx \<Rightarrow> 'a res \<times> tx"

definition tx_return :: "'a \<Rightarrow> 'a txm" where
  "tx_return a = (\<lambda>fault t. (Inr a, t))"

definition tx_fail :: "go_error \<Rightarrow> 'a txm" where
  "tx_fail e = (\<lambda>fault t. (Inl e, t))"

definition tx_bind :: "'a txm \<Rightarrow> ('a \<Rightarrow> 'b txm) \<Rightarrow> 'b txm" where
  "tx_bind m f = (\<lambda>fault t. case m fault t of
     (Inl e, t') \<Rightarrow> (Inl e, t') | (Inr a, t') \<Rightarrow> f a fault t')"

text \<open>One SQL statement: it fails as \<open>fault\<close> says or reads and updates the private copy.\<close>

definition sql :: "(db \<Rightarrow> 'a \<times> db) \<Rightarrow> 'a txm" where
  "sql f = (\<lambda>fault t. let t' = t\<lparr>tx_stmts := Suc (tx_stmts t)\<rparr> in
     case fault (tx_stmts t) of
       Some e \<Rightarrow> (Inl e, t')
     | None \<Rightarrow> (case f (tx_db t) of (a, d) \<Rightarrow> (Inr a, t'\<lparr>tx_db := d\<rparr>)))"

definition sql_exec :: "(db \<Rightarrow> db) \<Rightarrow> unit txm" where
  "sql_exec f = sql (\<lambda>d. ((), f d))"

definition sql_query :: "(db \<Rightarrow> 'a) \<Rightarrow> 'a txm" where
  "sql_query f = sql (\<lambda>d. (f d, d))"

definition tx_lift :: "'a res \<Rightarrow> 'a txm" where
  "tx_lift r = (case r of Inl e \<Rightarrow> tx_fail e | Inr a \<Rightarrow> tx_return a)"

fun tx_each :: "('a \<Rightarrow> unit txm) \<Rightarrow> 'a list \<Rightarrow> unit txm" where
  "tx_each f [] = tx_return ()"
| "tx_each f (x # xs) = tx_bind (f x) (\<lambda>_. tx_each f xs)"

text \<open>
  \<open>db.Begin\<close>, the body, \<open>tx.Commit\<close>, and the deferred rollback on any error.
\<close>

definition run_tx :: "unit txm \<Rightarrow> fault \<Rightarrow> db \<Rightarrow> unit res \<times> db" where
  "run_tx body fault d = (case fault 0 of
     Some e \<Rightarrow> (Inl e, d)
   | None \<Rightarrow> (case body fault \<lparr>tx_db = d, tx_stmts = 1\<rparr> of
       (Inl e, _) \<Rightarrow> (Inl e, d)
     | (Inr _, t) \<Rightarrow> (case fault (tx_stmts t) of
         Some e \<Rightarrow> (Inl e, d)
       | None \<Rightarrow> (Inr (), tx_db t))))"

section \<open>Write statements\<close>

definition replace_plugin_current :: "string \<Rightarrow> int \<Rightarrow> jtext \<Rightarrow> unit txm" where
  "replace_plugin_current plugin captured_at raw =
     sql_exec (\<lambda>d. d\<lparr>db_current := (db_current d)(plugin \<mapsto> (captured_at, raw))\<rparr>)"

definition put_history :: "string \<Rightarrow> string \<Rightarrow> int \<Rightarrow> jtext \<Rightarrow> db \<Rightarrow> db" where
  "put_history plugin resolution captured_at raw d =
     d\<lparr>db_history := (db_history d)(plugin := (db_history d plugin)(resolution :=
        mput captured_at raw (db_history d plugin resolution)))\<rparr>"

definition insert_plugin_history :: "string \<Rightarrow> string \<Rightarrow> int \<Rightarrow> jtext \<Rightarrow> unit txm" where
  "insert_plugin_history plugin resolution captured_at raw =
     sql_exec (put_history plugin resolution captured_at raw)"

definition upsert_meta :: "string \<Rightarrow> meta_value \<Rightarrow> unit txm" where
  "upsert_meta key value = sql_exec (\<lambda>d. d\<lparr>db_meta := (db_meta d)(key \<mapsto> value)\<rparr>)"

definition write_plugin_snapshot :: "string \<Rightarrow> int \<Rightarrow> payload \<Rightarrow> bool \<Rightarrow> unit txm" where
  "write_plugin_snapshot plugin captured_at payload history_enabled =
     tx_bind (tx_lift (marshal (enc_payload payload))) (\<lambda>raw.
     tx_bind (replace_plugin_current plugin captured_at raw) (\<lambda>_.
     if history_enabled then insert_plugin_history plugin resolution1m captured_at raw
     else tx_return ()))"

definition history_enabled :: "store \<Rightarrow> string \<Rightarrow> bool" where
  "history_enabled s plugin = (plugin \<in> st_history_plugins s)"

definition history_plugin_names :: "store \<Rightarrow> string list" where
  "history_plugin_names s = filter (\<lambda>plugin. plugin \<in> st_history_plugins s) plugin_names"

definition history_plugin_set :: "string list \<Rightarrow> string set" where
  "history_plugin_set plugins = set plugins"

definition set_history_plugins :: "string list \<Rightarrow> store \<Rightarrow> store" where
  "set_history_plugins plugins s = s\<lparr>st_history_plugins := history_plugin_set plugins\<rparr>"

section \<open>Write transactions\<close>

definition write_snapshot_plugin_rows :: "(string \<Rightarrow> bool) \<Rightarrow> int \<Rightarrow> combined_data \<Rightarrow> unit txm" where
  "write_snapshot_plugin_rows enabled captured_at data =
     tx_bind (tx_each (\<lambda>plugin.
         if plugin = PluginSmart then tx_return ()
         else case map_of (snapshot_plugin_payloads data) plugin of
           None \<Rightarrow> tx_return ()
         | Some payload \<Rightarrow> write_plugin_snapshot plugin captured_at payload (enabled plugin))
       plugin_names) (\<lambda>_.
     tx_bind (tx_lift (marshal (enc_info (cd_info data)))) (\<lambda>info_json.
     tx_bind (upsert_meta ''last_info_json'' (MJson info_json)) (\<lambda>_.
     case cd_details data of
       None \<Rightarrow> tx_return ()
     | Some dt \<Rightarrow>
         tx_bind (tx_lift (marshal (enc_details dt))) (\<lambda>details_json.
         upsert_meta ''last_details_json'' (MJson details_json)))))"

definition write_snapshot_body :: "(string \<Rightarrow> bool) \<Rightarrow> int \<Rightarrow> combined_data \<Rightarrow> unit txm" where
  "write_snapshot_body enabled captured_at data =
     tx_bind (write_snapshot_plugin_rows enabled captured_at data) (\<lambda>_.
     tx_bind (tx_lift (marshal (enc_summary (new_summary (Some data))))) (\<lambda>summary_json.
     tx_bind (upsert_meta ''last_system_summary_json'' (MJson summary_json)) (\<lambda>_.
     upsert_meta ''last_persisted_at'' (MStr (format_int captured_at)))))"

definition write_snapshot :: "fault \<Rightarrow> int \<Rightarrow> combined_data option \<Rightarrow> store \<Rightarrow> unit res \<times> store" where
  "write_snapshot fault captured_at data s = (case data of
     None \<Rightarrow> (Inl (ErrText ''snapshot data is nil''), s)
   | Some d \<Rightarrow>
       (case run_tx (write_snapshot_body (history_enabled s) captured_at d) fault (st_db s) of
          (r, db') \<Rightarrow> (r, s\<lparr>st_db := db'\<rparr>)))"

text \<open>SMART devices; the records are untagged structs.\<close>

record smart_device_record =
  sdr_id :: string
  sdr_key :: string
  sdr_data :: smart_data

definition smart_device_records :: "(string, smart_data) gmap \<Rightarrow> smart_device_record list" where
  "smart_device_records items = map (\<lambda>(key, item).
     \<lparr>sdr_id = (if smd_disk_name item \<noteq> [] then smd_disk_name item else key),
      sdr_key = key, sdr_data = item\<rparr>) items"

definition enc_smart_device_record :: "smart_device_record \<Rightarrow> json" where
  "enc_smart_device_record r =
     JObj (jf ''ID'' (JStr (sdr_id r)) @ jf ''Key'' (JStr (sdr_key r)) @ jf ''Data'' (enc_smart_data (sdr_data r)))"

definition write_smart_devices :: "fault \<Rightarrow> int \<Rightarrow> (string, smart_data) gmap \<Rightarrow> store \<Rightarrow> unit res \<times> store" where
  "write_smart_devices fault captured_at items s =
     (case run_tx
        (tx_bind (tx_lift (marshal (enc_arr enc_smart_device_record (smart_device_records items)))) (\<lambda>raw.
         tx_bind (replace_plugin_current PluginSmart captured_at raw) (\<lambda>_.
         tx_bind (if history_enabled s PluginSmart
                  then insert_plugin_history PluginSmart resolution1m captured_at raw
                  else tx_return ()) (\<lambda>_.
         upsert_meta ''last_smart_refresh_at'' (MStr (format_int captured_at))))))
        fault (st_db s) of (r, db') \<Rightarrow> (r, s\<lparr>st_db := db'\<rparr>))"

section \<open>Opening\<close>

text \<open>
  \<open>createSchema\<close>: the tables exist in the model from the start (created with IF NOT EXISTS,
  they keep their rows), so what remains is the version stamp.
\<close>

definition create_schema :: "db \<Rightarrow> db" where
  "create_schema d = d\<lparr>db_user_version := store_schema_version\<rparr>"

definition init_db :: "db \<Rightarrow> db res" where
  "init_db d = (if db_user_version d = 0 then Inr (create_schema d)
     else if db_user_version d = store_schema_version then Inr (create_schema d)
     else Inl (ErrText ''unsupported store schema version''))"

text \<open>\<open>checkDBIntegrity\<close> on the rows of \<open>PRAGMA quick_check\<close>.\<close>

definition check_db_integrity :: "string list \<Rightarrow> unit res" where
  "check_db_integrity rows =
     (let issues = filter (\<lambda>r. \<not> equal_fold r ''ok'') rows in
      if issues \<noteq> [] then Inl (ErrText (''database quick_check failed: '' @ join_with ''; '' issues))
      else if rows = [] then Inl (ErrText ''database quick_check returned no result'')
      else Inr ())"

definition check_database_version :: "int \<Rightarrow> unit res" where
  "check_database_version version =
     (if version = store_schema_version then Inr ()
      else if version \<in> {1, 2, 3} then Inl (ErrText (''obsolete metrics.db schema version '' @ format_int version @ ''; run db repair to recreate current schema''))
      else Inl (ErrText (''unsupported metrics.db schema version '' @ format_int version)))"

section \<open>Reads\<close>

type_synonym queries = "string \<Rightarrow> go_error option"

definition meta_value_of :: "queries \<Rightarrow> db \<Rightarrow> string \<Rightarrow> meta_value option res" where
  "meta_value_of q d key = (case q ''meta'' of
     Some e \<Rightarrow> if err_is ErrNoRows e then Inr None else Inl e
   | None \<Rightarrow> Inr (db_meta d key))"

definition current_captured_at :: "queries \<Rightarrow> db \<Rightarrow> int res" where
  "current_captured_at q d =
     attempt (meta_value_of q d ''last_persisted_at'') (\<lambda>v. case v of
       None \<Rightarrow> Inl ErrNoRows
     | Some (MStr raw) \<Rightarrow> (case parse_int64 raw of None \<Rightarrow> Inl (ErrText ''ParseInt'') | Some n \<Rightarrow> Inr n)
     | Some (MJson _) \<Rightarrow> Inl (ErrText ''ParseInt''))"

definition current_plugin :: "queries \<Rightarrow> db \<Rightarrow> string \<Rightarrow> (int \<times> jtext) res" where
  "current_plugin q d plugin =
     (if \<not> is_plugin_name plugin then Inl (ErrText (''unknown plugin '' @ plugin))
      else
        let r = (case q (plugin_current_table plugin) of
            Some e \<Rightarrow> Inl e
          | None \<Rightarrow> (case db_current d plugin of None \<Rightarrow> Inl ErrNoRows | Some row \<Rightarrow> Inr row))
        in case r of
          Inl e \<Rightarrow> if err_is ErrNoRows e \<and> plugin = PluginSmart then Inr (0, JText (JArr [])) else Inl e
        | Inr row \<Rightarrow> Inr row)"

text \<open>
  \<open>PluginHistory\<close>; the rows are read in the order of \<open>captured_at\<close>.  A negative limit is no
  limit in SQLite.
\<close>

definition plugin_history ::
  "queries \<Rightarrow> store \<Rightarrow> string \<Rightarrow> string \<Rightarrow> int \<Rightarrow> int \<Rightarrow> int \<Rightarrow> (int \<times> jtext) list res" where
  "plugin_history q s plugin resolution from to limit =
     (if \<not> is_plugin_name plugin then Inl (ErrText (''unknown plugin '' @ plugin))
      else if \<not> history_enabled s plugin then Inl ErrNoRows
      else case q (plugin_history_table plugin) of
        Some e \<Rightarrow> Inl e
      | None \<Rightarrow>
          let rows = filter (\<lambda>(ts, _). from \<le> ts \<and> ts \<le> to) (db_history (st_db s) plugin resolution)
          in Inr (if limit < 0 then rows else take (nat limit) rows))"

definition zero_combined_data :: combined_data where
  "zero_combined_data = \<lparr>cd_stats = zero_stats, cd_info = zero_info, cd_containers = [],
     cd_systemd_services = None, cd_details = None, cd_process_count = None, cd_processes = None,
     cd_programs = None, cd_connections = None, cd_irqs = None\<rparr>"

definition meta_json :: "(json \<Rightarrow> 'a res) \<Rightarrow> meta_value \<Rightarrow> 'a res" where
  "meta_json dec v = (case v of MJson t \<Rightarrow> unmarshal dec t | MStr s \<Rightarrow> unmarshal dec (JBad s))"

definition read_summary :: "queries \<Rightarrow> db \<Rightarrow> (int \<times> combined_data) res" where
  "read_summary q d =
     attempt (current_captured_at q d) (\<lambda>captured_at.
     attempt (meta_value_of q d ''last_info_json'') (\<lambda>info_raw.
     attempt (case info_raw of
         None \<Rightarrow> Inr zero_combined_data
       | Some raw \<Rightarrow> attempt (meta_json dec_info raw) (\<lambda>i. Inr (zero_combined_data\<lparr>cd_info := i\<rparr>)))
       (\<lambda>su0.
     attempt (meta_value_of q d ''last_details_json'') (\<lambda>details_raw.
     attempt (case details_raw of
         None \<Rightarrow> Inr su0
       | Some raw \<Rightarrow>
           if raw = MStr [] then Inr su0
           else attempt (meta_json dec_details raw) (\<lambda>dt. Inr (su0\<lparr>cd_details := Some dt\<rparr>)))
       (\<lambda>su1.
     attempt (fold_res (\<lambda>su plugin.
         if plugin = PluginSmart then Inr su
         else attempt (current_plugin q d plugin) (\<lambda>(_, raw). apply_plugin_payload plugin raw su))
         su1 plugin_names) (\<lambda>su2.
     Inr (captured_at, su2)))))))"

definition read_system_summary :: "queries \<Rightarrow> db \<Rightarrow> (int \<times> summary) res" where
  "read_system_summary q d =
     attempt (current_captured_at q d) (\<lambda>captured_at.
     attempt (meta_value_of q d ''last_system_summary_json'') (\<lambda>raw. case raw of
       None \<Rightarrow> Inl ErrNoRows
     | Some v \<Rightarrow> attempt (meta_json dec_summary v) (\<lambda>su. Inr (captured_at, su))))"

definition current_container_stats :: "queries \<Rightarrow> db \<Rightarrow> container_stats list res" where
  "current_container_stats q d =
     attempt (current_plugin q d PluginContainers) (\<lambda>(_, raw).
     attempt (unmarshal (dec_list dec_container_current_record) raw) (\<lambda>current_items.
     Inr (map (\<lambda>c. zero_container_stats\<lparr>ct_id := cc_id c, ct_name := cc_name c,
         ct_image := cc_image c, ct_ports := cc_ports c, ct_status := cc_status c,
         ct_health := cc_health c, ct_cpu := cc_cpu c, ct_mem := cc_mem c,
         ct_bandwidth := cc_bandwidth c\<rparr>) current_items)))"

definition current_containers :: "queries \<Rightarrow> db \<Rightarrow> (int \<times> container_stats list) res" where
  "current_containers q d =
     attempt (current_captured_at q d) (\<lambda>captured_at.
     attempt (current_container_stats q d) (\<lambda>items. Inr (captured_at, items)))"

definition current_systemd :: "queries \<Rightarrow> db \<Rightarrow> (int \<times> service list) res" where
  "current_systemd q d =
     attempt (current_plugin q d PluginSystemd) (\<lambda>(captured_at, raw).
     attempt (unmarshal (dec_list dec_service) raw) (\<lambda>items. Inr (captured_at, items)))"

definition current_process_count :: "queries \<Rightarrow> db \<Rightarrow> (int \<times> process_count) res" where
  "current_process_count q d =
     attempt (current_plugin q d PluginProcesses) (\<lambda>(captured_at, raw).
     attempt (unmarshal dec_processes_data raw) (\<lambda>data.
     Inr (captured_at, case pd_count data of None \<Rightarrow> zero_process_count | Some c \<Rightarrow> c)))"

definition current_processes :: "queries \<Rightarrow> db \<Rightarrow> (int \<times> process_item list option) res" where
  "current_processes q d =
     attempt (current_plugin q d PluginProcesses) (\<lambda>(captured_at, raw).
     attempt (unmarshal dec_processes_data raw) (\<lambda>data. Inr (captured_at, pd_items data)))"

definition current_programs :: "queries \<Rightarrow> db \<Rightarrow> (int \<times> program_item list) res" where
  "current_programs q d =
     attempt (current_plugin q d PluginPrograms) (\<lambda>(captured_at, raw).
     attempt (unmarshal (dec_list dec_program_item) raw) (\<lambda>items. Inr (captured_at, items)))"

definition current_connections :: "queries \<Rightarrow> db \<Rightarrow> (int \<times> connection_stats) res" where
  "current_connections q d =
     attempt (current_plugin q d PluginConnections) (\<lambda>(captured_at, raw).
     if raw = JText JNull then Inr (captured_at, zero_connection_stats)
     else attempt (unmarshal dec_connection_stats raw) (\<lambda>data. Inr (captured_at, data)))"

definition current_irq :: "queries \<Rightarrow> db \<Rightarrow> (int \<times> irq_stat list) res" where
  "current_irq q d =
     attempt (current_plugin q d PluginIRQ) (\<lambda>(captured_at, raw).
     attempt (unmarshal (dec_list dec_irq_stat) raw) (\<lambda>items. Inr (captured_at, items)))"

definition system_history ::
  "queries \<Rightarrow> store \<Rightarrow> string \<Rightarrow> int \<Rightarrow> int \<Rightarrow> int \<Rightarrow> (int \<times> stats) list res" where
  "system_history q s resolution from to limit =
     attempt (plugin_history q s PluginCPU resolution from to limit) (\<lambda>raw_items.
     map_res (\<lambda>(ts, raw).
       attempt (apply_plugin_payload PluginCPU raw zero_combined_data) (\<lambda>data. Inr (ts, cd_stats data)))
       raw_items)"

definition container_history ::
  "queries \<Rightarrow> store \<Rightarrow> string \<Rightarrow> int \<Rightarrow> int \<Rightarrow> int \<Rightarrow> (int \<times> container_stats list) list res" where
  "container_history q s resolution from to limit =
     attempt (plugin_history q s PluginContainers resolution from to limit) (\<lambda>raw_items.
     map_res (\<lambda>(ts, raw).
       attempt (unmarshal (dec_list dec_container_stats) raw) (\<lambda>st. Inr (ts, st))) raw_items)"

definition valid_resolution :: "string \<Rightarrow> bool" where
  "valid_resolution resolution = (map_of history_retention resolution \<noteq> None)"

section \<open>Facts about the transaction monad\<close>

lemma tx_bind_simps [simp]:
  "tx_bind (tx_return a) f = f a"
  "tx_bind (tx_fail e) f = tx_fail e"
  by (auto simp: tx_bind_def tx_return_def tx_fail_def)

lemma tx_return_apply [simp]: "tx_return a fault t = (Inr a, t)"
  by (simp add: tx_return_def)

lemma tx_fail_apply [simp]: "tx_fail e fault t = (Inl e, t)"
  by (simp add: tx_fail_def)

lemma tx_bind_Inr:
  "tx_bind m f fault t = (Inr b, t'') \<longleftrightarrow> (\<exists>a t'. m fault t = (Inr a, t') \<and> f a fault t' = (Inr b, t''))"
  by (auto simp: tx_bind_def split: prod.splits sum.splits)

lemma tx_lift_Inr: "tx_lift r fault t = (Inr a, t') \<longleftrightarrow> r = Inr a \<and> t' = t"
  by (cases r) (auto simp: tx_lift_def)

lemma sql_exec_Inr:
  "sql_exec f fault t = (Inr u, t') \<longleftrightarrow>
    fault (tx_stmts t) = None \<and> t' = t\<lparr>tx_stmts := Suc (tx_stmts t), tx_db := f (tx_db t)\<rparr>"
  by (auto simp: sql_exec_def sql_def Let_def split: option.splits)

lemma sql_query_Inr:
  "sql_query f fault t = (Inr a, t') \<longleftrightarrow>
    fault (tx_stmts t) = None \<and> a = f (tx_db t) \<and> t' = t\<lparr>tx_stmts := Suc (tx_stmts t)\<rparr>"
  by (auto simp: sql_query_def sql_def Let_def split: option.splits)

lemma run_tx_Inl: "run_tx body fault d = (Inl e, d') \<Longrightarrow> d' = d"
  by (auto simp: run_tx_def split: option.splits prod.splits sum.splits)

lemma run_tx_Inr:
  "run_tx body fault d = (Inr u, d') \<longleftrightarrow>
    fault 0 = None \<and> (\<exists>t. body fault \<lparr>tx_db = d, tx_stmts = 1\<rparr> = (Inr (), t)
      \<and> fault (tx_stmts t) = None \<and> d' = tx_db t)"
  by (auto simp: run_tx_def split: option.splits prod.splits sum.splits)

text \<open>
  An invariant of the database that every statement keeps is an invariant of the whole body,
  whether or not it fails.
\<close>

definition tx_keeps :: "(db \<Rightarrow> bool) \<Rightarrow> 'a txm \<Rightarrow> bool" where
  "tx_keeps P m = (\<forall>fault t. P (tx_db t) \<longrightarrow> P (tx_db (snd (m fault t))))"

lemma tx_keeps_return [intro!]: "tx_keeps P (tx_return a)"
  by (simp add: tx_keeps_def)

lemma tx_keeps_fail [intro!]: "tx_keeps P (tx_fail e)"
  by (simp add: tx_keeps_def)

lemma tx_keeps_lift [intro!]: "tx_keeps P (tx_lift r)"
  by (auto simp: tx_lift_def split: sum.splits)

lemma tx_keeps_bind [intro!]: "tx_keeps P m \<Longrightarrow> (\<And>a. tx_keeps P (f a)) \<Longrightarrow> tx_keeps P (tx_bind m f)"
  unfolding tx_keeps_def tx_bind_def
  by (auto split: prod.splits sum.splits) (metis snd_conv)+

lemma tx_keeps_each [intro!]: "(\<And>x. tx_keeps P (f x)) \<Longrightarrow> tx_keeps P (tx_each f xs)"
  by (induction xs) auto

lemma tx_keeps_exec [intro!]: "(\<And>d. P d \<Longrightarrow> P (f d)) \<Longrightarrow> tx_keeps P (sql_exec f)"
  by (auto simp: tx_keeps_def sql_exec_def sql_def Let_def split: option.splits)

lemma tx_keeps_query [intro!]: "tx_keeps P (sql_query f)"
  by (auto simp: tx_keeps_def sql_query_def sql_def Let_def split: option.splits)

lemma run_tx_keeps: "tx_keeps P body \<Longrightarrow> P d \<Longrightarrow> P (snd (run_tx body fault d))"
  unfolding tx_keeps_def run_tx_def
  by (auto split: option.splits prod.splits sum.splits)
    (metis snd_conv tx.select_convs(1))+

text \<open>The tables' well-formedness: every history is in key order.\<close>

definition db_ok :: "db \<Rightarrow> bool" where
  "db_ok d = (\<forall>plugin resolution. msorted (db_history d plugin resolution))"

lemma db_ok_put_history: "db_ok d \<Longrightarrow> db_ok (put_history plugin resolution captured_at raw d)"
  by (simp add: db_ok_def put_history_def msorted_mput)

lemma db_ok_empty: "db_ok empty_db"
  by (simp add: db_ok_def empty_db_def)

lemma tx_keeps_put_history [intro!]: "tx_keeps db_ok (insert_plugin_history p r c raw)"
  unfolding insert_plugin_history_def by (rule tx_keeps_exec) (rule db_ok_put_history)

lemma tx_keeps_replace [intro!]: "tx_keeps db_ok (replace_plugin_current p c raw)"
  unfolding replace_plugin_current_def by (rule tx_keeps_exec) (simp add: db_ok_def)

lemma tx_keeps_upsert [intro!]: "tx_keeps db_ok (upsert_meta k v)"
  unfolding upsert_meta_def by (rule tx_keeps_exec) (simp add: db_ok_def)

end
