(* ===== verification/Live_Cache.thy ===== *)
theory Live_Cache
  imports Store Golib
begin

text \<open>
  The two caches of \<open>internal/app\<close>: the one of combined snapshots that the collector fills
  (\<open>agent_cache.go\<close>, \<open>gatherStats\<close> in \<open>agent.go\<close>) and the one of API responses
  (\<open>live_current.go\<close>).  What the collectors return is the argument \<open>readings\<close>; times are
  nanoseconds, and the reading of the clock at the start and at the end of a request are separate
  arguments.  Mutexes make every cache operation one step.
\<close>

section \<open>Time to live\<close>

abbreviation (input) "LiveSystemSummaryKey \<equiv> ''system_summary''"

definition default_data_cache_time_ms :: "16 word" where
  "default_data_cache_time_ms = 60000"

definition base_system_plugin_names :: "string list" where
  "base_system_plugin_names = [PluginCPU, PluginMem, PluginSwap, PluginLoad, PluginDiskIO, PluginFS,
     PluginNetwork, PluginGPU, PluginSensors]"

definition expensive_plugins :: "string list" where
  "expensive_plugins = [PluginContainers, PluginSystemd, PluginProcesses, PluginPrograms,
     PluginConnections, PluginSmart]"

definition default_live_current_ttls :: "(string, int) gmap" where
  "default_live_current_ttls = foldl (\<lambda>m (key, ttl). mput key ttl m) []
     [(LiveSystemSummaryKey, 2 * second), (PluginCPU, 2 * second), (PluginMem, 2 * second),
      (PluginSwap, 2 * second), (PluginLoad, 2 * second), (PluginDiskIO, 2 * second),
      (PluginFS, 5 * second), (PluginNetwork, 2 * second), (PluginGPU, 2 * second),
      (PluginSensors, 2 * second), (PluginContainers, 5 * second), (PluginSystemd, 30 * second),
      (PluginProcesses, 10 * second), (PluginPrograms, 10 * second),
      (PluginConnections, 10 * second), (PluginIRQ, 2 * second), (PluginSmart, 30 * second)]"

definition parse_api_cache_ttl :: "string \<Rightarrow> int option" where
  "parse_api_cache_ttl raw0 = (let raw = trim_space raw0 in
     if raw = [] then None
     else case parse_duration raw of None \<Rightarrow> None | Some ttl \<Rightarrow> if ttl < 0 then None else Some ttl)"

type_synonym env = "string \<Rightarrow> string option"

definition env_ttl :: "env \<Rightarrow> string \<Rightarrow> int option" where
  "env_ttl env name = (case env name of None \<Rightarrow> None | Some raw \<Rightarrow> parse_api_cache_ttl raw)"

definition set_all_ttls :: "int \<Rightarrow> (string, int) gmap \<Rightarrow> (string, int) gmap" where
  "set_all_ttls ttl ttls = mvals (\<lambda>_. ttl) ttls"

definition set_ttls :: "string list \<Rightarrow> int \<Rightarrow> (string, int) gmap \<Rightarrow> (string, int) gmap" where
  "set_ttls keys ttl ttls = foldl (\<lambda>m key. mput key ttl m) ttls keys"

definition apply_live_current_ttl_env :: "env \<Rightarrow> (string, int) gmap \<Rightarrow> (string, int) gmap" where
  "apply_live_current_ttl_env env ttls =
     (let t1 = (case env_ttl env ''API_CACHE_DEFAULT'' of None \<Rightarrow> ttls | Some ttl \<Rightarrow> set_all_ttls ttl ttls);
          t2 = (case env_ttl env ''API_CACHE_EXPENSIVE'' of None \<Rightarrow> t1 | Some ttl \<Rightarrow> set_ttls expensive_plugins ttl t1)
      in foldl (\<lambda>m key. case env_ttl env (''API_CACHE_'' @ to_upper key) of None \<Rightarrow> m | Some ttl \<Rightarrow> mput key ttl m)
           t2 (plugin_names @ [LiveSystemSummaryKey]))"

definition live_current_ttls_from_env :: "env \<Rightarrow> (string, int) gmap" where
  "live_current_ttls_from_env env = apply_live_current_ttl_env env default_live_current_ttls"

section \<open>The response cache\<close>

record live_cache_entry =
  le_captured_at :: int
  le_raw :: jtext
  le_expires_at :: int

record live =
  lv_cache :: "string \<rightharpoonup> live_cache_entry"
  lv_ttls :: "(string, int) gmap"

definition set_live_current_ttls :: "(string, int) gmap \<Rightarrow> live \<Rightarrow> live" where
  "set_live_current_ttls ttls s = s\<lparr>lv_ttls := ttls\<rparr>"

definition live_ttl :: "live \<Rightarrow> string \<Rightarrow> int" where
  "live_ttl s key = (case mget (lv_ttls s) key of Some ttl \<Rightarrow> ttl | None \<Rightarrow> 2 * second)"

definition get_live_cache :: "int \<Rightarrow> string \<Rightarrow> live \<Rightarrow> (int \<times> jtext) option" where
  "get_live_cache now key s = (case lv_cache s key of
     None \<Rightarrow> None
   | Some entry \<Rightarrow>
       if le_expires_at entry < now then None else Some (le_captured_at entry, le_raw entry))"

definition set_live_cache :: "int \<Rightarrow> string \<Rightarrow> int \<Rightarrow> jtext \<Rightarrow> int \<Rightarrow> live \<Rightarrow> live" where
  "set_live_cache now key captured_at raw ttl s =
     (if ttl \<le> 0 then s
      else s\<lparr>lv_cache := (lv_cache s)(key \<mapsto>
        \<lparr>le_captured_at = captured_at, le_raw = raw, le_expires_at = now + ttl\<rparr>)\<rparr>)"

definition live_cache_time_key :: "int \<Rightarrow> 16 word" where
  "live_cache_time_key ttl =
     (let ms = min (max (milliseconds ttl) 1000) 65000
      in if (word_of_int ms :: 16 word) = default_data_cache_time_ms then word_of_int (ms - 1)
         else word_of_int ms)"

text \<open>
  \<open>currentCachedRaw\<close>: \<open>now\<close> is the clock at the lookup, \<open>now'\<close> when the response is stored;
  \<open>collect\<close> may fill the cache itself.
\<close>

definition current_cached_raw ::
  "go_error option \<Rightarrow> int \<Rightarrow> int \<Rightarrow> string \<Rightarrow> int \<Rightarrow> (live \<Rightarrow> (int \<times> jtext) res \<times> live) \<Rightarrow> live
    \<Rightarrow> (int \<times> jtext) res \<times> live" where
  "current_cached_raw ctx_err now now' key ttl collect s = (case ctx_err of
     Some e \<Rightarrow> (Inl e, s)
   | None \<Rightarrow> (case get_live_cache now key s of
       Some r \<Rightarrow> (Inr r, s)
     | None \<Rightarrow> (case collect s of
         (Inl e, s1) \<Rightarrow> (Inl e, s1)
       | (Inr (captured_at, raw), s1) \<Rightarrow>
           (Inr (captured_at, raw), set_live_cache now' key captured_at raw ttl s1))))"

section \<open>What the collectors return\<close>

text \<open>
  \<open>rd_stats\<close> is \<open>getSystemStats\<close>, \<open>rd_containers\<close> the Docker manager's answer (\<open>None\<close>: no
  manager), \<open>rd_fs\<close> the filesystem manager's entries by name, \<open>rd_services\<close> the unit manager's
  answer with the number of failed units, \<open>rd_smart\<close> the SMART manager's data.
\<close>

record readings =
  rd_ctx_err :: "go_error option"
  rd_stats :: "stats res"
  rd_info :: info
  rd_details :: details
  rd_containers :: "container_stats option list res option"
  rd_fs :: "(string, fs_stats) gmap"
  rd_services :: "(service list option res \<times> 16 word) option"
  rd_processes :: "(process_count option \<times> process_item list option \<times> program_item list option) res"
  rd_connections :: "connection_stats res"
  rd_irqs :: "irq_stat list option res"
  rd_smart :: "(string, smart_data) gmap option"

text \<open>Two filesystems with one display name: Go keeps either; here the later in name order.\<close>

definition attach_filesystem_stats :: "(string, fs_stats) gmap \<Rightarrow> combined_data \<Rightarrow> combined_data" where
  "attach_filesystem_stats fs data =
     (let shown = filter (\<lambda>(_, st). \<not> fs_root st \<and> flt (Num 0) (fs_disk_total st)) fs;
          keyed = map (\<lambda>(name, st). (if fs_name st \<noteq> [] then fs_name st else name, st)) shown;
          extra = foldl (\<lambda>m (key, st). mput key st m) [] keyed;
          pct = foldl (\<lambda>m (key, st). mput key
            (two_decimals (fmul (fdiv (fs_disk_used st) (fs_disk_total st)) (Num 100))) m) [] keyed
      in data\<lparr>cd_stats := (cd_stats data)\<lparr>s_extra_fs := Some extra\<rparr>,
              cd_info := (cd_info data)\<lparr>in_extra_fs_pct := Some pct\<rparr>\<rparr>)"

section \<open>Live collection\<close>

definition collect_live_current_data :: "readings \<Rightarrow> bool \<Rightarrow> bool \<Rightarrow> combined_data res" where
  "collect_live_current_data rd include_details include_containers =
     attempt (rd_stats rd) (\<lambda>st.
     let data0 = zero_combined_data\<lparr>cd_stats := st, cd_info := rd_info rd\<rparr> in
     attempt (if include_containers then (case rd_containers rd of
           None \<Rightarrow> Inr data0
         | Some (Inr cs) \<Rightarrow> Inr (data0\<lparr>cd_containers := cs\<rparr>)
         | Some (Inl _) \<Rightarrow> (case rd_ctx_err rd of Some e \<Rightarrow> Inl e | None \<Rightarrow> Inr data0))
       else Inr data0) (\<lambda>data1.
     let data2 = attach_filesystem_stats (rd_fs rd) data1 in
     Inr (if include_details then data2\<lparr>cd_details := Some (rd_details rd)\<rparr> else data2)))"

text \<open>\<open>cachePluginPayloads\<close>: stops at the first payload that does not marshal.\<close>

fun cache_payloads ::
  "int \<Rightarrow> (string \<times> payload) list \<Rightarrow> int \<Rightarrow> string list \<Rightarrow> (string \<rightharpoonup> jtext) \<Rightarrow> live
    \<Rightarrow> (string \<rightharpoonup> jtext) res \<times> live" where
  "cache_payloads now payloads captured_at [] acc s = (Inr acc, s)"
| "cache_payloads now payloads captured_at (key # keys) acc s = (case map_of payloads key of
     None \<Rightarrow> cache_payloads now payloads captured_at keys acc s
   | Some payload \<Rightarrow> (case marshal (enc_payload payload) of
       Inl e \<Rightarrow> (Inl e, s)
     | Inr raw \<Rightarrow> cache_payloads now payloads captured_at keys (acc(key \<mapsto> raw))
         (set_live_cache now key captured_at raw (live_ttl s key) s)))"

definition cache_plugin_payloads ::
  "int \<Rightarrow> combined_data \<Rightarrow> int \<Rightarrow> bool \<Rightarrow> live \<Rightarrow> (string \<rightharpoonup> jtext) res \<times> live" where
  "cache_plugin_payloads now data captured_at include_containers s =
     cache_payloads now (snapshot_plugin_payloads data) captured_at
       (if include_containers then base_system_plugin_names @ [PluginContainers] else base_system_plugin_names)
       (\<lambda>_. None) s"

definition unix_milli :: "int \<Rightarrow> int" where
  "unix_milli now = now div millisecond"

definition collect_system_plugin ::
  "int \<Rightarrow> readings \<Rightarrow> string \<Rightarrow> bool \<Rightarrow> live \<Rightarrow> (int \<times> jtext) res \<times> live" where
  "collect_system_plugin now rd plugin include_containers s =
     (case collect_live_current_data rd False include_containers of
        Inl e \<Rightarrow> (Inl e, s)
      | Inr data \<Rightarrow>
          let captured_at = unix_milli now in
          (case cache_plugin_payloads now data captured_at include_containers s of
             (Inl e, s1) \<Rightarrow> (Inl e, s1)
           | (Inr payloads, s1) \<Rightarrow> (case payloads plugin of
               None \<Rightarrow> (Inl (ErrText (''unknown plugin '' @ plugin)), s1)
             | Some raw \<Rightarrow> (Inr (captured_at, raw), s1))))"

definition marshal_current_plugin :: "int \<Rightarrow> json \<Rightarrow> (int \<times> jtext) res" where
  "marshal_current_plugin now payload = attempt (marshal payload) (\<lambda>raw. Inr (unix_milli now, raw))"

definition current_smart_records :: "(string, smart_data) gmap option \<Rightarrow> smart_device_record list" where
  "current_smart_records smart = (case smart of None \<Rightarrow> [] | Some items \<Rightarrow> smart_device_records items)"

definition collect_current_plugin ::
  "int \<Rightarrow> readings \<Rightarrow> string \<Rightarrow> live \<Rightarrow> (int \<times> jtext) res \<times> live" where
  "collect_current_plugin now rd plugin s =
     (if plugin = PluginConnections then
        (attempt (rd_connections rd) (\<lambda>st. marshal_current_plugin now (enc_connection_stats st)), s)
      else if plugin = PluginIRQ then
        (attempt (rd_irqs rd) (\<lambda>st. marshal_current_plugin now (enc_opt (enc_arr enc_irq_stat) st)), s)
      else if plugin = PluginSystemd then
        ((case rd_services rd of
            None \<Rightarrow> marshal_current_plugin now (JArr [])
          | Some (r, _) \<Rightarrow> attempt r (\<lambda>services. marshal_current_plugin now (enc_opt (enc_arr enc_service) services))), s)
      else if plugin = PluginSmart then
        ((case rd_ctx_err rd of
            Some e \<Rightarrow> Inl e
          | None \<Rightarrow> marshal_current_plugin now
              (enc_arr enc_smart_device_record (current_smart_records (rd_smart rd)))), s)
      else collect_system_plugin now rd plugin (plugin = PluginContainers) s)"

text \<open>Processes and programs are collected together, and both responses are cached.\<close>

definition current_process_plugin ::
  "int \<Rightarrow> int \<Rightarrow> readings \<Rightarrow> string \<Rightarrow> live \<Rightarrow> (int \<times> jtext) res \<times> live" where
  "current_process_plugin now now' rd plugin s = (case get_live_cache now plugin s of
     Some r \<Rightarrow> (Inr r, s)
   | None \<Rightarrow> (case rd_ctx_err rd of
       Some e \<Rightarrow> (Inl e, s)
     | None \<Rightarrow> (case rd_processes rd of
         Inl e \<Rightarrow> (Inl e, s)
       | Inr (count, processes, programs) \<Rightarrow>
           let captured_at = unix_milli now' in
           (case marshal (enc_processes_data \<lparr>pd_count = count, pd_items = processes\<rparr>) of
              Inl e \<Rightarrow> (Inl e, s)
            | Inr process_raw \<Rightarrow> (case marshal (enc_opt (enc_arr enc_program_item) programs) of
                Inl e \<Rightarrow> (Inl e, s)
              | Inr programs_raw \<Rightarrow>
                  let s1 = set_live_cache now' PluginProcesses captured_at process_raw (live_ttl s PluginProcesses) s;
                      s2 = set_live_cache now' PluginPrograms captured_at programs_raw (live_ttl s1 PluginPrograms) s1
                  in (Inr (captured_at, if plugin = PluginPrograms then programs_raw else process_raw), s2))))))"

definition live_current_plugin ::
  "go_error option \<Rightarrow> int \<Rightarrow> int \<Rightarrow> readings \<Rightarrow> string \<Rightarrow> live \<Rightarrow> (int \<times> jtext) res \<times> live" where
  "live_current_plugin ctx_err now now' rd plugin s = (case ctx_err of
     Some e \<Rightarrow> (Inl e, s)
   | None \<Rightarrow>
       if \<not> is_plugin_name plugin then (Inl (ErrText (''unknown plugin '' @ plugin)), s)
       else if plugin = PluginProcesses \<or> plugin = PluginPrograms
       then current_process_plugin now now' rd plugin s
       else current_cached_raw None now now' plugin (live_ttl s plugin) (collect_current_plugin now' rd plugin) s)"

definition live_system_summary ::
  "go_error option \<Rightarrow> int \<Rightarrow> int \<Rightarrow> readings \<Rightarrow> live \<Rightarrow> (int \<times> summary) res \<times> live" where
  "live_system_summary ctx_err now now' rd s =
     (case current_cached_raw ctx_err now now' LiveSystemSummaryKey (live_ttl s LiveSystemSummaryKey)
        (\<lambda>s. case collect_live_current_data rd True False of
           Inl e \<Rightarrow> (Inl e, s)
         | Inr data \<Rightarrow>
             let captured_at = unix_milli now' in
             (case cache_plugin_payloads now' data captured_at False s of
                (Inl e, s1) \<Rightarrow> (Inl e, s1)
              | (Inr _, s1) \<Rightarrow> (attempt (marshal (enc_summary (new_summary (Some data))))
                  (\<lambda>raw. Inr (captured_at, raw)), s1))) s of
      (Inl e, s1) \<Rightarrow> (Inl e, s1)
    | (Inr (captured_at, raw), s1) \<Rightarrow>
        (attempt (unmarshal dec_summary raw) (\<lambda>su. Inr (captured_at, su)), s1))"

section \<open>The snapshot cache and the collector's gathering\<close>

record cache_node =
  cache_data :: combined_data
  cache_last_update :: int

type_synonym snapshot_cache = "16 word \<rightharpoonup> cache_node"

text \<open>\<open>Get\<close>: the data and whether it is fresh, that is younger than half the cache time.\<close>

definition cache_get :: "int \<Rightarrow> 16 word \<Rightarrow> snapshot_cache \<Rightarrow> combined_data \<times> bool" where
  "cache_get now cache_time_ms c = (case c cache_time_ms of
     None \<Rightarrow> (zero_combined_data, False)
   | Some node \<Rightarrow>
       (cache_data node, now - cache_last_update node < uint (cache_time_ms div 2) * millisecond))"

definition cache_set :: "int \<Rightarrow> combined_data \<Rightarrow> 16 word \<Rightarrow> snapshot_cache \<Rightarrow> snapshot_cache" where
  "cache_set now data cache_time_ms c = c(cache_time_ms \<mapsto> \<lparr>cache_data = data, cache_last_update = now\<rparr>)"

definition cacheable_stats_data :: "combined_data \<Rightarrow> combined_data" where
  "cacheable_stats_data data = data\<lparr>cd_process_count := None, cd_processes := None,
     cd_programs := None, cd_connections := None, cd_irqs := None\<rparr>"

definition attach_container_stats :: "readings \<Rightarrow> combined_data \<Rightarrow> combined_data res" where
  "attach_container_stats rd data = (case rd_containers rd of
     None \<Rightarrow> Inr data
   | Some (Inr cs) \<Rightarrow> Inr (data\<lparr>cd_containers := cs\<rparr>)
   | Some (Inl _) \<Rightarrow> (case rd_ctx_err rd of Some e \<Rightarrow> Inl e | None \<Rightarrow> Inr data))"

definition attach_systemd_stats :: "readings \<Rightarrow> combined_data \<Rightarrow> combined_data res" where
  "attach_systemd_stats rd data = (case rd_services rd of
     None \<Rightarrow> Inr data
   | Some (r, num_failed) \<Rightarrow> attempt r (\<lambda>services.
       let total_count = (of_nat (case services of None \<Rightarrow> 0 | Some ss \<Rightarrow> length ss) :: 16 word);
           data1 = (if 0 < total_count
             then data\<lparr>cd_info := (cd_info data)\<lparr>in_services := [total_count, num_failed]\<rparr>\<rparr> else data)
       in Inr (data1\<lparr>cd_systemd_services := services\<rparr>)))"

definition attach_current_detail_stats :: "readings \<Rightarrow> combined_data \<Rightarrow> combined_data res" where
  "attach_current_detail_stats rd data =
     attempt (rd_processes rd) (\<lambda>(count, processes, programs).
     attempt (rd_connections rd) (\<lambda>connections.
     attempt (rd_irqs rd) (\<lambda>irqs.
     Inr (data\<lparr>cd_process_count := count, cd_processes := processes, cd_programs := programs,
       cd_connections := Some connections, cd_irqs := irqs\<rparr>))))"

definition attach_default_interval_stats :: "readings \<Rightarrow> 16 word \<Rightarrow> combined_data \<Rightarrow> combined_data res" where
  "attach_default_interval_stats rd cache_time_ms data =
     (if cache_time_ms \<noteq> default_data_cache_time_ms then Inr data
      else attempt (attach_systemd_stats rd data) (attach_current_detail_stats rd))"

text \<open>\<open>attachSystemDetails\<close>, with the manager's dirty flag.\<close>

definition attach_system_details ::
  "details \<Rightarrow> 16 word \<Rightarrow> bool \<Rightarrow> combined_data \<Rightarrow> bool \<Rightarrow> combined_data \<times> bool" where
  "attach_system_details dt cache_time_ms include_requested data dirty =
     (if cache_time_ms \<noteq> default_data_cache_time_ms \<or> (\<not> include_requested \<and> \<not> dirty) then (data, dirty)
      else (data\<lparr>cd_details := Some dt\<rparr>, False))"

record gather_state =
  gs_cache :: snapshot_cache
  gs_details_dirty :: bool

text \<open>
  \<open>gatherStats\<close>.  A failed collection has already overwritten the stale node's data in place, but
  it stays stale, so no read can return it; the model keeps the node.
\<close>

definition gather_stats ::
  "go_error option \<Rightarrow> int \<Rightarrow> int \<Rightarrow> readings \<Rightarrow> 16 word \<Rightarrow> bool \<Rightarrow> gather_state
    \<Rightarrow> combined_data res \<times> gather_state" where
  "gather_stats ctx_err now now' rd cache_time_ms include_details g = (case ctx_err of
     Some e \<Rightarrow> (Inl e, g)
   | None \<Rightarrow>
       (case cache_get now cache_time_ms (gs_cache g) of
          (data, True) \<Rightarrow> (Inr data, g)
        | (_, False) \<Rightarrow>
            (case attempt (rd_stats rd) (\<lambda>st.
                attempt (attach_container_stats rd (zero_combined_data\<lparr>cd_stats := st, cd_info := rd_info rd\<rparr>)) (\<lambda>d1.
                attempt (attach_default_interval_stats rd cache_time_ms d1) (\<lambda>d2.
                Inr (attach_filesystem_stats (rd_fs rd) d2)))) of
               Inl e \<Rightarrow> (Inl e, g)
             | Inr data \<Rightarrow>
                 let cache' = cache_set now' (cacheable_stats_data data) cache_time_ms (gs_cache g);
                     (data', dirty') = attach_system_details (rd_details rd) cache_time_ms include_details data
                       (gs_details_dirty g)
                 in (Inr data', \<lparr>gs_cache = cache', gs_details_dirty = dirty'\<rparr>))))"

section \<open>Facts\<close>

lemma foldl_updates:
  "mget (foldl (\<lambda>m key. case f key of None \<Rightarrow> m | Some v \<Rightarrow> mput key v m) m keys) k
    = (if k \<in> set keys then (case f k of None \<Rightarrow> mget m k | Some v \<Rightarrow> Some v) else mget m k)"
  by (induction keys arbitrary: m) (auto split: option.splits)

lemma set_ttls_apply: "mget (set_ttls keys ttl m) k = (if k \<in> set keys then Some ttl else mget m k)"
  unfolding set_ttls_def using foldl_updates [of "\<lambda>_. Some ttl" m keys k] by simp

lemma get_set_live_cache:
  "get_live_cache now' key' (set_live_cache now key captured_at raw ttl s)
    = (if 0 < ttl \<and> key' = key then (if now' \<le> now + ttl then Some (captured_at, raw) else None)
       else get_live_cache now' key' s)"
  by (auto simp: get_live_cache_def set_live_cache_def)

lemma live_ttl_set [simp]: "live_ttl (set_live_cache now key c raw ttl s) = live_ttl s"
  by (rule ext) (simp add: live_ttl_def set_live_cache_def)

lemma cacheable_fields [simp]:
  "cd_processes (cacheable_stats_data d) = None" "cd_process_count (cacheable_stats_data d) = None"
  "cd_programs (cacheable_stats_data d) = None" "cd_connections (cacheable_stats_data d) = None"
  "cd_irqs (cacheable_stats_data d) = None"
  by (simp_all add: cacheable_stats_data_def)

text \<open>What a call that did collect leaves in the snapshot cache.\<close>

lemma gather_stats_collected:
  assumes "gather_stats None now now' rd key inc g = (Inr data, g')" "\<not> snd (cache_get now key (gs_cache g))"
  shows "\<exists>d. gs_cache g' = cache_set now' (cacheable_stats_data d) key (gs_cache g)
    \<and> (data = d \<or> data = d\<lparr>cd_details := Some (rd_details rd)\<rparr>)"
proof -
  obtain x where x: "cache_get now key (gs_cache g) = (x, False)"
    using assms(2) by (cases "cache_get now key (gs_cache g)") simp
  show ?thesis
    using assms(1)
    by (auto simp: gather_stats_def x attach_system_details_def Let_def split: sum.splits if_splits)
qed

lemma cache_payloads_keeps:
  "cache_payloads now ps c keys acc s = (Inr acc', s') \<Longrightarrow> k \<notin> set keys
    \<Longrightarrow> get_live_cache now2 k s' = get_live_cache now2 k s"
  by (induction now ps c keys acc s rule: cache_payloads.induct)
    (auto simp: get_set_live_cache split: option.splits sum.splits)

lemma cache_payloads_filled:
  assumes "cache_payloads now ps c keys acc s = (Inr acc', s')" "k \<in> set keys" "map_of ps k = Some p"
    "0 < live_ttl s k" "now2 \<le> now + live_ttl s k"
  shows "get_live_cache now2 k s' = Some (c, JText (enc_payload p))"
  using assms
proof (induction now ps c keys acc s rule: cache_payloads.induct)
  case (2 now ps c key keys acc s)
  show ?case
  proof (cases "map_of ps key")
    case None
    then show ?thesis
      using 2(1) [OF None] 2(3-) by auto
  next
    case (Some pl)
    then obtain b where b: "marshal (enc_payload pl) = Inr b"
      and rest: "cache_payloads now ps c keys (acc(key \<mapsto> b)) (set_live_cache now key c b (live_ttl s key) s) = (Inr acc', s')"
      using 2(3) by (auto split: sum.splits)
    show ?thesis
    proof (cases "k \<in> set keys")
      case True
      then show ?thesis
        using 2(2) [OF Some b rest] 2(5-) by simp
    next
      case False
      then show ?thesis
        using cache_payloads_keeps [OF rest False] 2(4-) Some b
        by (simp add: get_set_live_cache marshal_def split: if_splits)
    qed
  qed
qed simp

section \<open>Properties\<close>

text \<open>
  The key under which a live request keeps its counter baselines is its time to live in
  milliseconds, kept between 1000 and 65000, and is never the collector's own key 60000, so that
  requests cannot disturb the baselines of the persisted collection.
\<close>

theorem live_cache_time_key_range:
  "1000 \<le> uint (live_cache_time_key ttl) \<and> uint (live_cache_time_key ttl) \<le> 65000
    \<and> live_cache_time_key ttl \<noteq> default_data_cache_time_ms
    \<and> uint (live_cache_time_key ttl)
      = (if milliseconds ttl = 60000 then 59999 else min (max (milliseconds ttl) 1000) 65000)"
proof -
  define ms where "ms = min (max (milliseconds ttl) 1000) 65000"
  have ms: "1000 \<le> ms" "ms \<le> 65000"
    by (simp_all add: ms_def)
  have u: "uint (word_of_int i :: 16 word) = i" if "0 \<le> i" "i \<le> 65000" for i
    using that by (simp add: uint_word_of_int mod_pos_pos_trivial)
  have d: "uint default_data_cache_time_ms = 60000"
    by (simp add: default_data_cache_time_ms_def)
  have eq: "(word_of_int ms :: 16 word) = default_data_cache_time_ms \<longleftrightarrow> ms = 60000"
    using u [of ms] ms d by (metis default_data_cache_time_ms_def of_int_numeral order_trans zero_le_numeral)
  have k: "live_cache_time_key ttl = (if ms = 60000 then word_of_int 59999 else word_of_int ms)"
    using eq by (simp add: live_cache_time_key_def ms_def [symmetric])
  have v: "uint (live_cache_time_key ttl) = (if ms = 60000 then 59999 else ms)"
    using u [of 59999] u [of ms] ms by (simp add: k)
  moreover have "live_cache_time_key ttl \<noteq> default_data_cache_time_ms"
  proof
    assume "live_cache_time_key ttl = default_data_cache_time_ms"
    then have "uint (live_cache_time_key ttl) = 60000"
      using d by simp
    then show False
      using v by (simp split: if_splits)
  qed
  ultimately show ?thesis
    using ms by (auto simp: ms_def min_def max_def split: if_splits)
qed

text \<open>
  A response is collected at most once per time to live.  After a request that succeeded, every
  request for the same key until its time to live is over returns the same response and leaves the
  cache as it is, whatever its collector would do; and no time to live means no caching.
\<close>

theorem cached_response_reused:
  assumes "current_cached_raw None now now1 key ttl collect s = (Inr r, s')"
    and "get_live_cache now key s = None"
    and "0 < ttl" "now2 \<le> now1 + ttl"
  shows "current_cached_raw None now2 now3 key ttl' collect' s' = (Inr r, s')"
proof -
  obtain c raw s1 where "s' = set_live_cache now1 key c raw ttl s1" "r = (c, raw)"
    using assms(1,2) by (auto simp: current_cached_raw_def split: prod.splits sum.splits)
  then show ?thesis
    using assms(3,4) by (simp add: current_cached_raw_def get_set_live_cache)
qed

theorem cached_response_reused_witness:
  "current_cached_raw None (3 * second) 0 ''irq'' 0 (\<lambda>s. (Inl ErrDeadline, s))
     (snd (current_cached_raw None 0 second ''irq'' (2 * second) (\<lambda>s. (Inr (7, JText JNull), s))
        \<lparr>lv_cache = (\<lambda>_. None), lv_ttls = []\<rparr>))
   = (Inr (7, JText JNull), snd (current_cached_raw None 0 second ''irq'' (2 * second) (\<lambda>s. (Inr (7, JText JNull), s))
        \<lparr>lv_cache = (\<lambda>_. None), lv_ttls = []\<rparr>))"
  by (rule cached_response_reused [where now = 0 and ?now1.0 = second and ttl = "2 * second"
      and collect = "\<lambda>s. (Inr (7, JText JNull), s)" and s = "\<lparr>lv_cache = (\<lambda>_. None), lv_ttls = []\<rparr>"])
    (simp_all add: current_cached_raw_def get_live_cache_def second_def)

text \<open>
  Precedence of the cache variables.  For every key the time to live is that of the key's own
  variable when it holds a valid duration, else that of \<open>API_CACHE_EXPENSIVE\<close> for the expensive
  plugins, else that of \<open>API_CACHE_DEFAULT\<close>, else the built-in one.
\<close>

theorem ttl_precedence:
  "mget (live_current_ttls_from_env env) key =
     (if key \<in> set plugin_names \<or> key = LiveSystemSummaryKey
      then (case env_ttl env (''API_CACHE_'' @ to_upper key) of
          Some ttl \<Rightarrow> Some ttl
        | None \<Rightarrow> (case (if key \<in> set expensive_plugins then env_ttl env ''API_CACHE_EXPENSIVE'' else None) of
            Some ttl \<Rightarrow> Some ttl
          | None \<Rightarrow> (case env_ttl env ''API_CACHE_DEFAULT'' of
              Some ttl \<Rightarrow> Some ttl
            | None \<Rightarrow> mget default_live_current_ttls key)))
      else None)"
proof -
  have dom: "mget default_live_current_ttls key \<noteq> None \<longleftrightarrow> key \<in> set plugin_names \<or> key = LiveSystemSummaryKey"
    by (auto simp: default_live_current_ttls_def plugin_names_def)
  have exp: "set expensive_plugins \<subseteq> set plugin_names"
    by (simp add: expensive_plugins_def plugin_names_def)
  show ?thesis
    unfolding live_current_ttls_from_env_def apply_live_current_ttl_env_def Let_def foldl_updates
    using dom exp by (auto simp: set_ttls_apply set_all_ttls_def split: option.splits)
qed

text \<open>
  A live request for a host plugin refreshes them all together: when it succeeds, every base
  plugin with a positive time to live is in the cache, with the payload of the one collection and
  the same capture time.
\<close>

theorem live_plugins_consistent:
  assumes "collect_system_plugin now rd plugin inc s = (Inr (captured_at, raw), s')"
    and "key \<in> set base_system_plugin_names" "0 < live_ttl s key" "now2 \<le> now + live_ttl s key"
  shows "\<exists>data. collect_live_current_data rd False inc = Inr data
    \<and> (\<exists>p. map_of (snapshot_plugin_payloads data) key = Some p
        \<and> get_live_cache now2 key s' = Some (captured_at, JText (enc_payload p)))"
proof -
  obtain data where data: "collect_live_current_data rd False inc = Inr data"
    and c: "captured_at = unix_milli now"
    using assms(1) by (auto simp: collect_system_plugin_def Let_def split: sum.splits prod.splits option.splits)
  obtain acc where acc: "cache_plugin_payloads now data captured_at inc s = (Inr acc, s')"
    using assms(1) data c by (auto simp: collect_system_plugin_def Let_def split: sum.splits prod.splits option.splits)
  obtain p where p: "map_of (snapshot_plugin_payloads data) key = Some p"
    using assms(2) by (auto simp: base_system_plugin_names_def snapshot_plugin_payloads_def Let_def)
  have "get_live_cache now2 key s' = Some (captured_at, JText (enc_payload p))"
    using cache_payloads_filled [OF acc [unfolded cache_plugin_payloads_def] _ p assms(3,4)] assms(2) by (cases inc) auto
  then show ?thesis
    using data p by blast
qed

definition sample_readings :: readings where
  "sample_readings = \<lparr>rd_ctx_err = None, rd_stats = Inr zero_stats, rd_info = zero_info, rd_details = zero_details,
     rd_containers = None, rd_fs = [], rd_services = None, rd_processes = Inr (None, Some [], Some []),
     rd_connections = Inr zero_connection_stats, rd_irqs = Inr None, rd_smart = None\<rparr>"

definition empty_live :: live where
  "empty_live = \<lparr>lv_cache = (\<lambda>_. None), lv_ttls = default_live_current_ttls\<rparr>"

theorem live_plugins_consistent_witness:
  "\<exists>c p. get_live_cache second ''mem'' (snd (collect_system_plugin 0 sample_readings ''cpu'' False empty_live))
     = Some (c, JText (enc_payload p))"
proof -
  obtain r s' where r: "collect_system_plugin 0 sample_readings ''cpu'' False empty_live = (r, s')"
    by fastforce
  have "\<not> isl (fst (collect_system_plugin 0 sample_readings ''cpu'' False empty_live))"
    by code_simp
  then obtain c raw where c: "collect_system_plugin 0 sample_readings ''cpu'' False empty_live = (Inr (c, raw), s')"
    unfolding r by (cases r) auto
  have k: "''mem'' \<in> set base_system_plugin_names" "0 < live_ttl empty_live ''mem''" "second \<le> 0 + live_ttl empty_live ''mem''"
    by code_simp+
  show ?thesis
    using live_plugins_consistent [OF c k] c by auto
qed

end
