(* ===== verification/Rollups.thy ===== *)
theory Rollups
  imports Store
begin

text \<open>
  \<open>RunMaintenance\<close> of \<open>internal/store/rollups.go\<close>: rows of a short resolution are aggregated
  into rows of the next longer one, window by window, and rows older than their retention are
  deleted, in one transaction.  Times are Unix milliseconds.  The loop over the windows is
  \<open>rollup_windows\<close>; its guard \<open>0 < rs_window step\<close> is what makes it end, and the four steps of
  the program all satisfy it.
\<close>

section \<open>Steps\<close>

record rollup_step =
  rs_shorter :: string
  rs_longer :: string
  rs_window :: int
  rs_min_shorter_rows :: nat

definition rollup_steps :: "rollup_step list" where
  "rollup_steps =
     [\<lparr>rs_shorter = resolution1m, rs_longer = resolution10m, rs_window = 10 * minute_ms, rs_min_shorter_rows = 9\<rparr>,
      \<lparr>rs_shorter = resolution10m, rs_longer = resolution20m, rs_window = 20 * minute_ms, rs_min_shorter_rows = 2\<rparr>,
      \<lparr>rs_shorter = resolution20m, rs_longer = resolution120m, rs_window = 120 * minute_ms, rs_min_shorter_rows = 6\<rparr>,
      \<lparr>rs_shorter = resolution120m, rs_longer = resolution480m, rs_window = 480 * minute_ms, rs_min_shorter_rows = 4\<rparr>]"

definition retention_of :: "string \<Rightarrow> int" where
  "retention_of resolution = (case map_of history_retention resolution of None \<Rightarrow> 0 | Some r \<Rightarrow> r)"

section \<open>Statements\<close>

definition latest_at :: "(int, jtext) gmap \<Rightarrow> int option" where
  "latest_at h = (if h = [] then None else Some (Max (fst ` set h)))"

definition latest_history_at :: "string \<Rightarrow> string \<Rightarrow> int option txm" where
  "latest_history_at plugin resolution = sql_query (\<lambda>d. latest_at (db_history d plugin resolution))"

definition rows_between :: "int \<Rightarrow> int \<Rightarrow> (int, jtext) gmap \<Rightarrow> jtext list" where
  "rows_between captured_after captured_at_or_before h =
     map snd (filter (\<lambda>(ts, _). captured_after < ts \<and> ts \<le> captured_at_or_before) h)"

definition load_history_json :: "string \<Rightarrow> string \<Rightarrow> int \<Rightarrow> int \<Rightarrow> jtext list txm" where
  "load_history_json plugin resolution captured_after captured_at_or_before =
     sql_query (\<lambda>d. rows_between captured_after captured_at_or_before (db_history d plugin resolution))"

definition delete_before :: "string \<Rightarrow> string \<Rightarrow> int \<Rightarrow> db \<Rightarrow> db" where
  "delete_before plugin resolution cutoff d =
     d\<lparr>db_history := (db_history d)(plugin := (db_history d plugin)(resolution :=
        filter (\<lambda>(ts, _). \<not> ts < cutoff) (db_history d plugin resolution)))\<rparr>"

definition delete_old_history :: "string \<Rightarrow> int \<Rightarrow> unit txm" where
  "delete_old_history plugin now =
     tx_each (\<lambda>(resolution, retention). sql_exec (delete_before plugin resolution (now - retention)))
       history_retention"

section \<open>Rolling up\<close>

text \<open>The first cursor: chained to the last rollup, moved past what retention has deleted.\<close>

definition rollup_start :: "rollup_step \<Rightarrow> int \<Rightarrow> int option \<Rightarrow> int" where
  "rollup_start step now latest =
     (let cursor = (case latest of None \<Rightarrow> now | Some l \<Rightarrow> l + rs_window step);
          oldest_useful = now - retention_of (rs_shorter step)
      in if cursor \<le> oldest_useful
         then cursor + (quot (oldest_useful - cursor) (rs_window step) + 1) * rs_window step
         else cursor)"

definition rollup_window :: "string \<Rightarrow> rollup_step \<Rightarrow> int \<Rightarrow> unit txm" where
  "rollup_window plugin step cursor =
     tx_bind (load_history_json plugin (rs_shorter step) (cursor - rs_window step) cursor) (\<lambda>history_json.
     if length history_json < rs_min_shorter_rows step then tx_return ()
     else tx_bind (tx_lift (aggregate_plugin_history_json plugin history_json)) (\<lambda>rolled_raw.
          insert_plugin_history plugin (rs_longer step) cursor rolled_raw))"

function rollup_windows :: "string \<Rightarrow> rollup_step \<Rightarrow> int \<Rightarrow> int \<Rightarrow> unit txm" where
  "rollup_windows plugin step now cursor =
     (if cursor \<le> now \<and> 0 < rs_window step
      then tx_bind (rollup_window plugin step cursor)
             (\<lambda>_. rollup_windows plugin step now (cursor + rs_window step))
      else tx_return ())"
  by auto
termination by (relation "measure (\<lambda>(_, _, now, cursor). nat (now + 1 - cursor))") auto

declare rollup_windows.simps [simp del]

definition apply_rollup_step :: "string \<Rightarrow> rollup_step \<Rightarrow> int \<Rightarrow> unit txm" where
  "apply_rollup_step plugin step now =
     tx_bind (latest_history_at plugin (rs_longer step)) (\<lambda>latest.
     rollup_windows plugin step now (rollup_start step now latest))"

definition rollup_plugin :: "string \<Rightarrow> int \<Rightarrow> unit txm" where
  "rollup_plugin plugin now =
     tx_bind (tx_each (\<lambda>step. apply_rollup_step plugin step now) rollup_steps) (\<lambda>_.
     delete_old_history plugin now)"

definition run_maintenance :: "fault \<Rightarrow> int \<Rightarrow> store \<Rightarrow> unit res \<times> store" where
  "run_maintenance fault now s =
     (case run_tx (tx_each (\<lambda>plugin. rollup_plugin plugin now) (history_plugin_names s)) fault (st_db s) of
        (r, db') \<Rightarrow> (r, s\<lparr>st_db := db'\<rparr>))"

section \<open>The cursors\<close>

lemma rollup_steps_window: "step \<in> set rollup_steps \<Longrightarrow> 0 < rs_window step"
  by (auto simp: rollup_steps_def minute_ms_def)

lemma rollup_steps_distinct: "step \<in> set rollup_steps \<Longrightarrow> rs_shorter step \<noteq> rs_longer step"
  by (auto simp: rollup_steps_def)

lemma rollup_start_chained:
  fixes now :: int and latest :: "int option"
  assumes w: "0 < rs_window step"
  defines "old \<equiv> now - retention_of (rs_shorter step)"
  defines "base \<equiv> (case latest of None \<Rightarrow> now | Some l \<Rightarrow> l + rs_window step)"
  shows "rs_window step dvd rollup_start step now latest - base"
    and "base \<le> rollup_start step now latest"
    and "old < rollup_start step now latest"
    and "base \<le> c \<Longrightarrow> old < c \<Longrightarrow> rs_window step dvd c - base \<Longrightarrow> rollup_start step now latest \<le> c"
proof -
  let ?w = "rs_window step"
  let ?s = "rollup_start step now latest"
  have s: "?s = (if base \<le> old then base + ((old - base) div ?w + 1) * ?w else base)"
    using w by (simp add: rollup_start_def Let_def base_def old_def quot_nonneg)
  have m: "(old - base) div ?w * ?w + (old - base) mod ?w = old - base"
    by (rule div_mult_mod_eq)
  have lt: "(old - base) mod ?w < ?w" "0 \<le> (old - base) mod ?w"
    using w by auto
  show "?w dvd ?s - base"
    by (simp add: s)
  show "base \<le> ?s"
    using w by (auto simp: s pos_imp_zdiv_nonneg_iff)
  have "old - base < (old - base) div ?w * ?w + ?w"
    using m lt by linarith
  then show "old < ?s"
    by (simp add: s distrib_right)
  assume c: "base \<le> c" "old < c" "?w dvd c - base"
  then obtain k where k: "c = base + ?w * k"
    by (metis add.commute diff_add_cancel dvdE)
  show "?s \<le> c"
  proof (cases "base \<le> old")
    case True
    have "old - base < k * ?w"
      using c(2) k by (simp add: mult.commute)
    then have "(old - base) div ?w * ?w < k * ?w"
      using m lt by linarith
    then have "(old - base) div ?w < k"
      using w by (simp add: mult_less_cancel_right_pos)
    then have "((old - base) div ?w + 1) * ?w \<le> k * ?w"
      using w by (intro mult_right_mono) auto
    then show ?thesis
      using True k by (simp add: s mult.commute)
  next
    case False
    then show ?thesis using c(1) by (simp add: s)
  qed
qed


section \<open>What a successful step writes\<close>

text \<open>
  The specification of maintenance, over the histories \<open>h\<close> of one plugin (from resolutions to
  rows) before and \<open>h'\<close> after.
\<close>

type_synonym histories = "string \<Rightarrow> (int, jtext) gmap"

definition cursor_set :: "rollup_step \<Rightarrow> int \<Rightarrow> int \<Rightarrow> int set" where
  "cursor_set step now c = {k. c \<le> k \<and> k \<le> now \<and> rs_window step dvd k - c}"

definition window_rows :: "histories \<Rightarrow> rollup_step \<Rightarrow> int \<Rightarrow> jtext list" where
  "window_rows h step c = rows_between (c - rs_window step) c (h (rs_shorter step))"

definition rolled_row :: "string \<Rightarrow> histories \<Rightarrow> rollup_step \<Rightarrow> int \<Rightarrow> jtext option" where
  "rolled_row plugin h step c =
     (if length (window_rows h step c) < rs_min_shorter_rows step then None
      else case aggregate_plugin_history_json plugin (window_rows h step c) of
        Inl _ \<Rightarrow> None | Inr raw \<Rightarrow> Some raw)"

definition step_spec :: "string \<Rightarrow> rollup_step \<Rightarrow> int set \<Rightarrow> histories \<Rightarrow> histories \<Rightarrow> bool" where
  "step_spec plugin step cs h h' \<longleftrightarrow>
     (\<forall>k. mget (h' (rs_longer step)) k =
        (if k \<in> cs \<and> rolled_row plugin h step k \<noteq> None then rolled_row plugin h step k
         else mget (h (rs_longer step)) k))
     \<and> (\<forall>r. r \<noteq> rs_longer step \<longrightarrow> h' r = h r)"

text \<open>Only this plugin's histories differ.\<close>

definition only_history :: "string \<Rightarrow> db \<Rightarrow> db \<Rightarrow> bool" where
  "only_history plugin d d' \<longleftrightarrow>
     (\<forall>p. p \<noteq> plugin \<longrightarrow> db_history d' p = db_history d p)
     \<and> db_current d' = db_current d \<and> db_meta d' = db_meta d \<and> db_user_version d' = db_user_version d"

lemma only_history_refl [simp, intro]: "only_history plugin d d"
  by (simp add: only_history_def)

lemma only_history_trans: "only_history p d d' \<Longrightarrow> only_history p d' d'' \<Longrightarrow> only_history p d d''"
  by (simp add: only_history_def)

lemma only_history_put [simp, intro]: "only_history p d (put_history p r c raw d)"
  by (simp add: only_history_def put_history_def)

lemma only_history_delete [simp, intro]: "only_history p d (delete_before p r c d)"
  by (simp add: only_history_def delete_before_def)

lemma cursor_set_empty: "0 < rs_window step \<Longrightarrow> now < c \<Longrightarrow> cursor_set step now c = {}"
  by (auto simp: cursor_set_def)

lemma cursor_set_step:
  assumes w: "0 < rs_window step" and c: "c \<le> now"
  shows "cursor_set step now c = insert c (cursor_set step now (c + rs_window step))"
    (is "?A = insert c ?B")
proof (rule set_eqI)
  fix k
  have "rs_window step dvd k - c \<longleftrightarrow> rs_window step dvd k - (c + rs_window step)"
    by (metis diff_diff_eq dvd_diff_left_iff dvd_refl)
  moreover have "k = c \<or> c + rs_window step \<le> k" if "c \<le> k" "rs_window step dvd k - c"
    using that w zdvd_imp_le [of "rs_window step" "k - c"] by (cases "k = c") auto
  ultimately show "k \<in> ?A \<longleftrightarrow> k \<in> insert c ?B"
    using w c by (auto simp: cursor_set_def)
qed

lemma rollup_window_Inr:
  assumes "rollup_window plugin step c fault t = (Inr u, t')"
  shows "tx_db t' = (case rolled_row plugin (db_history (tx_db t) plugin) step c of
       None \<Rightarrow> tx_db t | Some raw \<Rightarrow> put_history plugin (rs_longer step) c raw (tx_db t))"
  using assms
  by (auto simp: rollup_window_def tx_bind_Inr load_history_json_def sql_query_Inr rolled_row_def
      window_rows_def insert_plugin_history_def sql_exec_Inr tx_lift_Inr split: if_splits)

lemma step_spec_window:
  assumes "rs_shorter step \<noteq> rs_longer step"
    and "tx_db t' = (case rolled_row plugin (db_history (tx_db t) plugin) step c of
       None \<Rightarrow> tx_db t | Some raw \<Rightarrow> put_history plugin (rs_longer step) c raw (tx_db t))"
  shows "step_spec plugin step {c} (db_history (tx_db t) plugin) (db_history (tx_db t') plugin)"
    and "only_history plugin (tx_db t) (tx_db t')"
  using assms by (auto simp: step_spec_def put_history_def only_history_def split: option.splits)

lemma step_spec_rolled_row:
  assumes "rs_shorter step \<noteq> rs_longer step" "step_spec plugin step cs h h'"
  shows "rolled_row plugin h' step k = rolled_row plugin h step k"
  using assms by (simp add: step_spec_def rolled_row_def window_rows_def)

lemma step_spec_trans:
  assumes ne: "rs_shorter step \<noteq> rs_longer step"
    and a: "step_spec plugin step A h h'" and b: "step_spec plugin step B h' h''"
  shows "step_spec plugin step (A \<union> B) h h''"
  using a b step_spec_rolled_row [OF ne a] by (simp add: step_spec_def)

lemma step_spec_refl: "step_spec plugin step {} h h"
  by (simp add: step_spec_def)

lemma rollup_windows_spec:
  assumes "rs_shorter step \<noteq> rs_longer step" "0 < rs_window step"
    and "rollup_windows plugin step now c fault t = (Inr u, t')"
  shows "step_spec plugin step (cursor_set step now c)
      (db_history (tx_db t) plugin) (db_history (tx_db t') plugin)
    \<and> only_history plugin (tx_db t) (tx_db t')"
  using assms
proof (induction plugin step now c arbitrary: t rule: rollup_windows.induct)
  case (1 plugin step now cursor)
  show ?case
  proof (cases "cursor \<le> now")
    case True
    then obtain v t1 where w: "rollup_window plugin step cursor fault t = (Inr v, t1)"
        and r: "rollup_windows plugin step now (cursor + rs_window step) fault t1 = (Inr u, t')"
      using 1(3,4) by (subst (asm) rollup_windows.simps) (auto simp: tx_bind_Inr)
    note s1 = step_spec_window [OF 1(2) rollup_window_Inr [OF w]]
    have s2: "step_spec plugin step (cursor_set step now (cursor + rs_window step))
        (db_history (tx_db t1) plugin) (db_history (tx_db t') plugin) \<and> only_history plugin (tx_db t1) (tx_db t')"
      using 1 True r by blast
    show ?thesis
      using step_spec_trans [OF 1(2) s1(1) conjunct1 [OF s2]] only_history_trans [OF s1(2) conjunct2 [OF s2]]
        cursor_set_step [OF 1(3) True] by simp
  next
    case False
    then show ?thesis
      using 1(3,4) by (subst (asm) rollup_windows.simps) (auto simp: cursor_set_empty step_spec_refl)
  qed
qed

definition step_cursors :: "rollup_step \<Rightarrow> int \<Rightarrow> histories \<Rightarrow> int set" where
  "step_cursors step now h =
     cursor_set step now (rollup_start step now (latest_at (h (rs_longer step))))"

lemma apply_rollup_step_spec:
  assumes "step \<in> set rollup_steps" "apply_rollup_step plugin step now fault t = (Inr u, t')"
  shows "step_spec plugin step (step_cursors step now (db_history (tx_db t) plugin))
     (db_history (tx_db t) plugin) (db_history (tx_db t') plugin)
    \<and> only_history plugin (tx_db t) (tx_db t')"
proof -
  obtain t1 where t1: "tx_db t1 = tx_db t"
    and r: "rollup_windows plugin step now
        (rollup_start step now (latest_at (db_history (tx_db t) plugin (rs_longer step)))) fault t1 = (Inr u, t')"
    using assms(2)
    by (auto simp: apply_rollup_step_def tx_bind_Inr latest_history_at_def sql_query_Inr
        intro!: that [of "t\<lparr>tx_stmts := Suc (tx_stmts t)\<rparr>"])
  show ?thesis
    using rollup_windows_spec [OF rollup_steps_distinct [OF assms(1)] rollup_steps_window [OF assms(1)] r] t1
    by (simp add: step_cursors_def)
qed

section \<open>What a successful maintenance does\<close>

text \<open>The steps in a row, each over what the one before it wrote.\<close>

fun steps_spec :: "string \<Rightarrow> int \<Rightarrow> rollup_step list \<Rightarrow> histories \<Rightarrow> histories \<Rightarrow> bool" where
  "steps_spec plugin now [] h h' = (h' = h)"
| "steps_spec plugin now (step # steps) h h' =
     (\<exists>h1. step_spec plugin step (step_cursors step now h) h h1 \<and> steps_spec plugin now steps h1 h')"

definition retained :: "int \<Rightarrow> histories \<Rightarrow> histories" where
  "retained now h = (\<lambda>r. case map_of history_retention r of
     None \<Rightarrow> h r | Some retention \<Rightarrow> filter (\<lambda>(ts, _). now - retention \<le> ts) (h r))"

lemma delete_each:
  assumes "distinct (map fst rs)"
    and "tx_each (\<lambda>(resolution, retention). sql_exec (delete_before plugin resolution (now - retention))) rs fault t
       = (Inr u, t')"
  shows "db_history (tx_db t') plugin = (\<lambda>r. case map_of rs r of
      None \<Rightarrow> db_history (tx_db t) plugin r
    | Some retention \<Rightarrow> filter (\<lambda>(ts, _). now - retention \<le> ts) (db_history (tx_db t) plugin r))
    \<and> only_history plugin (tx_db t) (tx_db t')"
  using assms
proof (induction rs arbitrary: t)
  case (Cons x rs)
  obtain r ret where x: "x = (r, ret)"
    by (cases x)
  define d where "d = delete_before plugin r (now - ret) (tx_db t)"
  obtain t1 where t1: "tx_db t1 = d"
    and rest: "tx_each (\<lambda>(resolution, retention). sql_exec (delete_before plugin resolution (now - retention))) rs
        fault t1 = (Inr u, t')"
    using Cons.prems(2) x
    by (auto simp: tx_bind_Inr sql_exec_Inr d_def
        intro!: that [of "t\<lparr>tx_stmts := Suc (tx_stmts t), tx_db := delete_before plugin r (now - ret) (tx_db t)\<rparr>"])
  have IH: "db_history (tx_db t') plugin = (\<lambda>r. case map_of rs r of
      None \<Rightarrow> db_history (tx_db t1) plugin r
    | Some retention \<Rightarrow> filter (\<lambda>(ts, _). now - retention \<le> ts) (db_history (tx_db t1) plugin r))
    \<and> only_history plugin (tx_db t1) (tx_db t')"
    using Cons rest by simp
  have h1: "db_history d plugin = (db_history (tx_db t) plugin)(r :=
      filter (\<lambda>(ts, _). now - ret \<le> ts) (db_history (tx_db t) plugin r))"
    by (simp add: d_def delete_before_def not_less)
  have "map_of rs r = None"
    using Cons.prems(1) x by (simp add: map_of_eq_None_iff)
  moreover have "only_history plugin (tx_db t) (tx_db t')"
    using IH t1 only_history_trans [of plugin "tx_db t" d "tx_db t'"] by (simp add: d_def)
  ultimately show ?case
    using IH x t1 h1 by (auto simp: fun_eq_iff split: option.splits)
qed simp

lemma delete_old_history_spec:
  assumes "delete_old_history plugin now fault t = (Inr u, t')"
  shows "db_history (tx_db t') plugin = retained now (db_history (tx_db t) plugin)
    \<and> only_history plugin (tx_db t) (tx_db t')"
  unfolding retained_def
  by (rule delete_each [OF _ assms [unfolded delete_old_history_def]]) (simp add: history_retention_def)

lemma steps_each_spec:
  assumes "set steps \<subseteq> set rollup_steps"
    and "tx_each (\<lambda>step. apply_rollup_step plugin step now) steps fault t = (Inr u, t')"
  shows "steps_spec plugin now steps (db_history (tx_db t) plugin) (db_history (tx_db t') plugin)
    \<and> only_history plugin (tx_db t) (tx_db t')"
  using assms
proof (induction steps arbitrary: t)
  case (Cons step steps)
  then obtain v t1 where a: "apply_rollup_step plugin step now fault t = (Inr v, t1)"
    and r: "tx_each (\<lambda>step. apply_rollup_step plugin step now) steps fault t1 = (Inr u, t')"
    by (auto simp: tx_bind_Inr)
  have st: "step \<in> set rollup_steps"
    using Cons.prems by simp
  show ?case
    using apply_rollup_step_spec [OF st a] Cons.IH [OF _ r] Cons.prems(1) only_history_trans by auto
qed simp

definition plugin_spec :: "string \<Rightarrow> int \<Rightarrow> histories \<Rightarrow> histories \<Rightarrow> bool" where
  "plugin_spec plugin now h h' \<longleftrightarrow> (\<exists>h1. steps_spec plugin now rollup_steps h h1 \<and> h' = retained now h1)"

lemma rollup_plugin_spec:
  assumes "rollup_plugin plugin now fault t = (Inr u, t')"
  shows "plugin_spec plugin now (db_history (tx_db t) plugin) (db_history (tx_db t') plugin)
    \<and> only_history plugin (tx_db t) (tx_db t')"
proof -
  obtain v t1 where a: "tx_each (\<lambda>step. apply_rollup_step plugin step now) rollup_steps fault t = (Inr v, t1)"
    and r: "delete_old_history plugin now fault t1 = (Inr u, t')"
    using assms by (auto simp: rollup_plugin_def tx_bind_Inr)
  show ?thesis
    using steps_each_spec [OF subset_refl a] delete_old_history_spec [OF r] only_history_trans
    unfolding plugin_spec_def by blast
qed

lemma each_plugin_spec:
  assumes "distinct ps"
    and "tx_each (\<lambda>plugin. rollup_plugin plugin now) ps fault t = (Inr u, t')"
  shows "(\<forall>p \<in> set ps. plugin_spec p now (db_history (tx_db t) p) (db_history (tx_db t') p))
    \<and> (\<forall>p. p \<notin> set ps \<longrightarrow> db_history (tx_db t') p = db_history (tx_db t) p)
    \<and> db_current (tx_db t') = db_current (tx_db t) \<and> db_meta (tx_db t') = db_meta (tx_db t)
    \<and> db_user_version (tx_db t') = db_user_version (tx_db t)"
  using assms
proof (induction ps arbitrary: t)
  case (Cons p ps)
  then obtain v t1 where a: "rollup_plugin p now fault t = (Inr v, t1)"
    and r: "tx_each (\<lambda>plugin. rollup_plugin plugin now) ps fault t1 = (Inr u, t')"
    by (auto simp: tx_bind_Inr)
  have IH: "(\<forall>p \<in> set ps. plugin_spec p now (db_history (tx_db t1) p) (db_history (tx_db t') p))
    \<and> (\<forall>p. p \<notin> set ps \<longrightarrow> db_history (tx_db t') p = db_history (tx_db t1) p)
    \<and> db_current (tx_db t') = db_current (tx_db t1) \<and> db_meta (tx_db t') = db_meta (tx_db t1)
    \<and> db_user_version (tx_db t') = db_user_version (tx_db t1)"
    using Cons r by simp
  have o: "only_history p (tx_db t) (tx_db t1)"
    and s: "plugin_spec p now (db_history (tx_db t) p) (db_history (tx_db t1) p)"
    using rollup_plugin_spec [OF a] by simp_all
  have "plugin_spec q now (db_history (tx_db t) q) (db_history (tx_db t') q)" if "q \<in> set (p # ps)" for q
  proof (cases "q = p")
    case True
    then show ?thesis using IH s Cons.prems(1) by simp
  next
    case False
    then have "db_history (tx_db t1) q = db_history (tx_db t) q"
      using o by (simp add: only_history_def)
    then show ?thesis using IH that False by force
  qed
  then show ?case
    using IH o by (simp add: only_history_def)
qed simp

lemma distinct_history_plugin_names: "distinct (history_plugin_names s)"
  by (simp add: history_plugin_names_def distinct_plugin_names)

lemma run_maintenance_Inr:
  assumes "run_maintenance fault now s = (Inr u, s')"
  shows "(\<forall>p \<in> set (history_plugin_names s).
        plugin_spec p now (db_history (st_db s) p) (db_history (st_db s') p))
    \<and> (\<forall>p. p \<notin> set (history_plugin_names s) \<longrightarrow> db_history (st_db s') p = db_history (st_db s) p)
    \<and> db_current (st_db s') = db_current (st_db s) \<and> db_meta (st_db s') = db_meta (st_db s)
    \<and> st_history_plugins s' = st_history_plugins s"
proof -
  obtain d where d: "run_tx (tx_each (\<lambda>plugin. rollup_plugin plugin now) (history_plugin_names s)) fault (st_db s)
      = (Inr u, d)" and s': "s' = s\<lparr>st_db := d\<rparr>"
    using assms by (auto simp: run_maintenance_def split: prod.splits)
  obtain t where t: "tx_each (\<lambda>plugin. rollup_plugin plugin now) (history_plugin_names s) fault
      \<lparr>tx_db = st_db s, tx_stmts = 1\<rparr> = (Inr (), t)" and dt: "d = tx_db t"
    using d by (auto simp: run_tx_Inr)
  show ?thesis
    using each_plugin_spec [OF distinct_history_plugin_names t] s' dt by simp
qed

lemma retained_old: "map_of history_retention r = Some ret \<Longrightarrow> (ts, raw) \<in> set (retained now h r) \<Longrightarrow> now - ret \<le> ts"
  by (simp add: retained_def)

lemma mget_filter: "mget (filter (\<lambda>(k, _). P k) m) k = (if P k then mget m k else None)"
  by (induction m) auto

text \<open>The rows of one minute are only ever deleted; those of ten minutes come from them alone.\<close>

lemma rollup_steps_nth:
  "rs_longer (rollup_steps ! 0) = resolution10m" "rs_longer (rollup_steps ! Suc 0) = resolution20m"
  "rs_longer (rollup_steps ! 2) = resolution120m" "rs_longer (rollup_steps ! 3) = resolution480m"
  by (simp_all add: rollup_steps_def)

lemma plugin_spec_steps:
  assumes "plugin_spec p now h h'"
  obtains h1 h2 h3 h4 where
    "step_spec p (rollup_steps ! 0) (step_cursors (rollup_steps ! 0) now h) h h1"
    "step_spec p (rollup_steps ! Suc 0) (step_cursors (rollup_steps ! Suc 0) now h1) h1 h2"
    "step_spec p (rollup_steps ! 2) (step_cursors (rollup_steps ! 2) now h2) h2 h3"
    "step_spec p (rollup_steps ! 3) (step_cursors (rollup_steps ! 3) now h3) h3 h4"
    "h' = retained now h4"
proof -
  have e: "rollup_steps = [rollup_steps ! 0, rollup_steps ! Suc 0, rollup_steps ! 2, rollup_steps ! 3]"
    by (simp add: rollup_steps_def)
  obtain h4 where "steps_spec p now [rollup_steps ! 0, rollup_steps ! Suc 0, rollup_steps ! 2, rollup_steps ! 3] h h4"
    and "h' = retained now h4"
    using assms unfolding plugin_spec_def by (metis e)
  then show ?thesis
    using that by auto
qed

lemma plugin_spec_1m: "plugin_spec p now h h' \<Longrightarrow> h' resolution1m = retained now h resolution1m"
  by (erule plugin_spec_steps) (simp add: step_spec_def rollup_steps_nth retained_def history_retention_def)

lemma plugin_spec_10m:
  assumes "plugin_spec p now h h'"
  shows "mget (h' resolution10m) k =
     (if k < now - 12 * 60 * minute_ms then None
      else if k \<in> step_cursors (rollup_steps ! 0) now h \<and> rolled_row p h (rollup_steps ! 0) k \<noteq> None
        then rolled_row p h (rollup_steps ! 0) k
      else mget (h resolution10m) k)"
  using assms
proof (rule plugin_spec_steps)
  fix h1 h2 h3 h4
  assume s: "step_spec p (rollup_steps ! 0) (step_cursors (rollup_steps ! 0) now h) h h1"
    and s2: "step_spec p (rollup_steps ! Suc 0) (step_cursors (rollup_steps ! Suc 0) now h1) h1 h2"
    and s3: "step_spec p (rollup_steps ! 2) (step_cursors (rollup_steps ! 2) now h2) h2 h3"
    and s4: "step_spec p (rollup_steps ! 3) (step_cursors (rollup_steps ! 3) now h3) h3 h4"
    and r: "h' = retained now h4"
  have e: "h4 resolution10m = h1 resolution10m"
    using s2 s3 s4 by (simp add: step_spec_def rollup_steps_nth)
  have "mget (h1 resolution10m) k =
      (if k \<in> step_cursors (rollup_steps ! 0) now h \<and> rolled_row p h (rollup_steps ! 0) k \<noteq> None
        then rolled_row p h (rollup_steps ! 0) k else mget (h resolution10m) k)"
    using s unfolding step_spec_def rollup_steps_nth by blast
  then show ?thesis
    using e r by (simp add: retained_def history_retention_def mget_filter not_le)
qed

lemma tx_keeps_if [intro!]: "tx_keeps P m \<Longrightarrow> tx_keeps P m' \<Longrightarrow> tx_keeps P (if b then m else m')"
  by simp

text \<open>Whatever history rows cannot break, maintenance keeps.\<close>

lemma tx_keeps_rollup_windows:
  assumes k: "\<And>p r c raw d. P d \<Longrightarrow> P (put_history p r c raw d)"
  shows "tx_keeps P (rollup_windows plugin step now c)"
proof (induction plugin step now c rule: rollup_windows.induct)
  case (1 plugin step now cursor)
  have "tx_keeps P (rollup_window plugin step cursor)"
    unfolding rollup_window_def load_history_json_def insert_plugin_history_def
    by (intro tx_keeps_bind tx_keeps_query tx_keeps_if tx_keeps_return tx_keeps_lift tx_keeps_exec k)
  then show ?case
    using 1 by (subst rollup_windows.simps) auto
qed

lemma tx_keeps_rollup_plugin:
  assumes "\<And>p r c raw d. P d \<Longrightarrow> P (put_history p r c raw d)" "\<And>p r c d. P d \<Longrightarrow> P (delete_before p r c d)"
  shows "tx_keeps P (rollup_plugin plugin now)"
  unfolding rollup_plugin_def apply_rollup_step_def latest_history_at_def delete_old_history_def case_prod_unfold
  by (intro tx_keeps_bind tx_keeps_each tx_keeps_query tx_keeps_rollup_windows tx_keeps_exec assms)

lemma run_maintenance_keeps:
  assumes "P (st_db s)" "\<And>p r c raw d. P d \<Longrightarrow> P (put_history p r c raw d)" "\<And>p r c d. P d \<Longrightarrow> P (delete_before p r c d)"
  shows "P (st_db (snd (run_maintenance fault now s)))"
  using run_tx_keeps [OF tx_keeps_each [of P "\<lambda>plugin. rollup_plugin plugin now" "history_plugin_names s"],
      of "st_db s" fault] tx_keeps_rollup_plugin [of P] assms
  by (simp add: run_maintenance_def case_prod_unfold)

lemma db_ok_delete_before: "db_ok d \<Longrightarrow> db_ok (delete_before p r c d)"
  by (auto simp: db_ok_def delete_before_def msorted_def sorted_wrt_map sorted_wrt_filter case_prod_unfold)

lemma run_maintenance_db_ok: "db_ok (st_db s) \<Longrightarrow> db_ok (st_db (snd (run_maintenance fault now s)))"
  using run_maintenance_keeps [of db_ok] db_ok_put_history db_ok_delete_before by blast

lemma run_maintenance_meta:
  "db_meta (st_db (snd (run_maintenance fault now s))) = db_meta (st_db s)"
  "db_current (st_db (snd (run_maintenance fault now s))) = db_current (st_db s)"
  by (rule run_maintenance_keeps [where P = "\<lambda>d. db_meta d = db_meta (st_db s)"];
      simp add: put_history_def delete_before_def)
    (rule run_maintenance_keeps [where P = "\<lambda>d. db_current d = db_current (st_db s)"];
      simp add: put_history_def delete_before_def)

lemma mget_latest: "latest_at m = Some l \<Longrightarrow> mget m k = Some v \<Longrightarrow> k \<le> l"
  by (auto simp: latest_at_def dest!: mget_SomeD split: if_splits intro!: Max_ge) force

lemma step_cursors_fresh:
  assumes "step \<in> set rollup_steps" "k \<in> step_cursors step now h"
  shows "mget (h (rs_longer step)) k = None"
proof (cases "latest_at (h (rs_longer step))")
  case None
  then show ?thesis by (simp add: latest_at_def split: if_splits)
next
  case (Some l)
  have w: "0 < rs_window step"
    using assms(1) by (rule rollup_steps_window)
  have "l + rs_window step \<le> k"
    using rollup_start_chained(2) [OF w, where now = now and latest = "Some l"] assms(2) Some
    by (simp add: step_cursors_def cursor_set_def)
  then show ?thesis
    using mget_latest [OF Some] w by (cases "mget (h (rs_longer step)) k") fastforce+
qed

lemma step_spec_keeps:
  assumes "step \<in> set rollup_steps" "step_spec plugin step (step_cursors step now h) h h'"
    "mget (h r) k = Some raw"
  shows "mget (h' r) k = Some raw"
  using assms step_cursors_fresh [OF assms(1), of k now h]
  by (cases "r = rs_longer step") (auto simp: step_spec_def)

lemma steps_spec_keeps:
  "steps_spec plugin now steps h h' \<Longrightarrow> set steps \<subseteq> set rollup_steps \<Longrightarrow> mget (h r) k = Some raw
    \<Longrightarrow> mget (h' r) k = Some raw"
  by (induction plugin now steps h h' rule: steps_spec.induct) (auto dest: step_spec_keeps)

lemma plugin_spec_keeps:
  assumes "plugin_spec plugin now h h'" "map_of history_retention r = Some ret" "now - ret \<le> k"
    "mget (h r) k = Some raw"
  shows "mget (h' r) k = Some raw"
  using assms steps_spec_keeps [of plugin now rollup_steps h]
  by (auto simp: plugin_spec_def retained_def mget_filter)

text \<open>A store with nine one-minute rows, used to evaluate maintenance.\<close>

definition sample_store :: store where
  "sample_store = \<lparr>st_db = empty_db\<lparr>db_history := (\<lambda>_ _. [])(PluginIRQ := (\<lambda>_. [])(resolution1m :=
       map (\<lambda>i. (i * minute_ms, JText (JInt i))) [2, 3, 4, 5, 6, 7, 8, 9, 10]))\<rparr>,
     st_history_plugins = {PluginIRQ}\<rparr>"

lemma sample_maintained: "fst (run_maintenance (\<lambda>_. None) (10 * minute_ms) sample_store) = Inr ()"
  by code_simp

lemma sample_run:
  "run_maintenance (\<lambda>_. None) (10 * minute_ms) sample_store
     = (Inr (), snd (run_maintenance (\<lambda>_. None) (10 * minute_ms) sample_store))"
  by (metis prod.collapse sample_maintained)

lemma sample_plugins: "PluginIRQ \<in> set (history_plugin_names sample_store)"
  by (simp add: history_plugin_names_def sample_store_def plugin_names_def)

section \<open>Properties\<close>

text \<open>
  The windows of a rollup step tile time from the last rollup on.  However late maintenance
  runs, every shorter-resolution timestamp after the last rollup that retention has not dropped,
  and at least one window before now, falls into exactly one of the windows that the loop visits.
\<close>

theorem rollup_windows_tile:
  assumes "step \<in> set rollup_steps" "l < ts" "now - retention_of (rs_shorter step) < ts"
    "ts + rs_window step \<le> now"
  shows "\<exists>!c. c \<in> cursor_set step now (rollup_start step now (Some l))
    \<and> c - rs_window step < ts \<and> ts \<le> c"
proof -
  let ?w = "rs_window step"
  let ?s = "rollup_start step now (Some l)"
  have w: "0 < ?w"
    using assms(1) by (rule rollup_steps_window)
  note st = rollup_start_chained [OF w, of now "Some l", simplified]
  define k where "k = (ts - l + ?w - 1) div ?w"
  define c where "c = l + k * ?w"
  have dm: "k * ?w + (ts - l + ?w - 1) mod ?w = ts - l + ?w - 1"
    unfolding k_def by (rule div_mult_mod_eq)
  have mr: "0 \<le> (ts - l + ?w - 1) mod ?w" "(ts - l + ?w - 1) mod ?w < ?w"
    using w by auto
  have c: "ts \<le> c" "c < ts + ?w"
    using dm mr by (simp_all add: c_def)
  have dl: "?w dvd c - l"
    by (simp add: c_def)
  have "1 \<le> k"
  proof (rule ccontr)
    assume "\<not> 1 \<le> k"
    then have "k * ?w \<le> 0"
      using w by (simp add: mult_nonpos_nonneg)
    then show False
      using dm mr assms(2) by linarith
  qed
  then have cw: "l + ?w \<le> c"
    using w mult_right_mono [of 1 k ?w] by (simp add: c_def)
  have dvd_base: "?w dvd c - (l + ?w)"
    using dl by (metis diff_diff_eq dvd_diff dvd_refl)
  have "?s \<le> c"
    using st(4) [of c] cw dvd_base c(1) assms(3) by simp
  moreover have "?w dvd c - ?s"
    using dvd_diff [OF dvd_base st(1)] by simp
  ultimately have mem: "c \<in> cursor_set step now ?s"
    using c(2) assms(4) by (simp add: cursor_set_def)
  have uniq: "c' = c" if c': "c' \<in> cursor_set step now ?s" "c' - ?w < ts" "ts \<le> c'" for c'
  proof -
    have "?w dvd c' - c"
      using c'(1) \<open>?w dvd c - ?s\<close> dvd_diff [of ?w "c' - ?s" "c - ?s"] by (simp add: cursor_set_def)
    moreover have "\<bar>c' - c\<bar> < ?w"
      using c'(2,3) c by linarith
    ultimately show ?thesis
      using dvd_imp_le_int [of "c' - c" ?w] w by force
  qed
  show ?thesis
  proof (rule ex1I [of _ c])
    show "c \<in> cursor_set step now ?s \<and> c - ?w < ts \<and> ts \<le> c"
      using mem c by simp
  qed (use uniq in blast)
qed

theorem rollup_windows_tile_witness:
  "\<exists>!c. c \<in> cursor_set (rollup_steps ! 0) (100 * minute_ms) (rollup_start (rollup_steps ! 0) (100 * minute_ms) (Some 0))
    \<and> c - rs_window (rollup_steps ! 0) < 55 * minute_ms \<and> 55 * minute_ms \<le> c"
  by (rule rollup_windows_tile)
    (simp_all add: rollup_steps_def minute_ms_def retention_of_def history_retention_def)

text \<open>
  The first window of a step ends at the least time that is a whole number of windows after
  the last rollup, after that rollup, and later than what retention has already dropped, so that
  a long outage cannot pin the cursor in the past.
\<close>

theorem rollup_start_least:
  assumes "step \<in> set rollup_steps"
  shows "l < rollup_start step now (Some l)
    \<and> now - retention_of (rs_shorter step) < rollup_start step now (Some l)
    \<and> rs_window step dvd rollup_start step now (Some l) - l
    \<and> (\<forall>c. l < c \<and> now - retention_of (rs_shorter step) < c \<and> rs_window step dvd c - l
      \<longrightarrow> rollup_start step now (Some l) \<le> c)"
proof (intro conjI)
  let ?w = "rs_window step"
  have w: "0 < ?w"
    using assms by (rule rollup_steps_window)
  note st = rollup_start_chained [OF w, where now = now and latest = "Some l", simplified]
  show "l < rollup_start step now (Some l)"
    using st(2) w by simp
  show "now - retention_of (rs_shorter step) < rollup_start step now (Some l)"
    by (rule st(3))
  show "?w dvd rollup_start step now (Some l) - l"
    using dvd_add [OF st(1), of ?w] by (simp add: algebra_simps)
  have base: "l + ?w \<le> c \<and> ?w dvd c - (l + ?w)" if "l < c" "?w dvd c - l" for c
    using that zdvd_imp_le [of ?w "c - l"] dvd_diff [of ?w "c - l" ?w] by (simp add: algebra_simps)
  then show "\<forall>c. l < c \<and> now - retention_of (rs_shorter step) < c \<and> ?w dvd c - l
      \<longrightarrow> rollup_start step now (Some l) \<le> c"
    using st(4) by blast
qed

theorem rollup_start_least_witness:
  "(0::int) < rollup_start (rollup_steps ! 0) (205 * minute_ms) (Some 0)
    \<and> rollup_start (rollup_steps ! 0) (205 * minute_ms) (Some 0) = 150 * minute_ms"
  using rollup_start_least [of "rollup_steps ! 0" 0 "205 * minute_ms"]
  by (simp add: rollup_steps_def rollup_start_def retention_of_def history_retention_def minute_ms_def quot_def)

text \<open>
  C2: A maintenance run that returns no error implements its specification: for every plugin with
  history, the four steps one after the other, each over the windows its cursor visits and adding
  exactly the aggregates of the windows with enough rows, then retention; everything else in the
  store is as it was.
\<close>

theorem run_maintenance_refines:
  assumes "run_maintenance fault now s = (Inr (), s')"
  shows "(\<forall>p. if p \<in> set (history_plugin_names s)
        then plugin_spec p now (db_history (st_db s) p) (db_history (st_db s') p)
        else db_history (st_db s') p = db_history (st_db s) p)
    \<and> db_current (st_db s') = db_current (st_db s) \<and> db_meta (st_db s') = db_meta (st_db s)
    \<and> st_history_plugins s' = st_history_plugins s"
  using run_maintenance_Inr [OF assms] by simp

theorem run_maintenance_refines_witness:
  "plugin_spec PluginIRQ (10 * minute_ms) (db_history (st_db sample_store) PluginIRQ)
     (db_history (st_db (snd (run_maintenance (\<lambda>_. None) (10 * minute_ms) sample_store))) PluginIRQ)"
  using run_maintenance_refines [OF sample_run] sample_plugins by simp

text \<open>
  C6: After a successful maintenance run the ten-minute history of a plugin is, row by row: nothing
  older than twelve hours; the aggregate of the window's one-minute rows where the window was
  visited and has at least nine of them; and otherwise what was there before.
\<close>

theorem run_maintenance_10m:
  assumes "run_maintenance fault now s = (Inr (), s')" "p \<in> set (history_plugin_names s)"
  shows "mget (db_history (st_db s') p resolution10m) k =
     (if k < now - 12 * 60 * minute_ms then None
      else case (if k \<in> step_cursors (rollup_steps ! 0) now (db_history (st_db s) p)
                 then rolled_row p (db_history (st_db s) p) (rollup_steps ! 0) k else None) of
        Some raw \<Rightarrow> Some raw
      | None \<Rightarrow> mget (db_history (st_db s) p resolution10m) k)"
  using run_maintenance_Inr [OF assms(1)] plugin_spec_10m [of p now _ _ k] assms(2)
  by (auto split: option.splits)

theorem run_maintenance_10m_witness:
  "mget (db_history (st_db (snd (run_maintenance (\<lambda>_. None) (10 * minute_ms) sample_store))) PluginIRQ resolution10m)
     (10 * minute_ms) = Some (JText (JInt 10))"
proof -
  have "10 * minute_ms \<in> step_cursors (rollup_steps ! 0) (10 * minute_ms) (db_history (st_db sample_store) PluginIRQ)"
    by (simp add: step_cursors_def cursor_set_def rollup_steps_def rollup_start_def retention_of_def
        history_retention_def sample_store_def empty_db_def latest_at_def minute_ms_def)
  moreover have "rolled_row PluginIRQ (db_history (st_db sample_store) PluginIRQ) (rollup_steps ! 0) (10 * minute_ms)
      = Some (JText (JInt 10))"
    by (simp add: rolled_row_def window_rows_def rows_between_def rollup_steps_def sample_store_def
        minute_ms_def aggregate_plugin_history_json_def)
  moreover have "\<not> 10 * minute_ms < 10 * minute_ms - 12 * 60 * minute_ms"
    by (simp add: minute_ms_def)
  ultimately show ?thesis
    using run_maintenance_10m [OF sample_run sample_plugins, of "10 * minute_ms"] by simp
qed





end
