(* ===== verification/Snapshots.thy ===== *)
theory Snapshots
  imports Store
begin

text \<open>
  What \<open>WriteSnapshot\<close> and the reads of \<open>internal/store/store.go\<close> promise each other: the rows a
  successful snapshot leaves, that it leaves nothing else, when it succeeds, and that the reads
  find what was written.
\<close>

section \<open>The summary's round trip\<close>

lemma lower_summary: "fold_keys (enc_summary_fields x) = enc_summary_fields x"
  unfolding enc_summary_fields_def by (simp add: enc_shape)

definition int64_ok :: "int \<Rightarrow> bool" where
  "int64_ok i = (- (2 ^ 63) \<le> i \<and> i < 2 ^ 63)"

definition summary_clean :: "summary \<Rightarrow> bool" where
  "summary_clean x = (list_all clean [sm_cpu_percent x, sm_memory_total_gb x, sm_memory_used_gb x,
      sm_memory_percent x, sm_disk_percent x, sm_gpu_percent x]
    \<and> length (sm_load_average x) = 3 \<and> list_all clean (sm_load_average x)
    \<and> opt_sorted (sm_temperatures x) \<and> opt_all fin (sm_temperatures x)
    \<and> int64_ok (sm_cores x) \<and> int64_ok (sm_threads x))"

lemma field_rt_int [simp]:
  "int64_ok i \<Longrightarrow> field_val (if i = 0 then None else Some (JInt i)) 0 (dec_int 64) = Inr i"
  by (auto simp: field_val_def dec_int_def int64_ok_def)

lemma dec_enc_summary:
  assumes "summary_clean x"
  shows "dec_summary (enc_summary x) = Inr (x\<lparr>sm_temperatures := nonempty_opt (sm_temperatures x)\<rparr>)"
  using assms unfolding dec_summary_def dec_struct_def enc_summary_def json.case lower_summary
  by (simp add: dec_summary_body_def enc_summary_fields_def jfield_val jlast_simps
      summary_clean_def zero_summary_def split del: if_split)

section \<open>Effect of a snapshot\<close>

text \<open>The row a snapshot stores for a plugin: SMART devices are written separately.\<close>

definition stored_payload :: "combined_data \<Rightarrow> string \<Rightarrow> jtext option" where
  "stored_payload data plugin =
     (if plugin = PluginSmart then None
      else map_option (\<lambda>p. JText (enc_payload p)) (map_of (snapshot_plugin_payloads data) plugin))"

definition rows_written ::
  "(string \<Rightarrow> bool) \<Rightarrow> int \<Rightarrow> combined_data \<Rightarrow> string set \<Rightarrow> db \<Rightarrow> db \<Rightarrow> bool" where
  "rows_written enabled ts data ps d d' \<longleftrightarrow>
     (\<forall>p. case (if p \<in> ps then stored_payload data p else None) of
        None \<Rightarrow> db_current d' p = db_current d p \<and> db_history d' p = db_history d p
      | Some raw \<Rightarrow> db_current d' p = Some (ts, raw)
          \<and> db_history d' p = (if enabled p
             then (db_history d p)(resolution1m := mput ts raw (db_history d p resolution1m))
             else db_history d p))"

text \<open>The metadata a snapshot stores.\<close>

definition snapshot_meta :: "int \<Rightarrow> combined_data \<Rightarrow> (string \<rightharpoonup> meta_value) \<Rightarrow> (string \<rightharpoonup> meta_value)" where
  "snapshot_meta ts data m =
     ((case cd_details data of
         None \<Rightarrow> m(''last_info_json'' \<mapsto> MJson (JText (enc_info (cd_info data))))
       | Some dt \<Rightarrow> m(''last_info_json'' \<mapsto> MJson (JText (enc_info (cd_info data))),
                    ''last_details_json'' \<mapsto> MJson (JText (enc_details dt))))
      (''last_system_summary_json'' \<mapsto> MJson (JText (enc_summary (new_summary (Some data)))),
       ''last_persisted_at'' \<mapsto> MStr (format_int ts)))"

definition snapshot_spec :: "(string \<Rightarrow> bool) \<Rightarrow> int \<Rightarrow> combined_data \<Rightarrow> db \<Rightarrow> db \<Rightarrow> bool" where
  "snapshot_spec enabled ts data d d' \<longleftrightarrow>
     rows_written enabled ts data (set plugin_names) d d'
     \<and> db_meta d' = snapshot_meta ts data (db_meta d) \<and> db_user_version d' = db_user_version d"

lemma marshal_Inr: "marshal j = Inr raw \<longleftrightarrow> jfinite j \<and> raw = JText j"
  by (auto simp: marshal_def)

lemma write_plugin_snapshot_Inr:
  assumes "write_plugin_snapshot plugin ts payload enabled fault t = (Inr u, t')"
  shows "db_current (tx_db t') = (db_current (tx_db t))(plugin \<mapsto> (ts, JText (enc_payload payload)))
    \<and> db_history (tx_db t') = (if enabled
        then (db_history (tx_db t))(plugin := (db_history (tx_db t) plugin)
          (resolution1m := mput ts (JText (enc_payload payload)) (db_history (tx_db t) plugin resolution1m)))
        else db_history (tx_db t))
    \<and> db_meta (tx_db t') = db_meta (tx_db t) \<and> db_user_version (tx_db t') = db_user_version (tx_db t)"
  using assms
  by (auto simp: write_plugin_snapshot_def tx_bind_Inr tx_lift_Inr marshal_Inr replace_plugin_current_def
      insert_plugin_history_def put_history_def sql_exec_Inr split: if_splits)

lemma rows_written_each:
  assumes "distinct ps"
    and "tx_each (\<lambda>plugin. if plugin = PluginSmart then tx_return ()
         else case map_of (snapshot_plugin_payloads data) plugin of
           None \<Rightarrow> tx_return ()
         | Some payload \<Rightarrow> write_plugin_snapshot plugin ts payload (enabled plugin)) ps fault t = (Inr u, t')"
  shows "rows_written enabled ts data (set ps) (tx_db t) (tx_db t')
    \<and> db_meta (tx_db t') = db_meta (tx_db t) \<and> db_user_version (tx_db t') = db_user_version (tx_db t)"
  using assms
proof (induction ps arbitrary: t)
  case Nil
  then show ?case by (simp add: rows_written_def)
next
  case (Cons p ps)
  let ?w = "\<lambda>plugin. if plugin = PluginSmart then tx_return ()
         else case map_of (snapshot_plugin_payloads data) plugin of
           None \<Rightarrow> tx_return ()
         | Some payload \<Rightarrow> write_plugin_snapshot plugin ts payload (enabled plugin)"
  obtain v t1 where a: "?w p fault t = (Inr v, t1)" and r: "tx_each ?w ps fault t1 = (Inr u, t')"
    using Cons.prems(2) by (auto simp: tx_bind_Inr)
  have IH: "rows_written enabled ts data (set ps) (tx_db t1) (tx_db t')
    \<and> db_meta (tx_db t') = db_meta (tx_db t1) \<and> db_user_version (tx_db t') = db_user_version (tx_db t1)"
    using Cons.IH [OF _ r] Cons.prems(1) by simp
  have one: "rows_written enabled ts data {p} (tx_db t) (tx_db t1)
    \<and> db_meta (tx_db t1) = db_meta (tx_db t) \<and> db_user_version (tx_db t1) = db_user_version (tx_db t)"
  proof (cases "stored_payload data p")
    case None
    then have "t1 = t"
      using a by (auto simp: stored_payload_def split: if_splits option.splits)
    then show ?thesis using None by (simp add: rows_written_def)
  next
    case (Some raw)
    then obtain pl where pl: "raw = JText (enc_payload pl)"
        "write_plugin_snapshot p ts pl (enabled p) fault t = (Inr v, t1)"
      using a by (auto simp: stored_payload_def split: if_splits option.splits)
    show ?thesis
      using write_plugin_snapshot_Inr [OF pl(2)] Some pl(1)
      by (auto simp: rows_written_def split: if_splits option.splits)
  qed
  have "rows_written enabled ts data (set (p # ps)) (tx_db t) (tx_db t')"
    unfolding rows_written_def
  proof
    fix q
    have o: "case (if q \<in> {p} then stored_payload data q else None) of
        None \<Rightarrow> db_current (tx_db t1) q = db_current (tx_db t) q \<and> db_history (tx_db t1) q = db_history (tx_db t) q
      | Some raw \<Rightarrow> db_current (tx_db t1) q = Some (ts, raw)
          \<and> db_history (tx_db t1) q = (if enabled q
             then (db_history (tx_db t) q)(resolution1m := mput ts raw (db_history (tx_db t) q resolution1m))
             else db_history (tx_db t) q)"
      using one unfolding rows_written_def by blast
    have i: "case (if q \<in> set ps then stored_payload data q else None) of
        None \<Rightarrow> db_current (tx_db t') q = db_current (tx_db t1) q \<and> db_history (tx_db t') q = db_history (tx_db t1) q
      | Some raw \<Rightarrow> db_current (tx_db t') q = Some (ts, raw)
          \<and> db_history (tx_db t') q = (if enabled q
             then (db_history (tx_db t1) q)(resolution1m := mput ts raw (db_history (tx_db t1) q resolution1m))
             else db_history (tx_db t1) q)"
      using IH unfolding rows_written_def by blast
    show "case (if q \<in> set (p # ps) then stored_payload data q else None) of
        None \<Rightarrow> db_current (tx_db t') q = db_current (tx_db t) q \<and> db_history (tx_db t') q = db_history (tx_db t) q
      | Some raw \<Rightarrow> db_current (tx_db t') q = Some (ts, raw)
          \<and> db_history (tx_db t') q = (if enabled q
             then (db_history (tx_db t) q)(resolution1m := mput ts raw (db_history (tx_db t) q resolution1m))
             else db_history (tx_db t) q)"
    proof (cases "q = p")
      case True
      then have "q \<notin> set ps" using Cons.prems(1) by simp
      then show ?thesis using o i True by (simp split: option.splits)
    next
      case False
      then show ?thesis using o i by (auto split: option.splits if_splits)
    qed
  qed
  then show ?case using one IH by simp
qed

lemma write_snapshot_body_Inr:
  assumes "write_snapshot_body enabled ts data fault t = (Inr u, t')"
  shows "snapshot_spec enabled ts data (tx_db t) (tx_db t')"
proof -
  obtain v t1 where rows: "tx_each (\<lambda>plugin. if plugin = PluginSmart then tx_return ()
         else case map_of (snapshot_plugin_payloads data) plugin of
           None \<Rightarrow> tx_return ()
         | Some payload \<Rightarrow> write_plugin_snapshot plugin ts payload (enabled plugin)) plugin_names fault t = (Inr v, t1)"
    and meta: "db_meta (tx_db t') = snapshot_meta ts data (db_meta (tx_db t1))"
      "db_current (tx_db t') = db_current (tx_db t1)" "db_history (tx_db t') = db_history (tx_db t1)"
      "db_user_version (tx_db t') = db_user_version (tx_db t1)"
    using assms
    by (cases "cd_details data")
      (auto simp: write_snapshot_body_def write_snapshot_plugin_rows_def tx_bind_Inr tx_lift_Inr marshal_Inr
        upsert_meta_def sql_exec_Inr snapshot_meta_def)
  have "rows_written enabled ts data (set plugin_names) (tx_db t) (tx_db t')
      = rows_written enabled ts data (set plugin_names) (tx_db t) (tx_db t1)"
    by (simp only: rows_written_def meta(2,3))
  then show ?thesis
    using rows_written_each [OF distinct_plugin_names rows] meta(1,4) by (simp only: snapshot_spec_def)
qed

lemma write_snapshot_Inr:
  assumes "write_snapshot fault ts data s = (Inr u, s')"
  obtains d where "data = Some d" "snapshot_spec (history_enabled s) ts d (st_db s) (st_db s')"
    "st_history_plugins s' = st_history_plugins s"
proof -
  obtain d db' where d: "data = Some d"
    and run: "run_tx (write_snapshot_body (history_enabled s) ts d) fault (st_db s) = (Inr u, db')"
    and s': "s' = s\<lparr>st_db := db'\<rparr>"
    using assms by (auto simp: write_snapshot_def split: option.splits prod.splits)
  obtain t where t: "write_snapshot_body (history_enabled s) ts d fault \<lparr>tx_db = st_db s, tx_stmts = 1\<rparr> = (Inr (), t)"
    and db': "db' = tx_db t"
    using run by (auto simp: run_tx_Inr)
  show ?thesis
    using that [OF d] write_snapshot_body_Inr [OF t] s' db' by simp
qed

lemma tx_keeps_write_snapshot: "tx_keeps db_ok (write_snapshot_body enabled ts data)"
  unfolding write_snapshot_body_def write_snapshot_plugin_rows_def write_plugin_snapshot_def
  by (auto split: option.splits)

section \<open>When a snapshot succeeds\<close>

text \<open>A body that no statement failure stops returns a result.\<close>

definition tx_ok :: "'a txm \<Rightarrow> bool" where
  "tx_ok m = (\<forall>t. \<exists>a t'. m (\<lambda>_. None) t = (Inr a, t'))"

lemma tx_ok_return [intro!]: "tx_ok (tx_return a)"
  by (simp add: tx_ok_def)

lemma tx_ok_exec [intro!]: "tx_ok (sql_exec f)"
  by (simp add: tx_ok_def sql_exec_Inr)

lemma tx_ok_lift: "tx_ok (tx_lift r) \<longleftrightarrow> (\<exists>a. r = Inr a)"
  by (cases r) (auto simp: tx_ok_def tx_lift_def)

lemma tx_ok_marshal [intro!]: "jfinite j \<Longrightarrow> tx_ok (tx_lift (marshal j))"
  by (simp add: tx_ok_lift marshal_def)

lemma tx_ok_bind [intro!]: "tx_ok m \<Longrightarrow> (\<And>a. tx_ok (f a)) \<Longrightarrow> tx_ok (tx_bind m f)"
  unfolding tx_ok_def by (metis tx_bind_Inr)

lemma tx_ok_each [intro!]: "(\<And>x. x \<in> set xs \<Longrightarrow> tx_ok (f x)) \<Longrightarrow> tx_ok (tx_each f xs)"
  by (induction xs) auto

lemma run_tx_ok: "tx_ok body \<Longrightarrow> \<exists>d'. run_tx body (\<lambda>_. None) d = (Inr (), d')"
  unfolding tx_ok_def by (simp add: run_tx_Inr)

lemma tx_each_Inr:
  "tx_each f xs fault t = (Inr u, t') \<Longrightarrow> x \<in> set xs \<Longrightarrow> \<exists>v t1 t2. f x fault t1 = (Inr v, t2)"
  by (induction xs arbitrary: t) (auto simp: tx_bind_Inr)

text \<open>Every payload and every piece of metadata is free of NaN and infinities.\<close>

definition snapshot_finite :: "combined_data \<Rightarrow> bool" where
  "snapshot_finite data = (list_all (\<lambda>(_, p). jfinite (enc_payload p)) (snapshot_plugin_payloads data)
    \<and> jfinite (enc_info (cd_info data))
    \<and> (case cd_details data of None \<Rightarrow> True | Some dt \<Rightarrow> jfinite (enc_details dt))
    \<and> jfinite (enc_summary (new_summary (Some data))))"

lemma payload_names: "map fst (snapshot_plugin_payloads data) = filter (\<lambda>p. p \<noteq> PluginSmart) plugin_names"
  by (simp add: snapshot_plugin_payloads_def plugin_names_def Let_def)

lemma payload_of: "p \<in> set plugin_names \<Longrightarrow> p \<noteq> PluginSmart \<Longrightarrow> \<exists>pl. map_of (snapshot_plugin_payloads data) p = Some pl"
proof -
  assume p: "p \<in> set plugin_names" "p \<noteq> PluginSmart"
  have "p \<in> set (map fst (snapshot_plugin_payloads data))"
    unfolding payload_names using p by simp
  then show ?thesis
    by (metis image_set map_of_eq_None_iff not_Some_eq)
qed

lemma payload_mem:
  "(p, pl) \<in> set (snapshot_plugin_payloads data) \<Longrightarrow>
    p \<in> set plugin_names \<and> p \<noteq> PluginSmart \<and> map_of (snapshot_plugin_payloads data) p = Some pl"
proof -
  assume m: "(p, pl) \<in> set (snapshot_plugin_payloads data)"
  have d: "distinct (map fst (snapshot_plugin_payloads data))"
    unfolding payload_names by (simp add: distinct_plugin_names)
  have "p \<in> set (map fst (snapshot_plugin_payloads data))"
    using m by force
  then show ?thesis
    using map_of_is_SomeI [OF d m] unfolding payload_names by simp
qed

lemma write_plugin_snapshot_ok:
  "jfinite (enc_payload p) \<Longrightarrow> tx_ok (write_plugin_snapshot plugin ts p h)"
  unfolding write_plugin_snapshot_def replace_plugin_current_def insert_plugin_history_def by auto

lemma write_snapshot_body_ok:
  assumes "snapshot_finite data"
  shows "tx_ok (write_snapshot_body enabled ts data)"
proof -
  have p: "tx_ok (write_plugin_snapshot plugin ts p h)" if "map_of (snapshot_plugin_payloads data) plugin = Some p" for plugin p h
    using assms map_of_SomeD [OF that] write_plugin_snapshot_ok
    by (auto simp: snapshot_finite_def list_all_iff)
  show ?thesis
    using assms unfolding write_snapshot_body_def write_snapshot_plugin_rows_def upsert_meta_def snapshot_finite_def
    by (auto intro!: p split: option.splits)
qed

lemma write_snapshot_ok:
  "snapshot_finite data \<Longrightarrow> \<exists>s'. write_snapshot (\<lambda>_. None) ts (Some data) s = (Inr (), s')"
  using run_tx_ok [OF write_snapshot_body_ok, of data "history_enabled s" ts "st_db s"]
  by (auto simp: write_snapshot_def)

lemma write_snapshot_finite:
  assumes "write_snapshot fault ts (Some data) s = (Inr u, s')"
  shows "snapshot_finite data"
proof -
  obtain t where t: "write_snapshot_body (history_enabled s) ts data fault \<lparr>tx_db = st_db s, tx_stmts = 1\<rparr> = (Inr (), t)"
    using assms by (auto simp: write_snapshot_def run_tx_Inr split: prod.splits)
  let ?w = "\<lambda>plugin. if plugin = PluginSmart then tx_return ()
         else case map_of (snapshot_plugin_payloads data) plugin of
           None \<Rightarrow> tx_return ()
         | Some payload \<Rightarrow> write_plugin_snapshot plugin ts payload (history_enabled s plugin)"
  obtain v t1 t0 where rows: "tx_each ?w plugin_names fault t0 = (Inr v, t1)"
    and rest: "jfinite (enc_info (cd_info data))" "jfinite (enc_summary (new_summary (Some data)))"
      "case cd_details data of None \<Rightarrow> True | Some dt \<Rightarrow> jfinite (enc_details dt)"
    using t by (cases "cd_details data")
      (auto simp: write_snapshot_body_def write_snapshot_plugin_rows_def tx_bind_Inr tx_lift_Inr marshal_Inr)
  have "jfinite (enc_payload pl)" if "(p, pl) \<in> set (snapshot_plugin_payloads data)" for p pl
    using tx_each_Inr [OF rows, of p] payload_mem [OF that]
    by (auto simp: write_plugin_snapshot_def tx_bind_Inr tx_lift_Inr marshal_Inr)
  then show ?thesis
    using rest by (auto simp: snapshot_finite_def list_all_iff)
qed

section \<open>History reads\<close>

lemma msorted_filter: "msorted m \<Longrightarrow> msorted (filter P m)"
  by (simp add: msorted_def sorted_wrt_map sorted_wrt_filter)

lemma msorted_take: "msorted m \<Longrightarrow> msorted (take n m)"
  by (simp add: msorted_def take_map [symmetric] sorted_wrt_take)

lemma msorted_after_take:
  assumes "msorted m" "p \<in> set m" "p \<notin> set (take n m)" "q \<in> set (take n m)"
  shows "fst q < fst p" "length (take n m) = n"
proof -
  have m: "m = take n m @ drop n m"
    by simp
  have "p \<in> set (drop n m)"
    using assms(2,3) m by (metis Un_iff set_append)
  moreover have "sorted_wrt (<) (map fst (take n m) @ map fst (drop n m))"
    using assms(1) unfolding msorted_def by (metis map_append m)
  ultimately show "fst q < fst p"
    using assms(4) by (auto simp: sorted_wrt_append)
  show "length (take n m) = n"
    using \<open>p \<in> set (drop n m)\<close> by (cases "n \<le> length m") auto
qed

section \<open>Properties\<close>

definition sample_snapshot :: combined_data where
  "sample_snapshot = zero_combined_data\<lparr>cd_stats := zero_stats\<lparr>s_cpu := Num 40, s_max_cpu := Num 70\<rparr>\<rparr>"

definition empty_store :: store where
  "empty_store = \<lparr>st_db = empty_db, st_history_plugins = set default_history_plugin_names\<rparr>"

lemma sample_snapshot_finite: "snapshot_finite sample_snapshot"
  by code_simp

lemma sample_snapshot_run:
  obtains s' where "write_snapshot (\<lambda>_. None) 60000 (Some sample_snapshot) empty_store = (Inr (), s')"
  using write_snapshot_ok [OF sample_snapshot_finite] by blast

lemma write_snapshot_db_ok: "db_ok (st_db s) \<Longrightarrow> db_ok (st_db (snd (write_snapshot fault ts data s)))"
  using run_tx_keeps [OF tx_keeps_write_snapshot, of "st_db s"]
  by (simp add: write_snapshot_def case_prod_unfold split: option.splits)

lemma write_smart_devices_db_ok:
  "db_ok (st_db s) \<Longrightarrow> db_ok (st_db (snd (write_smart_devices fault ts items s)))"
proof -
  let ?b = "tx_bind (tx_lift (marshal (enc_arr enc_smart_device_record (smart_device_records items)))) (\<lambda>raw.
         tx_bind (replace_plugin_current PluginSmart ts raw) (\<lambda>_.
         tx_bind (if history_enabled s PluginSmart
                  then insert_plugin_history PluginSmart resolution1m ts raw
                  else tx_return ()) (\<lambda>_.
         upsert_meta ''last_smart_refresh_at'' (MStr (format_int ts)))))"
  assume "db_ok (st_db s)"
  moreover have "tx_keeps db_ok ?b"
    by (intro tx_keeps_bind tx_keeps_lift tx_keeps_replace tx_keeps_upsert) auto
  ultimately show ?thesis
    using run_tx_keeps [of db_ok ?b "st_db s" fault] by (simp add: write_smart_devices_def case_prod_unfold)
qed

text \<open>
  C1: A snapshot is all or nothing.  A write that returns no error implements its specification (a
  current row for every plugin but SMART, a one-minute history row for exactly the plugins with
  history, the four pieces of metadata, nothing else); a write that returns an error leaves the
  store as it was; either way the histories stay keyed and ordered by their time.
\<close>

theorem write_snapshot_refines:
  assumes "write_snapshot fault ts data s = (r, s')"
  shows "(case r of Inl e \<Rightarrow> s' = s
      | Inr _ \<Rightarrow> data \<noteq> None \<and> snapshot_spec (history_enabled s) ts (the data) (st_db s) (st_db s')
          \<and> st_history_plugins s' = st_history_plugins s)
    \<and> (db_ok (st_db s) \<longrightarrow> db_ok (st_db s'))"
proof (intro conjI impI)
  show "case r of Inl e \<Rightarrow> s' = s
      | Inr _ \<Rightarrow> data \<noteq> None \<and> snapshot_spec (history_enabled s) ts (the data) (st_db s) (st_db s')
          \<and> st_history_plugins s' = st_history_plugins s"
  proof (cases r)
    case (Inl e)
    then show ?thesis
      using assms by (auto simp: write_snapshot_def dest: run_tx_Inl split: option.splits prod.splits)
  next
    case (Inr u)
    show ?thesis
      by (rule write_snapshot_Inr [OF assms [unfolded Inr]]) (use Inr in simp)
  qed
  show "db_ok (st_db s')" if "db_ok (st_db s)"
    using assms that run_tx_keeps [OF tx_keeps_write_snapshot that]
    by (auto simp: write_snapshot_def split: option.splits prod.splits) (metis snd_conv)
qed

theorem write_snapshot_refines_witness:
  "\<exists>s' :: store. snapshot_spec (history_enabled empty_store) 60000 sample_snapshot (st_db empty_store) (st_db s')"
proof (rule sample_snapshot_run)
  fix s'
  assume "write_snapshot (\<lambda>_. None) 60000 (Some sample_snapshot) empty_store = (Inr (), s')"
  from write_snapshot_refines [OF this]
  show ?thesis by (auto intro!: exI [of _ s'])
qed

text \<open>
  With a database that does not fail, a snapshot is stored if and only if none of its payloads
  and none of its metadata holds a NaN or an infinity, which JSON cannot express.
\<close>

theorem write_snapshot_succeeds:
  "fst (write_snapshot (\<lambda>_. None) ts (Some data) s) = Inr () \<longleftrightarrow> snapshot_finite data"
  using write_snapshot_ok [of data ts s] write_snapshot_finite [of "\<lambda>_. None" ts data s]
  by (metis fst_conv prod.collapse)

lemma write_smart_devices_keeps:
  "db_meta (st_db (snd (write_smart_devices fault ts items s))) ''last_persisted_at'' = db_meta (st_db s) ''last_persisted_at''"
  "p \<noteq> PluginSmart \<Longrightarrow> db_current (st_db (snd (write_smart_devices fault ts items s))) p = db_current (st_db s) p"
proof -
  define b where "b = tx_bind (tx_lift (marshal (enc_arr enc_smart_device_record (smart_device_records items)))) (\<lambda>raw.
         tx_bind (replace_plugin_current PluginSmart ts raw) (\<lambda>_.
         tx_bind (if history_enabled s PluginSmart
                  then insert_plugin_history PluginSmart resolution1m ts raw
                  else tx_return ()) (\<lambda>_.
         upsert_meta ''last_smart_refresh_at'' (MStr (format_int ts)))))"
  have w: "st_db (snd (write_smart_devices fault ts items s)) = snd (run_tx b fault (st_db s))"
    by (simp add: write_smart_devices_def b_def case_prod_unfold)
  have "tx_keeps (\<lambda>d. db_meta d ''last_persisted_at'' = db_meta (st_db s) ''last_persisted_at'') b"
    unfolding b_def replace_plugin_current_def insert_plugin_history_def upsert_meta_def
    by (auto intro!: tx_keeps_bind tx_keeps_lift tx_keeps_exec simp: put_history_def)
  from run_tx_keeps [OF this] show "db_meta (st_db (snd (write_smart_devices fault ts items s))) ''last_persisted_at''
      = db_meta (st_db s) ''last_persisted_at''"
    unfolding w by simp
  assume p: "p \<noteq> PluginSmart"
  have "tx_keeps (\<lambda>d. db_current d p = db_current (st_db s) p) b"
    unfolding b_def replace_plugin_current_def insert_plugin_history_def upsert_meta_def
    using p by (auto intro!: tx_keeps_bind tx_keeps_lift tx_keeps_exec simp: put_history_def)
  from run_tx_keeps [OF this] show "db_current (st_db (snd (write_smart_devices fault ts items s))) p = db_current (st_db s) p"
    unfolding w by simp
qed

lemma snapshot_persisted_at:
  assumes "write_snapshot fault ts (Some data) s = (Inr (), s')"
  shows "db_meta (st_db s') ''last_persisted_at'' = Some (MStr (format_int ts))"
proof -
  have "snapshot_spec (history_enabled s) ts data (st_db s) (st_db s')"
    using write_snapshot_Inr [OF assms] by auto
  then show ?thesis
    by (simp add: snapshot_spec_def snapshot_meta_def)
qed

lemma snapshot_current:
  assumes "write_snapshot fault ts (Some data) s = (Inr (), s')" "map_of (snapshot_plugin_payloads data) p = Some pl"
  shows "db_current (st_db s') p = Some (ts, JText (enc_payload pl)) \<and> is_plugin_name p"
proof -
  have sp: "snapshot_spec (history_enabled s) ts data (st_db s) (st_db s')"
    using write_snapshot_Inr [OF assms(1)] by auto
  have p: "p \<in> set plugin_names" "p \<noteq> PluginSmart"
    using payload_mem [OF map_of_SomeD [OF assms(2)]] by simp_all
  have "case (if p \<in> set plugin_names then stored_payload data p else None) of
      None \<Rightarrow> db_current (st_db s') p = db_current (st_db s) p \<and> db_history (st_db s') p = db_history (st_db s) p
    | Some raw \<Rightarrow> db_current (st_db s') p = Some (ts, raw)
        \<and> db_history (st_db s') p = (if history_enabled s p
           then (db_history (st_db s) p)(resolution1m := mput ts raw (db_history (st_db s) p resolution1m))
           else db_history (st_db s) p)"
    using sp unfolding snapshot_spec_def rows_written_def by blast
  then show ?thesis
    using p assms(2) by (simp add: stored_payload_def is_plugin_name_def)
qed

text \<open>
  C5: The reads find what the last snapshot wrote: its time, every plugin's payload under that
  time, and the system summary (an empty temperature map reads back as none).
\<close>

theorem snapshot_reads_back:
  assumes "write_snapshot fault ts (Some data) s = (Inr (), s')" "int64_ok ts"
  shows "current_captured_at (\<lambda>_. None) (st_db s') = Inr ts
    \<and> (\<forall>p pl. map_of (snapshot_plugin_payloads data) p = Some pl
        \<longrightarrow> current_plugin (\<lambda>_. None) (st_db s') p = Inr (ts, JText (enc_payload pl)))
    \<and> (summary_clean (new_summary (Some data))
        \<longrightarrow> read_system_summary (\<lambda>_. None) (st_db s') = Inr (ts, (new_summary (Some data))
              \<lparr>sm_temperatures := nonempty_opt (sm_temperatures (new_summary (Some data)))\<rparr>))"
proof -
  have sp: "snapshot_spec (history_enabled s) ts data (st_db s) (st_db s')"
    using write_snapshot_Inr [OF assms(1)] by auto
  have meta: "db_meta (st_db s') ''last_system_summary_json'' = Some (MJson (JText (enc_summary (new_summary (Some data)))))"
    using sp by (simp add: snapshot_spec_def snapshot_meta_def)
  have at: "current_captured_at (\<lambda>_. None) (st_db s') = Inr ts"
    using assms(2) snapshot_persisted_at [OF assms(1)]
    by (simp add: current_captured_at_def meta_value_of_def attempt_def int64_ok_def parse_format_int)
  note row = snapshot_current [OF assms(1)]
  show ?thesis
    using at row meta
    by (simp add: current_plugin_def read_system_summary_def meta_value_of_def attempt_def meta_json_def
        dec_enc_summary)
qed

theorem snapshot_reads_back_witness:
  "\<exists>s' :: store. current_captured_at (\<lambda>_. None) (st_db s') = Inr 60000
    \<and> current_plugin (\<lambda>_. None) (st_db s') PluginCPU
        = Inr (60000, JText (enc_cpu_data (cpu_payload (cd_stats sample_snapshot))))"
proof (rule sample_snapshot_run)
  fix s'
  assume w: "write_snapshot (\<lambda>_. None) 60000 (Some sample_snapshot) empty_store = (Inr (), s')"
  have "int64_ok 60000"
    by (simp add: int64_ok_def)
  note rb = snapshot_reads_back [OF w this]
  have "map_of (snapshot_plugin_payloads sample_snapshot) PluginCPU = Some (PCpu (cpu_payload (cd_stats sample_snapshot)))"
    by (simp add: snapshot_plugin_payloads_def Let_def)
  then have "current_plugin (\<lambda>_. None) (st_db s') PluginCPU
      = Inr (60000, JText (enc_payload (PCpu (cpu_payload (cd_stats sample_snapshot)))))"
    using rb by blast
  then show ?thesis
    using conjunct1 [OF rb] by (auto simp: enc_payload_def intro!: exI [of _ s'])
qed

lemma plugin_history_rows:
  assumes "db_ok (st_db s)" "plugin_history q s plugin resolution lo hi limit = Inr rows"
  shows "sorted_wrt (<) (map fst rows)
    \<and> (\<forall>(k, raw) \<in> set rows. lo \<le> k \<and> k \<le> hi \<and> mget (db_history (st_db s) plugin resolution) k = Some raw)
    \<and> (0 \<le> limit \<longrightarrow> int (length rows) \<le> limit)
    \<and> (\<forall>k raw. mget (db_history (st_db s) plugin resolution) k = Some raw \<and> lo \<le> k \<and> k \<le> hi
        \<and> (k, raw) \<notin> set rows \<longrightarrow> int (length rows) = limit \<and> (\<forall>r \<in> set rows. fst r < k))"
proof -
  define h where "h = db_history (st_db s) plugin resolution"
  define all where "all = filter (\<lambda>(ts, _). lo \<le> ts \<and> ts \<le> hi) h"
  have rows: "rows = (if limit < 0 then all else take (nat limit) all)"
    using assms(2) by (auto simp: plugin_history_def all_def h_def Let_def split: if_splits option.splits)
  have h: "msorted h"
    using assms(1) by (simp add: db_ok_def h_def)
  then have a: "msorted all"
    unfolding all_def by (rule msorted_filter)
  have "msorted rows"
    using a rows by (simp add: msorted_take)
  moreover have "lo \<le> k \<and> k \<le> hi \<and> mget h k = Some raw" if "(k, raw) \<in> set rows" for k raw
  proof -
    have "(k, raw) \<in> set all"
      using that rows in_set_takeD [of "(k, raw)" "nat limit" all] by (auto split: if_splits)
    then show ?thesis
      using mget_set [OF h] by (auto simp: all_def)
  qed
  moreover have "int (length rows) = limit \<and> (\<forall>r \<in> set rows. fst r < k)"
    if "mget h k = Some raw" "lo \<le> k" "k \<le> hi" "(k, raw) \<notin> set rows" for k raw
  proof -
    have k: "(k, raw) \<in> set all"
      using that mget_SomeD [OF that(1)] by (simp add: all_def)
    then have l: "\<not> limit < 0"
      using that(4) rows by auto
    then have nt: "(k, raw) \<notin> set (take (nat limit) all)"
      using that(4) rows by simp
    have "\<forall>r \<in> set rows. fst r < k"
      using msorted_after_take(1) [OF a k nt] rows l by auto
    moreover have "length (take (nat limit) all) = nat limit"
      using k nt in_set_conv_nth [of "(k, raw)" "take (nat limit) all"] by (cases "nat limit \<le> length all") auto
    ultimately show ?thesis
      using rows l by simp
  qed
  moreover have "0 \<le> limit \<longrightarrow> int (length rows) \<le> limit"
    using rows by (auto simp: min_def)
  ultimately show ?thesis
    unfolding msorted_def h_def by auto
qed

text \<open>
  A history read returns, in increasing time, rows that are stored and within the requested
  range, at most as many as the limit; and a stored row in the range is left out only when the
  limit is reached, by rows that are all older than it.
\<close>

theorem plugin_history_correct:
  assumes "db_ok (st_db s)" "plugin_history q s plugin resolution lo hi limit = Inr rows"
  shows "sorted_wrt (<) (map fst rows)
    \<and> (\<forall>(k, raw) \<in> set rows. lo \<le> k \<and> k \<le> hi \<and> mget (db_history (st_db s) plugin resolution) k = Some raw)
    \<and> (0 \<le> limit \<longrightarrow> int (length rows) \<le> limit)
    \<and> (\<forall>k raw. mget (db_history (st_db s) plugin resolution) k = Some raw \<and> lo \<le> k \<and> k \<le> hi
        \<and> (k, raw) \<notin> set rows \<longrightarrow> int (length rows) = limit \<and> (\<forall>r \<in> set rows. fst r < k))"
  by (rule plugin_history_rows [OF assms])

theorem plugin_history_correct_witness:
  "mget (db_history (put_history PluginIRQ resolution1m 60000 (JText JNull) empty_db) PluginIRQ resolution1m) 60000
     = Some (JText JNull)"
proof -
  let ?s = "\<lparr>st_db = put_history PluginIRQ resolution1m 60000 (JText JNull) empty_db, st_history_plugins = {PluginIRQ}\<rparr>"
  have ok: "db_ok (st_db ?s)"
    by (simp add: db_ok_put_history db_ok_empty)
  have "plugin_history (\<lambda>_. None) ?s PluginIRQ resolution1m 0 100000 5 = Inr [(60000, JText JNull)]"
    by (simp add: plugin_history_def history_enabled_def is_plugin_name_def plugin_names_def put_history_def
        empty_db_def)
  from plugin_history_correct [OF ok this] show ?thesis
    by simp
qed

end
