(* ===== verification/History_Store.thy ===== *)
theory History_Store
  imports Rollups Snapshots
begin

text \<open>
  The contract of stored history, as the HTTP API uses it (the interface \<open>MetricsReader\<close> of
  \<open>internal/api/http/server.go\<close>): an interface with its laws, and its interpretation on the store
  with all the operations that change it.
\<close>

locale history_store =
  fixes history :: "queries \<Rightarrow> 'st \<Rightarrow> string \<Rightarrow> string \<Rightarrow> int \<Rightarrow> int \<Rightarrow> int \<Rightarrow> (int \<times> jtext) list res"
    and enabled :: "'st \<Rightarrow> string \<Rightarrow> bool"
    and stored :: "'st \<Rightarrow> string \<Rightarrow> string \<Rightarrow> int \<Rightarrow> jtext option"
    and inv :: "'st \<Rightarrow> bool"
    and step :: "'op \<Rightarrow> 'st \<Rightarrow> 'st"
  assumes rows: "inv st \<Longrightarrow> history q st p r lo hi limit = Inr rs \<Longrightarrow>
      sorted_wrt (<) (map fst rs)
      \<and> (\<forall>(k, raw) \<in> set rs. lo \<le> k \<and> k \<le> hi \<and> stored st p r k = Some raw)
      \<and> (0 \<le> limit \<longrightarrow> int (length rs) \<le> limit)"
    and disabled: "\<not> enabled st p \<Longrightarrow> \<exists>e. history q st p r lo hi limit = Inl e"
    and step_inv: "inv st \<Longrightarrow> inv (step op st)"
begin

lemma run_inv: "inv st \<Longrightarrow> inv (foldl (\<lambda>s op. step op s) st ops)"
  by (induction ops arbitrary: st) (auto intro: step_inv)

lemma rows_after_run:
  assumes "inv st" "history q (foldl (\<lambda>s op. step op s) st ops) p r lo hi limit = Inr rs" "0 < limit"
  shows "enabled (foldl (\<lambda>s op. step op s) st ops) p \<and> sorted_wrt (<) (map fst rs) \<and> int (length rs) \<le> limit
    \<and> (\<forall>(k, raw) \<in> set rs. lo \<le> k \<and> k \<le> hi \<and> stored (foldl (\<lambda>s op. step op s) st ops) p r k = Some raw)"
proof -
  have "enabled (foldl (\<lambda>s op. step op s) st ops) p"
    using disabled [of "foldl (\<lambda>s op. step op s) st ops" p q r lo hi limit] assms(2) by auto
  moreover note rows [OF run_inv [OF assms(1)] assms(2)]
  ultimately show ?thesis
    using assms(3) by simp
qed

end

section \<open>The store and its operations\<close>

text \<open>Everything the agent does to an open store.\<close>

datatype store_op =
    OpSnapshot fault int "combined_data option"
  | OpSmart fault int "(string, smart_data) gmap"
  | OpMaintain fault int
  | OpHistory "string list"

fun store_step :: "store_op \<Rightarrow> store \<Rightarrow> store" where
  "store_step (OpSnapshot fault ts data) s = snd (write_snapshot fault ts data s)"
| "store_step (OpSmart fault ts items) s = snd (write_smart_devices fault ts items s)"
| "store_step (OpMaintain fault now) s = snd (run_maintenance fault now s)"
| "store_step (OpHistory plugins) s = set_history_plugins plugins s"

definition opened_store :: "string list \<Rightarrow> store" where
  "opened_store plugins = \<lparr>st_db = create_schema empty_db, st_history_plugins = history_plugin_set plugins\<rparr>"

definition run_store :: "string list \<Rightarrow> store_op list \<Rightarrow> store" where
  "run_store plugins ops = foldl (\<lambda>s op. store_step op s) (opened_store plugins) ops"

lemma store_step_db_ok: "db_ok (st_db s) \<Longrightarrow> db_ok (st_db (store_step op s))"
  by (cases op) (auto simp: write_snapshot_db_ok write_smart_devices_db_ok run_maintenance_db_ok set_history_plugins_def)

lemma opened_store_db_ok: "db_ok (st_db (opened_store plugins))"
  by (simp add: opened_store_def create_schema_def empty_db_def db_ok_def)

interpretation hs: history_store plugin_history history_enabled
  "\<lambda>s p r k. mget (db_history (st_db s) p r) k" "\<lambda>s. db_ok (st_db s)" store_step
proof unfold_locales
  fix st :: store and q p r lo hi limit rs
  assume "db_ok (st_db st)" "plugin_history q st p r lo hi limit = Inr rs"
  from plugin_history_rows [OF this] show "sorted_wrt (<) (map fst rs)
      \<and> (\<forall>(k, raw) \<in> set rs. lo \<le> k \<and> k \<le> hi \<and> mget (db_history (st_db st) p r) k = Some raw)
      \<and> (0 \<le> limit \<longrightarrow> int (length rs) \<le> limit)"
    by blast
next
  fix st :: store and q p r lo hi limit
  assume "\<not> history_enabled st p"
  then show "\<exists>e. plugin_history q st p r lo hi limit = Inl e"
    by (simp add: plugin_history_def)
next
  fix st :: store and op
  assume "db_ok (st_db st)"
  then show "db_ok (st_db (store_step op st))"
    by (rule store_step_db_ok)
qed

lemmas run_store_rows = hs.rows_after_run [OF opened_store_db_ok, folded run_store_def]

end
