(* ===== verification/Http_Api.thy ===== *)
theory Http_Api
  imports Health Live_Cache History_Store
begin

text \<open>
  \<open>internal/api/http\<close>: the routes of a listener and their handlers.  A handler reads the agent
  through two interfaces, as in the code: the current reader (with its state \<open>'s\<close>, since a read
  fills caches) and the metrics reader of the stored history.  Go's \<open>ServeMux\<close> and
  \<open>encoding/json\<close> are standard library: a path is the list of its segments, a body is the JSON
  that \<open>writeJSON\<close> encodes, or empty when encoding fails after the status has been sent.
  Request logging only observes.
\<close>

section \<open>Requests and responses\<close>

record request =
  rq_method :: string
  rq_path :: "string list"
  rq_query :: "(string \<times> string) list"
  rq_body :: jtext

record response =
  rp_status :: int
  rp_allow :: "string option"
  rp_body :: jtext

definition query_get :: "request \<Rightarrow> string \<Rightarrow> string" where
  "query_get rq key = (case map_of (rq_query rq) key of None \<Rightarrow> [] | Some v \<Rightarrow> v)"

fun error_text :: "go_error \<Rightarrow> string" where
  "error_text ErrNoRows = ''sql: no rows in result set''"
| "error_text ErrDeadline = ''context deadline exceeded''"
| "error_text ErrCanceled = ''context canceled''"
| "error_text ErrPermission = ''permission denied''"
| "error_text ErrNotExist = ''file does not exist''"
| "error_text ErrJson = ''invalid JSON''"
| "error_text (ErrSql s) = s"
| "error_text (ErrText s) = s"
| "error_text (ErrWrap m e) = m @ '': '' @ error_text e"
| "error_text (ErrJoin a b) = error_text a @ [CHR 0x0A] @ error_text b"

definition write_json :: "int \<Rightarrow> jtext \<Rightarrow> response" where
  "write_json code payload = \<lparr>rp_status = code, rp_allow = None, rp_body = (case payload of
     JText j \<Rightarrow> if jfinite j then JText j else JBad [] | JBad _ \<Rightarrow> JBad [])\<rparr>"

definition write_error_message :: "int \<Rightarrow> string \<Rightarrow> response" where
  "write_error_message code message = write_json code (JText (JObj (jf ''error'' (JStr message))))"

definition write_error :: "int \<Rightarrow> go_error \<Rightarrow> response" where
  "write_error code err = write_error_message code (error_text err)"

definition write_method_not_allowed :: "string \<Rightarrow> response" where
  "write_method_not_allowed method = (write_error 405 (ErrText ''method not allowed''))\<lparr>rp_allow := Some method\<rparr>"

definition write_internal_error :: "go_error \<Rightarrow> response" where
  "write_internal_error err = write_error_message 500 ''internal server error''"

definition write_store_error :: "go_error \<Rightarrow> response" where
  "write_store_error err =
     (if err_is ErrNoRows err then write_error_message 404 ''not found''
      else if err_is ErrDeadline err then write_error_message 504 ''request timed out''
      else if err_is ErrCanceled err then write_error_message 408 ''request canceled''
      else write_internal_error err)"

definition public_error_message :: "go_error \<Rightarrow> string" where
  "public_error_message err =
     (if err_is ErrNoRows err then ''not found''
      else if err_is ErrDeadline err then ''request timed out''
      else if err_is ErrCanceled err then ''request canceled''
      else ''internal server error'')"

definition not_found :: response where
  "not_found = \<lparr>rp_status = 404, rp_allow = None, rp_body = JBad ''404 page not found''\<rparr>"

section \<open>The server\<close>

record listener_meta =
  lm_name :: string
  lm_address :: string
  lm_effective_address :: string
  lm_apis :: "string list"
  lm_active :: bool

record config_meta =
  cm_path :: string
  cm_source :: string
  cm_version :: int
  cm_collector_interval :: string
  cm_history_plugins :: "string list option"
  cm_cache_ttl :: "(string, string) gmap option"

record meta_response =
  mr_version :: string
  mr_data_dir :: string
  mr_db_path :: string
  mr_listeners :: "listener_meta list"
  mr_collector_interval :: string
  mr_smart_refresh_interval :: string
  mr_config :: config_meta
  mr_retention :: "(string, string) gmap"

definition enc_listener_meta :: "listener_meta \<Rightarrow> json" where
  "enc_listener_meta l = JObj (jf ''name'' (JStr (lm_name l)) @ jf ''address'' (JStr (lm_address l))
     @ jf ''effective_address'' (JStr (lm_effective_address l)) @ jf ''apis'' (enc_arr JStr (lm_apis l))
     @ jf ''active'' (JBool (lm_active l)))"

definition zero_config_meta :: config_meta where
  "zero_config_meta = \<lparr>cm_path = [], cm_source = [], cm_version = 0, cm_collector_interval = [],
     cm_history_plugins = None, cm_cache_ttl = None\<rparr>"

definition enc_config_meta :: "config_meta \<Rightarrow> json" where
  "enc_config_meta c = JObj (jf ''path'' (JStr (cm_path c)) @ jf ''source'' (JStr (cm_source c))
     @ jf ''version'' (JInt (cm_version c)) @ jf ''collector_interval'' (JStr (cm_collector_interval c))
     @ jf ''history_plugins'' (enc_opt (enc_arr JStr) (cm_history_plugins c))
     @ jf ''cache_ttl'' (enc_opt (enc_map JStr) (cm_cache_ttl c)))"

definition enc_meta_response :: "meta_response \<Rightarrow> json" where
  "enc_meta_response r = JObj (jf ''version'' (JStr (mr_version r)) @ jf ''data_dir'' (JStr (mr_data_dir r))
     @ jf ''db_path'' (JStr (mr_db_path r))
     @ jopt (mr_listeners r \<noteq> []) ''listeners'' (enc_arr enc_listener_meta (mr_listeners r))
     @ jf ''collector_interval'' (JStr (mr_collector_interval r))
     @ jf ''smart_refresh_interval'' (JStr (mr_smart_refresh_interval r))
     @ jf ''config'' (enc_config_meta (mr_config r)) @ jf ''retention'' (enc_map JStr (mr_retention r)))"

definition retention_strings :: "(string, string) gmap" where
  "retention_strings = foldl (\<lambda>m (resolution, ms). mput resolution (duration_string (ms * millisecond)) m)
     [] history_retention"

text \<open>The two readers; \<open>sr_refresh\<close> is \<open>RefreshSmartNow\<close>.\<close>

record 's current_reader =
  cr_plugin :: "string \<Rightarrow> 's \<Rightarrow> (int \<times> jtext) res \<times> 's"
  cr_summary :: "'s \<Rightarrow> (int \<times> summary) res \<times> 's"

record metrics_reader =
  mt_path :: string
  mt_history :: "string \<Rightarrow> string \<Rightarrow> int \<Rightarrow> int \<Rightarrow> int \<Rightarrow> (int \<times> jtext) list res"
  mt_history_enabled :: "string \<Rightarrow> bool"

record command_request =
  cq_command :: string
  cq_params :: "json option"
  cq_request_id :: string

record 's server =
  sv_metrics :: metrics_reader
  sv_current :: "'s current_reader"
  sv_refresh :: "('s \<Rightarrow> unit res \<times> 's) option"
  sv_command :: "(command_request \<Rightarrow> 's \<Rightarrow> (int \<times> json) \<times> 's) option"
  sv_version :: string
  sv_data_dir :: string
  sv_listeners :: "'s \<Rightarrow> listener_meta list"
  sv_smart_refresh_interval :: "'s \<Rightarrow> string"
  sv_config_info :: "'s \<Rightarrow> config_meta"

definition missing_current_reader :: "'s current_reader" where
  "missing_current_reader = \<lparr>cr_plugin = (\<lambda>_ s. (Inl (ErrText ''current provider not configured''), s)),
     cr_summary = (\<lambda>s. (Inl (ErrText ''current provider not configured''), s))\<rparr>"

section \<open>Plugins\<close>

datatype response_kind = KItems | KProcesses | KData

definition plugin_response_kind :: "string \<Rightarrow> response_kind" where
  "plugin_response_kind name =
     (if name \<in> {PluginContainers, PluginSystemd, PluginPrograms, PluginIRQ, PluginSmart} then KItems
      else if name = PluginProcesses then KProcesses else KData)"

definition normalize_items_raw :: "jtext \<Rightarrow> jtext" where
  "normalize_items_raw raw = (if raw = JBad [] \<or> raw = JText JNull then JText (JArr []) else raw)"

text \<open>An object with raw members can only be encoded if they can.\<close>

fun raw_object :: "(string \<times> jtext) list \<Rightarrow> jtext" where
  "raw_object [] = JText (JObj [])"
| "raw_object ((k, r) # fs) = (case (r, raw_object fs) of
     (JText j, JText (JObj rest)) \<Rightarrow> JText (JObj ((k, j) # rest)) | _ \<Rightarrow> JBad ''raw message'')"

text \<open>
  The \<open>processes\<close> response: an absent member is the empty raw message, a null one is the text
  \<open>null\<close>.
\<close>

definition process_parts :: "jtext \<Rightarrow> (jtext \<times> jtext) res" where
  "process_parts raw = unmarshal (\<lambda>j. case j of
     JNull \<Rightarrow> Inr (JBad [], JBad [])
   | JObj fs \<Rightarrow> (let part = (\<lambda>k. case jlast (fold_keys fs) k of None \<Rightarrow> JBad [] | Some v \<Rightarrow> JText v)
       in Inr (part ''count'', part ''items''))
   | _ \<Rightarrow> Inl ErrJson) raw"

definition plugin_response :: "string \<Rightarrow> int \<times> jtext \<Rightarrow> jtext res" where
  "plugin_response name r = (case r of (captured_at, raw) \<Rightarrow>
     let at_field = (''captured_at'', JText (JInt captured_at)) in
     (case plugin_response_kind name of
        KItems \<Rightarrow> Inr (raw_object [at_field, (''items'', normalize_items_raw raw)])
      | KProcesses \<Rightarrow> attempt (process_parts raw) (\<lambda>(count, items).
          Inr (raw_object ([at_field] @ (if count = JBad [] then [] else [(''count'', count)])
            @ [(''items'', normalize_items_raw items)])))
      | KData \<Rightarrow> Inr (raw_object [at_field, (''data'', raw)])))"

definition read_current :: "'s current_reader \<Rightarrow> string \<Rightarrow> 's \<Rightarrow> jtext res \<times> 's" where
  "read_current current name s = (case cr_plugin current name s of
     (r, s') \<Rightarrow> (attempt r (plugin_response name), s'))"

definition plugin_refreshable :: "'s server \<Rightarrow> string \<Rightarrow> bool" where
  "plugin_refreshable sv name = (name = PluginSmart \<and> sv_refresh sv \<noteq> None)"

section \<open>Handlers\<close>

definition handle_health :: "(status res) \<Rightarrow> request \<Rightarrow> response" where
  "handle_health health rq =
     (if rq_method rq \<noteq> ''GET'' then write_method_not_allowed ''GET''
      else case health of
        Inl err \<Rightarrow> write_error 503 err
      | Inr st \<Rightarrow> write_json (if hs_healthy st then 200 else 503) (JText (JObj
          [(''age_seconds'', enc_f64 (fdiv (of_int_f (hs_age st)) (Num (of_int second)))),
           (''healthy'', JBool (hs_healthy st)), (''last_updated'', JInt (hs_last_updated st))])))"

text \<open>\<open>Decode\<close> into the request; parameters stay raw.\<close>

definition dec_command_request :: "json \<Rightarrow> command_request res" where
  "dec_command_request j = (case j of
     JNull \<Rightarrow> Inr \<lparr>cq_command = [], cq_params = None, cq_request_id = []\<rparr>
   | JObj fs0 \<Rightarrow> (let fs = fold_keys fs0 in
       attempt (jfield fs ''command'' [] dec_str) (\<lambda>command.
       attempt (jfield fs ''request_id'' [] dec_str) (\<lambda>request_id.
       Inr \<lparr>cq_command = command, cq_params = jlast fs ''params'', cq_request_id = request_id\<rparr>)))
   | _ \<Rightarrow> Inl ErrJson)"

definition command_error_response :: "string \<Rightarrow> string \<Rightarrow> json" where
  "command_error_response code message = JObj (jf ''ok'' (JBool False) @ jf ''command'' (JStr [])
     @ jf ''error'' (JObj (jf ''code'' (JStr code) @ jf ''message'' (JStr message))))"

definition handle_command :: "'s server \<Rightarrow> request \<Rightarrow> 's \<Rightarrow> response \<times> 's" where
  "handle_command sv rq s =
     (if rq_method rq \<noteq> ''POST'' then (write_method_not_allowed ''POST'', s)
      else case sv_command sv of
        None \<Rightarrow> (not_found, s)
      | Some execute \<Rightarrow> (case unmarshal dec_command_request (rq_body rq) of
          Inl err \<Rightarrow> (write_json 400 (JText (command_error_response ''invalid_json'' (error_text err))), s)
        | Inr req \<Rightarrow> (case execute req s of
            ((status, body), s') \<Rightarrow> (write_json (if status = 0 then 200 else status) (JText body), s'))))"

definition make_meta_response :: "'s server \<Rightarrow> int \<Rightarrow> 's \<Rightarrow> meta_response" where
  "make_meta_response sv collector_interval s =
     (let info = sv_config_info sv s in
      \<lparr>mr_version = sv_version sv, mr_data_dir = sv_data_dir sv, mr_db_path = mt_path (sv_metrics sv),
       mr_listeners = sv_listeners sv s,
       mr_collector_interval = (if cm_collector_interval info \<noteq> [] then cm_collector_interval info
          else duration_string collector_interval),
       mr_smart_refresh_interval = sv_smart_refresh_interval sv s, mr_config = info,
       mr_retention = retention_strings\<rparr>)"

definition handle_meta :: "'s server \<Rightarrow> int \<Rightarrow> request \<Rightarrow> 's \<Rightarrow> response \<times> 's" where
  "handle_meta sv collector_interval rq s =
     (if rq_method rq \<noteq> ''GET'' then (write_method_not_allowed ''GET'', s)
      else (write_json 200 (JText (enc_meta_response (make_meta_response sv collector_interval s))), s))"

definition handle_system_summary :: "'s server \<Rightarrow> request \<Rightarrow> 's \<Rightarrow> response \<times> 's" where
  "handle_system_summary sv rq s =
     (if rq_method rq \<noteq> ''GET'' then (write_method_not_allowed ''GET'', s)
      else case cr_summary (sv_current sv) s of
        (Inl err, s') \<Rightarrow> (write_store_error err, s')
      | (Inr (captured_at, su), s') \<Rightarrow>
          (write_json 200 (JText (JObj (jf ''captured_at'' (JInt captured_at) @ enc_summary_fields su))), s'))"

definition handle_plugins :: "'s server \<Rightarrow> request \<Rightarrow> response" where
  "handle_plugins sv rq =
     (if rq_method rq \<noteq> ''GET'' then write_method_not_allowed ''GET''
      else write_json 200 (JText (JObj (jf ''items'' (enc_arr (\<lambda>name.
        let has_history = mt_history_enabled (sv_metrics sv) name;
            has_refresh = plugin_refreshable sv name;
            routes = [''GET /api/v1/'' @ name]
              @ (if has_history then [''GET /api/v1/'' @ name @ ''/history''] else [])
              @ (if has_refresh then [''POST /api/v1/'' @ name @ ''/refresh''] else [])
        in JObj (jf ''name'' (JStr name) @ jf ''has_history'' (JBool has_history)
             @ jf ''has_refresh'' (JBool has_refresh) @ jf ''routes'' (enc_arr JStr routes))) plugin_names)))))"

text \<open>\<open>parseHistoryQuery\<close>; \<open>now_ms\<close> is the clock.\<close>

definition parse_query_int :: "string \<Rightarrow> int \<Rightarrow> string \<Rightarrow> int res" where
  "parse_query_int raw default_value message =
     (if raw = [] then Inr default_value
      else case parse_int64 raw of None \<Rightarrow> Inl (ErrText message) | Some n \<Rightarrow> Inr n)"

definition parse_history_query :: "int \<Rightarrow> request \<Rightarrow> (string \<times> int \<times> int \<times> int) res" where
  "parse_history_query now_ms rq =
     (let resolution = query_get rq ''resolution'' in
      if \<not> valid_resolution resolution then Inl (ErrText ''invalid resolution'')
      else attempt (parse_query_int (query_get rq ''from'') 0 ''invalid from'') (\<lambda>from.
        attempt (parse_query_int (query_get rq ''to'') now_ms ''invalid to'') (\<lambda>to.
        if to < from then Inl (ErrText ''from must be <= to'')
        else attempt (parse_query_int (query_get rq ''limit'') 100 ''invalid limit'') (\<lambda>limit.
          if limit \<le> 0 \<or> 1000 < limit then Inl (ErrText ''invalid limit'')
          else Inr (resolution, from, to, limit)))))"

definition history_response :: "string \<Rightarrow> (int \<times> jtext) list \<Rightarrow> jtext" where
  "history_response resolution records =
     (case map_res (\<lambda>(captured_at, stats). case stats of
          JBad _ \<Rightarrow> Inl ErrJson
        | JText j \<Rightarrow> Inr (JObj (jf ''captured_at'' (JInt captured_at) @ jf ''stats'' j))) records of
        Inl _ \<Rightarrow> JBad ''raw message''
      | Inr items \<Rightarrow> JText (JObj (jf ''resolution'' (JStr resolution) @ jf ''items'' (JArr items))))"

definition handle_history :: "metrics_reader \<Rightarrow> int \<Rightarrow> string \<Rightarrow> request \<Rightarrow> response" where
  "handle_history metrics now_ms plugin rq =
     (if rq_method rq \<noteq> ''GET'' then write_method_not_allowed ''GET''
      else if \<not> is_plugin_name plugin then not_found
      else if \<not> mt_history_enabled metrics plugin then not_found
      else case parse_history_query now_ms rq of
        Inl err \<Rightarrow> write_error 400 err
      | Inr (resolution, from, to, limit) \<Rightarrow>
          (case mt_history metrics plugin resolution from to limit of
             Inl err \<Rightarrow> if err_is ErrNoRows err then not_found else write_store_error err
           | Inr records \<Rightarrow> write_json 200 (history_response resolution records)))"

definition handle_current :: "'s server \<Rightarrow> string \<Rightarrow> request \<Rightarrow> 's \<Rightarrow> response \<times> 's" where
  "handle_current sv plugin rq s =
     (if rq_method rq \<noteq> ''GET'' then (write_method_not_allowed ''GET'', s)
      else if \<not> is_plugin_name plugin then (not_found, s)
      else case read_current (sv_current sv) plugin s of
        (Inl err, s') \<Rightarrow> (write_store_error err, s')
      | (Inr body, s') \<Rightarrow> (write_json 200 body, s'))"

definition handle_refresh :: "'s server \<Rightarrow> string \<Rightarrow> request \<Rightarrow> 's \<Rightarrow> response \<times> 's" where
  "handle_refresh sv plugin rq s =
     (if rq_method rq \<noteq> ''POST'' then (write_method_not_allowed ''POST'', s)
      else if \<not> is_plugin_name plugin then (not_found, s)
      else if plugin \<noteq> PluginSmart then (not_found, s)
      else case sv_refresh sv of
        None \<Rightarrow> (not_found, s)
      | Some refresh \<Rightarrow> (case refresh s of
          (Inl err, s1) \<Rightarrow> (write_store_error err, s1)
        | (Inr _, s1) \<Rightarrow> (case read_current (sv_current sv) plugin s1 of
            (Inl err, s2) \<Rightarrow> (write_store_error err, s2)
          | (Inr body, s2) \<Rightarrow> (write_json 200 body, s2))))"

text \<open>\<open>handleAll\<close>: the plugins in order; the state of the loop is what was read, the errors and the first one.\<close>

definition all_step ::
  "'s current_reader \<Rightarrow> (string, jtext) gmap \<times> (string, string) gmap \<times> go_error option \<times> 's \<Rightarrow> string
    \<Rightarrow> (string, jtext) gmap \<times> (string, string) gmap \<times> go_error option \<times> 's" where
  "all_step current st name = (case st of (out, errs, first_err, s) \<Rightarrow>
     (case read_current current name s of
        (Inl err, s') \<Rightarrow> (out, mput name (public_error_message err) errs,
           (case first_err of None \<Rightarrow> Some err | Some e \<Rightarrow> Some e), s')
      | (Inr body, s') \<Rightarrow> (mput name body out, errs, first_err, s')))"

definition handle_all :: "'s server \<Rightarrow> request \<Rightarrow> 's \<Rightarrow> response \<times> 's" where
  "handle_all sv rq s =
     (if rq_method rq \<noteq> ''GET'' then (write_method_not_allowed ''GET'', s)
      else case foldl (all_step (sv_current sv)) ([], [], None, s) plugin_names of
        (out, errs, first_err, s') \<Rightarrow>
          if length errs = length plugin_names
          then (write_store_error (case first_err of None \<Rightarrow> ErrNoRows | Some e \<Rightarrow> e), s')
          else (write_json 200 (raw_object (if errs = [] then out
            else mput ''errors'' (JText (enc_map JStr errs)) out)), s'))"

section \<open>Routing\<close>

datatype route = RHealth | RMeta | RSummary | RBenchmark | RPlugins | RAll
  | RCurrent string | RHistory string | RRefresh string | RCommand | RNone

definition has_api :: "string list \<Rightarrow> string \<Rightarrow> bool" where
  "has_api apis api = list_ex (\<lambda>v. equal_fold (trim_space v) api) apis"

text \<open>\<open>HandlerFor\<close> and \<open>Mount\<close>: literal patterns win over the wildcard ones.\<close>

definition route_of :: "string list \<Rightarrow> string list \<Rightarrow> route" where
  "route_of apis path =
     (if path = [''healthz''] then RHealth
      else case path of
        [a, v, p] \<Rightarrow>
          if [a, v] \<noteq> [''api'', ''v1''] then RNone
          else if p = ''command'' \<and> has_api apis ''commands'' then RCommand
          else if \<not> has_api apis ''metrics'' then RNone
          else if p = ''meta'' then RMeta
          else if p = ''benchmark'' then RBenchmark
          else if p = ''plugins'' then RPlugins
          else if p = ''all'' then RAll
          else RCurrent p
      | [a, v, p, q] \<Rightarrow>
          if [a, v] \<noteq> [''api'', ''v1''] \<or> \<not> has_api apis ''metrics'' then RNone
          else if p = ''system'' \<and> q = ''summary'' then RSummary
          else if q = ''history'' then RHistory p
          else if q = ''refresh'' then RRefresh p
          else RNone
      | _ \<Rightarrow> RNone)"

text \<open>The surroundings of a request: the health file's status, the clock, the collector interval.\<close>

record surroundings =
  su_health :: "status res"
  su_now_ms :: int
  su_interval :: int

definition serve_route :: "'s server \<Rightarrow> surroundings \<Rightarrow> route \<Rightarrow> request \<Rightarrow> 's \<Rightarrow> response \<times> 's" where
  "serve_route sv su r rq s = (case r of
     RHealth \<Rightarrow> (handle_health (su_health su) rq, s)
   | RMeta \<Rightarrow> handle_meta sv (su_interval su) rq s
   | RSummary \<Rightarrow> handle_system_summary sv rq s
   | RPlugins \<Rightarrow> (handle_plugins sv rq, s)
   | RAll \<Rightarrow> handle_all sv rq s
   | RCurrent plugin \<Rightarrow> handle_current sv plugin rq s
   | RHistory plugin \<Rightarrow> (handle_history (sv_metrics sv) (su_now_ms su) plugin rq, s)
   | RRefresh plugin \<Rightarrow> handle_refresh sv plugin rq s
   | RCommand \<Rightarrow> handle_command sv rq s
   | RBenchmark \<Rightarrow> (not_found, s)
   | RNone \<Rightarrow> (not_found, s))"

section \<open>Benchmark\<close>

definition benchmark_endpoints :: "metrics_reader \<Rightarrow> (string \<times> request) list" where
  "benchmark_endpoints metrics =
     (let get = (\<lambda>path query. \<lparr>rq_method = ''GET'', rq_path = path, rq_query = query, rq_body = JBad []\<rparr>) in
      [(''/healthz'', get [''healthz''] []),
       (''/api/v1/meta'', get [''api'', ''v1'', ''meta''] []),
       (''/api/v1/system/summary'', get [''api'', ''v1'', ''system'', ''summary''] []),
       (''/api/v1/plugins'', get [''api'', ''v1'', ''plugins''] [])]
      @ concat (map (\<lambda>plugin.
          (''/api/v1/'' @ plugin, get [''api'', ''v1'', plugin] [])
          # (if mt_history_enabled metrics plugin
             then [(''/api/v1/'' @ plugin @ ''/history?resolution=1m&limit=1'',
               get [''api'', ''v1'', plugin, ''history''] [(''resolution'', ''1m''), (''limit'', ''1'')])]
             else [])) plugin_names)
      @ [(''/api/v1/all'', get [''api'', ''v1'', ''all''] [])])"

record benchmark_result =
  br_path :: string
  br_status :: int

fun run_benchmark ::
  "'s server \<Rightarrow> surroundings \<Rightarrow> string list \<Rightarrow> (string \<times> request) list \<Rightarrow> 's \<Rightarrow> benchmark_result list \<times> 's" where
  "run_benchmark sv su apis [] s = ([], s)"
| "run_benchmark sv su apis ((path, rq) # es) s =
     (case serve_route sv su (route_of apis (rq_path rq)) rq s of
        (r, s1) \<Rightarrow> (case run_benchmark sv su apis es s1 of
          (items, s2) \<Rightarrow> (\<lparr>br_path = path, br_status = rp_status r\<rparr> # items, s2)))"

text \<open>
  The response of \<open>/api/v1/benchmark\<close>; \<open>timing\<close> gives the time and size of each call, \<open>total_ms\<close>
  the total time.
\<close>

definition benchmark_response ::
  "(nat \<Rightarrow> f64 \<times> int) \<Rightarrow> f64 \<Rightarrow> int \<Rightarrow> benchmark_result list \<Rightarrow> json" where
  "benchmark_response timing total_ms now_ms items =
     (let successful = length (filter (\<lambda>b. 200 \<le> br_status b \<and> br_status b < 400) items) in
      JObj (jf ''captured_at'' (JInt now_ms) @ jf ''total_duration_ms'' (enc_f64 (two_decimals total_ms))
        @ jf ''endpoint_count'' (JInt (int (length items))) @ jf ''successful_count'' (JInt (int successful))
        @ jf ''failed_count'' (JInt (int (length items) - int successful))
        @ jf ''items'' (enc_arr (\<lambda>(i, b). JObj (jf ''method'' (JStr ''GET'') @ jf ''path'' (JStr (br_path b))
            @ jf ''status'' (JInt (br_status b)) @ jf ''duration_ms'' (enc_f64 (two_decimals (fst (timing i))))
            @ jf ''bytes'' (JInt (snd (timing i))))) (enumerate 0 items))))"

definition serve ::
  "'s server \<Rightarrow> surroundings \<Rightarrow> (nat \<Rightarrow> f64 \<times> int) \<Rightarrow> f64 \<Rightarrow> string list \<Rightarrow> request \<Rightarrow> 's \<Rightarrow> response \<times> 's" where
  "serve sv su timing total_ms apis rq s =
     (let r = route_of apis (rq_path rq) in
      if r = RBenchmark then
        (if rq_method rq \<noteq> ''GET'' then (write_method_not_allowed ''GET'', s)
         else case run_benchmark sv su apis (benchmark_endpoints (sv_metrics sv)) s of
           (items, s') \<Rightarrow> (write_json 200 (JText (benchmark_response timing total_ms (su_now_ms su) items)), s'))
      else serve_route sv su r rq s)"

section \<open>Facts and properties\<close>

definition allowed_method :: "route \<Rightarrow> string" where
  "allowed_method r = (case r of RRefresh _ \<Rightarrow> ''POST'' | RCommand \<Rightarrow> ''POST'' | _ \<Rightarrow> ''GET'')"

text \<open>
  The wrong method is refused everywhere: a request for any route with another method than the
  route's gets status 405 with the method that is allowed, and changes nothing.
\<close>

theorem wrong_method_refused:
  assumes "route_of apis (rq_path rq) \<noteq> RNone"
    and "rq_method rq \<noteq> allowed_method (route_of apis (rq_path rq))"
  shows "serve sv su timing total_ms apis rq s
    = (write_method_not_allowed (allowed_method (route_of apis (rq_path rq))), s)"
  using assms
  by (cases "route_of apis (rq_path rq)")
    (auto simp: serve_def serve_route_def allowed_method_def handle_health_def handle_meta_def handle_system_summary_def
      handle_plugins_def handle_all_def handle_current_def handle_history_def handle_refresh_def handle_command_def Let_def)

lemma route_of_api:
  "route_of apis path = RCommand \<Longrightarrow> has_api apis ''commands''"
  "route_of apis path \<notin> {RHealth, RCommand, RNone} \<Longrightarrow> has_api apis ''metrics''"
  by (auto simp: route_of_def split: list.splits if_splits)

text \<open>Every handler but the command one ignores the executor.\<close>

lemma server_select_command:
  "sv_current (sv\<lparr>sv_command := c\<rparr>) = sv_current sv" "sv_metrics (sv\<lparr>sv_command := c\<rparr>) = sv_metrics sv"
  "sv_refresh (sv\<lparr>sv_command := c\<rparr>) = sv_refresh sv" "sv_version (sv\<lparr>sv_command := c\<rparr>) = sv_version sv"
  "sv_data_dir (sv\<lparr>sv_command := c\<rparr>) = sv_data_dir sv" "sv_listeners (sv\<lparr>sv_command := c\<rparr>) = sv_listeners sv"
  "sv_smart_refresh_interval (sv\<lparr>sv_command := c\<rparr>) = sv_smart_refresh_interval sv"
  "sv_config_info (sv\<lparr>sv_command := c\<rparr>) = sv_config_info sv"
  by simp_all

lemma handlers_no_command:
  "handle_meta (sv\<lparr>sv_command := c\<rparr>) = handle_meta sv"
  "handle_system_summary (sv\<lparr>sv_command := c\<rparr>) = handle_system_summary sv"
  "handle_plugins (sv\<lparr>sv_command := c\<rparr>) = handle_plugins sv"
  "handle_all (sv\<lparr>sv_command := c\<rparr>) = handle_all sv"
  "handle_current (sv\<lparr>sv_command := c\<rparr>) = handle_current sv"
  "handle_refresh (sv\<lparr>sv_command := c\<rparr>) = handle_refresh sv"
  unfolding handle_meta_def make_meta_response_def handle_system_summary_def handle_plugins_def
    plugin_refreshable_def handle_all_def handle_current_def handle_refresh_def server_select_command
  by (rule refl)+

lemma serve_route_no_command:
  "r \<noteq> RCommand \<Longrightarrow> serve_route (sv\<lparr>sv_command := c\<rparr>) su r rq s = serve_route sv su r rq s"
  by (cases r) (simp_all add: serve_route_def handlers_no_command)

lemma run_benchmark_no_command:
  "\<forall>e \<in> set es. route_of apis (rq_path (snd e)) \<noteq> RCommand \<Longrightarrow>
    run_benchmark (sv\<lparr>sv_command := c\<rparr>) su apis es s = run_benchmark sv su apis es s"
  by (induction sv su apis es s rule: run_benchmark.induct) (auto simp: serve_route_no_command split: prod.splits)


lemma parse_history_query_ok:
  "parse_history_query now_ms rq = Inr (resolution, from, to, limit) \<Longrightarrow>
    valid_resolution resolution \<and> from \<le> to \<and> 1 \<le> limit \<and> limit \<le> 1000"
  by (auto simp: parse_history_query_def Let_def attempt_Inr_iff split: if_splits)

definition store_metrics :: "queries \<Rightarrow> string \<Rightarrow> store \<Rightarrow> metrics_reader" where
  "store_metrics q path s = \<lparr>mt_path = path, mt_history = plugin_history q s, mt_history_enabled = history_enabled s\<rparr>"


text \<open>The reads of all plugins, one after the other.\<close>

fun read_each :: "'s current_reader \<Rightarrow> string list \<Rightarrow> 's \<Rightarrow> (string \<times> jtext res) list \<times> 's" where
  "read_each current [] s = ([], s)"
| "read_each current (name # names) s = (case read_current current name s of
     (r, s1) \<Rightarrow> (case read_each current names s1 of (rs, s2) \<Rightarrow> ((name, r) # rs, s2)))"

definition read_errors :: "(string \<times> jtext res) list \<Rightarrow> string \<Rightarrow> string option" where
  "read_errors reads n = (case map_of reads n of Some (Inl e) \<Rightarrow> Some (public_error_message e) | _ \<Rightarrow> None)"

definition read_bodies :: "(string \<times> jtext res) list \<Rightarrow> string \<Rightarrow> jtext option" where
  "read_bodies reads n = (case map_of reads n of Some (Inr b) \<Rightarrow> Some b | _ \<Rightarrow> None)"

lemma read_each_names: "read_each current names s = (reads, s') \<Longrightarrow> map fst reads = names"
  by (induction current names s arbitrary: reads s' rule: read_each.induct) (auto split: prod.splits)

lemma all_step_reads:
  assumes "read_each current names s = (reads, s')" "distinct names"
  shows "\<exists>out' errs' fe'. foldl (all_step current) (out, errs, fe, s) names = (out', errs', fe', s')
    \<and> (\<forall>n. mget out' n = (case read_bodies reads n of Some b \<Rightarrow> Some b | None \<Rightarrow> mget out n))
    \<and> (\<forall>n. mget errs' n = (case read_errors reads n of Some m \<Rightarrow> Some m | None \<Rightarrow> mget errs n))
    \<and> (msorted errs \<longrightarrow> msorted errs')"
  using assms
proof (induction current names s arbitrary: reads s' out errs fe rule: read_each.induct)
  case (1 current s)
  then show ?case by (auto simp: read_bodies_def read_errors_def)
next
  case (2 current name names s)
  obtain r s1 where r: "read_current current name s = (r, s1)"
    by fastforce
  obtain rs s2 where rs: "read_each current names s1 = (rs, s2)"
    by fastforce
  have eq: "reads = (name, r) # rs" "s' = s2"
    using 2(2) by (simp_all add: r rs)
  have nn: "map_of rs name = None"
    using 2(3) read_each_names [OF rs] by (metis distinct.simps(2) list.set_map map_of_eq_None_iff)
  have d: "distinct names"
    using 2(3) by simp
  show ?case
  proof (cases r)
    case (Inl e)
    obtain fe1 where st: "all_step current (out, errs, fe, s) name = (out, mput name (public_error_message e) errs, fe1, s1)"
      by (cases fe) (simp_all add: all_step_def r Inl)
    obtain out' errs' fe' where f: "foldl (all_step current) (out, mput name (public_error_message e) errs, fe1, s1) names
        = (out', errs', fe', s2)"
      "\<forall>n. mget out' n = (case read_bodies rs n of Some b \<Rightarrow> Some b | None \<Rightarrow> mget out n)"
      "\<forall>n. mget errs' n = (case read_errors rs n of Some m \<Rightarrow> Some m | None \<Rightarrow> mget (mput name (public_error_message e) errs) n)"
      "msorted (mput name (public_error_message e) errs) \<longrightarrow> msorted errs'"
      using 2(1) [OF r [symmetric] rs d, of out "mput name (public_error_message e) errs" fe1] by blast
    show ?thesis
      unfolding eq using f st nn
      by (auto simp: read_bodies_def read_errors_def Inl msorted_mput split: option.splits sum.splits)
  next
    case (Inr b)
    have st: "all_step current (out, errs, fe, s) name = (mput name b out, errs, fe, s1)"
      by (simp add: all_step_def r Inr)
    obtain out' errs' fe' where f: "foldl (all_step current) (mput name b out, errs, fe, s1) names = (out', errs', fe', s2)"
      "\<forall>n. mget out' n = (case read_bodies rs n of Some b \<Rightarrow> Some b | None \<Rightarrow> mget (mput name b out) n)"
      "\<forall>n. mget errs' n = (case read_errors rs n of Some m \<Rightarrow> Some m | None \<Rightarrow> mget errs n)"
      "msorted errs \<longrightarrow> msorted errs'"
      using 2(1) [OF r [symmetric] rs d, of "mput name b out" errs fe] by blast
    show ?thesis
      unfolding eq using f st nn
      by (auto simp: read_bodies_def read_errors_def Inr split: option.splits sum.splits)
  qed
qed

lemma all_failed_iff:
  assumes "\<forall>n. mget errs n = read_errors reads n" "msorted errs" "map fst reads = plugin_names"
  shows "length errs = length plugin_names \<longleftrightarrow> (\<forall>(n, r) \<in> set reads. isl r)"
proof -
  have d: "distinct (map fst reads)"
    unfolding assms(3) by (rule distinct_plugin_names)
  have "distinct (map fst errs)"
    using assms(2) unfolding msorted_def by (simp add: strict_sorted_iff)
  then have l: "length errs = card (fst ` set errs)"
    by (metis distinct_card length_map list.set_map)
  have f: "fst ` set errs = {n \<in> set plugin_names. \<exists>e. map_of reads n = Some (Inl e)}" (is "_ = ?F")
  proof (rule set_eqI)
    fix n
    have "n \<in> fst ` set errs \<longleftrightarrow> read_errors reads n \<noteq> None"
      using assms(1) mget_None_iff by metis
    also have "\<dots> \<longleftrightarrow> (\<exists>e. map_of reads n = Some (Inl e))"
      by (auto simp: read_errors_def split: option.splits sum.splits)
    also have "\<dots> \<longleftrightarrow> n \<in> ?F"
      using assms(3) map_of_SomeD [of reads n] by (force simp: assms(3) [symmetric])
    finally show "n \<in> fst ` set errs \<longleftrightarrow> n \<in> ?F" .
  qed
  have "length plugin_names = card (set plugin_names)"
    using distinct_plugin_names by (simp add: distinct_card)
  then have "length errs = length plugin_names \<longleftrightarrow> ?F = set plugin_names"
    unfolding l f using card_subset_eq [of "set plugin_names" ?F] by auto
  also have "\<dots> \<longleftrightarrow> (\<forall>(n, r) \<in> set reads. isl r)"
  proof -
    have m: "map_of reads n = Some r \<longleftrightarrow> (n, r) \<in> set reads" for n r
      using d by simp
    show ?thesis
    proof
      assume a: "?F = set plugin_names"
      have "isl r" if "(n, r) \<in> set reads" for n r
      proof -
        have "n \<in> set plugin_names"
          using that unfolding assms(3) [symmetric] by (auto intro: rev_image_eqI)
        then obtain e where "(n, Inl e) \<in> set reads"
          using a m by blast
        then have "r = Inl e"
          using that m by (metis option.inject)
        then show ?thesis by simp
      qed
      then show "\<forall>(n, r) \<in> set reads. isl r" by blast
    next
      assume a: "\<forall>(n, r) \<in> set reads. isl r"
      have "\<exists>e. map_of reads n = Some (Inl e)" if n: "n \<in> set plugin_names" for n
      proof -
        obtain r where "(n, r) \<in> set reads"
          using n unfolding assms(3) [symmetric] by auto
        moreover from this obtain e where "r = Inl e"
          using a by (cases r) auto
        ultimately show ?thesis using m by blast
      qed
      then show "?F = set plugin_names" by blast
    qed
  qed
  finally show ?thesis .
qed

text \<open>
  \<open>/api/v1/all\<close> reads every plugin once, in order, and tolerates partial failure: it answers 200
  exactly when some plugin could be read, then with the body of every plugin that could be and, under
  \<open>errors\<close>, one of the public messages for every plugin that could not.
\<close>

theorem all_endpoint_partial:
  assumes "rq_method rq = ''GET''" "read_each (sv_current sv) plugin_names s = (reads, s')"
  shows "\<exists>r. handle_all sv rq s = (r, s') \<and> (rp_status r = 200 \<longleftrightarrow> (\<exists>(n, x) \<in> set reads. \<not> isl x))
    \<and> (rp_status r = 200 \<longrightarrow> (\<exists>members errs. r = write_json 200 (raw_object members)
        \<and> (\<forall>n. n \<noteq> ''errors'' \<longrightarrow> mget members n = read_bodies reads n)
        \<and> (\<forall>n. mget errs n = read_errors reads n)
        \<and> mget members ''errors'' = (if errs = [] then None else Some (JText (enc_map JStr errs)))))"
proof -
  obtain out errs fe where f: "foldl (all_step (sv_current sv)) ([], [], None, s) plugin_names = (out, errs, fe, s')"
    "\<forall>n. mget out n = (case read_bodies reads n of Some b \<Rightarrow> Some b | None \<Rightarrow> mget [] n)"
    "\<forall>n. mget errs n = (case read_errors reads n of Some m \<Rightarrow> Some m | None \<Rightarrow> mget [] n)"
    "msorted ([] :: (string, string) gmap) \<longrightarrow> msorted errs"
    using all_step_reads [OF assms(2) distinct_plugin_names, of "[]" "[]" None] by blast
  have out: "mget out n = read_bodies reads n" and errs: "mget errs n = read_errors reads n" for n
    using f(2,3) by (simp_all split: option.splits)
  have af: "length errs = length plugin_names \<longleftrightarrow> (\<forall>(n, r) \<in> set reads. isl r)"
    by (rule all_failed_iff) (use errs f(4) read_each_names [OF assms(2)] in simp_all)
  have "''errors'' \<notin> set plugin_names"
    by (simp add: plugin_names_def)
  then have ne: "read_bodies reads ''errors'' = None"
    using read_each_names [OF assms(2)] unfolding read_bodies_def
    by (metis list.set_map map_of_eq_None_iff option.simps(4))
  have st: "rp_status (write_store_error e) \<noteq> 200" for e
    by (simp add: write_store_error_def write_internal_error_def write_error_message_def write_json_def)
  show ?thesis
  proof (cases "length errs = length plugin_names")
    case True
    then have "\<not> (\<exists>(n, x) \<in> set reads. \<not> isl x)"
      using af by blast
    moreover obtain e where "handle_all sv rq s = (write_store_error e, s')"
      using True by (simp add: handle_all_def assms(1) f(1))
    ultimately show ?thesis
      using st [of e] by simp
  next
    case False
    define members where "members = (if errs = [] then out else mput ''errors'' (JText (enc_map JStr errs)) out)"
    have h: "handle_all sv rq s = (write_json 200 (raw_object members), s')"
      using False by (simp add: handle_all_def assms(1) f(1) members_def)
    have m: "mget members n = read_bodies reads n" if "n \<noteq> ''errors''" for n
      using that out by (simp add: members_def)
    have e: "mget members ''errors'' = (if errs = [] then None else Some (JText (enc_map JStr errs)))"
      using out ne by (simp add: members_def)
    have "rp_status (write_json 200 (raw_object members)) = 200"
      by (simp add: write_json_def)
    then show ?thesis
      unfolding h using False af m e errs by blast
  qed
qed

section \<open>Witnesses\<close>

text \<open>A server whose plugins answer with a counter, except for \<open>gpu\<close>, which times out.\<close>

definition sample_server :: "nat server" where
  "sample_server = \<lparr>sv_metrics = store_metrics (\<lambda>_. None) ''/m.db'' (opened_store [PluginCPU]),
     sv_current = \<lparr>cr_plugin = (\<lambda>name s. if name = PluginGPU then (Inl ErrDeadline, s)
         else (Inr (int s, JText (JObj [])), Suc s)), cr_summary = (\<lambda>s. (Inl ErrNoRows, s))\<rparr>,
     sv_refresh = None, sv_command = Some (\<lambda>_ s. ((200, JBool True), s + 1000)), sv_version = ''v'',
     sv_data_dir = ''/'', sv_listeners = (\<lambda>_. []), sv_smart_refresh_interval = (\<lambda>_. []),
     sv_config_info = (\<lambda>_. zero_config_meta)\<rparr>"

definition sample_request :: "string \<Rightarrow> string list \<Rightarrow> (string \<times> string) list \<Rightarrow> request" where
  "sample_request verb path query = \<lparr>rq_method = verb, rq_path = path, rq_query = query, rq_body = JText (JObj [])\<rparr>"

definition sample_surroundings :: surroundings where
  "sample_surroundings = \<lparr>su_health = Inl ErrNotExist, su_now_ms = 100000, su_interval = 0\<rparr>"

theorem wrong_method_refused_witness:
  "serve sample_server sample_surroundings (\<lambda>_. (Num 0, 0)) (Num 0) [''commands'']
     (sample_request ''GET'' [''api'', ''v1'', ''command''] []) 7 = (write_method_not_allowed ''POST'', 7)"
proof -
  have "route_of [''commands''] [''api'', ''v1'', ''command''] = RCommand"
    by code_simp
  then show ?thesis
    using wrong_method_refused [of "[''commands'']" "sample_request ''GET'' [''api'', ''v1'', ''command''] []"
      sample_server sample_surroundings "\<lambda>_. (Num 0, 0)" "Num 0" 7]
    by (simp add: sample_request_def allowed_method_def)
qed


lemma write_snapshot_plugins: "st_history_plugins (snd (write_snapshot fault ts data s)) = st_history_plugins s"
  by (simp add: write_snapshot_def case_prod_unfold split: option.splits)

definition one_row :: "store_op list" where
  "one_row = [OpSnapshot (\<lambda>_. None) 60000 (Some sample_snapshot)]"


theorem all_endpoint_partial_witness:
  "\<exists>r members. handle_all sample_server (sample_request ''GET'' [''api'', ''v1'', ''all''] []) 0 = (r, 15)
    \<and> r = write_json 200 (raw_object members) \<and> mget members ''gpu'' = None \<and> mget members ''errors'' \<noteq> None"
proof -
  let ?rq = "sample_request ''GET'' [''api'', ''v1'', ''all''] []"
  obtain reads s' where r: "read_each (sv_current sample_server) plugin_names 0 = (reads, s')"
    by fastforce
  have e: "s' = 15" "map_of reads ''gpu'' = Some (Inl ErrDeadline)" "\<exists>x. map_of reads ''cpu'' = Some (Inr x)"
    using r by (auto simp: plugin_names_def read_current_def sample_server_def plugin_response_def
        plugin_response_kind_def process_parts_def fold_keys_def Let_def)
  have g: "rq_method ?rq = ''GET''"
    by (simp add: sample_request_def)
  obtain p where p: "handle_all sample_server ?rq 0 = (p, s')" "rp_status p = 200 \<longleftrightarrow> (\<exists>(n, x) \<in> set reads. \<not> isl x)"
    "rp_status p = 200 \<longrightarrow> (\<exists>members errs. p = write_json 200 (raw_object members)
        \<and> (\<forall>n. n \<noteq> ''errors'' \<longrightarrow> mget members n = read_bodies reads n)
        \<and> (\<forall>n. mget errs n = read_errors reads n)
        \<and> mget members ''errors'' = (if errs = [] then None else Some (JText (enc_map JStr errs))))"
    using all_endpoint_partial [OF g r] by blast
  have "\<exists>(n, x) \<in> set reads. \<not> isl x"
    using e(3) by (auto dest!: map_of_SomeD intro!: bexI)
  then have "\<exists>members errs. p = write_json 200 (raw_object members)
        \<and> (\<forall>n. n \<noteq> ''errors'' \<longrightarrow> mget members n = read_bodies reads n)
        \<and> (\<forall>n. mget errs n = read_errors reads n)
        \<and> mget members ''errors'' = (if errs = [] then None else Some (JText (enc_map JStr errs)))"
    using p(2,3) by blast
  then obtain members errs where m: "p = write_json 200 (raw_object members)"
    "\<forall>n. n \<noteq> ''errors'' \<longrightarrow> mget members n = read_bodies reads n" "\<forall>n. mget errs n = read_errors reads n"
    "mget members ''errors'' = (if errs = [] then None else Some (JText (enc_map JStr errs)))"
    by (elim exE conjE)
  have "mget members ''gpu'' = read_bodies reads ''gpu''" "mget errs ''gpu'' = read_errors reads ''gpu''"
    using m(2,3) by simp_all
  note g2 = this
  have "errs \<noteq> []" "mget members ''gpu'' = None"
    using g2 e(2) by (auto simp: read_errors_def read_bodies_def)
  then show ?thesis
    using p(1) m e(1) by auto
qed

end
