(* ===== verification/Listen.thy ===== *)
theory Listen
  imports Prelude
begin

text \<open>
  \<open>internal/app/listen.go\<close>: listen addresses and the opening of a listener.  What the
  operating system answers is the argument \<open>os_answers\<close>; the operations that change something
  outside the process are returned as the list of \<open>os_action\<close>s, in order.
\<close>

section \<open>Addresses\<close>

abbreviation (input) "ListenDisabled \<equiv> ''none''"

definition is_listen_disabled :: "string \<Rightarrow> bool" where
  "is_listen_disabled addr = (to_lower (trim_space addr) \<in> {''none'', ''off'', ''disabled''})"

definition split_listen_address :: "string \<Rightarrow> string \<times> string" where
  "split_listen_address addr =
     (if has_prefix ''unix:'' addr then (''unix'', drop 5 addr)
      else if has_prefix ''/'' addr then (''unix'', addr)
      else (''tcp'', addr))"

definition get_address :: "string \<Rightarrow> string" where
  "get_address addr0 = (let addr = trim_space addr0 in
     if addr = [] then ''127.0.0.1:45876''
     else if is_listen_disabled addr then ListenDisabled
     else if fst (split_listen_address addr) = ''unix'' then addr
     else if CHR '':'' \<notin> set addr then ''127.0.0.1:'' @ addr
     else addr)"

section \<open>Opening\<close>

text \<open>\<open>os_stat\<close>: the error, or whether the file is a socket.  The others are errors, if any.\<close>

record os_answers =
  os_stat :: "go_error + bool"
  os_mkdir :: "go_error option"
  os_dial :: "go_error option"
  os_remove :: "go_error option"
  os_listen :: "go_error option"
  os_chmod :: "go_error option"

datatype os_action = MkdirParent | RemoveSocket | ListenOn string string | ChmodSocket | CloseListener

definition of_error :: "go_error option \<Rightarrow> unit res" where
  "of_error e = (case e of None \<Rightarrow> Inr () | Some err \<Rightarrow> Inl err)"

definition prepare_unix_socket :: "os_answers \<Rightarrow> string \<Rightarrow> unit res \<times> os_action list" where
  "prepare_unix_socket sys path = (case os_stat sys of
     Inl e \<Rightarrow> if err_is ErrNotExist e then (of_error (os_mkdir sys), [MkdirParent]) else (Inl e, [])
   | Inr is_socket \<Rightarrow>
       if \<not> is_socket then (Inl (ErrText ''listen path exists and is not a socket''), [])
       else (case os_dial sys of
         None \<Rightarrow> (Inl (ErrText ''socket is already in use by another process''), [])
       | Some _ \<Rightarrow> (of_error (os_remove sys), [RemoveSocket])))"

definition open_listener :: "os_answers \<Rightarrow> string \<Rightarrow> unit res \<times> os_action list" where
  "open_listener sys addr =
     (let (network, address) = split_listen_address addr;
          (r, acts) = (if network = ''unix'' then prepare_unix_socket sys address else (Inr (), []))
      in case r of
           Inl e \<Rightarrow> (Inl e, acts)
         | Inr _ \<Rightarrow>
             let acts1 = acts @ [ListenOn network address] in
             (case os_listen sys of
                Some e \<Rightarrow> (Inl e, acts1)
              | None \<Rightarrow>
                  if network = ''unix'' then (case os_chmod sys of
                      Some e \<Rightarrow> (Inl e, acts1 @ [ChmodSocket, CloseListener])
                    | None \<Rightarrow> (Inr (), acts1 @ [ChmodSocket]))
                  else (Inr (), acts1)))"

section \<open>Facts\<close>

lemma trim_space_ends:
  assumes "trim_space s \<noteq> []"
  shows "\<not> is_space (hd (trim_space s)) \<and> \<not> is_space (last (trim_space s))"
proof -
  define l where "l = dropWhile is_space s"
  define r where "r = dropWhile is_space (rev l)"
  have t: "trim_space s = rev r"
    by (simp add: trim_space_def l_def r_def)
  have ne: "r \<noteq> []"
    using assms t by auto
  have "last r = last (rev l)"
    using ne unfolding r_def by (metis dropWhile_eq_Nil_conv last_appendR takeWhile_dropWhile_id)
  moreover have "l \<noteq> []"
    using ne by (auto simp: r_def)
  ultimately have "hd (rev r) = hd l"
    using ne by (simp add: hd_rev last_rev)
  moreover have "\<not> is_space (hd l)"
    using \<open>l \<noteq> []\<close> unfolding l_def by (metis hd_dropWhile)
  moreover have "\<not> is_space (hd r)"
    using ne unfolding r_def by (metis hd_dropWhile)
  ultimately show ?thesis
    using ne t by (simp add: last_rev)
qed

lemma trim_space_fix: "a \<noteq> [] \<Longrightarrow> \<not> is_space (hd a) \<Longrightarrow> \<not> is_space (last a) \<Longrightarrow> trim_space a = a"
proof -
  assume a: "a \<noteq> []" "\<not> is_space (hd a)" "\<not> is_space (last a)"
  have 1: "dropWhile is_space a = a"
    using a(1,2) by (cases a) auto
  have 2: "dropWhile is_space (rev a) = rev a"
    using a(1,3) by (cases a rule: rev_cases) auto
  show ?thesis
    unfolding trim_space_def 1 2 by simp
qed

lemma set_trim_space: "set (trim_space s) \<subseteq> set s"
proof -
  have d: "set (dropWhile P xs) \<subseteq> set xs" for P and xs :: string
    using set_dropWhileD by fast
  have "set (trim_space s) \<subseteq> set (rev (dropWhile is_space s))"
    unfolding trim_space_def set_rev [of "dropWhile is_space (rev (dropWhile is_space s))"] by (rule d)
  also have "\<dots> \<subseteq> set s"
    unfolding set_rev by (rule d)
  finally show ?thesis .
qed

section \<open>Properties\<close>

text \<open>
  Normalising a listen address is idempotent, and its result is never ambiguous: it is the
  disabled marker, a unix socket path, or an address with a colon; a bare port binds loopback only.
\<close>

theorem get_address_normal:
  "get_address (get_address addr) = get_address addr
    \<and> (get_address addr = ListenDisabled \<or> fst (split_listen_address (get_address addr)) = ''unix''
        \<or> CHR '':'' \<in> set (get_address addr))
    \<and> (get_address addr = ListenDisabled \<longleftrightarrow> is_listen_disabled addr)
    \<and> (trim_space addr \<noteq> [] \<and> CHR '':'' \<notin> set addr \<and> CHR ''/'' \<notin> set addr \<and> \<not> is_listen_disabled addr
        \<longrightarrow> get_address addr = ''127.0.0.1:'' @ trim_space addr)"
proof -
  define a where "a = trim_space addr"
  have ta: "trim_space a = a"
    by (simp add: a_def)
  have dis: "is_listen_disabled addr = is_listen_disabled a"
    by (simp add: is_listen_disabled_def a_def)
  have sub: "set a \<subseteq> set addr"
    unfolding a_def by (rule set_trim_space)
  have cons: "trim_space (''127.0.0.1:'' @ a) = ''127.0.0.1:'' @ a" if "a \<noteq> []"
    using that trim_space_ends [of addr] by (intro trim_space_fix) (simp_all add: a_def [symmetric] is_space_def)
  have nd: "\<not> is_listen_disabled (''127.0.0.1:'' @ a)" if "a \<noteq> []"
    using cons [OF that] by (simp add: is_listen_disabled_def to_lower_def lower_char_def)
  have sp: "split_listen_address (''127.0.0.1:'' @ a) = (''tcp'', ''127.0.0.1:'' @ a)"
    by (simp add: split_listen_address_def has_prefix_def)
  have f0: "get_address ''127.0.0.1:45876'' = ''127.0.0.1:45876''" "get_address ''none'' = ''none''"
    "\<not> is_listen_disabled []" "is_listen_disabled ''none''" "\<not> is_listen_disabled ''127.0.0.1:45876''"
    by code_simp+
  have ga: "get_address addr = (if a = [] then ''127.0.0.1:45876'' else if is_listen_disabled a then ListenDisabled
      else if fst (split_listen_address a) = ''unix'' then a
      else if CHR '':'' \<notin> set a then ''127.0.0.1:'' @ a else a)"
    by (simp add: get_address_def a_def Let_def)
  have gb: "get_address b = (if is_listen_disabled b then ListenDisabled
      else if fst (split_listen_address b) = ''unix'' then b
      else if CHR '':'' \<notin> set b then ''127.0.0.1:'' @ b else b)" if "trim_space b = b" "b \<noteq> []" for b
    using that by (simp add: get_address_def Let_def)
  have un: "CHR ''/'' \<in> set a \<or> CHR '':'' \<in> set a" if "fst (split_listen_address a) = ''unix''"
  proof (rule ccontr)
    assume n: "\<not> ?thesis"
    have "has_prefix ''unix:'' a \<or> has_prefix ''/'' a"
      using that by (auto simp: split_listen_address_def split: if_splits)
    then have "set ''unix:'' \<subseteq> set a \<or> set ''/'' \<subseteq> set a"
      unfolding has_prefix_def by (metis set_take_subset)
    then show False using n by simp
  qed
  consider "a = []" | "a \<noteq> []" "is_listen_disabled a" | "a \<noteq> []" "\<not> is_listen_disabled a" "fst (split_listen_address a) = ''unix''"
    | "a \<noteq> []" "\<not> is_listen_disabled a" "fst (split_listen_address a) \<noteq> ''unix''" "CHR '':'' \<notin> set a"
    | "a \<noteq> []" "\<not> is_listen_disabled a" "fst (split_listen_address a) \<noteq> ''unix''" "CHR '':'' \<in> set a"
    by blast
  then show ?thesis
  proof cases
    case 1
    then show ?thesis
      unfolding ga dis using f0 by (simp add: a_def [symmetric])
  next
    case 2
    then show ?thesis
      unfolding ga dis using f0 by simp
  next
    case 3
    have "a \<noteq> ListenDisabled"
      using 3(2) f0(4) by auto
    then show ?thesis
      unfolding ga dis using 3 sub ta un gb [of a] by auto
  next
    case 4
    then have e: "get_address addr = ''127.0.0.1:'' @ a"
      unfolding ga by simp
    show ?thesis
      unfolding e dis using 4 gb [OF cons [OF 4(1)]] nd [OF 4(1)] sp by (simp add: a_def [symmetric])
  next
    case 5
    have "a \<noteq> ListenDisabled"
      using 5(2) f0(4) by auto
    then show ?thesis
      unfolding ga dis using 5 sub ta gb [of a] by auto
  qed
qed

theorem get_address_normal_witness:
  "get_address '' 8080 '' = ''127.0.0.1:8080''"
proof -
  have "trim_space '' 8080 '' = ''8080''" "\<not> is_listen_disabled '' 8080 ''"
    by code_simp+
  then show ?thesis
    using get_address_normal [of "'' 8080 ''"] by simp
qed

text \<open>
  Opening a unix listener never takes a live agent's socket and never destroys a file that is
  not a socket: a path is removed only if it is a socket and dialling it failed, and a listener
  that is returned has had its permissions restricted; every failure after listening closes it.
\<close>

theorem open_listener_safe:
  "(RemoveSocket \<in> set (snd (open_listener sys addr))
      \<longrightarrow> os_stat sys = Inr True \<and> os_dial sys \<noteq> None \<and> fst (split_listen_address addr) = ''unix'')
    \<and> (fst (open_listener sys addr) = Inr () \<and> fst (split_listen_address addr) = ''unix''
      \<longrightarrow> ChmodSocket \<in> set (snd (open_listener sys addr)) \<and> CloseListener \<notin> set (snd (open_listener sys addr)))
    \<and> (ChmodSocket \<in> set (snd (open_listener sys addr)) \<and> fst (open_listener sys addr) \<noteq> Inr ()
      \<longrightarrow> CloseListener \<in> set (snd (open_listener sys addr)))"
  by (auto simp: open_listener_def prepare_unix_socket_def of_error_def Let_def
      split: prod.splits sum.splits option.splits if_splits)

theorem open_listener_safe_witness:
  "let sys = \<lparr>os_stat = Inr True, os_mkdir = None, os_dial = Some ErrDeadline, os_remove = None, os_listen = None,
       os_chmod = Some ErrPermission\<rparr>
   in CloseListener \<in> set (snd (open_listener sys ''/run/agent.sock''))"
proof -
  let ?sys = "\<lparr>os_stat = Inr True, os_mkdir = None, os_dial = Some ErrDeadline, os_remove = None, os_listen = None,
       os_chmod = Some ErrPermission\<rparr>"
  have "ChmodSocket \<in> set (snd (open_listener ?sys ''/run/agent.sock''))"
    "fst (open_listener ?sys ''/run/agent.sock'') \<noteq> Inr ()"
    by (simp_all add: open_listener_def prepare_unix_socket_def split_listen_address_def has_prefix_def of_error_def)
  then show ?thesis
    using open_listener_safe [of ?sys "''/run/agent.sock''"] unfolding Let_def by blast
qed

end
