(* ===== verification/Json_Over.thy ===== *)
theory Json_Over
  imports Json
begin

text \<open>
  Decoding over a value that is already there, as \<open>json.Unmarshal\<close> does when its target is not a
  zero value: \<open>null\<close> keeps the old value, and the first elements of an array are decoded over the
  elements that the slice's backing array holds.
\<close>

definition dec_str_over :: "string \<Rightarrow> json \<Rightarrow> string res" where
  "dec_str_over old j = (case j of JStr s \<Rightarrow> Inr s | JNull \<Rightarrow> Inr old | _ \<Rightarrow> Inl ErrJson)"

definition dec_bool_over :: "bool \<Rightarrow> json \<Rightarrow> bool res" where
  "dec_bool_over old j = (case j of JBool b \<Rightarrow> Inr b | JNull \<Rightarrow> Inr old | _ \<Rightarrow> Inl ErrJson)"

definition dec_int_over :: "int \<Rightarrow> json \<Rightarrow> int res" where
  "dec_int_over old j = (case j of JNull \<Rightarrow> Inr old | _ \<Rightarrow> dec_int 64 j)"

fun dec_elems_over :: "('a \<Rightarrow> json \<Rightarrow> 'a res) \<Rightarrow> 'a \<Rightarrow> 'a list \<Rightarrow> json list \<Rightarrow> 'a list res" where
  "dec_elems_over dec z olds [] = Inr []"
| "dec_elems_over dec z olds (j # js) =
     attempt (dec (case olds of [] \<Rightarrow> z | old # _ \<Rightarrow> old) j) (\<lambda>x.
     attempt (dec_elems_over dec z (case olds of [] \<Rightarrow> [] | _ # rest \<Rightarrow> rest) js) (\<lambda>xs. Inr (x # xs)))"

definition dec_slice_over :: "('a \<Rightarrow> json \<Rightarrow> 'a res) \<Rightarrow> 'a \<Rightarrow> 'a list \<Rightarrow> json \<Rightarrow> 'a list res" where
  "dec_slice_over dec z olds j = (case j of
     JNull \<Rightarrow> Inr [] | JArr js \<Rightarrow> dec_elems_over dec z olds js | _ \<Rightarrow> Inl ErrJson)"

definition dec_word_over :: "'n::len word \<Rightarrow> json \<Rightarrow> 'n word res" where
  "dec_word_over old j = (case j of JNull \<Rightarrow> Inr old | _ \<Rightarrow> dec_word j)"

text \<open>A struct: the body reads each field over the old one.\<close>

definition dec_struct_over :: "('a \<Rightarrow> (string \<times> json) list \<Rightarrow> 'a res) \<Rightarrow> 'a \<Rightarrow> json \<Rightarrow> 'a res" where
  "dec_struct_over body old = dec_struct (body old) old"

end
