(* ===== verification/Config.thy ===== *)
theory Config
  imports Listen Live_Cache Json_Over
begin

text \<open>
  \<open>internal/config/config.go\<close>: the configuration, how a file is decoded over the defaults, its
  validation and the operations of the command line, and \<open>appListenersFromConfig\<close> of
  \<open>cmd/root.go\<close>.  Durations are nanoseconds.  A Go map may be nil, which is \<open>None\<close>; assigning to
  it is a run-time panic, here the error \<open>nil_map_panic\<close>.  A nil list of listeners is the empty
  list (the code writes both as \<open>[]\<close>).  A JSON object that repeats a key is not modelled exactly.
\<close>

section \<open>Data\<close>

record listener =
  ls_name :: string
  ls_address :: string
  ls_apis :: "string list"
  ls_implicit :: bool

record config =
  cf_version :: int
  cf_listeners :: "listener list"
  cf_allow_remote_commands :: bool
  cf_collector_interval :: int
  cf_smart_refresh_interval :: int
  cf_history :: string
  cf_cache_ttl :: "(string, int) gmap option"

definition current_version :: int where "current_version = 1"

abbreviation (input) "APIKindMetrics \<equiv> ''metrics''"
abbreviation (input) "APIKindCommands \<equiv> ''commands''"

definition default_collector_interval :: int where "default_collector_interval = 15 * second"
definition default_smart_refresh_interval :: int where "default_smart_refresh_interval = hour"

text \<open>The path of the command socket depends on the user and the environment.\<close>

definition default_listeners :: "string \<Rightarrow> listener list" where
  "default_listeners socket_path =
     [\<lparr>ls_name = APIKindMetrics, ls_address = ''127.0.0.1:45876'', ls_apis = [APIKindMetrics], ls_implicit = True\<rparr>,
      \<lparr>ls_name = ''control'', ls_address = ''unix:'' @ socket_path, ls_apis = [APIKindCommands], ls_implicit = True\<rparr>]"

definition default_config :: "string \<Rightarrow> config" where
  "default_config socket_path = \<lparr>cf_version = current_version, cf_listeners = default_listeners socket_path,
     cf_allow_remote_commands = False, cf_collector_interval = default_collector_interval,
     cf_smart_refresh_interval = default_smart_refresh_interval,
     cf_history = join_with '','' default_history_plugin_names,
     cf_cache_ttl = Some default_live_current_ttls\<rparr>"

section \<open>Listeners\<close>

definition normalize_apis :: "string list \<Rightarrow> string list" where
  "normalize_apis apis = foldl (\<lambda>out api0. let api = to_lower (trim_space api0) in
     if api = [] \<or> api \<in> set out then out else out @ [api]) [] apis"

definition listener_has_api :: "listener \<Rightarrow> string \<Rightarrow> bool" where
  "listener_has_api l api = list_ex (\<lambda>v. equal_fold (trim_space v) api) (ls_apis l)"

definition ensure_api :: "string list \<Rightarrow> string \<Rightarrow> string list" where
  "ensure_api apis api =
     (if list_ex (\<lambda>v. equal_fold (trim_space v) api) apis then normalize_apis apis
      else normalize_apis apis @ [api])"

definition normalize_loaded_config :: "config \<Rightarrow> config" where
  "normalize_loaded_config cfg = cfg\<lparr>cf_listeners := map (\<lambda>l. l\<lparr>ls_name := trim_space (ls_name l),
     ls_address := trim_space (ls_address l), ls_apis := normalize_apis (ls_apis l)\<rparr>) (cf_listeners cfg)\<rparr>"

fun set_first_metrics :: "string \<Rightarrow> listener list \<Rightarrow> listener list option" where
  "set_first_metrics address [] = None"
| "set_first_metrics address (l # ls) =
     (if listener_has_api l APIKindMetrics
      then Some (l\<lparr>ls_address := address, ls_apis := ensure_api (ls_apis l) APIKindMetrics\<rparr> # ls)
      else map_option (\<lambda>ls'. l # ls') (set_first_metrics address ls))"

definition set_metrics_listener :: "string \<Rightarrow> config \<Rightarrow> config" where
  "set_metrics_listener listen cfg =
     (let normalized = get_address listen in
      if is_listen_disabled normalized
      then cfg\<lparr>cf_listeners := filter (\<lambda>l. \<not> listener_has_api l APIKindMetrics) (cf_listeners cfg)\<rparr>
      else case set_first_metrics normalized (cf_listeners cfg) of
        Some ls \<Rightarrow> cfg\<lparr>cf_listeners := ls\<rparr>
      | None \<Rightarrow> cfg\<lparr>cf_listeners := \<lparr>ls_name = APIKindMetrics, ls_address = normalized,
            ls_apis = [APIKindMetrics], ls_implicit = False\<rparr> # cf_listeners cfg\<rparr>)"

definition metrics_listener :: "config \<Rightarrow> listener option" where
  "metrics_listener cfg = find (\<lambda>l. listener_has_api l APIKindMetrics) (cf_listeners cfg)"

definition command_listener :: "config \<Rightarrow> listener option" where
  "command_listener cfg = find (\<lambda>l. listener_has_api l APIKindCommands) (cf_listeners cfg)"

record listener_options =
  lo_name :: string
  lo_address :: string
  lo_apis :: "string list"
  lo_best_effort :: bool

definition app_listeners_from_config :: "config \<Rightarrow> listener_options list" where
  "app_listeners_from_config cfg = map (\<lambda>l. \<lparr>lo_name = ls_name l, lo_address = get_address (ls_address l),
     lo_apis = ls_apis l, lo_best_effort = ls_implicit l\<rparr>) (cf_listeners cfg)"

section \<open>Validation\<close>

definition validate_cache_key :: "string \<Rightarrow> unit res" where
  "validate_cache_key key0 = (let key = to_lower (trim_space key0) in
     if key = LiveSystemSummaryKey \<or> is_plugin_name key then Inr ()
     else Inl (ErrText (''unknown cache_ttl key '' @ key)))"

definition normalize_listener_address :: "string \<Rightarrow> string" where
  "normalize_listener_address address =
     (let (network, addr) = split_listen_address (get_address address) in
      if network = ''unix'' then ''unix:'' @ addr
      else case split_host_port addr of
        None \<Rightarrow> ''tcp:'' @ addr
      | Some (host, port) \<Rightarrow> ''tcp:'' @ join_host_port host port)"

definition listener_is_non_loopback_tcp :: "string \<Rightarrow> bool" where
  "listener_is_non_loopback_tcp address =
     (let (network, addr) = split_listen_address (get_address address) in
      if network \<noteq> ''tcp'' then False
      else case split_host_port addr of
        None \<Rightarrow> True
      | Some (host0, _) \<Rightarrow>
          let host = trim_set ''[]'' host0; low = to_lower host in
          if low \<in> {''localhost'', ''127.0.0.1'', ''::1''} then False
          else if low \<in> {[], ''0.0.0.0'', ''::''} then True
          else case parse_ip host of None \<Rightarrow> True | Some ip \<Rightarrow> \<not> is_loopback ip)"

definition validate_listener_name :: "listener \<Rightarrow> string set \<Rightarrow> string set res" where
  "validate_listener_name l seen =
     (if trim_space (ls_name l) = [] then Inl (ErrText ''listener name cannot be empty'')
      else let name = to_lower (trim_space (ls_name l)) in
        if name \<in> seen then Inl (ErrText (''duplicate listener name '' @ ls_name l))
        else Inr (insert name seen))"

definition validate_listener_address :: "listener \<Rightarrow> string set \<Rightarrow> string set res" where
  "validate_listener_address l seen =
     (let address = trim_space (ls_address l) in
      if address = [] then Inl (ErrText ''listener address cannot be empty'')
      else if is_listen_disabled address then Inl (ErrText ''listener address cannot be disabled'')
      else let normalized = normalize_listener_address address in
        if normalized \<in> seen then Inl (ErrText (''duplicate listener address '' @ address))
        else Inr (insert normalized seen))"

definition validate_listener_apis :: "listener \<Rightarrow> bool \<Rightarrow> unit res" where
  "validate_listener_apis l allow_remote_commands =
     (if ls_apis l = [] then Inl (ErrText ''listener apis cannot be empty'')
      else if list_ex (\<lambda>api. to_lower (trim_space api) \<notin> {APIKindMetrics, APIKindCommands}) (ls_apis l)
      then Inl (ErrText ''listener apis contains unknown API'')
      else if listener_has_api l APIKindCommands \<and> \<not> allow_remote_commands
          \<and> listener_is_non_loopback_tcp (ls_address l)
      then Inl (ErrText ''commands on non-loopback TCP; set allow_remote_commands to true'')
      else Inr ())"

fun validate_listeners :: "bool \<Rightarrow> string set \<Rightarrow> string set \<Rightarrow> listener list \<Rightarrow> unit res" where
  "validate_listeners allow names addresses [] = Inr ()"
| "validate_listeners allow names addresses (l # ls) =
     attempt (validate_listener_name l names) (\<lambda>names'.
     attempt (validate_listener_address l addresses) (\<lambda>addresses'.
     attempt (validate_listener_apis l allow) (\<lambda>_.
     validate_listeners allow names' addresses' ls)))"

fun validate_ttls :: "(string, int) gmap \<Rightarrow> unit res" where
  "validate_ttls [] = Inr ()"
| "validate_ttls ((key, ttl) # m) =
     attempt (validate_cache_key key) (\<lambda>_.
     if ttl < 0 then Inl (ErrText (''cache_ttl must not be negative: '' @ key)) else validate_ttls m)"

definition validate :: "config \<Rightarrow> unit res" where
  "validate cfg =
     (if cf_version cfg \<noteq> current_version then Inl (ErrText ''unsupported config version'')
      else if cf_collector_interval cfg \<le> 0 then Inl (ErrText ''collector_interval must be greater than zero'')
      else if cf_smart_refresh_interval cfg \<le> 0 then Inl (ErrText ''smart_refresh_interval must be greater than zero'')
      else attempt (validate_listeners (cf_allow_remote_commands cfg) {} {} (cf_listeners cfg)) (\<lambda>_.
        attempt (validate_ttls (case cf_cache_ttl cfg of None \<Rightarrow> [] | Some m \<Rightarrow> m)) (\<lambda>_.
        attempt (parse_history_plugins (cf_history cfg) True (\<lambda>_. None)) (\<lambda>_. Inr ()))))"

section \<open>Changing a configuration\<close>

definition nil_map_panic :: go_error where
  "nil_map_panic = ErrText ''panic: assignment to entry in nil map''"

definition apply_env :: "env \<Rightarrow> config \<Rightarrow> config" where
  "apply_env env cfg =
     (let c1 = (case env ''HISTORY'' of None \<Rightarrow> cfg | Some v \<Rightarrow> cfg\<lparr>cf_history := v\<rparr>);
          c2 = (case env ''SMART_INTERVAL'' of None \<Rightarrow> c1
            | Some v \<Rightarrow> (case parse_duration (trim_space v) of
                None \<Rightarrow> c1 | Some d \<Rightarrow> if 0 < d then c1\<lparr>cf_smart_refresh_interval := d\<rparr> else c1));
          ttls = (case cf_cache_ttl c2 of None \<Rightarrow> [] | Some m \<Rightarrow> m)
      in c2\<lparr>cf_cache_ttl := Some (apply_live_current_ttl_env env ttls)\<rparr>)"

definition apply_cache_default :: "int \<Rightarrow> config \<Rightarrow> config" where
  "apply_cache_default ttl cfg = cfg\<lparr>cf_cache_ttl := map_option (set_all_ttls ttl) (cf_cache_ttl cfg)\<rparr>"

definition apply_cache_expensive :: "int \<Rightarrow> config \<Rightarrow> config res" where
  "apply_cache_expensive ttl cfg = (case cf_cache_ttl cfg of
     None \<Rightarrow> Inl nil_map_panic
   | Some m \<Rightarrow> Inr (cfg\<lparr>cf_cache_ttl := Some (set_ttls expensive_plugins ttl m)\<rparr>))"

definition set_cache_ttl :: "string \<Rightarrow> int \<Rightarrow> config \<Rightarrow> config res" where
  "set_cache_ttl key0 ttl cfg = (let key = to_lower (trim_space key0) in
     attempt (validate_cache_key key) (\<lambda>_.
     if ttl < 0 then Inl (ErrText ''cache TTL must not be negative'')
     else case cf_cache_ttl cfg of
       None \<Rightarrow> Inl nil_map_panic
     | Some m \<Rightarrow> Inr (cfg\<lparr>cf_cache_ttl := Some (mput key ttl m)\<rparr>)))"

definition cache_keys :: "string list" where
  "cache_keys = map fst (foldl (\<lambda>m key. mput key () m) [] (plugin_names @ [LiveSystemSummaryKey]))"

section \<open>Loading a file\<close>

text \<open>
  \<open>json.Unmarshal\<close> decodes over what the configuration holds already: a missing or null field
  keeps its value, an array's first elements are decoded into the elements that are there, an
  object adds to a map.
\<close>

definition dec_duration :: "json \<Rightarrow> int res" where
  "dec_duration j = (case j of
     JStr s \<Rightarrow> (case parse_duration (trim_space s) of
         None \<Rightarrow> Inl ErrJson
       | Some d \<Rightarrow> if d < 0 then Inl (ErrText ''duration must not be negative'') else Inr d)
   | _ \<Rightarrow> Inl ErrJson)"

definition zero_listener :: listener where
  "zero_listener = \<lparr>ls_name = [], ls_address = [], ls_apis = [], ls_implicit = False\<rparr>"

definition dec_listener_field :: "listener \<Rightarrow> string \<times> json \<Rightarrow> listener res" where
  "dec_listener_field l f = (case f of (key, j) \<Rightarrow>
     if key = ''name'' then attempt (dec_str_over (ls_name l) j) (\<lambda>v. Inr (l\<lparr>ls_name := v\<rparr>))
     else if key = ''address'' then attempt (dec_str_over (ls_address l) j) (\<lambda>v. Inr (l\<lparr>ls_address := v\<rparr>))
     else if key = ''apis'' then attempt (dec_slice_over dec_str_over [] (ls_apis l) j) (\<lambda>v. Inr (l\<lparr>ls_apis := v\<rparr>))
     else Inr l)"

definition dec_listener_over :: "listener \<Rightarrow> json \<Rightarrow> listener res" where
  "dec_listener_over old j = (case j of
     JNull \<Rightarrow> Inr old | JObj fs \<Rightarrow> fold_res dec_listener_field old (fold_keys fs) | _ \<Rightarrow> Inl ErrJson)"

definition dec_ttls_over :: "(string, int) gmap option \<Rightarrow> json \<Rightarrow> (string, int) gmap option res" where
  "dec_ttls_over old j = (case j of
     JNull \<Rightarrow> Inr None
   | JObj fs \<Rightarrow> attempt (fold_res (\<lambda>m (key, v). attempt (dec_duration v) (\<lambda>d. Inr (mput key d m)))
         (case old of None \<Rightarrow> [] | Some m \<Rightarrow> m) fs) (\<lambda>m. Inr (Some m))
   | _ \<Rightarrow> Inl ErrJson)"

definition dec_config_field :: "config \<Rightarrow> string \<times> json \<Rightarrow> config res" where
  "dec_config_field c f = (case f of (key, j) \<Rightarrow>
     if key = ''version'' then attempt (dec_int_over (cf_version c) j) (\<lambda>v. Inr (c\<lparr>cf_version := v\<rparr>))
     else if key = ''listeners'' then
       attempt (dec_slice_over dec_listener_over zero_listener (cf_listeners c) j) (\<lambda>v. Inr (c\<lparr>cf_listeners := v\<rparr>))
     else if key = ''allow_remote_commands'' then
       attempt (dec_bool_over (cf_allow_remote_commands c) j) (\<lambda>v. Inr (c\<lparr>cf_allow_remote_commands := v\<rparr>))
     else if key = ''collector_interval'' then attempt (dec_duration j) (\<lambda>v. Inr (c\<lparr>cf_collector_interval := v\<rparr>))
     else if key = ''smart_refresh_interval'' then
       attempt (dec_duration j) (\<lambda>v. Inr (c\<lparr>cf_smart_refresh_interval := v\<rparr>))
     else if key = ''history'' then attempt (dec_str_over (cf_history c) j) (\<lambda>v. Inr (c\<lparr>cf_history := v\<rparr>))
     else if key = ''cache_ttl'' then attempt (dec_ttls_over (cf_cache_ttl c) j) (\<lambda>v. Inr (c\<lparr>cf_cache_ttl := v\<rparr>))
     else Inr c)"

definition dec_config_over :: "config \<Rightarrow> json \<Rightarrow> config res" where
  "dec_config_over c j = (case j of
     JNull \<Rightarrow> Inr c | JObj fs \<Rightarrow> fold_res dec_config_field c (fold_keys fs) | _ \<Rightarrow> Inl ErrJson)"

text \<open>
  \<open>Load\<close>: the reading of the file is an argument (\<open>Inl\<close>: its error).  The result says whether a
  file was loaded.
\<close>

definition load_config :: "string \<Rightarrow> (go_error + jtext) \<Rightarrow> (config \<times> bool) res" where
  "load_config socket_path file = (case file of
     Inl e \<Rightarrow> if err_is ErrNotExist e then Inr (default_config socket_path, False) else Inl e
   | Inr raw \<Rightarrow>
       attempt (unmarshal (dec_config_over (default_config socket_path)) raw) (\<lambda>c0.
       let c = normalize_loaded_config c0 in
       attempt (map_res (\<lambda>(key, _). validate_cache_key key) (case cf_cache_ttl c of None \<Rightarrow> [] | Some m \<Rightarrow> m)) (\<lambda>_.
       Inr (c, True))))"

section \<open>What a valid configuration is\<close>

text \<open>An address that only this host can reach: a unix socket, or a host that is \<open>localhost\<close> or a loopback IP.\<close>

definition loopback_host :: "string \<Rightarrow> bool" where
  "loopback_host host = (to_lower host = ''localhost''
     \<or> (case parse_ip host of None \<Rightarrow> False | Some ip \<Rightarrow> is_loopback ip))"

definition local_only :: "string \<Rightarrow> bool" where
  "local_only address = (case split_listen_address address of (network, addr) \<Rightarrow>
     network = ''unix'' \<or> (case split_host_port addr of
       None \<Rightarrow> False | Some (host, port) \<Rightarrow> loopback_host (trim_set ''[]'' host)))"

definition api_set :: "string list \<Rightarrow> string set" where
  "api_set apis = (\<lambda>api. to_lower (trim_space api)) ` set apis"

definition listener_key :: "listener \<Rightarrow> string" where
  "listener_key l = to_lower (trim_space (ls_name l))"

definition valid_listener :: "bool \<Rightarrow> listener \<Rightarrow> bool" where
  "valid_listener allow l = (listener_key l \<noteq> [] \<and> trim_space (ls_address l) \<noteq> []
     \<and> \<not> is_listen_disabled (ls_address l) \<and> ls_apis l \<noteq> []
     \<and> api_set (ls_apis l) \<subseteq> {''metrics'', ''commands''}
     \<and> (''commands'' \<in> api_set (ls_apis l) \<longrightarrow> allow \<or> local_only (get_address (ls_address l))))"

definition valid_config :: "config \<Rightarrow> bool" where
  "valid_config cfg = (cf_version cfg = 1 \<and> 0 < cf_collector_interval cfg \<and> 0 < cf_smart_refresh_interval cfg
     \<and> distinct (map listener_key (cf_listeners cfg))
     \<and> distinct (map (\<lambda>l. normalize_listener_address (ls_address l)) (cf_listeners cfg))
     \<and> (\<forall>l \<in> set (cf_listeners cfg). valid_listener (cf_allow_remote_commands cfg) l)
     \<and> (\<forall>(key, ttl) \<in> set (case cf_cache_ttl cfg of None \<Rightarrow> [] | Some m \<Rightarrow> m).
          to_lower (trim_space key) \<in> insert ''system_summary'' (set plugin_names) \<and> 0 \<le> ttl)
     \<and> (to_lower (trim_space (cf_history cfg)) \<in> {[], ''all'', ''none''}
        \<or> (\<forall>p \<in> set (split_on (CHR '','') (to_lower (trim_space (cf_history cfg)))).
             trim_space p = [] \<or> trim_space p \<in> set plugin_names)))"

lemma listener_has_api_iff: "to_lower api = api \<Longrightarrow> listener_has_api l api \<longleftrightarrow> api \<in> api_set (ls_apis l)"
  unfolding listener_has_api_def api_set_def equal_fold_def list_ex_iff by force

lemma loopback_literals:
  "loopback_host ''localhost'' \<and> loopback_host ''127.0.0.1'' \<and> loopback_host ''::1''"
  "\<not> loopback_host [] \<and> \<not> loopback_host ''0.0.0.0'' \<and> \<not> loopback_host ''::''"
  by code_simp+

lemma lower_char_special: "lower_char c = d \<Longrightarrow> \<not> (97 \<le> (of_char d :: nat) \<and> (of_char d :: nat) \<le> 122) \<Longrightarrow> c = d"
  by (auto simp: lower_char_def Let_def of_char_of split: if_splits)

lemma to_lower_fixed:
  "to_lower s = t \<Longrightarrow> list_all (\<lambda>d. \<not> (97 \<le> (of_char d :: nat) \<and> (of_char d :: nat) \<le> 122)) t \<Longrightarrow> s = t"
  by (induction s arbitrary: t) (auto simp: to_lower_def lower_char_special)

lemma non_loopback_iff: "listener_is_non_loopback_tcp address \<longleftrightarrow> \<not> local_only (get_address address)"
proof -
  have lit: "to_lower h \<in> {''localhost'', ''127.0.0.1'', ''::1''} \<Longrightarrow> loopback_host h"
    "to_lower h \<in> {[], ''0.0.0.0'', ''::''} \<Longrightarrow> \<not> loopback_host h" for h
  proof -
    assume "to_lower h \<in> {''localhost'', ''127.0.0.1'', ''::1''}"
    then consider "to_lower h = ''localhost''" | "h = ''127.0.0.1''" | "h = ''::1''"
      using to_lower_fixed [of h "''127.0.0.1''"] to_lower_fixed [of h "''::1''"] by auto
    then show "loopback_host h"
      using loopback_literals(1) by cases (simp_all add: loopback_host_def [of h])
  next
    assume "to_lower h \<in> {[], ''0.0.0.0'', ''::''}"
    then consider "h = []" | "h = ''0.0.0.0''" | "h = ''::''"
      using to_lower_fixed [of h "''0.0.0.0''"] to_lower_fixed [of h "''::''"] by (auto simp: to_lower_def)
    then show "\<not> loopback_host h"
      using loopback_literals(2) by cases simp_all
  qed
  have else: "to_lower h \<notin> {''localhost'', ''127.0.0.1'', ''::1''} \<Longrightarrow> to_lower h \<notin> {[], ''0.0.0.0'', ''::''} \<Longrightarrow>
     loopback_host h = (case parse_ip h of None \<Rightarrow> False | Some ip \<Rightarrow> is_loopback ip)" for h
    by (simp add: loopback_host_def)
  have net: "fst (split_listen_address a) = ''tcp'' \<longleftrightarrow> fst (split_listen_address a) \<noteq> ''unix''" for a
    by (simp add: split_listen_address_def)
  obtain network addr where sp: "split_listen_address (get_address address) = (network, addr)"
    by (cases "split_listen_address (get_address address)")
  have n: "network = ''tcp'' \<longleftrightarrow> network \<noteq> ''unix''"
    using net [of "get_address address"] sp by simp
  show ?thesis
  proof (cases "network = ''tcp''")
    case False
    then show ?thesis using n by (simp add: listener_is_non_loopback_tcp_def local_only_def sp)
  next
    case True
    show ?thesis
    proof (cases "split_host_port addr")
      case None
      then show ?thesis using True n by (simp add: listener_is_non_loopback_tcp_def local_only_def sp)
    next
      case (Some hp)
      obtain host port where hp: "hp = (host, port)" by (cases hp)
      define h where "h = trim_set ''[]'' host"
      have L: "local_only (get_address address) = loopback_host h"
        using True Some hp n by (simp add: local_only_def sp h_def)
      have R: "listener_is_non_loopback_tcp address = (if to_lower h \<in> {''localhost'', ''127.0.0.1'', ''::1''} then False
          else if to_lower h \<in> {[], ''0.0.0.0'', ''::''} then True
          else case parse_ip h of None \<Rightarrow> True | Some ip \<Rightarrow> \<not> is_loopback ip)"
        using True Some hp by (simp add: listener_is_non_loopback_tcp_def sp h_def Let_def del: insert_iff)
      show ?thesis
        unfolding L R using lit [of h] else [of h] by (simp del: insert_iff split: option.splits)
    qed
  qed
qed

lemma attempt_unit_Inr: "attempt r (\<lambda>_. x) = Inr () \<longleftrightarrow> (\<exists>a. r = Inr a) \<and> x = Inr ()"
  by (cases r) auto

lemma validate_listener_name_iff:
  "validate_listener_name l seen = Inr r \<longleftrightarrow> listener_key l \<noteq> [] \<and> listener_key l \<notin> seen \<and> r = insert (listener_key l) seen"
  by (auto simp: validate_listener_name_def listener_key_def Let_def to_lower_def)

lemma validate_listener_address_iff:
  "validate_listener_address l seen = Inr r \<longleftrightarrow> trim_space (ls_address l) \<noteq> [] \<and> \<not> is_listen_disabled (ls_address l)
     \<and> normalize_listener_address (ls_address l) \<notin> seen \<and> r = insert (normalize_listener_address (ls_address l)) seen"
proof -
  have "is_listen_disabled (trim_space a) = is_listen_disabled a" "get_address (trim_space a) = get_address a" for a
    by (simp_all add: is_listen_disabled_def get_address_def)
  then show ?thesis
    by (auto simp: validate_listener_address_def normalize_listener_address_def Let_def)
qed

lemma validate_listener_apis_iff:
  "validate_listener_apis l allow = Inr u \<longleftrightarrow> ls_apis l \<noteq> [] \<and> api_set (ls_apis l) \<subseteq> {''metrics'', ''commands''}
     \<and> (''commands'' \<in> api_set (ls_apis l) \<longrightarrow> allow \<or> local_only (get_address (ls_address l)))"
proof -
  have "to_lower ''commands'' = ''commands''"
    by code_simp
  note a = listener_has_api_iff [OF this]
  have "list_ex (\<lambda>api. to_lower (trim_space api) \<notin> {APIKindMetrics, APIKindCommands}) apis
      \<longleftrightarrow> \<not> api_set apis \<subseteq> {''metrics'', ''commands''}" for apis
    by (auto simp: api_set_def list_ex_iff)
  then show ?thesis
    unfolding validate_listener_apis_def a non_loopback_iff by auto
qed

lemma validate_listeners_iff:
  "validate_listeners allow names addresses ls = Inr () \<longleftrightarrow>
     distinct (map listener_key ls) \<and> listener_key ` set ls \<inter> names = {}
     \<and> distinct (map (\<lambda>l. normalize_listener_address (ls_address l)) ls)
     \<and> (\<lambda>l. normalize_listener_address (ls_address l)) ` set ls \<inter> addresses = {}
     \<and> (\<forall>l \<in> set ls. valid_listener allow l)"
proof (induction allow names addresses ls rule: validate_listeners.induct)
  case (1 allow names addresses)
  then show ?case by simp
next
  case (2 allow names addresses l ls)
  have "validate_listeners allow names addresses (l # ls) = Inr () \<longleftrightarrow>
      validate_listener_name l names = Inr (insert (listener_key l) names)
      \<and> validate_listener_address l addresses = Inr (insert (normalize_listener_address (ls_address l)) addresses)
      \<and> validate_listener_apis l allow = Inr ()
      \<and> validate_listeners allow (insert (listener_key l) names)
          (insert (normalize_listener_address (ls_address l)) addresses) ls = Inr ()"
    by (auto simp: attempt_Inr_iff validate_listener_name_iff validate_listener_address_iff)
  also have "\<dots> \<longleftrightarrow> listener_key l \<notin> names \<and> normalize_listener_address (ls_address l) \<notin> addresses
      \<and> valid_listener allow l \<and> validate_listeners allow (insert (listener_key l) names)
          (insert (normalize_listener_address (ls_address l)) addresses) ls = Inr ()"
    unfolding validate_listener_name_iff validate_listener_address_iff validate_listener_apis_iff valid_listener_def
    by blast
  finally show ?case
    unfolding "2.IH" by auto
qed

lemma validate_ttls_iff:
  "validate_ttls m = Inr () \<longleftrightarrow>
     (\<forall>(key, ttl) \<in> set m. to_lower (trim_space key) \<in> insert ''system_summary'' (set plugin_names) \<and> 0 \<le> ttl)"
  by (induction m rule: validate_ttls.induct)
     (auto simp: attempt_unit_Inr validate_cache_key_def Let_def is_plugin_name_def)

lemma parse_history_ok_iff:
  "(\<exists>ps. parse_history_plugins raw True env = Inr ps) \<longleftrightarrow>
     to_lower (trim_space raw) \<in> {[], ''all'', ''none''}
     \<or> (\<forall>p \<in> set (split_on (CHR '','') (to_lower (trim_space raw))).
          trim_space p = [] \<or> trim_space p \<in> set plugin_names)"
proof -
  have "(\<exists>ps. collect_plugins [] parts = Inr ps) \<longleftrightarrow>
      (\<forall>p \<in> set parts. trim_space p = [] \<or> trim_space p \<in> set plugin_names)" for parts
    using collect_plugins_error [of "[]" parts] unfolding is_plugin_name_def
    by (cases "collect_plugins [] parts") auto
  then show ?thesis
    by (auto simp: parse_history_plugins_def Let_def to_lower_def)
qed

lemma validate_iff: "validate cfg = Inr () \<longleftrightarrow> valid_config cfg"
  unfolding validate_def valid_config_def
  by (auto simp add: attempt_unit_Inr validate_listeners_iff validate_ttls_iff parse_history_ok_iff current_version_def)

lemma normalize_apis_props:
  "distinct (normalize_apis apis) \<and> set (normalize_apis apis) = api_set apis - {[]}"
proof -
  let ?f = "\<lambda>out api0. let api = to_lower (trim_space api0) in if api = [] \<or> api \<in> set out then out else out @ [api]"
  have "distinct out \<Longrightarrow> distinct (foldl ?f out apis) \<and> set (foldl ?f out apis) = set out \<union> (api_set apis - {[]})" for out
  proof (induction apis arbitrary: out)
    case (Cons a apis)
    have "distinct (?f out a)" "set (?f out a) = set out \<union> ({to_lower (trim_space a)} - {[]})"
      using Cons.prems by (auto simp: Let_def)
    with Cons.IH [of "?f out a"] show ?case
      by (simp add: api_set_def) blast
  qed (simp add: api_set_def)
  from this [of "[]"] show ?thesis
    by (simp add: normalize_apis_def)
qed

lemma trim_lower_fixed: "x \<in> api_set apis \<Longrightarrow> to_lower (trim_space x) = x"
  by (auto simp: api_set_def to_lower_trim)

lemma api_set_normalize: "api_set (normalize_apis apis) = api_set apis - {[]}"
  unfolding api_set_def [of "normalize_apis apis"] using normalize_apis_props [of apis] trim_lower_fixed [of _ apis]
  by (force simp: image_iff)

lemma lower_metrics: "to_lower ''metrics'' = ''metrics''" "to_lower ''commands'' = ''commands''"
  "trim_space ''metrics'' = ''metrics''"
  by code_simp+

lemmas has_metrics_iff = listener_has_api_iff [OF lower_metrics(1)]
lemmas has_commands_iff = listener_has_api_iff [OF lower_metrics(2)]

lemma api_set_ensure: "api_set (ensure_api apis ''metrics'') = insert ''metrics'' (api_set apis - {[]})"
proof -
  have l: "list_ex (\<lambda>v. equal_fold (trim_space v) ''metrics'') apis \<longleftrightarrow> ''metrics'' \<in> api_set apis"
    using has_metrics_iff [of "\<lparr>ls_name = [], ls_address = [], ls_apis = apis, ls_implicit = False\<rparr>"]
    by (simp add: listener_has_api_def)
  have a: "api_set (xs @ ys) = api_set xs \<union> api_set ys" for xs ys
    by (auto simp: api_set_def)
  show ?thesis
    unfolding ensure_api_def l
    by (auto simp: api_set_normalize a) (auto simp: api_set_def lower_metrics)
qed

lemma set_first_metrics_None: "set_first_metrics a ls = None \<longleftrightarrow> filter (\<lambda>l. listener_has_api l ''metrics'') ls = []"
  by (induction ls) auto

lemma set_first_metrics_Some:
  "set_first_metrics a ls = Some ls' \<Longrightarrow>
     (\<exists>l. find (\<lambda>l. listener_has_api l ''metrics'') ls' = Some l \<and> ls_address l = a)
     \<and> filter (\<lambda>l. \<not> listener_has_api l ''metrics'') ls' = filter (\<lambda>l. \<not> listener_has_api l ''metrics'') ls"
proof (induction ls arbitrary: ls')
  case (Cons l ls)
  have m: "listener_has_api (l\<lparr>ls_address := a, ls_apis := ensure_api (ls_apis l) ''metrics''\<rparr>) ''metrics''"
    unfolding has_metrics_iff by (simp add: api_set_ensure)
  show ?case
  proof (cases "listener_has_api l ''metrics''")
    case True
    then show ?thesis using Cons.prems m by auto
  next
    case False
    then show ?thesis using Cons by auto
  qed
qed simp

lemma get_address_disabled: "is_listen_disabled (get_address addr) = is_listen_disabled addr"
proof -
  define a where "a = trim_space addr"
  have s: "is_listen_disabled addr = is_listen_disabled a"
    by (simp add: is_listen_disabled_def a_def)
  have g: "get_address addr = (if a = [] then ''127.0.0.1:45876'' else if is_listen_disabled a then ''none''
      else if fst (split_listen_address a) = ''unix'' then a
      else if CHR '':'' \<notin> set a then ''127.0.0.1:'' @ a else a)"
    by (simp add: get_address_def a_def Let_def is_listen_disabled_def)
  have f: "\<not> is_listen_disabled []" "is_listen_disabled ''none''" "\<not> is_listen_disabled ''127.0.0.1:45876''"
    by code_simp+
  have "\<not> is_listen_disabled (''127.0.0.1:'' @ a)" if "a \<noteq> []"
  proof -
    have "trim_space (''127.0.0.1:'' @ a) = ''127.0.0.1:'' @ a"
      using that trim_space_ends [of addr] by (intro trim_space_fix) (simp_all add: a_def [symmetric] is_space_def)
    then show ?thesis by (simp add: is_listen_disabled_def to_lower_def lower_char_def)
  qed
  then show ?thesis
    unfolding s g using f by auto
qed

text \<open>
  Changing the metrics listener from the command line does exactly that: afterwards the configuration
  has no metrics listener if the address is one of the words that disable it, and otherwise its first metrics
  listener has the normalised address; no listener without the metrics API and no other setting changes.
\<close>

theorem set_metrics_listener_spec:
  "(if is_listen_disabled listen then metrics_listener (set_metrics_listener listen cfg) = None
    else map_option ls_address (metrics_listener (set_metrics_listener listen cfg)) = Some (get_address listen))
   \<and> filter (\<lambda>l. ''metrics'' \<notin> api_set (ls_apis l)) (cf_listeners (set_metrics_listener listen cfg))
      = filter (\<lambda>l. ''metrics'' \<notin> api_set (ls_apis l)) (cf_listeners cfg)
   \<and> (set_metrics_listener listen cfg)\<lparr>cf_listeners := cf_listeners cfg\<rparr> = cfg"
proof (cases "is_listen_disabled listen")
  case True
  then show ?thesis
    unfolding set_metrics_listener_def Let_def get_address_disabled
    by (simp add: metrics_listener_def find_None_iff has_metrics_iff)
next
  case False
  have m: "listener_has_api \<lparr>ls_name = n, ls_address = a, ls_apis = [''metrics''], ls_implicit = b\<rparr> ''metrics''" for n a b
    unfolding has_metrics_iff by (simp add: api_set_def lower_metrics)
  show ?thesis
  proof (cases "set_first_metrics (get_address listen) (cf_listeners cfg)")
    case None
    then show ?thesis
      unfolding set_metrics_listener_def Let_def get_address_disabled has_metrics_iff [symmetric]
      using False m by (simp add: metrics_listener_def)
  next
    case (Some ls)
    then show ?thesis
      unfolding set_metrics_listener_def Let_def get_address_disabled has_metrics_iff [symmetric]
      using False set_first_metrics_Some [OF Some] by (auto simp: metrics_listener_def)
  qed
qed

text \<open>
  C37: \<open>Validate\<close> accepts exactly the valid configurations: version 1, positive intervals, names that are
  distinct up to case, addresses that are distinct once normalised, known APIs, commands only on local
  addresses unless remote commands are allowed, known cache keys with non-negative times, known history plugins.
\<close>

theorem validate_exact: "validate cfg = Inr () \<longleftrightarrow> valid_config cfg"
  by (rule validate_iff)

text \<open>
  C3: The agent never serves the command API to the network by accident: of the listeners that the agent is
  started with from a validated configuration that does not allow remote commands, one that has the
  commands API listens on a unix socket or on a loopback host.
\<close>

theorem commands_stay_local:
  assumes "validate cfg = Inr ()" "\<not> cf_allow_remote_commands cfg"
    and "lo \<in> set (app_listeners_from_config cfg)" "''commands'' \<in> api_set (lo_apis lo)"
  shows "local_only (lo_address lo)"
proof -
  obtain l where l: "l \<in> set (cf_listeners cfg)" "lo_address lo = get_address (ls_address l)" "lo_apis lo = ls_apis l"
    using assms(3) by (auto simp: app_listeners_from_config_def)
  have "valid_listener False l"
    using assms(1,2) l(1) unfolding validate_iff valid_config_def by auto
  then show ?thesis
    using assms(4) l(2,3) by (simp add: valid_listener_def)
qed

definition sample_config :: config where
  "sample_config = (default_config ''/run/go-monitoring/agent.sock'')\<lparr>cf_listeners :=
     [\<lparr>ls_name = ''all'', ls_address = ''127.0.0.1:9000'', ls_apis = [''metrics'', '' Commands''], ls_implicit = False\<rparr>]\<rparr>"

theorem commands_stay_local_witness:
  "local_only ''127.0.0.1:9000''"
proof -
  have "isl (validate sample_config) = False"
    by code_simp
  then have "validate sample_config = Inr ()"
    by (cases "validate sample_config") auto
  moreover have "app_listeners_from_config sample_config = [\<lparr>lo_name = ''all'', lo_address = ''127.0.0.1:9000'',
      lo_apis = [''metrics'', '' Commands''], lo_best_effort = False\<rparr>]"
    by (simp add: sample_config_def default_config_def app_listeners_from_config_def) code_simp
  moreover have "''commands'' \<in> api_set [''metrics'', '' Commands'']"
    by code_simp
  ultimately show ?thesis
    using commands_stay_local [of sample_config "\<lparr>lo_name = ''all'', lo_address = ''127.0.0.1:9000'',
      lo_apis = [''metrics'', '' Commands''], lo_best_effort = False\<rparr>"]
    by (simp add: sample_config_def default_config_def)
qed

section \<open>What loading does\<close>

lemma dec_listener_keeps_implicit: "dec_listener_over old j = Inr l \<Longrightarrow> ls_implicit l = ls_implicit old"
proof (cases j)
  case (JObj fs)
  assume "dec_listener_over old j = Inr l"
  then have f: "fold_res dec_listener_field old (fold_keys fs) = Inr l"
    using JObj by (simp add: dec_listener_over_def)
  show ?thesis
    by (rule fold_res_invariant [OF f, where I = "\<lambda>l. ls_implicit l = ls_implicit old"])
       (auto simp: dec_listener_field_def attempt_Inr_iff split: if_splits)
qed (auto simp: dec_listener_over_def)

lemma dec_elems_over_implicit:
  "dec_elems_over dec_listener_over zero_listener olds js = Inr ls \<Longrightarrow> length ls = length js
     \<and> map ls_implicit ls = take (length js) (map ls_implicit olds) @ replicate (length js - length olds) False"
proof (induction dec_listener_over zero_listener olds js arbitrary: ls rule: dec_elems_over.induct)
  case (1 olds)
  then show ?case by simp
next
  case (2 olds j js)
  obtain l rest where d: "dec_listener_over (case olds of [] \<Rightarrow> zero_listener | old # _ \<Rightarrow> old) j = Inr l"
      "dec_elems_over dec_listener_over zero_listener (case olds of [] \<Rightarrow> [] | _ # r \<Rightarrow> r) js = Inr rest" "ls = l # rest"
    using "2.prems" by (auto simp: attempt_Inr_iff)
  have "length rest = length js \<and> map ls_implicit rest = take (length js) (map ls_implicit (case olds of [] \<Rightarrow> [] | _ # r \<Rightarrow> r))
      @ replicate (length js - length (case olds of [] \<Rightarrow> [] | _ # r \<Rightarrow> r)) False"
    by (rule "2.hyps" [OF d(2)])
  moreover have "ls_implicit l = ls_implicit (case olds of [] \<Rightarrow> zero_listener | old # _ \<Rightarrow> old)"
    by (rule dec_listener_keeps_implicit [OF d(1)])
  ultimately show ?case
    unfolding d(3) by (cases olds) (auto simp: zero_listener_def replicate_append_same)
qed

lemma dec_config_field_listeners:
  "dec_config_field c (k, j) = Inr c' \<Longrightarrow> k \<noteq> ''listeners'' \<Longrightarrow> cf_listeners c' = cf_listeners c"
  by (auto simp: dec_config_field_def attempt_Inr_iff split: if_splits)

lemma fold_config_listeners:
  "fold_res dec_config_field c (fold_keys fs) = Inr c' \<Longrightarrow> \<forall>f \<in> set fs. to_lower (fst f) \<noteq> ''listeners'' \<Longrightarrow>
     cf_listeners c' = cf_listeners c"
proof (induction fs arbitrary: c)
  case (Cons f fs)
  then obtain c1 where "dec_config_field c (to_lower (fst f), snd f) = Inr c1"
      "fold_res dec_config_field c1 (fold_keys fs) = Inr c'"
    by (auto simp: fold_keys_def attempt_Inr_iff case_prod_unfold)
  then show ?case
    using Cons dec_config_field_listeners by fastforce
qed (simp add: fold_keys_def)

text \<open>
  Loading decodes over the defaults, so the first two listeners of a file inherit what the file cannot
  say: whatever they are, they are marked implicit like the two default listeners, and the agent starts
  with those two, and only those two, as best effort.
\<close>

theorem load_inherits_implicit:
  assumes "load_config sock (Inr (JText (JObj (before @ (''listeners'', JArr js) # after)))) = Inr (cfg, b)"
    and "\<forall>f \<in> set (before @ after). to_lower (fst f) \<noteq> ''listeners''"
  shows "map lo_best_effort (app_listeners_from_config cfg)
    = take (length js) [True, True] @ replicate (length js - 2) False"
proof -
  have low: "to_lower ''listeners'' = ''listeners''"
    by code_simp
  obtain c0 where c0: "fold_res dec_config_field (default_config sock) (fold_keys (before @ (''listeners'', JArr js) # after)) = Inr c0"
      and cfg: "cfg = normalize_loaded_config c0"
    using assms(1) by (auto simp: load_config_def dec_config_over_def attempt_Inr_iff Let_def)
  obtain c1 c2 where c1: "fold_res dec_config_field (default_config sock) (fold_keys before) = Inr c1"
      and c2: "dec_config_field c1 (''listeners'', JArr js) = Inr c2"
      and c3: "fold_res dec_config_field c2 (fold_keys after) = Inr c0"
    using c0 by (auto simp: fold_keys_def fold_res_append attempt_Inr_iff low)
  have "cf_listeners c1 = default_listeners sock"
    using fold_config_listeners [OF c1] assms(2) by (simp add: default_config_def)
  then have "dec_elems_over dec_listener_over zero_listener (default_listeners sock) js = Inr (cf_listeners c2)"
    using c2 by (auto simp: dec_config_field_def dec_slice_over_def attempt_Inr_iff)
  from dec_elems_over_implicit [OF this]
  have "map ls_implicit (cf_listeners c2) = take (length js) [True, True] @ replicate (length js - 2) False"
    by (simp add: default_listeners_def)
  moreover have "cf_listeners c0 = cf_listeners c2"
    using fold_config_listeners [OF c3] assms(2) by simp
  ultimately show ?thesis
    unfolding cfg by (simp add: app_listeners_from_config_def normalize_loaded_config_def comp_def)
qed

definition sample_file :: json where
  "sample_file = JObj [(''version'', JInt 1), (''listeners'', JArr [JObj [(''name'', JStr ''lan''),
     (''address'', JStr ''0.0.0.0:9000''), (''apis'', JArr [JStr ''metrics''])]])]"

theorem load_inherits_implicit_witness:
  "\<exists>cfg. load_config ''/s'' (Inr (JText sample_file)) = Inr (cfg, True)
    \<and> map lo_best_effort (app_listeners_from_config cfg) = [True]"
proof -
  have "\<not> isl (load_config ''/s'' (Inr (JText sample_file))) \<and> snd (projr (load_config ''/s'' (Inr (JText sample_file))))"
    by code_simp
  then obtain cfg where c: "load_config ''/s'' (Inr (JText sample_file)) = Inr (cfg, True)"
    by (cases "load_config ''/s'' (Inr (JText sample_file))") auto
  have lo: "to_lower ''version'' \<noteq> ''listeners''"
    by code_simp
  have "sample_file = JObj ([(''version'', JInt 1)] @ (''listeners'', JArr [JObj [(''name'', JStr ''lan''),
     (''address'', JStr ''0.0.0.0:9000''), (''apis'', JArr [JStr ''metrics''])]]) # [])"
    by (simp add: sample_file_def)
  note l = c [unfolded this]
  show ?thesis
    using load_inherits_implicit [OF l] lo c by auto
qed

text \<open>Two consequences of the decoding that the command line then meets.\<close>

lemma null_cache_ttl_panics:
  "case load_config ''/s'' (Inr (JText (JObj [(''cache_ttl'', JNull)]))) of
     Inl _ \<Rightarrow> False
   | Inr (cfg, _) \<Rightarrow> \<not> isl (validate cfg) \<and> apply_cache_expensive second cfg = Inl nil_map_panic"
  by code_simp

lemma mixed_case_ttl_ignored:
  "case load_config ''/s'' (Inr (JText (JObj [(''cache_ttl'', JObj [('' CPU'', JStr ''9s'')])]))) of
     Inl _ \<Rightarrow> False
   | Inr (cfg, _) \<Rightarrow> \<not> isl (validate cfg) \<and>
       live_ttl \<lparr>lv_cache = Map.empty, lv_ttls = the (cf_cache_ttl cfg)\<rparr> ''cpu'' = 2 * second"
  by code_simp

end
