(* ===== verification/Go_Text.thy ===== *)
theory Go_Text
  imports Golib
begin

text \<open>
  More of Go's standard library on text: separators of several bytes, \<open>path/filepath\<close> on unix and
  the globs of \<open>path.Match\<close>.
\<close>

section \<open>Substrings\<close>

text \<open>\<open>strings.Split\<close> at a separator of several bytes; \<open>skip\<close> counts the bytes of it still to pass.\<close>

fun split_str_aux :: "string \<Rightarrow> nat \<Rightarrow> string \<Rightarrow> string \<Rightarrow> string list" where
  "split_str_aux sep skip acc [] = [rev acc]"
| "split_str_aux sep skip acc (c # cs) =
     (if 0 < skip then split_str_aux sep (skip - 1) acc cs
      else if has_prefix sep (c # cs) then rev acc # split_str_aux sep (length sep - 1) [] cs
      else split_str_aux sep 0 (c # acc) cs)"

definition split_str :: "string \<Rightarrow> string \<Rightarrow> string list" where
  "split_str sep s = split_str_aux sep 0 [] s"

text \<open>\<open>strings.Cut\<close> at a separator of several bytes.\<close>

fun cut_str :: "string \<Rightarrow> string \<Rightarrow> (string \<times> string) option" where
  "cut_str sep [] = (if sep = [] then Some ([], []) else None)"
| "cut_str sep (c # cs) =
     (if has_prefix sep (c # cs) then Some ([], drop (length sep) (c # cs))
      else map_option (\<lambda>(a, b). (c # a, b)) (cut_str sep cs))"

definition contains_str :: "string \<Rightarrow> string \<Rightarrow> bool" where
  "contains_str sub s = (cut_str sub s \<noteq> None)"

text \<open>\<open>strings.Replace(s, old, new, 1)\<close>.\<close>

definition replace_first :: "string \<Rightarrow> string \<Rightarrow> string \<Rightarrow> string" where
  "replace_first old new s = (case cut_str old s of None \<Rightarrow> s | Some (a, b) \<Rightarrow> a @ new @ b)"

definition trim_prefix :: "string \<Rightarrow> string \<Rightarrow> string" where
  "trim_prefix p s = (if has_prefix p s then drop (length p) s else s)"

definition trim_suffix :: "string \<Rightarrow> string \<Rightarrow> string" where
  "trim_suffix p s = (if has_suffix p s then take (length s - length p) s else s)"

section \<open>bufio\<close>

text \<open>\<open>bufio.Scanner\<close>: the lines without their newline and one trailing carriage return.\<close>

definition drop_cr :: "string \<Rightarrow> string" where
  "drop_cr line = (if line \<noteq> [] \<and> last line = CHR 0x0D then butlast line else line)"

definition scan_lines :: "string \<Rightarrow> string list" where
  "scan_lines s = (let ls = split_on (CHR 0x0A) s in
     map drop_cr (if last ls = [] then butlast ls else ls))"

section \<open>path/filepath\<close>

text \<open>\<open>filepath.Base\<close>.\<close>

definition path_base :: "string \<Rightarrow> string" where
  "path_base path =
     (if path = [] then ''.''
      else let t = dropWhile (\<lambda>c. c = CHR ''/'') (rev path);
               b = rev (takeWhile (\<lambda>c. c \<noteq> CHR ''/'') t)
           in if b = [] then ''/'' else b)"

text \<open>
  \<open>filepath.Clean\<close> reads the elements from the left; \<open>stack\<close> holds, in reverse, those that are
  kept.  A rooted path never backs up beyond its root.
\<close>

definition clean_element :: "bool \<Rightarrow> string list \<Rightarrow> string \<Rightarrow> string list" where
  "clean_element rooted stack e =
     (if e = [] \<or> e = ''.'' then stack
      else if e = ''..''
      then (if stack \<noteq> [] \<and> hd stack \<noteq> ''..'' then tl stack
            else if rooted then stack else e # stack)
      else e # stack)"

definition path_clean :: "string \<Rightarrow> string" where
  "path_clean path =
     (if path = [] then ''.''
      else let rooted = (hd path = CHR ''/'');
               out = join_with ''/'' (rev (foldl (clean_element rooted) [] (split_on (CHR ''/'') path)))
           in if rooted then CHR ''/'' # out else if out = [] then ''.'' else out)"

text \<open>\<open>filepath.Dir\<close> and \<open>filepath.Join\<close> of two elements.\<close>

definition path_dir :: "string \<Rightarrow> string" where
  "path_dir path = path_clean (rev (dropWhile (\<lambda>c. c \<noteq> CHR ''/'') (rev path)))"

definition path_join :: "string \<Rightarrow> string \<Rightarrow> string" where
  "path_join a b =
     (if a \<noteq> [] then path_clean (a @ ''/'' @ b) else if b \<noteq> [] then path_clean b else [])"

section \<open>path.Match\<close>

text \<open>
  The standard library's glob, on one-byte characters.  A malformed pattern is an error, which the
  code reads as no match.
\<close>

datatype glob_item = GStar | GAny | GLit char | GClass bool "(char \<times> char) list"

definition get_esc :: "string \<Rightarrow> (char \<times> string) option" where
  "get_esc chunk = (case chunk of
     [] \<Rightarrow> None
   | c # rest \<Rightarrow>
       if c = CHR ''-'' \<or> c = CHR '']'' then None
       else if c = CHR 0x5C then (case rest of c' # rest' \<Rightarrow> if rest' = [] then None else Some (c', rest') | [] \<Rightarrow> None)
       else if rest = [] then None else Some (c, rest))"

lemma get_esc_shorter: "get_esc s = Some (c, r) \<Longrightarrow> length r < length s"
  by (auto simp: get_esc_def split: list.splits if_splits)

function parse_class :: "(char \<times> char) list \<Rightarrow> string \<Rightarrow> ((char \<times> char) list \<times> string) option" where
  "parse_class ranges s =
     (if ranges \<noteq> [] \<and> s \<noteq> [] \<and> hd s = CHR '']'' then Some (rev ranges, tl s)
      else case get_esc s of
        None \<Rightarrow> None
      | Some (lo, r) \<Rightarrow>
          if r \<noteq> [] \<and> hd r = CHR ''-''
          then (case get_esc (tl r) of None \<Rightarrow> None | Some (hi, r') \<Rightarrow> parse_class ((lo, hi) # ranges) r')
          else parse_class ((lo, lo) # ranges) r)"
  by pat_completeness auto
termination
  by (relation "measure (\<lambda>(_, s). length s)")
    (force simp: less_Suc_eq_le dest!: get_esc_shorter dest: less_imp_le_nat)+

declare parse_class.simps [simp del]

lemma parse_class_shorter: "parse_class ranges s = Some (rs, r) \<Longrightarrow> length r < length s"
proof (induction ranges s rule: parse_class.induct)
  case (1 ranges s)
  note IH = 1(1,2) and prem = 1(3)
  show ?case
  proof (cases "ranges \<noteq> [] \<and> s \<noteq> [] \<and> hd s = CHR '']''")
    case True
    then show ?thesis
      using prem by (subst (asm) parse_class.simps) auto
  next
    case False
    obtain lo q where e: "get_esc s = Some (lo, q)"
      using prem False by (subst (asm) parse_class.simps) (auto split: option.splits)
    note l = get_esc_shorter [OF e]
    show ?thesis
    proof (cases "q \<noteq> [] \<and> hd q = CHR ''-''")
      case True
      obtain hi q' where e': "get_esc (tl q) = Some (hi, q')"
        using prem False e True by (subst (asm) parse_class.simps) (auto split: option.splits)
      have "length r < length q'"
        using IH(1) [OF False e refl True e' refl] prem False e True e'
        by (subst (asm) (2) parse_class.simps) auto
      then show ?thesis
        using l get_esc_shorter [OF e'] by simp
    next
      case F: False
      have "length r < length q"
        using IH(2) [OF False e refl F] prem False e F
        by (subst (asm) (2) parse_class.simps) auto
      then show ?thesis using l by simp
    qed
  qed
qed

function parse_glob :: "string \<Rightarrow> glob_item list option" where
  "parse_glob s = (case s of
     [] \<Rightarrow> Some []
   | c # rest \<Rightarrow>
       if c = CHR ''*'' then map_option (\<lambda>g. GStar # g) (parse_glob rest)
       else if c = CHR ''?'' then map_option (\<lambda>g. GAny # g) (parse_glob rest)
       else if c = CHR 0x5C then (case rest of
           [] \<Rightarrow> None
         | c' # rest' \<Rightarrow> map_option (\<lambda>g. GLit c' # g) (parse_glob rest'))
       else if c = CHR ''['' then
         (let negated = (rest \<noteq> [] \<and> hd rest = CHR ''^'');
              body = (if negated then tl rest else rest)
          in case parse_class [] body of
               None \<Rightarrow> None
             | Some (ranges, rest') \<Rightarrow> map_option (\<lambda>g. GClass negated ranges # g) (parse_glob rest'))
       else map_option (\<lambda>g. GLit c # g) (parse_glob rest))"
  by pat_completeness auto
termination
  by (relation "measure length") (auto dest!: parse_class_shorter split: if_splits)

declare parse_glob.simps [simp del]

fun glob_match :: "glob_item list \<Rightarrow> string \<Rightarrow> bool" where
  "glob_match [] s = (s = [])"
| "glob_match (GStar # g) [] = glob_match g []"
| "glob_match (GStar # g) (c # s) = (glob_match g (c # s) \<or> (c \<noteq> CHR ''/'' \<and> glob_match (GStar # g) s))"
| "glob_match (GAny # g) s = (case s of [] \<Rightarrow> False | c # s' \<Rightarrow> c \<noteq> CHR ''/'' \<and> glob_match g s')"
| "glob_match (GLit l # g) s = (case s of [] \<Rightarrow> False | c # s' \<Rightarrow> c = l \<and> glob_match g s')"
| "glob_match (GClass negated ranges # g) s = (case s of [] \<Rightarrow> False | c # s' \<Rightarrow>
     list_ex (\<lambda>(lo, hi). (of_char lo :: nat) \<le> of_char c \<and> (of_char c :: nat) \<le> of_char hi) ranges \<noteq> negated
     \<and> glob_match g s')"

definition path_match :: "string \<Rightarrow> string \<Rightarrow> bool" where
  "path_match pattern name = (case parse_glob pattern of None \<Rightarrow> False | Some g \<Rightarrow> glob_match g name)"

end
