(* ===== verification/Block_Health.thy ===== *)
theory Block_Health
  imports Smart_Data Go_Text
begin

text \<open>
  \<open>internal/app/mdraid.go\<close>, \<open>emmc.go\<close> and \<open>emmc_common.go\<close>: the health of Linux RAID arrays and of
  eMMC devices as the kernel shows it in files under \<open>/sys\<close>.  The files are the argument \<open>sysfs\<close>:
  the content of a file that can be read, whether a path exists, and the names in a directory.
\<close>

section \<open>Files and names\<close>

record sysfs =
  sy_file :: "string \<Rightarrow> string option"
  sy_exists :: "string \<Rightarrow> bool"
  sy_dir :: "string \<Rightarrow> string list option"

text \<open>A prefix followed by at least one digit and nothing else.\<close>

definition numbered_name :: "string \<Rightarrow> string \<Rightarrow> bool" where
  "numbered_name prefix name = (has_prefix prefix name \<and>
     (let suffix = drop (length prefix) name in suffix \<noteq> [] \<and> list_all is_digit suffix))"

definition is_mdraid_block_name :: "string \<Rightarrow> bool" where
  "is_mdraid_block_name = numbered_name ''md''"

definition is_emmc_block_name :: "string \<Rightarrow> bool" where
  "is_emmc_block_name = numbered_name ''mmcblk''"

record device_info =
  di_name :: string
  di_type :: string
  di_info_name :: string
  di_protocol :: string
  di_type_verified :: bool
  di_parser_type :: string

definition new_device :: "string \<Rightarrow> string \<Rightarrow> string \<Rightarrow> string \<Rightarrow> device_info" where
  "new_device name type info_name protocol = \<lparr>di_name = name, di_type = type, di_info_name = info_name,
     di_protocol = protocol, di_type_verified = False, di_parser_type = []\<rparr>"

text \<open>The size of a block device in bytes; both packages compute it alike, below another root.\<close>

definition block_capacity_bytes :: "sysfs \<Rightarrow> string \<Rightarrow> u64 option" where
  "block_capacity_bytes sy dir = (case read_string_file_ok (sy_file sy (dir @ ''/size'')) of
     (_, False) \<Rightarrow> None
   | (sectors_text, True) \<Rightarrow> (case parse_uint 64 sectors_text of
       None \<Rightarrow> None
     | Some sectors \<Rightarrow>
         if sectors = 0 then None
         else let logical = (case read_string_file_ok (sy_file sy (dir @ ''/queue/logical_block_size'')) of
               (_, False) \<Rightarrow> 512
             | (lbs, True) \<Rightarrow> (case parse_uint 64 lbs of
                   None \<Rightarrow> 512 | Some parsed \<Rightarrow> if 0 < parsed then word_of_nat parsed else 512))
           in Some (word_of_nat sectors * logical)))"

definition named_attribute :: "string \<Rightarrow> u64 \<Rightarrow> string \<Rightarrow> smart_attribute" where
  "named_attribute name raw text = \<lparr>sattr_id = 0, sattr_name = name, sattr_value = 0, sattr_worst = 0,
     sattr_threshold = 0, sattr_raw_value = raw, sattr_raw_string = text, sattr_when_failed = []\<rparr>"

section \<open>RAID arrays\<close>

record mdraid_health =
  mh_level :: string
  mh_array_state :: string
  mh_degraded :: u64
  mh_raid_disks :: u64
  mh_sync_action :: string
  mh_sync_completed :: string
  mh_sync_speed :: string
  mh_mismatch_cnt :: u64
  mh_capacity :: u64

definition scan_mdraid_devices :: "sysfs \<Rightarrow> device_info list" where
  "scan_mdraid_devices sy = (case sy_dir sy ''/sys/block'' of
     None \<Rightarrow> []
   | Some entries \<Rightarrow>
       map (\<lambda>name. new_device (''/dev/'' @ name) ''mdraid'' (''/dev/'' @ name @ '' [mdraid]'') ''MD'')
         (filter (\<lambda>name. is_mdraid_block_name name
            \<and> sy_exists sy (''/sys/block/'' @ name @ ''/md/array_state'')) entries))"

definition uint_file_or_zero :: "string option \<Rightarrow> u64" where
  "uint_file_or_zero file = (case read_uint_file file of (v, ok) \<Rightarrow> if ok then v else 0)"

definition read_mdraid_health :: "sysfs \<Rightarrow> string \<Rightarrow> mdraid_health option" where
  "read_mdraid_health sy name =
     (if \<not> is_mdraid_block_name name then None
      else let dir = ''/sys/block/'' @ name @ ''/md'';
               read = (\<lambda>f. read_string_file (sy_file sy (dir @ ''/'' @ f)));
               number = (\<lambda>f. uint_file_or_zero (sy_file sy (dir @ ''/'' @ f)))
           in case read_string_file_ok (sy_file sy (dir @ ''/array_state'')) of
                (_, False) \<Rightarrow> None
              | (array_state, True) \<Rightarrow> Some \<lparr>mh_level = read ''level'', mh_array_state = array_state,
                  mh_degraded = number ''degraded'', mh_raid_disks = number ''raid_disks'',
                  mh_sync_action = read ''sync_action'', mh_sync_completed = read ''sync_completed'',
                  mh_sync_speed = read ''sync_speed'', mh_mismatch_cnt = number ''mismatch_cnt'',
                  mh_capacity = (case block_capacity_bytes sy (''/sys/block/'' @ name) of
                    None \<Rightarrow> 0 | Some c \<Rightarrow> c)\<rparr>)"

definition mdraid_smart_status :: "mdraid_health \<Rightarrow> string" where
  "mdraid_smart_status h =
     (let state = to_lower (trim_space (mh_array_state h)); sync = to_lower (trim_space (mh_sync_action h)) in
      if state \<in> {''inactive'', ''faulty'', ''broken'', ''stopped''} then ''FAILED''
      else if sync \<in> {''resync'', ''recover'', ''reshape''} then ''WARNING''
      else if 0 < mh_degraded h then ''FAILED''
      else if sync \<in> {''check'', ''repair''} then ''WARNING''
      else if state \<in> {''clean'', ''active'', ''active-idle'', ''write-pending'', ''read-auto'', ''readonly''} then ''PASSED''
      else ''UNKNOWN'')"

definition mdraid_attributes :: "mdraid_health \<Rightarrow> smart_attribute list" where
  "mdraid_attributes h =
     (let text = (\<lambda>name s. if s \<noteq> [] then [named_attribute name 0 s] else []);
          number = (\<lambda>name n. if 0 < n then [named_attribute name n []] else [])
      in text ''ArrayState'' (mh_array_state h) @ text ''RaidLevel'' (mh_level h)
         @ number ''RaidDisks'' (mh_raid_disks h) @ number ''Degraded'' (mh_degraded h)
         @ text ''SyncAction'' (mh_sync_action h) @ text ''SyncCompleted'' (mh_sync_completed h)
         @ text ''SyncSpeed'' (mh_sync_speed h) @ number ''MismatchCount'' (mh_mismatch_cnt h))"

text \<open>
  \<open>collectMdraidHealth\<close>: the device data kept so far, if any, is updated in place.  The result is the
  device with its type set, and its key and data; nothing when the device is not an array.
\<close>

definition collect_mdraid_health ::
  "sysfs \<Rightarrow> device_info \<Rightarrow> (string, smart_data) gmap \<Rightarrow> (device_info \<times> (string, smart_data) gmap) option" where
  "collect_mdraid_health sy dev m =
     (let base = path_base (di_name dev) in
      if di_name dev = [] \<or> (\<not> is_mdraid_block_name base \<and> \<not> equal_fold (di_type dev) ''mdraid'') then None
      else case read_mdraid_health sy base of
        None \<Rightarrow> None
      | Some h \<Rightarrow>
          let key = ''mdraid:'' @ base; old = (case mget m key of None \<Rightarrow> zero_smart_data | Some d \<Rightarrow> d) in
          Some (dev\<lparr>di_type := ''mdraid''\<rparr>, mput key (old\<lparr>
            smd_model_name := (if mh_level h \<noteq> [] then ''Linux MD RAID ('' @ mh_level h @ '')'' else ''Linux MD RAID''),
            smd_capacity := mh_capacity h, smd_smart_status := mdraid_smart_status h,
            smd_disk_name := ''/dev/'' @ base, smd_disk_type := ''mdraid'',
            smd_attributes := mdraid_attributes h\<rparr>) m))"

section \<open>eMMC devices\<close>

record emmc_health =
  eh_model :: string
  eh_serial :: string
  eh_revision :: string
  eh_capacity :: u64
  eh_pre_eol :: "8 word"
  eh_life_a :: "8 word"
  eh_life_b :: "8 word"

text \<open>\<open>strconv.ParseUint(s, base, 8)\<close>: a base that is given admits no prefix and no underscore.\<close>

definition parse_byte :: "nat \<Rightarrow> string \<Rightarrow> 8 word option" where
  "parse_byte base s =
     (if s = [] \<or> CHR ''_'' \<in> set s then None
      else case base_value base 0 s of
        None \<Rightarrow> None | Some n \<Rightarrow> if n < 2 ^ 8 then Some (word_of_nat n) else None)"

definition parse_hex_or_dec_byte :: "string \<Rightarrow> 8 word option" where
  "parse_hex_or_dec_byte s0 = (let s = trim_space s0 in
     if s = [] then None
     else if has_prefix ''0x'' s \<or> has_prefix ''0X'' s then parse_byte 16 (drop 2 s)
     else parse_byte 10 s)"

definition or_zero :: "8 word option \<Rightarrow> 8 word" where
  "or_zero x = (case x of None \<Rightarrow> 0 | Some b \<Rightarrow> b)"

definition parse_hex_byte_pair :: "string \<Rightarrow> (8 word \<times> 8 word) option" where
  "parse_hex_byte_pair s = (case Prelude.fields s of
     f # g # _ \<Rightarrow>
       let a = parse_hex_or_dec_byte f; b = parse_hex_or_dec_byte g in
       if a = None \<and> b = None then None else Some (or_zero a, or_zero b)
   | _ \<Rightarrow> None)"

definition read_hex_byte_file :: "string option \<Rightarrow> 8 word option" where
  "read_hex_byte_file file = (case read_string_file_ok file of
     (_, False) \<Rightarrow> None | (content, True) \<Rightarrow> parse_hex_or_dec_byte content)"

definition read_life_time :: "sysfs \<Rightarrow> string \<Rightarrow> (8 word \<times> 8 word) option" where
  "read_life_time sy dir = (case read_string_file_ok (sy_file sy (dir @ ''/life_time'')) of
     (content, True) \<Rightarrow> parse_hex_byte_pair content
   | (_, False) \<Rightarrow>
       let a = read_hex_byte_file (sy_file sy (dir @ ''/device_life_time_est_typ_a''));
           b = read_hex_byte_file (sy_file sy (dir @ ''/device_life_time_est_typ_b''))
       in if a = None \<and> b = None then None else Some (or_zero a, or_zero b))"

definition has_emmc_health_files :: "sysfs \<Rightarrow> string \<Rightarrow> bool" where
  "has_emmc_health_files sy dir = (case sy_dir sy dir of
     None \<Rightarrow> False
   | Some entries \<Rightarrow> list_ex (\<lambda>e. e \<in> {''pre_eol_info'', ''life_time'',
       ''device_life_time_est_typ_a'', ''device_life_time_est_typ_b''}) entries)"

definition emmc_dir :: "string \<Rightarrow> string" where
  "emmc_dir name = ''/sys/class/block/'' @ name"

definition scan_emmc_devices :: "sysfs \<Rightarrow> device_info list" where
  "scan_emmc_devices sy = (case sy_dir sy ''/sys/class/block'' of
     None \<Rightarrow> []
   | Some entries \<Rightarrow>
       map (\<lambda>name. new_device (''/dev/'' @ name) ''emmc'' (''/dev/'' @ name @ '' [eMMC]'') ''MMC'')
         (filter (\<lambda>name. is_emmc_block_name name \<and> has_emmc_health_files sy (emmc_dir name @ ''/device'')) entries))"

definition read_emmc_health :: "sysfs \<Rightarrow> string \<Rightarrow> emmc_health option" where
  "read_emmc_health sy name =
     (if \<not> is_emmc_block_name name then None
      else let dir = emmc_dir name @ ''/device'';
               pre_eol = read_hex_byte_file (sy_file sy (dir @ ''/pre_eol_info''));
               life = read_life_time sy dir;
               (life_a, life_b) = (case life of None \<Rightarrow> (0, 0) | Some p \<Rightarrow> p);
               read = (\<lambda>f. read_string_file (sy_file sy (dir @ ''/'' @ f)))
           in if pre_eol = None \<and> life = None then None
              else Some \<lparr>eh_model = read ''name'', eh_serial = read ''serial'', eh_revision = read ''prv'',
                eh_capacity = (case block_capacity_bytes sy (emmc_dir name) of None \<Rightarrow> 0 | Some c \<Rightarrow> c),
                eh_pre_eol = or_zero pre_eol, eh_life_a = life_a, eh_life_b = life_b\<rparr>)"

definition emmc_smart_status :: "8 word \<Rightarrow> string" where
  "emmc_smart_status pre_eol = (if pre_eol = 1 then ''PASSED'' else if pre_eol = 2 then ''WARNING''
     else if pre_eol = 3 then ''FAILED'' else ''UNKNOWN'')"

definition hex_digit :: "nat \<Rightarrow> char" where
  "hex_digit n = char_of (if n < 10 then 48 + n else 87 + n)"

definition hex_byte :: "8 word \<Rightarrow> string" where
  "hex_byte w = ''0x'' @ [hex_digit (unat w div 16), hex_digit (unat w mod 16)]"

definition emmc_pre_eol_string :: "8 word \<Rightarrow> string" where
  "emmc_pre_eol_string w = (if w = 1 then ''0x01 (normal)'' else if w = 2 then ''0x02 (warning)''
     else if w = 3 then ''0x03 (urgent)'' else hex_byte w)"

definition emmc_life_time_string :: "8 word \<Rightarrow> string" where
  "emmc_life_time_string v =
     (if v = 0 then ''0x00 (not reported)''
      else if 1 \<le> v \<and> v \<le> 10 then hex_byte v @ '' ('' @ format_int ((uint v - 1) * 10) @ ''-''
        @ format_int (uint v * 10) @ ''% used)''
      else if v = 11 then ''0x0b (>100% used)''
      else hex_byte v)"

definition collect_emmc_health ::
  "sysfs \<Rightarrow> device_info \<Rightarrow> (string, smart_data) gmap \<Rightarrow> (device_info \<times> (string, smart_data) gmap) option" where
  "collect_emmc_health sy dev m =
     (let base = path_base (di_name dev) in
      if di_name dev = [] \<or> (\<not> is_emmc_block_name base \<and> \<not> equal_fold (di_type dev) ''emmc''
          \<and> \<not> equal_fold (di_type dev) ''mmc'') then None
      else case read_emmc_health sy base of
        None \<Rightarrow> None
      | Some h \<Rightarrow>
          let key = (if eh_serial h = [] then ''/dev/'' @ base else eh_serial h) in
          Some (dev\<lparr>di_type := ''emmc''\<rparr>, mput key
            \<lparr>smd_model_name = eh_model h, smd_serial_number = eh_serial h, smd_firmware_version = eh_revision h,
             smd_capacity = eh_capacity h, smd_smart_status = emmc_smart_status (eh_pre_eol h),
             smd_disk_name = ''/dev/'' @ base, smd_disk_type = ''emmc'', smd_temperature = 0,
             smd_attributes =
               [named_attribute ''PreEOLInfo'' (ucast (eh_pre_eol h)) (emmc_pre_eol_string (eh_pre_eol h)),
                named_attribute ''DeviceLifeTimeEstA'' (ucast (eh_life_a h)) (emmc_life_time_string (eh_life_a h)),
                named_attribute ''DeviceLifeTimeEstB'' (ucast (eh_life_b h)) (emmc_life_time_string (eh_life_b h))]\<rparr> m))"

end
