(* ===== verification/Smart_Manager.thy ===== *)
theory Smart_Manager
  imports Block_Health
begin

text \<open>
  \<open>internal/app/smart.go\<close>: the manager of SMART devices.  It scans for devices, runs \<open>smartctl\<close> for
  each, chooses a parser for what it prints and keeps one record per device.  The runs of \<open>smartctl\<close>,
  the files under \<open>/sys\<close>, clocks and the context are arguments.  The device list holds pointers to
  distinct devices; an update through a pointer is an update of the element with that index.
\<close>

section \<open>State\<close>

record smart_manager =
  sm_data :: "(string, smart_data) gmap"
  sm_devices :: "device_info list"
  sm_last_scan :: "int option"
  sm_smartctl_path :: string
  sm_excluded :: "string set"
  sm_refresh_interval :: int
  sm_last_refresh :: "int option"
  sm_last_refresh_error :: string

text \<open>How a run of \<open>smartctl\<close> ends: the output, the context's error, and the command's failure.\<close>

datatype run_failure = ExitStatus int | OtherFailure go_error

record run_result =
  rr_output :: jtext
  rr_ctx_err :: "go_error option"
  rr_failure :: "run_failure option"

definition no_valid_smart_data :: go_error where
  "no_valid_smart_data = ErrText ''no valid SMART data found''"

definition failure_error :: "run_failure \<Rightarrow> go_error" where
  "failure_error f = (case f of ExitStatus n \<Rightarrow> ErrText (''exit status '' @ format_int n) | OtherFailure e \<Rightarrow> e)"

definition run_error :: "run_result \<Rightarrow> go_error option" where
  "run_error r = (case rr_ctx_err r of Some e \<Rightarrow> Some e | None \<Rightarrow> map_option failure_error (rr_failure r))"

definition interrupted :: "go_error \<Rightarrow> bool" where
  "interrupted e = (err_is ErrCanceled e \<or> err_is ErrDeadline e)"

text \<open>The error of a run if the run was interrupted, and whether the device is in standby.\<close>

definition run_interrupted :: "run_result \<Rightarrow> go_error option" where
  "run_interrupted r = (case run_error r of Some e \<Rightarrow> if interrupted e then Some e else None | None \<Rightarrow> None)"

definition in_standby :: "run_result \<Rightarrow> bool" where
  "in_standby r = (rr_ctx_err r = None \<and> rr_failure r = Some (ExitStatus 2))"

section \<open>Which devices\<close>

definition parse_configured_device :: "string \<Rightarrow> device_info option res" where
  "parse_configured_device entry0 = (let entry = trim_space entry0 in
     if entry = [] then Inr None
     else let (n, t) = (case cut_at (CHR '':'') entry of
                None \<Rightarrow> (entry, []) | Some (a, b) \<Rightarrow> (a, to_lower (trim_space b)));
              name = trim_space n
       in if name = [] then Inl (ErrText (''invalid SMART_DEVICES entry '' @ [CHR 0x22] @ entry @ [CHR 0x22]))
          else Inr (Some (new_device name t [] [])))"

definition parse_configured_devices :: "(string \<Rightarrow> string option) \<Rightarrow> string \<Rightarrow> device_info list res" where
  "parse_configured_devices env config =
     (let sep = (case env ''SMART_DEVICES_SEPARATOR'' of
            Some s \<Rightarrow> if s = [] then '','' else s | None \<Rightarrow> '','')
      in attempt (map_res parse_configured_device (split_str sep config)) (\<lambda>ds.
         let devices = List.map_filter (\<lambda>d. d) ds in
         if devices = [] then Inl no_valid_smart_data else Inr devices))"

definition excluded_devices :: "(string \<Rightarrow> string option) \<Rightarrow> string set" where
  "excluded_devices env = set (filter (\<lambda>d. d \<noteq> []) (map trim_space
     (split_on (CHR '','') (case env ''EXCLUDE_SMART'' of None \<Rightarrow> [] | Some v \<Rightarrow> v))))"

definition is_excluded_device :: "string \<Rightarrow> smart_manager \<Rightarrow> bool" where
  "is_excluded_device name sm = (name \<in> sm_excluded sm)"

definition filter_excluded_devices :: "string set \<Rightarrow> device_info list \<Rightarrow> device_info list" where
  "filter_excluded_devices excluded devices =
     (if excluded = {} then devices
      else filter (\<lambda>d. di_name d \<noteq> [] \<and> di_name d \<notin> excluded) devices)"

definition parse_scan :: "jtext \<Rightarrow> device_info list option" where
  "parse_scan output =
     (case unmarshal (dec_struct (\<lambda>fs. jfield fs ''devices'' [] (dec_list dec_smart_device_info)) []) output of
        Inl _ \<Rightarrow> None
      | Inr devices \<Rightarrow>
          if devices = [] then None
          else Some (map (\<lambda>d. new_device (sdi_name d) (sdi_type d) (sdi_info_name d) (sdi_protocol d)) devices))"

section \<open>Merging device lists\<close>

definition normalize_parser_type :: "string \<Rightarrow> string" where
  "normalize_parser_type value = (let v = to_lower (trim_space value) in
     if v \<in> {''nvme'', ''sntasmedia'', ''sntrealtek''} then ''nvme''
     else if v \<in> {''sat'', ''ata''} then ''sat''
     else v)"

text \<open>\<open>makeDeviceKey\<close>, and the last device with a key among those with a name.\<close>

definition device_key :: "device_info \<Rightarrow> string \<times> string" where
  "device_key d = (di_name d, di_type d)"

definition last_index :: "'a \<Rightarrow> 'a list \<Rightarrow> nat option" where
  "last_index x xs = (case filter (\<lambda>i. xs ! i = x) [0..<length xs] of [] \<Rightarrow> None | is \<Rightarrow> Some (last is))"

text \<open>\<open>buildUniqueNameIndex\<close>: the device with a name that no other has.\<close>

definition unique_name_index :: "device_info list \<Rightarrow> string \<Rightarrow> nat option" where
  "unique_name_index devices name =
     (case filter (\<lambda>i. di_name (devices ! i) = name) [0..<length devices] of
        [i] \<Rightarrow> if name = [] then None else Some i
      | _ \<Rightarrow> None)"

definition preserve_verified_type :: "device_info \<Rightarrow> device_info \<Rightarrow> device_info" where
  "preserve_verified_type prev target =
     (if di_type_verified prev
      then target\<lparr>di_type := di_type prev, di_type_verified := True, di_parser_type := di_parser_type prev\<rparr>
      else target)"

definition apply_configured_metadata :: "device_info \<Rightarrow> device_info \<Rightarrow> device_info" where
  "apply_configured_metadata configured d0 =
     (let d1 = (if di_type configured \<noteq> [] \<and> \<not> di_type_verified d0
            then (let new_type = trim_space (di_type configured) in
              d0\<lparr>di_type := new_type, di_type_verified := False, di_parser_type := normalize_parser_type new_type\<rparr>)
            else d0);
          d2 = (if di_info_name configured \<noteq> [] then d1\<lparr>di_info_name := di_info_name configured\<rparr> else d1)
      in if di_protocol configured \<noteq> [] then d2\<lparr>di_protocol := di_protocol configured\<rparr> else d2)"

text \<open>The device known so far that a new one continues: by key, or by a name that only it has.\<close>

definition known_device :: "device_info list \<Rightarrow> device_info \<Rightarrow> device_info option" where
  "known_device existing d =
     (case last_index (device_key d) (map device_key existing) of
        Some i \<Rightarrow> Some (existing ! i)
      | None \<Rightarrow> map_option ((!) existing) (unique_name_index existing (di_name d)))"

definition merge_scanned :: "device_info list \<Rightarrow> device_info \<Rightarrow> device_info" where
  "merge_scanned existing d = (case known_device existing d of
     None \<Rightarrow> d | Some prev \<Rightarrow> preserve_verified_type prev d)"

text \<open>
  A configured device updates the device with its key, or the only scanned one with its name, or is
  added.  The state holds the devices and the keys under which they were entered; \<open>n\<close> of them were
  scanned.
\<close>

definition merge_configured ::
  "device_info list \<Rightarrow> nat \<Rightarrow> device_info list \<times> (string \<times> string) list \<Rightarrow> device_info
    \<Rightarrow> device_info list \<times> (string \<times> string) list" where
  "merge_configured existing n st c = (case st of (final, keys) \<Rightarrow>
     (case last_index (device_key c) keys of
        Some i \<Rightarrow> (final[i := apply_configured_metadata c (final ! i)], keys)
      | None \<Rightarrow> (case unique_name_index (take n final) (di_name c) of
          Some i \<Rightarrow> (final[i := apply_configured_metadata c (final ! i)], keys)
        | None \<Rightarrow>
            let d = (case known_device existing c of
                Some prev \<Rightarrow> preserve_verified_type prev c
              | None \<Rightarrow> if di_type c \<noteq> [] then c\<lparr>di_parser_type := normalize_parser_type (di_type c)\<rparr> else c)
            in (final @ [d], keys @ [device_key d]))))"

definition merge_device_lists ::
  "device_info list \<Rightarrow> device_info list \<Rightarrow> device_info list \<Rightarrow> device_info list" where
  "merge_device_lists existing scanned configured =
     (if scanned = [] \<and> configured = [] then existing
      else let named = filter (\<lambda>d. di_name d \<noteq> []);
               final = map (merge_scanned (named existing)) (named scanned)
           in fst (foldl (merge_configured (named existing) (length final)) (final, map device_key final)
                (named configured)))"

text \<open>\<open>updateSmartDevices\<close>: data whose device is gone is dropped.\<close>

definition device_remains :: "device_info list \<Rightarrow> smart_data \<Rightarrow> bool" where
  "device_remains devices d = (let named = filter (\<lambda>v. di_name v \<noteq> []) devices in
     if smd_disk_type d = [] then length (filter (\<lambda>v. di_name v = smd_disk_name d) named) = 1
     else (smd_disk_name d, smd_disk_type d) \<in> set (map device_key named))"

definition update_smart_devices :: "device_info list \<Rightarrow> smart_manager \<Rightarrow> smart_manager" where
  "update_smart_devices devices sm = sm\<lparr>sm_devices := devices,
     sm_data := filter (\<lambda>(_, d). device_remains devices d) (sm_data sm)\<rparr>"

section \<open>Scanning\<close>

record scan_answers =
  sc_now :: int
  sc_now_end :: int
  sc_ctx_err :: "go_error option"
  sc_env :: "string \<Rightarrow> string option"
  sc_run :: run_result
  sc_sysfs :: sysfs

definition configured_devices :: "(string \<Rightarrow> string option) \<Rightarrow> device_info list res" where
  "configured_devices env = (case env ''SMART_DEVICES'' of
     None \<Rightarrow> Inr []
   | Some raw \<Rightarrow> (let config = trim_space raw in
       if config = [] then Inl no_valid_smart_data else parse_configured_devices env config))"

text \<open>\<open>smartctl --scan -j\<close>: the error and the devices.\<close>

definition smartctl_scan :: "string \<Rightarrow> run_result \<Rightarrow> go_error option \<times> device_info list" where
  "smartctl_scan path r =
     (if path = [] then (None, [])
      else case run_error r of
        Some e \<Rightarrow> (Some e, [])
      | None \<Rightarrow> (case parse_scan (rr_output r) of
          None \<Rightarrow> (Some no_valid_smart_data, []) | Some ds \<Rightarrow> (None, ds)))"

definition minutes_30 :: int where "minutes_30 = 30 * minute"

definition scan_devices :: "scan_answers \<Rightarrow> bool \<Rightarrow> smart_manager \<Rightarrow> unit res \<times> smart_manager" where
  "scan_devices sc force sm =
     (if \<not> force \<and> (case sm_last_scan sm of None \<Rightarrow> False | Some t \<Rightarrow> sc_now sc - t < minutes_30) then (Inr (), sm)
      else case sc_ctx_err sc of
        Some e \<Rightarrow> (Inl e, sm)
      | None \<Rightarrow> (case configured_devices (sc_env sc) of
          Inl e \<Rightarrow> (Inl e, sm)
        | Inr configured \<Rightarrow>
            let (scan_err, by_smartctl) = smartctl_scan (sm_smartctl_path sm) (sc_run sc);
                scanned = by_smartctl @ scan_emmc_devices (sc_sysfs sc) @ scan_mdraid_devices (sc_sysfs sc);
                final = filter_excluded_devices (sm_excluded sm)
                  (merge_device_lists (sm_devices sm) scanned configured);
                sm1 = update_smart_devices final sm
            in if final = [] then (Inl (case scan_err of Some e \<Rightarrow> e | None \<Rightarrow> no_valid_smart_data), sm1)
               else (Inr (), sm1\<lparr>sm_last_scan := Some (sc_now_end sc)\<rparr>)))"

end
