(* ===== verification/Smart_Collect.thy ===== *)
theory Smart_Collect
  imports Smart_Manager
begin

text \<open>
  \<open>internal/app/smart.go\<close>, continued: the parsers of what \<open>smartctl\<close> prints for NVMe, SATA and SCSI
  devices, the choice of the parser, the collection of one device and the refresh of all of them.
\<close>

section \<open>Parsers\<close>

fun contains_str :: "string \<Rightarrow> string \<Rightarrow> bool" where
  "contains_str sub [] = (sub = [])"
| "contains_str sub (c # cs) = (has_prefix sub (c # cs) \<or> contains_str sub cs)"

definition is_virtual_device_from_strings :: "string list \<Rightarrow> bool" where
  "is_virtual_device_from_strings = list_ex (\<lambda>field. list_ex (\<lambda>mark. contains_str mark (to_upper field))
     [''IET'', ''VIRTUAL'', ''QEMU'', ''VBOX'', ''VMWARE'', ''MSFT''])"

definition is_virtual_device :: "sata_info \<Rightarrow> bool" where
  "is_virtual_device d = is_virtual_device_from_strings
     [to_upper (sata_scsi_vendor d), to_upper (sata_scsi_product d), to_upper (sata_model_name d)]"

definition is_virtual_device_nvme :: "nvme_info \<Rightarrow> bool" where
  "is_virtual_device_nvme d = is_virtual_device_from_strings [to_upper (nvme_model_name d)]"

definition is_virtual_device_scsi :: "scsi_info \<Rightarrow> bool" where
  "is_virtual_device_scsi d = is_virtual_device_from_strings
     [to_upper (scsi_vendor d), to_upper (scsi_product d), to_upper (scsi_model_name d)]"

definition get_smart_status :: "8 word \<Rightarrow> bool \<Rightarrow> string" where
  "get_smart_status temperature passed =
     (if passed then ''PASSED'' else if 0 < temperature then ''FAILED'' else ''UNKNOWN'')"

text \<open>The statistics are decoded when they are looked up; the first entry with the name decides.\<close>

definition find_ata_device_statistics_value :: "json option \<Rightarrow> 8 word \<Rightarrow> string \<Rightarrow> int \<Rightarrow> int \<Rightarrow> int option" where
  "find_ata_device_statistics_value raw number name min_value max_value = (case raw of
     None \<Rightarrow> None
   | Some j \<Rightarrow> (case dec_ata_device_statistics j of
       Inl _ \<Rightarrow> None
     | Inr st \<Rightarrow> (case filter (\<lambda>e. equal_fold (dse_name e) name)
           (concat (map dsp_table (filter (\<lambda>p. dsp_number p = number) (ads_pages st)))) of
         [] \<Rightarrow> None
       | e # _ \<Rightarrow> (case dse_value e of
           None \<Rightarrow> None
         | Some v \<Rightarrow> if v < min_value \<or> max_value < v then None else Some v))))"

definition sata_attribute :: "ata_attribute \<Rightarrow> smart_attribute" where
  "sata_attribute a = \<lparr>sattr_id = aa_id a, sattr_name = aa_name a, sattr_value = aa_value a,
     sattr_worst = aa_worst a, sattr_threshold = aa_thresh a,
     sattr_raw_value = (case parse_smart_raw_value_string (rv_string (aa_raw a)) of
        Some p \<Rightarrow> p | None \<Rightarrow> rv_value (aa_raw a)),
     sattr_raw_string = rv_string (aa_raw a), sattr_when_failed = aa_when_failed a\<rparr>"

definition sata_data :: "sata_info \<Rightarrow> smart_data" where
  "sata_data d = (let current = ti_current (sata_temperature d) in
     \<lparr>smd_model_name = sata_model_name d, smd_serial_number = sata_serial_number d,
      smd_firmware_version = sata_firmware_version d, smd_capacity = uc_bytes (sata_user_capacity d),
      smd_smart_status = get_smart_status current (ssi_passed (sata_smart_status d)),
      smd_disk_name = sdi_name (sata_device d), smd_disk_type = sdi_type (sata_device d),
      smd_temperature = (if current = 0
        then (case find_ata_device_statistics_value (sata_device_statistics d) 5 ''Current Temperature'' 0 255 of
          Some t \<Rightarrow> word_of_int t | None \<Rightarrow> current)
        else current),
      smd_attributes = map sata_attribute (asa_table (sata_attributes d))\<rparr>)"

definition parse_scsi_gigabytes_processed :: "string \<Rightarrow> int" where
  "parse_scsi_gigabytes_processed value =
     (if value = [] then -1
      else case parse_int64 (filter (\<lambda>c. c \<noteq> CHR '','') value) of None \<Rightarrow> -1 | Some n \<Rightarrow> n)"

definition counter_attributes :: "string \<Rightarrow> scsi_error_counter \<Rightarrow> smart_attribute list" where
  "counter_attributes kind c =
     (let gigabytes = parse_scsi_gigabytes_processed (sec_gigabytes_processed c) in
      [named_attribute (kind @ ''TotalErrorsCorrected'') (sec_total_corrected c) [],
       named_attribute (kind @ ''TotalUncorrectedErrors'') (sec_total_uncorrected c) [],
       named_attribute (kind @ ''CorrectionAlgorithmInvocations'') (sec_algorithm_invocations c) []]
      @ (if 0 \<le> gigabytes then [named_attribute (kind @ ''GigabytesProcessed'') (word_of_int gigabytes) []] else []))"

definition scsi_data :: "scsi_info \<Rightarrow> smart_data" where
  "scsi_data d = (let current = tis_current (scsi_temperature d); cycles = scsi_cycle_counter d in
     \<lparr>smd_model_name = scsi_model_name d, smd_serial_number = scsi_serial_number d,
      smd_firmware_version = scsi_revision d, smd_capacity = uc_bytes (scsi_user_capacity d),
      smd_smart_status = get_smart_status current (ssi_passed (scsi_smart_status d)),
      smd_disk_name = sdi_name (scsi_device d), smd_disk_type = sdi_type (scsi_device d),
      smd_temperature = current,
      smd_attributes =
        [named_attribute ''PowerOnHours'' (pos_hours (scsi_power_on_time d)) [],
         named_attribute ''PowerOnMinutes'' (pos_minutes (scsi_power_on_time d)) [],
         named_attribute ''GrownDefectList'' (scsi_grown_defect_list d) [],
         named_attribute ''StartStopCycles'' (scc_start_stop_cycles cycles) [],
         named_attribute ''LoadUnloadCycles'' (scc_load_unload_cycles cycles) [],
         named_attribute ''StartStopSpecified'' (scc_specified_cycles cycles) [],
         named_attribute ''LoadUnloadSpecified'' (scc_specified_load_unload cycles) []]
        @ counter_attributes ''Read'' (sel_read (scsi_error_counter_log d))
        @ counter_attributes ''Write'' (sel_write (scsi_error_counter_log d))
        @ counter_attributes ''Verify'' (sel_verify (scsi_error_counter_log d))\<rparr>)"

definition nvme_data :: "nvme_info \<Rightarrow> smart_data" where
  "nvme_data d = (let health = nvme_health_log d; capacity = uc_bytes (nvme_user_capacity d) in
     \<lparr>smd_model_name = nvme_model_name d, smd_serial_number = nvme_serial_number d,
      smd_firmware_version = nvme_firmware_version d,
      smd_capacity = (if capacity = 0 then nvme_total_capacity d else capacity),
      smd_smart_status = get_smart_status (nhl_temperature health) (nsi_passed (nvme_smart_status d)),
      smd_disk_name = sdi_name (nvme_device d), smd_disk_type = sdi_type (nvme_device d),
      smd_temperature = nhl_temperature health,
      smd_attributes =
        [named_attribute ''CriticalWarning'' (nhl_critical_warning health) [],
         named_attribute ''Temperature'' (ucast (nhl_temperature health)) [],
         named_attribute ''AvailableSpare'' (nhl_available_spare health) [],
         named_attribute ''AvailableSpareThreshold'' (nhl_available_spare_threshold health) [],
         named_attribute ''PercentageUsed'' (ucast (nhl_percentage_used health)) [],
         named_attribute ''DataUnitsRead'' (nhl_data_units_read health) [],
         named_attribute ''DataUnitsWritten'' (nhl_data_units_written health) [],
         named_attribute ''HostReads'' (nhl_host_reads health) [],
         named_attribute ''HostWrites'' (nhl_host_writes health) [],
         named_attribute ''ControllerBusyTime'' (nhl_controller_busy_time health) [],
         named_attribute ''PowerCycles'' (ucast (nhl_power_cycles health)) [],
         named_attribute ''PowerOnHours'' (ucast (nhl_power_on_hours health)) [],
         named_attribute ''UnsafeShutdowns'' (ucast (nhl_unsafe_shutdowns health)) [],
         named_attribute ''MediaErrors'' (nhl_media_errors health) [],
         named_attribute ''NumErrLogEntries'' (nhl_num_err_log_entries health) [],
         named_attribute ''WarningTempTime'' (nhl_warning_temp_time health) [],
         named_attribute ''CriticalCompTime'' (nhl_critical_comp_time health) []]\<rparr>)"

text \<open>
  The three parsers: whether there is valid data, with the exit status that \<open>smartctl\<close> reports, and
  the manager with the data.  Every field of existing data is overwritten.
\<close>

definition store_data :: "smart_data \<Rightarrow> smart_manager \<Rightarrow> smart_manager" where
  "store_data d sm = sm\<lparr>sm_data := mput (smd_serial_number d) d (sm_data sm)\<rparr>"

definition parse_smart_for_sata ::
  "(json \<Rightarrow> string) \<Rightarrow> jtext \<Rightarrow> smart_manager \<Rightarrow> (bool \<times> int) \<times> smart_manager" where
  "parse_smart_for_sata render output sm = (case unmarshal (dec_sata_info render) output of
     Inl _ \<Rightarrow> ((False, 0), sm)
   | Inr d \<Rightarrow> (let status = sci_exit_status (sata_smartctl d) in
       if sata_serial_number d = [] \<or> is_virtual_device d then ((False, status), sm)
       else ((True, status), store_data (sata_data d) sm)))"

definition parse_smart_for_scsi :: "jtext \<Rightarrow> smart_manager \<Rightarrow> (bool \<times> int) \<times> smart_manager" where
  "parse_smart_for_scsi output sm = (case unmarshal dec_scsi_info output of
     Inl _ \<Rightarrow> ((False, 0), sm)
   | Inr d \<Rightarrow> (let status = sci_exit_status (scsi_smartctl d) in
       if scsi_serial_number d = [] \<or> is_virtual_device_scsi d then ((False, status), sm)
       else ((True, status), store_data (scsi_data d) sm)))"

definition parse_smart_for_nvme :: "jtext \<Rightarrow> smart_manager \<Rightarrow> (bool \<times> int) \<times> smart_manager" where
  "parse_smart_for_nvme output sm = (case unmarshal dec_nvme_info output of
     Inl _ \<Rightarrow> ((False, 0), sm)
   | Inr d \<Rightarrow> (let status = sci_exit_status (nvme_smartctl d) in
       if nvme_serial_number d = [] \<or> is_virtual_device_nvme d then ((False, status), sm)
       else ((True, status), store_data (nvme_data d) sm)))"

section \<open>Choosing the parser\<close>

definition has_json_value :: "json option \<Rightarrow> bool" where
  "has_json_value raw = (case raw of None \<Rightarrow> False | Some j \<Rightarrow> j \<noteq> JNull)"

definition detect_smart_output_type :: "jtext \<Rightarrow> string" where
  "detect_smart_output_type output = (case unmarshal (dec_struct Inr []) output of
     Inl _ \<Rightarrow> []
   | Inr fs \<Rightarrow>
       if has_json_value (jlast fs ''nvme_smart_health_information_log'') then ''nvme''
       else if has_json_value (jlast fs ''ata_smart_attributes'') then ''sat''
       else if has_json_value (jlast fs ''scsi_error_counter_log'') then ''scsi''
       else ''sat'')"

definition parser_names :: "string list" where
  "parser_names = [''nvme'', ''sat'', ''scsi'']"

definition run_parser ::
  "(json \<Rightarrow> string) \<Rightarrow> string \<Rightarrow> jtext \<Rightarrow> smart_manager \<Rightarrow> bool \<times> smart_manager" where
  "run_parser render name output sm =
     (case (if name = ''nvme'' then parse_smart_for_nvme output sm
            else if name = ''sat'' then parse_smart_for_sata render output sm
            else parse_smart_for_scsi output sm) of ((valid, _), sm') \<Rightarrow> (valid, sm'))"

definition selected_parsers :: "string \<Rightarrow> string list" where
  "selected_parsers device_type =
     filter (\<lambda>p. p = device_type) parser_names @ filter (\<lambda>p. p \<noteq> device_type) parser_names"

fun try_parsers ::
  "(json \<Rightarrow> string) \<Rightarrow> jtext \<Rightarrow> string list \<Rightarrow> smart_manager \<Rightarrow> string option \<times> smart_manager" where
  "try_parsers render output [] sm = (None, sm)"
| "try_parsers render output (p # ps) sm = (case run_parser render p output sm of
     (True, sm') \<Rightarrow> (Some p, sm')
   | (False, sm') \<Rightarrow> try_parsers render output ps sm')"

definition adopt_type :: "string \<Rightarrow> device_info \<Rightarrow> device_info" where
  "adopt_type t d = (if di_type d = [] \<or> equal_fold (di_type d) t then d\<lparr>di_type := t\<rparr> else d)"

text \<open>The parser to try first: the one known so far, unless the output has to be inspected.\<close>

definition choose_parser :: "jtext \<Rightarrow> device_info \<Rightarrow> string \<times> device_info" where
  "choose_parser output d0 =
     (let t0 = (let p = normalize_parser_type (di_parser_type d0) in
            if p = [] then normalize_parser_type (di_type d0) else p);
          d1 = (if di_parser_type d0 = [] \<and> t0 \<in> set parser_names then d0\<lparr>di_parser_type := t0\<rparr> else d0);
          hint = detect_smart_output_type output
      in if t0 = [] \<or> \<not> di_type_verified d1
         then if t0 \<noteq> hint
              then (hint, adopt_type hint (d1\<lparr>di_parser_type := hint, di_type_verified := False\<rparr>))
              else (t0, adopt_type hint d1)
         else (t0, d1))"

definition parse_smart_output ::
  "(json \<Rightarrow> string) \<Rightarrow> jtext \<Rightarrow> device_info \<Rightarrow> smart_manager \<Rightarrow> bool \<times> device_info \<times> smart_manager" where
  "parse_smart_output render output d0 sm = (case choose_parser output d0 of (t, d) \<Rightarrow>
     (case try_parsers render output (selected_parsers t) sm of
        (Some p, sm') \<Rightarrow> (True, adopt_type p (d\<lparr>di_parser_type := p\<rparr>)\<lparr>di_type_verified := True\<rparr>, sm')
      | (None, sm') \<Rightarrow> (False, d\<lparr>di_type_verified := False\<rparr>, sm')))"

section \<open>Collecting one device\<close>

definition is_nvme_controller_path :: "string \<Rightarrow> bool" where
  "is_nvme_controller_path path = numbered_name ''nvme'' (path_base path)"

definition smartctl_args :: "device_info \<Rightarrow> bool \<Rightarrow> string list" where
  "smartctl_args d include_standby =
     (let device_type = to_lower (di_type d); parser_type = to_lower (di_parser_type d);
          effective = (if parser_type = [] then device_type else parser_type)
      in (if device_type \<notin> {[], ''scsi'', ''ata''} then [''-d'', di_type d] else [])
         @ [''-a'', ''--json=c'']
         @ (if effective \<in> {''sat'', ''ata''} then [''-l'', ''devstat''] else [])
         @ (if include_standby then [''-n'', ''standby''] else [])
         @ [di_name d])"

definition has_data_for_device :: "string \<Rightarrow> smart_manager \<Rightarrow> bool" where
  "has_data_for_device name sm = list_ex (\<lambda>(_, d). smd_disk_name d = name) (sm_data sm)"

text \<open>
  \<open>CollectSmart\<close>.  \<open>run i\<close> is the \<open>i\<close>-th call of \<open>smartctl\<close>: the first one, the one that no longer
  spares a sleeping device, and the one for the namespace of an NVMe controller.  (Go's NVMe parser
  would dereference a nil pointer on the document \<open>null\<close>, which \<open>smartctl\<close> does not print.)
\<close>

definition collect_namespace ::
  "(json \<Rightarrow> string) \<Rightarrow> (string list \<Rightarrow> run_result) \<Rightarrow> go_error \<Rightarrow> device_info \<Rightarrow> smart_manager
    \<Rightarrow> unit res \<times> device_info \<times> smart_manager" where
  "collect_namespace render run err d sm =
     (let namespace_path = di_name d @ ''n1'' in
      if is_excluded_device namespace_path sm then (Inl err, d, sm)
      else let d1 = d\<lparr>di_name := namespace_path\<rparr>; r = run (smartctl_args d1 False) in
        (case run_interrupted r of
           Some e \<Rightarrow> (Inl e, d1, sm)
         | None \<Rightarrow> (case parse_smart_output render (rr_output r) d1 sm of
             (True, d2, sm') \<Rightarrow> (Inr (), d2, sm'\<lparr>sm_excluded := insert (di_name d) (sm_excluded sm')\<rparr>)
           | (False, d2, sm') \<Rightarrow>
               (Inl (case run_error r of Some e \<Rightarrow> e | None \<Rightarrow> no_valid_smart_data), d2, sm'))))"

definition collect_parsed ::
  "(json \<Rightarrow> string) \<Rightarrow> (string list \<Rightarrow> run_result) \<Rightarrow> run_result \<Rightarrow> device_info \<Rightarrow> smart_manager
    \<Rightarrow> unit res \<times> device_info \<times> smart_manager" where
  "collect_parsed render run r d sm =
     (case parse_smart_output render (rr_output r) d sm of
        (True, d1, sm1) \<Rightarrow> (Inr (), d1, sm1)
      | (False, d1, sm1) \<Rightarrow> (case run_error r of
          None \<Rightarrow> (Inl no_valid_smart_data, d1, sm1)
        | Some err \<Rightarrow>
            if is_nvme_controller_path (di_name d1) then collect_namespace render run err d1 sm1
            else (Inl err, d1, sm1)))"

definition collect_by_smartctl ::
  "(json \<Rightarrow> string) \<Rightarrow> (nat \<Rightarrow> string list \<Rightarrow> run_result) \<Rightarrow> device_info \<Rightarrow> smart_manager
    \<Rightarrow> unit res \<times> device_info \<times> smart_manager" where
  "collect_by_smartctl render run d sm =
     (if sm_smartctl_path sm = [] then (Inl no_valid_smart_data, d, sm)
      else let existing = has_data_for_device (di_name d) sm; r = run 0 (smartctl_args d existing) in
        (case run_interrupted r of
           Some e \<Rightarrow> (Inl e, d, sm)
         | None \<Rightarrow>
             if \<not> in_standby r then collect_parsed render (run 2) r d sm
             else if existing then (Inr (), d, sm)
             else let r1 = run 1 (smartctl_args d False) in
               (case run_interrupted r1 of
                  Some e \<Rightarrow> (Inl e, d, sm)
                | None \<Rightarrow> collect_parsed render (run 2) r1 d sm)))"

definition collect_smart ::
  "go_error option \<Rightarrow> (json \<Rightarrow> string) \<Rightarrow> sysfs \<Rightarrow> (nat \<Rightarrow> string list \<Rightarrow> run_result) \<Rightarrow> device_info
    \<Rightarrow> smart_manager \<Rightarrow> unit res \<times> device_info \<times> smart_manager" where
  "collect_smart ctx_err render sy run d sm = (case ctx_err of
     Some e \<Rightarrow> (Inl e, d, sm)
   | None \<Rightarrow>
       if is_excluded_device (di_name d) sm then (Inl no_valid_smart_data, d, sm)
       else (case collect_mdraid_health sy d (sm_data sm) of
         Some (d', m) \<Rightarrow> (Inr (), d', sm\<lparr>sm_data := m\<rparr>)
       | None \<Rightarrow> (case collect_emmc_health sy d (sm_data sm) of
           Some (d', m) \<Rightarrow> (Inr (), d', sm\<lparr>sm_data := m\<rparr>)
         | None \<Rightarrow> collect_by_smartctl render run d sm)))"

section \<open>Refreshing all devices\<close>

record refresh_answers =
  ra_ctx_err :: "go_error option"
  ra_scan :: scan_answers
  ra_ctx :: "nat \<Rightarrow> go_error option"
  ra_sysfs :: "nat \<Rightarrow> sysfs"
  ra_run :: "nat \<Rightarrow> nat \<Rightarrow> string list \<Rightarrow> run_result"
  ra_render :: "json \<Rightarrow> string"

definition resolve_refresh_error :: "go_error option \<Rightarrow> go_error option \<Rightarrow> smart_manager \<Rightarrow> unit res" where
  "resolve_refresh_error scan_err collect_err sm =
     (if sm_devices sm = [] \<and> scan_err \<noteq> None then Inl (the scan_err)
      else if sm_data sm \<noteq> [] then Inr ()
      else case collect_err of
        Some e \<Rightarrow> Inl e
      | None \<Rightarrow> (case scan_err of Some e \<Rightarrow> Inl e | None \<Rightarrow> Inl no_valid_smart_data))"

text \<open>
  The loop over the devices: an interruption ends it, any other error is kept, the last one wins.
\<close>

fun collect_each ::
  "refresh_answers \<Rightarrow> nat list \<Rightarrow> go_error option \<Rightarrow> smart_manager \<Rightarrow> go_error option res \<times> smart_manager" where
  "collect_each ra [] collect_err sm = (Inr collect_err, sm)"
| "collect_each ra (i # is) collect_err sm = (case ra_ctx ra i of
     Some e \<Rightarrow> (Inl e, sm)
   | None \<Rightarrow> (case collect_smart None (ra_render ra) (ra_sysfs ra i) (ra_run ra i) (sm_devices sm ! i) sm of
       (r, d, sm1) \<Rightarrow>
         let sm2 = sm1\<lparr>sm_devices := (sm_devices sm1)[i := d]\<rparr> in
         (case r of
            Inr _ \<Rightarrow> collect_each ra is collect_err sm2
          | Inl e \<Rightarrow>
              if interrupted e then (Inl e, sm2)
              else collect_each ra is (Some (ErrWrap (di_name d) e)) sm2)))"

definition smart_refresh :: "refresh_answers \<Rightarrow> bool \<Rightarrow> smart_manager \<Rightarrow> unit res \<times> smart_manager" where
  "smart_refresh ra force sm = (case ra_ctx_err ra of
     Some e \<Rightarrow> (Inl e, sm)
   | None \<Rightarrow> (case scan_devices (ra_scan ra) force sm of
       (scan, sm1) \<Rightarrow>
         let scan_err = (case scan of Inl e \<Rightarrow> Some e | Inr _ \<Rightarrow> None) in
         (case collect_each ra [0..<length (sm_devices sm1)] None sm1 of
            (Inl e, sm2) \<Rightarrow> (Inl e, sm2)
          | (Inr collect_err, sm2) \<Rightarrow> (resolve_refresh_error scan_err collect_err sm2, sm2))))"

text \<open>\<open>NewSmartManager\<close>: \<open>look_path\<close> finds \<open>smartctl\<close> or fails.\<close>

definition new_smart_manager ::
  "(string \<Rightarrow> string option) \<Rightarrow> string res \<Rightarrow> sysfs \<Rightarrow> int \<Rightarrow> smart_manager res" where
  "new_smart_manager env look_path sy default_interval =
     (let sm = \<lparr>sm_data = [], sm_devices = [], sm_last_scan = None, sm_smartctl_path = [],
            sm_excluded = excluded_devices env, sm_refresh_interval = default_interval,
            sm_last_refresh = None, sm_last_refresh_error = []\<rparr>
      in case look_path of
           Inr path \<Rightarrow> Inr (sm\<lparr>sm_smartctl_path := path\<rparr>)
         | Inl e \<Rightarrow>
             if scan_emmc_devices sy \<noteq> [] \<or> scan_mdraid_devices sy \<noteq> [] then Inr sm else Inl e)"

section \<open>Samples\<close>

definition no_sysfs :: sysfs where
  "no_sysfs = \<lparr>sy_file = (\<lambda>_. None), sy_exists = (\<lambda>_. False), sy_dir = (\<lambda>_. None)\<rparr>"

definition printed :: "jtext \<Rightarrow> run_failure option \<Rightarrow> run_result" where
  "printed output failure = \<lparr>rr_output = output, rr_ctx_err = None, rr_failure = failure\<rparr>"

definition sample_scan :: "int \<Rightarrow> jtext \<Rightarrow> scan_answers" where
  "sample_scan now output = \<lparr>sc_now = now, sc_now_end = now, sc_ctx_err = None, sc_env = (\<lambda>_. None),
     sc_run = printed output None, sc_sysfs = no_sysfs\<rparr>"

definition idle_refresh :: refresh_answers where
  "idle_refresh = \<lparr>ra_ctx_err = None, ra_scan = sample_scan 0 (JBad []), ra_ctx = (\<lambda>_. None),
     ra_sysfs = (\<lambda>_. no_sysfs), ra_run = (\<lambda>_ _ _. printed (JBad []) None), ra_render = (\<lambda>_. [])\<rparr>"

end
