(* ===== verification/Runtime.thy ===== *)
theory Runtime
  imports Http_Api Config Smart_Collect
begin

text \<open>
  \<open>internal/app/runtime.go\<close>: the running agent.  Its state is the record \<open>agent\<close>; what the outside
  answers during an operation (clocks, collectors, SQL failures, the health file, \<open>smartctl\<close>) is a
  record of arguments.  Times are nanoseconds; the store's are milliseconds.  An agent that is not
  running has no store; using it then is a nil pointer, the error \<open>nil_store_panic\<close>.
\<close>

section \<open>State\<close>

definition DefaultCollectorInterval :: int where "DefaultCollectorInterval = 15 * second"
definition DefaultSmartRefreshInterval :: int where "DefaultSmartRefreshInterval = hour"

record http_runtime =
  hr_name :: string
  hr_requested_address :: string
  hr_effective_address :: string
  hr_apis :: "string list"

record agent =
  ag_data_dir :: string
  ag_store :: "store option"
  ag_live :: live
  ag_gather :: gather_state
  ag_health :: health
  ag_smart :: "smart_manager option"
  ag_details_smart_interval :: int
  ag_collector_interval :: int
  ag_history_plugins :: "string list"
  ag_config_path :: string
  ag_config_source :: string
  ag_config_version :: int
  ag_http :: "http_runtime list"
  ag_updates :: "int list option"

record run_options =
  ro_listeners :: "listener_options list"
  ro_collector_interval :: int
  ro_smart_refresh_interval :: int
  ro_history :: string
  ro_history_set :: bool
  ro_config_path :: string
  ro_config_source :: string
  ro_config_version :: int
  ro_cache_ttl :: "(string, int) gmap option"

record reload_options =
  rl_collector_interval :: int
  rl_smart_refresh_interval :: int
  rl_history :: string
  rl_history_set :: bool
  rl_cache_ttl :: "(string, int) gmap option"
  rl_config_source :: string
  rl_config_version :: int

definition nil_store_panic :: go_error where
  "nil_store_panic = ErrText ''panic: nil pointer dereference''"

section \<open>Configuration at run time\<close>

definition positive_or :: "int \<Rightarrow> int \<Rightarrow> int" where
  "positive_or default_value d = (if d \<le> 0 then default_value else d)"

definition validate_and_normalize_opts :: "agent \<Rightarrow> run_options \<Rightarrow> run_options res" where
  "validate_and_normalize_opts a opts =
     (if ag_data_dir a = [] then Inl (ErrText ''data directory not configured'')
      else if ag_store a \<noteq> None then Inl (ErrText ''agent already started'')
      else Inr (opts\<lparr>ro_collector_interval := positive_or DefaultCollectorInterval (ro_collector_interval opts),
        ro_smart_refresh_interval := positive_or DefaultSmartRefreshInterval (ro_smart_refresh_interval opts)\<rparr>))"

definition collector_interval :: "agent \<Rightarrow> int" where
  "collector_interval a = positive_or DefaultCollectorInterval (ag_collector_interval a)"

definition set_smart_refresh_interval :: "int \<Rightarrow> agent \<Rightarrow> agent" where
  "set_smart_refresh_interval interval0 a = (let interval = positive_or DefaultSmartRefreshInterval interval0 in
     a\<lparr>ag_details_smart_interval := interval,
       ag_smart := map_option (\<lambda>m. m\<lparr>sm_refresh_interval := interval\<rparr>) (ag_smart a)\<rparr>)"

definition set_runtime_config ::
  "int \<Rightarrow> int \<Rightarrow> string list \<Rightarrow> string \<Rightarrow> string \<Rightarrow> int \<Rightarrow> agent \<Rightarrow> agent" where
  "set_runtime_config interval smart_interval history_plugins config_path config_source config_version a =
     set_smart_refresh_interval (positive_or DefaultSmartRefreshInterval smart_interval)
       (a\<lparr>ag_collector_interval := positive_or DefaultCollectorInterval interval,
          ag_history_plugins := history_plugins, ag_config_path := config_path,
          ag_config_source := config_source, ag_config_version := config_version\<rparr>)"

definition set_ttls_option :: "(string, int) gmap option \<Rightarrow> agent \<Rightarrow> agent" where
  "set_ttls_option ttls a = (case ttls of
     None \<Rightarrow> a | Some m \<Rightarrow> a\<lparr>ag_live := set_live_current_ttls m (ag_live a)\<rparr>)"

definition apply_reload :: "env \<Rightarrow> reload_options \<Rightarrow> agent \<Rightarrow> (int \<times> string list) res \<times> agent" where
  "apply_reload env opts a =
     (let interval = positive_or DefaultCollectorInterval (rl_collector_interval opts);
          smart_interval = positive_or DefaultSmartRefreshInterval (rl_smart_refresh_interval opts)
      in case parse_history_plugins (rl_history opts) (rl_history_set opts) env of
           Inl e \<Rightarrow> (Inl e, a)
         | Inr history_plugins \<Rightarrow>
             let a1 = set_ttls_option (rl_cache_ttl opts) a;
                 a2 = a1\<lparr>ag_store := map_option (set_history_plugins history_plugins) (ag_store a1)\<rparr>
             in (Inr (interval, history_plugins),
                 set_runtime_config interval smart_interval history_plugins (ag_config_path a2)
                   (rl_config_source opts) (rl_config_version opts) a2))"

text \<open>
  The one-slot channel of interval updates.  When it is full, the old value is received and the new
  one sent; here nothing happens between the two (the interleavings are below).
\<close>

definition send_latest :: "int \<Rightarrow> int list \<Rightarrow> int list" where
  "send_latest interval updates = (if updates = [] then [interval] else tl updates @ [interval])"

definition reload_runtime :: "env \<Rightarrow> reload_options \<Rightarrow> agent \<Rightarrow> unit res \<times> agent" where
  "reload_runtime env opts a = (case apply_reload env opts a of
     (Inl e, a1) \<Rightarrow> (Inl e, a1)
   | (Inr (interval, _), a1) \<Rightarrow> (Inr (), a1\<lparr>ag_updates := map_option (send_latest interval) (ag_updates a1)\<rparr>))"

text \<open>\<open>handleSIGHUP\<close>: \<open>reload\<close> is the answer of the reload hook, if there is one.\<close>

definition handle_sighup :: "env \<Rightarrow> reload_options res option \<Rightarrow> agent \<Rightarrow> agent" where
  "handle_sighup env reload a = (case reload of
     None \<Rightarrow> a
   | Some (Inl e) \<Rightarrow> a
   | Some (Inr opts) \<Rightarrow> snd (reload_runtime env opts a))"

section \<open>SMART\<close>

text \<open>
  What the refresh of the devices meets, the context's error after it, and SQL failures.  A refresh
  that fails may have updated some devices.
\<close>

record smart_answers =
  sa_refresh :: refresh_answers
  sa_ctx_err :: "go_error option"
  sa_fault :: fault

definition with_store :: "(store \<Rightarrow> unit res \<times> store) \<Rightarrow> agent \<Rightarrow> unit res \<times> agent" where
  "with_store f a = (case ag_store a of
     None \<Rightarrow> (Inl nil_store_panic, a)
   | Some s \<Rightarrow> (case f s of (r, s') \<Rightarrow> (r, a\<lparr>ag_store := Some s'\<rparr>)))"

definition refresh_smart :: "smart_answers \<Rightarrow> int \<Rightarrow> bool \<Rightarrow> agent \<Rightarrow> unit res \<times> agent" where
  "refresh_smart sa now force_scan a = (case ag_smart a of
     None \<Rightarrow> (case sa_ctx_err sa of
         Some e \<Rightarrow> (Inl e, a)
       | None \<Rightarrow> with_store (write_smart_devices (sa_fault sa) (unix_milli now) []) a)
   | Some m \<Rightarrow> (case smart_refresh (sa_refresh sa) force_scan m of (r, m1) \<Rightarrow>
       let a1 = a\<lparr>ag_smart := Some m1\<rparr> in
       (case r of
          Inl e \<Rightarrow> (Inl e, a1)
        | Inr _ \<Rightarrow> (case sa_ctx_err sa of
            Some e \<Rightarrow> (Inl e, a1)
          | None \<Rightarrow> (case with_store (write_smart_devices (sa_fault sa) (unix_milli now) (sm_data m1)) a1 of
              (Inl e, a2) \<Rightarrow> (Inl e, a2)
            | (Inr _, a2) \<Rightarrow> (Inr (), a2\<lparr>ag_smart := map_option (\<lambda>m. m\<lparr>sm_last_refresh := Some now\<rparr>) (ag_smart a2)\<rparr>))))))"

datatype smart_log = LogNothing | LogRecovered | LogFailed | LogStillFailing

definition log_smart_refresh_result :: "unit res \<Rightarrow> agent \<Rightarrow> smart_log \<times> agent" where
  "log_smart_refresh_result r a = (case ag_smart a of
     None \<Rightarrow> (LogNothing, a)
   | Some m \<Rightarrow>
       let current_error = (case r of Inl e \<Rightarrow> error_text e | Inr _ \<Rightarrow> []);
           previous_error = sm_last_refresh_error m
       in (if current_error = [] then (if previous_error \<noteq> [] then LogRecovered else LogNothing)
           else if previous_error \<noteq> current_error then LogFailed else LogStillFailing,
           a\<lparr>ag_smart := Some (m\<lparr>sm_last_refresh_error := current_error\<rparr>)\<rparr>))"

definition smart_due :: "int \<Rightarrow> smart_manager \<Rightarrow> bool" where
  "smart_due now m = (case sm_last_refresh m of
     None \<Rightarrow> True | Some t \<Rightarrow> sm_refresh_interval m \<le> now - t)"

definition refresh_smart_if_due :: "smart_answers \<Rightarrow> int \<Rightarrow> agent \<Rightarrow> unit res \<times> agent" where
  "refresh_smart_if_due sa now a = (case ag_smart a of
     None \<Rightarrow> (Inr (), a)
   | Some m \<Rightarrow>
       if \<not> smart_due now m then (Inr (), a)
       else (case refresh_smart sa now False a of
         (r, a1) \<Rightarrow> (r, snd (log_smart_refresh_result r a1))))"

definition refresh_smart_now :: "smart_answers \<Rightarrow> int \<Rightarrow> agent \<Rightarrow> unit res \<times> agent" where
  "refresh_smart_now sa now a = (case refresh_smart sa now True a of
     (r, a1) \<Rightarrow> (r, snd (log_smart_refresh_result r a1)))"

section \<open>The collector\<close>

record tick_answers =
  ta_ctx_err :: "go_error option"
  ta_clock :: int
  ta_clock_end :: int
  ta_readings :: readings
  ta_ctx_err_after :: "go_error option"
  ta_fault :: fault
  ta_health_files :: "string \<Rightarrow> file_answers"
  ta_health_clock :: int
  ta_health_fallback :: string
  ta_smart :: smart_answers
  ta_maintenance_fault :: fault

definition collect_and_persist :: "tick_answers \<Rightarrow> int \<Rightarrow> agent \<Rightarrow> unit res \<times> agent" where
  "collect_and_persist ta now a =
     (case gather_stats (ta_ctx_err ta) (ta_clock ta) (ta_clock_end ta) (ta_readings ta)
         default_data_cache_time_ms True (ag_gather a) of
        (Inl e, g) \<Rightarrow> (Inl e, a\<lparr>ag_gather := g\<rparr>)
      | (Inr data, g) \<Rightarrow>
          let a1 = a\<lparr>ag_gather := g\<rparr> in
          (case ta_ctx_err_after ta of
             Some e \<Rightarrow> (Inl e, a1)
           | None \<Rightarrow> (case with_store (write_snapshot (ta_fault ta) (unix_milli now) (Some data)) a1 of
               (Inl e, a2) \<Rightarrow> (Inl e, a2)
             | (Inr _, a2) \<Rightarrow> (case health_update (ta_health_files ta) (ta_health_clock ta) (ta_health_fallback ta) (ag_health a2) of
                 (Inl e, h) \<Rightarrow> (Inl e, a2\<lparr>ag_health := h\<rparr>)
               | (Inr _, h) \<Rightarrow>
                   let a3 = snd (refresh_smart_if_due (ta_smart ta) now (a2\<lparr>ag_health := h\<rparr>)) in
                   (case with_store (run_maintenance (ta_maintenance_fault ta) (unix_milli now)) a3 of
                      (Inl e, a4) \<Rightarrow> (Inl (ErrWrap ''maintenance failed'' e), a4)
                    | (Inr _, a4) \<Rightarrow> (Inr (), a4))))))"

section \<open>HTTP servers\<close>

text \<open>
  \<open>startHTTPServers\<close>: \<open>open_at\<close> is \<open>openListener\<close>, the effective address or an error.  The servers
  that were started before a failure stay in the agent; the caller shuts them down.
\<close>

definition http_runtime_of :: "listener_options \<Rightarrow> string \<Rightarrow> http_runtime" where
  "http_runtime_of lo effective = \<lparr>hr_name = lo_name lo, hr_requested_address = lo_address lo,
     hr_effective_address = effective, hr_apis = lo_apis lo\<rparr>"

fun start_http_servers ::
  "(string \<Rightarrow> string res) \<Rightarrow> listener_options list \<Rightarrow> agent \<Rightarrow> unit res \<times> agent" where
  "start_http_servers open_at [] a = (Inr (), a)"
| "start_http_servers open_at (lo # los) a =
     (if is_listen_disabled (lo_address lo) then start_http_servers open_at los a
      else case open_at (lo_address lo) of
        Inl e \<Rightarrow> if lo_best_effort lo then start_http_servers open_at los a else (Inl e, a)
      | Inr effective \<Rightarrow>
          start_http_servers open_at los (a\<lparr>ag_http := ag_http a @ [http_runtime_of lo effective]\<rparr>))"

text \<open>\<open>shutdown\<close> is the error of shutting down a server, if any.\<close>

definition shutdown_http_servers :: "(http_runtime \<Rightarrow> go_error option) \<Rightarrow> agent \<Rightarrow> go_error option \<times> agent" where
  "shutdown_http_servers shutdown a =
     (foldl (\<lambda>acc r. case shutdown r of
          None \<Rightarrow> acc
        | Some e \<Rightarrow> (case acc of None \<Rightarrow> Some e | Some e0 \<Rightarrow> Some (ErrJoin e0 e))) None (ag_http a),
      a\<lparr>ag_http := []\<rparr>)"

definition runtime_meta :: "bool \<Rightarrow> http_runtime \<Rightarrow> listener_meta" where
  "runtime_meta active r = \<lparr>lm_name = hr_name r, lm_address = hr_requested_address r,
     lm_effective_address = hr_effective_address r, lm_apis = hr_apis r, lm_active = active\<rparr>"

definition agent_listeners :: "agent \<Rightarrow> listener_meta list" where
  "agent_listeners a = map (runtime_meta True) (ag_http a)"

section \<open>Reports\<close>

definition config_info :: "agent \<Rightarrow> config_meta" where
  "config_info a = \<lparr>cm_path = ag_config_path a, cm_source = ag_config_source a, cm_version = ag_config_version a,
     cm_collector_interval = duration_string (ag_collector_interval a),
     cm_history_plugins = (if ag_history_plugins a = [] then None else Some (ag_history_plugins a)),
     cm_cache_ttl = Some (mvals duration_string (lv_ttls (ag_live a)))\<rparr>"

definition smart_refresh_interval_string :: "agent \<Rightarrow> string" where
  "smart_refresh_interval_string a = (case ag_smart a of
     None \<Rightarrow> [] | Some m \<Rightarrow> duration_string (sm_refresh_interval m))"

definition status_meta :: "string \<Rightarrow> string \<Rightarrow> agent \<Rightarrow> meta_response" where
  "status_meta version path a = \<lparr>mr_version = version, mr_data_dir = ag_data_dir a,
     mr_db_path = (if ag_store a = None then [] else path), mr_listeners = agent_listeners a,
     mr_collector_interval = duration_string (collector_interval a),
     mr_smart_refresh_interval = smart_refresh_interval_string a, mr_config = config_info a,
     mr_retention = retention_strings\<rparr>"

text \<open>\<open>check_rows\<close> is what \<open>PRAGMA quick_check\<close> returns, or the error of the query.\<close>

definition check_database :: "(go_error + string list) \<Rightarrow> agent \<Rightarrow> unit res" where
  "check_database check_rows a =
     (if ag_store a = None then Inl (ErrText ''database not open'') else attempt check_rows check_db_integrity)"

definition maintain_database ::
  "go_error option \<Rightarrow> fault \<Rightarrow> int \<Rightarrow> (go_error + string list) \<Rightarrow> agent \<Rightarrow> unit res \<times> agent" where
  "maintain_database ctx_err fault now check_rows a =
     (if ag_store a = None then (Inl (ErrText ''database not open''), a)
      else case ctx_err of
        Some e \<Rightarrow> (Inl e, a)
      | None \<Rightarrow> (case with_store (run_maintenance fault (unix_milli now)) a of
          (Inl e, a1) \<Rightarrow> (Inl e, a1)
        | (Inr _, a1) \<Rightarrow> (attempt check_rows check_db_integrity, a1)))"

section \<open>The API of the running agent\<close>

text \<open>What surrounds one request: the context, clocks, collectors, queries and \<open>smartctl\<close>.\<close>

record api_answers =
  aa_ctx_err :: "go_error option"
  aa_clock :: int
  aa_clock_end :: int
  aa_readings :: readings
  aa_queries :: queries
  aa_smart :: smart_answers

definition on_live :: "(live \<Rightarrow> 'r \<times> live) \<Rightarrow> agent \<Rightarrow> 'r \<times> agent" where
  "on_live f a = (case f (ag_live a) of (r, l) \<Rightarrow> (r, a\<lparr>ag_live := l\<rparr>))"

definition agent_metrics :: "api_answers \<Rightarrow> string \<Rightarrow> agent \<Rightarrow> metrics_reader" where
  "agent_metrics aa path a = (case ag_store a of
     None \<Rightarrow> \<lparr>mt_path = path, mt_history = (\<lambda>_ _ _ _ _. Inl nil_store_panic), mt_history_enabled = (\<lambda>_. False)\<rparr>
   | Some s \<Rightarrow> store_metrics (aa_queries aa) path s)"

definition api_server ::
  "api_answers \<Rightarrow> string \<Rightarrow> string \<Rightarrow> (command_request \<Rightarrow> agent \<Rightarrow> (int \<times> json) \<times> agent) option \<Rightarrow> agent
    \<Rightarrow> agent server" where
  "api_server aa version path executor a = \<lparr>sv_metrics = agent_metrics aa path a,
     sv_current = \<lparr>cr_plugin = (\<lambda>plugin. on_live
         (live_current_plugin (aa_ctx_err aa) (aa_clock aa) (aa_clock_end aa) (aa_readings aa) plugin)),
       cr_summary = on_live (live_system_summary (aa_ctx_err aa) (aa_clock aa) (aa_clock_end aa) (aa_readings aa))\<rparr>,
     sv_refresh = Some (refresh_smart_now (aa_smart aa) (aa_clock aa)),
     sv_command = executor, sv_version = version, sv_data_dir = ag_data_dir a,
     sv_listeners = agent_listeners, sv_smart_refresh_interval = smart_refresh_interval_string,
     sv_config_info = config_info\<rparr>"

section \<open>Loops\<close>

text \<open>\<open>runEventLoop\<close> over what the channels deliver; it stops at the first end.\<close>

datatype event = EvDone | EvHup "reload_options res option" | EvServer "go_error option"

fun run_event_loop :: "env \<Rightarrow> event list \<Rightarrow> agent \<Rightarrow> go_error option option \<times> agent" where
  "run_event_loop env [] a = (None, a)"
| "run_event_loop env (EvDone # es) a = (Some None, a)"
| "run_event_loop env (EvHup reload # es) a = run_event_loop env es (handle_sighup env reload a)"
| "run_event_loop env (EvServer err # es) a = (Some err, a)"

text \<open>
  \<open>runCollector\<close>: the goroutine's own state is the ticker's interval; an update is received from
  the channel, a tick collects and only logs its error.
\<close>

datatype collector_event = CUpdate | CTick tick_answers int

fun collector_step :: "collector_event \<Rightarrow> int \<times> agent \<Rightarrow> int \<times> agent" where
  "collector_step CUpdate (interval, a) = (case ag_updates a of
     Some (next # rest) \<Rightarrow> (positive_or DefaultCollectorInterval next, a\<lparr>ag_updates := Some rest\<rparr>)
   | _ \<Rightarrow> (interval, a))"
| "collector_step (CTick ta now) (interval, a) = (interval, snd (collect_and_persist ta now a))"

text \<open>
  \<open>StartContext\<close> up to the loops.  \<open>opened\<close> is \<open>OpenStore\<close>.  An error closes the store again.
\<close>

definition start_context ::
  "env \<Rightarrow> (string list \<Rightarrow> store res) \<Rightarrow> tick_answers \<Rightarrow> int \<Rightarrow> (string \<Rightarrow> string res)
    \<Rightarrow> (http_runtime \<Rightarrow> go_error option) \<Rightarrow> run_options \<Rightarrow> agent \<Rightarrow> unit res \<times> agent" where
  "start_context env opened ta now open_at shutdown opts0 a =
     (case validate_and_normalize_opts a opts0 of
        Inl e \<Rightarrow> (Inl e, a)
      | Inr opts \<Rightarrow> (case parse_history_plugins (ro_history opts) (ro_history_set opts) env of
          Inl e \<Rightarrow> (Inl e, a)
        | Inr history_plugins \<Rightarrow>
            let a1 = set_ttls_option (ro_cache_ttl opts) (set_runtime_config (ro_collector_interval opts)
              (ro_smart_refresh_interval opts) history_plugins (ro_config_path opts) (ro_config_source opts)
              (ro_config_version opts) a)
            in (case opened history_plugins of
              Inl e \<Rightarrow> (Inl e, a1)
            | Inr s \<Rightarrow> (case collect_and_persist ta now (a1\<lparr>ag_store := Some s\<rparr>) of
                (Inl e, a2) \<Rightarrow> (Inl e, a2\<lparr>ag_store := None\<rparr>)
              | (Inr _, a2) \<Rightarrow> (case start_http_servers open_at (ro_listeners opts) a2 of
                  (Inl e, a3) \<Rightarrow> (case shutdown_http_servers shutdown a3 of
                      (None, a4) \<Rightarrow> (Inl e, a4\<lparr>ag_store := None\<rparr>)
                    | (Some e', a4) \<Rightarrow> (Inl (ErrJoin e e'), a4\<lparr>ag_store := None\<rparr>))
                | (Inr _, a3) \<Rightarrow> (Inr (), a3\<lparr>ag_updates := Some []\<rparr>))))))"

section \<open>Facts about a tick\<close>

lemma with_store_Inr:
  "with_store f a = (Inr u, a') \<longleftrightarrow> (\<exists>s s'. ag_store a = Some s \<and> f s = (Inr u, s') \<and> a' = a\<lparr>ag_store := Some s'\<rparr>)"
  by (auto simp: with_store_def split: option.splits prod.splits)

lemma with_store_keeps [simp]:
  "ag_health (snd (with_store f a)) = ag_health a" "ag_gather (snd (with_store f a)) = ag_gather a"
  "ag_smart (snd (with_store f a)) = ag_smart a"
  by (simp_all add: with_store_def case_prod_unfold split: option.splits)

text \<open>What SMART refreshes and maintenance leave of the snapshot's rows.\<close>

definition keeps_snapshot :: "store option \<Rightarrow> store option \<Rightarrow> bool" where
  "keeps_snapshot so so' = (case (so, so') of
     (None, None) \<Rightarrow> True
   | (Some s, Some s') \<Rightarrow> db_meta (st_db s') ''last_persisted_at'' = db_meta (st_db s) ''last_persisted_at''
       \<and> (\<forall>p. p \<noteq> PluginSmart \<longrightarrow> db_current (st_db s') p = db_current (st_db s) p)
   | _ \<Rightarrow> False)"

lemma keeps_snapshot_refl [simp]: "keeps_snapshot so so"
  by (simp add: keeps_snapshot_def split: option.splits)

lemma keeps_snapshot_trans: "keeps_snapshot a b \<Longrightarrow> keeps_snapshot b c \<Longrightarrow> keeps_snapshot a c"
  by (auto simp: keeps_snapshot_def split: option.splits)

lemma keeps_snapshot_smart:
  "keeps_snapshot (ag_store a) (ag_store (snd (with_store (write_smart_devices fault ts items) a)))"
  by (auto simp: keeps_snapshot_def with_store_def case_prod_unfold write_smart_devices_keeps split: option.splits)

lemma keeps_snapshot_maintenance:
  "keeps_snapshot (ag_store a) (ag_store (snd (with_store (run_maintenance fault ts) a)))"
  by (auto simp: keeps_snapshot_def with_store_def case_prod_unfold run_maintenance_meta split: option.splits)

lemma refresh_smart_keeps:
  "ag_health (snd (refresh_smart sa now force a)) = ag_health a \<and> ag_gather (snd (refresh_smart sa now force a)) = ag_gather a
    \<and> keeps_snapshot (ag_store a) (ag_store (snd (refresh_smart sa now force a)))"
proof (cases "ag_smart a")
  case None
  then show ?thesis
    by (auto simp: refresh_smart_def keeps_snapshot_smart split: option.splits)
next
  case (Some m)
  obtain r m1 where r: "smart_refresh (sa_refresh sa) force m = (r, m1)"
    by fastforce
  let ?a1 = "a\<lparr>ag_smart := Some m1\<rparr>"
  obtain w a2 where w: "with_store (write_smart_devices (sa_fault sa) (unix_milli now) (sm_data m1)) ?a1 = (w, a2)"
    by fastforce
  have "ag_health a2 = ag_health a" "ag_gather a2 = ag_gather a" "keeps_snapshot (ag_store a) (ag_store a2)"
    using with_store_keeps [of "write_smart_devices (sa_fault sa) (unix_milli now) (sm_data m1)" ?a1]
      keeps_snapshot_smart [of ?a1 "sa_fault sa" "unix_milli now" "sm_data m1"] by (simp_all add: w)
  then show ?thesis
    using Some r w by (simp add: refresh_smart_def Let_def split: sum.splits option.splits)
qed

lemma log_smart_keeps:
  "ag_health (snd (log_smart_refresh_result r a)) = ag_health a" "ag_gather (snd (log_smart_refresh_result r a)) = ag_gather a"
  "ag_store (snd (log_smart_refresh_result r a)) = ag_store a"
  by (simp_all add: log_smart_refresh_result_def Let_def split: option.splits)

lemma refresh_smart_if_due_keeps:
  "ag_health (snd (refresh_smart_if_due sa now a)) = ag_health a"
  "ag_gather (snd (refresh_smart_if_due sa now a)) = ag_gather a"
  "keeps_snapshot (ag_store a) (ag_store (snd (refresh_smart_if_due sa now a)))"
  using refresh_smart_keeps [of sa now False a]
  by (auto simp: refresh_smart_if_due_def case_prod_unfold log_smart_keeps split: option.splits)

text \<open>Whether a tick gets as far as storing its snapshot.\<close>

definition tick_persists :: "tick_answers \<Rightarrow> int \<Rightarrow> agent \<Rightarrow> bool" where
  "tick_persists ta now a = (case gather_stats (ta_ctx_err ta) (ta_clock ta) (ta_clock_end ta) (ta_readings ta)
       default_data_cache_time_ms True (ag_gather a) of
     (Inl _, _) \<Rightarrow> False
   | (Inr data, g) \<Rightarrow> ta_ctx_err_after ta = None
       \<and> fst (with_store (write_snapshot (ta_fault ta) (unix_milli now) (Some data)) (a\<lparr>ag_gather := g\<rparr>)) = Inr ())"

lemma collect_not_persisted:
  assumes "\<not> tick_persists ta now a"
  shows "ag_health (snd (collect_and_persist ta now a)) = ag_health a \<and> fst (collect_and_persist ta now a) \<noteq> Inr ()"
proof -
  obtain r g where g: "gather_stats (ta_ctx_err ta) (ta_clock ta) (ta_clock_end ta) (ta_readings ta)
       default_data_cache_time_ms True (ag_gather a) = (r, g)"
    by fastforce
  show ?thesis
  proof (cases r)
    case (Inr data)
    obtain w a2 where w: "with_store (write_snapshot (ta_fault ta) (unix_milli now) (Some data)) (a\<lparr>ag_gather := g\<rparr>) = (w, a2)"
      by fastforce
    have "ag_health a2 = ag_health a"
      using with_store_keeps(1) [of "write_snapshot (ta_fault ta) (unix_milli now) (Some data)" "a\<lparr>ag_gather := g\<rparr>"] w by simp
    then show ?thesis
      using assms g Inr w by (cases w) (auto simp: tick_persists_def collect_and_persist_def Let_def split: option.splits)
  qed (simp add: collect_and_persist_def g)
qed

lemma collect_persisted:
  assumes "tick_persists ta now a"
  obtains data g s s1 r h where
    "gather_stats (ta_ctx_err ta) (ta_clock ta) (ta_clock_end ta) (ta_readings ta) default_data_cache_time_ms True (ag_gather a)
      = (Inr data, g)"
    "ag_store a = Some s" "write_snapshot (ta_fault ta) (unix_milli now) (Some data) s = (Inr (), s1)"
    "health_update (ta_health_files ta) (ta_health_clock ta) (ta_health_fallback ta) (ag_health a) = (r, h)"
    "ag_health (snd (collect_and_persist ta now a)) = h"
    "ag_gather (snd (collect_and_persist ta now a)) = g"
    "keeps_snapshot (Some s1) (ag_store (snd (collect_and_persist ta now a)))"
proof -
  obtain data g where g: "gather_stats (ta_ctx_err ta) (ta_clock ta) (ta_clock_end ta) (ta_readings ta)
       default_data_cache_time_ms True (ag_gather a) = (Inr data, g)" "ta_ctx_err_after ta = None"
      "fst (with_store (write_snapshot (ta_fault ta) (unix_milli now) (Some data)) (a\<lparr>ag_gather := g\<rparr>)) = Inr ()"
    using assms by (auto simp: tick_persists_def split: prod.splits sum.splits)
  obtain a2 where w: "with_store (write_snapshot (ta_fault ta) (unix_milli now) (Some data)) (a\<lparr>ag_gather := g\<rparr>) = (Inr (), a2)"
    using g(3) by (metis prod.collapse)
  then obtain s s1 where s: "ag_store a = Some s" "write_snapshot (ta_fault ta) (unix_milli now) (Some data) s = (Inr (), s1)"
      "a2 = a\<lparr>ag_gather := g, ag_store := Some s1\<rparr>"
    by (auto simp: with_store_Inr)
  obtain r h where h: "health_update (ta_health_files ta) (ta_health_clock ta) (ta_health_fallback ta) (ag_health a) = (r, h)"
    by fastforce
  define a3 where "a3 = snd (refresh_smart_if_due (ta_smart ta) now (a2\<lparr>ag_health := h\<rparr>))"
  define a4 where "a4 = snd (with_store (run_maintenance (ta_maintenance_fault ta) (unix_milli now)) a3)"
  have c: "snd (collect_and_persist ta now a) = (case r of Inl _ \<Rightarrow> a2\<lparr>ag_health := h\<rparr> | Inr _ \<Rightarrow> a4)"
    using g w h by (simp add: collect_and_persist_def Let_def s(3) a3_def a4_def split: sum.splits prod.splits)
  have a3: "ag_health a3 = h" "ag_gather a3 = g" "keeps_snapshot (Some s1) (ag_store a3)"
    using refresh_smart_if_due_keeps [where sa = "ta_smart ta" and now = now and a = "a2\<lparr>ag_health := h\<rparr>"] by (simp_all add: a3_def s(3))
  have a4: "ag_health a4 = h" "ag_gather a4 = g" "keeps_snapshot (Some s1) (ag_store a4)"
    using a3 keeps_snapshot_trans [OF a3(3) keeps_snapshot_maintenance] by (simp_all add: a4_def)
  show ?thesis
    by (rule that [OF g(1) s(1,2) h]) (use a4 in \<open>auto simp: c s(3) split: sum.splits\<close>)
qed

lemma collect_Inr_persists: "fst (collect_and_persist ta now a) = Inr () \<Longrightarrow> tick_persists ta now a"
  using collect_not_persisted by blast

lemma write_snapshot_failed: "write_snapshot fault ts data s = (Inl e, s') \<Longrightarrow> s' = s"
  by (auto simp: write_snapshot_def dest: run_tx_Inl split: option.splits prod.splits)

lemma update_health_file_times:
  "update_health_file fa now path fs = (r, fs') \<Longrightarrow> fs' p = Some t \<Longrightarrow> t = now \<or> fs p = Some t"
  by (auto simp: update_health_file_def Let_def split: option.splits if_splits)

lemma health_update_times:
  "health_update answers now fallback h = (r, h') \<Longrightarrow> hl_files h' p = Some t \<Longrightarrow> t = now \<or> hl_files h p = Some t"
  by (auto simp: health_update_def split: prod.splits option.splits if_splits dest!: update_health_file_times)

lemma collect_not_persisted_store:
  assumes "\<not> tick_persists ta now a"
  shows "ag_store (snd (collect_and_persist ta now a)) = ag_store a"
proof -
  obtain r g where g: "gather_stats (ta_ctx_err ta) (ta_clock ta) (ta_clock_end ta) (ta_readings ta)
       default_data_cache_time_ms True (ag_gather a) = (r, g)"
    by fastforce
  show ?thesis
  proof (cases r)
    case (Inr data)
    obtain w a2 where w: "with_store (write_snapshot (ta_fault ta) (unix_milli now) (Some data)) (a\<lparr>ag_gather := g\<rparr>) = (w, a2)"
      by fastforce
    show ?thesis
    proof (cases w)
      case (Inl e)
      then have "ag_store a2 = ag_store a"
        using w by (auto simp: with_store_def dest: write_snapshot_failed split: option.splits prod.splits)
      then show ?thesis
        using g Inr w Inl by (simp add: collect_and_persist_def Let_def split: option.splits)
    next
      case (Inr u)
      then show ?thesis
        using assms g \<open>r = Inr data\<close> w by (auto simp: tick_persists_def collect_and_persist_def Let_def split: option.splits)
    qed
  qed (simp add: collect_and_persist_def g)
qed

section \<open>Runs of the collector\<close>

text \<open>
  A run of ticks, with a log: for every tick that stored its snapshot, the time at which it wrote
  the health file and the time of the snapshot.
\<close>

fun run_ticks :: "(tick_answers \<times> int) list \<Rightarrow> agent \<Rightarrow> agent \<times> (int \<times> int) list" where
  "run_ticks [] a = (a, [])"
| "run_ticks ((ta, now) # ticks) a = (case run_ticks ticks (snd (collect_and_persist ta now a)) of
     (a', marks) \<Rightarrow> (a', (if tick_persists ta now a then [(ta_health_clock ta, unix_milli now)] else []) @ marks))"

definition logged :: "agent \<Rightarrow> (int \<times> int) list \<Rightarrow> bool" where
  "logged a marks \<longleftrightarrow> (\<forall>p t. hl_files (ag_health a) p = Some t \<longrightarrow> t \<in> fst ` set marks)
     \<and> (marks \<noteq> [] \<longrightarrow> (\<exists>s. ag_store a = Some s
          \<and> db_meta (st_db s) ''last_persisted_at'' = Some (MStr (format_int (snd (last marks))))))"

lemma logged_tick:
  assumes "logged a marks"
  shows "logged (snd (collect_and_persist ta now a))
    (marks @ (if tick_persists ta now a then [(ta_health_clock ta, unix_milli now)] else []))"
proof (cases "tick_persists ta now a")
  case True
  obtain data g s s1 r h where c:
    "write_snapshot (ta_fault ta) (unix_milli now) (Some data) s = (Inr (), s1)"
    "health_update (ta_health_files ta) (ta_health_clock ta) (ta_health_fallback ta) (ag_health a) = (r, h)"
    "ag_health (snd (collect_and_persist ta now a)) = h"
    "keeps_snapshot (Some s1) (ag_store (snd (collect_and_persist ta now a)))"
    by (rule collect_persisted [OF True])
  have "t = ta_health_clock ta \<or> t \<in> fst ` set marks" if "hl_files h p = Some t" for p t
    using health_update_times [OF c(2) that] assms by (auto simp: logged_def)
  moreover have "db_meta (st_db s1) ''last_persisted_at'' = Some (MStr (format_int (unix_milli now)))"
    by (rule snapshot_persisted_at [OF c(1)])
  ultimately show ?thesis
    using True c(3,4) by (auto simp: logged_def keeps_snapshot_def split: option.splits)
next
  case False
  then show ?thesis
    using assms collect_not_persisted [OF False] collect_not_persisted_store [OF False] by (simp add: logged_def)
qed

lemma logged_run: "logged a marks0 \<Longrightarrow> run_ticks ticks a = (a', marks) \<Longrightarrow> logged a' (marks0 @ marks)"
proof (induction ticks a arbitrary: marks0 a' marks rule: run_ticks.induct)
  case (2 ta now ticks a)
  obtain marks1 where r: "run_ticks ticks (snd (collect_and_persist ta now a)) = (a', marks1)"
      "marks = (if tick_persists ta now a then [(ta_health_clock ta, unix_milli now)] else []) @ marks1"
    using "2.prems"(2) by (auto split: prod.splits)
  show ?case
    using "2.IH" [OF logged_tick [OF "2.prems"(1)] r(1)] by (simp add: r(2))
qed simp

text \<open>
  C16: The health check means what it says.  In any run of ticks of an agent that starts without a
  health file, whichever collections, SQL statements and file operations fail: if the check passes,
  some tick of the run stored its snapshot and marked it at most 91 seconds ago, and the time that the
  store reports as last persisted is that of the last tick that stored one.
\<close>

theorem healthy_means_persisted:
  assumes "hl_files (ag_health a) = Map.empty" "run_ticks ticks a = (a', marks)"
    and "health_check later (ag_health a') = Inr ()"
  shows "(\<exists>(t, c) \<in> set marks. later - t \<le> 91 * second)
    \<and> (\<exists>s. ag_store a' = Some s \<and> db_meta (st_db s) ''last_persisted_at'' = Some (MStr (format_int (snd (last marks)))))"
proof -
  have l: "logged a' marks"
    using logged_run [of a "[]", OF _ assms(2)] assms(1) by (simp add: logged_def)
  obtain t where t: "hl_files (ag_health a') (hl_path (ag_health a')) = Some t" "later - t \<le> 91 * second"
    using assms(3) by (auto simp: health_check_def get_status_def Let_def unhealthy_after_def split: option.splits if_splits)
  then have "t \<in> fst ` set marks"
    using l by (auto simp: logged_def)
  then show ?thesis
    using l t(2) by (force simp: logged_def)
qed


section \<open>Ticks faster than the snapshot cache\<close>

lemma processes_payload:
  "map_of (snapshot_plugin_payloads d) PluginProcesses = Some (PProcesses \<lparr>pd_count = cd_process_count d, pd_items = Some (non_nil (cd_processes d))\<rparr>)"
  "map_of (snapshot_plugin_payloads d) PluginPrograms = Some (PPrograms (non_nil (cd_programs d)))"
  "map_of (snapshot_plugin_payloads d) PluginIRQ = Some (PIrq (non_nil (cd_irqs d)))"
  "map_of (snapshot_plugin_payloads d) PluginConnections = Some (PConnections (non_nil_pointer (cd_connections d)))"
  by (simp_all add: snapshot_plugin_payloads_def Let_def)

text \<open>The payloads that do not depend on what the cache drops.\<close>

lemma cacheable_payload:
  "p \<notin> {PluginProcesses, PluginPrograms, PluginIRQ, PluginConnections} \<Longrightarrow>
    map_of (snapshot_plugin_payloads (cacheable_stats_data d)) p = map_of (snapshot_plugin_payloads d) p"
  "map_of (snapshot_plugin_payloads (d\<lparr>cd_details := x\<rparr>)) p = map_of (snapshot_plugin_payloads d) p"
  by (simp_all add: snapshot_plugin_payloads_def Let_def cacheable_stats_data_def)

text \<open>
  With the default interval the collector erases what it has just stored.  When a tick has
  collected a snapshot, a tick less than 30 seconds later persists the cached copy of it: every host
  plugin gets its old payload under the new time, and the processes, programs, interrupts and
  connections become empty, although nothing on the host changed.
\<close>

theorem early_tick_erases_details:
  assumes "collect_and_persist ta1 now1 a = (Inr (), a1)" "collect_and_persist ta2 now2 a1 = (Inr (), a2)"
    and "\<not> snd (cache_get (ta_clock ta1) default_data_cache_time_ms (gs_cache (ag_gather a)))"
    and "ta_clock ta2 - ta_clock_end ta1 < 30 * second"
  shows "\<exists>s1 s2. ag_store a1 = Some s1 \<and> ag_store a2 = Some s2
    \<and> db_current (st_db s2) PluginProcesses
        = Some (unix_milli now2, JText (enc_processes_data \<lparr>pd_count = None, pd_items = Some []\<rparr>))
    \<and> db_current (st_db s2) PluginPrograms = Some (unix_milli now2, JText (JArr []))
    \<and> db_current (st_db s2) PluginIRQ = Some (unix_milli now2, JText (JArr []))
    \<and> db_current (st_db s2) PluginConnections = Some (unix_milli now2, JText (enc_connection_stats zero_connection_stats))
    \<and> (\<forall>p \<in> set base_system_plugin_names. \<exists>raw. db_current (st_db s1) p = Some (unix_milli now1, raw)
        \<and> db_current (st_db s2) p = Some (unix_milli now2, raw))"
proof -
  have p1: "tick_persists ta1 now1 a" and p2: "tick_persists ta2 now2 a1"
    using collect_Inr_persists assms(1,2) by auto
  obtain data1 g1 s s1 where c1:
    "gather_stats (ta_ctx_err ta1) (ta_clock ta1) (ta_clock_end ta1) (ta_readings ta1) default_data_cache_time_ms True (ag_gather a)
      = (Inr data1, g1)"
    "write_snapshot (ta_fault ta1) (unix_milli now1) (Some data1) s = (Inr (), s1)"
    "ag_gather a1 = g1" "keeps_snapshot (Some s1) (ag_store a1)"
    using collect_persisted [OF p1] assms(1) by (metis snd_conv)
  obtain data2 g2 s' s2 where c2:
    "gather_stats (ta_ctx_err ta2) (ta_clock ta2) (ta_clock_end ta2) (ta_readings ta2) default_data_cache_time_ms True (ag_gather a1)
      = (Inr data2, g2)"
    "write_snapshot (ta_fault ta2) (unix_milli now2) (Some data2) s' = (Inr (), s2)"
    "keeps_snapshot (Some s2) (ag_store a2)"
    using collect_persisted [OF p2] assms(2) by (metis snd_conv)
  have n: "ta_ctx_err ta1 = None" "ta_ctx_err ta2 = None"
    using c1(1) c2(1) by (auto simp: gather_stats_def split: option.splits)
  obtain d where d: "gs_cache g1 = cache_set (ta_clock_end ta1) (cacheable_stats_data d) default_data_cache_time_ms (gs_cache (ag_gather a))"
    "data1 = d \<or> data1 = d\<lparr>cd_details := Some (rd_details (ta_readings ta1))\<rparr>"
    using gather_stats_collected [OF c1(1) [unfolded n] assms(3)] by blast
  have "cache_get (ta_clock ta2) default_data_cache_time_ms (gs_cache g1) = (cacheable_stats_data d, True)"
    using assms(4) by (simp add: d(1) cache_get_def cache_set_def default_data_cache_time_ms_def second_def millisecond_def)
  then have d2: "data2 = cacheable_stats_data d"
    using c2(1) by (simp add: gather_stats_def n c1(3))
  obtain t1 t2 where t: "ag_store a1 = Some t1" "ag_store a2 = Some t2"
      "\<And>p. p \<noteq> PluginSmart \<Longrightarrow> db_current (st_db t1) p = db_current (st_db s1) p"
      "\<And>p. p \<noteq> PluginSmart \<Longrightarrow> db_current (st_db t2) p = db_current (st_db s2) p"
    using c1(4) c2(3) by (auto simp: keeps_snapshot_def split: option.splits)
  have row2: "db_current (st_db t2) p = Some (unix_milli now2, JText (enc_payload pl))"
    if "map_of (snapshot_plugin_payloads (cacheable_stats_data d)) p = Some pl" "p \<noteq> PluginSmart" for p pl
    using snapshot_current [OF c2(2) that(1) [folded d2]] t(4) [OF that(2)] by simp
  have pl: "map_of (snapshot_plugin_payloads data1) p = map_of (snapshot_plugin_payloads d) p" for p
    using d(2) cacheable_payload(2) by auto
  have base: "\<exists>raw. db_current (st_db t1) p = Some (unix_milli now1, raw) \<and> db_current (st_db t2) p = Some (unix_milli now2, raw)"
    if p: "p \<in> set base_system_plugin_names" for p
  proof -
    have ne: "p \<notin> {PluginProcesses, PluginPrograms, PluginIRQ, PluginConnections}" "p \<noteq> PluginSmart"
      "p \<in> set plugin_names"
      using p by (auto simp: base_system_plugin_names_def plugin_names_def)
    obtain pay where pay: "map_of (snapshot_plugin_payloads d) p = Some pay"
      using payload_of [OF ne(3,2), of d] by blast
    show ?thesis
      using row2 [of p pay] snapshot_current [OF c1(2), of p pay] t(3) [OF ne(2)] ne(2) pay pl cacheable_payload(1) [OF ne(1), of d]
      by auto
  qed
  have r: "db_current (st_db t2) PluginProcesses
        = Some (unix_milli now2, JText (enc_processes_data \<lparr>pd_count = None, pd_items = Some []\<rparr>))"
    "db_current (st_db t2) PluginPrograms = Some (unix_milli now2, JText (JArr []))"
    "db_current (st_db t2) PluginIRQ = Some (unix_milli now2, JText (JArr []))"
    "db_current (st_db t2) PluginConnections = Some (unix_milli now2, JText (enc_connection_stats zero_connection_stats))"
    using row2 [OF processes_payload(1)] row2 [OF processes_payload(2)] row2 [OF processes_payload(3)] row2 [OF processes_payload(4)]
    by (simp_all add: enc_payload_def non_nil_def non_nil_pointer_def enc_arr_def)
  show ?thesis
    using t(1,2) r base by blast
qed


section \<open>Witnesses for the runs\<close>

definition sample_agent :: agent where
  "sample_agent = \<lparr>ag_data_dir = ''/var/lib'', ag_store = Some (opened_store []), ag_live = empty_live,
     ag_gather = \<lparr>gs_cache = (\<lambda>_. None), gs_details_dirty = True\<rparr>,
     ag_health = \<lparr>hl_files = Map.empty, hl_path = ''/dev/shm/go_monitoring_health''\<rparr>, ag_smart = None,
     ag_details_smart_interval = 0, ag_collector_interval = 15 * second, ag_history_plugins = [],
     ag_config_path = [], ag_config_source = [], ag_config_version = 1, ag_http = [], ag_updates = Some []\<rparr>"

definition sample_tick :: "int \<Rightarrow> tick_answers" where
  "sample_tick clock = \<lparr>ta_ctx_err = None, ta_clock = clock, ta_clock_end = clock, ta_readings = sample_readings,
     ta_ctx_err_after = None, ta_fault = (\<lambda>_. None), ta_health_files = (\<lambda>_. all_ok), ta_health_clock = clock,
     ta_health_fallback = ''/tmp/h'', ta_smart = \<lparr>sa_refresh = idle_refresh, sa_ctx_err = None,
     sa_fault = (\<lambda>_. None)\<rparr>, ta_maintenance_fault = (\<lambda>_. None)\<rparr>"

text \<open>A tick of an agent without history plugins and SMART, where nothing fails.\<close>

lemma quiet_tick:
  assumes g: "gather_stats None c c sample_readings default_data_cache_time_ms True (ag_gather a) = (Inr data, g)"
    and f: "snapshot_finite data" and s: "ag_store a = Some s" "st_history_plugins s = {}" and m: "ag_smart a = None"
  obtains s1 where "collect_and_persist (sample_tick c) now a = (Inr (), a\<lparr>ag_gather := g, ag_store := Some s1,
      ag_health := (ag_health a)\<lparr>hl_files := (hl_files (ag_health a))(hl_path (ag_health a) \<mapsto> c)\<rparr>\<rparr>)"
    "st_history_plugins s1 = {}"
proof -
  obtain s1 where w: "write_snapshot (\<lambda>_. None) (unix_milli now) (Some data) s = (Inr (), s1)"
    using write_snapshot_ok [OF f] by blast
  have h: "st_history_plugins s1 = {}"
    using w s(2) by (auto simp: write_snapshot_def split: prod.splits)
  have mt: "run_maintenance (\<lambda>_. None) t s1 = (Inr (), s1)" for t
    by (simp add: run_maintenance_def history_plugin_names_def h run_tx_def)
  have "health_update (\<lambda>_. all_ok) c f hh = (Inr (), hh\<lparr>hl_files := (hl_files hh)(hl_path hh \<mapsto> c)\<rparr>)" for f hh
    by (simp add: health_update_def update_health_file_def all_ok_def)
  then have "collect_and_persist (sample_tick c) now a = (Inr (), a\<lparr>ag_gather := g, ag_store := Some s1,
      ag_health := (ag_health a)\<lparr>hl_files := (hl_files (ag_health a))(hl_path (ag_health a) \<mapsto> c)\<rparr>\<rparr>)"
    using g s(1) w mt m by (simp add: collect_and_persist_def sample_tick_def with_store_def refresh_smart_if_due_def)
  then show ?thesis
    using h by (rule that)
qed

definition sample_data :: combined_data where
  "sample_data = (case attempt (attach_default_interval_stats sample_readings default_data_cache_time_ms
        (zero_combined_data\<lparr>cd_stats := zero_stats, cd_info := zero_info\<rparr>))
      (\<lambda>d. Inr (attach_filesystem_stats [] d)) of Inl _ \<Rightarrow> zero_combined_data | Inr d \<Rightarrow> d)"

lemma sample_data_ok:
  "attempt (attach_default_interval_stats sample_readings default_data_cache_time_ms
        (zero_combined_data\<lparr>cd_stats := zero_stats, cd_info := zero_info\<rparr>))
      (\<lambda>d. Inr (attach_filesystem_stats [] d)) = Inr sample_data"
  by (simp add: sample_data_def sample_readings_def attach_default_interval_stats_def attach_systemd_stats_def
      attach_current_detail_stats_def)

lemma sample_data_finite: "snapshot_finite (sample_data\<lparr>cd_details := Some zero_details\<rparr>)"
  "snapshot_finite (cacheable_stats_data sample_data)"
  by code_simp+

lemma sample_gather:
  "gather_stats None c c sample_readings default_data_cache_time_ms True \<lparr>gs_cache = (\<lambda>_. None), gs_details_dirty = True\<rparr>
    = (Inr (sample_data\<lparr>cd_details := Some zero_details\<rparr>),
       \<lparr>gs_cache = cache_set c (cacheable_stats_data sample_data) default_data_cache_time_ms (\<lambda>_. None), gs_details_dirty = False\<rparr>)"
proof -
  have r: "rd_stats sample_readings = Inr zero_stats" "rd_info sample_readings = zero_info" "rd_fs sample_readings = []"
    "rd_details sample_readings = zero_details" "rd_containers sample_readings = None"
    by (simp_all add: sample_readings_def)
  show ?thesis
    using sample_data_ok by (simp add: gather_stats_def cache_get_def r attach_container_stats_def attach_system_details_def)
qed

lemma sample_tick_run:
  obtains s1 where "collect_and_persist (sample_tick c) now sample_agent = (Inr (), sample_agent\<lparr>
      ag_gather := \<lparr>gs_cache = cache_set c (cacheable_stats_data sample_data) default_data_cache_time_ms (\<lambda>_. None), gs_details_dirty = False\<rparr>,
      ag_store := Some s1, ag_health := (ag_health sample_agent)\<lparr>hl_files := [hl_path (ag_health sample_agent) \<mapsto> c]\<rparr>\<rparr>)"
    "st_history_plugins s1 = {}"
proof -
  have "ag_gather sample_agent = \<lparr>gs_cache = (\<lambda>_. None), gs_details_dirty = True\<rparr>" "ag_smart sample_agent = None"
    "ag_store sample_agent = Some (opened_store [])" "st_history_plugins (opened_store []) = {}"
    "hl_files (ag_health sample_agent) = Map.empty"
    by (simp_all add: sample_agent_def opened_store_def history_plugin_set_def)
  note s = this
  show ?thesis
    by (rule quiet_tick [of c sample_agent, unfolded s(1), OF sample_gather sample_data_finite(1) s(3,4,2), of now])
      (use s(5) that in auto)
qed

theorem healthy_means_persisted_witness:
  "\<exists>t c. (t, c) \<in> set (snd (run_ticks [(sample_tick (60 * second), 60 * second)] sample_agent)) \<and> 100 * second - t \<le> 91 * second"
proof -
  obtain s1 where c: "collect_and_persist (sample_tick (60 * second)) (60 * second) sample_agent = (Inr (), sample_agent\<lparr>
      ag_gather := \<lparr>gs_cache = cache_set (60 * second) (cacheable_stats_data sample_data) default_data_cache_time_ms (\<lambda>_. None), gs_details_dirty = False\<rparr>,
      ag_store := Some s1, ag_health := (ag_health sample_agent)\<lparr>hl_files := [hl_path (ag_health sample_agent) \<mapsto> 60 * second]\<rparr>\<rparr>)"
    by (rule sample_tick_run)
  obtain a' marks where r: "run_ticks [(sample_tick (60 * second), 60 * second)] sample_agent = (a', marks)"
    by fastforce
  have e: "hl_files (ag_health sample_agent) = Map.empty"
    by (simp add: sample_agent_def)
  have "health_check (100 * second) (ag_health a') = Inr ()"
    using r c by (auto simp: health_check_def get_status_def unhealthy_after_def second_def split: prod.splits)
  from healthy_means_persisted [OF e r this] show ?thesis
    unfolding r by auto
qed

theorem early_tick_erases_details_witness:
  "\<exists>s :: store. db_current (st_db s) PluginIRQ = Some (75000, JText (JArr []))"
proof -
  obtain s1 where c: "collect_and_persist (sample_tick (60 * second)) (60 * second) sample_agent = (Inr (), sample_agent\<lparr>
      ag_gather := \<lparr>gs_cache = cache_set (60 * second) (cacheable_stats_data sample_data) default_data_cache_time_ms (\<lambda>_. None), gs_details_dirty = False\<rparr>,
      ag_store := Some s1, ag_health := (ag_health sample_agent)\<lparr>hl_files := [hl_path (ag_health sample_agent) \<mapsto> 60 * second]\<rparr>\<rparr>)"
    "st_history_plugins s1 = {}"
    by (rule sample_tick_run)
  let ?a1 = "sample_agent\<lparr>
      ag_gather := \<lparr>gs_cache = cache_set (60 * second) (cacheable_stats_data sample_data) default_data_cache_time_ms (\<lambda>_. None), gs_details_dirty = False\<rparr>,
      ag_store := Some s1, ag_health := (ag_health sample_agent)\<lparr>hl_files := [hl_path (ag_health sample_agent) \<mapsto> 60 * second]\<rparr>\<rparr>"
  have g: "gather_stats None (75 * second) (75 * second) sample_readings default_data_cache_time_ms True (ag_gather ?a1)
      = (Inr (cacheable_stats_data sample_data), ag_gather ?a1)"
    by (simp add: gather_stats_def cache_get_def cache_set_def default_data_cache_time_ms_def second_def millisecond_def)
  have m: "ag_smart ?a1 = None" "ag_store ?a1 = Some s1"
    by (simp_all add: sample_agent_def)
  obtain a2 where c2: "collect_and_persist (sample_tick (75 * second)) (75 * second) ?a1 = (Inr (), a2)"
    by (rule quiet_tick [OF g sample_data_finite(2) m(2) c(2) m(1), of "75 * second"]) blast
  have n: "\<not> snd (cache_get (ta_clock (sample_tick (60 * second))) default_data_cache_time_ms (gs_cache (ag_gather sample_agent)))"
    by (simp add: cache_get_def sample_agent_def)
  have l: "ta_clock (sample_tick (75 * second)) - ta_clock_end (sample_tick (60 * second)) < 30 * second"
    by (simp add: sample_tick_def second_def)
  have u: "unix_milli (75 * second) = 75000"
    by (simp add: unix_milli_def second_def millisecond_def)
  show ?thesis
    using early_tick_erases_details [OF c(1) c2 n l] unfolding u by blast
qed


section \<open>Reloading\<close>

lemma set_runtime_config_fields [simp]:
  "ag_store (set_runtime_config i si ps p so v a) = ag_store a" "ag_live (set_runtime_config i si ps p so v a) = ag_live a"
  "ag_updates (set_runtime_config i si ps p so v a) = ag_updates a" "ag_gather (set_runtime_config i si ps p so v a) = ag_gather a"
  "ag_health (set_runtime_config i si ps p so v a) = ag_health a" "ag_http (set_runtime_config i si ps p so v a) = ag_http a"
  "ag_history_plugins (set_runtime_config i si ps p so v a) = ps"
  "ag_config_path (set_runtime_config i si ps p so v a) = p"
  "ag_collector_interval (set_runtime_config i si ps p so v a) = positive_or DefaultCollectorInterval i"
  by (simp_all add: set_runtime_config_def set_smart_refresh_interval_def Let_def)

lemma set_ttls_option_fields [simp]:
  "ag_store (set_ttls_option m a) = ag_store a" "ag_updates (set_ttls_option m a) = ag_updates a"
  "ag_config_path (set_ttls_option m a) = ag_config_path a" "ag_gather (set_ttls_option m a) = ag_gather a"
  "ag_health (set_ttls_option m a) = ag_health a" "ag_http (set_ttls_option m a) = ag_http a"
  "lv_cache (ag_live (set_ttls_option m a)) = lv_cache (ag_live a)"
  by (simp_all add: set_ttls_option_def set_live_current_ttls_def split: option.splits)

lemma positive_or_pos: "0 < d \<Longrightarrow> 0 < positive_or d x"
  by (simp add: positive_or_def)

lemma positive_or_idem [simp]: "0 < d \<Longrightarrow> positive_or d (positive_or d x) = positive_or d x"
  by (simp add: positive_or_def)

lemma default_intervals_pos [simp]: "0 < DefaultCollectorInterval" "0 < DefaultSmartRefreshInterval"
  by (simp_all add: DefaultCollectorInterval_def DefaultSmartRefreshInterval_def hour_def minute_def second_def)



section \<open>Listeners\<close>

definition started_listeners :: "(string \<Rightarrow> string res) \<Rightarrow> listener_options list \<Rightarrow> http_runtime list" where
  "started_listeners open_at los = concat (map (\<lambda>lo. if is_listen_disabled (lo_address lo) then []
     else case open_at (lo_address lo) of Inl _ \<Rightarrow> [] | Inr effective \<Rightarrow> [http_runtime_of lo effective]) los)"

text \<open>
  The agent starts if and only if every listener is disabled, can be opened or is best effort; it
  then serves exactly the listeners that could be opened, in the order of the configuration, each
  with its own APIs.
\<close>

theorem http_servers_started:
  "(fst (start_http_servers open_at los a) = Inr () \<longleftrightarrow>
      (\<forall>lo \<in> set los. is_listen_disabled (lo_address lo) \<or> lo_best_effort lo \<or> \<not> isl (open_at (lo_address lo))))
   \<and> (fst (start_http_servers open_at los a) = Inr () \<longrightarrow>
      snd (start_http_servers open_at los a) = a\<lparr>ag_http := ag_http a @ started_listeners open_at los\<rparr>)"
proof (induction open_at los a rule: start_http_servers.induct)
  case (2 open_at lo los a)
  show ?case
  proof (cases "is_listen_disabled (lo_address lo)")
    case True
    then show ?thesis using 2(1) by (simp add: started_listeners_def)
  next
    case False
    show ?thesis
    proof (cases "open_at (lo_address lo)")
      case (Inl e)
      then show ?thesis
        using False 2(2) [OF False Inl] by (auto simp: started_listeners_def)
    next
      case (Inr effective)
      then show ?thesis
        using False 2(3) [OF False Inr] by (simp add: started_listeners_def)
    qed
  qed
qed (simp add: started_listeners_def)

theorem http_servers_started_witness:
  "fst (start_http_servers (\<lambda>_. Inl ErrPermission) (app_listeners_from_config (default_config ''/s'')) sample_agent) = Inr ()"
proof -
  have "list_all (\<lambda>lo. lo_best_effort lo) (app_listeners_from_config (default_config ''/s''))"
    by (simp add: app_listeners_from_config_def default_config_def default_listeners_def)
  then show ?thesis
    using http_servers_started [of "\<lambda>_. Inl ErrPermission" "app_listeners_from_config (default_config ''/s'')" sample_agent]
    by (simp add: list_all_iff)
qed

end
