(* ===== verification/Delta_Tracker.thy ===== *)
theory Delta_Tracker
  imports Prelude
begin

text \<open>
  \<open>internal/deltatracker/deltatracker.go\<close>.  The two Go maps are partial functions; the
  read/write lock makes every operation one step.  The locale \<open>interval_tracker\<close> is the part of
  the interface that the network code relies on, and it is interpreted on the operations below.
\<close>

section \<open>The tracker\<close>

record ('k, 'v) tracker =
  tr_current :: "'k \<rightharpoonup> 'v"
  tr_previous :: "'k \<rightharpoonup> 'v"

definition new_delta_tracker :: "('k, 'v) tracker" where
  "new_delta_tracker = \<lparr>tr_current = (\<lambda>_. None), tr_previous = (\<lambda>_. None)\<rparr>"

definition tracker_set :: "'k \<Rightarrow> 'v \<Rightarrow> ('k, 'v) tracker \<Rightarrow> ('k, 'v) tracker" where
  "tracker_set key value t = t\<lparr>tr_current := (tr_current t)(key \<mapsto> value)\<rparr>"

definition tracker_deltas :: "('k, 'v :: {minus, zero}) tracker \<Rightarrow> 'k \<rightharpoonup> 'v" where
  "tracker_deltas t = (\<lambda>key. case tr_current t key of
     None \<Rightarrow> None
   | Some current_val \<Rightarrow> (case tr_previous t key of
       Some previous_val \<Rightarrow> Some (current_val - previous_val)
     | None \<Rightarrow> Some 0))"

definition tracker_previous :: "('k, 'v) tracker \<Rightarrow> 'k \<rightharpoonup> 'v" where
  "tracker_previous t key = tr_previous t key"

definition tracker_delta :: "('k, 'v :: {minus, zero}) tracker \<Rightarrow> 'k \<Rightarrow> 'v" where
  "tracker_delta t key = (case tr_current t key of
     None \<Rightarrow> 0
   | Some current_val \<Rightarrow> (case tr_previous t key of
       None \<Rightarrow> 0
     | Some previous_val \<Rightarrow> current_val - previous_val))"

definition tracker_cycle :: "('k, 'v) tracker \<Rightarrow> ('k, 'v) tracker" where
  "tracker_cycle t = \<lparr>tr_current = (\<lambda>_. None), tr_previous = tr_current t\<rparr>"

section \<open>The interface\<close>

text \<open>
  What a client sees: \<open>held\<close> is what has been set in this interval, \<open>previous\<close> what was held
  when the interval began.
\<close>

locale interval_tracker =
  fixes new_tracker :: "'t" and set_value :: "'k \<Rightarrow> 'v \<Rightarrow> 't \<Rightarrow> 't" and cycle :: "'t \<Rightarrow> 't"
    and held :: "'t \<Rightarrow> 'k \<rightharpoonup> 'v" and previous :: "'t \<Rightarrow> 'k \<rightharpoonup> 'v"
  assumes held_new: "held new_tracker k = None"
    and previous_new: "previous new_tracker k = None"
    and held_set: "held (set_value k v t) k' = (if k' = k then Some v else held t k')"
    and previous_set: "previous (set_value k v t) k' = previous t k'"
    and held_cycle: "held (cycle t) k = None"
    and previous_cycle: "previous (cycle t) k = held t k"
begin

text \<open>An interval: a cycle, then a list of readings in order.\<close>

definition interval :: "('k \<times> 'v) list \<Rightarrow> 't \<Rightarrow> 't" where
  "interval kvs t = foldl (\<lambda>t (k, v). set_value k v t) (cycle t) kvs"

lemma held_sets: "held (foldl (\<lambda>t (k, v). set_value k v t) t kvs) k
    = (case map_of (rev kvs) k of Some v \<Rightarrow> Some v | None \<Rightarrow> held t k)"
  by (induction kvs arbitrary: t) (auto simp: held_set map_add_def split: option.splits)

lemma previous_sets: "previous (foldl (\<lambda>t (k, v). set_value k v t) t kvs) k = previous t k"
  by (induction kvs arbitrary: t) (auto simp: previous_set)

lemma held_interval: "held (interval kvs t) = map_of (rev kvs)"
  by (rule ext) (simp add: interval_def held_sets held_cycle split: option.splits)

lemma previous_interval: "previous (interval kvs t) = held t"
  by (rule ext) (simp add: interval_def previous_sets previous_cycle)

text \<open>Two intervals in a row: the second sees exactly the last readings of the first.\<close>

lemma previous_two_intervals: "previous (interval later (interval earlier t)) = map_of (rev earlier)"
  by (simp add: previous_interval held_interval)

end

interpretation dt: interval_tracker new_delta_tracker tracker_set tracker_cycle tr_current tracker_previous
  by unfold_locales
    (simp_all add: new_delta_tracker_def tracker_set_def tracker_cycle_def tracker_previous_def)

section \<open>Properties\<close>

text \<open>
  After two intervals, the deltas are, for every key read in the second, its last reading there
  minus its last reading in the first (zero if it was not read in the first), and there is no
  delta for any other key, whatever the tracker held before; the single-key read agrees.
\<close>

theorem tracker_two_intervals:
  fixes earlier later :: "('k \<times> 'v :: {minus, zero}) list"
  shows "tracker_deltas (foldl (\<lambda>t (k, v). tracker_set k v t)
      (tracker_cycle (foldl (\<lambda>t (k, v). tracker_set k v t) (tracker_cycle t) earlier)) later) key
    = (case map_of (rev later) key of
         None \<Rightarrow> None
       | Some v \<Rightarrow> Some (case map_of (rev earlier) key of None \<Rightarrow> 0 | Some u \<Rightarrow> v - u))
    \<and> tracker_delta (foldl (\<lambda>t (k, v). tracker_set k v t)
      (tracker_cycle (foldl (\<lambda>t (k, v). tracker_set k v t) (tracker_cycle t) earlier)) later) key
    = (case map_of (rev later) key of
         None \<Rightarrow> 0
       | Some v \<Rightarrow> (case map_of (rev earlier) key of None \<Rightarrow> 0 | Some u \<Rightarrow> v - u))"
  using dt.held_interval [of later "dt.interval earlier t"] dt.previous_two_intervals [of later earlier t]
  by (auto simp: dt.interval_def tracker_deltas_def tracker_delta_def tracker_previous_def fun_eq_iff
      split: option.splits)

end
