(* ===== verification/Network.thy ===== *)
theory Network
  imports Codecs Delta_Tracker Go_Text
begin

text \<open>
  \<open>internal/app/network.go\<close> and \<open>internal/app/network_detail.go\<close>.  What the host reports
  (\<open>IOCounters\<close>, \<open>Connections\<close>, files under \<open>/proc\<close>), the clock, the context's error and the
  \<open>NICS\<close> variable are arguments.  Times are in nanoseconds and the readings of the clock within
  one tick are taken as one; counters are 64-bit words, so all their arithmetic wraps as in Go.
\<close>

section \<open>Which interfaces count\<close>

record nic_config =
  nc_nics :: "string list"
  nc_is_blacklist :: bool
  nc_has_wildcards :: bool

definition new_nic_config :: "string \<Rightarrow> nic_config" where
  "new_nic_config nics_env_val =
     (let blacklist = has_prefix ''-'' nics_env_val;
          rest = (if blacklist then tl nics_env_val else nics_env_val);
          nics = filter (\<lambda>nic. nic \<noteq> []) (map trim_space (split_on (CHR '','') rest))
      in \<lparr>nc_nics = nics, nc_is_blacklist = blacklist,
          nc_has_wildcards = list_ex (\<lambda>nic. CHR ''*'' \<in> set nic) nics\<rparr>)"

definition is_valid_nic :: "string \<Rightarrow> nic_config \<Rightarrow> bool" where
  "is_valid_nic nic_name cfg =
     (if nc_nics cfg = [] then nc_is_blacklist cfg
      else if nic_name \<in> set (nc_nics cfg) then \<not> nc_is_blacklist cfg
      else if \<not> nc_has_wildcards cfg then nc_is_blacklist cfg
      else if list_ex (\<lambda>pattern. CHR ''*'' \<in> set pattern \<and> path_match pattern nic_name) (nc_nics cfg)
      then \<not> nc_is_blacklist cfg
      else nc_is_blacklist cfg)"

record io_counters_stat =
  nio_name :: string
  nio_bytes_sent :: u64
  nio_bytes_recv :: u64

definition auto_skipped :: "string \<Rightarrow> bool" where
  "auto_skipped name = list_ex (\<lambda>p. has_prefix p name)
     [''lo'', ''docker'', ''br-'', ''veth'', ''bond'', ''cali'']"

definition skip_network_interface :: "io_counters_stat \<Rightarrow> nic_config option \<Rightarrow> bool" where
  "skip_network_interface v nic_cfg = (case nic_cfg of
     Some cfg \<Rightarrow>
       if \<not> is_valid_nic (nio_name v) cfg then True
       else if \<not> nc_is_blacklist cfg then False
       else auto_skipped (nio_name v)
   | None \<Rightarrow> auto_skipped (nio_name v))"

section \<open>The network manager\<close>

record network_manager =
  nm_net_interfaces :: "string set"
  nm_net_io_stats :: "16 word \<rightharpoonup> net_io_stats"
  nm_trackers :: "16 word \<rightharpoonup> (string, u64) tracker"

definition new_network_manager :: network_manager where
  "new_network_manager =
     \<lparr>nm_net_interfaces = {}, nm_net_io_stats = (\<lambda>_. None), nm_trackers = (\<lambda>_. None)\<rparr>"

definition zero_net_io_stats :: net_io_stats where
  "zero_net_io_stats = \<lparr>ni_bytes_recv = 0, ni_bytes_sent = 0, ni_time = None, ni_name = []\<rparr>"

text \<open>
  \<open>refreshNetInterfaces\<close>: every interface seen is added and every one not seen is deleted, so the
  set becomes the interfaces seen.
\<close>

definition refresh_net_interfaces ::
  "string option \<Rightarrow> io_counters_stat list \<Rightarrow> network_manager \<Rightarrow> network_manager" where
  "refresh_net_interfaces nics_env net_io m =
     (let nic_cfg = map_option new_nic_config nics_env;
          seen = set (map nio_name (filter (\<lambda>v. \<not> skip_network_interface v nic_cfg) net_io))
      in m\<lparr>nm_net_interfaces := {name \<in> nm_net_interfaces m \<union> seen. name \<in> seen}\<rparr>)"

definition initialize_net_io_stats ::
  "string option \<Rightarrow> (go_error + io_counters_stat list) \<Rightarrow> network_manager \<Rightarrow> network_manager" where
  "initialize_net_io_stats nics_env counters m =
     (let m1 = m\<lparr>nm_net_interfaces := {}\<rparr>;
          m2 = (case counters of Inl _ \<Rightarrow> m1 | Inr net_io \<Rightarrow> refresh_net_interfaces nics_env net_io m1)
      in m2\<lparr>nm_trackers := (\<lambda>_. None), nm_net_io_stats := (\<lambda>_. None)\<rparr>)"

definition ensure_network_interfaces_map :: "stats \<Rightarrow> stats" where
  "ensure_network_interfaces_map st = (case s_network_interfaces st of
     None \<Rightarrow> st\<lparr>s_network_interfaces := Some []\<rparr> | Some _ \<Rightarrow> st)"

text \<open>\<open>time.Since(t).Milliseconds()\<close> truncates, and the conversion to \<open>uint64\<close> wraps.\<close>

definition load_and_tick_net_baseline ::
  "int \<Rightarrow> 16 word \<Rightarrow> network_manager \<Rightarrow> net_io_stats \<times> u64" where
  "load_and_tick_net_baseline now cache_time_ms m =
     (let nis = (case nm_net_io_stats m cache_time_ms of None \<Rightarrow> zero_net_io_stats | Some n \<Rightarrow> n)
      in case ni_time nis of
           None \<Rightarrow> (nis\<lparr>ni_time := Some now\<rparr>, 0)
         | Some t \<Rightarrow> (nis\<lparr>ni_time := Some now\<rparr>, word_of_int (quot (now - t) 1000000)))"

definition per_second :: "u64 \<Rightarrow> u64 \<Rightarrow> u64" where
  "per_second delta_bytes ms_elapsed = delta_bytes * 1000 div ms_elapsed"

definition counter_delta :: "u64 \<Rightarrow> u64 \<Rightarrow> u64" where
  "counter_delta cur prev_val = (if prev_val \<le> cur then cur - prev_val else cur)"

definition nic_rate :: "u64 \<Rightarrow> u64 \<Rightarrow> u64 option \<Rightarrow> u64" where
  "nic_rate ms_elapsed cur previous =
     (if 0 < ms_elapsed
      then (case previous of None \<Rightarrow> 0 | Some p \<Rightarrow> per_second (counter_delta cur p) ms_elapsed)
      else 0)"

text \<open>One interface of \<open>sumAndTrackPerNicDeltas\<close>; the state is totals, tracker and statistics.\<close>

definition track_nic ::
  "string set \<Rightarrow> u64 \<Rightarrow> (u64 \<times> u64) \<times> (string, u64) tracker \<times> stats \<Rightarrow> io_counters_stat
    \<Rightarrow> (u64 \<times> u64) \<times> (string, u64) tracker \<times> stats" where
  "track_nic interfaces ms_elapsed state v = (case state of ((total_sent, total_recv), tracker0, st) \<Rightarrow>
     if nio_name v \<notin> interfaces then state
     else
       let up_key = nio_name v @ ''up''; down_key = nio_name v @ ''down'';
           tracker = tracker_set down_key (nio_bytes_recv v) (tracker_set up_key (nio_bytes_sent v) tracker0);
           up_delta = nic_rate ms_elapsed (nio_bytes_sent v) (tracker_previous tracker up_key);
           down_delta = nic_rate ms_elapsed (nio_bytes_recv v) (tracker_previous tracker down_key)
       in ((total_sent + nio_bytes_sent v, total_recv + nio_bytes_recv v), tracker,
           st\<lparr>s_network_interfaces := Some (mput (nio_name v)
              (up_delta, down_delta, nio_bytes_sent v, nio_bytes_recv v)
              (case s_network_interfaces st of None \<Rightarrow> [] | Some m \<Rightarrow> m))\<rparr>))"

definition sum_and_track_per_nic_deltas ::
  "16 word \<Rightarrow> u64 \<Rightarrow> io_counters_stat list \<Rightarrow> network_manager \<Rightarrow> stats
    \<Rightarrow> (u64 \<times> u64) \<times> network_manager \<times> stats" where
  "sum_and_track_per_nic_deltas cache_time_ms ms_elapsed net_io m st =
     (let tracker = (case nm_trackers m cache_time_ms of None \<Rightarrow> new_delta_tracker | Some t \<Rightarrow> t);
          (totals, tracker', st') = foldl (track_nic (nm_net_interfaces m) ms_elapsed)
             ((0, 0), tracker_cycle tracker, st) net_io
      in (totals, m\<lparr>nm_trackers := (nm_trackers m)(cache_time_ms \<mapsto> tracker')\<rparr>, st'))"

definition compute_bytes_per_second :: "u64 \<Rightarrow> u64 \<times> u64 \<Rightarrow> net_io_stats \<Rightarrow> u64 \<times> u64" where
  "compute_bytes_per_second ms_elapsed totals nis =
     (if 0 < ms_elapsed
      then (per_second (fst totals - ni_bytes_sent nis) ms_elapsed,
            per_second (snd totals - ni_bytes_recv nis) ms_elapsed)
      else (0, 0))"

definition max_bytes_per_second :: u64 where
  "max_bytes_per_second = 10000000000"

definition apply_network_totals ::
  "string option \<Rightarrow> (go_error + io_counters_stat list) \<Rightarrow> 16 word \<Rightarrow> net_io_stats \<Rightarrow> u64 \<times> u64
    \<Rightarrow> u64 \<times> u64 \<Rightarrow> network_manager \<Rightarrow> stats \<Rightarrow> network_manager \<times> stats" where
  "apply_network_totals nics_env counters' cache_time_ms nis totals rates m st =
     (if max_bytes_per_second < fst rates \<or> max_bytes_per_second < snd rates
      then (let m' = initialize_net_io_stats nics_env counters' m
            in (m'\<lparr>nm_net_io_stats := (nm_net_io_stats m')(cache_time_ms := None),
                   nm_trackers := (nm_trackers m')(cache_time_ms := None)\<rparr>,
                st\<lparr>s_bandwidth := (0, 0)\<rparr>))
      else (m\<lparr>nm_net_io_stats := (nm_net_io_stats m)(cache_time_ms \<mapsto>
               nis\<lparr>ni_bytes_sent := fst totals, ni_bytes_recv := snd totals\<rparr>)\<rparr>,
            st\<lparr>s_bandwidth := rates\<rparr>))"

text \<open>
  \<open>updateNetworkStats\<close>.  \<open>err0\<close> and \<open>err1\<close> are the context's error before and after the
  counters are read, \<open>counters\<close> the reading, \<open>counters'\<close> the one taken when the totals are reset.
\<close>

definition update_network_stats ::
  "go_error option \<Rightarrow> (go_error + io_counters_stat list) \<Rightarrow> go_error option
    \<Rightarrow> (go_error + io_counters_stat list) \<Rightarrow> string option \<Rightarrow> int \<Rightarrow> 16 word \<Rightarrow> network_manager \<Rightarrow> stats
    \<Rightarrow> unit res \<times> network_manager \<times> stats" where
  "update_network_stats err0 counters err1 counters' nics_env now cache_time_ms m st = (case err0 of
     Some e \<Rightarrow> (Inl e, m, st)
   | None \<Rightarrow>
       let st1 = ensure_network_interfaces_map st in
       case counters of
         Inl _ \<Rightarrow> (case err1 of Some e \<Rightarrow> (Inl e, m, st1) | None \<Rightarrow> (Inr (), m, st1))
       | Inr net_io \<Rightarrow>
           let m1 = refresh_net_interfaces nics_env net_io m;
               (nis, ms_elapsed) = load_and_tick_net_baseline now cache_time_ms m1;
               (totals, m2, st2) = sum_and_track_per_nic_deltas cache_time_ms ms_elapsed net_io m1 st1;
               rates = compute_bytes_per_second ms_elapsed totals nis;
               (m3, st3) = apply_network_totals nics_env counters' cache_time_ms nis totals rates m2 st2
           in (Inr (), m3, st3))"

section \<open>Connections\<close>

record connection_stat =
  cs_type :: int
  cs_status :: string

definition sock_stream :: int where "sock_stream = 1"
definition sock_dgram :: int where "sock_dgram = 2"

definition count_connection :: "connection_stats \<Rightarrow> connection_stat \<Rightarrow> connection_stats" where
  "count_connection st conn =
     (let st1 = st\<lparr>cn_total := cn_total st + 1\<rparr>;
          st2 = (if cs_type conn = sock_stream then st1\<lparr>cn_tcp := cn_tcp st1 + 1\<rparr>
                 else if cs_type conn = sock_dgram then st1\<lparr>cn_udp := cn_udp st1 + 1\<rparr>
                 else st1);
          status = to_upper (trim_space (cs_status conn));
          statuses = (case cn_statuses st2 of None \<Rightarrow> [] | Some m \<Rightarrow> m)
      in if status = [] then st2
         else st2\<lparr>cn_statuses := Some (mput status
                (1 + (case mget statuses status of None \<Rightarrow> 0 | Some n \<Rightarrow> n)) statuses)\<rparr>)"

definition status_count :: "connection_stats \<Rightarrow> string \<Rightarrow> int" where
  "status_count st key =
     (case cn_statuses st of None \<Rightarrow> 0 | Some m \<Rightarrow> (case mget m key of None \<Rightarrow> 0 | Some n \<Rightarrow> n))"

definition apply_connection_status_fields :: "connection_stats \<Rightarrow> connection_stats" where
  "apply_connection_status_fields st = st\<lparr>
     cn_listen := status_count st ''LISTEN'',
     cn_established := status_count st ''ESTABLISHED'',
     cn_syn_sent := status_count st ''SYN_SENT'',
     cn_syn_recv := status_count st ''SYN_RECV'',
     cn_fin_wait1 := status_count st ''FIN_WAIT1'',
     cn_fin_wait2 := status_count st ''FIN_WAIT2'',
     cn_time_wait := status_count st ''TIME_WAIT'',
     cn_close := status_count st ''CLOSE'',
     cn_close_wait := status_count st ''CLOSE_WAIT'',
     cn_last_ack := status_count st ''LAST_ACK'',
     cn_closing := status_count st ''CLOSING''\<rparr>"

text \<open>The two files hold the number of tracked connections and their maximum.\<close>

definition read_conntrack_stats :: "string option \<Rightarrow> string option \<Rightarrow> (u64 \<times> u64) \<times> bool" where
  "read_conntrack_stats count_file max_file =
     (let (count, count_ok) = read_uint_file count_file;
          (mx, max_ok) = read_uint_file max_file
      in ((count, mx), count_ok \<and> max_ok))"

definition add_conntrack :: "string option \<Rightarrow> string option \<Rightarrow> connection_stats \<Rightarrow> connection_stats" where
  "add_conntrack count_file max_file st =
     (let ((count, mx), ok) = read_conntrack_stats count_file max_file in
      if \<not> ok then st
      else
        let st1 = st\<lparr>cn_nf_conntrack_enabled := True, cn_nf_conntrack_count := count,
              cn_nf_conntrack_max := mx\<rparr>
        in if 0 < mx
           then st1\<lparr>cn_nf_conntrack_percent :=
               two_decimals (fmul (fdiv (of_uint64 count) (of_uint64 mx)) (Num 100))\<rparr>
           else st1)"

definition collect_connection_stats ::
  "(go_error + connection_stat list) \<Rightarrow> go_error option \<Rightarrow> string option \<Rightarrow> string option \<Rightarrow> connection_stats res" where
  "collect_connection_stats conns ctx_err count_file max_file =
     (let st0 = zero_connection_stats\<lparr>cn_statuses := Some []\<rparr>;
          st1 = (case conns of
              Inl _ \<Rightarrow> st0
            | Inr cs \<Rightarrow> apply_connection_status_fields
                (foldl count_connection (st0\<lparr>cn_net_connections_enabled := True\<rparr>) cs))
      in case ctx_err of
           Some e \<Rightarrow> Inl e
         | None \<Rightarrow>
             let st2 = add_conntrack count_file max_file st1
             in Inr (if cn_statuses st2 = Some [] then st2\<lparr>cn_statuses := None\<rparr> else st2))"

section \<open>Interrupts\<close>

definition count_interrupt_cpu_columns :: "string \<Rightarrow> nat" where
  "count_interrupt_cpu_columns header = length (filter (has_prefix ''CPU'') (Prelude.fields header))"

fun parse_interrupt_counts_from :: "u64 list \<Rightarrow> string list \<Rightarrow> nat \<Rightarrow> u64 list" where
  "parse_interrupt_counts_from counts [] cpu_columns = counts"
| "parse_interrupt_counts_from counts (f # fs) cpu_columns =
     (if 0 < cpu_columns \<and> cpu_columns \<le> length counts then counts
      else case parse_uint 64 f of
        None \<Rightarrow> counts
      | Some value \<Rightarrow> parse_interrupt_counts_from (counts @ [of_nat value]) fs cpu_columns)"

text \<open>Each field read is a count, so the description starts after as many fields as counts.\<close>

definition parse_interrupt_counts :: "string list \<Rightarrow> nat \<Rightarrow> u64 list \<times> nat" where
  "parse_interrupt_counts fs cpu_columns =
     (let counts = parse_interrupt_counts_from [] fs cpu_columns in (counts, length counts))"

definition sum_uint64 :: "u64 list \<Rightarrow> u64" where
  "sum_uint64 vs = foldl (+) 0 vs"

definition parse_interrupt_line :: "string \<Rightarrow> nat \<Rightarrow> irq_stat option" where
  "parse_interrupt_line line0 cpu_columns =
     (let line = trim_space line0 in
      if line = [] then None
      else case cut_at (CHR '':'') line of
        None \<Rightarrow> None
      | Some (irq, rest) \<Rightarrow>
          let fs = Prelude.fields rest; (counts, description_start) = parse_interrupt_counts fs cpu_columns
          in if counts = [] then None
             else Some \<lparr>irq_irq = trim_space irq, irq_total = sum_uint64 counts,
               irq_cpu_counts = counts, irq_description = join_with '' '' (drop description_start fs)\<rparr>)"

definition parse_interrupts :: "string \<Rightarrow> irq_stat list" where
  "parse_interrupts raw = (case scan_lines raw of
     [] \<Rightarrow> []
   | header # lines \<Rightarrow>
       List.map_filter (\<lambda>line. parse_interrupt_line line (count_interrupt_cpu_columns header)) lines)"

definition collect_irq_stats ::
  "go_error option \<Rightarrow> string option \<Rightarrow> go_error option \<Rightarrow> irq_stat list option res" where
  "collect_irq_stats err0 file err1 = (case err0 of
     Some e \<Rightarrow> Inl e
   | None \<Rightarrow> let raw = read_string_file file in
       if raw = [] then Inr None
       else case err1 of Some e \<Rightarrow> Inl e | None \<Rightarrow> Inr (Some (parse_interrupts raw)))"

section \<open>Ticks\<close>

lemma uint_mod_diff: "uint ((a - b) * 1000 :: u64) = ((uint a - uint b) * 1000) mod 2 ^ 64"
  by (simp add: uint_word_ariths mod_simps)

lemma per_second_reset:
  assumes "uint a < uint b" "uint b - uint a \<le> 10 ^ 15" "0 < uint ms" "uint ms \<le> 10 ^ 9"
  shows "max_bytes_per_second < per_second (a - b) ms"
proof -
  define d where "d = uint b - uint a"
  have d: "1 \<le> d" "d \<le> 10 ^ 15" using assms by (simp_all add: d_def)
  have "(uint a - uint b) * 1000 = (2 ^ 64 - d * 1000) + (- 1) * 2 ^ 64"
    by (simp add: d_def)
  then have "uint ((a - b) * 1000) = (2 ^ 64 - d * 1000) mod 2 ^ 64"
    unfolding uint_mod_diff by (metis mod_mult_self1)
  also have "\<dots> = 2 ^ 64 - d * 1000"
    using d by (intro mod_pos_pos_trivial) simp_all
  finally have e: "uint ((a - b) * 1000) = 2 ^ 64 - d * 1000" .
  have "10000000001 * uint ms \<le> 2 ^ 64 - d * 1000"
    using assms(4) d by simp
  then have "10000000001 * uint ms div uint ms \<le> (2 ^ 64 - d * 1000) div uint ms"
    using assms(3) by (rule zdiv_mono1)
  then have "10000000001 \<le> (2 ^ 64 - d * 1000) div uint ms"
    using assms(3) by simp
  then have "uint max_bytes_per_second < uint (per_second (a - b) ms)"
    unfolding max_bytes_per_second_def per_second_def uint_div e by simp
  then show ?thesis
    by (simp add: word_less_def)
qed

lemma tick_keys: "name @ ''up'' \<noteq> name' @ ''down''"
proof
  assume "name @ ''up'' = name' @ ''down''"
  then have "last (name @ ''up'') = last (name' @ ''down'')" by simp
  then show False by simp
qed

fun readings :: "string set \<Rightarrow> io_counters_stat list \<Rightarrow> (string \<times> u64) list" where
  "readings ifs [] = []"
| "readings ifs (v # vs) = (if nio_name v \<in> ifs
     then (nio_name v @ ''up'', nio_bytes_sent v) # (nio_name v @ ''down'', nio_bytes_recv v) # readings ifs vs
     else readings ifs vs)"

lemma track_nic_tracker:
  "fst (snd (foldl (track_nic ifs ms) (tot, t, st) vs)) = foldl (\<lambda>t (k, v). tracker_set k v t) t (readings ifs vs)"
  by (induction vs arbitrary: tot t st) (auto simp: track_nic_def Let_def split: prod.splits)

lemma track_nic_totals:
  "fst (foldl (track_nic ifs ms) (tot, t, st) vs)
    = (fst tot + sum_list (map nio_bytes_sent (filter (\<lambda>v. nio_name v \<in> ifs) vs)),
       snd tot + sum_list (map nio_bytes_recv (filter (\<lambda>v. nio_name v \<in> ifs) vs)))"
  by (induction vs arbitrary: tot t st) (auto simp: track_nic_def Let_def split: prod.splits)

lemma track_nic_stats:
  assumes "distinct (map nio_name vs)" "v \<in> set vs" "nio_name v \<in> ifs"
    "snd (snd (foldl (track_nic ifs ms) (tot, t, st) vs)) = st'"
  shows "mget (the (s_network_interfaces st')) (nio_name v)
    = Some (nic_rate ms (nio_bytes_sent v) (tracker_previous t (nio_name v @ ''up'')),
            nic_rate ms (nio_bytes_recv v) (tracker_previous t (nio_name v @ ''down'')),
            nio_bytes_sent v, nio_bytes_recv v) \<and> s_network_interfaces st' \<noteq> None"
  using assms
proof (induction vs arbitrary: st' rule: rev_induct)
  case (snoc x xs)
  obtain tot1 t1 st1 where s: "foldl (track_nic ifs ms) (tot, t, st) xs = (tot1, t1, st1)"
    by (metis prod_cases3)
  have t1: "tracker_previous t1 k = tracker_previous t k" for k
    using track_nic_tracker [of ifs ms tot t st xs] dt.previous_sets [of t "readings ifs xs"] s by simp
  have e: "foldl (track_nic ifs ms) (tot, t, st) (xs @ [x]) = track_nic ifs ms (tot1, t1, st1) x"
    by (simp add: s)
  show ?case
  proof (cases "v = x")
    case True
    then show ?thesis
      using snoc.prems(3,4) t1 unfolding e
      by (auto simp: track_nic_def Let_def tracker_previous_def tracker_set_def split: prod.splits)
  next
    case False
    then have m: "v \<in> set xs" and d: "distinct (map nio_name xs)" "nio_name x \<notin> nio_name ` set xs"
      using snoc.prems(1,2) by simp_all
    then have n: "nio_name v \<noteq> nio_name x"
      by (metis imageI)
    have IH: "mget (the (s_network_interfaces st1)) (nio_name v)
      = Some (nic_rate ms (nio_bytes_sent v) (tracker_previous t (nio_name v @ ''up'')),
            nic_rate ms (nio_bytes_recv v) (tracker_previous t (nio_name v @ ''down'')),
            nio_bytes_sent v, nio_bytes_recv v) \<and> s_network_interfaces st1 \<noteq> None"
      by (rule snoc.IH [OF d(1) m snoc.prems(3)]) (simp add: s)
    then show ?thesis
      using snoc.prems(4) n unfolding e
      by (auto simp: track_nic_def Let_def split: prod.splits if_splits)
  qed
qed simp

lemma refreshed: "nm_net_interfaces (refresh_net_interfaces env net_io m)
    = nio_name ` {v \<in> set net_io. \<not> skip_network_interface v (map_option new_nic_config env)}"
  by (auto simp: refresh_net_interfaces_def Let_def)

lemma refresh_frame [simp]:
  "nm_trackers (refresh_net_interfaces env net_io m) = nm_trackers m"
  "nm_net_io_stats (refresh_net_interfaces env net_io m) = nm_net_io_stats m"
  by (simp_all add: refresh_net_interfaces_def Let_def)

lemma skip_by_name: "nio_name v = nio_name w \<Longrightarrow> skip_network_interface v cfg = skip_network_interface w cfg"
  by (simp add: skip_network_interface_def split: option.splits)

lemma track_nic_networks:
  "s_network_interfaces st \<noteq> None \<Longrightarrow> s_network_interfaces (snd (snd (foldl (track_nic ifs ms) (tot, t, st) vs))) \<noteq> None"
  by (induction vs arbitrary: tot t st) (auto simp: track_nic_def Let_def split: prod.splits)

text \<open>One tick, opened up: the interfaces, the elapsed time, the fold and the final decision.\<close>

lemma update_network_stats_Inr:
  assumes "update_network_stats None (Inr io) e c env now key m st = (Inr (), m', st')"
  obtains ifs nis ms tot t2 st2 where
    "ifs = nio_name ` {v \<in> set io. \<not> skip_network_interface v (map_option new_nic_config env)}"
    "(nis, ms) = load_and_tick_net_baseline now key m"
    "foldl (track_nic ifs ms) ((0, 0), tracker_cycle (case nm_trackers m key of None \<Rightarrow> new_delta_tracker | Some t \<Rightarrow> t),
        ensure_network_interfaces_map st) io = (tot, t2, st2)"
    "s_network_interfaces st' = s_network_interfaces st2"
    "if max_bytes_per_second < fst (compute_bytes_per_second ms tot nis)
        \<or> max_bytes_per_second < snd (compute_bytes_per_second ms tot nis)
     then nm_trackers m' = (\<lambda>_. None) \<and> nm_net_io_stats m' = (\<lambda>_. None) \<and> s_bandwidth st' = (0, 0)
     else nm_trackers m' = (nm_trackers m)(key \<mapsto> t2) \<and> s_bandwidth st' = compute_bytes_per_second ms tot nis
       \<and> nm_net_io_stats m' = (nm_net_io_stats m)(key \<mapsto> nis\<lparr>ni_bytes_sent := fst tot, ni_bytes_recv := snd tot\<rparr>)
       \<and> nm_net_interfaces m' = ifs"
proof -
  define m1 where "m1 = refresh_net_interfaces env io m"
  obtain nis ms where b: "load_and_tick_net_baseline now key m1 = (nis, ms)"
    by (cases "load_and_tick_net_baseline now key m1")
  obtain tot t2 st2 where f: "foldl (track_nic (nm_net_interfaces m1) ms)
      ((0, 0), tracker_cycle (case nm_trackers m1 key of None \<Rightarrow> new_delta_tracker | Some t \<Rightarrow> t),
        ensure_network_interfaces_map st) io = (tot, t2, st2)"
    by (metis prod_cases3)
  have b': "(nis, ms) = load_and_tick_net_baseline now key m"
    using b by (simp add: load_and_tick_net_baseline_def m1_def)
  show ?thesis
    by (rule that [OF _ b' _ , of "nm_net_interfaces m1" tot t2 st2])
      (use assms b f in \<open>auto simp: update_network_stats_def m1_def [symmetric] sum_and_track_per_nic_deltas_def
        apply_network_totals_def initialize_net_io_stats_def Let_def refreshed
        split: if_splits sum.splits\<close>, auto simp: m1_def refreshed)
qed

definition accepted :: "string option \<Rightarrow> io_counters_stat list \<Rightarrow> io_counters_stat list" where
  "accepted env io = filter (\<lambda>v. \<not> skip_network_interface v (map_option new_nic_config env)) io"

lemma accepted_filter:
  "filter (\<lambda>v. nio_name v \<in> nio_name ` {v \<in> set io. \<not> skip_network_interface v (map_option new_nic_config env)}) io
    = accepted env io"
  unfolding accepted_def by (rule filter_cong) (auto dest: skip_by_name)

lemma map_of_readings:
  assumes "distinct (map nio_name vs)" "v \<in> set vs" "nio_name v \<in> ifs"
  shows "map_of (rev (readings ifs vs)) (nio_name v @ ''up'') = Some (nio_bytes_sent v)
    \<and> map_of (rev (readings ifs vs)) (nio_name v @ ''down'') = Some (nio_bytes_recv v)"
  using assms
proof (induction vs)
  case (Cons x xs)
  have none: "map_of (rev (readings ifs xs)) (name @ suffix) = None"
    if "name \<notin> nio_name ` set xs" "suffix = ''up'' \<or> suffix = ''down''" for name suffix
    using that by (induction xs) (auto simp: map_add_def tick_keys tick_keys [symmetric] split: option.splits)
  show ?case
  proof (cases "v = x")
    case True
    then show ?thesis
      using Cons.prems none [of "nio_name x" "''up''"] none [of "nio_name x" "''down''"] tick_keys
      by (auto simp: map_add_def)
  next
    case False
    then have "v \<in> set xs" using Cons.prems by simp
    then show ?thesis
      using Cons by (auto simp: map_add_def)
  qed
qed simp

section \<open>Properties\<close>


definition sample_nic :: "u64 \<Rightarrow> u64 \<Rightarrow> io_counters_stat" where
  "sample_nic sent recv = \<lparr>nio_name = ''eth0'', nio_bytes_sent = sent, nio_bytes_recv = recv\<rparr>"

definition sample_tick :: "int \<Rightarrow> io_counters_stat \<Rightarrow> network_manager \<Rightarrow> unit res \<times> network_manager \<times> stats" where
  "sample_tick now v m = update_network_stats None (Inr [v]) None (Inr []) None now 60000 m zero_stats"

lemma sample_tick_ok: "sample_tick now v m = (Inr (), fst (snd (sample_tick now v m)), snd (snd (sample_tick now v m)))"
  by (simp add: sample_tick_def update_network_stats_def Let_def split: prod.splits)

lemma sample_accepted: "accepted None [sample_nic s r] = [sample_nic s r]"
  by (simp add: accepted_def skip_network_interface_def auto_skipped_def has_prefix_def sample_nic_def)

lemma sample_first_tick:
  "nm_trackers (fst (snd (sample_tick 0 (sample_nic 1000 5000) new_network_manager))) 60000 \<noteq> None"
  by (simp add: sample_tick_def update_network_stats_def Let_def load_and_tick_net_baseline_def new_network_manager_def
      refresh_net_interfaces_def sum_and_track_per_nic_deltas_def compute_bytes_per_second_def
      apply_network_totals_def max_bytes_per_second_def zero_net_io_stats_def split: prod.splits)




text \<open>
  A counter that went backwards is recognised.  If the summed bytes sent fell below the baseline
  by at most 10^15 bytes, within at most 10^9 milliseconds, the 64-bit subtraction wraps to a rate
  above the threshold, so the tick reports no bandwidth and drops every baseline and tracker.
\<close>

theorem counter_reset_detected:
  assumes "update_network_stats None (Inr io) e c env now key m st = (Inr (), m', st')"
    and "nm_net_io_stats m key = Some nis" "ni_time nis = Some t0"
    and "sent_total = sum_list (map nio_bytes_sent (accepted env io))"
    and "uint sent_total < uint (ni_bytes_sent nis)" "uint (ni_bytes_sent nis) - uint sent_total \<le> 10 ^ 15"
    and "1000000 \<le> now - t0" "now - t0 \<le> 10 ^ 15"
  shows "s_bandwidth st' = (0, 0) \<and> nm_trackers m' = (\<lambda>_. None) \<and> nm_net_io_stats m' = (\<lambda>_. None)"
proof (rule update_network_stats_Inr [OF assms(1)])
  fix ifs nis' ms tot t2 st2
  assume ifs: "ifs = nio_name ` {v \<in> set io. \<not> skip_network_interface v (map_option new_nic_config env)}"
    and base: "(nis', ms) = load_and_tick_net_baseline now key m"
    and fold: "foldl (track_nic ifs ms) ((0, 0), tracker_cycle (case nm_trackers m key of None \<Rightarrow> new_delta_tracker
        | Some t \<Rightarrow> t), ensure_network_interfaces_map st) io = (tot, t2, st2)"
    and res: "if max_bytes_per_second < fst (compute_bytes_per_second ms tot nis')
        \<or> max_bytes_per_second < snd (compute_bytes_per_second ms tot nis')
     then nm_trackers m' = (\<lambda>_. None) \<and> nm_net_io_stats m' = (\<lambda>_. None) \<and> s_bandwidth st' = (0, 0)
     else nm_trackers m' = (nm_trackers m)(key \<mapsto> t2) \<and> s_bandwidth st' = compute_bytes_per_second ms tot nis'
       \<and> nm_net_io_stats m' = (nm_net_io_stats m)(key \<mapsto> nis'\<lparr>ni_bytes_sent := fst tot, ni_bytes_recv := snd tot\<rparr>)
       \<and> nm_net_interfaces m' = ifs"
  let ?n = "(now - t0) div 1000000"
  have n: "1 \<le> ?n" "?n \<le> 10 ^ 9"
    using assms(7,8) zdiv_mono1 [of 1000000 "now - t0" 1000000] zdiv_mono1 [of "now - t0" "10 ^ 15" 1000000] by simp_all
  have ms: "ms = word_of_int ?n" "ni_bytes_sent nis' = ni_bytes_sent nis"
    using base assms(2,3,7) by (simp_all add: load_and_tick_net_baseline_def quot_nonneg)
  have ums: "uint ms = ?n"
    using n by (simp add: ms(1) uint_word_of_int mod_pos_pos_trivial)
  have "fst (fst (foldl (track_nic ifs ms) ((0, 0), tracker_cycle (case nm_trackers m key of None \<Rightarrow> new_delta_tracker
        | Some t \<Rightarrow> t), ensure_network_interfaces_map st) io)) = sent_total"
    unfolding track_nic_totals ifs accepted_filter by (simp add: assms(4))
  then have "fst tot = sent_total"
    by (simp add: fold)
  then have "max_bytes_per_second < per_second (fst tot - ni_bytes_sent nis') ms"
    using per_second_reset [of sent_total "ni_bytes_sent nis" ms] assms(5,6) n ums ms(2) by simp
  moreover have "0 < ms"
    using n ums by (simp add: word_less_def)
  ultimately have "max_bytes_per_second < fst (compute_bytes_per_second ms tot nis')"
    by (simp add: compute_bytes_per_second_def)
  then show ?thesis
    using res by simp
qed

theorem counter_reset_detected_witness:
  "s_bandwidth (snd (snd (sample_tick 60000000000 (sample_nic 10 5000)
     \<lparr>nm_net_interfaces = {}, nm_net_io_stats = [60000 \<mapsto> zero_net_io_stats\<lparr>ni_time := Some 0, ni_bytes_sent := 1000\<rparr>],
      nm_trackers = (\<lambda>_. None)\<rparr>))) = (0, 0)"
  using counter_reset_detected [OF sample_tick_ok [of 60000000000 "sample_nic 10 5000"
      "\<lparr>nm_net_interfaces = {}, nm_net_io_stats = [60000 \<mapsto> zero_net_io_stats\<lparr>ni_time := Some 0, ni_bytes_sent := 1000\<rparr>],
      nm_trackers = (\<lambda>_. None)\<rparr>", unfolded sample_tick_def], of "zero_net_io_stats\<lparr>ni_time := Some 0, ni_bytes_sent := 1000\<rparr>" 0 10]
  by (simp add: sample_tick_def sample_accepted) (simp add: sample_nic_def)

text \<open>
  The \<open>NICS\<close> filter.  With the configuration parsed from the variable, an interface is allowed
  exactly when it is listed, literally or by a pattern with a star, in whitelist mode, and exactly
  when it is not in blacklist mode (a leading minus), including the empty list.
\<close>

theorem nic_filter_spec:
  "is_valid_nic name (new_nic_config env)
    \<longleftrightarrow> (\<exists>p. p \<in> set (nc_nics (new_nic_config env)) \<and> (p = name \<or> (CHR ''*'' \<in> set p \<and> path_match p name)))
      \<noteq> has_prefix ''-'' env"
proof -
  have w: "nc_has_wildcards (new_nic_config env) = (\<exists>p \<in> set (nc_nics (new_nic_config env)). CHR ''*'' \<in> set p)"
    "nc_is_blacklist (new_nic_config env) = has_prefix ''-'' env"
    by (auto simp: new_nic_config_def Let_def list_ex_iff)
  show ?thesis
    unfolding is_valid_nic_def w list_ex_iff by (cases "has_prefix ''-'' env") auto
qed

definition normal_status :: "connection_stat \<Rightarrow> string" where
  "normal_status conn = to_upper (trim_space (cs_status conn))"

lemma count_connections:
  "let st' = foldl count_connection st cs in
     cn_total st' = cn_total st + int (length cs)
     \<and> cn_tcp st' = cn_tcp st + int (length (filter (\<lambda>c. cs_type c = sock_stream) cs))
     \<and> cn_udp st' = cn_udp st + int (length (filter (\<lambda>c. cs_type c = sock_dgram) cs))
     \<and> status_count st' key = status_count st key
         + (if key = [] then 0 else int (length (filter (\<lambda>c. normal_status c = key) cs)))
     \<and> (cn_statuses st = Some m \<longrightarrow>
          (cn_statuses st' = Some [] \<longleftrightarrow> m = [] \<and> (\<forall>c \<in> set cs. normal_status c = []))
          \<and> cn_statuses st' \<noteq> None)
     \<and> cn_net_connections_enabled st' = cn_net_connections_enabled st"
proof (induction cs arbitrary: st m)
  case (Cons c cs)
  define s1 where "s1 = count_connection st c"
  have nz: "mput k v h \<noteq> []" for k :: string and v :: int and h
    by (cases h) (auto split: if_splits)
  have one: "cn_total s1 = cn_total st + 1"
    "cn_tcp s1 = cn_tcp st + (if cs_type c = sock_stream then 1 else 0)"
    "cn_udp s1 = cn_udp st + (if cs_type c = sock_dgram then 1 else 0)"
    "status_count s1 key = status_count st key + (if key \<noteq> [] \<and> normal_status c = key then 1 else 0)"
    "cn_net_connections_enabled s1 = cn_net_connections_enabled st"
    by (auto simp: s1_def count_connection_def Let_def status_count_def normal_status_def sock_stream_def
        sock_dgram_def split: option.splits)
  obtain m1 where m1: "cn_statuses st = Some m \<Longrightarrow> cn_statuses s1 = Some m1
      \<and> (m1 = [] \<longleftrightarrow> m = [] \<and> normal_status c = [])"
    using nz by (cases "normal_status c = []")
      (auto simp: s1_def count_connection_def Let_def normal_status_def split: option.splits)
  show ?case
    using Cons [of s1 m1] one m1 by (auto simp: Let_def s1_def [symmetric])
qed (simp add: Let_def)

text \<open>
  The connection summary counts what was reported: the total, the TCP and UDP sockets, and under
  every normalised non-empty status (and its own field) exactly the connections in that status;
  without any status the table is left out.
\<close>

theorem connection_counts:
  assumes "collect_connection_stats (Inr cs) None count_file max_file = Inr st"
  shows "cn_net_connections_enabled st \<and> cn_total st = int (length cs)
    \<and> cn_tcp st = int (length (filter (\<lambda>c. cs_type c = sock_stream) cs))
    \<and> cn_udp st = int (length (filter (\<lambda>c. cs_type c = sock_dgram) cs))
    \<and> (\<forall>key. key \<noteq> [] \<longrightarrow> status_count st key = int (length (filter (\<lambda>c. normal_status c = key) cs)))
    \<and> cn_listen st = status_count st ''LISTEN'' \<and> cn_established st = status_count st ''ESTABLISHED''
    \<and> (cn_statuses st = None \<longleftrightarrow> (\<forall>c \<in> set cs. normal_status c = []))"
proof -
  let ?st0 = "zero_connection_stats\<lparr>cn_statuses := Some [], cn_net_connections_enabled := True\<rparr>"
  define s1 where "s1 = foldl count_connection ?st0 cs"
  have z: "status_count ?st0 key = 0" for key
    by (simp add: status_count_def)
  note cc = count_connections [of ?st0 cs _ "[]", folded s1_def, unfolded Let_def z]
  define s2 where "s2 = add_conntrack count_file max_file (apply_connection_status_fields s1)"
  have st: "st = (if cn_statuses s2 = Some [] then s2\<lparr>cn_statuses := None\<rparr> else s2)"
    using assms by (auto simp: collect_connection_stats_def s2_def s1_def Let_def)
  have s2: "cn_total s2 = cn_total s1" "cn_tcp s2 = cn_tcp s1" "cn_udp s2 = cn_udp s1"
    "cn_statuses s2 = cn_statuses s1" "cn_net_connections_enabled s2 = cn_net_connections_enabled s1"
    "cn_listen s2 = status_count s1 ''LISTEN''" "cn_established s2 = status_count s1 ''ESTABLISHED''"
    by (simp_all add: s2_def add_conntrack_def apply_connection_status_fields_def Let_def split: prod.splits)
  have sc: "status_count st key = status_count s1 key" for key
    by (simp add: st s2 status_count_def)
  have st': "cn_net_connections_enabled st = cn_net_connections_enabled s1" "cn_total st = cn_total s1"
    "cn_tcp st = cn_tcp s1" "cn_udp st = cn_udp s1"
    "cn_listen st = status_count s1 ''LISTEN''" "cn_established st = status_count s1 ''ESTABLISHED''"
    "cn_statuses st = None \<longleftrightarrow> cn_statuses s1 = None \<or> cn_statuses s1 = Some []"
    by (simp_all add: st s2)
  show ?thesis
    unfolding sc st' using cc by (auto simp: zero_connection_stats_def)
qed

theorem connection_counts_witness:
  "\<exists>st. collect_connection_stats (Inr [\<lparr>cs_type = 1, cs_status = ''listen ''\<rparr>, \<lparr>cs_type = 2, cs_status = []\<rparr>])
      None None None = Inr st \<and> cn_total st = 2 \<and> cn_tcp st = 1"
proof -
  let ?cs = "[\<lparr>cs_type = 1, cs_status = ''listen ''\<rparr>, \<lparr>cs_type = 2, cs_status = []\<rparr>]"
  obtain st where st: "collect_connection_stats (Inr ?cs) None None None = Inr st"
    by (simp add: collect_connection_stats_def Let_def)
  show ?thesis
    using connection_counts [OF st] st by (intro exI [of _ st]) (simp add: sock_stream_def)
qed

lemma parse_interrupt_counts_from_length:
  "length acc \<le> cols \<Longrightarrow> 0 < cols \<Longrightarrow> length (parse_interrupt_counts_from acc fs cols) \<le> cols"
  by (induction acc fs cols rule: parse_interrupt_counts_from.induct) (auto split: option.splits)

lemma parse_interrupt_counts_from_take:
  "\<exists>n. n \<le> length fs \<and> map Some (parse_interrupt_counts_from acc fs cols)
     = map Some acc @ map (\<lambda>f. map_option of_nat (parse_uint 64 f)) (take n fs)"
proof (induction acc fs cols rule: parse_interrupt_counts_from.induct)
  case (2 acc f fs cols)
  show ?case
  proof (cases "(0 < cols \<and> cols \<le> length acc) \<or> parse_uint 64 f = None")
    case True
    then show ?thesis by (intro exI [of _ 0]) auto
  next
    case False
    then obtain v where v: "parse_uint 64 f = Some v" "\<not> (0 < cols \<and> cols \<le> length acc)" by auto
    then obtain n where "n \<le> length fs" "map Some (parse_interrupt_counts_from (acc @ [of_nat v]) fs cols)
        = map Some (acc @ [of_nat v]) @ map (\<lambda>f. map_option of_nat (parse_uint 64 f)) (take n fs)"
      using 2 by blast
    then show ?thesis
      using v by (intro exI [of _ "Suc n"]) simp
  qed
qed (intro exI [of _ 0], simp)

text \<open>
  A line of \<open>/proc/interrupts\<close> that is accepted yields the numbers that follow the colon, at
  least one and at most one per processor column, their 64-bit sum as the total, and the remaining
  words as the description.
\<close>

theorem parse_interrupt_line_counts:
  assumes "parse_interrupt_line line cols = Some item"
  shows "\<exists>irq rest. cut_at (CHR '':'') (trim_space line) = Some (irq, rest)
    \<and> (let fs = Prelude.fields rest; n = length (irq_cpu_counts item) in
        0 < n \<and> n \<le> length fs \<and> (0 < cols \<longrightarrow> n \<le> cols)
        \<and> map Some (irq_cpu_counts item) = map (\<lambda>f. map_option of_nat (parse_uint 64 f)) (take n fs)
        \<and> irq_total item = sum_list (irq_cpu_counts item)
        \<and> irq_description item = join_with '' '' (drop n fs))"
proof -
  obtain irq rest where cut: "cut_at (CHR '':'') (trim_space line) = Some (irq, rest)"
    and item: "item = \<lparr>irq_irq = trim_space irq,
        irq_total = sum_uint64 (parse_interrupt_counts_from [] (Prelude.fields rest) cols),
        irq_cpu_counts = parse_interrupt_counts_from [] (Prelude.fields rest) cols,
        irq_description = join_with '' '' (drop (length (parse_interrupt_counts_from [] (Prelude.fields rest) cols))
           (Prelude.fields rest))\<rparr>"
    and ne: "parse_interrupt_counts_from [] (Prelude.fields rest) cols \<noteq> []"
    using assms by (auto simp: parse_interrupt_line_def parse_interrupt_counts_def Let_def
        split: if_splits option.splits)
  let ?c = "parse_interrupt_counts_from [] (Prelude.fields rest) cols"
  obtain n where n: "n \<le> length (Prelude.fields rest)"
      "map Some ?c = map (\<lambda>f. map_option of_nat (parse_uint 64 f)) (take n (Prelude.fields rest))"
    using parse_interrupt_counts_from_take [of "Prelude.fields rest" "[]" cols] by auto
  have len: "length ?c = n"
    using arg_cong [OF n(2), of length] n(1) by simp
  have "foldl (+) a vs = a + sum_list vs" for a :: u64 and vs
    by (induction vs arbitrary: a) (simp_all add: add.assoc)
  then have "sum_uint64 ?c = sum_list ?c"
    by (simp add: sum_uint64_def)
  then show ?thesis
    using cut item ne n len parse_interrupt_counts_from_length [of "[]" cols "Prelude.fields rest"]
    by (auto simp: Let_def)
qed

theorem parse_interrupt_line_counts_witness:
  "parse_interrupt_line '' 8: 5 7 edge rtc0'' 2 \<noteq> None
    \<and> irq_total (the (parse_interrupt_line '' 8: 5 7 edge rtc0'' 2)) = 12"
proof -
  obtain item where i: "parse_interrupt_line '' 8: 5 7 edge rtc0'' 2 = Some item"
      "irq_cpu_counts item = [5, 7]"
    by (simp add: parse_interrupt_line_def trim_space_def is_space_def Let_def Prelude.fields_def
        parse_interrupt_counts_def parse_uint_def digit_value_def)
  show ?thesis
    using parse_interrupt_line_counts [OF i(1)] i by (auto simp: Let_def)
qed

end
