(* ===== verification/Cpu.thy ===== *)
theory Cpu
  imports Float64
begin

text \<open>
  \<open>internal/app/cpu.go\<close>: processor usage as the change of the time counters since the previous
  reading under the same cache key.  The package's two variables are the state \<open>cpu_state\<close>; what
  \<open>cpu.TimesWithContext\<close> returns is an argument.
\<close>

section \<open>Readings and state\<close>

record times_stat =
  ts_user :: f64
  ts_system :: f64
  ts_idle :: f64
  ts_nice :: f64
  ts_iowait :: f64
  ts_irq :: f64
  ts_softirq :: f64
  ts_steal :: f64

record cpu_state =
  last_cpu_times :: "16 word \<rightharpoonup> times_stat"
  last_per_core_cpu_times :: "16 word \<rightharpoonup> times_stat list"

record cpu_metrics =
  cm_total :: f64
  cm_user :: f64
  cm_system :: f64
  cm_iowait :: f64
  cm_steal :: f64
  cm_idle :: f64

definition empty_cpu_state :: cpu_state where
  "empty_cpu_state = \<lparr>last_cpu_times = (\<lambda>_. None), last_per_core_cpu_times = (\<lambda>_. None)\<rparr>"

definition zero_cpu_metrics :: cpu_metrics where
  "zero_cpu_metrics = \<lparr>cm_total = Num 0, cm_user = Num 0, cm_system = Num 0, cm_iowait = Num 0,
     cm_steal = Num 0, cm_idle = Num 0\<rparr>"

definition initialize_cpu_metrics ::
  "(go_error + times_stat list) \<Rightarrow> (go_error + times_stat list) \<Rightarrow> cpu_state \<Rightarrow> cpu_state" where
  "initialize_cpu_metrics cpu_times per_core_times s =
     (let s1 = (case cpu_times of Inr (t # _) \<Rightarrow> s\<lparr>last_cpu_times := (last_cpu_times s)(60000 \<mapsto> t)\<rparr> | _ \<Rightarrow> s)
      in case per_core_times of
           Inr (t # ts) \<Rightarrow> s1\<lparr>last_per_core_cpu_times := (last_per_core_cpu_times s1)(60000 \<mapsto> t # ts)\<rparr>
         | _ \<Rightarrow> s1)"

section \<open>Usage between two readings\<close>

definition get_all_busy :: "times_stat \<Rightarrow> f64 \<times> f64" where
  "get_all_busy t =
     (let tot = fadd (fadd (fadd (fadd (fadd (fadd (fadd (ts_user t) (ts_system t)) (ts_idle t))
                (ts_nice t)) (ts_iowait t)) (ts_irq t)) (ts_softirq t)) (ts_steal t)
      in (tot, fsub (fsub tot (ts_idle t)) (ts_iowait t)))"

definition clamp_percent :: "f64 \<Rightarrow> f64" where
  "clamp_percent v = math_min (Num 100) (math_max (Num 0) v)"

definition calculate_busy :: "times_stat \<Rightarrow> times_stat \<Rightarrow> f64" where
  "calculate_busy t1 t2 =
     (let (t1_all, t1_busy) = get_all_busy t1; (t2_all, t2_busy) = get_all_busy t2
      in if fle t2_all t1_all \<or> fle t2_busy t1_busy then Num 0
         else clamp_percent (fmul (fdiv (fsub t2_busy t1_busy) (fsub t2_all t1_all)) (Num 100)))"

section \<open>Operations\<close>

definition share :: "f64 \<Rightarrow> f64 \<Rightarrow> f64 \<Rightarrow> f64" where
  "share total_delta v1 v2 = clamp_percent (fmul (fdiv (fsub v2 v1) total_delta) (Num 100))"

text \<open>The baseline of a key: its own, or the one of the default key, or this reading.\<close>

definition with_baseline :: "16 word \<Rightarrow> 'a \<Rightarrow> (16 word \<rightharpoonup> 'a) \<Rightarrow> (16 word \<rightharpoonup> 'a)" where
  "with_baseline cache_time_ms reading m =
     (if m cache_time_ms \<noteq> None then m
      else let m1 = (if m 60000 \<noteq> None then m else m(60000 \<mapsto> reading))
           in m1(cache_time_ms := m1 60000))"

definition get_cpu_metrics ::
  "(go_error + times_stat list) \<Rightarrow> 16 word \<Rightarrow> cpu_state \<Rightarrow> cpu_metrics res \<times> cpu_state" where
  "get_cpu_metrics cpu_times cache_time_ms s = (case cpu_times of
     Inl e \<Rightarrow> (Inl e, s)
   | Inr [] \<Rightarrow> (Inr zero_cpu_metrics, s)
   | Inr (t2 # _) \<Rightarrow>
       let m = with_baseline cache_time_ms t2 (last_cpu_times s);
           s1 = s\<lparr>last_cpu_times := m\<rparr>;
           t1 = the (m cache_time_ms);
           total_delta = fsub (fst (get_all_busy t2)) (fst (get_all_busy t1))
       in if fle total_delta (Num 0) then (Inr zero_cpu_metrics, s1)
          else (Inr \<lparr>cm_total = calculate_busy t1 t2,
                     cm_user = share total_delta (ts_user t1) (ts_user t2),
                     cm_system = share total_delta (ts_system t1) (ts_system t2),
                     cm_iowait = share total_delta (ts_iowait t1) (ts_iowait t2),
                     cm_steal = share total_delta (ts_steal t1) (ts_steal t2),
                     cm_idle = share total_delta (ts_idle t1) (ts_idle t2)\<rparr>,
                s1\<lparr>last_cpu_times := m(cache_time_ms \<mapsto> t2)\<rparr>))"

definition get_per_core_cpu_usage ::
  "(go_error + times_stat list) \<Rightarrow> 16 word \<Rightarrow> cpu_state \<Rightarrow> 8 word list option res \<times> cpu_state" where
  "get_per_core_cpu_usage per_core cache_time_ms s = (case per_core of
     Inl e \<Rightarrow> (Inl e, s)
   | Inr [] \<Rightarrow> (Inr None, s)
   | Inr per_core_times \<Rightarrow>
       let m = with_baseline cache_time_ms per_core_times (last_per_core_cpu_times s);
           last_times = the (m cache_time_ms)
       in (Inr (Some (map (\<lambda>(t1, t2). to_uint8 (fround (calculate_busy t1 t2))) (zip last_times per_core_times))),
           s\<lparr>last_per_core_cpu_times := m(cache_time_ms \<mapsto> per_core_times)\<rparr>))"

section \<open>Ranges\<close>

definition percent :: "f64 \<Rightarrow> bool" where
  "percent x = (fin x \<and> 0 \<le> fval x \<and> fval x \<le> 100)"

lemma percent_zero [simp]: "percent (Num 0)"
  by (simp add: percent_def)

lemma clamp_percent_range: "v \<noteq> NaN \<Longrightarrow> percent (clamp_percent v)"
  by (cases v)
    (auto simp: clamp_percent_def percent_def math_min_def math_max_def fmax_def is_zero_def)

text \<open>Counters that a kernel can report: finite, not negative, below 2^40 seconds.\<close>

definition sane_counter :: "f64 \<Rightarrow> bool" where
  "sane_counter x = (fin x \<and> 0 \<le> fval x \<and> fval x \<le> of_int (2 ^ 40))"

definition sane :: "times_stat \<Rightarrow> bool" where
  "sane t = list_all sane_counter [ts_user t, ts_system t, ts_idle t, ts_nice t, ts_iowait t,
     ts_irq t, ts_softirq t, ts_steal t]"

text \<open>A float that is a rounded value, between two integers of at most 53 bits.\<close>

definition rounded :: "int \<Rightarrow> int \<Rightarrow> f64 \<Rightarrow> bool" where
  "rounded a b x = (fin x \<and> of_int a \<le> fval x \<and> fval x \<le> of_int b \<and> (\<exists>q. fval x = rnd_val q))"

lemma fadd_rounded:
  assumes "fin x" "of_int a \<le> fval x" "fval x \<le> of_int b" "fin y" "of_int c \<le> fval y" "fval y \<le> of_int d"
    and "\<bar>a + c\<bar> \<le> 2 ^ 53" "\<bar>b + d\<bar> \<le> 2 ^ 53"
  shows "rounded (a + c) (b + d) (fadd x y)"
proof -
  let ?q = "fval x + fval y"
  have q: "of_int (a + c) \<le> ?q" "?q \<le> of_int (b + d)"
    using assms by simp_all
  note bet = rnd_between [OF q assms(7,8)]
  have r: "of_int (a + c) \<le> rnd_val ?q" "rnd_val ?q \<le> of_int (b + d)"
    using rnd_val_mono [OF q(1)] rnd_val_mono [OF q(2)] assms(7,8) by (simp_all only: rnd_val_of_int)
  have "\<bar>rnd_val ?q\<bar> \<le> of_int (2 ^ 53)"
  proof -
    have "(of_int (- (2 ^ 53)) :: rat) \<le> of_int (a + c)" "(of_int (b + d) :: rat) \<le> of_int (2 ^ 53)"
      unfolding of_int_le_iff using assms(7,8) by linarith+
    then have "- (of_int (2 ^ 53)) \<le> rnd_val ?q" "rnd_val ?q \<le> of_int (2 ^ 53)"
      using r unfolding of_int_minus by (metis order_trans)+
    then show ?thesis
      unfolding abs_le_iff by (simp only: minus_le_iff)
  qed
  moreover have "(of_int (2 ^ 53) :: rat) \<le> max_f64"
    by (simp add: max_f64_def)
  ultimately have "\<bar>rnd_val ?q\<bar> \<le> max_f64"
    by (rule order_trans)
  from fadd_fin [OF assms(1,4) this] show ?thesis
    using r by (auto simp: rounded_def)
qed

lemma fneg_simps: "fin x \<Longrightarrow> fin (fneg x)" "fin x \<Longrightarrow> fval (fneg x) = - fval x"
  by (cases x; simp)+

lemma fsub_rounded:
  assumes "fin x" "of_int a \<le> fval x" "fval x \<le> of_int b" "fin y" "of_int c \<le> fval y" "fval y \<le> of_int d"
    and "\<bar>a - d\<bar> \<le> 2 ^ 53" "\<bar>b - c\<bar> \<le> 2 ^ 53"
  shows "rounded (a - d) (b - c) (fsub x y)"
  unfolding fsub_def
  using fadd_rounded [OF assms(1-3) fneg_simps(1) [OF assms(4)], of "- d" "- c"] assms(4-8)
  by (simp add: fneg_simps)

lemma rnd_val_grid: "\<exists>k. rnd_val q = of_int k * pow2 (- 1074)"
proof -
  have pos: "\<exists>k. rnd_pos p = of_int k * pow2 (- 1074)" for p
  proof -
    have e: "- 1074 \<le> ulp_exp p"
      by (simp add: ulp_exp_def)
    then have "pow2 (ulp_exp p) = of_int (2 ^ nat (ulp_exp p + 1074)) * pow2 (- 1074)"
      using pow2_add [of "ulp_exp p + 1074" "- 1074"] pow2_int [of "ulp_exp p + 1074"] by simp
    then have "rnd_pos p = of_int (rne (p / pow2 (ulp_exp p)) * 2 ^ nat (ulp_exp p + 1074)) * pow2 (- 1074)"
      by (simp add: rnd_pos_def)
    then show ?thesis by blast
  qed
  obtain k1 k2 where "rnd_pos q = of_int k1 * pow2 (- 1074)" "rnd_pos (- q) = of_int k2 * pow2 (- 1074)"
    using pos by meson
  then show ?thesis
    by (auto simp: rnd_val_def intro: exI [of _ k1] exI [of _ "- k2"] exI [of _ 0])
qed

lemma rnd_val_smallest: "rnd_val (pow2 (- 1074)) = pow2 (- 1074)"
proof -
  have "ilog (pow2 (- 1074)) = - 1074"
    by (rule ilog_unique) (rule order_refl, rule pow2_strict_mono, simp)
  then show ?thesis
    using rne_of_int [of 1] pow2_pos [of "- 1074"]
    by (auto simp: rnd_val_def rnd_pos_def ulp_exp_def simp del: pow2_pos)
qed

text \<open>The difference of two different floats never rounds to zero.\<close>

lemma rnd_val_diff_pos: "rnd_val p < rnd_val q \<Longrightarrow> 0 < rnd_val (rnd_val q - rnd_val p)"
proof -
  assume lt: "rnd_val p < rnd_val q"
  obtain i j where ij: "rnd_val p = of_int i * pow2 (- 1074)" "rnd_val q = of_int j * pow2 (- 1074)"
    using rnd_val_grid by meson
  then have "i < j"
    using lt by (simp add: mult_less_cancel_right_pos)
  then have "(1 :: rat) * pow2 (- 1074) \<le> of_int (j - i) * pow2 (- 1074)"
    by (intro mult_right_mono) simp_all
  then have "pow2 (- 1074) \<le> rnd_val q - rnd_val p"
    using ij by (simp add: left_diff_distrib)
  then have "rnd_val (pow2 (- 1074)) \<le> rnd_val (rnd_val q - rnd_val p)"
    by (rule rnd_val_mono)
  then show ?thesis
    unfolding rnd_val_smallest by (metis less_le_trans pow2_pos)
qed

lemma ratio_not_NaN:
  assumes "fin a" "fin b" "fval b \<noteq> 0"
  shows "fmul (fdiv a b) (Num 100) \<noteq> NaN"
  unfolding fdiv_fin [OF assms] by (auto simp: rnd_def fmul_def Let_def)

lemma rounded_fin: "rounded a b x \<Longrightarrow> fin x"
  by (simp add: rounded_def)

lemma sane_counterD: "sane_counter x \<Longrightarrow> fin x \<and> of_int 0 \<le> fval x \<and> fval x \<le> of_int (2 ^ 40)"
  by (simp add: sane_counter_def)

lemma fadd_sane:
  assumes "rounded 0 b x" "sane_counter y" "0 \<le> b" "b + 2 ^ 40 \<le> 2 ^ 53"
  shows "rounded 0 (b + 2 ^ 40) (fadd x y)"
  using fadd_rounded [of x 0 b y 0 "2 ^ 40"] assms sane_counterD [OF assms(2)] by (simp add: rounded_def)

lemma get_all_busy_rounded:
  assumes "sane t"
  shows "rounded 0 (8 * 2 ^ 40) (fst (get_all_busy t)) \<and> rounded (- (2 * 2 ^ 40)) (8 * 2 ^ 40) (snd (get_all_busy t))"
proof -
  have c: "sane_counter (ts_user t)" "sane_counter (ts_system t)" "sane_counter (ts_idle t)"
    "sane_counter (ts_nice t)" "sane_counter (ts_iowait t)" "sane_counter (ts_irq t)"
    "sane_counter (ts_softirq t)" "sane_counter (ts_steal t)"
    using assms by (simp_all add: sane_def)
  have 2: "rounded 0 (2 * 2 ^ 40) (fadd (ts_user t) (ts_system t))"
    using fadd_rounded [of "ts_user t" 0 "2 ^ 40" "ts_system t" 0 "2 ^ 40"] sane_counterD [OF c(1)] sane_counterD [OF c(2)]
    by simp
  note 3 = fadd_sane [OF 2 c(3), simplified]
  note 4 = fadd_sane [OF 3 c(4), simplified]
  note 5 = fadd_sane [OF 4 c(5), simplified]
  note 6 = fadd_sane [OF 5 c(6), simplified]
  note 7 = fadd_sane [OF 6 c(7), simplified]
  note 8 = fadd_sane [OF 7 c(8), simplified]
  have tot: "rounded 0 (8 * 2 ^ 40) (fst (get_all_busy t))"
    using 8 by (simp add: get_all_busy_def Let_def)
  let ?tot = "fst (get_all_busy t)"
  have b1: "rounded (- (2 ^ 40)) (8 * 2 ^ 40) (fsub ?tot (ts_idle t))"
    using fsub_rounded [of ?tot 0 "8 * 2 ^ 40" "ts_idle t" 0 "2 ^ 40"] tot sane_counterD [OF c(3)]
    by (simp add: rounded_def)
  have "rounded (- (2 * 2 ^ 40)) (8 * 2 ^ 40) (fsub (fsub ?tot (ts_idle t)) (ts_iowait t))"
    using fsub_rounded [of "fsub ?tot (ts_idle t)" "- (2 ^ 40)" "8 * 2 ^ 40" "ts_iowait t" 0 "2 ^ 40"]
      b1 sane_counterD [OF c(5)] by (simp add: rounded_def)
  then show ?thesis
    using tot by (simp add: get_all_busy_def Let_def)
qed

lemma fval_rnd_fin: "fin (rnd s q) \<Longrightarrow> fval (rnd s q) = rnd_val q"
  by (auto simp: rnd_def Let_def split: if_splits)

lemma fadd_fval: "fin (fadd x y) \<Longrightarrow> fin x \<Longrightarrow> fin y \<Longrightarrow> fval (fadd x y) = rnd_val (fval x + fval y)"
  by (cases x; cases y) (simp_all add: fval_rnd_fin)

lemma rounded_diff:
  assumes "rounded a b x" "rounded a b y" "\<bar>a - b\<bar> \<le> 2 ^ 53"
  shows "fin (fsub x y)" "fval y < fval x \<Longrightarrow> 0 < fval (fsub x y)"
proof -
  have ab: "\<bar>b - a\<bar> \<le> 2 ^ 53"
    using assms(3) by (simp add: abs_minus_commute)
  note r = fsub_rounded [of x a b y a b] assms ab
  have s: "rounded (a - b) (b - a) (fsub x y)"
    using r by (simp add: rounded_def)
  then show "fin (fsub x y)"
    by (rule rounded_fin)
  assume lt: "fval y < fval x"
  obtain p q where pq: "fval x = rnd_val q" "fval y = rnd_val p"
    using assms(1,2) by (auto simp: rounded_def)
  have e: "fval (fsub x y) = rnd_val (fval x - fval y)"
  proof -
    have f: "fin x" "fin (fneg y)" "fval (fneg y) = - fval y"
      using assms(1,2) by (simp_all add: rounded_def fneg_simps)
    have "fin (fadd x (fneg y))"
      using s by (simp add: rounded_def fsub_def)
    then have "fval (fadd x (fneg y)) = rnd_val (fval x + fval (fneg y))"
      using f(1,2) by (rule fadd_fval)
    then show ?thesis
      by (simp add: fsub_def f(3))
  qed
  show "0 < fval (fsub x y)"
    unfolding e pq by (rule rnd_val_diff_pos) (use lt pq in simp)
qed

lemma calculate_busy_percent:
  assumes "sane t1" "sane t2"
  shows "percent (calculate_busy t1 t2)"
proof -
  note g1 = get_all_busy_rounded [OF assms(1)] and g2 = get_all_busy_rounded [OF assms(2)]
  let ?a = "fsub (snd (get_all_busy t2)) (snd (get_all_busy t1))"
  let ?b = "fsub (fst (get_all_busy t2)) (fst (get_all_busy t1))"
  show ?thesis
  proof (cases "fle (fst (get_all_busy t2)) (fst (get_all_busy t1))")
    case True
    then show ?thesis by (simp add: calculate_busy_def case_prod_unfold Let_def)
  next
    case False
    then have "fval (fst (get_all_busy t1)) < fval (fst (get_all_busy t2))"
      using g1 g2 fle_fin by (auto simp: rounded_def)
    then have "fin ?b" "fval ?b \<noteq> 0"
      using rounded_diff [OF conjunct1 [OF g2] conjunct1 [OF g1]] by simp_all
    moreover have "fin ?a"
      using rounded_diff(1) [OF conjunct2 [OF g2] conjunct2 [OF g1]] by simp
    ultimately show ?thesis
      using clamp_percent_range [OF ratio_not_NaN] by (simp add: calculate_busy_def case_prod_unfold Let_def)
  qed
qed

lemma share_percent:
  assumes "sane_counter v1" "sane_counter v2" "fin d" "\<not> fle d (Num 0)"
  shows "percent (share d v1 v2)"
proof -
  have "fin (fsub v2 v1)"
    using fsub_rounded [of v2 0 "2 ^ 40" v1 0 "2 ^ 40"] sane_counterD [OF assms(1)] sane_counterD [OF assms(2)]
    by (simp add: rounded_def)
  moreover have "fval d \<noteq> 0"
    using assms(3,4) by (cases d) auto
  ultimately show ?thesis
    unfolding share_def using assms(3) by (intro clamp_percent_range ratio_not_NaN)
qed

lemma percent_uint8: "percent x \<Longrightarrow> to_uint8 (fround x) \<le> 100"
proof -
  assume x: "percent x"
  define r where "r = round_half_away (fval x)"
  have "0 \<le> r" "r \<le> 100"
    using x round_half_away_mono [of 0 "fval x"] round_half_away_mono [of "fval x" "of_int 100"]
    unfolding round_half_away_of_int by (simp_all add: percent_def r_def)
  then have "trunc (fval (fround x)) = r"
    using x by (simp add: percent_def fround_fval r_def [symmetric] trunc_def)
  then show ?thesis
    using x \<open>0 \<le> r\<close> \<open>r \<le> 100\<close>
    by (simp add: to_uint8_def percent_def word_le_def uint_word_of_int)
qed

section \<open>Every call of a run\<close>

definition sane_state :: "cpu_state \<Rightarrow> bool" where
  "sane_state s = ((\<forall>t \<in> ran (last_cpu_times s). sane t)
    \<and> (\<forall>ts \<in> ran (last_per_core_cpu_times s). list_all sane ts))"

definition sane_reading :: "(go_error + times_stat list) \<Rightarrow> bool" where
  "sane_reading r = (case r of Inl _ \<Rightarrow> True | Inr ts \<Rightarrow> list_all sane ts)"

definition percent_metrics :: "cpu_metrics \<Rightarrow> bool" where
  "percent_metrics m = list_all percent [cm_total m, cm_user m, cm_system m, cm_iowait m, cm_steal m, cm_idle m]"

lemma with_baseline_ran: "ran (with_baseline k r m) \<subseteq> insert r (ran m)"
  by (auto simp: with_baseline_def Let_def ran_def split: if_splits)

lemma with_baseline_Some: "\<exists>t. with_baseline k r m k = Some t"
  by (auto simp: with_baseline_def Let_def)

lemma with_baseline_all: "P r \<Longrightarrow> \<forall>t \<in> ran m. P t \<Longrightarrow> \<forall>t \<in> ran (with_baseline k r m). P t"
  using with_baseline_ran [of k r m] by blast

lemma ran_upd_all: "P r \<Longrightarrow> \<forall>t \<in> ran m. P t \<Longrightarrow> \<forall>t \<in> ran (m(k \<mapsto> r)). P t"
  by (auto simp: ran_def split: if_splits)

lemma with_baseline_mem: "P r \<Longrightarrow> \<forall>t \<in> ran m. P t \<Longrightarrow> P (the (with_baseline k r m k))"
  using with_baseline_ran [of k r m] with_baseline_Some [of k r m] by (force simp: ran_def)

lemma get_cpu_metrics_sane:
  assumes "sane_state s" "sane_reading r"
  shows "(case fst (get_cpu_metrics r k s) of Inl _ \<Rightarrow> True | Inr m \<Rightarrow> percent_metrics m)
    \<and> sane_state (snd (get_cpu_metrics r k s))"
proof (cases r)
  case (Inr ts)
  show ?thesis
  proof (cases ts)
    case Nil
    have "get_cpu_metrics r k s = (Inr zero_cpu_metrics, s)"
      unfolding get_cpu_metrics_def Inr Nil by simp
    then show ?thesis
      using assms(1) by (simp add: zero_cpu_metrics_def percent_metrics_def)
  next
    case (Cons t2 rest)
    define m where "m = with_baseline k t2 (last_cpu_times s)"
    define t1 where "t1 = the (m k)"
    have t2: "sane t2"
      using assms(2) Inr Cons by (simp add: sane_reading_def)
    have t1: "sane t1"
      unfolding t1_def m_def using t2 assms(1) with_baseline_mem [of sane t2] by (simp add: sane_state_def)
    have m1: "\<forall>t \<in> ran m. sane t"
      unfolding m_def using assms(1) by (intro with_baseline_all [of sane, OF t2]) (simp add: sane_state_def)
    note m = m1 ran_upd_all [of sane, OF t2 m1, of k]
    let ?d = "fsub (fst (get_all_busy t2)) (fst (get_all_busy t1))"
    have "fin ?d"
      using rounded_diff(1) [OF conjunct1 [OF get_all_busy_rounded [OF t2]] conjunct1 [OF get_all_busy_rounded [OF t1]]]
      by simp
    then have sh: "percent (share ?d (f t1) (f t2))"
      if "\<not> fle ?d (Num 0)" "f \<in> {ts_user, ts_system, ts_iowait, ts_steal, ts_idle}" for f
      using that t1 t2 by (intro share_percent) (auto simp: sane_def)
    have g: "get_cpu_metrics r k s = (if fle ?d (Num 0) then (Inr zero_cpu_metrics, s\<lparr>last_cpu_times := m\<rparr>)
      else (Inr \<lparr>cm_total = calculate_busy t1 t2,
                     cm_user = share ?d (ts_user t1) (ts_user t2),
                     cm_system = share ?d (ts_system t1) (ts_system t2),
                     cm_iowait = share ?d (ts_iowait t1) (ts_iowait t2),
                     cm_steal = share ?d (ts_steal t1) (ts_steal t2),
                     cm_idle = share ?d (ts_idle t1) (ts_idle t2)\<rparr>,
                s\<lparr>last_cpu_times := m(k \<mapsto> t2)\<rparr>))"
      unfolding get_cpu_metrics_def Inr Cons Let_def m_def t1_def by simp
    have st: "sane_state (s\<lparr>last_cpu_times := m\<rparr>)" "sane_state (s\<lparr>last_cpu_times := m(k \<mapsto> t2)\<rparr>)"
      using m assms(1) unfolding sane_state_def by simp_all
    show ?thesis
    proof (cases "fle ?d (Num 0)")
      case True
      then show ?thesis
        unfolding g using st by (simp add: percent_metrics_def zero_cpu_metrics_def)
    next
      case False
      show ?thesis
        unfolding g using st sh [OF False] calculate_busy_percent [OF t1 t2] False
        by (simp add: percent_metrics_def)
    qed
  qed
qed (simp add: get_cpu_metrics_def assms)

lemma get_per_core_sane:
  assumes "sane_state s" "sane_reading r"
  shows "(case fst (get_per_core_cpu_usage r k s) of
      Inr (Some us) \<Rightarrow> (\<forall>u \<in> set us. u \<le> 100) \<and> (case r of Inr ts \<Rightarrow> length us \<le> length ts | Inl _ \<Rightarrow> False)
    | _ \<Rightarrow> True)
    \<and> sane_state (snd (get_per_core_cpu_usage r k s))"
proof (cases r)
  case (Inr ts)
  show ?thesis
  proof (cases ts)
    case Nil
    have "get_per_core_cpu_usage r k s = (Inr None, s)"
      unfolding get_per_core_cpu_usage_def Inr Nil by simp
    then show ?thesis
      using assms(1) by simp
  next
    case (Cons t rest)
    define m where "m = with_baseline k ts (last_per_core_cpu_times s)"
    have ts: "list_all sane ts"
      using assms(2) Inr by (simp add: sane_reading_def)
    have b: "list_all sane (the (m k))"
      unfolding m_def using ts assms(1) with_baseline_mem [of "list_all sane" ts] by (simp add: sane_state_def)
    have m1: "\<forall>t \<in> ran m. list_all sane t"
      unfolding m_def using assms(1) by (intro with_baseline_all [of "list_all sane", OF ts]) (simp add: sane_state_def)
    note m = ran_upd_all [of "list_all sane", OF ts m1, of k]
    have u: "to_uint8 (fround (calculate_busy t1 t2)) \<le> 100" if "(t1, t2) \<in> set (zip (the (m k)) ts)" for t1 t2
    proof (intro percent_uint8 calculate_busy_percent)
      show "sane t1" "sane t2"
        using that b ts by (auto simp: list_all_iff dest: set_zip_leftD set_zip_rightD)
    qed
    have g: "get_per_core_cpu_usage r k s
        = (Inr (Some (map (\<lambda>(t1, t2). to_uint8 (fround (calculate_busy t1 t2))) (zip (the (m k)) ts))),
           s\<lparr>last_per_core_cpu_times := m(k \<mapsto> ts)\<rparr>)"
      by (simp add: get_per_core_cpu_usage_def Inr Cons m_def Let_def)
    show ?thesis
      unfolding g using u m assms(1) by (auto simp: Inr sane_state_def)
  qed
qed (simp add: get_per_core_cpu_usage_def assms)

datatype cpu_call = CallMetrics "16 word" "go_error + times_stat list" | CallPerCore "16 word" "go_error + times_stat list"

fun cpu_run :: "cpu_call list \<Rightarrow> cpu_state \<Rightarrow> (cpu_metrics res + 8 word list option res) list" where
  "cpu_run [] s = []"
| "cpu_run (CallMetrics k r # cs) s = (case get_cpu_metrics r k s of (m, s') \<Rightarrow> Inl m # cpu_run cs s')"
| "cpu_run (CallPerCore k r # cs) s = (case get_per_core_cpu_usage r k s of (u, s') \<Rightarrow> Inr u # cpu_run cs s')"

fun call_reading :: "cpu_call \<Rightarrow> go_error + times_stat list" where
  "call_reading (CallMetrics k r) = r"
| "call_reading (CallPerCore k r) = r"

fun in_range :: "cpu_metrics res + 8 word list option res \<Rightarrow> bool" where
  "in_range (Inl (Inr m)) = percent_metrics m"
| "in_range (Inr (Inr (Some us))) = (\<forall>u \<in> set us. u \<le> 100)"
| "in_range _ = True"

lemma cpu_run_in_range:
  "sane_state s \<Longrightarrow> \<forall>c \<in> set cs. sane_reading (call_reading c) \<Longrightarrow> \<forall>r \<in> set (cpu_run cs s). in_range r"
proof (induction cs s rule: cpu_run.induct)
  case (2 k r cs s)
  obtain m s' where g: "get_cpu_metrics r k s = (m, s')"
    by (cases "get_cpu_metrics r k s")
  have "in_range (Inl m)" "sane_state s'"
    using get_cpu_metrics_sane [OF 2(2), of r k] 2(3) by (cases m; simp add: g)+
  then show ?case
    using 2 g by simp
next
  case (3 k r cs s)
  obtain u s' where g: "get_per_core_cpu_usage r k s = (u, s')"
    by (cases "get_per_core_cpu_usage r k s")
  have p: "(case u of Inr (Some us) \<Rightarrow> \<forall>x \<in> set us. x \<le> 100 | _ \<Rightarrow> True) \<and> sane_state s'"
    using get_per_core_sane [OF 3(2), of r k] 3(3) by (cases u) (auto simp: g split: option.splits)
  then have "in_range (Inr u)"
    by (auto split: sum.splits option.splits)
  then show ?case
    using 3 g p by simp
qed simp

section \<open>Properties\<close>

text \<open>
  Usage between any two readings whose counters are finite and between 0 and 2^40 seconds is a
  percentage from 0 to 100, never NaN, however the counters moved: rounding never turns a growth
  of the total time into a division by zero.
\<close>

theorem calculate_busy_range:
  assumes "sane t1" "sane t2"
  shows "fin (calculate_busy t1 t2) \<and> 0 \<le> fval (calculate_busy t1 t2) \<and> fval (calculate_busy t1 t2) \<le> 100"
  using calculate_busy_percent [OF assms] by (simp add: percent_def)

definition sample_times :: "rat \<Rightarrow> rat \<Rightarrow> times_stat" where
  "sample_times user idle = \<lparr>ts_user = Num user, ts_system = Num 0, ts_idle = Num idle, ts_nice = Num 0,
     ts_iowait = Num 0, ts_irq = Num 0, ts_softirq = Num 0, ts_steal = Num 0\<rparr>"

theorem calculate_busy_range_witness:
  "fval (calculate_busy (sample_times 100 50) (sample_times 101 52)) \<le> 100"
  using calculate_busy_range [of "sample_times 100 50" "sample_times 101 52"]
  by (simp add: sample_times_def sane_def sane_counter_def)

text \<open>
  C35: In every run of collections, whatever cache keys they use and whichever of them fail, every
  percentage returned is from 0 to 100 and every per-core usage is at most 100, as long as the
  kernel's counters are sane.
\<close>

theorem cpu_run_percentages:
  assumes "\<forall>c \<in> set calls. sane_reading (call_reading c)"
  shows "\<forall>r \<in> set (cpu_run calls empty_cpu_state). in_range r"
  by (rule cpu_run_in_range [OF _ assms]) (simp add: empty_cpu_state_def sane_state_def)

theorem cpu_run_percentages_witness:
  "list_all in_range (cpu_run [CallMetrics 60000 (Inr [sample_times 100 50]), CallPerCore 1000 (Inl ErrDeadline),
      CallMetrics 1000 (Inr [sample_times 101 52])] empty_cpu_state)"
  unfolding list_all_iff by (rule cpu_run_percentages) (simp add: sane_reading_def sample_times_def sane_def sane_counter_def)

end
