(* ===== verification/Smart_Properties.thy ===== *)
theory Smart_Properties
  imports Smart_Collect
begin

text \<open>
  What the SMART manager does right and wrong: merging keeps devices and verified types, any parser
  that accepts is used; the fallback to an NVMe namespace, a type that the scan and the data name
  differently, and a counter above 16 bits make it lose data.
\<close>

section \<open>Merging\<close>

lemma last_index_Some: "last_index x xs = Some i \<Longrightarrow> i < length xs \<and> xs ! i = x"
proof -
  assume l: "last_index x xs = Some i"
  let ?is = "filter (\<lambda>i. xs ! i = x) [0..<length xs]"
  have "?is \<noteq> []" "i = last ?is" using l by (auto simp: last_index_def split: list.splits)
  then have "i \<in> set ?is" by (metis last_in_set)
  then show ?thesis by simp
qed

lemma filter_upt_eq: "i < n \<Longrightarrow> filter (\<lambda>j. j = i) [0..<n] = [i]"
  by (induction n) (auto simp: less_Suc_eq)

lemma last_index_None: "last_index x xs = None \<longleftrightarrow> x \<notin> set xs"
proof -
  have "last_index x xs = None \<longleftrightarrow> filter (\<lambda>i. xs ! i = x) [0..<length xs] = []"
    by (auto simp: last_index_def split: list.splits)
  also have "\<dots> \<longleftrightarrow> x \<notin> set xs" by (auto simp: filter_empty_conv in_set_conv_nth)
  finally show ?thesis .
qed

lemma unique_name_index_Some:
  "unique_name_index ds name = Some i \<Longrightarrow> i < length ds \<and> di_name (ds ! i) = name"
proof -
  assume u: "unique_name_index ds name = Some i"
  then have "filter (\<lambda>i. di_name (ds ! i) = name) [0..<length ds] = [i]"
    by (auto simp: unique_name_index_def split: list.splits if_splits)
  then have "i \<in> set (filter (\<lambda>i. di_name (ds ! i) = name) [0..<length ds])" by simp
  then show ?thesis by simp
qed

text \<open>The names and the verified devices survive every update of a device.\<close>

lemma preserve_verified_name [simp]: "di_name (preserve_verified_type p d) = di_name d"
  by (simp add: preserve_verified_type_def)

lemma apply_configured_name [simp]: "di_name (apply_configured_metadata c d) = di_name d"
  by (simp add: apply_configured_metadata_def Let_def)

lemma apply_configured_verified:
  "di_type_verified d \<Longrightarrow> di_type_verified (apply_configured_metadata c d)
     \<and> di_type (apply_configured_metadata c d) = di_type d
     \<and> di_parser_type (apply_configured_metadata c d) = di_parser_type d"
  by (simp add: apply_configured_metadata_def Let_def)

lemma merge_scanned_name [simp]: "di_name (merge_scanned existing d) = di_name d"
  by (simp add: merge_scanned_def split: option.split)

text \<open>With distinct names, the device known so far is the one with the name.\<close>

lemma known_device_iff:
  assumes "distinct (map di_name existing)" "\<forall>p \<in> set existing. di_name p \<noteq> []" "p \<in> set existing" "di_name p = di_name d"
  shows "known_device existing d = Some p"
proof -
  obtain i where i: "i < length existing" "existing ! i = p" using assms(3) by (auto simp: in_set_conv_nth)
  have ni: "di_name (existing ! i) = di_name d" by (simp add: i(2) assms(4))
  have u: "j < length existing \<Longrightarrow> di_name (existing ! j) = di_name d \<Longrightarrow> j = i" for j
    using assms(1,4) i by (metis length_map nth_eq_iff_index_eq nth_map)
  show ?thesis
  proof (cases "last_index (device_key d) (map device_key existing)")
    case None
    have "filter (\<lambda>j. di_name (existing ! j) = di_name d) [0..<length existing] = filter (\<lambda>j. j = i) [0..<length existing]"
      by (rule filter_cong) (auto dest: u simp: ni)
    also have "\<dots> = [i]" using i(1) by (rule filter_upt_eq)
    finally have "unique_name_index existing (di_name d) = Some i"
      using assms(2-4) by (auto simp: unique_name_index_def)
    then show ?thesis using None i by (simp add: known_device_def)
  next
    case (Some j)
    then have "j < length existing" "device_key (existing ! j) = device_key d"
      using last_index_Some [OF Some] by auto
    then have "j = i" using u by (simp add: device_key_def)
    then show ?thesis using Some i by (simp add: known_device_def)
  qed
qed

text \<open>One configured device: the names gain its own, and verified devices keep their type.\<close>

definition keeps_verified :: "device_info list \<Rightarrow> device_info list \<Rightarrow> bool" where
  "keeps_verified existing final = (\<forall>p \<in> set existing. \<forall>d \<in> set final.
     di_type_verified p \<and> di_name d = di_name p \<longrightarrow>
     di_type_verified d \<and> di_type d = di_type p \<and> di_parser_type d = di_parser_type p)"

lemma keeps_verified_preserved:
  assumes "distinct (map di_name existing)" "\<forall>p \<in> set existing. di_name p \<noteq> []"
    "known_device existing c = None \<longrightarrow> di_name d = di_name c"
    "\<And>q. known_device existing c = Some q \<Longrightarrow> d = preserve_verified_type q c"
  shows "keeps_verified existing [d]"
  unfolding keeps_verified_def
proof (intro ballI impI)
  fix p e assume p: "p \<in> set existing" and e: "e \<in> set [d]" and v: "di_type_verified p \<and> di_name e = di_name p"
  have "di_name d = di_name c"
    using assms(3,4) by (cases "known_device existing c") auto
  then have "known_device existing c = Some p"
    using known_device_iff [OF assms(1,2) p, of c] e v by simp
  then have "d = preserve_verified_type p c" by (rule assms(4))
  then show "di_type_verified e \<and> di_type e = di_type p \<and> di_parser_type e = di_parser_type p"
    using e v by (simp add: preserve_verified_type_def)
qed

lemma keeps_verified_append: "keeps_verified ex (a @ b) \<longleftrightarrow> keeps_verified ex a \<and> keeps_verified ex b"
  by (auto simp: keeps_verified_def)

lemma keeps_verified_configured:
  "keeps_verified ex final \<Longrightarrow> i < length final \<Longrightarrow>
    keeps_verified ex (final[i := apply_configured_metadata c (final ! i)])"
  unfolding keeps_verified_def
proof (intro ballI impI)
  fix p d assume k: "\<forall>p \<in> set ex. \<forall>d \<in> set final. di_type_verified p \<and> di_name d = di_name p \<longrightarrow>
      di_type_verified d \<and> di_type d = di_type p \<and> di_parser_type d = di_parser_type p"
    and i: "i < length final" and p: "p \<in> set ex" and d: "d \<in> set (final[i := apply_configured_metadata c (final ! i)])"
    and v: "di_type_verified p \<and> di_name d = di_name p"
  have f: "final ! i \<in> set final" using i by simp
  consider "d \<in> set final" | "d = apply_configured_metadata c (final ! i)"
    using d set_update_subset_insert by fast
  then show "di_type_verified d \<and> di_type d = di_type p \<and> di_parser_type d = di_parser_type p"
  proof cases
    case 1
    then show ?thesis using k p v by blast
  next
    case 2
    then have "di_name (final ! i) = di_name p" using v by simp
    then have o: "di_type_verified (final ! i) \<and> di_type (final ! i) = di_type p \<and> di_parser_type (final ! i) = di_parser_type p"
      using k p v f by blast
    then show ?thesis using apply_configured_verified [of "final ! i" c] 2 by simp
  qed
qed

lemma names_configured:
  "i < length final \<Longrightarrow> map di_name (final[i := apply_configured_metadata c (final ! i)]) = map di_name final"
  by (metis apply_configured_name list_update_id map_update nth_map)

lemma merge_configured_step:
  assumes ex: "distinct (map di_name ex)" "\<forall>p \<in> set ex. di_name p \<noteq> []"
    and st: "length keys = length final" "map fst keys = map di_name final" "n \<le> length final" "keeps_verified ex final"
    and m: "merge_configured ex n (final, keys) c = (final', keys')"
  shows "length keys' = length final' \<and> map fst keys' = map di_name final' \<and> n \<le> length final' \<and> keeps_verified ex final'
    \<and> di_name ` set final' = insert (di_name c) (di_name ` set final)"
proof (cases "last_index (device_key c) keys")
  case (Some i)
  then have i: "i < length final" "keys ! i = device_key c" using last_index_Some st(1) by metis+
  then have n: "di_name (final ! i) = di_name c"
    using st(1,2) by (metis device_key_def fst_conv nth_map)
  have "di_name ` set (final[i := apply_configured_metadata c (final ! i)]) = di_name ` set final"
    using names_configured [OF i(1)] by (metis list.set_map)
  moreover have "di_name c \<in> di_name ` set final" using n i(1) by (metis image_eqI nth_mem)
  ultimately show ?thesis
    using m Some st i(1) keeps_verified_configured [OF st(4) i(1)] names_configured [OF i(1)]
    by (auto simp: merge_configured_def insert_absorb)
next
  case None
  show ?thesis
  proof (cases "unique_name_index (take n final) (di_name c)")
    case (Some i)
    then have i: "i < length final" "di_name (final ! i) = di_name c"
      using unique_name_index_Some [OF Some] st(3) by auto
    have "di_name ` set (final[i := apply_configured_metadata c (final ! i)]) = di_name ` set final"
      using names_configured [OF i(1)] by (metis list.set_map)
    moreover have "di_name c \<in> di_name ` set final" using i by (metis image_eqI nth_mem)
    ultimately show ?thesis
      using m None Some st i(1) keeps_verified_configured [OF st(4) i(1)] names_configured [OF i(1)]
      by (auto simp: merge_configured_def insert_absorb)
  next
    case u: None
    define d where "d = (case known_device ex c of
        Some prev \<Rightarrow> preserve_verified_type prev c
      | None \<Rightarrow> if di_type c \<noteq> [] then c\<lparr>di_parser_type := normalize_parser_type (di_type c)\<rparr> else c)"
    have r: "final' = final @ [d]" "keys' = keys @ [device_key d]"
      using m None u by (simp_all add: merge_configured_def d_def Let_def)
    have n: "di_name d = di_name c" by (simp add: d_def split: option.split)
    have "keeps_verified ex [d]"
      by (rule keeps_verified_preserved [OF ex, of c]) (simp_all add: d_def)
    then show ?thesis using r st n by (simp add: keeps_verified_append device_key_def)
  qed
qed

lemma merge_configured_all:
  assumes ex: "distinct (map di_name ex)" "\<forall>p \<in> set ex. di_name p \<noteq> []"
    and st: "length keys = length final" "map fst keys = map di_name final" "n \<le> length final" "keeps_verified ex final"
    and m: "foldl (merge_configured ex n) (final, keys) cs = (final', keys')"
  shows "keeps_verified ex final' \<and> di_name ` set final' = di_name ` set final \<union> di_name ` set cs"
  using st m
proof (induction cs arbitrary: final keys)
  case (Cons c cs)
  obtain f1 k1 where s: "merge_configured ex n (final, keys) c = (f1, k1)" by fastforce
  note i = merge_configured_step [OF ex Cons.prems(1-4) s]
  then show ?case using Cons.IH [of k1 f1] Cons.prems(5) s by auto
qed simp



section \<open>Devices that are forgotten\<close>

lemma update_smart_devices_simps [simp]:
  "sm_devices (update_smart_devices ds sm) = ds"
  "sm_data (update_smart_devices ds sm) = filter (\<lambda>(_, d). device_remains ds d) (sm_data sm)"
  by (simp_all add: update_smart_devices_def)

lemma scan_devices_due:
  assumes due: "force \<or> sm_last_scan sm = None \<or> minutes_30 \<le> sc_now sc - the (sm_last_scan sm)"
    and c: "sc_ctx_err sc = None" "configured_devices (sc_env sc) = Inr configured"
    and s: "scanned = snd (smartctl_scan (sm_smartctl_path sm) (sc_run sc)) @ scan_emmc_devices (sc_sysfs sc) @ scan_mdraid_devices (sc_sysfs sc)"
    and f: "final = filter_excluded_devices (sm_excluded sm) (merge_device_lists (sm_devices sm) scanned configured)"
  shows "sm_devices (snd (scan_devices sc force sm)) = final
    \<and> sm_data (snd (scan_devices sc force sm)) = filter (\<lambda>(_, d). device_remains final d) (sm_data sm)"
proof -
  have nd: "\<not> (\<not> force \<and> (case sm_last_scan sm of None \<Rightarrow> False | Some t \<Rightarrow> sc_now sc - t < minutes_30))"
    using due by (auto split: option.splits)
  show ?thesis
    using c s f by (simp add: scan_devices_def if_not_P [OF nd] Let_def split: prod.split)
qed

lemma device_remains_name:
  "device_remains devices d \<Longrightarrow> smd_disk_name d \<noteq> [] \<and> (\<exists>v \<in> set devices. di_name v = smd_disk_name d)
    \<or> smd_disk_name d = [] \<and> False"
proof -
  let ?named = "filter (\<lambda>v. di_name v \<noteq> []) devices"
  assume r: "device_remains devices d"
  have "\<exists>v \<in> set ?named. di_name v = smd_disk_name d"
  proof (cases "smd_disk_type d = []")
    case True
    then have "length (filter (\<lambda>v. di_name v = smd_disk_name d) ?named) = 1"
      using r by (simp add: device_remains_def)
    then have "filter (\<lambda>v. di_name v = smd_disk_name d) ?named \<noteq> []" by fastforce
    then show ?thesis by (auto simp: filter_empty_conv)
  next
    case False
    then show ?thesis using r by (auto simp: device_remains_def device_key_def)
  qed
  then show ?thesis by auto
qed

lemma merged_name_scanned:
  "sm_d \<in> set (merge_device_lists existing scanned []) \<Longrightarrow> scanned \<noteq> [] \<Longrightarrow> di_name sm_d \<in> di_name ` set scanned"
  by (auto simp: merge_device_lists_def Let_def)

text \<open>
  The NVMe fallback loses the device.  Suppose a controller does not answer SMART queries and the
  data was collected from its namespace \<open>n1\<close>.  The controller is then excluded for good; but a scan
  by \<open>smartctl\<close> reports controllers, so at the next due scan whose devices include no namespace of that
  name, neither the controller nor the namespace is a device any more and their data is gone.
\<close>

theorem nvme_fallback_forgotten:
  assumes c: "collect_namespace render run err d sm0 = (Inr (), d', sm1)"
    and due: "force \<or> minutes_30 \<le> sc_now sc - the (sm_last_scan sm1)"
    and q: "sc_ctx_err sc = None" "sc_env sc ''SMART_DEVICES'' = None"
    and s: "scanned = snd (smartctl_scan (sm_smartctl_path sm1) (sc_run sc)) @ scan_emmc_devices (sc_sysfs sc) @ scan_mdraid_devices (sc_sysfs sc)"
      "scanned \<noteq> []" "di_name d @ ''n1'' \<notin> di_name ` set scanned"
    and sm2: "sm2 = snd (scan_devices sc force (sm1\<lparr>sm_devices := devices\<rparr>))"
  shows "(\<forall>v \<in> set (sm_devices sm2). di_name v \<noteq> di_name d \<and> di_name v \<noteq> di_name d @ ''n1'')
    \<and> \<not> has_data_for_device (di_name d @ ''n1'') sm2 \<and> \<not> has_data_for_device (di_name d) sm2"
proof -
  let ?sm = "sm1\<lparr>sm_devices := devices\<rparr>"
  have x: "di_name d \<in> sm_excluded sm1"
    using c by (auto simp: collect_namespace_def Let_def split: if_splits option.splits prod.splits bool.splits)
  define final where "final = filter_excluded_devices (sm_excluded sm1) (merge_device_lists devices scanned [])"
  have r: "sm_devices sm2 = final \<and> sm_data sm2 = filter (\<lambda>(_, d). device_remains final d) (sm_data sm1)"
    unfolding sm2
    using scan_devices_due [of force ?sm sc "[]" scanned final] due q s(1)
    by (auto simp: configured_devices_def final_def)
  have f: "\<forall>v \<in> set final. di_name v \<noteq> di_name d \<and> di_name v \<noteq> di_name d @ ''n1''"
  proof
    fix v assume v: "v \<in> set final"
    then have m: "v \<in> set (merge_device_lists devices scanned [])" and e: "di_name v \<notin> sm_excluded sm1"
      using x by (auto simp: final_def filter_excluded_devices_def split: if_splits)
    show "di_name v \<noteq> di_name d \<and> di_name v \<noteq> di_name d @ ''n1''"
      using x e s(3) merged_name_scanned [OF m s(2)] by metis
  qed
  have "\<not> has_data_for_device (di_name d @ ''n1'') sm2 \<and> \<not> has_data_for_device (di_name d) sm2"
    using r f device_remains_name by (fastforce simp: has_data_for_device_def list_ex_iff)
  then show ?thesis
    using r f by simp
qed

text \<open>
  Sleeping disks are woken when the scan and the data name different types.  After a due scan, a
  device whose stored data has a type other than the device's (\<open>smartctl --scan\<close> says \<open>scsi\<close> of disks
  for which \<open>smartctl -a\<close> then reports \<open>sat\<close>) has no data any more, so \<open>smartctl\<close> is called without
  \<open>-n standby\<close>.
\<close>

theorem mistyped_disk_woken:
  assumes due: "force \<or> sm_last_scan sm = None \<or> minutes_30 \<le> sc_now sc - the (sm_last_scan sm)"
    and q: "sc_ctx_err sc = None" "configured_devices (sc_env sc) = Inr configured"
    and sm2: "sm2 = snd (scan_devices sc force sm)"
    and typed: "\<forall>(key, v) \<in> set (sm_data sm). smd_disk_name v = di_name d \<longrightarrow>
      smd_disk_type v \<noteq> [] \<and> (di_name d, smd_disk_type v) \<notin> device_key ` set (sm_devices sm2)"
  shows "\<not> has_data_for_device (di_name d) sm2
    \<and> smartctl_args d (has_data_for_device (di_name d) sm2) = smartctl_args d False"
proof -
  have r: "sm_data sm2 = filter (\<lambda>(_, v). device_remains (sm_devices sm2) v) (sm_data sm)"
    unfolding sm2 using scan_devices_due [OF due q refl refl] by simp
  have "\<not> has_data_for_device (di_name d) sm2"
    using r typed by (fastforce simp: has_data_for_device_def list_ex_iff device_remains_def)
  then show ?thesis by simp
qed

section \<open>Parsers\<close>

definition no_manager :: smart_manager where
  "no_manager = \<lparr>sm_data = [], sm_devices = [], sm_last_scan = None, sm_smartctl_path = [], sm_excluded = {},
     sm_refresh_interval = 0, sm_last_refresh = None, sm_last_refresh_error = []\<rparr>"

definition parser_accepts :: "(json \<Rightarrow> string) \<Rightarrow> string \<Rightarrow> jtext \<Rightarrow> bool" where
  "parser_accepts render p output = fst (run_parser render p output no_manager)"

text \<open>Every parser either rejects and leaves the manager alone, or accepts, whatever the manager holds.\<close>

lemma parser_shape: "\<exists>b f. \<forall>sm. run_parser render p output sm = (b, if b then f sm else sm)"
proof -
  have n: "\<exists>b s f. \<forall>sm. parse_smart_for_nvme output sm = ((b, s), if b then f sm else sm)"
    by (cases "unmarshal dec_nvme_info output") (auto simp: parse_smart_for_nvme_def Let_def)
  have s: "\<exists>b s f. \<forall>sm. parse_smart_for_sata render output sm = ((b, s), if b then f sm else sm)"
    by (cases "unmarshal (dec_sata_info render) output") (auto simp: parse_smart_for_sata_def Let_def)
  have c: "\<exists>b s f. \<forall>sm. parse_smart_for_scsi output sm = ((b, s), if b then f sm else sm)"
    by (cases "unmarshal dec_scsi_info output") (auto simp: parse_smart_for_scsi_def Let_def)
  have "\<exists>b s f. \<forall>sm. (if p = ''nvme'' then parse_smart_for_nvme output sm
      else if p = ''sat'' then parse_smart_for_sata render output sm else parse_smart_for_scsi output sm)
    = ((b, s), if b then f sm else sm)"
    using n s c by (cases "p = ''nvme''"; cases "p = ''sat''") simp_all
  then obtain b s f where "\<And>sm. (if p = ''nvme'' then parse_smart_for_nvme output sm
      else if p = ''sat'' then parse_smart_for_sata render output sm else parse_smart_for_scsi output sm)
    = ((b, s), if b then f sm else sm)" by blast
  then have "\<forall>sm. run_parser render p output sm = (b, if b then f sm else sm)" by (simp add: run_parser_def)
  then show ?thesis by blast
qed

lemma run_parser_valid: "fst (run_parser render p output sm) = parser_accepts render p output"
proof -
  obtain b f where "\<forall>sm. run_parser render p output sm = (b, if b then f sm else sm)"
    using parser_shape by blast
  then show ?thesis by (simp add: parser_accepts_def)
qed

lemma run_parser_rejects: "\<not> parser_accepts render p output \<Longrightarrow> run_parser render p output sm = (False, sm)"
proof -
  assume r: "\<not> parser_accepts render p output"
  obtain b f where "\<forall>sm. run_parser render p output sm = (b, if b then f sm else sm)"
    using parser_shape by blast
  then show ?thesis using r by (simp add: parser_accepts_def)
qed

lemma run_parser_accepts: "parser_accepts render p output \<Longrightarrow>
    run_parser render p output sm = (True, snd (run_parser render p output sm))"
  by (rule prod_eqI) (simp_all add: run_parser_valid)

lemma try_parsers_spec:
  "try_parsers render output ps sm = (case find (\<lambda>p. parser_accepts render p output) ps of
     None \<Rightarrow> (None, sm) | Some p \<Rightarrow> (Some p, snd (run_parser render p output sm)))"
proof (induction ps)
  case (Cons p ps)
  show ?case
  proof (cases "parser_accepts render p output")
    case True
    then show ?thesis using run_parser_accepts [OF True, of sm]
      by (cases "run_parser render p output sm") auto
  next
    case False
    then show ?thesis using Cons run_parser_rejects [OF False, of sm] by simp
  qed
qed simp

lemma set_selected_parsers [simp]: "set (selected_parsers t) = set parser_names"
  by (auto simp: selected_parsers_def)

lemma hd_selected: "t \<in> set parser_names \<Longrightarrow> selected_parsers t = t # filter (\<lambda>p. p \<noteq> t) parser_names"
  by (auto simp: selected_parsers_def parser_names_def)

lemma adopt_type_simps [simp]:
  "di_parser_type (adopt_type t d) = di_parser_type d" "di_type_verified (adopt_type t d) = di_type_verified d"
  "di_name (adopt_type t d) = di_name d"
  by (simp_all add: adopt_type_def)

lemma normalize_parser_names: "p \<in> set parser_names \<Longrightarrow> normalize_parser_type p = p"
  by (auto simp: parser_names_def normalize_parser_type_def Let_def) (code_simp)+

text \<open>
  C30: Whatever type a device has been given, the output of \<open>smartctl\<close> is used if any of the three
  parsers accepts it: the device then has that parser, verified, and the data that this parser stores;
  otherwise the data is unchanged and the type unverified.  A parser that was verified stays as long as
  it accepts.
\<close>

theorem parse_smart_output_spec:
  assumes "parse_smart_output render output d sm = (ok, d', sm')"
  shows "ok = (\<exists>p \<in> set parser_names. parser_accepts render p output) \<and> di_type_verified d' = ok \<and> di_name d' = di_name d
    \<and> (if ok then di_parser_type d' \<in> set parser_names \<and> parser_accepts render (di_parser_type d') output
              \<and> sm' = snd (run_parser render (di_parser_type d') output sm)
        else sm' = sm)
    \<and> (di_type_verified d \<and> di_parser_type d \<in> set parser_names \<and> parser_accepts render (di_parser_type d) output
        \<longrightarrow> di_parser_type d' = di_parser_type d)"
proof -
  obtain t d2 where td: "choose_parser output d = (t, d2)" by fastforce
  have n: "di_name d2 = di_name d" using td by (auto simp: choose_parser_def Let_def split: if_splits)
  have r: "(case try_parsers render output (selected_parsers t) sm of
       (Some p, sm') \<Rightarrow> (True, adopt_type p (d2\<lparr>di_parser_type := p\<rparr>)\<lparr>di_type_verified := True\<rparr>, sm')
     | (None, sm') \<Rightarrow> (False, d2\<lparr>di_type_verified := False\<rparr>, sm')) = (ok, d', sm')"
    using assms td by (simp add: parse_smart_output_def)
  show ?thesis
  proof (cases "find (\<lambda>p. parser_accepts render p output) (selected_parsers t)")
    case None
    then have "\<forall>p \<in> set parser_names. \<not> parser_accepts render p output" by (simp add: find_None_iff)
    then show ?thesis using r None n by (auto simp: try_parsers_spec)
  next
    case (Some p)
    then have p: "p \<in> set parser_names" "parser_accepts render p output"
      by (auto simp: find_Some_iff) (metis nth_mem set_selected_parsers)
    have k: "di_type_verified d \<and> di_parser_type d \<in> set parser_names \<and> parser_accepts render (di_parser_type d) output
        \<longrightarrow> p = di_parser_type d"
    proof
      assume v: "di_type_verified d \<and> di_parser_type d \<in> set parser_names \<and> parser_accepts render (di_parser_type d) output"
      then have "di_parser_type d \<noteq> []" by (auto simp: parser_names_def)
      then have "t = di_parser_type d"
        using v td normalize_parser_names [of "di_parser_type d"] by (auto simp: choose_parser_def Let_def)
      then show "p = di_parser_type d" using Some v by (simp add: hd_selected)
    qed
    show ?thesis using r Some p k n by (auto simp: try_parsers_spec)
  qed
qed


definition nvme_document :: "int \<Rightarrow> json" where
  "nvme_document shutdowns = JObj
     [(''device'', JObj [(''name'', JStr ''/dev/nvme0''), (''type'', JStr ''nvme'')]),
      (''serial_number'', JStr ''S1''), (''smart_status'', JObj [(''passed'', JBool True)]),
      (''nvme_smart_health_information_log'', JObj [(''temperature'', JInt 40), (''unsafe_shutdowns'', JInt shutdowns)]),
      (''temperature'', JObj [(''current'', JInt 40)])]"

lemma lower_keys:
  "to_lower ''device'' = ''device''" "to_lower ''name'' = ''name''" "to_lower ''type'' = ''type''"
  "to_lower ''serial_number'' = ''serial_number''" "to_lower ''smart_status'' = ''smart_status''"
  "to_lower ''passed'' = ''passed''" "to_lower ''temperature'' = ''temperature''" "to_lower ''current'' = ''current''"
  "to_lower ''nvme_smart_health_information_log'' = ''nvme_smart_health_information_log''"
  "to_lower ''unsafe_shutdowns'' = ''unsafe_shutdowns''"
  by code_simp+

lemma dec_log: "dec_nvme_health_log (JObj [(''temperature'', JInt 40), (''unsafe_shutdowns'', JInt c)]) =
   (if 0 \<le> c \<and> c < 65536 then Inr (zero_nvme_health_log\<lparr>nhl_temperature := 40, nhl_unsafe_shutdowns := word_of_int c\<rparr>) else Inl ErrJson)"
  by (simp add: dec_nvme_health_log_def dec_struct_def dec_nvme_health_log_body_def fold_keys_def lower_keys jfield_def dec_word_def zero_nvme_health_log_def)

lemma dec_device: "dec_smart_device_info (JObj [(''name'', JStr ''/dev/nvme0''), (''type'', JStr ''nvme'')])
    = Inr \<lparr>sdi_name = ''/dev/nvme0'', sdi_info_name = [], sdi_type = ''nvme'', sdi_protocol = []\<rparr>"
  by (simp add: dec_smart_device_info_def dec_struct_def dec_smart_device_info_body_def fold_keys_def lower_keys jfield_def)

lemma dec_passed:
  "dec_nvme_status_info (JObj [(''passed'', JBool True)]) = Inr \<lparr>nsi_passed = True, nsi_nvme = zero_nvme_status_value\<rparr>"
  "dec_smart_status_info (JObj [(''passed'', JBool True)]) = Inr \<lparr>ssi_passed = True\<rparr>"
  by (simp_all add: dec_nvme_status_info_def dec_nvme_status_info_body_def dec_smart_status_info_def
      dec_smart_status_info_body_def dec_struct_def fold_keys_def lower_keys jfield_def dec_bool_def)

lemma dec_current:
  "dec_temperature_info (JObj [(''current'', JInt 40)]) = Inr \<lparr>ti_current = 40\<rparr>"
  "dec_temperature_info_nvme (JObj [(''current'', JInt 40)]) = Inr \<lparr>tin_current = 40\<rparr>"
  by (simp_all add: dec_temperature_info_def dec_temperature_info_body_def dec_temperature_info_nvme_def
      dec_temperature_info_nvme_body_def dec_struct_def fold_keys_def lower_keys jfield_def dec_word_def dec_int_def)

lemma dec_nvme_document: "dec_nvme_info (nvme_document c) =
   (if 0 \<le> c \<and> c < 65536 then Inr (zero_nvme_info\<lparr>nvme_serial_number := ''S1'',
      nvme_device := \<lparr>sdi_name = ''/dev/nvme0'', sdi_info_name = [], sdi_type = ''nvme'', sdi_protocol = []\<rparr>,
      nvme_smart_status := \<lparr>nsi_passed = True, nsi_nvme = zero_nvme_status_value\<rparr>,
      nvme_health_log := zero_nvme_health_log\<lparr>nhl_temperature := 40, nhl_unsafe_shutdowns := word_of_int c\<rparr>,
      nvme_temperature := \<lparr>tin_current = 40\<rparr>\<rparr>) else Inl ErrJson)"
  by (simp add: nvme_document_def dec_nvme_info_def dec_struct_def dec_nvme_info_body_def fold_keys_def lower_keys
      jfield_def dec_device dec_passed dec_current dec_log zero_nvme_info_def)

lemma dec_sata_document: "dec_sata_info render (nvme_document c) = Inr (zero_sata_info\<lparr>sata_serial_number := ''S1'',
      sata_device := \<lparr>sdi_name = ''/dev/nvme0'', sdi_info_name = [], sdi_type = ''nvme'', sdi_protocol = []\<rparr>,
      sata_smart_status := \<lparr>ssi_passed = True\<rparr>, sata_temperature := \<lparr>ti_current = 40\<rparr>\<rparr>)"
  by (simp add: nvme_document_def dec_sata_info_def dec_struct_def dec_sata_info_body_def fold_keys_def lower_keys
      jfield_def dec_device dec_passed dec_current zero_sata_info_def)

lemma not_virtual: "\<not> is_virtual_device_from_strings [[], [], []]" "\<not> is_virtual_device_from_strings [[]]"
  by code_simp+

lemma detect_nvme_document: "detect_smart_output_type (JText (nvme_document c)) = ''nvme''"
  by (simp add: detect_smart_output_type_def nvme_document_def dec_struct_def fold_keys_def lower_keys has_json_value_def)

lemma choose_nvme: "choose_parser (JText (nvme_document c)) (new_device ''/dev/nvme0'' ''nvme'' [] [])
    = (''nvme'', (new_device ''/dev/nvme0'' ''nvme'' [] [])\<lparr>di_parser_type := ''nvme''\<rparr>)"
proof -
  have n: "normalize_parser_type [] = []" "normalize_parser_type ''nvme'' = ''nvme''" by code_simp+
  show ?thesis
    by (simp add: choose_parser_def detect_nvme_document new_device_def n Let_def parser_names_def adopt_type_def)
qed

lemma not_virtual_documents:
  "\<not> is_virtual_device (zero_sata_info\<lparr>sata_serial_number := x, sata_device := y, sata_smart_status := z, sata_temperature := w\<rparr>)"
  "\<not> is_virtual_device_nvme (zero_nvme_info\<lparr>nvme_serial_number := x, nvme_device := y, nvme_smart_status := p, nvme_health_log := l, nvme_temperature := v\<rparr>)"
  using not_virtual by (simp_all add: is_virtual_device_def is_virtual_device_nvme_def zero_sata_info_def zero_nvme_info_def to_upper_def)

lemma nvme_document_accepted:
  "n < 65536 \<Longrightarrow> \<exists>sm' data. run_parser render ''nvme'' (JText (nvme_document (int n))) sm = (True, sm')
    \<and> mget (sm_data sm') ''S1'' = Some data \<and> length (smd_attributes data) = 17"
  using not_virtual_documents
  by (simp add: run_parser_def parse_smart_for_nvme_def dec_nvme_document Let_def store_data_def nvme_data_def zero_nvme_info_def)

lemma nvme_document_rejected:
  "65536 \<le> n \<Longrightarrow> run_parser render ''nvme'' (JText (nvme_document (int n))) sm = (False, sm)"
  by (simp add: run_parser_def parse_smart_for_nvme_def dec_nvme_document)

lemma nvme_document_sata:
  "\<exists>sm' data. run_parser render ''sat'' (JText (nvme_document n)) sm = (True, sm')
    \<and> mget (sm_data sm') ''S1'' = Some data \<and> smd_attributes data = []"
  using not_virtual_documents
  by (simp add: run_parser_def parse_smart_for_sata_def dec_sata_document Let_def store_data_def sata_data_def zero_sata_info_def zero_ata_smart_attributes_def)

text \<open>
  Two of NVMe's counters are read into 16 bits.  The same report is stored with its 17 attributes
  while the number of unsafe shutdowns is below 65536, and from then on without any attribute, by the
  SATA parser, which the device then keeps as its verified parser.
\<close>

theorem nvme_counter_overflow:
  "\<exists>d' sm' data. parse_smart_output render (JText (nvme_document (int n))) (new_device ''/dev/nvme0'' ''nvme'' [] []) sm
      = (True, d', sm')
    \<and> mget (sm_data sm') ''S1'' = Some data \<and> di_type_verified d'
    \<and> length (smd_attributes data) = (if n < 65536 then 17 else 0)
    \<and> di_parser_type d' = (if n < 65536 then ''nvme'' else ''sat'')"
proof (cases "n < 65536")
  case True
  then obtain sm' data where r: "run_parser render ''nvme'' (JText (nvme_document (int n))) sm = (True, sm')"
    "mget (sm_data sm') ''S1'' = Some data" "length (smd_attributes data) = 17"
    using nvme_document_accepted by metis
  then show ?thesis
    using True by (simp add: parse_smart_output_def choose_nvme selected_parsers_def parser_names_def adopt_type_def)
next
  case False
  obtain sm' data where r: "run_parser render ''sat'' (JText (nvme_document (int n))) sm = (True, sm')"
    "mget (sm_data sm') ''S1'' = Some data" "smd_attributes data = []"
    using nvme_document_sata by metis
  then show ?thesis
    using False nvme_document_rejected [of n render sm]
    by (simp add: parse_smart_output_def choose_nvme selected_parsers_def parser_names_def adopt_type_def equal_fold_def to_lower_def)
qed

section \<open>Witnesses\<close>

definition with_smartctl :: smart_manager where
  "with_smartctl = no_manager\<lparr>sm_smartctl_path := ''smartctl''\<rparr>"

definition scan_document :: "string \<Rightarrow> string \<Rightarrow> json" where
  "scan_document name type = JObj [(''devices'', JArr [JObj [(''name'', JStr name), (''type'', JStr type)]])]"

lemma parse_scan_document:
  "parse_scan (JText (scan_document ''/dev/nvme0'' ''nvme'')) = Some [new_device ''/dev/nvme0'' ''nvme'' [] []]"
  "parse_scan (JText (scan_document ''/dev/sda'' ''scsi'')) = Some [new_device ''/dev/sda'' ''scsi'' [] []]"
  by code_simp+

theorem parse_smart_output_spec_witness:
  "\<exists>d' sm'. parse_smart_output (\<lambda>_. []) (JText (nvme_document 5)) (new_device ''/dev/nvme0'' ''nvme'' [] []) no_manager = (True, d', sm')
    \<and> di_parser_type d' \<in> set parser_names \<and> di_type_verified d'"
proof -
  obtain ok d' sm' where p: "parse_smart_output (\<lambda>_. []) (JText (nvme_document 5)) (new_device ''/dev/nvme0'' ''nvme'' [] []) no_manager = (ok, d', sm')"
    using prod_cases3 by blast
  have "parser_accepts (\<lambda>_. []) ''nvme'' (JText (nvme_document 5))"
    using nvme_document_accepted [of 5 "\<lambda>_. []" no_manager] by (auto simp: parser_accepts_def)
  then have "\<exists>p \<in> set parser_names. parser_accepts (\<lambda>_. []) p (JText (nvme_document 5))"
    by (auto simp: parser_names_def)
  then show ?thesis using p parse_smart_output_spec [OF p] by auto
qed

lemma run_parser_keeps: "sm_smartctl_path (snd (run_parser render p output sm)) = sm_smartctl_path sm"
  by (simp add: run_parser_def parse_smart_for_nvme_def parse_smart_for_sata_def parse_smart_for_scsi_def
      store_data_def Let_def split: sum.split)

theorem nvme_fallback_forgotten_witness:
  "\<exists>d' sm1. collect_namespace (\<lambda>_. []) (\<lambda>_. printed (JText (nvme_document 5)) None) no_valid_smart_data
      (new_device ''/dev/nvme0'' ''nvme'' [] []) with_smartctl = (Inr (), d', sm1)
    \<and> \<not> has_data_for_device ''/dev/nvme0n1''
       (snd (scan_devices (sample_scan 0 (JText (scan_document ''/dev/nvme0'' ''nvme''))) True (sm1\<lparr>sm_devices := [d']\<rparr>)))"
proof -
  let ?d = "new_device ''/dev/nvme0'' ''nvme'' [] []"
  let ?sc = "sample_scan 0 (JText (scan_document ''/dev/nvme0'' ''nvme''))"
  let ?d1 = "?d\<lparr>di_name := ''/dev/nvme0n1''\<rparr>"
  obtain ok d' sm' where p: "parse_smart_output (\<lambda>_. []) (JText (nvme_document 5)) ?d1 with_smartctl = (ok, d', sm')"
    using prod_cases3 by blast
  have a: "parser_accepts (\<lambda>_. []) ''nvme'' (JText (nvme_document 5))"
    using nvme_document_accepted [of 5 "\<lambda>_. []" no_manager] by (auto simp: parser_accepts_def)
  have q: "ok" "sm_smartctl_path sm' = ''smartctl''"
  proof -
    obtain t d2 where c: "choose_parser (JText (nvme_document 5)) ?d1 = (t, d2)" by fastforce
    have "find (\<lambda>p. parser_accepts (\<lambda>_. []) p (JText (nvme_document 5))) (selected_parsers t) \<noteq> None"
      using a by (auto simp: find_None_iff parser_names_def)
    then show "ok" "sm_smartctl_path sm' = ''smartctl''"
      using p c by (auto simp: parse_smart_output_def try_parsers_spec run_parser_keeps with_smartctl_def)
  qed
  have c: "collect_namespace (\<lambda>_. []) (\<lambda>_. printed (JText (nvme_document 5)) None) no_valid_smart_data ?d with_smartctl
      = (Inr (), d', sm'\<lparr>sm_excluded := insert ''/dev/nvme0'' (sm_excluded sm')\<rparr>)"
    using p q(1) by (simp add: collect_namespace_def new_device_def is_excluded_device_def with_smartctl_def no_manager_def
        printed_def run_interrupted_def run_error_def Let_def)
  have s: "snd (smartctl_scan ''smartctl'' (printed (JText (scan_document ''/dev/nvme0'' ''nvme'')) None)) = [?d]"
    "scan_emmc_devices no_sysfs = []" "scan_mdraid_devices no_sysfs = []"
    by (simp_all add: smartctl_scan_def printed_def run_error_def parse_scan_document scan_emmc_devices_def
        scan_mdraid_devices_def no_sysfs_def)
  have "\<not> has_data_for_device (di_name ?d @ ''n1'') (snd (scan_devices ?sc True
      ((sm'\<lparr>sm_excluded := insert ''/dev/nvme0'' (sm_excluded sm')\<rparr>)\<lparr>sm_devices := [d']\<rparr>)))"
    using nvme_fallback_forgotten [OF c, of True ?sc "[?d]" _ "[d']", OF _ _ _ _ _ _ refl]
    by (simp add: sample_scan_def new_device_def s q(2))
  then show ?thesis using c by (simp add: new_device_def)
qed

theorem mistyped_disk_woken_witness:
  "smartctl_args (new_device ''/dev/sda'' ''scsi'' [] []) (has_data_for_device ''/dev/sda''
     (snd (scan_devices (sample_scan 0 (JText (scan_document ''/dev/sda'' ''scsi''))) True
       (with_smartctl\<lparr>sm_data := [(''S'', zero_smart_data\<lparr>smd_disk_name := ''/dev/sda'', smd_disk_type := ''sat''\<rparr>)]\<rparr>))))
   = [''-a'', ''--json=c'', ''/dev/sda'']"
proof -
  let ?sm = "with_smartctl\<lparr>sm_data := [(''S'', zero_smart_data\<lparr>smd_disk_name := ''/dev/sda'', smd_disk_type := ''sat''\<rparr>)]\<rparr>"
  let ?sc = "sample_scan 0 (JText (scan_document ''/dev/sda'' ''scsi''))"
  have s: "sm_devices (snd (scan_devices ?sc True ?sm)) = [new_device ''/dev/sda'' ''scsi'' [] []]"
    by code_simp
  have a: "smartctl_args (new_device ''/dev/sda'' ''scsi'' [] []) False = [''-a'', ''--json=c'', ''/dev/sda'']"
    by code_simp
  show ?thesis
    using mistyped_disk_woken [of True ?sm ?sc "[]" "snd (scan_devices ?sc True ?sm)" "new_device ''/dev/sda'' ''scsi'' [] []", OF _ _ _ refl] s a
    by (simp add: sample_scan_def configured_devices_def zero_smart_data_def device_key_def new_device_def)
qed

end
