(* ===== verification/Disk.thy ===== *)
theory Disk
  imports Codecs Go_Text
begin

text \<open>
  \<open>internal/app/disk.go\<close>: which filesystems and I/O devices the agent watches, their usage and
  their rates.  Partitions, I/O counters, disk usage, the directory of extra filesystems and the
  environment are arguments.  The counters, a Go map, are a list of keys and counters in the order
  in which a \<open>range\<close> over them visits them; the tracked filesystems are a sorted map, in which a
  name that is put again replaces the old one.  Times are nanoseconds.
\<close>

section \<open>State\<close>

text \<open>\<open>disk.IOCountersStat\<close>, \<open>disk.PartitionStat\<close> and \<open>disk.UsageStat\<close>, the fields that are read.\<close>

record disk_counters =
  dc_name :: string
  dc_label :: string
  dc_read_count :: u64
  dc_write_count :: u64
  dc_read_bytes :: u64
  dc_write_bytes :: u64
  dc_read_time :: u64
  dc_write_time :: u64
  dc_io_time :: u64
  dc_weighted_io :: u64

record disk_partition =
  dp_device :: string
  dp_mountpoint :: string

record disk_usage =
  du_total :: u64
  du_used :: u64
  du_used_percent :: f64

type_synonym io_map = "(string \<times> disk_counters) list"

record prev_disk =
  pd_read_bytes :: u64
  pd_write_bytes :: u64
  pd_read_time :: u64
  pd_write_time :: u64
  pd_io_time :: u64
  pd_weighted_io :: u64
  pd_read_count :: u64
  pd_write_count :: u64
  pd_at :: gotime

record fs_manager =
  fm_fs_names :: "string list"
  fm_fs_stats :: "(string, fs_stats) gmap"
  fm_disk_prev :: "16 word \<rightharpoonup> (string \<rightharpoonup> prev_disk)"
  fm_disk_usage_cache_duration :: int
  fm_last_disk_usage_update :: gotime

definition new_fs_manager :: "string option \<Rightarrow> fs_manager" where
  "new_fs_manager disk_usage_cache = \<lparr>fm_fs_names = [], fm_fs_stats = [], fm_disk_prev = (\<lambda>_. None),
     fm_disk_usage_cache_duration = (case disk_usage_cache of
        None \<Rightarrow> 0
      | Some text \<Rightarrow> (case parse_duration text of None \<Rightarrow> 0 | Some duration \<Rightarrow> duration)),
     fm_last_disk_usage_update = None\<rparr>"

definition prev_disk_from_counter :: "disk_counters \<Rightarrow> int \<Rightarrow> prev_disk" where
  "prev_disk_from_counter d t = \<lparr>pd_read_bytes = dc_read_bytes d, pd_write_bytes = dc_write_bytes d,
     pd_read_time = dc_read_time d, pd_write_time = dc_write_time d, pd_io_time = dc_io_time d,
     pd_weighted_io = dc_weighted_io d, pd_read_count = dc_read_count d,
     pd_write_count = dc_write_count d, pd_at = Some t\<rparr>"

definition tracked_fs :: "bool \<Rightarrow> string \<Rightarrow> string \<Rightarrow> fs_stats" where
  "tracked_fs is_root mountpoint name =
     zero_fs_stats\<lparr>fs_root := is_root, fs_mountpoint := mountpoint, fs_name := name\<rparr>"

section \<open>Device names\<close>

definition parse_filesystem_entry :: "string \<Rightarrow> string \<times> string" where
  "parse_filesystem_entry entry0 = (let entry = trim_space entry0 in
     case cut_str ''__'' entry of
       Some (device, name) \<Rightarrow> (trim_space device, trim_space name)
     | None \<Rightarrow> (entry, []))"

definition extra_filesystem_partition_info :: "disk_partition \<Rightarrow> string \<times> string" where
  "extra_filesystem_partition_info p =
     (let device = trim_space (dp_device p);
          (folder_device, custom_name) = parse_filesystem_entry (path_base (dp_mountpoint p))
      in (if device = [] then folder_device else device, custom_name))"

definition is_docker_special_mountpoint :: "string \<Rightarrow> bool" where
  "is_docker_special_mountpoint mountpoint =
     (mountpoint \<in> {''/etc/hosts'', ''/etc/resolv.conf'', ''/etc/hostname''})"

definition normalize_device_name :: "string \<Rightarrow> string" where
  "normalize_device_name value =
     (let name = path_base (trim_space value) in if name = ''.'' then [] else name)"

definition prefix_related :: "string \<Rightarrow> string \<Rightarrow> bool" where
  "prefix_related a b = (a \<noteq> [] \<and> b \<noteq> [] \<and> a \<noteq> b \<and> (has_prefix b a \<or> has_prefix a b))"

record io_match_candidate =
  ic_name :: string
  ic_bytes :: u64
  ic_ops :: u64

definition candidate_of :: "disk_counters \<Rightarrow> io_match_candidate" where
  "candidate_of d = \<lparr>ic_name = dc_name d, ic_bytes = dc_read_bytes d + dc_write_bytes d,
     ic_ops = dc_read_count d + dc_write_count d\<rparr>"

text \<open>The more active candidate; the smaller name wins a tie.\<close>

definition better_candidate :: "io_match_candidate \<Rightarrow> io_match_candidate \<Rightarrow> bool" where
  "better_candidate c best =
     (ic_bytes best < ic_bytes c
      \<or> (ic_bytes c = ic_bytes best \<and> ic_ops best < ic_ops c)
      \<or> (ic_bytes c = ic_bytes best \<and> ic_ops c = ic_ops best \<and> ic_name c < ic_name best))"

definition pick_better :: "io_match_candidate \<Rightarrow> io_match_candidate \<Rightarrow> io_match_candidate" where
  "pick_better best c = (if better_candidate c best then c else best)"

definition exact_match :: "string \<Rightarrow> disk_counters \<Rightarrow> bool" where
  "exact_match filesystem d = (normalize_device_name (dc_name d) = filesystem
     \<or> (dc_label d \<noteq> [] \<and> normalize_device_name (dc_label d) = filesystem))"

definition related_match :: "string \<Rightarrow> disk_counters \<Rightarrow> bool" where
  "related_match filesystem d = (prefix_related (normalize_device_name (dc_name d)) filesystem
     \<or> (dc_label d \<noteq> [] \<and> prefix_related (normalize_device_name (dc_label d)) filesystem))"

fun io_candidates :: "string \<Rightarrow> disk_counters list \<Rightarrow> string + io_match_candidate list" where
  "io_candidates filesystem [] = Inr []"
| "io_candidates filesystem (d # ds) =
     (if exact_match filesystem d then Inl (dc_name d)
      else case io_candidates filesystem ds of
        Inl name \<Rightarrow> Inl name
      | Inr cs \<Rightarrow> Inr (if related_match filesystem d then candidate_of d # cs else cs))"

definition find_io_device :: "string \<Rightarrow> io_map \<Rightarrow> string option" where
  "find_io_device filesystem0 counters = (let filesystem = normalize_device_name filesystem0 in
     if filesystem = [] then None
     else case io_candidates filesystem (map snd counters) of
       Inl name \<Rightarrow> Some name
     | Inr [] \<Rightarrow> None
     | Inr (c # cs) \<Rightarrow> Some (ic_name (foldl pick_better c cs)))"

definition most_active_io_device :: "io_map \<Rightarrow> string" where
  "most_active_io_device counters =
     ic_name (foldl (\<lambda>best c. if ic_name best = [] then c else pick_better best c)
       \<lparr>ic_name = [], ic_bytes = 0, ic_ops = 0\<rparr> (map (candidate_of \<circ> snd) counters))"

definition filesystem_matches_partition_setting :: "string \<Rightarrow> disk_partition \<Rightarrow> bool" where
  "filesystem_matches_partition_setting filesystem0 p = (let filesystem = trim_space filesystem0 in
     if filesystem = [] then False
     else if dp_mountpoint p = filesystem then True
     else let fs_name = normalize_device_name filesystem; part_name = normalize_device_name (dp_device p)
       in if fs_name = [] \<or> part_name = [] then False
          else if fs_name = part_name then True
          else prefix_related part_name fs_name)"

section \<open>Discovery\<close>

record fs_registration_context =
  rc_filesystem :: string
  rc_ef_path :: string
  rc_counters :: io_map

definition io_key :: "fs_registration_context \<Rightarrow> string \<Rightarrow> bool" where
  "io_key ctx key = (map_of (rc_counters ctx) key \<noteq> None)"

definition root_key :: "fs_registration_context \<Rightarrow> string \<Rightarrow> string" where
  "root_key ctx key =
     (if io_key ctx key then key
      else case find_io_device key (rc_counters ctx) of
        Some matched \<Rightarrow> matched
      | None \<Rightarrow>
          if rc_filesystem ctx = [] then key
          else case find_io_device (rc_filesystem ctx) (rc_counters ctx) of
            Some matched \<Rightarrow> matched | None \<Rightarrow> key)"

definition folder_key :: "fs_registration_context \<Rightarrow> string \<Rightarrow> string \<Rightarrow> string" where
  "folder_key ctx mountpoint key =
     (if has_prefix (rc_ef_path ctx) mountpoint
      then let folder_device = fst (parse_filesystem_entry (path_base mountpoint)) in
        if folder_device = [] then key
        else case find_io_device folder_device (rc_counters ctx) of Some matched \<Rightarrow> matched | None \<Rightarrow> key
      else key)"

definition extra_key :: "fs_registration_context \<Rightarrow> string \<Rightarrow> string \<Rightarrow> string" where
  "extra_key ctx mountpoint key =
     (if io_key ctx key then key
      else let key1 = folder_key ctx mountpoint key in
        if io_key ctx key1 then key1
        else case find_io_device key1 (rc_counters ctx) of Some matched \<Rightarrow> matched | None \<Rightarrow> key1)"

definition register_filesystem_stats ::
  "(string, fs_stats) gmap \<Rightarrow> string \<Rightarrow> string \<Rightarrow> bool \<Rightarrow> string \<Rightarrow> fs_registration_context
    \<Rightarrow> (string \<times> fs_stats) option" where
  "register_filesystem_stats existing device mountpoint is_root custom_name ctx =
     (let base = path_base device;
          key = (if is_root then root_key ctx base else extra_key ctx mountpoint base)
      in if mget existing key \<noteq> None then None
         else Some (key, tracked_fs is_root mountpoint custom_name))"

record disk_discovery =
  dd_root_mount_point :: string
  dd_partitions :: "disk_partition list"
  dd_usage :: "string \<Rightarrow> disk_usage res"
  dd_ctx :: fs_registration_context

type_synonym tracked = "(string, fs_stats) gmap"

definition add_fs_stat :: "disk_discovery \<Rightarrow> string \<Rightarrow> string \<Rightarrow> bool \<Rightarrow> string \<Rightarrow> tracked \<Rightarrow> tracked" where
  "add_fs_stat d device mountpoint is_root custom_name stats =
     (case register_filesystem_stats stats device mountpoint is_root custom_name (dd_ctx d) of
        None \<Rightarrow> stats | Some (key, fs) \<Rightarrow> mput key fs stats)"

definition add_configured_root_fs :: "disk_discovery \<Rightarrow> tracked \<Rightarrow> bool \<times> tracked" where
  "add_configured_root_fs d stats = (let filesystem = rc_filesystem (dd_ctx d) in
     if filesystem = [] then (False, stats)
     else case find (filesystem_matches_partition_setting filesystem) (dd_partitions d) of
       Some p \<Rightarrow> (True, add_fs_stat d (dp_device p) (dp_mountpoint p) True [] stats)
     | None \<Rightarrow> (case find_io_device filesystem (rc_counters (dd_ctx d)) of
         Some key \<Rightarrow> (True, mput key (tracked_fs True (dd_root_mount_point d) []) stats)
       | None \<Rightarrow> (False, stats)))"

definition is_root_fallback_partition :: "disk_partition \<Rightarrow> string \<Rightarrow> bool" where
  "is_root_fallback_partition p root_mount_point = (dp_mountpoint p = root_mount_point
     \<or> (is_docker_special_mountpoint (dp_mountpoint p) \<and> has_prefix ''/dev'' (dp_device p)))"

definition add_partition_root_fs :: "disk_discovery \<Rightarrow> string \<Rightarrow> string \<Rightarrow> tracked \<Rightarrow> bool \<times> tracked" where
  "add_partition_root_fs d device mountpoint stats =
     (case find_io_device (path_base device) (rc_counters (dd_ctx d)) of
        None \<Rightarrow> (False, stats)
      | Some fs \<Rightarrow> (True, add_fs_stat d fs mountpoint True [] stats))"

definition add_last_resort_root_fs :: "disk_discovery \<Rightarrow> tracked \<Rightarrow> tracked" where
  "add_last_resort_root_fs d stats =
     (let active = most_active_io_device (rc_counters (dd_ctx d));
          base = path_base (dd_root_mount_point d);
          key = (if active \<noteq> [] then active else if mget stats base \<noteq> None then ''root'' else base)
      in mput key (tracked_fs True (dd_root_mount_point d) []) stats)"

definition find_partition_by_filesystem_setting ::
  "string \<Rightarrow> disk_partition list \<Rightarrow> disk_partition option" where
  "find_partition_by_filesystem_setting filesystem partitions =
     find (\<lambda>p. has_suffix filesystem (dp_device p) \<or> dp_mountpoint p = filesystem) partitions"

definition add_configured_extra_fs_entry :: "disk_discovery \<Rightarrow> string \<Rightarrow> string \<Rightarrow> tracked \<Rightarrow> tracked" where
  "add_configured_extra_fs_entry d filesystem custom_name stats =
     (case find_partition_by_filesystem_setting filesystem (dd_partitions d) of
        Some p \<Rightarrow> add_fs_stat d (dp_device p) (dp_mountpoint p) False custom_name stats
      | None \<Rightarrow> (case dd_usage d filesystem of
          Inr _ \<Rightarrow> add_fs_stat d (path_base filesystem) filesystem False custom_name stats
        | Inl _ \<Rightarrow> stats))"

definition add_configured_extra_filesystems :: "disk_discovery \<Rightarrow> string \<Rightarrow> tracked \<Rightarrow> tracked" where
  "add_configured_extra_filesystems d extra_filesystems stats =
     foldl (\<lambda>stats entry. case parse_filesystem_entry entry of (filesystem, custom_name) \<Rightarrow>
         add_configured_extra_fs_entry d filesystem custom_name stats)
       stats (split_on (CHR '','') extra_filesystems)"

definition add_partition_extra_fs :: "disk_discovery \<Rightarrow> disk_partition \<Rightarrow> tracked \<Rightarrow> tracked" where
  "add_partition_extra_fs d p stats =
     (if path_dir (dp_mountpoint p) \<noteq> rc_ef_path (dd_ctx d) then stats
      else case extra_filesystem_partition_info p of (device, custom_name) \<Rightarrow>
        add_fs_stat d device (dp_mountpoint p) False custom_name stats)"

definition add_extra_filesystem_folders :: "disk_discovery \<Rightarrow> string list \<Rightarrow> tracked \<Rightarrow> tracked" where
  "add_extra_filesystem_folders d folder_names stats0 =
     (let mountpoints = map (fs_mountpoint \<circ> snd) stats0
      in foldl (\<lambda>stats folder_name. let mountpoint = path_join (rc_ef_path (dd_ctx d)) folder_name in
           if mountpoint \<in> set mountpoints then stats
           else case parse_filesystem_entry folder_name of (device, custom_name) \<Rightarrow>
             add_fs_stat d device mountpoint False custom_name stats)
         stats0 folder_names)"

definition within_usage_tolerance :: "u64 \<Rightarrow> u64 \<Rightarrow> u64 \<Rightarrow> bool" where
  "within_usage_tolerance a b tolerance = (if b \<le> a then a - b \<le> tolerance else b - a \<le> tolerance)"

definition has_same_disk_usage :: "disk_usage \<Rightarrow> disk_usage \<Rightarrow> bool" where
  "has_same_disk_usage a b =
     (if du_total a = 0 \<or> du_total b = 0 then False
      else within_usage_tolerance (du_total a) (du_total b) (16 * 1024 * 1024)
         \<and> within_usage_tolerance (du_used a) (du_used b) (16 * 1024 * 1024))"

definition prune_duplicate_root_extra_filesystems :: "(string \<Rightarrow> disk_usage res) \<Rightarrow> tracked \<Rightarrow> tracked" where
  "prune_duplicate_root_extra_filesystems usage stats =
     (case find (\<lambda>(_, fs). fs_root fs) stats of
        None \<Rightarrow> stats
      | Some (_, root_fs) \<Rightarrow>
          if fs_mountpoint root_fs = [] then stats
          else case usage (fs_mountpoint root_fs) of
            Inl _ \<Rightarrow> stats
          | Inr root_usage \<Rightarrow> filter (\<lambda>(_, fs). fs_root fs \<or> (case usage (fs_mountpoint fs) of
                Inl _ \<Rightarrow> True | Inr extra_usage \<Rightarrow> \<not> has_same_disk_usage root_usage extra_usage)) stats)"

text \<open>\<open>initializeDiskIoStats\<close>: the baselines of the filesystems whose device has counters.\<close>

definition initialize_disk_io_stats :: "io_map \<Rightarrow> int \<Rightarrow> fs_manager \<Rightarrow> fs_manager" where
  "initialize_disk_io_stats counters now m = m\<lparr>
     fm_fs_stats := map (\<lambda>(device, fs). (device, case map_of counters device of
        None \<Rightarrow> fs
      | Some d \<Rightarrow> fs\<lparr>fs_time := Some now, fs_total_read := dc_read_bytes d, fs_total_write := dc_write_bytes d\<rparr>))
        (fm_fs_stats m),
     fm_fs_names := filter (\<lambda>device. map_of counters device \<noteq> None) (map fst (fm_fs_stats m))\<rparr>"

definition root_step :: "disk_discovery \<Rightarrow> bool \<times> tracked \<Rightarrow> disk_partition \<Rightarrow> bool \<times> tracked" where
  "root_step d state p = (case state of (has_root, stats) \<Rightarrow>
     let (has_root', stats') = (if \<not> has_root \<and> is_root_fallback_partition p (dd_root_mount_point d)
           then add_partition_root_fs d (dp_device p) (dp_mountpoint p) stats else (has_root, stats))
     in (has_root', add_partition_extra_fs d p stats'))"

text \<open>
  \<open>initializeDiskInfo\<close>.  The partitions and the counters are empty when reading them failed;
  \<open>folders\<close> is \<open>None\<close> when \<open>/extra-filesystems\<close> cannot be read.
\<close>

definition discover_filesystems :: "disk_discovery \<Rightarrow> string option \<Rightarrow> string list option \<Rightarrow> tracked \<Rightarrow> tracked" where
  "discover_filesystems d extra_filesystems folders stats0 =
     (let (has_root, s1) = add_configured_root_fs d stats0;
          s2 = (case extra_filesystems of None \<Rightarrow> s1 | Some text \<Rightarrow> add_configured_extra_filesystems d text s1);
          (has_root', s3) = foldl (root_step d) (has_root, s2) (dd_partitions d);
          s4 = (case folders of None \<Rightarrow> s3 | Some names \<Rightarrow> add_extra_filesystem_folders d names s3)
      in if has_root' then s4 else add_last_resort_root_fs d s4)"

definition new_discovery ::
  "string option \<Rightarrow> disk_partition list \<Rightarrow> io_map \<Rightarrow> string \<Rightarrow> (string \<Rightarrow> disk_usage res) \<Rightarrow> disk_discovery" where
  "new_discovery filesystem partitions counters root_mount_point usage =
     \<lparr>dd_root_mount_point = root_mount_point, dd_partitions = partitions, dd_usage = usage,
      dd_ctx = \<lparr>rc_filesystem = (case filesystem of None \<Rightarrow> [] | Some f \<Rightarrow> f),
        rc_ef_path = ''/extra-filesystems'', rc_counters = counters\<rparr>\<rparr>"

definition initialize_disk_info ::
  "string option \<Rightarrow> disk_partition list \<Rightarrow> io_map \<Rightarrow> string \<Rightarrow> (string \<Rightarrow> disk_usage res) \<Rightarrow> string option
    \<Rightarrow> string list option \<Rightarrow> int \<Rightarrow> fs_manager \<Rightarrow> fs_manager" where
  "initialize_disk_info filesystem partitions counters root_mount_point usage extra_filesystems folders now m =
     (let d = new_discovery filesystem partitions counters root_mount_point usage;
          stats = prune_duplicate_root_extra_filesystems usage
            (discover_filesystems d extra_filesystems folders (fm_fs_stats m))
      in initialize_disk_io_stats counters now (m\<lparr>fm_fs_stats := stats\<rparr>))"

text \<open>\<open>getRootMountPoint\<close>; \<open>os_release\<close> is the content of \<open>/etc/os-release\<close>.\<close>

definition get_root_mount_point :: "string option \<Rightarrow> (string \<Rightarrow> bool) \<Rightarrow> string" where
  "get_root_mount_point os_release exists =
     (let immutable = (case os_release of None \<Rightarrow> False | Some content \<Rightarrow>
            (contains_str ''fedora'' content \<and> contains_str ''silverblue'' content)
            \<or> contains_str ''coreos'' content \<or> contains_str ''flatcar'' content
            \<or> contains_str ''rhel-atomic'' content \<or> contains_str ''centos-atomic'' content)
      in if immutable \<and> exists ''/sysroot'' then ''/sysroot''
         else if exists ''/run/ostree'' \<and> exists ''/sysroot'' then ''/sysroot''
         else ''/'')"

section \<open>Usage\<close>

definition fs_usage :: "disk_usage \<Rightarrow> fs_stats \<Rightarrow> fs_stats" where
  "fs_usage u fs = fs\<lparr>fs_disk_total := bytes_to_gigabytes (du_total u), fs_disk_used := bytes_to_gigabytes (du_used u)\<rparr>"

definition root_usage_stats :: "disk_usage \<Rightarrow> stats \<Rightarrow> stats" where
  "root_usage_stats u st = st\<lparr>s_disk_total := bytes_to_gigabytes (du_total u),
     s_disk_used := bytes_to_gigabytes (du_used u), s_disk_pct := two_decimals (du_used_percent u)\<rparr>"

definition unmounted :: "fs_stats \<Rightarrow> fs_stats" where
  "unmounted fs = fs\<lparr>fs_disk_total := Num 0, fs_disk_used := Num 0, fs_total_read := 0, fs_total_write := 0\<rparr>"

text \<open>
  The loop over the filesystems.  \<open>ctx_err\<close> is the context's error after a failed reading, which
  ends the loop; the filesystems before it keep what they got.
\<close>

fun usage_loop :: "bool \<Rightarrow> (string \<Rightarrow> disk_usage res) \<Rightarrow> (string \<Rightarrow> go_error option) \<Rightarrow> tracked \<Rightarrow> stats
    \<Rightarrow> go_error option \<times> tracked \<times> stats" where
  "usage_loop cache_extra usage ctx_err [] st = (None, [], st)"
| "usage_loop cache_extra usage ctx_err ((name, fs) # rest) st =
     (if cache_extra \<and> \<not> fs_root fs
      then (case usage_loop cache_extra usage ctx_err rest st of (e, rest', st') \<Rightarrow> (e, (name, fs) # rest', st'))
      else case usage (fs_mountpoint fs) of
        Inr u \<Rightarrow> (case usage_loop cache_extra usage ctx_err rest (if fs_root fs then root_usage_stats u st else st) of
            (e, rest', st') \<Rightarrow> (e, (name, fs_usage u fs) # rest', st'))
      | Inl _ \<Rightarrow> (case ctx_err (fs_mountpoint fs) of
            Some e \<Rightarrow> (Some e, (name, fs) # rest, st)
          | None \<Rightarrow> (case usage_loop cache_extra usage ctx_err rest st of
              (e, rest', st') \<Rightarrow> (e, (name, unmounted fs) # rest', st'))))"

definition extra_usage_cached :: "int \<Rightarrow> fs_manager \<Rightarrow> bool" where
  "extra_usage_cached now m = (0 < fm_disk_usage_cache_duration m
     \<and> (case fm_last_disk_usage_update m of None \<Rightarrow> False | Some t \<Rightarrow> now - t < fm_disk_usage_cache_duration m))"

definition update_disk_usage :: "go_error option \<Rightarrow> (string \<Rightarrow> disk_usage res) \<Rightarrow> (string \<Rightarrow> go_error option)
    \<Rightarrow> int \<Rightarrow> fs_manager \<Rightarrow> stats \<Rightarrow> unit res \<times> fs_manager \<times> stats" where
  "update_disk_usage err0 usage ctx_err now m st = (case err0 of
     Some e \<Rightarrow> (Inl e, m, st)
   | None \<Rightarrow>
       let cache_extra = extra_usage_cached now m
       in case usage_loop cache_extra usage ctx_err (fm_fs_stats m) st of
            (Some e, fs, st') \<Rightarrow> (Inl e, m\<lparr>fm_fs_stats := fs\<rparr>, st')
          | (None, fs, st') \<Rightarrow> (Inr (), m\<lparr>fm_fs_stats := fs,
              fm_last_disk_usage_update := (if cache_extra then fm_last_disk_usage_update m else Some now)\<rparr>, st'))"

section \<open>Rates\<close>

definition disk_counter_reset :: "disk_counters \<Rightarrow> prev_disk \<Rightarrow> bool" where
  "disk_counter_reset d prev = (dc_read_bytes d < pd_read_bytes prev \<or> dc_write_bytes d < pd_write_bytes prev
     \<or> dc_read_time d < pd_read_time prev \<or> dc_write_time d < pd_write_time prev
     \<or> dc_io_time d < pd_io_time prev \<or> dc_weighted_io d < pd_weighted_io prev
     \<or> dc_read_count d < pd_read_count prev \<or> dc_write_count d < pd_write_count prev)"

text \<open>The first reading of an interval counts from the filesystem's baseline, if it has one.\<close>

definition seed_prev_disk :: "disk_counters \<Rightarrow> fs_stats \<Rightarrow> int \<Rightarrow> prev_disk" where
  "seed_prev_disk d fs now = (case fs_time fs of
     None \<Rightarrow> prev_disk_from_counter d now
   | Some t \<Rightarrow> (prev_disk_from_counter d t)\<lparr>pd_read_bytes := fs_total_read fs, pd_write_bytes := fs_total_write fs\<rparr>)"

definition percent_of :: "u64 \<Rightarrow> u64 \<Rightarrow> f64" where
  "percent_of delta ms_elapsed = two_decimals (fmul (fdiv (of_uint64 delta) (of_uint64 ms_elapsed)) (Num 100))"

definition await_time :: "u64 \<Rightarrow> u64 \<Rightarrow> f64" where
  "await_time time_delta count_delta =
     (if 0 < count_delta then two_decimals (fdiv (of_uint64 time_delta) (of_uint64 count_delta)) else Num 0)"

definition disk_io_stats :: "disk_counters \<Rightarrow> prev_disk \<Rightarrow> u64 \<Rightarrow> f64 list" where
  "disk_io_stats d prev ms_elapsed =
     [percent_of (dc_read_time d - pd_read_time prev) ms_elapsed,
      percent_of (dc_write_time d - pd_write_time prev) ms_elapsed,
      percent_of (dc_io_time d - pd_io_time prev) ms_elapsed,
      await_time (dc_read_time d - pd_read_time prev) (dc_read_count d - pd_read_count prev),
      await_time (dc_write_time d - pd_write_time prev) (dc_write_count d - pd_write_count prev),
      percent_of (dc_weighted_io d - pd_weighted_io prev) ms_elapsed]"

definition set_fs_rates :: "disk_counters \<Rightarrow> int \<Rightarrow> u64 \<times> u64 \<Rightarrow> f64 \<times> f64 \<Rightarrow> f64 list \<Rightarrow> fs_stats \<Rightarrow> fs_stats" where
  "set_fs_rates d now bytes mb io fs = fs\<lparr>fs_time := Some now, fs_total_read := dc_read_bytes d,
     fs_total_write := dc_write_bytes d, fs_disk_read_ps := fst mb, fs_disk_write_ps := snd mb,
     fs_disk_read_bytes := fst bytes, fs_disk_write_bytes := snd bytes, fs_disk_io_stats := io\<rparr>"

definition set_root_rates :: "u64 \<times> u64 \<Rightarrow> f64 \<times> f64 \<Rightarrow> f64 list \<Rightarrow> stats \<Rightarrow> stats" where
  "set_root_rates bytes mb io st = st\<lparr>s_disk_read_ps := fst mb, s_disk_write_ps := snd mb,
     s_disk_io := bytes, s_disk_io_stats := io\<rparr>"

text \<open>
  What a reading means: too early after the previous one, counters that went backwards, a rate that
  cannot be, or rates.
\<close>

datatype disk_verdict = TooEarly | CounterReset | InvalidRate | Rates "u64 \<times> u64" "f64 \<times> f64" "f64 list"

definition disk_outcome :: "disk_counters \<Rightarrow> prev_disk \<Rightarrow> u64 \<Rightarrow> disk_verdict" where
  "disk_outcome d prev ms_elapsed =
     (if ms_elapsed < 100 then TooEarly
      else if disk_counter_reset d prev then CounterReset
      else let bytes = ((dc_read_bytes d - pd_read_bytes prev) * 1000 div ms_elapsed,
                        (dc_write_bytes d - pd_write_bytes prev) * 1000 div ms_elapsed);
               mb = (bytes_to_megabytes (of_uint64 (fst bytes)), bytes_to_megabytes (of_uint64 (snd bytes)))
           in if flt (Num 50000) (fst mb) \<or> flt (Num 50000) (snd mb) then InvalidRate
              else Rates bytes mb (disk_io_stats d prev ms_elapsed))"

definition disk_prev_of :: "16 word \<Rightarrow> fs_manager \<Rightarrow> string \<Rightarrow> prev_disk option" where
  "disk_prev_of cache_time_ms m name =
     (case fm_disk_prev m cache_time_ms of None \<Rightarrow> None | Some by_name \<Rightarrow> by_name name)"

definition set_disk_prev :: "16 word \<Rightarrow> string \<Rightarrow> prev_disk \<Rightarrow> fs_manager \<Rightarrow> fs_manager" where
  "set_disk_prev cache_time_ms name prev m = m\<lparr>fm_disk_prev := (fm_disk_prev m)(cache_time_ms \<mapsto>
     (case fm_disk_prev m cache_time_ms of None \<Rightarrow> (\<lambda>_. None) | Some by_name \<Rightarrow> by_name)(name \<mapsto> prev))\<rparr>"

definition elapsed_ms :: "int \<Rightarrow> gotime \<Rightarrow> u64" where
  "elapsed_ms now since = (case since of None \<Rightarrow> 0 | Some t \<Rightarrow> word_of_int (milliseconds (now - t)))"

definition put_fs :: "string \<Rightarrow> fs_stats \<Rightarrow> fs_manager \<Rightarrow> fs_manager" where
  "put_fs name fs m = m\<lparr>fm_fs_stats := mput name fs (fm_fs_stats m)\<rparr>"

text \<open>The body of the loop of \<open>applyDiskIoCounters\<close> for one entry of the counters.\<close>

definition outcome_of :: "16 word \<Rightarrow> int \<Rightarrow> fs_manager \<Rightarrow> fs_stats \<Rightarrow> string \<Rightarrow> disk_counters \<Rightarrow> disk_verdict" where
  "outcome_of cache_time_ms now m fs name d =
     (let prev = (case disk_prev_of cache_time_ms m name of Some p \<Rightarrow> p | None \<Rightarrow> seed_prev_disk d fs now)
      in disk_outcome d prev (elapsed_ms now (pd_at prev)))"

definition apply_disk_counter :: "16 word \<Rightarrow> io_map \<Rightarrow> int \<Rightarrow> fs_manager \<times> stats \<Rightarrow> string \<times> disk_counters
    \<Rightarrow> fs_manager \<times> stats" where
  "apply_disk_counter cache_time_ms counters now state entry = (case state of (m, st) \<Rightarrow> case entry of (name, d) \<Rightarrow>
     case mget (fm_fs_stats m) (dc_name d) of
       None \<Rightarrow> (m, st)
     | Some fs \<Rightarrow>
         let m1 = set_disk_prev cache_time_ms name (prev_disk_from_counter d now) m
         in (case outcome_of cache_time_ms now m fs name d of
               TooEarly \<Rightarrow> (m1, st)
             | CounterReset \<Rightarrow>
                 (put_fs (dc_name d) (set_fs_rates d now (0, 0) (Num 0, Num 0) (zeros 6) fs) m1,
                  if fs_root fs then set_root_rates (0, 0) (Num 0, Num 0) (zeros 6) st else st)
             | InvalidRate \<Rightarrow> (initialize_disk_io_stats counters now m1, st)
             | Rates bytes mb io \<Rightarrow>
                 (put_fs (dc_name d) (set_fs_rates d now bytes mb io fs) m1,
                  if fs_root fs then set_root_rates bytes mb io st else st)))"

definition apply_disk_io_counters :: "16 word \<Rightarrow> io_map \<Rightarrow> int \<Rightarrow> fs_manager \<Rightarrow> stats \<Rightarrow> fs_manager \<times> stats" where
  "apply_disk_io_counters cache_time_ms counters now m st =
     (let m0 = m\<lparr>fm_disk_prev := (case fm_disk_prev m cache_time_ms of
            None \<Rightarrow> (fm_disk_prev m)(cache_time_ms \<mapsto> (\<lambda>_. None)) | Some _ \<Rightarrow> fm_disk_prev m)\<rparr>
      in foldl (apply_disk_counter cache_time_ms counters now) (m0, st) counters)"

definition update_disk_io :: "io_map res \<Rightarrow> go_error option \<Rightarrow> int \<Rightarrow> 16 word \<Rightarrow> fs_manager \<Rightarrow> stats
    \<Rightarrow> unit res \<times> fs_manager \<times> stats" where
  "update_disk_io counters ctx_err now cache_time_ms m st = (case counters of
     Inr io \<Rightarrow> (case apply_disk_io_counters cache_time_ms io now m st of (m', st') \<Rightarrow> (Inr (), m', st'))
   | Inl _ \<Rightarrow> (case ctx_err of Some e \<Rightarrow> (Inl e, m, st) | None \<Rightarrow> (Inr (), m, st)))"

end
