(* ===== verification/Float_Facts.thy ===== *)
theory Float_Facts
  imports Float64
begin

text \<open>
  More facts of the floats of \<open>Float64\<close>, used by the collectors: conversions of 64-bit counters are
  finite and keep their sign, divisions by non-zero counters are numbers, and rounding to two
  decimals produces no NaN.
\<close>

section \<open>Never NaN\<close>

lemma rnd_not_NaN [simp]: "rnd s q \<noteq> NaN"
  by (simp add: rnd_def Let_def)

lemma of_uint64_not_NaN [simp]: "of_uint64 w \<noteq> NaN"
  by (simp add: of_uint64_def)

lemma fdiv_not_NaN: "x \<noteq> NaN \<Longrightarrow> 0 < q \<Longrightarrow> fdiv x (Num q) \<noteq> NaN"
  by (auto simp: fdiv_def Let_def)

lemma two_decimals_not_NaN [simp]: "x \<noteq> NaN \<Longrightarrow> two_decimals x \<noteq> NaN"
proof -
  assume x: "x \<noteq> NaN"
  have "fmul x (Num 100) \<noteq> NaN" using x by (auto simp: fmul_def Let_def)
  then have "fround (fmul x (Num 100)) \<noteq> NaN" by (cases "fmul x (Num 100)") (simp_all add: Let_def)
  then show ?thesis by (simp add: two_decimals_def fdiv_not_NaN)
qed

lemma megabytes_not_NaN [simp]: "bytes_to_megabytes (of_uint64 w) \<noteq> NaN"
  by (simp add: bytes_to_megabytes_def fdiv_not_NaN)

section \<open>Counters\<close>

lemma rnd_val_2_64: "rnd_val (2 ^ 64) = 2 ^ 64"
  by code_simp

lemma of_uint64_range: "fin (of_uint64 w) \<and> 0 \<le> fval (of_uint64 w) \<and> fval (of_uint64 w) \<le> 2 ^ 64
    \<and> (w \<noteq> 0 \<longrightarrow> 1 \<le> fval (of_uint64 w))"
proof -
  let ?q = "of_int (uint w) :: rat"
  have "uint w \<le> 2 ^ 64" using uint_lt2p [of w] by simp
  then have "?q \<le> of_int (2 ^ 64)" by (simp only: of_int_le_iff)
  moreover have "of_int 0 \<le> ?q" by (simp only: of_int_le_iff uint_ge_0)
  ultimately have q: "0 \<le> ?q" "?q \<le> 2 ^ 64" by simp_all
  have r: "0 \<le> rnd_val ?q" "rnd_val ?q \<le> 2 ^ 64"
    using rnd_val_mono [OF q(1)] rnd_val_mono [OF q(2)] rnd_val_2_64 by simp_all
  have "(2 :: rat) ^ 64 \<le> max_f64" by (simp add: max_f64_def)
  then have f: "fval (of_uint64 w) = rnd_val ?q \<and> fin (of_uint64 w)"
    unfolding of_uint64_def using r by (intro fval_rnd) simp
  have "1 \<le> rnd_val ?q" if "w \<noteq> 0"
  proof -
    have "0 < uint w" using that by (simp add: word_neq_0_conv word_less_def)
    then have "1 \<le> uint w" by simp
    then have "(of_int 1 :: rat) \<le> ?q" by (simp only: of_int_le_iff)
    then show ?thesis using rnd_val_mono [of 1 ?q] by simp
  qed
  then show ?thesis using f r by simp
qed

lemma rnd_nonneg: "0 \<le> q \<Longrightarrow> fle (Num 0) (rnd s q)"
  using rnd_val_nonneg [of q] by (auto simp: rnd_def Let_def)

lemma counter_ratio_nonneg: "w \<noteq> 0 \<Longrightarrow> fle (Num 0) (fdiv (of_uint64 v) (of_uint64 w))"
  using of_uint64_range [of v] of_uint64_range [of w] by (auto simp: fdiv_fin intro!: rnd_nonneg)

lemma fsign_nonneg: "fle (Num 0) x \<Longrightarrow> x \<noteq> NegZero \<Longrightarrow> \<not> fsign x"
  by (cases x) auto

lemma fmul_nonneg: "fle (Num 0) x \<Longrightarrow> 0 < q \<Longrightarrow> fle (Num 0) (fmul x (Num q))"
  by (cases x) (auto simp: fmul_def Let_def intro!: rnd_nonneg)

lemma fle_between: "of_int a = p \<Longrightarrow> of_int b = q \<Longrightarrow> fle (Num p) x \<Longrightarrow> fle x (Num q) \<Longrightarrow> fin x \<and> of_int a \<le> fval x \<and> fval x \<le> of_int b"
  by (cases x) auto

section \<open>Small rates\<close>

lemma small_megabytes:
  assumes "uint w \<le> 50000"
  shows "\<not> flt (Num 50000) (bytes_to_megabytes (of_uint64 w))"
proof -
  let ?q = "fdiv (of_uint64 w) (Num 1048576)"
  have w: "of_int 0 \<le> (of_int (uint w) :: rat)" "(of_int (uint w) :: rat) \<le> of_int 50000"
    using assms by (simp_all only: of_int_le_iff uint_ge_0)
  have u: "fin (of_uint64 w)" "0 \<le> fval (of_uint64 w)" "fval (of_uint64 w) \<le> 50000"
    using rnd_between [OF w, of False] by (simp_all add: of_uint64_def)
  then have "0 \<le> fval (of_uint64 w) / 1048576" "fval (of_uint64 w) / 1048576 \<le> 50000" by simp_all
  then have q: "fin ?q" "0 \<le> fval ?q" "fval ?q \<le> 50000"
    using rnd_between [of 0 "fval (of_uint64 w) / 1048576" 50000] u(1) by (simp_all add: fdiv_fin)
  then have "fin (two_decimals ?q) \<and> fval (two_decimals ?q) \<le> 50000"
    using two_decimals_range [of ?q 0 50000] by simp
  then show ?thesis
    by (simp add: bytes_to_megabytes_def flt_fin)
qed

end
