(* ===== verification/Disk_Properties.thy ===== *)
theory Disk_Properties
  imports Disk Float_Facts "HOL-Library.Multiset"
begin

text \<open>
  What is proved of \<open>Disk\<close>: the choice of an I/O device does not depend on the order of a Go map,
  which filesystem is tracked as root, what a cached update reads, the rates of a tick and the bounds
  and names that every run of updates keeps.
\<close>

section \<open>The choice of a device\<close>

lemma better_trans: "better_candidate c b \<Longrightarrow> better_candidate b a \<Longrightarrow> better_candidate c a"
  by (auto simp: better_candidate_def)

lemma better_total: "ic_name a \<noteq> ic_name b \<Longrightarrow> better_candidate a b \<or> better_candidate b a"
  by (auto simp: better_candidate_def)

lemma better_irrefl: "\<not> better_candidate a a"
  by (simp add: better_candidate_def)

lemma better_asym: "better_candidate a b \<Longrightarrow> \<not> better_candidate b a"
  by (auto simp: better_candidate_def)

lemma foldl_pick_better:
  "foldl pick_better b cs \<in> set (b # cs) \<and> (\<forall>c \<in> set (b # cs). \<not> better_candidate c (foldl pick_better b cs))"
proof (induction cs arbitrary: b)
  case Nil
  then show ?case by (simp add: better_irrefl)
next
  case (Cons c cs)
  define r where "r = foldl pick_better (pick_better b c) cs"
  have r: "r \<in> set (pick_better b c # cs)" "\<forall>x \<in> set (pick_better b c # cs). \<not> better_candidate x r"
    using Cons.IH [of "pick_better b c"] by (simp_all add: r_def)
  have p: "pick_better b c \<in> {b, c}" by (simp add: pick_better_def)
  have "\<not> better_candidate x r" if "x \<in> {b, c}" for x
  proof
    assume x: "better_candidate x r"
    have n: "\<not> better_candidate (pick_better b c) r" using r(2) by simp
    then have "x \<noteq> pick_better b c" using x by auto
    then have "better_candidate (pick_better b c) x \<or> (\<not> better_candidate c b \<and> x = c)"
      using that by (auto simp: pick_better_def split: if_splits)
    then show False
    proof
      assume "better_candidate (pick_better b c) x"
      then show False using better_trans x n by blast
    next
      assume a: "\<not> better_candidate c b \<and> x = c"
      then have "pick_better b c = b" by (simp add: pick_better_def)
      then have "\<not> better_candidate b r" using n by simp
      then show False using a x by (auto simp: better_candidate_def)
    qed
  qed
  then show ?case using r p by (auto simp: r_def)
qed

definition best_of :: "io_match_candidate list \<Rightarrow> io_match_candidate option" where
  "best_of cs = (case cs of [] \<Rightarrow> None | c # cs \<Rightarrow> Some (foldl pick_better c cs))"

lemma best_of_perm:
  assumes "mset cs = mset cs'" "distinct (map ic_name cs)"
  shows "best_of cs = best_of cs'"
proof (cases cs)
  case Nil
  then show ?thesis using assms(1) by simp
next
  case (Cons c1 r1)
  then obtain c2 r2 where c2: "cs' = c2 # r2" using assms(1) by (cases cs') auto
  have s: "set cs' = set cs" using assms(1) mset_eq_setD by metis
  let ?a = "foldl pick_better c1 r1" and ?b = "foldl pick_better c2 r2"
  have a: "?a \<in> set cs \<and> (\<forall>c \<in> set cs. \<not> better_candidate c ?a)"
    unfolding Cons by (rule foldl_pick_better)
  have b: "?b \<in> set cs \<and> (\<forall>c \<in> set cs. \<not> better_candidate c ?b)"
    unfolding s [symmetric] c2 by (rule foldl_pick_better)
  have "ic_name ?a = ic_name ?b"
    using a b better_total [of ?a ?b] by blast
  then have "?a = ?b"
    using a b assms(2) by (meson distinct_map inj_onD)
  then show ?thesis by (simp add: best_of_def Cons c2)
qed

lemma io_candidates_find: "io_candidates filesystem ds =
  (case find (exact_match filesystem) ds of
     Some d \<Rightarrow> Inl (dc_name d) | None \<Rightarrow> Inr (map candidate_of (filter (related_match filesystem) ds)))"
  by (induction ds) (auto split: option.splits)

lemma find_io_device_alt: "find_io_device filesystem counters =
  (if normalize_device_name filesystem = [] then None
   else case find (exact_match (normalize_device_name filesystem)) (map snd counters) of
     Some d \<Rightarrow> Some (dc_name d)
   | None \<Rightarrow> map_option ic_name
       (best_of (map candidate_of (filter (related_match (normalize_device_name filesystem)) (map snd counters)))))"
  by (simp add: find_io_device_def io_candidates_find best_of_def Let_def split: option.splits list.splits)

lemma foldl_most_active:
  "ic_name b \<noteq> [] \<Longrightarrow> \<forall>c \<in> set cs. ic_name c \<noteq> [] \<Longrightarrow>
    foldl (\<lambda>best c. if ic_name best = [] then c else pick_better best c) b cs = foldl pick_better b cs"
  by (induction cs arbitrary: b) (auto simp: pick_better_def)

lemma most_active_alt:
  assumes "\<forall>d \<in> set (map snd counters). dc_name d \<noteq> []"
  shows "most_active_io_device counters
    = (case best_of (map (candidate_of \<circ> snd) counters) of None \<Rightarrow> [] | Some c \<Rightarrow> ic_name c)"
proof (cases counters)
  case Nil
  then show ?thesis by (simp add: most_active_io_device_def best_of_def)
next
  case (Cons c cs)
  have "foldl (\<lambda>best c. if ic_name best = [] then c else pick_better best c) (candidate_of (snd c)) (map (candidate_of \<circ> snd) cs)
      = foldl pick_better (candidate_of (snd c)) (map (candidate_of \<circ> snd) cs)"
    by (rule foldl_most_active) (use assms in \<open>simp_all add: Cons candidate_of_def\<close>)
  then show ?thesis
    by (simp add: most_active_io_device_def best_of_def Cons)
qed

lemma find_perm:
  assumes "set xs = set ys" "\<forall>x \<in> set xs. \<forall>y \<in> set xs. P x \<and> P y \<longrightarrow> f x = f y"
  shows "map_option f (find P xs) = map_option f (find P ys)"
proof (cases "find P xs")
  case None
  then have "find P ys = None" using assms(1) by (simp add: find_None_iff)
  then show ?thesis using None by simp
next
  case (Some x)
  then have x: "x \<in> set xs" "P x" by (auto simp: find_Some_iff)
  then obtain y where y: "find P ys = Some y"
    using assms(1) by (cases "find P ys") (auto simp: find_None_iff)
  then have "y \<in> set xs" "P y" using assms(1) by (auto simp: find_Some_iff)
  then have "f x = f y" using assms(2) x by blast
  then show ?thesis by (simp add: Some y)
qed

lemma candidates_named: "map ic_name (map candidate_of ds) = map dc_name ds"
  by (simp add: candidate_of_def)


section \<open>The root filesystem\<close>

definition root_names :: "tracked \<Rightarrow> string set" where
  "root_names stats = {name. \<exists>fs. mget stats name = Some fs \<and> fs_root fs}"

lemma root_names_Nil [simp]: "root_names [] = {}"
  by (simp add: root_names_def)

lemma root_names_single [simp]: "root_names [(k, fs)] = (if fs_root fs then {k} else {})"
  by (auto simp: root_names_def)

lemma root_names_mput: "root_names (mput k fs stats)
    = (if fs_root fs then insert k (root_names stats) else root_names stats - {k})"
  by (auto simp: root_names_def)

lemma fs_root_tracked [simp]: "fs_root (tracked_fs r mountpoint name) = r"
  by (simp add: tracked_fs_def)

lemma add_fs_stat_cases:
  "add_fs_stat d device mountpoint r name stats = stats
    \<or> (\<exists>key. mget stats key = None \<and> add_fs_stat d device mountpoint r name stats = mput key (tracked_fs r mountpoint name) stats)"
  by (auto simp: add_fs_stat_def register_filesystem_stats_def Let_def)

lemma add_fs_stat_keeps: "mget stats key \<noteq> None \<Longrightarrow> mget (add_fs_stat d device mountpoint r name stats) key = mget stats key"
  using add_fs_stat_cases [of d device mountpoint r name stats] by auto

lemma add_fs_stat_extra: "root_names (add_fs_stat d device mountpoint False name stats) = root_names stats"
  using add_fs_stat_cases [of d device mountpoint False name stats]
  by (auto simp: root_names_mput) (auto simp: root_names_def)

lemma add_fs_stat_root: "root_names (add_fs_stat d device mountpoint True name stats) = root_names stats
    \<or> (\<exists>key. root_names (add_fs_stat d device mountpoint True name stats) = insert key (root_names stats))"
  using add_fs_stat_cases [of d device mountpoint True name stats] by (auto simp: root_names_mput)

lemma add_extra_entry: "root_names (add_configured_extra_fs_entry d filesystem name stats) = root_names stats"
  by (simp add: add_configured_extra_fs_entry_def add_fs_stat_extra split: option.splits sum.splits)

lemma add_extras: "root_names (add_configured_extra_filesystems d text stats) = root_names stats"
  unfolding add_configured_extra_filesystems_def
  by (rule foldl_invariant [where I = "\<lambda>s. root_names s = root_names stats"])
    (simp_all add: add_extra_entry split: prod.splits)

lemma add_partition_extra: "root_names (add_partition_extra_fs d p stats) = root_names stats"
  by (simp add: add_partition_extra_fs_def add_fs_stat_extra split: prod.splits)

lemma add_folders: "root_names (add_extra_filesystem_folders d names stats) = root_names stats"
  unfolding add_extra_filesystem_folders_def Let_def
  by (rule foldl_invariant [where I = "\<lambda>s. root_names s = root_names stats"])
    (simp_all add: add_fs_stat_extra split: prod.splits)

lemma add_configured_root:
  assumes "add_configured_root_fs d [] = (b, stats)"
  shows "(b \<longrightarrow> (\<exists>k. root_names stats = {k})) \<and> (\<not> b \<longrightarrow> stats = [])"
  using assms add_fs_stat_cases [of d _ _ True "[]" "[]"]
  by (auto simp: add_configured_root_fs_def add_fs_stat_def register_filesystem_stats_def Let_def root_names_mput split: if_splits option.splits)

lemma add_partition_root:
  assumes "add_partition_root_fs d device mountpoint stats = (b, stats')"
  shows "(\<not> b \<longrightarrow> stats' = stats) \<and> (\<exists>k. root_names stats' \<subseteq> insert k (root_names stats))"
  using assms add_fs_stat_root [of d _ mountpoint "[]" stats]
  by (fastforce simp: add_partition_root_fs_def split: option.splits)

text \<open>What holds while the partitions are visited: at most one root, and none before \<open>has_root\<close>.\<close>

definition one_root :: "bool \<times> tracked \<Rightarrow> bool" where
  "one_root s = ((\<exists>k. root_names (snd s) \<subseteq> {k}) \<and> (\<not> fst s \<longrightarrow> root_names (snd s) = {}))"

lemma root_step_one_root:
  assumes "one_root s" shows "one_root (root_step d s p)"
proof -
  obtain b stats where s: "s = (b, stats)" by (cases s)
  show ?thesis
  proof (cases "\<not> b \<and> is_root_fallback_partition p (dd_root_mount_point d)")
    case True
    obtain b' stats' where a: "add_partition_root_fs d (dp_device p) (dp_mountpoint p) stats = (b', stats')" by fastforce
    have "root_names stats = {}" using assms True by (simp add: one_root_def s)
    then have "one_root (b', stats')"
      using add_partition_root [OF a] by (auto simp: one_root_def)
    then show ?thesis
      using True by (simp add: s root_step_def a one_root_def add_partition_extra)
  next
    case False
    then have "root_step d s p = (b, add_partition_extra_fs d p stats)" by (auto simp: s root_step_def)
    then show ?thesis using assms by (simp add: s one_root_def add_partition_extra)
  qed
qed

lemma discover_one_root:
  "\<exists>k. root_names (discover_filesystems d extra folders []) \<subseteq> {k}"
proof -
  obtain b1 s1 where c: "add_configured_root_fs d [] = (b1, s1)" by fastforce
  define s2 where "s2 = (case extra of None \<Rightarrow> s1 | Some text \<Rightarrow> add_configured_extra_filesystems d text s1)"
  have "one_root (b1, s1)" using add_configured_root [OF c] by (auto simp: one_root_def)
  then have "one_root (b1, s2)" by (auto simp: one_root_def s2_def add_extras split: option.splits)
  then have o: "one_root (foldl (root_step d) (b1, s2) (dd_partitions d))"
    by (rule foldl_invariant [where I = one_root]) (rule root_step_one_root)
  obtain b3 s3 where f: "foldl (root_step d) (b1, s2) (dd_partitions d) = (b3, s3)" by fastforce
  define s4 where "s4 = (case folders of None \<Rightarrow> s3 | Some names \<Rightarrow> add_extra_filesystem_folders d names s3)"
  have o4: "one_root (b3, s4)" using o f by (auto simp: one_root_def s4_def add_folders split: option.splits)
  have "discover_filesystems d extra folders [] = (if b3 then s4 else add_last_resort_root_fs d s4)"
    by (simp add: discover_filesystems_def c s2_def [symmetric] f s4_def)
  then show ?thesis
    using o4 by (auto simp: one_root_def add_last_resort_root_fs_def Let_def root_names_mput)
qed

text \<open>Nothing extra: no environment entry, no folder and no partition under the extra directory.\<close>

definition plain_step :: "bool \<times> tracked \<Rightarrow> bool" where
  "plain_step s = ((fst s \<longrightarrow> (\<exists>k. root_names (snd s) = {k})) \<and> (\<not> fst s \<longrightarrow> snd s = []))"

lemma root_step_plain:
  assumes "plain_step s" "path_dir (dp_mountpoint p) \<noteq> rc_ef_path (dd_ctx d)"
  shows "plain_step (root_step d s p)"
proof -
  obtain b stats where s: "s = (b, stats)" by (cases s)
  have x: "add_partition_extra_fs d p = (\<lambda>stats. stats)" using assms(2) by (simp add: add_partition_extra_fs_def fun_eq_iff)
  show ?thesis
  proof (cases "\<not> b \<and> is_root_fallback_partition p (dd_root_mount_point d)")
    case True
    then have "stats = []" using assms(1) by (simp add: s plain_step_def)
    then have "plain_step (add_partition_root_fs d (dp_device p) (dp_mountpoint p) stats)"
      by (auto simp: plain_step_def add_partition_root_fs_def add_fs_stat_def register_filesystem_stats_def Let_def
        root_names_mput split: option.splits)
    then show ?thesis
      using True by (simp add: s root_step_def x split: prod.splits)
  next
    case False
    then show ?thesis using assms(1) by (auto simp: s root_step_def x)
  qed
qed

lemma discover_plain:
  assumes "\<forall>p \<in> set (dd_partitions d). path_dir (dp_mountpoint p) \<noteq> rc_ef_path (dd_ctx d)"
  shows "\<exists>k. root_names (discover_filesystems d None None []) = {k}"
proof -
  obtain b1 s1 where c: "add_configured_root_fs d [] = (b1, s1)" by fastforce
  have "plain_step (b1, s1)" using add_configured_root [OF c] by (simp add: plain_step_def)
  then have o: "plain_step (foldl (root_step d) (b1, s1) (dd_partitions d))"
    by (rule foldl_invariant [where I = plain_step]) (use assms root_step_plain in blast)
  obtain b3 s3 where f: "foldl (root_step d) (b1, s1) (dd_partitions d) = (b3, s3)" by fastforce
  have "discover_filesystems d None None [] = (if b3 then s3 else add_last_resort_root_fs d s3)"
    by (simp add: discover_filesystems_def c f)
  then show ?thesis
    using o f by (auto simp: plain_step_def add_last_resort_root_fs_def Let_def root_names_mput)
qed

text \<open>A root partition whose device is taken is registered as root and yet not tracked as such.\<close>

definition shadowed :: "string \<Rightarrow> bool \<times> tracked \<Rightarrow> bool" where
  "shadowed key s = (root_names (snd s) = {} \<and> mget (snd s) key \<noteq> None)"

lemma root_step_shadowed:
  assumes "shadowed key s"
    and "is_root_fallback_partition p (dd_root_mount_point d) \<longrightarrow> find_io_device (path_base (dp_device p)) (rc_counters (dd_ctx d)) = Some key"
    and key: "io_key (dd_ctx d) key" "path_base key = key"
  shows "shadowed key (root_step d s p) \<and> (fst s \<or> is_root_fallback_partition p (dd_root_mount_point d) \<longrightarrow> fst (root_step d s p))"
proof -
  obtain b stats where s: "s = (b, stats)" by (cases s)
  have a: "add_fs_stat d key (dp_mountpoint p) True [] stats = stats"
    using assms(1) key by (auto simp: s shadowed_def add_fs_stat_def register_filesystem_stats_def root_key_def Let_def)
  have k: "mget (add_partition_extra_fs d p stats) key = mget stats key"
    using assms(1) by (simp add: s shadowed_def add_partition_extra_fs_def add_fs_stat_keeps split: prod.splits)
  show ?thesis
    using assms(1,2) by (auto simp: s root_step_def add_partition_root_fs_def a shadowed_def add_partition_extra k)
qed

lemma fold_shadowed:
  assumes "shadowed key s"
    and "\<forall>p \<in> set ps. is_root_fallback_partition p (dd_root_mount_point d)
      \<longrightarrow> find_io_device (path_base (dp_device p)) (rc_counters (dd_ctx d)) = Some key"
    and key: "io_key (dd_ctx d) key" "path_base key = key"
  shows "shadowed key (foldl (root_step d) s ps)
    \<and> (fst s \<or> (\<exists>p \<in> set ps. is_root_fallback_partition p (dd_root_mount_point d)) \<longrightarrow> fst (foldl (root_step d) s ps))"
  using assms(1,2)
proof (induction ps arbitrary: s)
  case (Cons p ps)
  have "shadowed key (root_step d s p) \<and> (fst s \<or> is_root_fallback_partition p (dd_root_mount_point d) \<longrightarrow> fst (root_step d s p))"
    using Cons.prems by (intro root_step_shadowed key) simp_all
  then show ?case using Cons.IH [of "root_step d s p"] Cons.prems(2) by simp
qed simp

lemma discover_shadowed:
  assumes "rc_filesystem (dd_ctx d) = []"
    and "mget (add_configured_extra_filesystems d extra []) key \<noteq> None"
    and "\<forall>p \<in> set (dd_partitions d). is_root_fallback_partition p (dd_root_mount_point d)
      \<longrightarrow> find_io_device (path_base (dp_device p)) (rc_counters (dd_ctx d)) = Some key"
    and "\<exists>p \<in> set (dd_partitions d). is_root_fallback_partition p (dd_root_mount_point d)"
    and key: "io_key (dd_ctx d) key" "path_base key = key"
  shows "root_names (discover_filesystems d (Some extra) folders []) = {}"
proof -
  have "shadowed key (False, add_configured_extra_filesystems d extra [])"
    using assms(2) by (simp add: shadowed_def add_extras)
  note f = fold_shadowed [OF this assms(3) key]
  obtain b3 s3 where r: "foldl (root_step d) (False, add_configured_extra_filesystems d extra []) (dd_partitions d) = (b3, s3)"
    by fastforce
  have "b3" "root_names s3 = {}" using f r assms(4) by (auto simp: shadowed_def)
  then show ?thesis
    by (simp add: discover_filesystems_def add_configured_root_fs_def assms(1) r add_folders split: option.splits)
qed

section \<open>Pruning, baselines and usage\<close>

lemma map_fst_map_snd [simp]: "map fst (map (\<lambda>(k, v). (k, f k v)) xs) = map fst xs"
  by (simp add: comp_def case_prod_unfold)

lemma mget_map_snd: "mget (map (\<lambda>(k, v). (k, f k v)) xs) k = map_option (f k) (mget xs k)"
  by (induction xs) auto

lemma initialize_disk_io_stats_names [simp]:
  "map fst (fm_fs_stats (initialize_disk_io_stats counters now m)) = map fst (fm_fs_stats m)"
  by (simp add: initialize_disk_io_stats_def case_prod_unfold)

lemma initialize_disk_io_stats_mget:
  "mget (fm_fs_stats (initialize_disk_io_stats counters now m)) device = map_option (\<lambda>fs. case map_of counters device of
      None \<Rightarrow> fs
    | Some d \<Rightarrow> fs\<lparr>fs_time := Some now, fs_total_read := dc_read_bytes d, fs_total_write := dc_write_bytes d\<rparr>)
      (mget (fm_fs_stats m) device)"
  by (simp add: initialize_disk_io_stats_def mget_map_snd)

lemma initialize_disk_io_stats_roots [simp]:
  "root_names (fm_fs_stats (initialize_disk_io_stats counters now m)) = root_names (fm_fs_stats m)"
proof -
  have h: "fs_root (case c of None \<Rightarrow> fs | Some d \<Rightarrow> fs\<lparr>fs_time := Some now, fs_total_read := dc_read_bytes d,
      fs_total_write := dc_write_bytes d\<rparr>) = fs_root fs" for c fs
    by (cases c) simp_all
  show ?thesis by (auto simp: root_names_def initialize_disk_io_stats_mget h)
qed

lemma root_names_filter:
  assumes "msorted stats" "\<And>k fs. (k, fs) \<in> set stats \<Longrightarrow> fs_root fs \<Longrightarrow> P (k, fs)"
  shows "root_names (filter P stats) = root_names stats"
  using assms
proof (induction stats)
  case (Cons x xs)
  obtain k fs where x: "x = (k, fs)" by (cases x)
  have IH: "root_names (filter P xs) = root_names xs"
    using Cons by (intro Cons.IH) (auto simp: x msorted_Cons)
  have n: "k \<notin> fst ` set xs" using Cons.prems(1) by (auto simp: x msorted_Cons)
  then have k: "mget xs k = None" "mget (filter P xs) k = None" by (auto simp: mget_None_iff)
  have c: "root_names ((k, fs) # ys) = root_names ys \<union> (if fs_root fs then {k} else {})" if "mget ys k = None" for ys
    using that by (auto simp: root_names_def)
  show ?case
    using Cons.prems(2) [of k fs] IH by (auto simp: x c k)
qed simp

lemma prune_roots:
  "msorted stats \<Longrightarrow> root_names (prune_duplicate_root_extra_filesystems usage stats) = root_names stats"
  by (auto simp: prune_duplicate_root_extra_filesystems_def root_names_filter split: option.splits prod.splits sum.splits)

text \<open>Whatever holds of the empty map and survives the insertion of a tracked filesystem holds of a discovery.\<close>

lemma discover_induct:
  assumes Nil: "I []" and put: "\<And>key r mountpoint name stats. I stats \<Longrightarrow> I (mput key (tracked_fs r mountpoint name) stats)"
  shows "I (discover_filesystems d extra folders [])"
proof -
  have 0: "I (add_fs_stat d device mountpoint r name stats)" if "I stats" for device mountpoint r name stats
    using add_fs_stat_cases [of d device mountpoint r name stats] that put by metis
  have 1: "I s1" if "add_configured_root_fs d [] = (b1, s1)" for b1 s1
    using that 0 [OF Nil] put [OF Nil] Nil
    by (auto simp: add_configured_root_fs_def Let_def simp del: mput.simps split: if_splits option.splits)
  have 2: "I (add_configured_extra_filesystems d extras s)" if "I s" for extras s
    unfolding add_configured_extra_filesystems_def
    by (rule foldl_invariant [where I = I, OF that])
      (simp add: add_configured_extra_fs_entry_def 0 split: prod.splits option.splits sum.splits)
  have 3: "I (snd (root_step d s p))" if "I (snd s)" for s p
    using that by (cases s) (auto simp: root_step_def add_partition_root_fs_def add_partition_extra_fs_def 0
      split: prod.splits option.splits if_splits)
  have 4: "I (add_extra_filesystem_folders d names s)" if "I s" for names s
    unfolding add_extra_filesystem_folders_def Let_def
    by (rule foldl_invariant [where I = I, OF that]) (simp add: 0 split: prod.splits)
  obtain b1 s1 where c: "add_configured_root_fs d [] = (b1, s1)" by fastforce
  define s2 where "s2 = (case extra of None \<Rightarrow> s1 | Some text \<Rightarrow> add_configured_extra_filesystems d text s1)"
  have s2: "I (snd (b1, s2))" using 1 [OF c] 2 by (auto simp: s2_def split: option.splits)
  obtain b3 s3 where f: "foldl (root_step d) (b1, s2) (dd_partitions d) = (b3, s3)" by fastforce
  have "I (snd (foldl (root_step d) (b1, s2) (dd_partitions d)))"
    by (rule foldl_invariant [where I = "\<lambda>s. I (snd s)", OF s2]) (rule 3)
  then have "I s3" by (simp add: f)
  then show ?thesis
    using 4 put by (auto simp: discover_filesystems_def c s2_def [symmetric] f add_last_resort_root_fs_def Let_def
      simp del: mput.simps split: option.splits)
qed

lemma msorted_discover: "msorted (discover_filesystems d extra folders [])"
  by (rule discover_induct) (simp_all add: msorted_mput)

lemma set_prune: "set (prune_duplicate_root_extra_filesystems usage stats) \<subseteq> set stats"
  by (auto simp: prune_duplicate_root_extra_filesystems_def split: option.splits prod.splits sum.splits)

lemma msorted_prune: "msorted stats \<Longrightarrow> msorted (prune_duplicate_root_extra_filesystems usage stats)"
  by (auto simp: msorted_def prune_duplicate_root_extra_filesystems_def sorted_wrt_filter sorted_wrt_map
    split: option.splits prod.splits sum.splits)

lemma msorted_initialize:
  "msorted (fm_fs_stats (initialize_disk_info filesystem partitions counters mnt usage extra folders now (new_fs_manager cache)))"
  using msorted_prune [OF msorted_discover] by (simp add: initialize_disk_info_def Let_def msorted_def new_fs_manager_def)

lemma initialize_disk_info_roots:
  "root_names (fm_fs_stats (initialize_disk_info filesystem partitions counters mnt usage extra folders now (new_fs_manager c)))
    = root_names (discover_filesystems (new_discovery filesystem partitions counters mnt usage) extra folders [])"
  by (simp add: initialize_disk_info_def Let_def prune_roots msorted_discover new_fs_manager_def)

text \<open>
  C14: At most one filesystem is ever tracked as root, and exactly one when nothing extra is configured,
  whatever the partitions, the counters and the setting are.
\<close>

theorem root_filesystem_tracked:
  assumes m: "m = initialize_disk_info filesystem partitions counters mnt usage extra folders now (new_fs_manager cache)"
  shows "(\<exists>k. root_names (fm_fs_stats m) \<subseteq> {k})
    \<and> (extra = None \<and> folders = None \<and> list_all (\<lambda>p. path_dir (dp_mountpoint p) \<noteq> ''/extra-filesystems'') partitions
        \<longrightarrow> (\<exists>k. root_names (fm_fs_stats m) = {k}))"
proof -
  have d: "dd_partitions (new_discovery filesystem partitions counters mnt usage) = partitions"
    "rc_ef_path (dd_ctx (new_discovery filesystem partitions counters mnt usage)) = ''/extra-filesystems''"
    by (simp_all add: new_discovery_def)
  show ?thesis
    unfolding m initialize_disk_info_roots
    using discover_one_root discover_plain [of "new_discovery filesystem partitions counters mnt usage", unfolded d]
    by (auto simp: list_all_iff)
qed

lemma usage_loop_no_root:
  "\<forall>(name, fs) \<in> set stats. \<not> fs_root fs \<Longrightarrow> snd (snd (usage_loop cache_extra usage ctx_err stats st)) = st"
  by (induction cache_extra usage ctx_err stats st rule: usage_loop.induct) (auto split: prod.splits sum.splits option.splits)

lemma usage_loop_roots:
  "root_names (fst (snd (usage_loop cache_extra usage ctx_err stats st))) = root_names stats
    \<and> map fst (fst (snd (usage_loop cache_extra usage ctx_err stats st))) = map fst stats"
proof (induction cache_extra usage ctx_err stats st rule: usage_loop.induct)
  case (2 cache_extra usage ctx_err name fs rest st)
  have e: "root_names ((name, g) # zs) = (root_names zs - {name}) \<union> (if fs_root g then {name} else {})" for g zs
    by (auto simp: root_names_def)
  show ?case
    using 2 by (auto simp: e fs_usage_def unmounted_def split: prod.splits sum.splits option.splits)
qed simp

text \<open>
  An extra filesystem on the root's own device (a btrfs subvolume, say) costs the agent its root
  filesystem: without \<open>FILESYSTEM\<close>, if an entry of \<open>EXTRA_FILESYSTEMS\<close> has taken the device that the
  root partition resolves to, nothing is tracked as root, although the discovery believes it is, and no
  update of the usage ever reports the root disk's size, use or percentage.
\<close>

theorem extra_shadows_root:
  assumes m: "m = initialize_disk_info None partitions counters mnt usage (Some extra) folders now (new_fs_manager cache)"
    and taken: "mget (add_configured_extra_filesystems (new_discovery None partitions counters mnt usage) extra []) key \<noteq> None"
    and roots: "\<forall>p \<in> set partitions. is_root_fallback_partition p mnt \<longrightarrow> find_io_device (path_base (dp_device p)) counters = Some key"
      "\<exists>p \<in> set partitions. is_root_fallback_partition p mnt"
    and key: "map_of counters key \<noteq> None" "path_base key = key"
  shows "root_names (fm_fs_stats m) = {}
    \<and> snd (snd (update_disk_usage err0 usage' ctx_err later m st)) = st"
proof -
  let ?d = "new_discovery None partitions counters mnt usage"
  have "root_names (fm_fs_stats m) = {}"
    unfolding m initialize_disk_info_roots
    by (rule discover_shadowed [of ?d]) (use assms in \<open>simp_all add: new_discovery_def io_key_def\<close>)
  moreover have "msorted (fm_fs_stats m)" by (simp add: m msorted_initialize)
  ultimately have n: "\<forall>(name, fs) \<in> set (fm_fs_stats m). \<not> fs_root fs"
    using mget_set by (fastforce simp: root_names_def)
  obtain e fs st' where u: "usage_loop (extra_usage_cached later m) usage' ctx_err (fm_fs_stats m) st = (e, fs, st')"
    by (metis surj_pair)
  have "st' = st" using usage_loop_no_root [OF n, of "extra_usage_cached later m" usage' ctx_err st] by (simp add: u)
  then show ?thesis
    using \<open>root_names (fm_fs_stats m) = {}\<close>
    by (cases err0; cases e) (simp_all add: update_disk_usage_def Let_def u)
qed

text \<open>
  \<open>DISK_USAGE_CACHE\<close> lets disks sleep: while the extra filesystems are cached, an update depends
  on what the root's mount point answers and on nothing else, and it leaves every extra filesystem and
  the time of the last reading as they were.
\<close>

theorem cached_usage_reads_root_only:
  assumes "extra_usage_cached now m"
    and "\<forall>(name, fs) \<in> set (fm_fs_stats m). fs_root fs \<longrightarrow>
      usage (fs_mountpoint fs) = usage' (fs_mountpoint fs) \<and> ctx_err (fs_mountpoint fs) = ctx_err' (fs_mountpoint fs)"
  shows "update_disk_usage err0 usage ctx_err now m st = update_disk_usage err0 usage' ctx_err' now m st
    \<and> fm_last_disk_usage_update (fst (snd (update_disk_usage err0 usage ctx_err now m st))) = fm_last_disk_usage_update m
    \<and> (\<forall>name fs. mget (fm_fs_stats m) name = Some fs \<and> \<not> fs_root fs \<longrightarrow>
        mget (fm_fs_stats (fst (snd (update_disk_usage err0 usage ctx_err now m st)))) name = Some fs)"
proof -
  have 1: "usage_loop True usage ctx_err stats st = usage_loop True usage' ctx_err' stats st"
    if "\<forall>(name, fs) \<in> set stats. fs_root fs \<longrightarrow>
      usage (fs_mountpoint fs) = usage' (fs_mountpoint fs) \<and> ctx_err (fs_mountpoint fs) = ctx_err' (fs_mountpoint fs)" for stats st
    using that
  proof (induction stats arbitrary: st)
    case (Cons x rest)
    obtain name fs where x: "x = (name, fs)" by (cases x)
    have "usage_loop True usage ctx_err rest st = usage_loop True usage' ctx_err' rest st" for st
      using Cons by simp
    then show ?case using Cons.prems by (simp add: x split: sum.split option.split)
  qed simp
  have 2: "mget (fst (snd (usage_loop True usage ctx_err stats st))) name = Some fs"
    if "mget stats name = Some fs" "\<not> fs_root fs" for stats name fs st
    using that by (induction True usage ctx_err stats st rule: usage_loop.induct)
      (auto split: prod.splits sum.splits option.splits if_splits)
  obtain e fs st' where u: "usage_loop True usage ctx_err (fm_fs_stats m) st = (e, fs, st')"
    by (metis surj_pair)
  have u': "usage_loop True usage' ctx_err' (fm_fs_stats m) st = (e, fs, st')"
    using 1 [OF assms(2)] u by simp
  have "\<forall>name g. mget (fm_fs_stats m) name = Some g \<and> \<not> fs_root g \<longrightarrow> mget fs name = Some g"
    using 2 [of "fm_fs_stats m" _ _ st] by (simp add: u)
  then show ?thesis
    using assms(1) by (cases err0; cases e) (simp_all add: update_disk_usage_def Let_def u u')
qed

section \<open>Rates\<close>

definition bounded_fs :: "fs_stats \<Rightarrow> bool" where
  "bounded_fs fs = (fle (fs_disk_read_ps fs) (Num 50000) \<and> fle (fs_disk_write_ps fs) (Num 50000))"

definition bounded_stats :: "stats \<Rightarrow> bool" where
  "bounded_stats st = (fle (s_disk_read_ps st) (Num 50000) \<and> fle (s_disk_write_ps st) (Num 50000))"

definition bounded_manager :: "fs_manager \<Rightarrow> bool" where
  "bounded_manager m = (\<forall>name fs. mget (fm_fs_stats m) name = Some fs \<longrightarrow> bounded_fs fs)"

lemma fle_zero_limit [simp]: "fle (Num 0) (Num 50000)"
  by simp

lemma outcome_rates:
  assumes "disk_outcome d prev ms = Rates bytes mb io"
  shows "fle (fst mb) (Num 50000) \<and> fle (snd mb) (Num 50000) \<and> 100 \<le> ms \<and> \<not> disk_counter_reset d prev
    \<and> bytes = ((dc_read_bytes d - pd_read_bytes prev) * 1000 div ms, (dc_write_bytes d - pd_write_bytes prev) * 1000 div ms)
    \<and> mb = (bytes_to_megabytes (of_uint64 (fst bytes)), bytes_to_megabytes (of_uint64 (snd bytes)))
    \<and> io = disk_io_stats d prev ms"
  using assms by (auto simp: disk_outcome_def Let_def not_flt split: if_splits)

lemma set_fs_rates_bounded:
  "fle (fst mb) (Num 50000) \<Longrightarrow> fle (snd mb) (Num 50000) \<Longrightarrow> bounded_fs (set_fs_rates d now bytes mb io fs)"
  by (simp add: bounded_fs_def set_fs_rates_def)

lemma put_fs_simps [simp]:
  "fm_fs_stats (put_fs name fs m) = mput name fs (fm_fs_stats m)"
  "fm_fs_stats (set_disk_prev c name p m) = fm_fs_stats m"
  "fm_disk_prev (put_fs name fs m) = fm_disk_prev m"
  "fm_disk_prev (initialize_disk_io_stats counters now m) = fm_disk_prev m"
  by (simp_all add: put_fs_def set_disk_prev_def initialize_disk_io_stats_def)

lemma initialize_bounded: "bounded_manager m \<Longrightarrow> bounded_manager (initialize_disk_io_stats counters now m)"
  by (fastforce simp: bounded_manager_def initialize_disk_io_stats_mget bounded_fs_def split: option.splits)

lemma put_bounded: "bounded_manager m \<Longrightarrow> bounded_fs fs \<Longrightarrow> bounded_manager (put_fs name fs m)"
  by (simp add: bounded_manager_def)

lemma set_disk_prev_bounded [simp]: "bounded_manager (set_disk_prev c name p m) = bounded_manager m"
  by (simp add: bounded_manager_def)

text \<open>The names and the roots stay; names stay because a name that is put is already there.\<close>

lemma mput_present: "mget m k \<noteq> None \<Longrightarrow> msorted m \<Longrightarrow> map fst (mput k v m) = map fst m"
proof (induction k v m rule: mput.induct)
  case (2 k v k' v' m)
  have "\<not> k < k'"
  proof
    assume l: "k < k'"
    then obtain w where "mget m k = Some w" using 2(2) by (auto split: if_splits)
    then have "k' < k" using 2(3) by (force simp: msorted_Cons dest: mget_SomeD)
    then show False using l by simp
  qed
  then show ?case using 2 by (auto simp: msorted_Cons)
qed simp

definition disk_inv :: "fs_manager \<Rightarrow> fs_manager \<Rightarrow> bool" where
  "disk_inv m0 m = (bounded_manager m \<and> map fst (fm_fs_stats m) = map fst (fm_fs_stats m0)
     \<and> root_names (fm_fs_stats m) = root_names (fm_fs_stats m0))"

lemma fs_root_set_rates [simp]: "fs_root (set_fs_rates d now bytes mb io fs) = fs_root fs"
  by (simp add: set_fs_rates_def)

lemma root_names_put: "mget s k = Some fs \<Longrightarrow> fs_root fs' = fs_root fs \<Longrightarrow> root_names (mput k fs' s) = root_names s"
  by (auto simp: root_names_def)

lemma msorted_names: "map fst a = map fst b \<Longrightarrow> msorted a \<Longrightarrow> msorted b"
  by (simp add: msorted_def)

lemma apply_disk_counter_inv:
  assumes "disk_inv m0 m" "msorted (fm_fs_stats m0)" "bounded_stats st"
    and "apply_disk_counter c counters now (m, st) (name, d) = (m', st')"
  shows "disk_inv m0 m' \<and> bounded_stats st'"
proof (cases "mget (fm_fs_stats m) (dc_name d)")
  case None
  then show ?thesis using assms by (simp add: apply_disk_counter_def)
next
  case (Some fs)
  have s: "msorted (fm_fs_stats m)"
    using assms(1,2) by (auto simp: disk_inv_def msorted_def)
  let ?m1 = "set_disk_prev c name (prev_disk_from_counter d now) m"
  have put: "disk_inv m0 (put_fs (dc_name d) (set_fs_rates d now bytes mb io fs) ?m1)"
    if "fle (fst mb) (Num 50000)" "fle (snd mb) (Num 50000)" for bytes mb io
    using assms(1) that Some
    by (auto simp: disk_inv_def mput_present [OF _ s] root_names_put [OF Some] intro!: put_bounded set_fs_rates_bounded)
  show ?thesis
  proof (cases "outcome_of c now m fs name d")
    case (Rates bytes mb io)
    then have "fle (fst mb) (Num 50000) \<and> fle (snd mb) (Num 50000)"
      unfolding outcome_of_def Let_def by (meson outcome_rates)
    then show ?thesis
      using assms(3,4) Some Rates put [of mb bytes io]
      by (auto simp: apply_disk_counter_def bounded_stats_def set_root_rates_def)
  qed (use assms Some put [of "(Num 0, Num 0)"] in \<open>auto simp: apply_disk_counter_def bounded_stats_def set_root_rates_def
      disk_inv_def initialize_bounded split: if_splits\<close>)
qed

lemma apply_disk_io_counters_inv:
  assumes "disk_inv m0 m" "msorted (fm_fs_stats m0)" "bounded_stats st"
    and "apply_disk_io_counters c counters now m st = (m', st')"
  shows "disk_inv m0 m' \<and> bounded_stats st'"
proof -
  let ?I = "\<lambda>s. disk_inv m0 (fst s) \<and> bounded_stats (snd s)"
  define p where "p = (case fm_disk_prev m c of None \<Rightarrow> (fm_disk_prev m)(c \<mapsto> (\<lambda>_. None)) | Some _ \<Rightarrow> fm_disk_prev m)"
  have "?I (foldl (apply_disk_counter c counters now) (m\<lparr>fm_disk_prev := p\<rparr>, st) counters)"
  proof (rule foldl_invariant [where I = ?I])
    show "?I (m\<lparr>fm_disk_prev := p\<rparr>, st)" using assms by (simp add: disk_inv_def bounded_manager_def)
  next
    fix s x assume "?I s" "x \<in> set counters"
    then show "?I (apply_disk_counter c counters now s x)"
      using apply_disk_counter_inv [OF _ assms(2)] by (cases s; cases x) (metis fst_conv snd_conv surj_pair)
  qed
  then show ?thesis using assms(4) by (simp add: apply_disk_io_counters_def p_def)
qed

text \<open>What a tick does to the disks: the usage, then the counters, each with a statistics record of its own.\<close>

datatype disk_event =
    UsageEvent "string \<Rightarrow> disk_usage res" "string \<Rightarrow> go_error option" int
  | IoEvent "io_map res" "go_error option" int "16 word"

fun disk_event_step :: "fs_manager \<Rightarrow> stats \<Rightarrow> disk_event \<Rightarrow> fs_manager \<times> stats" where
  "disk_event_step m st (UsageEvent usage ctx_err now) = snd (update_disk_usage None usage ctx_err now m st)"
| "disk_event_step m st (IoEvent counters ctx_err now c) = snd (update_disk_io counters ctx_err now c m st)"

definition disk_run :: "fs_manager \<Rightarrow> disk_event list \<Rightarrow> fs_manager" where
  "disk_run m events = foldl (\<lambda>m e. fst (disk_event_step m zero_stats e)) m events"

lemma usage_loop_bounded:
  "\<forall>(name, fs) \<in> set stats. bounded_fs fs \<Longrightarrow> bounded_stats st \<Longrightarrow>
    (\<forall>(name, fs) \<in> set (fst (snd (usage_loop x usage ctx_err stats st))). bounded_fs fs)
    \<and> bounded_stats (snd (snd (usage_loop x usage ctx_err stats st)))"
  by (induction x usage ctx_err stats st rule: usage_loop.induct)
    (auto simp: bounded_fs_def bounded_stats_def fs_usage_def unmounted_def root_usage_stats_def
      split: prod.splits sum.splits option.splits)

lemma bounded_manager_set:
  assumes "msorted (fm_fs_stats m)"
  shows "bounded_manager m \<longleftrightarrow> (\<forall>(name, fs) \<in> set (fm_fs_stats m). bounded_fs fs)"
  using mget_set [OF assms] by (fastforce simp: bounded_manager_def dest: mget_SomeD)

lemma disk_event_inv:
  assumes "disk_inv m0 m" "msorted (fm_fs_stats m0)" "bounded_stats st" "disk_event_step m st e = (m', st')"
  shows "disk_inv m0 m' \<and> bounded_stats st'"
proof (cases e)
  case (UsageEvent usage ctx_err now)
  have s: "msorted (fm_fs_stats m)"
    using assms(1,2) by (auto simp: disk_inv_def msorted_def)
  obtain er fs st2 where u: "usage_loop (extra_usage_cached now m) usage ctx_err (fm_fs_stats m) st = (er, fs, st2)"
    by (metis surj_pair)
  have n: "map fst fs = map fst (fm_fs_stats m)" "root_names fs = root_names (fm_fs_stats m)"
    using usage_loop_roots [of "extra_usage_cached now m" usage ctx_err "fm_fs_stats m" st] by (simp_all add: u)
  have b: "\<forall>(name, g) \<in> set fs. bounded_fs g" "bounded_stats st2"
    using usage_loop_bounded [of "fm_fs_stats m" st "extra_usage_cached now m" usage ctx_err] assms(1,3) bounded_manager_set [OF s]
    by (auto simp: u disk_inv_def)
  have fs: "fm_fs_stats m' = fs \<and> st' = st2"
    using assms(4) by (cases er) (auto simp: UsageEvent update_disk_usage_def Let_def u)
  moreover have "msorted fs" using s n(1) by (simp add: msorted_def)
  ultimately have "bounded_manager m'" using b bounded_manager_set [of m'] by simp
  then show ?thesis
    using assms(1) fs n b by (simp add: disk_inv_def)
next
  case (IoEvent counters ctx_err now c)
  then show ?thesis
    using assms apply_disk_io_counters_inv [OF assms(1-3)]
    by (auto simp: update_disk_io_def split: sum.splits option.splits prod.splits)
qed

lemma disk_run_inv:
  assumes "disk_inv m0 m" "msorted (fm_fs_stats m0)"
  shows "disk_inv m0 (disk_run m events)"
  unfolding disk_run_def
proof (rule foldl_invariant [where I = "disk_inv m0", OF assms(1)])
  fix m e assume i: "disk_inv m0 m"
  have "bounded_stats zero_stats" by (simp add: bounded_stats_def zero_stats_def)
  then show "disk_inv m0 (fst (disk_event_step m zero_stats e))"
    using disk_event_inv [OF i assms(2)] by (metis surjective_pairing)
qed

lemma bounded_tracked: "bounded_fs (tracked_fs r mountpoint name)"
  by (simp add: bounded_fs_def tracked_fs_def zero_fs_stats_def)

lemma initialize_disk_info_bounded:
  "bounded_manager (initialize_disk_info filesystem partitions counters mnt usage extra folders now (new_fs_manager cache))"
proof -
  let ?I = "\<lambda>stats. \<forall>(name, fs) \<in> set stats. bounded_fs fs"
  have put: "?I (mput k fs' stats)" if "?I stats" "bounded_fs fs'" for k fs' stats
    using that by (induction k fs' stats rule: mput.induct) auto
  have "?I (discover_filesystems (new_discovery filesystem partitions counters mnt usage) extra folders [])"
    by (rule discover_induct [where I = ?I]) (simp, rule put [OF _ bounded_tracked])
  then have "?I (prune_duplicate_root_extra_filesystems usage
      (discover_filesystems (new_discovery filesystem partitions counters mnt usage) extra folders []))"
    using set_prune by blast
  then show ?thesis
    unfolding initialize_disk_info_def Let_def
    by (intro initialize_bounded) (fastforce simp: bounded_manager_def new_fs_manager_def dest: mget_SomeD)
qed

text \<open>
  C13: Whatever the disks and their counters report, in any order, the agent keeps watching exactly the
  filesystems that it found at the start, each under its name and with the same root, and neither a
  filesystem nor the host is ever said to read or write more than 50000 MB/s.
\<close>

theorem disk_run_invariant:
  "let m0 = initialize_disk_info filesystem partitions counters mnt usage extra folders now (new_fs_manager cache);
       m = disk_run m0 events
   in map fst (fm_fs_stats m) = map fst (fm_fs_stats m0)
     \<and> root_names (fm_fs_stats m) = root_names (fm_fs_stats m0)
     \<and> list_all (\<lambda>(name, fs). bounded_fs fs) (fm_fs_stats m)
     \<and> bounded_stats (snd (disk_event_step m zero_stats event))"
proof -
  define m0 where "m0 = initialize_disk_info filesystem partitions counters mnt usage extra folders now (new_fs_manager cache)"
  define m where "m = disk_run m0 events"
  have s: "msorted (fm_fs_stats m0)" by (simp add: m0_def msorted_initialize)
  have "bounded_manager m0" unfolding m0_def by (rule initialize_disk_info_bounded)
  then have i: "disk_inv m0 m" unfolding m_def by (intro disk_run_inv s) (simp add: disk_inv_def)
  then have "msorted (fm_fs_stats m)" using s by (simp add: disk_inv_def msorted_def)
  then have "list_all (\<lambda>(name, fs). bounded_fs fs) (fm_fs_stats m)"
    using i by (simp add: disk_inv_def bounded_manager_set list_all_iff)
  moreover have "bounded_stats (snd (disk_event_step m zero_stats event))"
    using disk_event_inv [OF i s, of zero_stats event] by (simp add: bounded_stats_def zero_stats_def prod_eq_iff)
  ultimately show ?thesis
    using i by (simp add: Let_def m0_def [symmetric] m_def [symmetric] disk_inv_def)
qed

section \<open>One tick\<close>

definition counter_view :: "16 word \<Rightarrow> fs_manager \<Rightarrow> string \<Rightarrow> fs_stats option \<times> prev_disk option" where
  "counter_view c m name = (mget (fm_fs_stats m) name, disk_prev_of c m name)"

definition plausible :: "16 word \<Rightarrow> int \<Rightarrow> fs_manager \<Rightarrow> string \<times> disk_counters \<Rightarrow> bool" where
  "plausible c now m entry = (case entry of (name, d) \<Rightarrow> dc_name d = name \<and>
     (case mget (fm_fs_stats m) name of None \<Rightarrow> True | Some fs \<Rightarrow> outcome_of c now m fs name d \<noteq> InvalidRate))"

lemma disk_prev_of_simps [simp]:
  "disk_prev_of c (set_disk_prev c name p m) name' = (if name' = name then Some p else disk_prev_of c m name')"
  "disk_prev_of c (put_fs name fs m) name' = disk_prev_of c m name'"
  by (simp_all add: disk_prev_of_def set_disk_prev_def split: option.splits)

lemma outcome_of_view:
  "disk_prev_of c m' name = disk_prev_of c m name \<Longrightarrow> outcome_of c now m' fs name d = outcome_of c now m fs name d"
  by (simp add: outcome_of_def)

lemma plausible_view: "counter_view c m' name = counter_view c m name \<Longrightarrow> plausible c now m' (name, d) = plausible c now m (name, d)"
  by (cases "mget (fm_fs_stats m) name") (auto simp: counter_view_def plausible_def outcome_of_def)

lemma apply_other:
  assumes "plausible c now (fst s) (name, d)" "name' \<noteq> name"
  shows "counter_view c (fst (apply_disk_counter c counters now s (name, d))) name' = counter_view c (fst s) name'"
  using assms by (cases s) (auto simp: apply_disk_counter_def plausible_def counter_view_def Let_def
    split: option.splits disk_verdict.splits)

lemma foldl_other:
  assumes "distinct (map fst es)" "\<forall>e \<in> set es. plausible c now (fst s) e" "name \<notin> fst ` set es"
  shows "counter_view c (fst (foldl (apply_disk_counter c counters now) s es)) name = counter_view c (fst s) name"
  using assms
proof (induction es arbitrary: s)
  case (Cons e es)
  obtain n d where e: "e = (n, d)" by (cases e)
  let ?s = "apply_disk_counter c counters now s e"
  have v: "counter_view c (fst ?s) n' = counter_view c (fst s) n'" if "n' \<noteq> n" for n'
    using apply_other [of c now s n d n'] Cons.prems(2) that by (simp add: e)
  have "\<forall>e' \<in> set es. plausible c now (fst ?s) e'"
  proof
    fix e' assume m: "e' \<in> set es"
    obtain n' d' where e': "e' = (n', d')" by (cases e')
    have "n' \<noteq> n" using Cons.prems(1) m by (force simp: e e')
    then show "plausible c now (fst ?s) e'"
      using plausible_view [OF v, of n' now d'] Cons.prems(2) m by (simp add: e')
  qed
  then have "counter_view c (fst (foldl (apply_disk_counter c counters now) ?s es)) name = counter_view c (fst ?s) name"
    using Cons.prems by (intro Cons.IH) auto
  then show ?case using v [of name] Cons.prems(3) by (simp add: e)
qed simp

lemma foldl_split: "foldl f s (xs @ x # ys) = foldl f (f (foldl f s xs) x) ys"
  by simp


section \<open>Witnesses\<close>

definition sample_counter :: "string \<Rightarrow> u64 \<Rightarrow> disk_counters" where
  "sample_counter name bytes = \<lparr>dc_name = name, dc_label = [], dc_read_count = 5, dc_write_count = 5,
     dc_read_bytes = bytes, dc_write_bytes = 0, dc_read_time = 10, dc_write_time = 10, dc_io_time = 10,
     dc_weighted_io = 10\<rparr>"

definition sample_counters :: io_map where
  "sample_counters = [(''sda'', sample_counter ''sda'' 1000), (''sda2'', sample_counter ''sda2'' 500)]"

definition sample_usage :: "string \<Rightarrow> disk_usage res" where
  "sample_usage path = Inr \<lparr>du_total = 2 ^ 40, du_used = 2 ^ 38, du_used_percent = Num 25\<rparr>"

text \<open>A btrfs disk whose subvolume is mounted on \<open>/data\<close>.\<close>

definition sample_partitions :: "disk_partition list" where
  "sample_partitions = [\<lparr>dp_device = ''/dev/sda2'', dp_mountpoint = ''/''\<rparr>,
     \<lparr>dp_device = ''/dev/sda2'', dp_mountpoint = ''/data''\<rparr>]"


theorem root_filesystem_tracked_witness:
  "\<exists>k. root_names (fm_fs_stats (initialize_disk_info None sample_partitions sample_counters ''/'' sample_usage None None 0 (new_fs_manager None))) = {k}"
proof -
  have "list_all (\<lambda>p. path_dir (dp_mountpoint p) \<noteq> ''/extra-filesystems'') sample_partitions" by code_simp
  then show ?thesis using root_filesystem_tracked [OF refl, of None sample_partitions sample_counters "''/''" sample_usage None None 0 None] by simp
qed

theorem extra_shadows_root_witness:
  "root_names (fm_fs_stats (initialize_disk_info None sample_partitions sample_counters ''/'' sample_usage (Some ''/data'') None 0 (new_fs_manager None))) = {}
    \<and> s_disk_pct (snd (snd (update_disk_usage None sample_usage (\<lambda>_. None) 9
        (initialize_disk_info None sample_partitions sample_counters ''/'' sample_usage (Some ''/data'') None 0 (new_fs_manager None)) zero_stats))) = Num 0"
proof -
  let ?m = "initialize_disk_info None sample_partitions sample_counters ''/'' sample_usage (Some ''/data'') None 0 (new_fs_manager None)"
  have "root_names (fm_fs_stats ?m) = {} \<and> snd (snd (update_disk_usage None sample_usage (\<lambda>_. None) 9 ?m zero_stats)) = zero_stats"
  proof (rule extra_shadows_root [where key = "''sda2''", OF refl])
    show "mget (add_configured_extra_filesystems (new_discovery None sample_partitions sample_counters ''/'' sample_usage) ''/data'' []) ''sda2'' \<noteq> None"
      by code_simp
    show "\<forall>p \<in> set sample_partitions. is_root_fallback_partition p ''/'' \<longrightarrow> find_io_device (path_base (dp_device p)) sample_counters = Some ''sda2''"
      by code_simp
    show "\<exists>p \<in> set sample_partitions. is_root_fallback_partition p ''/''" by code_simp
    show "map_of sample_counters ''sda2'' \<noteq> None" by code_simp
    show "path_base ''sda2'' = ''sda2''" by code_simp
  qed
  then show ?thesis by (simp add: zero_stats_def)
qed

definition sample_fs_manager :: fs_manager where
  "sample_fs_manager = \<lparr>fm_fs_names = [''sda2''],
     fm_fs_stats = [(''nas'', tracked_fs False ''/nas'' []), (''sda2'', tracked_fs True ''/'' [])],
     fm_disk_prev = [60000 \<mapsto> [''sda2'' \<mapsto> prev_disk_from_counter (sample_counter ''sda2'' 500) 0]],
     fm_disk_usage_cache_duration = 100, fm_last_disk_usage_update = Some 0\<rparr>"

theorem cached_usage_reads_root_only_witness:
  "update_disk_usage None sample_usage (\<lambda>_. None) 50 sample_fs_manager zero_stats
    = update_disk_usage None (\<lambda>path. if path = ''/'' then sample_usage path else Inl ErrNotExist) (\<lambda>_. None) 50 sample_fs_manager zero_stats"
proof -
  have "extra_usage_cached 50 sample_fs_manager" by (simp add: extra_usage_cached_def sample_fs_manager_def)
  moreover have "\<forall>(name, fs) \<in> set (fm_fs_stats sample_fs_manager). fs_root fs \<longrightarrow>
      sample_usage (fs_mountpoint fs) = (if fs_mountpoint fs = ''/'' then sample_usage (fs_mountpoint fs) else Inl ErrNotExist)
      \<and> (None :: go_error option) = None"
    by (simp add: sample_fs_manager_def tracked_fs_def)
  ultimately show ?thesis by (rule cached_usage_reads_root_only [THEN conjunct1])
qed


end
