(* ===== verification/Docker_Api.thy ===== *)
theory Docker_Api
  imports Codecs Json_Over Golib
begin

text \<open>
  \<open>internal/integration/docker/dockerapi/api.go\<close>: the answers of the Docker engine and how
  \<open>encoding/json\<close> reads them.  The client decodes into objects that it keeps, so every decoder takes
  the old object and leaves what the answer does not mention.  Go matches the names of untagged
  fields without regard to case.
\<close>

section \<open>Times in RFC 3339\<close>

definition digits_between :: "nat \<Rightarrow> nat \<Rightarrow> nat \<Rightarrow> nat \<Rightarrow> string \<Rightarrow> nat option" where
  "digits_between i n lo hi s =
     (if length s < i + n then None
      else case digits_value 0 (take n (drop i s)) of
        None \<Rightarrow> None | Some v \<Rightarrow> if lo \<le> v \<and> v \<le> hi then Some v else None)"

text \<open>Days since 1970-01-01 in the proleptic Gregorian calendar.\<close>

definition leap_year :: "nat \<Rightarrow> bool" where
  "leap_year y = (y mod 4 = 0 \<and> (y mod 100 \<noteq> 0 \<or> y mod 400 = 0))"

definition days_in :: "nat \<Rightarrow> nat \<Rightarrow> nat" where
  "days_in y m = (if m = 2 then (if leap_year y then 29 else 28) else if m \<in> {4, 6, 9, 11} then 30 else 31)"

definition days_since_epoch :: "nat \<Rightarrow> nat \<Rightarrow> nat \<Rightarrow> int" where
  "days_since_epoch y m d =
     (let before = int y - 1
      in before * 365 + before div 4 - before div 100 + before div 400 - 719162
         + sum_list (map (\<lambda>k. int (days_in y k)) [1..<m]) + int d - 1)"

definition parse_zone :: "string \<Rightarrow> int option" where
  "parse_zone s =
     (if s = ''Z'' then Some 0
      else if length s = 6 \<and> (hd s = CHR ''+'' \<or> hd s = CHR ''-'') \<and> s ! 3 = CHR '':''
      then (case (digits_between 1 2 0 23 s, digits_between 4 2 0 59 s) of
          (Some h, Some m) \<Rightarrow> Some ((if hd s = CHR ''-'' then -1 else 1) * (int h * 3600 + int m * 60))
        | _ \<Rightarrow> None)
      else None)"

text \<open>The fraction of a second to nine digits, with its length.\<close>

definition parse_nanoseconds :: "string \<Rightarrow> int \<times> string" where
  "parse_nanoseconds s =
     (if length s \<ge> 2 \<and> hd s = CHR ''.'' \<and> is_digit (s ! 1)
      then let ds = takeWhile is_digit (tl s); used = take 9 ds
           in (case digits_value 0 used of
                 None \<Rightarrow> 0 | Some v \<Rightarrow> int v * 10 ^ (9 - length used), dropWhile is_digit (tl s))
      else (0, s))"

definition parse_rfc3339 :: "string \<Rightarrow> int option" where
  "parse_rfc3339 s =
     (if length s < 20 \<or> s ! 4 \<noteq> CHR ''-'' \<or> s ! 7 \<noteq> CHR ''-'' \<or> s ! 10 \<noteq> CHR ''T''
        \<or> s ! 13 \<noteq> CHR '':'' \<or> s ! 16 \<noteq> CHR '':'' then None
      else case (digits_between 0 4 0 9999 s, digits_between 5 2 1 12 s) of
        (Some y, Some m) \<Rightarrow> (case (digits_between 8 2 1 (days_in y m) s, digits_between 11 2 0 23 s,
            digits_between 14 2 0 59 s, digits_between 17 2 0 59 s) of
          (Some d, Some h, Some mi, Some sec) \<Rightarrow> (case parse_nanoseconds (drop 19 s) of (nsec, rest) \<Rightarrow>
            map_option (\<lambda>off. ((days_since_epoch y m d * 86400 + int h * 3600 + int mi * 60 + int sec - off)
                * second + nsec)) (parse_zone rest))
        | _ \<Rightarrow> None)
      | _ \<Rightarrow> None)"

definition dec_time :: "json \<Rightarrow> gotime res" where
  "dec_time j = (case j of
     JStr s \<Rightarrow> (case parse_rfc3339 s of None \<Rightarrow> Inl ErrJson | Some t \<Rightarrow> Inr (Some t))
   | _ \<Rightarrow> Inl ErrJson)"

section \<open>The list of containers\<close>

record api_port =
  ap_public_port :: "16 word"
  ap_ip :: string

record api_info =
  ai_id :: string
  ai_id_short :: string
  ai_names :: "string list"
  ai_status :: string
  ai_state :: string
  ai_image :: string
  ai_health_status :: string
  ai_ports :: "api_port list"

definition zero_api_port :: api_port where
  "zero_api_port = \<lparr>ap_public_port = 0, ap_ip = []\<rparr>"

definition zero_api_info :: api_info where
  "zero_api_info = \<lparr>ai_id = [], ai_id_short = [], ai_names = [], ai_status = [], ai_state = [],
     ai_image = [], ai_health_status = [], ai_ports = []\<rparr>"

definition dec_api_port :: "api_port \<Rightarrow> json \<Rightarrow> api_port res" where
  "dec_api_port = dec_struct_over (\<lambda>old fs.
     attempt (jfield fs ''publicport'' (ap_public_port old) dec_word) (\<lambda>port.
     attempt (jfield fs ''ip'' (ap_ip old) dec_str) (\<lambda>ip.
     Inr \<lparr>ap_public_port = port, ap_ip = ip\<rparr>)))"

text \<open>A slice field: absent keeps the old slice, \<open>null\<close> is nil.\<close>

definition slice_field :: "(string \<times> json) list \<Rightarrow> string \<Rightarrow> 'a list \<Rightarrow> ('a list \<Rightarrow> json \<Rightarrow> 'a list res) \<Rightarrow> 'a list res" where
  "slice_field fs key old dec = (case jlast fs key of None \<Rightarrow> Inr old | Some j \<Rightarrow> dec old j)"

definition dec_api_info :: "api_info \<Rightarrow> json \<Rightarrow> api_info res" where
  "dec_api_info = dec_struct_over (\<lambda>old fs.
     attempt (jfield fs ''id'' (ai_id old) dec_str) (\<lambda>id.
     attempt (jfield fs ''idshort'' (ai_id_short old) dec_str) (\<lambda>id_short.
     attempt (slice_field fs ''names'' (ai_names old) (dec_slice_over dec_str_over [])) (\<lambda>names.
     attempt (jfield fs ''status'' (ai_status old) dec_str) (\<lambda>status.
     attempt (jfield fs ''state'' (ai_state old) dec_str) (\<lambda>state.
     attempt (jfield fs ''image'' (ai_image old) dec_str) (\<lambda>image.
     attempt (jfield fs ''health'' (ai_health_status old)
       (dec_struct_over (\<lambda>h hs. jfield hs ''status'' h dec_str) (ai_health_status old))) (\<lambda>health.
     attempt (slice_field fs ''ports'' (ai_ports old) (dec_slice_over dec_api_port zero_api_port)) (\<lambda>ports.
     Inr \<lparr>ai_id = id, ai_id_short = id_short, ai_names = names, ai_status = status, ai_state = state,
       ai_image = image, ai_health_status = health, ai_ports = ports\<rparr>)))))))))"

section \<open>The resources of a container\<close>

record network_stats =
  ns_rx_bytes :: u64
  ns_tx_bytes :: u64

record cpu_usage =
  cu_total_usage :: u64

record docker_cpu_stats =
  kc_cpu_usage :: cpu_usage
  kc_system_usage :: u64

record memory_stats_stats =
  mm_cache :: u64
  mm_inactive_file :: u64

record memory_stats =
  ms_usage :: u64
  ms_stats :: memory_stats_stats

record api_stats =
  as_read :: gotime
  as_networks :: "(string, network_stats) gmap option"
  as_cpu_stats :: docker_cpu_stats
  as_memory_stats :: memory_stats

definition zero_api_stats :: api_stats where
  "zero_api_stats = \<lparr>as_read = None, as_networks = None,
     as_cpu_stats = \<lparr>kc_cpu_usage = \<lparr>cu_total_usage = 0\<rparr>, kc_system_usage = 0\<rparr>,
     as_memory_stats = \<lparr>ms_usage = 0, ms_stats = \<lparr>mm_cache = 0, mm_inactive_file = 0\<rparr>\<rparr>\<rparr>"

definition dec_network_stats :: "json \<Rightarrow> network_stats res" where
  "dec_network_stats = dec_struct (\<lambda>fs.
     attempt (jfield fs ''rx_bytes'' 0 dec_word) (\<lambda>rx.
     attempt (jfield fs ''tx_bytes'' 0 dec_word) (\<lambda>tx.
     Inr \<lparr>ns_rx_bytes = rx, ns_tx_bytes = tx\<rparr>))) \<lparr>ns_rx_bytes = 0, ns_tx_bytes = 0\<rparr>"

definition dec_cpu_usage :: "cpu_usage \<Rightarrow> json \<Rightarrow> cpu_usage res" where
  "dec_cpu_usage = dec_struct_over (\<lambda>old fs.
     attempt (jfield fs ''total_usage'' (cu_total_usage old) dec_word) (\<lambda>total.
     Inr \<lparr>cu_total_usage = total\<rparr>))"

definition dec_docker_cpu_stats :: "docker_cpu_stats \<Rightarrow> json \<Rightarrow> docker_cpu_stats res" where
  "dec_docker_cpu_stats = dec_struct_over (\<lambda>old fs.
     attempt (jfield fs ''cpu_usage'' (kc_cpu_usage old) (dec_cpu_usage (kc_cpu_usage old))) (\<lambda>usage.
     attempt (jfield fs ''system_cpu_usage'' (kc_system_usage old) dec_word) (\<lambda>sys.
     Inr \<lparr>kc_cpu_usage = usage, kc_system_usage = sys\<rparr>)))"

definition dec_memory_stats_stats :: "memory_stats_stats \<Rightarrow> json \<Rightarrow> memory_stats_stats res" where
  "dec_memory_stats_stats = dec_struct_over (\<lambda>old fs.
     attempt (jfield fs ''cache'' (mm_cache old) dec_word) (\<lambda>cache.
     attempt (jfield fs ''inactive_file'' (mm_inactive_file old) dec_word) (\<lambda>inactive.
     Inr \<lparr>mm_cache = cache, mm_inactive_file = inactive\<rparr>)))"

definition dec_memory_stats :: "memory_stats \<Rightarrow> json \<Rightarrow> memory_stats res" where
  "dec_memory_stats = dec_struct_over (\<lambda>old fs.
     attempt (jfield fs ''usage'' (ms_usage old) dec_word) (\<lambda>usage.
     attempt (jfield fs ''stats'' (ms_stats old) (dec_memory_stats_stats (ms_stats old))) (\<lambda>stats.
     Inr \<lparr>ms_usage = usage, ms_stats = stats\<rparr>)))"

text \<open>A \<open>null\<close> for the networks makes the map nil; otherwise the entries are added to the map.\<close>

definition dec_networks :: "(string, network_stats) gmap option \<Rightarrow> json \<Rightarrow> (string, network_stats) gmap option res" where
  "dec_networks old j = (case j of
     JNull \<Rightarrow> Inr None
   | JObj fs \<Rightarrow> attempt (fold_res (\<lambda>m (key, v). attempt (dec_network_stats v) (\<lambda>n. Inr (mput key n m)))
         (case old of None \<Rightarrow> [] | Some m \<Rightarrow> m) fs) (\<lambda>m. Inr (Some m))
   | _ \<Rightarrow> Inl ErrJson)"

definition dec_api_stats :: "api_stats \<Rightarrow> json \<Rightarrow> api_stats res" where
  "dec_api_stats = dec_struct_over (\<lambda>old fs.
     attempt (jfield fs ''read'' (as_read old) dec_time) (\<lambda>read_time.
     attempt (case jlast fs ''networks'' of None \<Rightarrow> Inr (as_networks old) | Some j \<Rightarrow> dec_networks (as_networks old) j) (\<lambda>networks.
     attempt (jfield fs ''cpu_stats'' (as_cpu_stats old) (dec_docker_cpu_stats (as_cpu_stats old))) (\<lambda>cpu.
     attempt (jfield fs ''memory_stats'' (as_memory_stats old) (dec_memory_stats (as_memory_stats old))) (\<lambda>memory.
     Inr \<lparr>as_read = read_time, as_networks = networks, as_cpu_stats = cpu, as_memory_stats = memory\<rparr>)))))"

definition calculate_cpu_percent_linux :: "u64 \<Rightarrow> u64 \<Rightarrow> api_stats \<Rightarrow> f64" where
  "calculate_cpu_percent_linux prev_cpu_container prev_cpu_system s =
     (let total = cu_total_usage (kc_cpu_usage (as_cpu_stats s)); sys = kc_system_usage (as_cpu_stats s) in
      if total < prev_cpu_container \<or> sys < prev_cpu_system then Num 0
      else let cpu_delta = total - prev_cpu_container; system_delta = sys - prev_cpu_system in
        if system_delta = 0 \<or> prev_cpu_container = 0 then Num 0
        else fmul (fdiv (of_uint64 cpu_delta) (of_uint64 system_delta)) (Num 100))"

section \<open>The host\<close>

record host_info =
  hi_operating_system :: string
  hi_kernel_version :: string
  hi_ncpu :: int
  hi_mem_total :: u64

definition zero_host_info :: host_info where
  "zero_host_info = \<lparr>hi_operating_system = [], hi_kernel_version = [], hi_ncpu = 0, hi_mem_total = 0\<rparr>"

definition dec_host_info :: "json \<Rightarrow> host_info res" where
  "dec_host_info = dec_struct (\<lambda>fs.
     attempt (jfield fs ''operatingsystem'' [] dec_str) (\<lambda>os.
     attempt (jfield fs ''kernelversion'' [] dec_str) (\<lambda>kernel.
     attempt (jfield fs ''ncpu'' 0 (dec_int 64)) (\<lambda>ncpu.
     attempt (jfield fs ''memtotal'' 0 dec_word) (\<lambda>mem.
     Inr \<lparr>hi_operating_system = os, hi_kernel_version = kernel, hi_ncpu = ncpu, hi_mem_total = mem\<rparr>))))) zero_host_info"

end
