(* ===== verification/Docker.thy ===== *)
theory Docker
  imports Docker_Api Delta_Tracker Go_Text
begin

text \<open>
  \<open>internal/integration/docker/docker.go\<close>: the manager that reads the containers of a Docker or Podman
  engine.  What the engine answers, the context's errors and the clock are arguments.

  The goroutines of a round do their work on the shared state under one mutex, so a round is a
  sequence of atomic updates; the order in which the goroutines get the mutex is an argument.
  Removing a container's old data in the main loop touches nothing that the update of another
  container reads, so the removals are done before the updates.  The list of containers is decoded
  over the objects of the previous one, which the manager keeps: it is a buffer, and the containers
  of a round are the indices of its first elements.  An answer that does not decode leaves the object
  it was decoded into unchanged.  A container without the name or the id that the code slices makes
  the agent panic, for which the result is \<open>None\<close>.
\<close>

section \<open>State\<close>

record docker_manager =
  dk_containers :: "api_info list"
  dk_container_stats :: "(string, container_stats) gmap"
  dk_good_docker_version :: bool
  dk_docker_version_checked :: bool
  dk_api_stats :: api_stats
  dk_exclude_containers :: "string list"
  dk_using_podman :: bool
  dk_last_cpu_container :: "16 word \<rightharpoonup> (string \<rightharpoonup> u64)"
  dk_last_cpu_system :: "16 word \<rightharpoonup> (string \<rightharpoonup> u64)"
  dk_network_sent_trackers :: "16 word \<rightharpoonup> (string, u64) tracker"
  dk_network_recv_trackers :: "16 word \<rightharpoonup> (string, u64) tracker"
  dk_last_network_read_time :: "16 word \<rightharpoonup> (string \<rightharpoonup> int)"

record api_response =
  ar_status_ok :: bool
  ar_status :: string
  ar_server :: string
  ar_body :: jtext

definition max_network_speed_bps :: u64 where "max_network_speed_bps = 5000000000"
definition max_memory_usage :: u64 where "max_memory_usage = 100 * 1024 * 1024 * 1024 * 1024"

section \<open>The engine\<close>

record version_response =
  vr_version :: string
  vr_components :: "string list"

definition dec_version_response :: "json \<Rightarrow> version_response res" where
  "dec_version_response = dec_struct (\<lambda>fs.
     attempt (jfield fs ''version'' [] dec_str) (\<lambda>version.
     attempt (jfield fs ''components'' [] (dec_list (dec_struct (\<lambda>c. jfield c ''name'' [] dec_str) []))) (\<lambda>components.
     Inr \<lparr>vr_version = version, vr_components = components\<rparr>))) \<lparr>vr_version = [], vr_components = []\<rparr>"

definition detect_podman_from_header :: "string \<Rightarrow> bool" where
  "detect_podman_from_header server = has_prefix ''Libpod'' server"

definition detect_podman_from_version :: "version_response option \<Rightarrow> bool" where
  "detect_podman_from_version info = (case info of
     None \<Rightarrow> False | Some v \<Rightarrow> list_ex (\<lambda>name. has_prefix ''Podman'' name) (vr_components v))"

definition detect_podman_engine :: "string \<Rightarrow> version_response option \<Rightarrow> bool" where
  "detect_podman_engine server info =
     (if detect_podman_from_header server then True else detect_podman_from_version info)"

text \<open>\<open>setIsPodman\<close>; the callback, which updates the system details, is left to the caller.\<close>

definition set_is_podman :: "docker_manager \<Rightarrow> docker_manager" where
  "set_is_podman m = (if dk_using_podman m then m
     else m\<lparr>dk_using_podman := True, dk_good_docker_version := True, dk_docker_version_checked := True\<rparr>)"

definition before_cut :: "char \<Rightarrow> string \<Rightarrow> string" where
  "before_cut c s = (case cut_at c s of None \<Rightarrow> s | Some (a, _) \<Rightarrow> a)"

definition docker_major_version :: "string \<Rightarrow> nat" where
  "docker_major_version version = (case cut_at (CHR ''.'') version of
     None \<Rightarrow> 0
   | Some (major, rest) \<Rightarrow> (case cut_at (CHR ''.'') rest of
       None \<Rightarrow> 0
     | Some (minor, patch_and_suffix) \<Rightarrow>
         let patch = before_cut (CHR ''+'') (before_cut (CHR ''-'') patch_and_suffix) in
         case parse_uint 64 major of
           None \<Rightarrow> 0
         | Some v \<Rightarrow> if parse_uint 64 minor = None \<or> parse_uint 64 patch = None then 0 else v))"

definition apply_docker_version_info :: "string \<Rightarrow> version_response \<Rightarrow> docker_manager \<Rightarrow> docker_manager" where
  "apply_docker_version_info server info m =
     (if detect_podman_engine server (Some info) then set_is_podman m
      else if 24 < docker_major_version (vr_version info) then m\<lparr>dk_good_docker_version := True\<rparr>
      else m)"

definition check_docker_version :: "api_response res \<Rightarrow> docker_manager \<Rightarrow> bool res \<times> docker_manager" where
  "check_docker_version answer m = (case answer of
     Inl e \<Rightarrow> (Inl e, m)
   | Inr resp \<Rightarrow>
       if \<not> ar_status_ok resp then (Inl (ErrText (''docker version request failed: '' @ ar_status resp)), m)
       else case unmarshal dec_version_response (ar_body resp) of
         Inl e \<Rightarrow> (Inl e, m)
       | Inr info \<Rightarrow> (Inr True, (apply_docker_version_info (ar_server resp) info m)\<lparr>dk_docker_version_checked := True\<rparr>))"

definition ensure_docker_version_checked :: "go_error option \<Rightarrow> api_response res \<Rightarrow> docker_manager \<Rightarrow> docker_manager" where
  "ensure_docker_version_checked ctx_err answer m =
     (if dk_docker_version_checked m \<or> ctx_err \<noteq> None then m else snd (check_docker_version answer m))"

definition get_docker_host :: "(string \<Rightarrow> bool) \<Rightarrow> string \<Rightarrow> string" where
  "get_docker_host exists uid =
     (let socks = [''/var/run/docker.sock'', ''/run/user/'' @ uid @ ''/podman/podman.sock'']
      in ''unix://'' @ (case find exists socks of Some sock \<Rightarrow> sock | None \<Rightarrow> hd socks))"

definition exclude_patterns :: "string option \<Rightarrow> string list" where
  "exclude_patterns env = (case env of
     None \<Rightarrow> [] | Some text \<Rightarrow> if text = [] then [] else filter (\<lambda>p. p \<noteq> []) (map trim_space (split_on (CHR '','') text)))"

text \<open>\<open>NewManager\<close> once the client is made: the state, then the probe, whose error is ignored.\<close>

definition new_docker_manager :: "string option \<Rightarrow> api_response res \<Rightarrow> docker_manager" where
  "new_docker_manager exclude_env version_answer = snd (check_docker_version version_answer
     \<lparr>dk_containers = [], dk_container_stats = [], dk_good_docker_version = False,
      dk_docker_version_checked = False, dk_api_stats = zero_api_stats,
      dk_exclude_containers = exclude_patterns exclude_env, dk_using_podman = False,
      dk_last_cpu_container = (\<lambda>_. None), dk_last_cpu_system = (\<lambda>_. None),
      dk_network_sent_trackers = (\<lambda>_. None), dk_network_recv_trackers = (\<lambda>_. None),
      dk_last_network_read_time = (\<lambda>_. None)\<rparr>)"

definition get_host_info :: "docker_manager option \<Rightarrow> api_response res \<Rightarrow> host_info \<times> go_error option" where
  "get_host_info dm answer = (case dm of
     None \<Rightarrow> (zero_host_info, None)
   | Some _ \<Rightarrow> (case answer of
       Inl e \<Rightarrow> (zero_host_info, Some e)
     | Inr resp \<Rightarrow> (case unmarshal dec_host_info (ar_body resp) of
         Inl e \<Rightarrow> (zero_host_info, Some e) | Inr info \<Rightarrow> (info, None))))"

definition is_podman :: "docker_manager option \<Rightarrow> bool" where
  "is_podman dm = (case dm of None \<Rightarrow> False | Some m \<Rightarrow> dk_using_podman m)"

section \<open>Names, ports and health\<close>

definition should_exclude_container :: "string \<Rightarrow> docker_manager \<Rightarrow> bool" where
  "should_exclude_container name m = list_ex (\<lambda>pattern. path_match pattern name) (dk_exclude_containers m)"

definition container_name :: "api_info \<Rightarrow> string" where
  "container_name ctr = tl (hd (ai_names ctr))"

text \<open>What the slices of \<open>Id\<close> and of the first name need.\<close>

definition container_sliceable :: "api_info \<Rightarrow> bool" where
  "container_sliceable ctr = (12 \<le> length (ai_id ctr) \<and> ai_names ctr \<noteq> [] \<and> hd (ai_names ctr) \<noteq> [])"

text \<open>
  The ports, sorted by the public port.  \<open>sort.Slice\<close> keeps the order of equal elements for at most
  twelve of them; which of several addresses of a port comes first is open beyond that.
\<close>

definition port_text :: "api_port \<Rightarrow> string" where
  "port_text p = (if ap_ip p = ''0.0.0.0'' \<or> ap_ip p = ''::'' then [] else ap_ip p @ '':'') @ nat_digits (unat (ap_public_port p))"

fun shown_ports :: "16 word set \<Rightarrow> api_port list \<Rightarrow> api_port list" where
  "shown_ports seen [] = []"
| "shown_ports seen (p # ps) =
     (if ap_public_port p = 0 \<or> ap_public_port p \<in> seen then shown_ports seen ps
      else p # shown_ports (insert (ap_public_port p) seen) ps)"

definition convert_container_ports_to_string :: "api_info \<Rightarrow> string \<times> api_info" where
  "convert_container_ports_to_string ctr =
     (if ai_ports ctr = [] then ([], ctr)
      else (join_with '', '' (map port_text (shown_ports {} (sort_key ap_public_port (ai_ports ctr)))),
            ctr\<lparr>ai_ports := []\<rparr>))"

definition parse_docker_health_status :: "string \<Rightarrow> docker_health option" where
  "parse_docker_health_status status = docker_health_strings (to_lower (trim_space status))"

definition health_text :: "string \<Rightarrow> string" where
  "health_text inner0 = (let inner = trim_space inner0 in
     case cut_at (CHR '':'') inner of
       None \<Rightarrow> inner
     | Some (a, b) \<Rightarrow>
         let label = to_lower (trim_space a) in
         if label = ''health'' \<or> label = ''health status'' then trim_space b else inner)"

definition parse_docker_status :: "string \<Rightarrow> string \<times> docker_health" where
  "parse_docker_status status =
     (if trim_space status = [] then ([], HealthNone)
      else let trimmed = replace_first ''About '' [] (trim_space status) in
        case last_index_of (CHR ''('') trimmed of
          None \<Rightarrow> (trimmed, HealthNone)
        | Some open_idx \<Rightarrow>
            if \<not> has_suffix '')'' trimmed then (trimmed, HealthNone)
            else let before = trim_space (take open_idx trimmed);
                     status_text = (if before = [] then trimmed else before)
                 in case parse_docker_health_status (health_text (trim_suffix '')'' (drop (open_idx + 1) trimmed))) of
                      Some health \<Rightarrow> (status_text, health) | None \<Rightarrow> (trimmed, HealthNone))"

definition get_podman_container_health :: "api_response res \<Rightarrow> docker_health res" where
  "get_podman_container_health answer = (case answer of
     Inl e \<Rightarrow> Inl e
   | Inr resp \<Rightarrow>
       if \<not> ar_status_ok resp then Inl (ErrText (''container inspect request failed: '' @ ar_status resp))
       else attempt (unmarshal (dec_struct (\<lambda>fs. jfield fs ''state'' []
           (dec_struct (\<lambda>s. jfield s ''health'' [] (dec_struct (\<lambda>h. jfield h ''status'' [] dec_str) [])) [])) []) (ar_body resp))
         (\<lambda>status. Inr (case parse_docker_health_status status of Some health \<Rightarrow> health | None \<Rightarrow> HealthNone)))"

definition container_health :: "api_info \<Rightarrow> api_response res \<Rightarrow> docker_manager \<Rightarrow> docker_health" where
  "container_health ctr inspect m = (let health = snd (parse_docker_status (ai_status ctr)) in
     if ai_health_status ctr \<noteq> []
     then (case parse_docker_health_status (ai_health_status ctr) of Some h \<Rightarrow> h | None \<Rightarrow> health)
     else if dk_using_podman m
     then (case get_podman_container_health inspect of Inr h \<Rightarrow> h | Inl _ \<Rightarrow> health)
     else health)"

section \<open>The resources of a container\<close>

definition calculate_memory_usage :: "api_stats \<Rightarrow> u64 res" where
  "calculate_memory_usage s =
     (let memory = as_memory_stats s;
          mem_cache = (if mm_inactive_file (ms_stats memory) = 0 then mm_cache (ms_stats memory)
                       else mm_inactive_file (ms_stats memory));
          used_delta = ms_usage memory - mem_cache
      in if used_delta \<le> 0 \<or> max_memory_usage < used_delta then Inl (ErrText ''bad memory stats'')
         else Inr used_delta)"

definition cpu_previous :: "('c \<rightharpoonup> (string \<rightharpoonup> u64)) \<Rightarrow> 'c \<Rightarrow> string \<Rightarrow> u64" where
  "cpu_previous maps cache cid =
     (case maps cache of None \<Rightarrow> 0 | Some by_id \<Rightarrow> (case by_id cid of None \<Rightarrow> 0 | Some v \<Rightarrow> v))"

definition set_by_id :: "'c \<Rightarrow> string \<Rightarrow> 'v \<Rightarrow> ('c \<rightharpoonup> (string \<rightharpoonup> 'v)) \<Rightarrow> ('c \<rightharpoonup> (string \<rightharpoonup> 'v))" where
  "set_by_id cache cid v maps = maps(cache \<mapsto> (case maps cache of None \<Rightarrow> (\<lambda>_. None) | Some by_id \<Rightarrow> by_id)(cid \<mapsto> v))"

definition initialize_cpu_tracking :: "16 word \<Rightarrow> docker_manager \<Rightarrow> docker_manager" where
  "initialize_cpu_tracking cache m =
     (let start = \<lambda>maps. case maps cache of None \<Rightarrow> maps(cache \<mapsto> (\<lambda>_. None)) | Some _ \<Rightarrow> maps
      in m\<lparr>dk_last_cpu_container := start (dk_last_cpu_container m), dk_last_cpu_system := start (dk_last_cpu_system m)\<rparr>)"

definition set_cpu_current_values :: "16 word \<Rightarrow> string \<Rightarrow> u64 \<Rightarrow> u64 \<Rightarrow> docker_manager \<Rightarrow> docker_manager" where
  "set_cpu_current_values cache cid cpu_container cpu_system m =
     m\<lparr>dk_last_cpu_container := set_by_id cache cid cpu_container (dk_last_cpu_container m),
       dk_last_cpu_system := set_by_id cache cid cpu_system (dk_last_cpu_system m)\<rparr>"

definition tracker_at :: "16 word \<Rightarrow> (16 word \<rightharpoonup> (string, u64) tracker) \<Rightarrow> (string, u64) tracker" where
  "tracker_at cache trackers = (case trackers cache of None \<Rightarrow> new_delta_tracker | Some t \<Rightarrow> t)"

definition cycle_network_deltas :: "16 word \<Rightarrow> docker_manager \<Rightarrow> docker_manager" where
  "cycle_network_deltas cache m =
     (let cycle = \<lambda>trackers. case trackers cache of None \<Rightarrow> trackers | Some t \<Rightarrow> trackers(cache \<mapsto> tracker_cycle t)
      in m\<lparr>dk_network_sent_trackers := cycle (dk_network_sent_trackers m),
           dk_network_recv_trackers := cycle (dk_network_recv_trackers m)\<rparr>)"

definition network_rate :: "u64 \<Rightarrow> u64 \<Rightarrow> u64" where
  "network_rate raw ms_elapsed =
     (if 0 < raw then (let rate = raw * 1000 div ms_elapsed in if max_network_speed_bps < rate then 0 else rate) else 0)"

definition calculate_network_stats :: "string \<Rightarrow> api_stats \<Rightarrow> int \<Rightarrow> 16 word \<Rightarrow> docker_manager \<Rightarrow> (u64 \<times> u64) \<times> docker_manager" where
  "calculate_network_stats cid s now cache m =
     (let networks = (case as_networks s of None \<Rightarrow> [] | Some ns \<Rightarrow> map snd ns);
          sent = tracker_set cid (sum_list (map ns_tx_bytes networks)) (tracker_at cache (dk_network_sent_trackers m));
          recv = tracker_set cid (sum_list (map ns_rx_bytes networks)) (tracker_at cache (dk_network_recv_trackers m));
          prev_read = (case dk_last_network_read_time m cache of None \<Rightarrow> None | Some by_id \<Rightarrow> by_id cid);
          rates = (case prev_read of
             None \<Rightarrow> (0, 0)
           | Some t \<Rightarrow> let ms_elapsed = word_of_int (milliseconds (now - t)) :: u64 in
               if 0 < ms_elapsed
               then (network_rate (tracker_delta sent cid) ms_elapsed, network_rate (tracker_delta recv cid) ms_elapsed)
               else (0, 0))
      in (rates, m\<lparr>dk_network_sent_trackers := (dk_network_sent_trackers m)(cache \<mapsto> sent),
                   dk_network_recv_trackers := (dk_network_recv_trackers m)(cache \<mapsto> recv)\<rparr>))"

definition validate_cpu_percentage :: "f64 \<Rightarrow> string \<Rightarrow> unit res" where
  "validate_cpu_percentage pct name =
     (if flt (Num 100) pct then Inl (ErrText (name @ '' cpu pct greater than 100'')) else Inr ())"

definition update_container_stats_values :: "f64 \<Rightarrow> u64 \<Rightarrow> u64 \<times> u64 \<Rightarrow> gotime \<Rightarrow> container_stats \<Rightarrow> container_stats" where
  "update_container_stats_values cpu_pct used_memory rates read_time c =
     c\<lparr>ct_cpu := two_decimals cpu_pct, ct_mem := bytes_to_megabytes (of_uint64 used_memory),
       ct_bandwidth := rates, ct_prev_read_time := read_time\<rparr>"

definition delete_container_stats_sync :: "string \<Rightarrow> docker_manager \<Rightarrow> docker_manager" where
  "delete_container_stats_sync cid m =
     (let forget = \<lambda>maps cache. map_option (\<lambda>by_id. by_id(cid := None)) (maps cache)
      in m\<lparr>dk_container_stats := filter (\<lambda>(k, _). k \<noteq> cid) (dk_container_stats m),
           dk_last_cpu_container := forget (dk_last_cpu_container m),
           dk_last_cpu_system := forget (dk_last_cpu_system m),
           dk_last_network_read_time := (\<lambda>cache. map_option (\<lambda>by_id. by_id(cid := None)) (dk_last_network_read_time m cache))\<rparr>)"

definition put_container :: "string \<Rightarrow> container_stats \<Rightarrow> docker_manager \<Rightarrow> docker_manager" where
  "put_container cid c m = m\<lparr>dk_container_stats := mput cid c (dk_container_stats m)\<rparr>"

text \<open>The entry of a container before its resources are known.\<close>

definition reset_container :: "api_info \<Rightarrow> docker_health \<Rightarrow> docker_manager \<Rightarrow> container_stats" where
  "reset_container ctr health m =
     (let old = (case mget (dk_container_stats m) (ai_id_short ctr) of
            Some c \<Rightarrow> c
          | None \<Rightarrow> zero_container_stats\<lparr>ct_name := container_name ctr, ct_id := ai_id_short ctr, ct_image := ai_image ctr\<rparr>)
      in old\<lparr>ct_id := ai_id_short ctr, ct_status := fst (parse_docker_status (ai_status ctr)),
             ct_health := docker_health_code health,
             ct_ports := (if ai_ports ctr = [] then ct_ports old else fst (convert_container_ports_to_string ctr)),
             ct_cpu := Num 0, ct_mem := Num 0, ct_bandwidth := (0, 0)\<rparr>)"

text \<open>What follows once the answer has been decoded into \<open>apiStats\<close>.\<close>

definition apply_api_stats :: "16 word \<Rightarrow> int \<Rightarrow> api_info \<Rightarrow> container_stats \<Rightarrow> docker_manager \<Rightarrow> go_error option \<times> docker_manager" where
  "apply_api_stats cache now ctr entry m0 =
     (let cid = ai_id_short ctr; name = container_name ctr; s = dk_api_stats m0;
          m1 = initialize_cpu_tracking cache m0;
          cpu_pct = calculate_cpu_percent_linux (cpu_previous (dk_last_cpu_container m1) cache cid)
            (cpu_previous (dk_last_cpu_system m1) cache cid) s
      in case calculate_memory_usage s of
           Inl e \<Rightarrow> (Some (ErrWrap name e), m1)
         | Inr used_memory \<Rightarrow>
             let m2 = set_cpu_current_values cache cid (cu_total_usage (kc_cpu_usage (as_cpu_stats s))) (kc_system_usage (as_cpu_stats s)) m1
             in case validate_cpu_percentage cpu_pct name of
                  Inl e \<Rightarrow> (Some e, m2)
                | Inr _ \<Rightarrow>
                    let (rates, m3) = calculate_network_stats cid s now cache m2;
                        m4 = m3\<lparr>dk_last_network_read_time := set_by_id cache cid now (dk_last_network_read_time m3)\<rparr>
                    in (None, put_container cid (update_container_stats_values cpu_pct used_memory rates (as_read s) entry) m4))"

text \<open>\<open>updateContainerStats\<close> for the container at an index of the buffer.\<close>

definition update_container_stats :: "api_response res \<Rightarrow> api_response res \<Rightarrow> int \<Rightarrow> 16 word \<Rightarrow> nat \<Rightarrow> docker_manager
    \<Rightarrow> go_error option \<times> docker_manager" where
  "update_container_stats answer inspect now cache i m = (let ctr = dk_containers m ! i in
     case answer of
       Inl e \<Rightarrow> (Some e, m)
     | Inr resp \<Rightarrow>
         let entry = reset_container ctr (container_health ctr inspect m) m;
             m1 = put_container (ai_id_short ctr) entry m\<lparr>dk_containers := (dk_containers m)[i := ctr\<lparr>ai_ports := []\<rparr>],
                dk_api_stats := (dk_api_stats m)\<lparr>as_networks := None\<rparr>\<rparr>
         in case unmarshal (dec_api_stats (dk_api_stats m1)) (ar_body resp) of
              Inl e \<Rightarrow> (Some e, m1)
            | Inr s \<Rightarrow> apply_api_stats cache now ctr entry (m1\<lparr>dk_api_stats := s\<rparr>))"

section \<open>GetStats\<close>

text \<open>
  What is outside of the manager during one call: the answers of the engine, per attempt and
  container; the order in which the goroutines of an attempt work; the clock as each of them reads
  it; and the context's error at the places where the code looks at it.
\<close>

record docker_world =
  dw_list :: "api_response res"
  dw_version :: "api_response res"
  dw_stats :: "nat \<Rightarrow> string \<Rightarrow> api_response res"
  dw_inspect :: "nat \<Rightarrow> string \<Rightarrow> api_response res"
  dw_order :: "nat list \<Rightarrow> nat list"
  dw_now :: "nat \<Rightarrow> string \<Rightarrow> int"
  dw_ctx_version :: "go_error option"
  dw_ctx_listed :: "go_error option"
  dw_ctx_loop :: "nat \<Rightarrow> go_error option"
  dw_ctx_queue :: "nat \<Rightarrow> go_error option"
  dw_ctx_waited :: "go_error option"
  dw_ctx_retry :: "nat \<Rightarrow> go_error option"
  dw_ctx_end :: "go_error option"

text \<open>
  One listed container: \<open>None\<close> if slicing its id or name panics; an excluded one is left alone, and
  one that has just been started loses its old data.
\<close>

definition admit_container :: "nat \<Rightarrow> docker_manager \<Rightarrow> (bool \<times> docker_manager) option" where
  "admit_container i m = (let ctr = dk_containers m ! i; cid = take 12 (ai_id ctr) in
     if \<not> container_sliceable ctr then None
     else let m1 = m\<lparr>dk_containers := (dk_containers m)[i := ctr\<lparr>ai_id_short := cid\<rparr>]\<rparr> in
       if should_exclude_container (container_name ctr) m1 then Some (False, m1)
       else Some (True, if contains_str ''second'' (ai_status ctr) then delete_container_stats_sync cid m1 else m1))"

text \<open>
  The loop over the listed containers: those that are started, the valid ids, and the error that
  ended it; \<open>None\<close> if it panics.
\<close>

fun start_containers :: "docker_world \<Rightarrow> nat list \<Rightarrow> nat list \<Rightarrow> string set \<Rightarrow> docker_manager
    \<Rightarrow> (go_error option \<times> nat list \<times> string set \<times> docker_manager) option" where
  "start_containers w [] started valid m = Some (None, started, valid, m)"
| "start_containers w (i # is) started valid m = (case dw_ctx_loop w i of
     Some e \<Rightarrow> Some (Some e, started, valid, m)
   | None \<Rightarrow> (case admit_container i m of
       None \<Rightarrow> None
     | Some (False, m1) \<Rightarrow> start_containers w is started valid m1
     | Some (True, m1) \<Rightarrow>
         let valid' = insert (take 12 (ai_id (dk_containers m ! i))) valid in
         case dw_ctx_queue w i of
           Some e \<Rightarrow> Some (Some e, started, valid', m1)
         | None \<Rightarrow> start_containers w is (started @ [i]) valid' m1))"

text \<open>One goroutine of the first attempt: a container that fails is forgotten and will be retried.\<close>

definition first_attempt :: "docker_world \<Rightarrow> 16 word \<Rightarrow> nat list \<times> docker_manager \<Rightarrow> nat \<Rightarrow> nat list \<times> docker_manager" where
  "first_attempt w cache state i = (case state of (failed, m) \<Rightarrow>
     let cid = ai_id_short (dk_containers m ! i) in
     case update_container_stats (dw_stats w 0 cid) (dw_inspect w 0 cid) (dw_now w 0 cid) cache i m of
       (None, m') \<Rightarrow> (failed, m')
     | (Some _, m') \<Rightarrow> (failed @ [i], m'\<lparr>dk_container_stats := filter (\<lambda>(k, _). k \<noteq> cid) (dk_container_stats m')\<rparr>))"

definition second_attempt :: "docker_world \<Rightarrow> 16 word \<Rightarrow> docker_manager \<Rightarrow> nat \<Rightarrow> docker_manager" where
  "second_attempt w cache m i = (let cid = ai_id_short (dk_containers m ! i) in
     snd (update_container_stats (dw_stats w 1 cid) (dw_inspect w 1 cid) (dw_now w 1 cid) cache i m))"

fun retried :: "docker_world \<Rightarrow> nat list \<Rightarrow> go_error option \<times> nat list" where
  "retried w [] = (None, [])"
| "retried w (i # is) = (case dw_ctx_retry w i of
     Some e \<Rightarrow> (Some e, []) | None \<Rightarrow> (case retried w is of (e, js) \<Rightarrow> (e, i # js)))"

text \<open>The end of a call: the ids that are not valid any more are dropped and the intervals are closed.\<close>

definition finish_stats :: "16 word \<Rightarrow> string set \<Rightarrow> docker_manager \<Rightarrow> container_stats list \<times> docker_manager" where
  "finish_stats cache valid m =
     (let kept = filter (\<lambda>(cid, _). cid \<in> valid) (dk_container_stats m)
      in (map snd kept, cycle_network_deltas cache (m\<lparr>dk_container_stats := kept\<rparr>)))"

definition run_attempts :: "docker_world \<Rightarrow> 16 word \<Rightarrow> nat list \<Rightarrow> string set \<Rightarrow> docker_manager
    \<Rightarrow> container_stats list res \<times> docker_manager" where
  "run_attempts w cache started valid m =
     (case foldl (first_attempt w cache) ([], m) (dw_order w started) of (failed, m1) \<Rightarrow>
        case dw_ctx_waited w of
          Some e \<Rightarrow> (Inl e, m1)
        | None \<Rightarrow> (case retried w failed of (stopped, again) \<Rightarrow>
            let m2 = foldl (second_attempt w cache) m1 (dw_order w again) in
            case stopped of
              Some e \<Rightarrow> (Inl e, m2)
            | None \<Rightarrow>
                if failed \<noteq> [] \<and> dw_ctx_end w \<noteq> None then (Inl (the (dw_ctx_end w)), m2)
                else (case finish_stats cache valid m2 of (stats, m3) \<Rightarrow> (Inr stats, m3))))"

text \<open>The buffer after a list of \<open>n\<close> containers has been decoded over it.\<close>

definition decode_containers :: "jtext \<Rightarrow> api_info list \<Rightarrow> (nat \<times> api_info list) res" where
  "decode_containers body old = attempt (unmarshal (\<lambda>j. case j of
       JNull \<Rightarrow> Inr (0, [])
     | _ \<Rightarrow> attempt (dec_slice_over dec_api_info zero_api_info old j)
         (\<lambda>infos. Inr (length infos, infos @ drop (length infos) old))) body) Inr"

definition get_stats :: "docker_world \<Rightarrow> 16 word \<Rightarrow> docker_manager \<Rightarrow> (container_stats list res \<times> docker_manager) option" where
  "get_stats w cache m = (case dw_list w of
     Inl e \<Rightarrow> Some (Inl e, m)
   | Inr resp \<Rightarrow> (case decode_containers (ar_body resp) (dk_containers m) of
       Inl e \<Rightarrow> Some (Inl e, m)
     | Inr (n, infos) \<Rightarrow>
         let m1 = m\<lparr>dk_containers := infos\<rparr>;
             m2 = (if \<not> dk_using_podman m1 \<and> detect_podman_from_header (ar_server resp) then set_is_podman m1 else m1);
             m3 = ensure_docker_version_checked (dw_ctx_version w) (dw_version w) m2
         in case dw_ctx_listed w of
              Some e \<Rightarrow> Some (Inl e, m3)
            | None \<Rightarrow> (case start_containers w [0..<n] [] {} m3 of
                None \<Rightarrow> None
              | Some (Some e, started, valid, m4) \<Rightarrow> Some (Inl e, snd (foldl (first_attempt w cache) ([], m4) (dw_order w started)))
              | Some (None, started, valid, m4) \<Rightarrow> Some (run_attempts w cache started valid m4))))"

end
