(* ===== verification/Docker_Properties.thy ===== *)
theory Docker_Properties
  imports Docker Float_Facts
begin

text \<open>
  What a call of the Docker manager reports: the invariant of the manager over all calls, the bounds
  of the reported resources, and how status and ports are read.
\<close>

section \<open>What is reported is within bounds\<close>

definition bounded_container :: "container_stats \<Rightarrow> bool" where
  "bounded_container c = (fin (ct_cpu c) \<and> 0 \<le> fval (ct_cpu c) \<and> fval (ct_cpu c) \<le> 100
     \<and> fst (ct_bandwidth c) \<le> max_network_speed_bps \<and> snd (ct_bandwidth c) \<le> max_network_speed_bps)"

lemma cpu_percent_nonneg: "fle (Num 0) (calculate_cpu_percent_linux prev_container prev_system s)"
  by (auto simp: calculate_cpu_percent_linux_def Let_def intro!: fmul_nonneg counter_ratio_nonneg)

lemma cpu_percent_bounded:
  assumes "validate_cpu_percentage pct name = Inr ()" "fle (Num 0) pct"
  shows "fin (two_decimals pct) \<and> 0 \<le> fval (two_decimals pct) \<and> fval (two_decimals pct) \<le> 100"
proof -
  have "pct \<noteq> NaN" using assms(2) by auto
  then have "fle pct (Num 100)" using assms(1) by (auto simp: validate_cpu_percentage_def not_flt split: if_splits)
  then have "fin pct \<and> of_int 0 \<le> fval pct \<and> fval pct \<le> of_int 100"
    using assms(2) by (intro fle_between [of 0 0 100 100]) simp_all
  then show ?thesis using two_decimals_range [of pct 0 100] by simp
qed

lemma network_rate_bounded: "network_rate raw ms \<le> max_network_speed_bps"
  by (auto simp: network_rate_def Let_def not_less)

lemma calculate_network_stats_bounded:
  "fst (fst (calculate_network_stats cid s now cache m)) \<le> max_network_speed_bps
    \<and> snd (fst (calculate_network_stats cid s now cache m)) \<le> max_network_speed_bps"
  by (simp add: calculate_network_stats_def Let_def network_rate_bounded split: option.splits)

lemma calculate_network_stats_keeps:
  "dk_container_stats (snd (calculate_network_stats cid s now cache m)) = dk_container_stats m
    \<and> dk_containers (snd (calculate_network_stats cid s now cache m)) = dk_containers m"
  by (simp add: calculate_network_stats_def Let_def)

lemma stats_simps [simp]:
  "dk_container_stats (initialize_cpu_tracking cache m) = dk_container_stats m"
  "dk_containers (initialize_cpu_tracking cache m) = dk_containers m"
  "dk_container_stats (set_cpu_current_values cache cid a b m) = dk_container_stats m"
  "dk_containers (set_cpu_current_values cache cid a b m) = dk_containers m"
  "dk_container_stats (put_container cid c m) = mput cid c (dk_container_stats m)"
  "dk_containers (put_container cid c m) = dk_containers m"
  by (simp_all add: initialize_cpu_tracking_def set_cpu_current_values_def put_container_def Let_def)

lemma apply_api_stats_cases:
  "(\<exists>e m'. apply_api_stats cache now ctr entry m = (Some e, m')
      \<and> dk_container_stats m' = dk_container_stats m \<and> dk_containers m' = dk_containers m)
   \<or> (\<exists>pct used rates m'. apply_api_stats cache now ctr entry m = (None, m')
      \<and> calculate_memory_usage (dk_api_stats m) = Inr used
      \<and> validate_cpu_percentage pct (container_name ctr) = Inr () \<and> fle (Num 0) pct
      \<and> fst rates \<le> max_network_speed_bps \<and> snd rates \<le> max_network_speed_bps
      \<and> dk_containers m' = dk_containers m
      \<and> dk_container_stats m' = mput (ai_id_short ctr)
          (update_container_stats_values pct used rates (as_read (dk_api_stats m)) entry) (dk_container_stats m))"
proof -
  define m1 where "m1 = initialize_cpu_tracking cache m"
  define pct where "pct = calculate_cpu_percent_linux (cpu_previous (dk_last_cpu_container m1) cache (ai_id_short ctr))
    (cpu_previous (dk_last_cpu_system m1) cache (ai_id_short ctr)) (dk_api_stats m)"
  define m2 where "m2 = set_cpu_current_values cache (ai_id_short ctr)
    (cu_total_usage (kc_cpu_usage (as_cpu_stats (dk_api_stats m)))) (kc_system_usage (as_cpu_stats (dk_api_stats m))) m1"
  obtain rates m3 where n: "calculate_network_stats (ai_id_short ctr) (dk_api_stats m) now cache m2 = (rates, m3)"
    by fastforce
  have "dk_container_stats m3 = dk_container_stats m2 \<and> dk_containers m3 = dk_containers m2"
    using calculate_network_stats_keeps [of "ai_id_short ctr" "dk_api_stats m" now cache m2] by (simp add: n)
  then have k: "dk_container_stats m3 = dk_container_stats m" "dk_containers m3 = dk_containers m"
    by (simp_all add: m2_def m1_def)
  have b: "fst rates \<le> max_network_speed_bps" "snd rates \<le> max_network_speed_bps"
    using calculate_network_stats_bounded [of "ai_id_short ctr" "dk_api_stats m" now cache m2] by (simp_all add: n)
  have p: "fle (Num 0) pct" by (simp add: pct_def cpu_percent_nonneg)
  show ?thesis
  proof (cases "calculate_memory_usage (dk_api_stats m)")
    case (Inl e)
    then show ?thesis by (simp add: apply_api_stats_def Let_def m1_def)
  next
    case (Inr used)
    show ?thesis
    proof (cases "validate_cpu_percentage pct (container_name ctr)")
      case (Inl e)
      then show ?thesis
        using Inr by (simp add: apply_api_stats_def Let_def pct_def m1_def)
    next
      case v: (Inr u)
      define m4 where "m4 = put_container (ai_id_short ctr)
          (update_container_stats_values pct used rates (as_read (dk_api_stats m)) entry)
          (m3\<lparr>dk_last_network_read_time := set_by_id cache (ai_id_short ctr) now (dk_last_network_read_time m3)\<rparr>)"
      have "apply_api_stats cache now ctr entry m = (None, m4)"
        using Inr v n by (simp add: apply_api_stats_def Let_def pct_def [symmetric] m1_def [symmetric] m2_def [symmetric] m4_def)
      moreover have "dk_containers m4 = dk_containers m" "dk_container_stats m4 = mput (ai_id_short ctr)
          (update_container_stats_values pct used rates (as_read (dk_api_stats m)) entry) (dk_container_stats m)"
        by (simp_all add: m4_def k)
      ultimately show ?thesis
        using Inr v b p by (intro disjI2 exI [of _ pct] exI [of _ used] exI [of _ rates] exI [of _ m4]) simp
    qed
  qed
qed

section \<open>Invariant of the manager\<close>

text \<open>Every entry is kept under its own id and is bounded, and the map is sorted.\<close>

definition docker_inv :: "docker_manager \<Rightarrow> bool" where
  "docker_inv m = (msorted (dk_container_stats m)
     \<and> (\<forall>cid c. mget (dk_container_stats m) cid = Some c \<longrightarrow> ct_id c = cid \<and> bounded_container c))"

lemma docker_inv_put:
  "docker_inv m \<Longrightarrow> ct_id c = cid \<Longrightarrow> bounded_container c \<Longrightarrow> dk_container_stats m' = mput cid c (dk_container_stats m) \<Longrightarrow> docker_inv m'"
  by (auto simp: docker_inv_def msorted_mput)

lemma docker_inv_same: "dk_container_stats m' = dk_container_stats m \<Longrightarrow> docker_inv m' = docker_inv m"
  by (simp add: docker_inv_def)

lemma mget_filter_keys: "mget (filter (\<lambda>(k, _). P k) m) k = (if P k then mget m k else None)"
  by (induction m) auto

lemma docker_inv_filter:
  "docker_inv m \<Longrightarrow> dk_container_stats m' = filter (\<lambda>(k, _). P k) (dk_container_stats m) \<Longrightarrow> docker_inv m'"
  by (auto simp: docker_inv_def mget_filter_keys msorted_def sorted_wrt_map sorted_wrt_filter split: if_splits)

lemma reset_container_simps [simp]: "ct_id (reset_container ctr h m) = ai_id_short ctr" "bounded_container (reset_container ctr h m)"
  by (simp_all add: reset_container_def Let_def bounded_container_def max_network_speed_bps_def)

lemma update_container_stats_inv:
  assumes "docker_inv m" "update_container_stats answer inspect now cache i m = (r, m')"
  shows "docker_inv m' \<and> length (dk_containers m') = length (dk_containers m)
    \<and> map ai_id_short (dk_containers m') = map ai_id_short (dk_containers m)"
proof (cases answer)
  case (Inl e)
  then show ?thesis using assms by (simp add: update_container_stats_def)
next
  case (Inr resp)
  define ctr where "ctr = dk_containers m ! i"
  define entry where "entry = reset_container ctr (container_health ctr inspect m) m"
  define m1 where "m1 = put_container (ai_id_short ctr) entry m\<lparr>dk_containers := (dk_containers m)[i := ctr\<lparr>ai_ports := []\<rparr>],
    dk_api_stats := (dk_api_stats m)\<lparr>as_networks := None\<rparr>\<rparr>"
  have i1: "docker_inv m1"
    using assms(1) by (rule docker_inv_put [where c = entry and cid = "ai_id_short ctr"]) (simp_all add: m1_def entry_def)
  have l: "length (dk_containers m1) = length (dk_containers m)" "map ai_id_short (dk_containers m1) = map ai_id_short (dk_containers m)"
    by (simp_all add: m1_def ctr_def map_update) (metis list_update_id map_update)
  show ?thesis
  proof (cases "unmarshal (dec_api_stats (dk_api_stats m1)) (ar_body resp)")
    case Inl: (Inl e)
    then have "m' = m1"
      using assms(2) Inr by (simp add: update_container_stats_def Let_def ctr_def entry_def m1_def)
    then show ?thesis using i1 l by simp
  next
    case s: (Inr s)
    define m2 where "m2 = m1\<lparr>dk_api_stats := s\<rparr>"
    have i2: "docker_inv m2" "dk_containers m2 = dk_containers m1" using i1 by (simp_all add: docker_inv_def m2_def)
    have a: "apply_api_stats cache now ctr entry m2 = (r, m')"
      using assms(2) Inr s by (simp add: update_container_stats_def Let_def ctr_def entry_def m1_def m2_def)
    show ?thesis
      using apply_api_stats_cases [of cache now ctr entry m2]
    proof (elim disjE exE conjE)
      fix e m'' assume "apply_api_stats cache now ctr entry m2 = (Some e, m'')"
        "dk_container_stats m'' = dk_container_stats m2" "dk_containers m'' = dk_containers m2"
      then show ?thesis using a i2 l docker_inv_same [of m'' m2] by simp
    next
      fix pct used rates m''
      assume x: "apply_api_stats cache now ctr entry m2 = (None, m'')"
        "validate_cpu_percentage pct (container_name ctr) = Inr ()" "fle (Num 0) pct"
        "fst rates \<le> max_network_speed_bps" "snd rates \<le> max_network_speed_bps" "dk_containers m'' = dk_containers m2"
        "dk_container_stats m'' = mput (ai_id_short ctr)
          (update_container_stats_values pct used rates (as_read (dk_api_stats m2)) entry) (dk_container_stats m2)"
      have "docker_inv m''"
        using i2(1) by (rule docker_inv_put [OF _ _ _ x(7)])
          (use cpu_percent_bounded [OF x(2,3)] x(4,5) in \<open>simp_all add: update_container_stats_values_def bounded_container_def entry_def\<close>)
      then show ?thesis using a x i2 l by simp
    qed
  qed
qed


section \<open>GetStats\<close>

lemma first_attempt_inv:
  assumes "docker_inv (snd s)"
  shows "docker_inv (snd (first_attempt w cache s i))
    \<and> map ai_id_short (dk_containers (snd (first_attempt w cache s i))) = map ai_id_short (dk_containers (snd s))"
proof -
  obtain failed m where s: "s = (failed, m)" by (cases s)
  define cid where "cid = ai_id_short (dk_containers m ! i)"
  obtain r m' where u: "update_container_stats (dw_stats w 0 cid) (dw_inspect w 0 cid) (dw_now w 0 cid) cache i m = (r, m')"
    by fastforce
  note v = update_container_stats_inv [OF _ u]
  have "docker_inv (m'\<lparr>dk_container_stats := filter (\<lambda>(k, _). k \<noteq> cid) (dk_container_stats m')\<rparr>)"
    by (rule docker_inv_filter [of m' _ "\<lambda>k. k \<noteq> cid"]) (use v assms in \<open>simp_all add: s\<close>)
  then show ?thesis
    using v assms by (cases r) (simp_all add: s first_attempt_def Let_def cid_def [symmetric] u)
qed

lemma first_attempts_inv:
  "docker_inv (snd s) \<Longrightarrow> docker_inv (snd (foldl (first_attempt w cache) s is))
    \<and> map ai_id_short (dk_containers (snd (foldl (first_attempt w cache) s is))) = map ai_id_short (dk_containers (snd s))"
  by (induction "is" arbitrary: s) (simp_all add: first_attempt_inv)

lemma second_attempt_inv: "docker_inv m \<Longrightarrow> docker_inv (second_attempt w cache m i)"
proof -
  assume m: "docker_inv m"
  define cid where "cid = ai_id_short (dk_containers m ! i)"
  obtain r m' where u: "update_container_stats (dw_stats w 1 cid) (dw_inspect w 1 cid) (dw_now w 1 cid) cache i m = (r, m')"
    by fastforce
  have "second_attempt w cache m i = m'" by (simp add: second_attempt_def Let_def cid_def [symmetric] u del: One_nat_def)
  then show ?thesis using update_container_stats_inv [OF m u] by simp
qed

lemma second_attempts_inv: "docker_inv m \<Longrightarrow> docker_inv (foldl (second_attempt w cache) m is)"
  by (induction "is" arbitrary: m) (simp_all add: second_attempt_inv)

lemma docker_inv_delete: "docker_inv m \<Longrightarrow> docker_inv (delete_container_stats_sync cid m)"
  by (rule docker_inv_filter [of m _ "\<lambda>k. k \<noteq> cid"]) (simp_all add: delete_container_stats_sync_def Let_def)

lemma delete_simps [simp]: "dk_containers (delete_container_stats_sync cid m) = dk_containers m"
  "dk_exclude_containers (delete_container_stats_sync cid m) = dk_exclude_containers m"
  by (simp_all add: delete_container_stats_sync_def Let_def)

text \<open>What the loop over the list makes valid: short ids of listed containers that are not excluded.\<close>

definition listed :: "docker_manager \<Rightarrow> api_info list \<Rightarrow> nat set \<Rightarrow> string set" where
  "listed m infos is = {cid. \<exists>i \<in> is. cid = take 12 (ai_id (infos ! i))
     \<and> \<not> should_exclude_container (container_name (infos ! i)) m}"

text \<open>The loop changes short ids and ports only: ids and names stay those of the list.\<close>

definition lists_containers :: "docker_manager \<Rightarrow> api_info list \<Rightarrow> bool" where
  "lists_containers m infos = (map ai_id (dk_containers m) = map ai_id infos \<and> map ai_names (dk_containers m) = map ai_names infos)"

lemma lists_nth:
  assumes "lists_containers m infos" "i < length infos"
  shows "ai_id (dk_containers m ! i) = ai_id (infos ! i)" "container_name (dk_containers m ! i) = container_name (infos ! i)"
proof -
  have "length (dk_containers m) = length infos" using assms(1) unfolding lists_containers_def by (metis length_map)
  then show "ai_id (dk_containers m ! i) = ai_id (infos ! i)" "container_name (dk_containers m ! i) = container_name (infos ! i)"
    using assms unfolding lists_containers_def container_name_def by (metis nth_map)+
qed

lemma map_update_same: "f y = f (xs ! i) \<Longrightarrow> map f (xs[i := y]) = map f xs"
  by (metis list_update_id map_update)

lemma admit_container_inv:
  assumes "admit_container i m = Some (b, m')" "docker_inv m" "lists_containers m infos"
  shows "docker_inv m' \<and> lists_containers m' infos \<and> dk_exclude_containers m' = dk_exclude_containers m
    \<and> (b \<longrightarrow> \<not> should_exclude_container (container_name (dk_containers m ! i)) m)"
proof -
  define m1 where "m1 = m\<lparr>dk_containers := (dk_containers m)[i := (dk_containers m ! i)\<lparr>ai_id_short := take 12 (ai_id (dk_containers m ! i))\<rparr>]\<rparr>"
  have m1: "docker_inv m1" "lists_containers m1 infos" "dk_exclude_containers m1 = dk_exclude_containers m"
    using assms(2,3) by (simp_all add: m1_def docker_inv_def lists_containers_def map_update_same)
  have x: "should_exclude_container name m1 = should_exclude_container name m" for name
    by (simp add: should_exclude_container_def m1)
  have r: "m' = m1 \<or> m' = delete_container_stats_sync (take 12 (ai_id (dk_containers m ! i))) m1"
    "b \<longrightarrow> \<not> should_exclude_container (container_name (dk_containers m ! i)) m1"
    using assms(1) by (auto simp: admit_container_def Let_def m1_def split: if_splits)
  then show ?thesis using m1 x docker_inv_delete by (auto simp: lists_containers_def)
qed

lemma start_containers_inv:
  assumes "start_containers w is started valid m = Some (e, started', valid', m')" "docker_inv m" "lists_containers m infos"
    "\<forall>i \<in> set is. i < length infos" "dk_exclude_containers m = dk_exclude_containers m0"
  shows "docker_inv m' \<and> valid' \<subseteq> valid \<union> listed m0 infos (set is)"
  using assms
proof (induction "is" arbitrary: started valid m)
  case Nil
  then show ?case by simp
next
  case (Cons i js)
  show ?case
  proof (cases "dw_ctx_loop w i")
    case (Some err)
    then show ?thesis using Cons.prems by auto
  next
    case None
    obtain b m1 where a: "admit_container i m = Some (b, m1)"
      using Cons.prems(1) None by (cases "admit_container i m") auto
    note v = admit_container_inv [OF a Cons.prems(2,3)]
    have mono: "listed m0 infos (set js) \<subseteq> listed m0 infos (set (i # js))" by (auto simp: listed_def)
    have nth: "ai_id (dk_containers m ! i) = ai_id (infos ! i)" "container_name (dk_containers m ! i) = container_name (infos ! i)"
      using lists_nth [OF Cons.prems(3)] Cons.prems(4) by simp_all
    have IH: "docker_inv m' \<and> valid' \<subseteq> valid2 \<union> listed m0 infos (set js)"
      if "start_containers w js started2 valid2 m1 = Some (e, started', valid', m')" for started2 valid2
      using v Cons.prems(4,5) by (intro Cons.IH [OF that]) simp_all
    show ?thesis
    proof (cases b)
      case False
      then have "start_containers w js started valid m1 = Some (e, started', valid', m')"
        using Cons.prems(1) None a by simp
      then show ?thesis using IH mono by blast
    next
      case True
      then have "\<not> should_exclude_container (container_name (infos ! i)) m0"
        using v Cons.prems(5) nth by (simp add: should_exclude_container_def)
      then have ins: "take 12 (ai_id (dk_containers m ! i)) \<in> listed m0 infos (set (i # js))"
        by (auto simp: listed_def nth)
      show ?thesis
      proof (cases "dw_ctx_queue w i")
        case (Some err)
        then have "m' = m1 \<and> valid' = insert (take 12 (ai_id (dk_containers m ! i))) valid"
          using Cons.prems(1) None a True by (simp add: Let_def)
        then show ?thesis using v ins by auto
      next
        case q: None
        then have "start_containers w js (started @ [i]) (insert (take 12 (ai_id (dk_containers m ! i))) valid) m1 = Some (e, started', valid', m')"
          using Cons.prems(1) None a True by (simp add: Let_def)
        then show ?thesis using IH mono ins by blast
      qed
    qed
  qed
qed

lemma run_attempts_inv:
  assumes "run_attempts w cache started valid m = (r, m')" "docker_inv m"
  shows "docker_inv m' \<and> (\<forall>stats. r = Inr stats \<longrightarrow>
    (\<forall>c \<in> set stats. ct_id c \<in> valid \<and> bounded_container c) \<and> sorted_wrt (<) (map ct_id stats))"
proof -
  obtain failed m1 where f: "foldl (first_attempt w cache) ([], m) (dw_order w started) = (failed, m1)" by fastforce
  have i1: "docker_inv m1" using first_attempts_inv [of "([], m)" w cache "dw_order w started"] assms(2) f by simp
  obtain stopped again where a: "retried w failed = (stopped, again)" by fastforce
  define m2 where "m2 = foldl (second_attempt w cache) m1 (dw_order w again)"
  have i2: "docker_inv m2" using i1 by (simp add: m2_def second_attempts_inv)
  define kept where "kept = filter (\<lambda>(k, _). k \<in> valid) (dk_container_stats m2)"
  have "docker_inv (m2\<lparr>dk_container_stats := kept\<rparr>)"
    using i2 by (rule docker_inv_filter [of m2 _ "\<lambda>k. k \<in> valid"]) (simp add: kept_def)
  then have ik: "msorted kept" "\<And>k c. (k, c) \<in> set kept \<Longrightarrow> ct_id c = k \<and> bounded_container c"
    by (auto simp: docker_inv_def dest: mget_set)
  have fin: "finish_stats cache valid m2 = (map snd kept, cycle_network_deltas cache (m2\<lparr>dk_container_stats := kept\<rparr>))"
    by (simp add: finish_stats_def kept_def Let_def)
  have cyc: "docker_inv (cycle_network_deltas cache (m2\<lparr>dk_container_stats := kept\<rparr>))"
    using \<open>docker_inv (m2\<lparr>dk_container_stats := kept\<rparr>)\<close> by (simp add: docker_inv_def cycle_network_deltas_def Let_def)
  have "map ct_id (map snd kept) = map fst kept" using ik(2) by (auto simp: map_eq_conv)
  then have srt: "sorted_wrt (<) (map ct_id (map snd kept))" using ik(1) unfolding msorted_def by (simp only:)
  have val: "\<forall>c \<in> set (map snd kept). ct_id c \<in> valid \<and> bounded_container c"
    using ik(2) by (fastforce simp: kept_def)
  have "(r, m') \<in> {(Inl (the (dw_ctx_waited w)), m1), (Inl (the stopped), m2), (Inl (the (dw_ctx_end w)), m2),
      (Inr (map snd kept), cycle_network_deltas cache (m2\<lparr>dk_container_stats := kept\<rparr>))}"
    using assms(1) by (auto simp: run_attempts_def f a m2_def [symmetric] fin split: option.splits if_splits)
  then show ?thesis using i1 i2 cyc srt val by auto
qed

text \<open>The states that a manager can reach from its construction.\<close>

inductive docker_reachable :: "docker_manager \<Rightarrow> bool" where
  created: "docker_reachable (new_docker_manager exclude_env version_answer)"
| collected: "docker_reachable m \<Longrightarrow> get_stats w cache m = Some (r, m') \<Longrightarrow> docker_reachable m'"

lemma get_stats_inv:
  assumes g: "get_stats w cache m = Some (r, m')" and i: "docker_inv m"
  shows "docker_inv m' \<and> (\<forall>stats. r = Inr stats \<longrightarrow> (\<exists>resp n infos. dw_list w = Inr resp
    \<and> decode_containers (ar_body resp) (dk_containers m) = Inr (n, infos)
    \<and> (\<forall>c \<in> set stats. ct_id c \<in> listed m infos {..<n} \<and> bounded_container c) \<and> sorted_wrt (<) (map ct_id stats)))"
proof (cases "dw_list w")
  case (Inl e)
  then show ?thesis using g i by (auto simp: get_stats_def)
next
  case (Inr resp)
  show ?thesis
  proof (cases "decode_containers (ar_body resp) (dk_containers m)")
    case Inl: (Inl e)
    then show ?thesis using g i Inr by (auto simp: get_stats_def)
  next
    case d: (Inr p)
    obtain n infos where p: "p = (n, infos)" by (cases p)
    have n: "n \<le> length infos"
      using d p by (auto simp: decode_containers_def unmarshal_def attempt_Inr_iff split: jtext.splits json.splits)
    define m1 where "m1 = m\<lparr>dk_containers := infos\<rparr>"
    define m2 where "m2 = (if \<not> dk_using_podman m1 \<and> detect_podman_from_header (ar_server resp) then set_is_podman m1 else m1)"
    define m3 where "m3 = ensure_docker_version_checked (dw_ctx_version w) (dw_version w) m2"
    have k: "dk_container_stats (snd (check_docker_version a x)) = dk_container_stats x
        \<and> dk_containers (snd (check_docker_version a x)) = dk_containers x
        \<and> dk_exclude_containers (snd (check_docker_version a x)) = dk_exclude_containers x" for a x
      by (auto simp: check_docker_version_def apply_docker_version_info_def set_is_podman_def split: sum.splits)
    have m3: "docker_inv m3" "dk_containers m3 = infos" "dk_exclude_containers m3 = dk_exclude_containers m"
      using i k by (simp_all add: m3_def ensure_docker_version_checked_def m2_def m1_def set_is_podman_def docker_inv_def)
    have gs: "(case dw_ctx_listed w of
         Some e \<Rightarrow> Some (Inl e, m3)
       | None \<Rightarrow> (case start_containers w [0..<n] [] {} m3 of
           None \<Rightarrow> None
         | Some (Some e, started, valid, m4) \<Rightarrow> Some (Inl e, snd (foldl (first_attempt w cache) ([], m4) (dw_order w started)))
         | Some (None, started, valid, m4) \<Rightarrow> Some (run_attempts w cache started valid m4))) = Some (r, m')"
      using g d unfolding p by (simp only: get_stats_def Inr m3_def m2_def m1_def Let_def sum.case prod.case)
    show ?thesis
    proof (cases "dw_ctx_listed w")
      case (Some e)
      then show ?thesis using gs m3 by auto
    next
      case None
      then obtain e started valid m4 where st: "start_containers w [0..<n] [] {} m3 = Some (e, started, valid, m4)"
        using gs by (cases "start_containers w [0..<n] [] {} m3") auto
      have v: "docker_inv m4 \<and> valid \<subseteq> {} \<union> listed m infos (set [0..<n])"
        using n m3 by (intro start_containers_inv [OF st m3(1)]) (simp_all add: lists_containers_def)
      show ?thesis
      proof (cases e)
        case (Some err)
        have "docker_inv (snd (foldl (first_attempt w cache) ([], m4) (dw_order w started)))"
          using first_attempts_inv [of "([], m4)"] v by simp
        then show ?thesis using gs None st Some by auto
      next
        case e: None
        then have "run_attempts w cache started valid m4 = (r, m')" using gs None st by simp
        then have "docker_inv m' \<and> (\<forall>stats. r = Inr stats \<longrightarrow>
            (\<forall>c \<in> set stats. ct_id c \<in> valid \<and> bounded_container c) \<and> sorted_wrt (<) (map ct_id stats))"
          using v by (intro run_attempts_inv) auto
        moreover have "valid \<subseteq> listed m infos {..<n}" using v by (simp add: atLeast0LessThan)
        ultimately show ?thesis using Inr d p by (intro conjI allI impI exI [of _ resp] exI [of _ n] exI [of _ infos]) auto
      qed
    qed
  qed
qed

lemma docker_reachable_inv: "docker_reachable m \<Longrightarrow> docker_inv m"
proof (induction rule: docker_reachable.induct)
  case (created exclude_env version_answer)
  have "dk_container_stats (snd (check_docker_version a m)) = dk_container_stats m" for a m
    by (auto simp: check_docker_version_def apply_docker_version_info_def set_is_podman_def split: sum.splits)
  then show ?case by (simp add: docker_inv_def new_docker_manager_def)
next
  case (collected m w cache r m')
  then show ?case using get_stats_inv by blast
qed

section \<open>Ports and status\<close>

lemma shown_ports_props:
  "distinct (map ap_public_port (shown_ports seen ps))
    \<and> set (map ap_public_port (shown_ports seen ps)) = ap_public_port ` set ps - insert 0 seen
    \<and> set (shown_ports seen ps) \<subseteq> set ps
    \<and> (sorted (map ap_public_port ps) \<longrightarrow> sorted (map ap_public_port (shown_ports seen ps)))"
  by (induction ps arbitrary: seen) auto

text \<open>The status text that the engine writes for a container that is in a given state.\<close>

definition engine_status :: "string \<Rightarrow> docker_health \<Rightarrow> string" where
  "engine_status state health = (case health of
     HealthNone \<Rightarrow> state
   | HealthStarting \<Rightarrow> state @ '' (health: starting)''
   | HealthHealthy \<Rightarrow> state @ '' (healthy)''
   | HealthUnhealthy \<Rightarrow> state @ '' (unhealthy)'')"

lemma index_of_append: "index_of c xs = Some i \<Longrightarrow> index_of c (xs @ ys) = Some i"
  by (induction c xs arbitrary: i rule: index_of.induct) (auto split: if_splits)

lemma last_paren: "index_of (CHR ''('') (rev label) = None \<Longrightarrow>
    last_index_of (CHR ''('') (body @ '' ('' @ label @ '')'') = Some (length body + 1)"
proof -
  assume l: "index_of (CHR ''('') (rev label) = None"
  have "index_of (CHR ''('') (xs @ CHR ''('' # ys) = Some (length xs)" if "index_of (CHR ''('') xs = None" for xs ys
    using that by (induction xs) (auto split: if_splits)
  from this [OF l, of "CHR '' '' # rev body"] show ?thesis by (simp add: last_index_of_def)
qed

lemma trim_space_same:
  assumes "xs \<noteq> []" "\<not> is_space (hd xs)" "\<not> is_space (last xs)"
  shows "trim_space xs = xs"
proof -
  have d: "dropWhile is_space ys = ys" if "ys \<noteq> []" "\<not> is_space (hd ys)" for ys
    using that by (cases ys) auto
  then have "dropWhile is_space xs = xs" "dropWhile is_space (rev xs) = rev xs"
    using assms by (simp_all add: hd_rev)
  then show ?thesis by (simp add: trim_space_def)
qed

lemma parse_status_with_health:
  assumes "body \<noteq> []" "\<not> is_space (hd body)" "\<not> is_space (last body)"
    "cut_str ''About '' (body @ '' ('' @ label @ '')'') = None" "index_of (CHR ''('') (rev label) = None"
    "parse_docker_health_status (health_text label) = Some h"
  shows "parse_docker_status (body @ '' ('' @ label @ '')'') = (body, h)"
proof -
  have t: "trim_space (body @ '' ('' @ label @ '')'') = body @ '' ('' @ label @ '')''"
    using assms(1,2) by (intro trim_space_same) (auto simp: is_space_def)
  have b: "trim_space (body @ '' '') = body"
  proof -
    have "dropWhile is_space (body @ '' '') = body @ '' ''" using assms(1,2) by (cases body) auto
    moreover have "dropWhile is_space (rev body) = rev body" using assms(1,3) by (cases "rev body") (auto simp: hd_rev [symmetric])
    moreover have "is_space (CHR '' '')" by (simp add: is_space_def)
    ultimately show ?thesis by (simp add: trim_space_def)
  qed
  have s: "has_suffix '')'' (body @ '' ('' @ label @ '')'')" by (simp add: has_suffix_def has_prefix_def)
  have l: "trim_suffix '')'' (label @ '')'') = label" by (simp add: trim_suffix_def has_suffix_def has_prefix_def)
  have k: "take (length body + 1) (body @ '' ('' @ label @ '')'') = body @ '' ''"
    "drop (length body + 1 + 1) (body @ '' ('' @ label @ '')'') = label @ '')''" by simp_all
  show ?thesis
    unfolding parse_docker_status_def t replace_first_def assms(4) option.case Let_def last_paren [OF assms(5)] k b l
    using assms(1,6) s by simp
qed

text \<open>
  What the engine says of a container's health is read back from its status text: the state is
  separated from the remark in parentheses, and a state without a remark is kept as it is.
\<close>

theorem engine_status_read:
  assumes "state \<noteq> []" "\<not> is_space (hd state)" "\<not> is_space (last state)" "last state \<noteq> CHR '')''"
    "cut_str ''About '' (engine_status state health) = None"
  shows "parse_docker_status (engine_status state health) = (state, health)"
proof (cases health)
  case HealthNone
  have "\<not> has_suffix '')'' state" using assms(1,4) by (cases "rev state") (auto simp: has_suffix_def has_prefix_def)
  moreover have "trim_space state = state" using assms by (simp add: trim_space_same)
  ultimately show ?thesis
    using HealthNone assms by (simp add: parse_docker_status_def engine_status_def replace_first_def Let_def split: option.splits)
next
  case HealthStarting
  have "parse_docker_health_status (health_text ''health: starting'') = Some HealthStarting" by code_simp
  then show ?thesis
    using parse_status_with_health [of state "''health: starting''" HealthStarting] assms HealthStarting
    by (simp add: engine_status_def)
next
  case HealthHealthy
  have "parse_docker_health_status (health_text ''healthy'') = Some HealthHealthy" by code_simp
  then show ?thesis
    using parse_status_with_health [of state "''healthy''" HealthHealthy] assms HealthHealthy by (simp add: engine_status_def)
next
  case HealthUnhealthy
  have "parse_docker_health_status (health_text ''unhealthy'') = Some HealthUnhealthy" by code_simp
  then show ?thesis
    using parse_status_with_health [of state "''unhealthy''" HealthUnhealthy] assms HealthUnhealthy by (simp add: engine_status_def)
qed

theorem engine_status_read_witness:
  "parse_docker_status (engine_status ''Up 5 minutes'' HealthStarting) = (''Up 5 minutes'', HealthStarting)"
proof (rule engine_status_read)
  show "cut_str ''About '' (engine_status ''Up 5 minutes'' HealthStarting) = None" by code_simp
qed (simp_all add: is_space_def)

text \<open>
  The published ports of a container are written once each, in increasing order, and no other
  number: ports that are not published and further addresses of one are left out.
\<close>

theorem ports_shown_once:
  "\<exists>ps. fst (convert_container_ports_to_string ctr) = join_with '', '' (map port_text ps)
     \<and> set ps \<subseteq> set (ai_ports ctr)
     \<and> map ap_public_port ps = sorted_list_of_set (ap_public_port ` set (ai_ports ctr) - {0})"
proof (cases "ai_ports ctr = []")
  case True
  then show ?thesis by (intro exI [of _ "[]"]) (simp add: convert_container_ports_to_string_def)
next
  case False
  define ps where "ps = shown_ports {} (sort_key ap_public_port (ai_ports ctr))"
  have p: "distinct (map ap_public_port ps)" "sorted (map ap_public_port ps)" "set ps \<subseteq> set (ai_ports ctr)"
    "set (map ap_public_port ps) = ap_public_port ` set (ai_ports ctr) - {0}"
    using shown_ports_props [of "{}" "sort_key ap_public_port (ai_ports ctr)"] by (simp_all add: ps_def)
  have "map ap_public_port ps = sorted_list_of_set (ap_public_port ` set (ai_ports ctr) - {0})"
    using p sorted_list_of_set.idem_if_sorted_distinct [of "map ap_public_port ps"] by simp
  then show ?thesis
    using p False by (intro exI [of _ ps]) (simp add: convert_container_ports_to_string_def ps_def)
qed

section \<open>What a call reports\<close>


definition answer :: "json \<Rightarrow> api_response" where
  "answer j = \<lparr>ar_status_ok = True, ar_status = ''200 OK'', ar_server = ''Docker'', ar_body = JText j\<rparr>"

definition listed_web :: json where
  "listed_web = JArr [JObj [(''Id'', JStr ''0123456789abcdef''), (''Names'', JArr [JStr ''/web'']), (''Status'', JStr ''Up'')]]"

definition web_info :: api_info where
  "web_info = zero_api_info\<lparr>ai_id := ''0123456789abcdef'', ai_names := [''/web''], ai_status := ''Up''\<rparr>"

definition web_stats :: json where
  "web_stats = JObj [(''memory_stats'', JObj [(''usage'', JInt 1048576)])]"

definition one_round :: docker_world where
  "one_round = \<lparr>dw_list = Inr (answer listed_web), dw_version = Inl (ErrText []),
     dw_stats = (\<lambda>_ _. Inr (answer web_stats)), dw_inspect = (\<lambda>_ _. Inl (ErrText [])), dw_order = (\<lambda>is. is),
     dw_now = (\<lambda>_ _. 0), dw_ctx_version = None, dw_ctx_listed = None, dw_ctx_loop = (\<lambda>_. None),
     dw_ctx_queue = (\<lambda>_. None), dw_ctx_waited = None, dw_ctx_retry = (\<lambda>_. None), dw_ctx_end = None\<rparr>"

definition fresh_manager :: docker_manager where
  "fresh_manager = new_docker_manager None (Inl (ErrText []))"

lemma decode_web: "decode_containers (JText listed_web) [] = Inr (1, [web_info])"
  by code_simp

lemma decode_web_stats: "dec_api_stats zero_api_stats web_stats
    = Inr (zero_api_stats\<lparr>as_memory_stats := \<lparr>ms_usage = 1048576, ms_stats = \<lparr>mm_cache = 0, mm_inactive_file = 0\<rparr>\<rparr>\<rparr>)"
  by code_simp

lemma status_up: "parse_docker_status ''Up'' = (''Up'', HealthNone)" by code_simp

lemmas web_defs = one_round_def answer_def fresh_manager_def new_docker_manager_def check_docker_version_def
  exclude_patterns_def ensure_docker_version_checked_def

lemma no_second: "contains_str ''second'' ''Up'' = False" by code_simp

lemma web_starts: "start_containers one_round [0] [] {} (fresh_manager\<lparr>dk_containers := [web_info]\<rparr>)
    = Some (None, [0], {''0123456789ab''}, fresh_manager\<lparr>dk_containers := [web_info\<lparr>ai_id_short := ''0123456789ab''\<rparr>]\<rparr>)"
  by (simp add: web_defs web_info_def zero_api_info_def admit_container_def container_sliceable_def should_exclude_container_def
    no_second Let_def eval_nat_numeral)

lemma web_updated: "\<exists>c m'. update_container_stats (Inr (answer web_stats)) (Inl (ErrText [])) 0 60000 0
    (fresh_manager\<lparr>dk_containers := [web_info\<lparr>ai_id_short := ''0123456789ab''\<rparr>]\<rparr>) = (None, m')
    \<and> dk_container_stats m' = [(''0123456789ab'', c)] \<and> ct_name c = ''web''"
  by (simp add: web_defs update_container_stats_def decode_web_stats [unfolded zero_api_stats_def] reset_container_def status_up web_info_def zero_api_info_def
    container_health_def container_name_def Let_def put_container_def apply_api_stats_def calculate_memory_usage_def
    calculate_cpu_percent_linux_def initialize_cpu_tracking_def set_cpu_current_values_def zero_api_stats_def max_memory_usage_def
    validate_cpu_percentage_def calculate_network_stats_def update_container_stats_values_def zero_container_stats_def
    cpu_previous_def parse_docker_health_status_def)

lemma web_round: "\<exists>c m'. get_stats one_round 60000 fresh_manager = Some (Inr [c], m') \<and> ct_name c = ''web''"
proof -
  obtain c m1 where u: "update_container_stats (Inr (answer web_stats)) (Inl (ErrText [])) 0 60000 0
      (fresh_manager\<lparr>dk_containers := [web_info\<lparr>ai_id_short := ''0123456789ab''\<rparr>]\<rparr>) = (None, m1)"
    "dk_container_stats m1 = [(''0123456789ab'', c)]" "ct_name c = ''web''"
    using web_updated by blast
  define m where "m = fresh_manager\<lparr>dk_containers := [web_info\<lparr>ai_id_short := ''0123456789ab''\<rparr>]\<rparr>"
  have "first_attempt one_round 60000 ([], m) 0 = ([], m1)"
    using u by (simp add: first_attempt_def m_def one_round_def)
  then have "\<exists>m2. run_attempts one_round 60000 [0] {''0123456789ab''} m = (Inr [c], m2)"
    using u(2) by (simp add: run_attempts_def finish_stats_def one_round_def)
  then obtain m2 where r: "run_attempts one_round 60000 [0] {''0123456789ab''} m = (Inr [c], m2)" by blast
  have f: "dk_containers fresh_manager = []" "dk_using_podman fresh_manager = False"
    by (simp_all add: web_defs)
  have w: "dw_list one_round = Inr (answer listed_web)" "dw_ctx_version one_round = None" "dw_ctx_listed one_round = None"
    "dw_version one_round = Inl (ErrText [])" "ar_body (answer listed_web) = JText listed_web"
    "detect_podman_from_header (ar_server (answer listed_web)) = False"
    by (simp_all add: one_round_def answer_def detect_podman_from_header_def has_prefix_def)
  have v: "ensure_docker_version_checked None (Inl e) m = m" for e m
    by (simp add: ensure_docker_version_checked_def check_docker_version_def)
  have "get_stats one_round 60000 fresh_manager = Some (Inr [c], m2)"
    using r by (simp add: get_stats_def w f v decode_web web_starts m_def del: start_containers.simps)
  then show ?thesis using u(3) by blast
qed


section \<open>The reused answer\<close>

lemma decode_without_memory:
  assumes "jlast (fold_keys fs) ''memory_stats'' \<in> {None, Some (JObj [])}" "dec_api_stats old (JObj fs) = Inr s"
  shows "as_memory_stats s = as_memory_stats old"
proof -
  have "dec_memory_stats x (JObj []) = Inr x" for x
    by (simp add: dec_memory_stats_def dec_struct_over_def dec_struct_def jfield_def fold_keys_def)
  then have "jfield (fold_keys fs) ''memory_stats'' (as_memory_stats old) (dec_memory_stats (as_memory_stats old)) = Inr (as_memory_stats old)"
    using assms(1) by (auto simp: jfield_def)
  then show ?thesis
    using assms(2) by (auto simp: dec_api_stats_def dec_struct_over_def dec_struct_def attempt_Inr_iff)
qed

lemma memory_of_answer: "calculate_memory_usage s = calculate_memory_usage t" if "as_memory_stats s = as_memory_stats t"
  by (simp add: calculate_memory_usage_def that)

text \<open>
  The answers about the containers are all decoded into the manager's one object, which is not
  cleared.  A container that is no longer running, for which the engine sends empty memory
  statistics, is not refused as intended: it is reported with the memory of whatever container was
  read before it.  In a cleared object the same answer would be refused.
\<close>

theorem stale_memory_reported:
  assumes "ar_body resp = JText (JObj fs)" "jlast (fold_keys fs) ''memory_stats'' \<in> {None, Some (JObj [])}"
    "calculate_memory_usage (dk_api_stats m) = Inr used"
    "update_container_stats (Inr resp) inspect now cache i m = (None, m')"
  shows "(\<exists>c. mget (dk_container_stats m') (ai_id_short (dk_containers m ! i)) = Some c
      \<and> ct_mem c = bytes_to_megabytes (of_uint64 used))
    \<and> (\<forall>s. dec_api_stats zero_api_stats (JObj fs) = Inr s \<longrightarrow> calculate_memory_usage s = Inl (ErrText ''bad memory stats''))"
proof (intro conjI allI impI)
  define ctr where "ctr = dk_containers m ! i"
  define entry where "entry = reset_container ctr (container_health ctr inspect m) m"
  define m1 where "m1 = put_container (ai_id_short ctr) entry m\<lparr>dk_containers := (dk_containers m)[i := ctr\<lparr>ai_ports := []\<rparr>],
    dk_api_stats := (dk_api_stats m)\<lparr>as_networks := None\<rparr>\<rparr>"
  have st: "dk_api_stats m1 = (dk_api_stats m)\<lparr>as_networks := None\<rparr>" by (simp add: m1_def)
  obtain s where s: "dec_api_stats (dk_api_stats m1) (JObj fs) = Inr s"
    "apply_api_stats cache now ctr entry (m1\<lparr>dk_api_stats := s\<rparr>) = (None, m')"
    using assms(1,4) by (auto simp: update_container_stats_def Let_def ctr_def entry_def m1_def split: sum.splits)
  have "calculate_memory_usage s = Inr used"
    using decode_without_memory [OF assms(2) s(1)] assms(3) memory_of_answer [of s "dk_api_stats m"] by (simp add: st)
  then show "\<exists>c. mget (dk_container_stats m') (ai_id_short (dk_containers m ! i)) = Some c
      \<and> ct_mem c = bytes_to_megabytes (of_uint64 used)"
    using apply_api_stats_cases [of cache now ctr entry "m1\<lparr>dk_api_stats := s\<rparr>"] s(2)
    by (auto simp: ctr_def update_container_stats_values_def)
next
  fix s assume "dec_api_stats zero_api_stats (JObj fs) = Inr s"
  then show "calculate_memory_usage s = Inl (ErrText ''bad memory stats'')"
    using decode_without_memory [OF assms(2)] memory_of_answer [of s zero_api_stats]
    by (simp add: calculate_memory_usage_def zero_api_stats_def)
qed

definition running :: api_stats where
  "running = \<lparr>as_read = None, as_networks = None,
     as_cpu_stats = \<lparr>kc_cpu_usage = \<lparr>cu_total_usage = 0\<rparr>, kc_system_usage = 0\<rparr>,
     as_memory_stats = \<lparr>ms_usage = 1048576, ms_stats = \<lparr>mm_cache = 0, mm_inactive_file = 0\<rparr>\<rparr>\<rparr>"

text \<open>A manager that has read the container \<open>web\<close> reads one that has exited.\<close>

theorem stale_memory_reported_witness:
  "\<exists>m'. update_container_stats (Inr (answer (JObj [(''memory_stats'', JObj [])]))) (Inl (ErrText [])) 0 60000 0
      (fresh_manager\<lparr>dk_containers := [web_info\<lparr>ai_id_short := ''0123456789ab''\<rparr>],
        dk_api_stats := running\<rparr>) = (None, m')
    \<and> (\<exists>c. mget (dk_container_stats m') ''0123456789ab'' = Some c \<and> ct_mem c = bytes_to_megabytes (of_uint64 1048576))"
proof -
  define m where "m = fresh_manager\<lparr>dk_containers := [web_info\<lparr>ai_id_short := ''0123456789ab''\<rparr>],
    dk_api_stats := running\<rparr>"
  have d: "dec_api_stats running
      (JObj [(''memory_stats'', JObj [])])
    = Inr running"
    by code_simp
  have u: "\<exists>m'. update_container_stats (Inr (answer (JObj [(''memory_stats'', JObj [])]))) (Inl (ErrText [])) 0 60000 0 m = (None, m')"
    by (simp add: m_def web_defs update_container_stats_def d [unfolded running_def] reset_container_def status_up web_info_def zero_api_info_def
    container_health_def container_name_def Let_def put_container_def apply_api_stats_def calculate_memory_usage_def
    calculate_cpu_percent_linux_def initialize_cpu_tracking_def set_cpu_current_values_def running_def max_memory_usage_def
    validate_cpu_percentage_def calculate_network_stats_def update_container_stats_values_def zero_container_stats_def
    cpu_previous_def parse_docker_health_status_def)
  then obtain m' where u: "update_container_stats (Inr (answer (JObj [(''memory_stats'', JObj [])]))) (Inl (ErrText [])) 0 60000 0 m = (None, m')"
    by blast
  have c: "calculate_memory_usage (dk_api_stats m) = Inr 1048576"
    by (simp add: m_def running_def calculate_memory_usage_def max_memory_usage_def)
  have "jlast (fold_keys [(''memory_stats'', JObj [])]) ''memory_stats'' = Some (JObj [])" by code_simp
  then have j: "jlast (fold_keys [(''memory_stats'', JObj [])]) ''memory_stats'' \<in> {None, Some (JObj [])}" by simp
  show ?thesis
    using stale_memory_reported [OF _ j c u] u
    by (auto simp: m_def [symmetric] answer_def) (auto simp: m_def web_info_def)
qed

section \<open>The reused list\<close>

lemma dec_elems_over_nth:
  "dec_elems_over dec z olds js = Inr xs \<Longrightarrow> i < length js \<Longrightarrow>
    length xs = length js \<and> dec (if i < length olds then olds ! i else z) (js ! i) = Inr (xs ! i)"
proof (induction dec z olds js arbitrary: xs i rule: dec_elems_over.induct)
  case (2 dec z olds j js)
  obtain x ys where x: "dec (case olds of [] \<Rightarrow> z | old # _ \<Rightarrow> old) j = Inr x"
    "dec_elems_over dec z (case olds of [] \<Rightarrow> [] | _ # rest \<Rightarrow> rest) js = Inr ys" "xs = x # ys"
    using 2(2) by (auto simp: attempt_Inr_iff)
  show ?case
  proof (cases i)
    case 0
    have "length ys = length js"
      using "2.IH" [OF x(2), of 0] x(2) by (cases js) auto
    then show ?thesis using x 0 by (cases olds) auto
  next
    case (Suc k)
    then show ?thesis using "2.IH" [OF x(2), of k] 2(3) x by (cases olds) auto
  qed
qed simp

lemma decode_without_health:
  assumes "jlast (fold_keys fs) ''health'' = None" "dec_api_info old (JObj fs) = Inr c"
  shows "ai_health_status c = ai_health_status old"
proof -
  have "jfield (fold_keys fs) ''health'' (ai_health_status old) dec = Inr (ai_health_status old)" for dec
    using assms(1) by (simp add: jfield_def)
  then show ?thesis using assms(2) by (auto simp: dec_api_info_def dec_struct_over_def dec_struct_def attempt_Inr_iff)
qed

text \<open>
  The list of containers is decoded into the objects of the list before it.  A container for
  which the engine sends no health has the health that the container at the same place of the
  previous list had, whatever its own status text says.
\<close>

theorem stale_health_reported:
  assumes "decode_containers (JText (JArr js)) old = Inr (n, infos)" "i < length js" "i < length old"
    "js ! i = JObj fs" "jlast (fold_keys fs) ''health'' = None"
    "parse_docker_health_status (ai_health_status (old ! i)) = Some h" "ai_health_status (old ! i) \<noteq> []"
  shows "i < n \<and> container_health (infos ! i) inspect m = h"
proof -
  obtain xs where x: "dec_elems_over dec_api_info zero_api_info old js = Inr xs" "n = length xs" "infos = xs @ drop (length xs) old"
    using assms(1) by (auto simp: decode_containers_def dec_slice_over_def attempt_Inr_iff)
  have d: "length xs = length js" "dec_api_info (old ! i) (js ! i) = Inr (xs ! i)"
    using dec_elems_over_nth [OF x(1) assms(2)] assms(3) by simp_all
  have "ai_health_status (xs ! i) = ai_health_status (old ! i)"
    using d(2) decode_without_health [OF assms(5)] by (simp add: assms(4))
  then show ?thesis
    using assms(2,6,7) x d(1) by (simp add: nth_append container_health_def Let_def)
qed

text \<open>The container \<open>db\<close> was unhealthy; now \<open>web\<close>, which is up and has no health, is at its place.\<close>

theorem stale_health_reported_witness:
  "\<exists>n infos. decode_containers (JText listed_web) [web_info\<lparr>ai_health_status := ''unhealthy''\<rparr>] = Inr (n, infos)
     \<and> container_health (infos ! 0) (Inl (ErrText [])) fresh_manager = HealthUnhealthy"
proof -
  have d: "decode_containers (JText listed_web) [web_info\<lparr>ai_health_status := ''unhealthy''\<rparr>]
      = Inr (1, [web_info\<lparr>ai_health_status := ''unhealthy''\<rparr>])" by code_simp
  have j: "jlast (fold_keys [(''Id'', JStr ''0123456789abcdef''), (''Names'', JArr [JStr ''/web'']), (''Status'', JStr ''Up'')]) ''health'' = None"
    by code_simp
  have h: "parse_docker_health_status ''unhealthy'' = Some HealthUnhealthy" by code_simp
  show ?thesis
    using stale_health_reported [OF d [unfolded listed_web_def], of 0 _ HealthUnhealthy "Inl (ErrText [])" fresh_manager] j h d
    by auto
qed

end
