(* ===== verification/Systemd.thy ===== *)
theory Systemd
  imports Codecs Golib Go_Text
begin

text \<open>
  \<open>internal/app/systemd.go\<close>: the manager of the systemd services.  What systemd answers over D-Bus,
  the context's errors and the clock are arguments.  Each of the manager's operations on its map is
  done under its mutex, so a collection is a sequence of atomic steps, one per unit.
\<close>

section \<open>Names and patterns\<close>

text \<open>
  \<open>strconv.Unquote\<close> of a text in double quotes.  Unit names are valid UTF-8, as all strings on the
  bus are, and the bytes of their characters are copied.
\<close>

definition utf8_encode :: "nat \<Rightarrow> string" where
  "utf8_encode r = map char_of
     (if r < 128 then [r]
      else if r < 2048 then [192 + r div 64, 128 + r mod 64]
      else if r < 65536 then [224 + r div 4096, 128 + r div 64 mod 64, 128 + r mod 64]
      else [240 + r div 262144, 128 + r div 4096 mod 64, 128 + r div 64 mod 64, 128 + r mod 64])"

definition valid_rune :: "nat \<Rightarrow> bool" where
  "valid_rune r = (r < 55296 \<or> 57343 < r \<and> r \<le> 1114111)"

fun hex_number :: "nat \<Rightarrow> string \<Rightarrow> nat option" where
  "hex_number acc [] = Some acc"
| "hex_number acc (c # cs) = (case hex_value c of None \<Rightarrow> None | Some d \<Rightarrow> hex_number (16 * acc + d) cs)"

definition octal_value :: "char \<Rightarrow> nat option" where
  "octal_value c = (let n = of_char c :: nat in if 48 \<le> n \<and> n \<le> 55 then Some (n - 48) else None)"

definition simple_escapes :: "(char \<times> nat) list" where
  "simple_escapes = [(CHR ''a'', 7), (CHR ''b'', 8), (CHR ''f'', 12), (CHR ''n'', 10), (CHR ''r'', 13),
     (CHR ''t'', 9), (CHR ''v'', 11), (CHR 0x5C, 92), (CHR 0x22, 34)]"

text \<open>What follows a backslash: the bytes it stands for and the rest of the text.\<close>

definition unescape_one :: "string \<Rightarrow> (string \<times> string) option" where
  "unescape_one s = (case s of
     [] \<Rightarrow> None
   | c # rest \<Rightarrow>
       let code = (\<lambda>n. if length rest < n then None else hex_number 0 (take n rest)) in
       (case map_of simple_escapes c of
          Some r \<Rightarrow> Some ([char_of r], rest)
        | None \<Rightarrow>
            if c = CHR ''x'' then map_option (\<lambda>v. ([char_of v], drop 2 rest)) (code 2)
            else if c = CHR ''u'' \<or> c = CHR ''U'' then
              (let n = (if c = CHR ''u'' then 4 else 8) in case code n of
                 None \<Rightarrow> None
               | Some v \<Rightarrow> if valid_rune v then Some (utf8_encode v, drop n rest) else None)
            else (case (octal_value c, rest) of
                (Some a, p # q # rest') \<Rightarrow>
                  (case (octal_value p, octal_value q) of
                     (Some b, Some d) \<Rightarrow> let v = 64 * a + 8 * b + d in
                       if 255 < v then None else Some ([char_of v], rest')
                   | _ \<Rightarrow> None)
              | _ \<Rightarrow> None)))"

lemma unescape_one_shorter: "unescape_one s = Some (bytes, rest) \<Longrightarrow> length rest < length s"
  by (auto simp: unescape_one_def Let_def split: list.splits option.splits if_splits)

function unquote :: "string \<Rightarrow> string option" where
  "unquote s = (case s of
     [] \<Rightarrow> Some []
   | c # cs \<Rightarrow>
       if c = CHR 0x22 \<or> c = CHR 0x0A then None
       else if c = CHR 0x5C then
         (case unescape_one cs of
            None \<Rightarrow> None | Some (bytes, rest) \<Rightarrow> map_option (\<lambda>t. bytes @ t) (unquote rest))
       else map_option (\<lambda>t. c # t) (unquote cs))"
  by pat_completeness auto

termination
  by (relation "Wellfounded.measure length") (auto dest!: unescape_one_shorter)

declare unquote.simps [simp del]

definition unescape_service_name :: "string \<Rightarrow> string" where
  "unescape_service_name name =
     (if \<not> contains_str [CHR 0x5C, CHR ''x''] name then name
      else case unquote name of None \<Rightarrow> name | Some unescaped \<Rightarrow> unescaped)"

definition service_pattern :: "string \<Rightarrow> string" where
  "service_pattern pattern =
     (if \<not> has_suffix ''timer'' pattern \<and> \<not> has_suffix ''.service'' pattern then pattern @ ''.service'' else pattern)"

definition get_service_patterns :: "string option \<Rightarrow> string list" where
  "get_service_patterns env =
     (let given = (case env of None \<Rightarrow> [] | Some text \<Rightarrow> if text = [] then []
            else map service_pattern (filter (\<lambda>p. p \<noteq> []) (map trim_space (split_on (CHR '','') text))))
      in if given = [] then [''*.service''] else given)"

definition is_systemd_available :: "(string \<Rightarrow> bool) \<Rightarrow> string option \<Rightarrow> bool" where
  "is_systemd_available exists comm =
     (list_ex exists [''/run/systemd/system'', ''/run/dbus/system_bus_socket'', ''/var/run/dbus/system_bus_socket'']
      \<or> (case comm of None \<Rightarrow> False | Some text \<Rightarrow> trim_space text = ''systemd''))"

section \<open>The manager\<close>

record systemd_manager =
  sy_services :: "(string, service) gmap"
  sy_is_running :: bool
  sy_has_fresh_stats :: bool
  sy_patterns :: "string list"
  sy_cancel :: bool

definition new_systemd_manager :: "(string \<Rightarrow> string option) \<Rightarrow> (string \<Rightarrow> bool) \<Rightarrow> string option \<Rightarrow> systemd_manager option" where
  "new_systemd_manager env exists comm =
     (if env ''SKIP_SYSTEMD'' = Some ''true'' \<or> \<not> is_systemd_available exists comm then None
      else Some \<lparr>sy_services = [], sy_is_running = False, sy_has_fresh_stats = False,
        sy_patterns = get_service_patterns (env ''SERVICE_PATTERNS''), sy_cancel = False\<rparr>)"

definition get_failed_service_count :: "systemd_manager \<Rightarrow> 16 word" where
  "get_failed_service_count m =
     foldl (\<lambda>count (name, s). if sv_state s = service_state_code StatusFailed then count + 1 else count) 0 (sy_services m)"

text \<open>The entries; Go's map gives them in any order, here they come by unit name.\<close>

definition cached_service_stats :: "systemd_manager \<Rightarrow> service list \<times> systemd_manager" where
  "cached_service_stats m = (map snd (sy_services m), m\<lparr>sy_has_fresh_stats := False\<rparr>)"

definition remove_stale_services :: "string set \<Rightarrow> systemd_manager \<Rightarrow> systemd_manager" where
  "remove_stale_services current_units m =
     m\<lparr>sy_services := filter (\<lambda>(name, _). name \<in> current_units) (sy_services m)\<rparr>"

section \<open>Collection\<close>

record unit_status =
  un_name :: string
  un_active_state :: string
  un_sub_state :: string

datatype dbus_value = DbusUint64 u64 | DbusOther

record systemd_world =
  sw_prop :: "string \<Rightarrow> string \<Rightarrow> string \<Rightarrow> dbus_value res"
  sw_now :: "string \<Rightarrow> int"
  sw_num_cpu :: int
  sw_connected :: bool
  sw_units :: "unit_status list res"
  sw_ctx_start :: "go_error option"
  sw_ctx_failed :: "go_error option"
  sw_ctx_before :: "nat \<Rightarrow> go_error option"
  sw_ctx_after :: "nat \<Rightarrow> go_error option"

definition err_no_active_time :: go_error where
  "err_no_active_time = ErrText ''no active time''"

definition active_since :: "dbus_value res \<Rightarrow> go_error option" where
  "active_since answer = (case answer of
     Inl e \<Rightarrow> Some e
   | Inr (DbusUint64 ts) \<Rightarrow> if ts = 0 \<or> ts = -1 then Some err_no_active_time else None
   | Inr DbusOther \<Rightarrow> Some err_no_active_time)"

text \<open>A memory value; the bus uses the largest number for one that is not available.\<close>

definition memory_or :: "u64 \<Rightarrow> dbus_value res \<Rightarrow> u64" where
  "memory_or z answer = (case answer of Inr (DbusUint64 v) \<Rightarrow> if v \<noteq> -1 then v else z | _ \<Rightarrow> z)"

definition cpu_usage_of :: "dbus_value res \<Rightarrow> u64" where
  "cpu_usage_of answer = (case answer of Inr (DbusUint64 v) \<Rightarrow> v | _ \<Rightarrow> 0)"

definition update_service_entry :: "systemd_world \<Rightarrow> unit_status \<Rightarrow> service \<Rightarrow> service" where
  "update_service_entry w unit service =
     (let peak0 = memory_or (sv_mem_peak service) (sw_prop w (un_name unit) ''Service'' ''MemoryPeak'');
          mem_usage = memory_or 0 (sw_prop w (un_name unit) ''Service'' ''MemoryCurrent'');
          peak = (if peak0 < mem_usage then mem_usage else peak0);
          cpu_used = cpu_usage_of (sw_prop w (un_name unit) ''Service'' ''CPUUsageNSec'')
      in update_cpu_percent (sw_num_cpu w) (sw_now w (un_name unit)) cpu_used
           (service\<lparr>sv_state := service_state_code (parse_service_status (un_active_state unit)),
              sv_sub := service_sub_state_code (parse_service_sub_state (un_sub_state unit)),
              sv_mem := mem_usage,
              sv_mem_peak := (if sv_mem_peak service < peak then peak else sv_mem_peak service)\<rparr>))"

definition update_service_stats :: "systemd_world \<Rightarrow> unit_status \<Rightarrow> systemd_manager \<Rightarrow> service res \<times> systemd_manager" where
  "update_service_stats w unit m =
     (case active_since (sw_prop w (un_name unit) ''Unit'' ''ActiveEnterTimestamp'') of
        Some e \<Rightarrow> (Inl e, m)
      | None \<Rightarrow>
          let old = (case mget (sy_services m) (un_name unit) of
                Some s \<Rightarrow> s
              | None \<Rightarrow> zero_service\<lparr>sv_name := unescape_service_name (trim_suffix ''.service'' (un_name unit))\<rparr>);
              service = update_service_entry w unit old
          in (Inr service, m\<lparr>sy_services := mput (un_name unit) service (sy_services m)\<rparr>))"

text \<open>
  The loop over the units from the one with the given index on: the services, the names of the units
  and the numbers of the units that were never active and of those that could not be read.
\<close>

fun collect_systemd_unit_stats :: "systemd_world \<Rightarrow> nat \<Rightarrow> unit_status list \<Rightarrow> systemd_manager
    \<Rightarrow> (service list \<times> string set \<times> nat \<times> nat) res \<times> systemd_manager" where
  "collect_systemd_unit_stats w i [] m = (Inr ([], {}, 0, 0), m)"
| "collect_systemd_unit_stats w i (unit # units) m = (case sw_ctx_before w i of
     Some e \<Rightarrow> (Inl e, m)
   | None \<Rightarrow> (case update_service_stats w unit m of
       (Inr service, m1) \<Rightarrow> (case collect_systemd_unit_stats w (Suc i) units m1 of
           (Inr (services, current, never, errs), m2) \<Rightarrow> (Inr (service # services, insert (un_name unit) current, never, errs), m2)
         | (Inl e, m2) \<Rightarrow> (Inl e, m2))
     | (Inl err, m1) \<Rightarrow>
         if sw_ctx_after w i \<noteq> None then (Inl (the (sw_ctx_after w i)), m1)
         else (case collect_systemd_unit_stats w (Suc i) units m1 of
             (Inr (services, current, never, errs), m2) \<Rightarrow>
               (Inr (services, insert (un_name unit) current,
                  if err = err_no_active_time then Suc never else never,
                  if err = err_no_active_time then errs else Suc errs), m2)
           | (Inl e, m2) \<Rightarrow> (Inl e, m2))))"

definition get_service_stats :: "systemd_world \<Rightarrow> bool \<Rightarrow> systemd_manager \<Rightarrow> service list res \<times> systemd_manager" where
  "get_service_stats w refresh m =
     (case sw_ctx_start w of
        Some e \<Rightarrow> (Inl e, m)
      | None \<Rightarrow>
          if \<not> refresh then (case cached_service_stats m of (services, m') \<Rightarrow> (Inr services, m'))
          else if \<not> sw_connected w then (case sw_ctx_failed w of Some e \<Rightarrow> (Inl e, m) | None \<Rightarrow> (Inr [], m))
          else (case sw_units w of
              Inl e \<Rightarrow> (Inl (case sw_ctx_failed w of Some c \<Rightarrow> c | None \<Rightarrow> e), m)
            | Inr units \<Rightarrow> (case collect_systemd_unit_stats w 0 units m of
                (Inl e, m1) \<Rightarrow> (Inl e, m1)
              | (Inr (services, current, _, _), m1) \<Rightarrow>
                  (Inr services, (remove_stale_services current m1)\<lparr>sy_has_fresh_stats := True\<rparr>))))"

text \<open>Starting collects once; the goroutine's later collections are further calls with \<open>refresh\<close>.\<close>

definition systemd_start :: "systemd_world \<Rightarrow> systemd_manager \<Rightarrow> systemd_manager" where
  "systemd_start w m =
     (if sy_cancel m then m
      else let m1 = m\<lparr>sy_cancel := True\<rparr> in
        if sy_is_running m1 then m1 else snd (get_service_stats w True (m1\<lparr>sy_is_running := True\<rparr>)))"

definition systemd_stop :: "systemd_manager \<Rightarrow> systemd_manager" where
  "systemd_stop m = m\<lparr>sy_cancel := False, sy_is_running := False\<rparr>"

end
