(* ===== verification/Systemd_Properties.thy ===== *)
theory Systemd_Properties
  imports Systemd "HOL-Library.Multiset"
begin

text \<open>
  Names are unescaped, the invariant of the manager of the services over all its operations, and the
  number of failed services.
\<close>

section \<open>Unit names\<close>

definition plain_unit_char :: "char \<Rightarrow> bool" where
  "plain_unit_char c = (let n = of_char c :: nat in
     48 \<le> n \<and> n \<le> 58 \<or> 65 \<le> n \<and> n \<le> 90 \<or> 97 \<le> n \<and> n \<le> 122 \<or> n = 95 \<or> n = 46)"

definition hex_digit :: "nat \<Rightarrow> char" where
  "hex_digit n = char_of (if n < 10 then 48 + n else 87 + n)"

text \<open>How systemd writes a byte in a unit name.\<close>

definition escape_byte :: "char \<Rightarrow> string" where
  "escape_byte c = (if plain_unit_char c then [c]
     else [CHR 0x5C, CHR ''x'', hex_digit (of_char c div 16), hex_digit (of_char c mod 16)])"

lemma hex_value_digit: "n < 16 \<Longrightarrow> hex_value (hex_digit n) = Some n"
  by (auto simp: hex_value_def hex_digit_def Let_def)

lemma char_of_parts: "char_of (16 * (of_char c div 16) + of_char c mod 16 :: nat) = c"
  by simp

lemma unquote_escaped: "unquote (escape_byte c @ s) = map_option (\<lambda>t. c # t) (unquote s)"
proof (cases "plain_unit_char c")
  case True
  then have "c \<noteq> CHR 0x22" "c \<noteq> CHR 0x0A" "c \<noteq> CHR 0x5C" by (auto simp: plain_unit_char_def Let_def)
  then show ?thesis using True by (simp add: escape_byte_def unquote.simps [of "c # s"])
next
  case False
  define a where "a = (of_char c :: nat) div 16"
  define b where "b = (of_char c :: nat) mod 16"
  have n: "(of_char c :: nat) < 256" by simp
  have a: "a < 16" "b < 16" using n unfolding a_def b_def by arith+
  have u: "unescape_one (CHR ''x'' # hex_digit a # hex_digit b # s) = Some ([c], s)"
    using a char_of_parts [of c] by (simp add: unescape_one_def simple_escapes_def hex_value_digit a_def b_def)
  show ?thesis
    using False u by (cases "unquote s") (simp_all add: escape_byte_def unquote.simps [of "CHR 0x5C # _"] a_def b_def)
qed

lemma unquote_all: "unquote (concat (map escape_byte s)) = Some s"
proof (induction s)
  case Nil
  then show ?case by (simp add: unquote.simps)
next
  case (Cons c s)
  then show ?case by (simp add: unquote_escaped)
qed

lemma contains_str_Cons: "contains_str sep s \<Longrightarrow> contains_str sep (c # s)"
  by (auto simp: contains_str_def split: option.splits)

lemma contains_str_append: "contains_str sep s \<Longrightarrow> contains_str sep (t @ s)"
  by (induction t) (simp_all add: contains_str_Cons)

lemma escape_contains:
  assumes "\<not> contains_str [CHR 0x5C, CHR ''x''] (concat (map escape_byte s))"
  shows "concat (map escape_byte s) = s"
  using assms
proof (induction s)
  case (Cons c s)
  have "\<not> contains_str [CHR 0x5C, CHR ''x''] (concat (map escape_byte s))"
    using Cons.prems contains_str_append by fastforce
  moreover have "plain_unit_char c"
  proof (rule ccontr)
    assume "\<not> plain_unit_char c"
    then have "contains_str [CHR 0x5C, CHR ''x''] (concat (map escape_byte (c # s)))"
      by (simp add: escape_byte_def contains_str_def has_prefix_def)
    then show False using Cons.prems by blast
  qed
  then have "escape_byte c = [c]" by (simp add: escape_byte_def)
  ultimately show ?case using Cons.IH by simp
qed simp

text \<open>
  The name that systemd makes of any text by escaping is turned back into that text.
\<close>

theorem service_name_unescaped: "unescape_service_name (concat (map escape_byte s)) = s"
  using escape_contains [of s] by (auto simp: unescape_service_name_def unquote_all)

section \<open>One unit\<close>

lemma update_cpu_percent_keeps [simp]:
  "sv_mem (update_cpu_percent n t u s) = sv_mem s" "sv_mem_peak (update_cpu_percent n t u s) = sv_mem_peak s"
  "sv_state (update_cpu_percent n t u s) = sv_state s" "sv_name (update_cpu_percent n t u s) = sv_name s"
  by (simp_all add: update_cpu_percent_def Let_def split: option.splits)

lemma update_entry_state [simp]:
  "sv_state (update_service_entry w unit s) = service_state_code (parse_service_status (un_active_state unit))"
  by (simp add: update_service_entry_def Let_def)

lemma update_entry_mem: "sv_mem (update_service_entry w unit s) \<le> sv_mem_peak (update_service_entry w unit s)
    \<and> sv_mem_peak s \<le> sv_mem_peak (update_service_entry w unit s)"
  by (auto simp: update_service_entry_def Let_def)

section \<open>A collection\<close>

text \<open>The services that a unit list leaves: the units that were active once, each with its new entry.\<close>

lemma get_service_stats_cases:
  assumes "get_service_stats w True m = (Inr services, m')" "sw_connected w" "sw_units w = Inr units"
  shows "\<exists>current never errs m1. collect_systemd_unit_stats w 0 units m = (Inr (services, current, never, errs), m1)
    \<and> m' = (remove_stale_services current m1)\<lparr>sy_has_fresh_stats := True\<rparr>"
  using assms by (auto simp: get_service_stats_def split: option.splits prod.splits sum.splits)

lemma collect_Cons:
  assumes "collect_systemd_unit_stats w i (unit # units) m = (Inr (services, current, never, errs), m')"
  shows "\<exists>services' current' never' errs'.
    collect_systemd_unit_stats w (Suc i) units (snd (update_service_stats w unit m)) = (Inr (services', current', never', errs'), m')
    \<and> current = insert (un_name unit) current'
    \<and> services = (case fst (update_service_stats w unit m) of Inr s \<Rightarrow> s # services' | Inl _ \<Rightarrow> services')"
  using assms by (cases "update_service_stats w unit m") (auto split: option.splits sum.splits prod.splits if_splits)

lemma collect_current:
  "collect_systemd_unit_stats w i units m = (Inr (services, current, never, errs), m1) \<Longrightarrow> current = un_name ` set units"
proof (induction units arbitrary: i m services current never errs m1)
  case (Cons unit units)
  show ?case using collect_Cons [OF Cons.prems] Cons.IH by fastforce
qed simp

lemma update_service_stats_cases:
  "(\<exists>e. update_service_stats w unit m = (Inl e, m) \<and> active_since (sw_prop w (un_name unit) ''Unit'' ''ActiveEnterTimestamp'') = Some e)
  \<or> (\<exists>s. update_service_stats w unit m = (Inr s, m\<lparr>sy_services := mput (un_name unit) s (sy_services m)\<rparr>)
      \<and> active_since (sw_prop w (un_name unit) ''Unit'' ''ActiveEnterTimestamp'') = None
      \<and> sv_mem s \<le> sv_mem_peak s
      \<and> sv_state s = service_state_code (parse_service_status (un_active_state unit))
      \<and> (\<forall>old. mget (sy_services m) (un_name unit) = Some old \<longrightarrow> sv_mem_peak old \<le> sv_mem_peak s))"
  using update_entry_mem by (auto simp: update_service_stats_def Let_def split: option.splits)

text \<open>The invariant of the manager.\<close>

definition systemd_inv :: "systemd_manager \<Rightarrow> bool" where
  "systemd_inv m = (msorted (sy_services m) \<and> (\<forall>(name, s) \<in> set (sy_services m). sv_mem s \<le> sv_mem_peak s))"

definition peaks_kept :: "systemd_manager \<Rightarrow> systemd_manager \<Rightarrow> bool" where
  "peaks_kept m m' = (\<forall>name old. mget (sy_services m) name = Some old
     \<longrightarrow> (\<exists>new. mget (sy_services m') name = Some new \<and> sv_mem_peak old \<le> sv_mem_peak new))"

lemma peaks_kept_trans: "peaks_kept m m1 \<Longrightarrow> peaks_kept m1 m' \<Longrightarrow> peaks_kept m m'"
  unfolding peaks_kept_def by (blast intro: order_trans)

lemma peaks_kept_refl [simp]: "peaks_kept m m"
  by (simp add: peaks_kept_def)

lemma update_service_stats_inv:
  assumes "systemd_inv m" "update_service_stats w unit m = (r, m')"
  shows "systemd_inv m' \<and> fst ` set (sy_services m') = fst ` set (sy_services m) \<union> (case r of Inr _ \<Rightarrow> {un_name unit} | Inl _ \<Rightarrow> {})
    \<and> peaks_kept m m'"
  using update_service_stats_cases [of w unit m]
proof (elim disjE exE conjE)
  fix e assume "update_service_stats w unit m = (Inl e, m)"
  then show ?thesis using assms by auto
next
  fix s assume s: "update_service_stats w unit m = (Inr s, m\<lparr>sy_services := mput (un_name unit) s (sy_services m)\<rparr>)"
    "sv_mem s \<le> sv_mem_peak s" "\<forall>old. mget (sy_services m) (un_name unit) = Some old \<longrightarrow> sv_mem_peak old \<le> sv_mem_peak s"
  then show ?thesis
    using assms set_mput [of "un_name unit" s "sy_services m"] by (auto simp: systemd_inv_def msorted_mput peaks_kept_def)
qed

lemma collect_inv:
  "collect_systemd_unit_stats w i units m = (r, m') \<Longrightarrow> systemd_inv m \<Longrightarrow>
    systemd_inv m' \<and> peaks_kept m m'"
proof (induction units arbitrary: i m r)
  case Nil
  then show ?case by auto
next
  case (Cons unit units)
  obtain r1 m1 where u: "update_service_stats w unit m = (r1, m1)" by fastforce
  note v = update_service_stats_inv [OF Cons.prems(2) u]
  have "m' = m \<or> m' = m1 \<or> (\<exists>r'. collect_systemd_unit_stats w (Suc i) units m1 = (r', m'))"
    using Cons.prems(1) u by (auto split: option.splits sum.splits prod.splits if_splits)
  then show ?case
  proof (elim disjE exE)
    fix r' assume "collect_systemd_unit_stats w (Suc i) units m1 = (r', m')"
    from Cons.IH [OF this] v show ?case using peaks_kept_trans [of m m1 m'] by blast
  qed (use v Cons.prems(2) in auto)
qed


lemma remove_stale_inv: "systemd_inv m \<Longrightarrow> systemd_inv (remove_stale_services current m)"
  by (auto simp: systemd_inv_def remove_stale_services_def msorted_def sorted_wrt_map sorted_wrt_filter)

lemma systemd_inv_fresh [simp]: "systemd_inv (m\<lparr>sy_has_fresh_stats := b\<rparr>) = systemd_inv m"
  "systemd_inv (m\<lparr>sy_is_running := b\<rparr>) = systemd_inv m" "systemd_inv (m\<lparr>sy_cancel := b\<rparr>) = systemd_inv m"
  by (simp_all add: systemd_inv_def)

lemma get_service_stats_inv:
  assumes "systemd_inv m"
  shows "systemd_inv (snd (get_service_stats w refresh m))"
proof -
  have "systemd_inv m1" if "collect_systemd_unit_stats w 0 units m = (r, m1)" for units r m1
    using collect_inv [OF that assms] by blast
  then show ?thesis
    using assms remove_stale_inv
    by (auto simp: get_service_stats_def cached_service_stats_def split: option.splits prod.splits sum.splits)
qed

text \<open>The states that the manager can reach.\<close>

inductive systemd_reachable :: "systemd_manager \<Rightarrow> bool" where
  created: "new_systemd_manager env exists comm = Some m \<Longrightarrow> systemd_reachable m"
| collected: "systemd_reachable m \<Longrightarrow> systemd_reachable (snd (get_service_stats w refresh m))"
| started: "systemd_reachable m \<Longrightarrow> systemd_reachable (systemd_start w m)"
| stopped: "systemd_reachable m \<Longrightarrow> systemd_reachable (systemd_stop m)"

lemma systemd_reachable_inv: "systemd_reachable m \<Longrightarrow> systemd_inv m"
proof (induction rule: systemd_reachable.induct)
  case (created env exists comm m)
  then show ?case by (auto simp: new_systemd_manager_def systemd_inv_def split: if_splits)
next
  case (collected m w refresh)
  then show ?case by (simp add: get_service_stats_inv)
next
  case (started m w)
  then show ?case by (auto simp: systemd_start_def Let_def get_service_stats_inv)
next
  case (stopped m)
  then show ?case by (simp add: systemd_stop_def)
qed

lemma collect_keys:
  "collect_systemd_unit_stats w i units m = (Inr (services, current, never, errs), m') \<Longrightarrow>
    fst ` set (sy_services m') \<subseteq> fst ` set (sy_services m) \<union> un_name ` set units"
proof (induction units arbitrary: i m services current never errs)
  case (Cons unit units)
  obtain services' current' never' errs' where c: "collect_systemd_unit_stats w (Suc i) units (snd (update_service_stats w unit m))
      = (Inr (services', current', never', errs'), m')"
    using collect_Cons [OF Cons.prems] by blast
  have "fst ` set (sy_services (snd (update_service_stats w unit m))) \<subseteq> insert (un_name unit) (fst ` set (sy_services m))"
    by (auto simp: update_service_stats_def Let_def split: option.splits)
  with Cons.IH [OF c] show ?case by auto
qed simp

text \<open>
  C26: Whatever systemd answers and however often the manager is started, stopped and asked: a
  successful collection keeps exactly units that systemd has just listed, the memory of a service
  never exceeds its peak, and the peak of a unit that is still listed never decreases.
\<close>

theorem systemd_collection_invariant:
  assumes "systemd_reachable m" "get_service_stats w True m = (Inr services, m')" "sw_connected w" "sw_units w = Inr units"
  shows "fst ` set (sy_services m') \<subseteq> un_name ` set units
    \<and> (\<forall>(name, s) \<in> set (sy_services m'). sv_mem s \<le> sv_mem_peak s)
    \<and> (\<forall>name \<in> un_name ` set units. \<forall>old. mget (sy_services m) name = Some old \<longrightarrow>
        (\<exists>new. mget (sy_services m') name = Some new \<and> sv_mem_peak old \<le> sv_mem_peak new))"
proof -
  obtain current never errs m1 where c: "collect_systemd_unit_stats w 0 units m = (Inr (services, current, never, errs), m1)"
    "m' = (remove_stale_services current m1)\<lparr>sy_has_fresh_stats := True\<rparr>"
    using get_service_stats_cases [OF assms(2-4)] by blast
  have cur: "current = un_name ` set units" by (rule collect_current [OF c(1)])
  have inv: "systemd_inv m1" "peaks_kept m m1" using collect_inv [OF c(1) systemd_reachable_inv [OF assms(1)]] by simp_all
  have i: "systemd_inv m'" using inv(1) remove_stale_inv by (simp add: c(2))
  have k: "mget (sy_services m') name = mget (sy_services m1) name" if "name \<in> current" for name
  proof -
    have "mget (filter (\<lambda>(k, _). k \<in> current) xs) name = mget xs name" for xs :: "(string, service) gmap"
      using that by (induction xs) auto
    then show ?thesis by (simp add: c(2) remove_stale_services_def)
  qed
  show ?thesis
    using i inv(2) k by (auto simp: systemd_inv_def cur c(2) remove_stale_services_def peaks_kept_def)
qed

section \<open>Counting failures\<close>

lemma failed_count_length:
  "get_failed_service_count m = of_nat (length (filter (\<lambda>(name, s). sv_state s = service_state_code StatusFailed) (sy_services m)))"
proof -
  have "foldl (\<lambda>count (name, s). if P s then count + 1 else count) z xs = z + of_nat (length (filter (\<lambda>(name, s). P s) xs))"
    for P and z :: "16 word" and xs :: "(string \<times> service) list"
    by (induction xs arbitrary: z) auto
  then show ?thesis by (simp add: get_failed_service_count_def)
qed

lemma mset_mput_new: "k \<notin> fst ` set m \<Longrightarrow> mset (mput k v m) = add_mset (k, v) (mset m)"
  by (induction k v m rule: mput.induct) auto

definition was_active :: "systemd_world \<Rightarrow> unit_status \<Rightarrow> bool" where
  "was_active w unit = (active_since (sw_prop w (un_name unit) ''Unit'' ''ActiveEnterTimestamp'') = None)"

lemma collect_states:
  "collect_systemd_unit_stats w i units m = (Inr (services, current, never, errs), m') \<Longrightarrow> distinct (map un_name units) \<Longrightarrow>
    un_name ` set units \<inter> fst ` set (sy_services m) = {} \<Longrightarrow>
    image_mset (sv_state \<circ> snd) (mset (sy_services m')) = image_mset (sv_state \<circ> snd) (mset (sy_services m))
      + mset (map (\<lambda>u. service_state_code (parse_service_status (un_active_state u))) (filter (was_active w) units))"
proof (induction units arbitrary: i m services current never errs)
  case (Cons unit units)
  obtain services' current' never' errs' where c: "collect_systemd_unit_stats w (Suc i) units (snd (update_service_stats w unit m))
      = (Inr (services', current', never', errs'), m')"
    using collect_Cons [OF Cons.prems(1)] by blast
  show ?case
    using update_service_stats_cases [of w unit m]
  proof (elim disjE exE conjE)
    fix e assume "update_service_stats w unit m = (Inl e, m)" "active_since (sw_prop w (un_name unit) ''Unit'' ''ActiveEnterTimestamp'') = Some e"
    then show ?thesis using Cons.IH [of "Suc i" m] c Cons.prems(2,3) by (simp add: was_active_def)
  next
    fix s assume s: "update_service_stats w unit m = (Inr s, m\<lparr>sy_services := mput (un_name unit) s (sy_services m)\<rparr>)"
      "active_since (sw_prop w (un_name unit) ''Unit'' ''ActiveEnterTimestamp'') = None"
      "sv_state s = service_state_code (parse_service_status (un_active_state unit))"
    have "un_name ` set units \<inter> fst ` set (mput (un_name unit) s (sy_services m)) = {}" "un_name unit \<notin> fst ` set (sy_services m)"
      using Cons.prems(2,3) by auto
    then show ?thesis
      using Cons.IH [of "Suc i" "m\<lparr>sy_services := mput (un_name unit) s (sy_services m)\<rparr>"] c Cons.prems(2) s
      by (simp add: was_active_def mset_mput_new)
  qed
qed simp

lemma failed_code: "service_state_code (parse_service_status text) = service_state_code StatusFailed \<longleftrightarrow> text = ''failed''"
  by (auto simp: parse_service_status_def service_state_code_def)

text \<open>
  After the first collection the number of failed services is the number of listed units in the
  failed state that were active at some time: a service that failed when it was first started, so
  that systemd knows no time at which it became active, is not counted.
\<close>

theorem failed_services_counted:
  assumes "sy_services m = []" "get_service_stats w True m = (Inr services, m')" "sw_connected w" "sw_units w = Inr units"
    "distinct (map un_name units)"
  shows "get_failed_service_count m' = of_nat (length (filter (\<lambda>u. un_active_state u = ''failed''
    \<and> active_since (sw_prop w (un_name u) ''Unit'' ''ActiveEnterTimestamp'') = None) units))"
proof -
  obtain current never errs m1 where c: "collect_systemd_unit_stats w 0 units m = (Inr (services, current, never, errs), m1)"
    "m' = (remove_stale_services current m1)\<lparr>sy_has_fresh_stats := True\<rparr>"
    using get_service_stats_cases [OF assms(2-4)] by blast
  have keys: "fst ` set (sy_services m1) \<subseteq> current"
    using collect_keys [OF c(1)] collect_current [OF c(1)] assms(1) by simp
  then have same: "sy_services m' = sy_services m1"
    by (auto simp: c(2) remove_stale_services_def filter_id_conv)
  have st: "image_mset (sv_state \<circ> snd) (mset (sy_services m1))
      = mset (map (\<lambda>u. service_state_code (parse_service_status (un_active_state u))) (filter (was_active w) units))"
    using collect_states [OF c(1) assms(5)] assms(1) by simp
  define failed where "failed = service_state_code StatusFailed"
  have size_filter: "size {#x \<in># mset (map f xs). x = y#} = length (filter (\<lambda>u. f u = y) xs)"
    for f :: "unit_status \<Rightarrow> u8" and xs y
    by (induction xs) auto
  have "length (filter (\<lambda>(name, s). sv_state s = failed) (sy_services m1))
      = size (filter_mset (\<lambda>x. x = failed) (image_mset (sv_state \<circ> snd) (mset (sy_services m1))))"
    by (simp add: filter_mset_image_mset comp_def case_prod_unfold flip: mset_filter)
  also have "\<dots> = length (filter (\<lambda>u. service_state_code (parse_service_status (un_active_state u)) = failed) (filter (was_active w) units))"
    unfolding st by (rule size_filter)
  finally show ?thesis
    by (simp add: failed_count_length same failed_def failed_code was_active_def conj_commute)
qed

text \<open>Two services have failed, the second when it was first started.\<close>

definition failing_world :: systemd_world where
  "failing_world = \<lparr>sw_prop = (\<lambda>name _ prop. if prop = ''ActiveEnterTimestamp'' then Inr (DbusUint64 (if name = ''a.service'' then 1 else 0))
       else Inr (DbusUint64 5)),
     sw_now = (\<lambda>_. 1), sw_num_cpu = 1, sw_connected = True,
     sw_units = Inr [\<lparr>un_name = ''a.service'', un_active_state = ''failed'', un_sub_state = ''failed''\<rparr>,
       \<lparr>un_name = ''b.service'', un_active_state = ''failed'', un_sub_state = ''failed''\<rparr>],
     sw_ctx_start = None, sw_ctx_failed = None, sw_ctx_before = (\<lambda>_. None), sw_ctx_after = (\<lambda>_. None)\<rparr>"

definition systemd_at_start :: systemd_manager where
  "systemd_at_start = \<lparr>sy_services = [], sy_is_running = False, sy_has_fresh_stats = False,
     sy_patterns = [''*.service''], sy_cancel = False\<rparr>"

lemma failing_collects:
  "\<exists>s m'. get_service_stats failing_world True systemd_at_start = (Inr [s], m') \<and> sv_mem s = 5"
  by (simp add: get_service_stats_def failing_world_def systemd_at_start_def update_service_stats_def active_since_def
    update_service_entry_def Let_def memory_or_def zero_service_def)

lemma failing_world_simps [simp]: "sw_connected failing_world" "sw_units failing_world
    = Inr [\<lparr>un_name = ''a.service'', un_active_state = ''failed'', un_sub_state = ''failed''\<rparr>,
       \<lparr>un_name = ''b.service'', un_active_state = ''failed'', un_sub_state = ''failed''\<rparr>]"
  by (simp_all add: failing_world_def)

theorem failed_services_counted_witness:
  "get_failed_service_count (snd (get_service_stats failing_world True systemd_at_start)) = 1"
proof -
  obtain s m' where g: "get_service_stats failing_world True systemd_at_start = (Inr [s], m')"
    using failing_collects by blast
  have "sy_services systemd_at_start = []" by (simp add: systemd_at_start_def)
  from failed_services_counted [OF this g failing_world_simps] show ?thesis
    by (simp add: g) (simp add: failing_world_def active_since_def)
qed

theorem systemd_collection_invariant_witness:
  "\<exists>s m'. get_service_stats failing_world True systemd_at_start = (Inr [s], m') \<and> sv_mem s = 5
     \<and> list_all (\<lambda>(name, s). sv_mem s \<le> sv_mem_peak s) (sy_services m')"
proof -
  obtain s m' where g: "get_service_stats failing_world True systemd_at_start = (Inr [s], m')" "sv_mem s = 5"
    using failing_collects by blast
  have "new_systemd_manager (\<lambda>_. None) (\<lambda>_. True) None = Some systemd_at_start"
    by (simp add: new_systemd_manager_def systemd_at_start_def is_systemd_available_def get_service_patterns_def)
  then have "systemd_reachable systemd_at_start" by (rule created)
  from systemd_collection_invariant [OF this g(1) failing_world_simps] g show ?thesis
    by (auto simp: list_all_iff)
qed

end
