(* ===== verification/Process.thy ===== *)
theory Process
  imports Codecs Golib
begin

text \<open>
  \<open>internal/app/process.go\<close>: the processes with their CPU shares, and the programs they belong to.
  What gopsutil reads of a process is an argument, a missing value being one that could not be read;
  so are the clock and the context's errors.  Times are nanoseconds.  \<open>sort.Slice\<close> is the sort of
  this theory: for the orders that the code uses, which are total on the data, every sort agrees.
\<close>

section \<open>Sorting\<close>

fun insert_sorted :: "('a \<Rightarrow> 'a \<Rightarrow> bool) \<Rightarrow> 'a \<Rightarrow> 'a list \<Rightarrow> 'a list" where
  "insert_sorted before x [] = [x]"
| "insert_sorted before x (y # ys) = (if before y x then y # insert_sorted before x ys else x # y # ys)"

definition sort_slice :: "('a \<Rightarrow> 'a \<Rightarrow> bool) \<Rightarrow> 'a list \<Rightarrow> 'a list" where
  "sort_slice before xs = foldr (insert_sorted before) xs []"

section \<open>State\<close>

record proc_times =
  pt_user :: f64
  pt_system :: f64
  pt_idle :: f64
  pt_nice :: f64
  pt_iowait :: f64
  pt_irq :: f64
  pt_softirq :: f64
  pt_steal :: f64
  pt_guest :: f64
  pt_guest_nice :: f64

definition process_times_total :: "proc_times \<Rightarrow> f64" where
  "process_times_total t = foldl fadd (pt_user t) [pt_system t, pt_idle t, pt_nice t, pt_iowait t,
     pt_irq t, pt_softirq t, pt_steal t, pt_guest t, pt_guest_nice t]"

record prev_process_cpu =
  pp_create_time :: int
  pp_total :: f64
  pp_read_time :: gotime

record process_manager =
  pm_prev :: "(int, prev_process_cpu) gmap"

definition new_process_manager :: process_manager where
  "new_process_manager = \<lparr>pm_prev = []\<rparr>"

text \<open>\<open>Duration.Seconds\<close>.\<close>

definition duration_seconds :: "int \<Rightarrow> f64" where
  "duration_seconds d = fadd (of_int_f (quot d second)) (fdiv (of_int_f (d - second * quot d second)) (Num 1000000000))"

definition process_cpu_percent :: "int \<Rightarrow> int \<Rightarrow> f64 \<Rightarrow> int \<Rightarrow> process_manager \<Rightarrow> f64 \<times> process_manager" where
  "process_cpu_percent pid created cpu_total now m =
     (let m' = m\<lparr>pm_prev := mput pid \<lparr>pp_create_time = created, pp_total = cpu_total, pp_read_time = Some now\<rparr> (pm_prev m)\<rparr>;
          since_start = (if created \<le> 0 then Num 0
            else let elapsed = duration_seconds (now - created * millisecond)
                 in if fle elapsed (Num 0) then Num 0 else fmul (fdiv cpu_total elapsed) (Num 100))
      in (case mget (pm_prev m) pid of
            None \<Rightarrow> (since_start, m')
          | Some prev \<Rightarrow> (case pp_read_time prev of
              None \<Rightarrow> (since_start, m')
            | Some read_time \<Rightarrow>
                if pp_create_time prev \<noteq> created then (since_start, m')
                else let elapsed = duration_seconds (now - read_time) in
                  if fle elapsed (Num 0) \<or> flt cpu_total (pp_total prev) then (Num 0, m')
                  else (fmul (fdiv (fsub cpu_total (pp_total prev)) elapsed) (Num 100), m'))))"

definition prune_process_cpu_cache :: "int set \<Rightarrow> process_manager \<Rightarrow> process_manager" where
  "prune_process_cpu_cache seen m = m\<lparr>pm_prev := filter (\<lambda>(pid, _). pid \<in> seen) (pm_prev m)\<rparr>"

section \<open>One process\<close>

definition count_status :: "process_count \<Rightarrow> string \<Rightarrow> process_count" where
  "count_status c status =
     (if status = ''running'' then c\<lparr>pc_running := pc_running c + 1\<rparr>
      else if status = ''sleep'' then c\<lparr>pc_sleeping := pc_sleeping c + 1\<rparr>
      else if status = ''idle'' then c\<lparr>pc_idle := pc_idle c + 1\<rparr>
      else if status = ''stop'' then c\<lparr>pc_stopped := pc_stopped c + 1\<rparr>
      else if status = ''zombie'' then c\<lparr>pc_zombie := pc_zombie c + 1\<rparr>
      else if status = ''blocked'' \<or> status = ''lock'' \<or> status = ''wait'' then c\<lparr>pc_blocked := pc_blocked c + 1\<rparr>
      else c)"

definition update_process_count :: "string list \<Rightarrow> process_count \<Rightarrow> process_count" where
  "update_process_count statuses c = foldl count_status c statuses"

text \<open>The creation time that gopsutil returns, with the kind of error it comes with.\<close>

datatype create_time = CreateTime int | NotRunning int | CreateFailed int

record proc_reading =
  px_pid :: int
  px_create :: create_time
  px_ctx_created :: "go_error option"
  px_name :: "string option"
  px_cmdline :: "string list option"
  px_username :: "string option"
  px_status :: "string list option"
  px_threads :: "int option"
  px_nice :: "int option"
  px_memory_info :: "memory_info option"
  px_memory_percent :: "f64 option"
  px_io_counters :: "io_counters option"
  px_times :: "proc_times option"
  px_ctx_end :: "go_error option"

definition create_value :: "create_time \<Rightarrow> int" where
  "create_value c = (case c of CreateTime t \<Rightarrow> t | NotRunning t \<Rightarrow> t | CreateFailed t \<Rightarrow> t)"

definition or_else :: "'a \<Rightarrow> 'a option \<Rightarrow> 'a" where
  "or_else z v = (case v of None \<Rightarrow> z | Some x \<Rightarrow> x)"

definition process_name :: "proc_reading \<Rightarrow> string" where
  "process_name r = (let name = or_else [] (px_name r) in if name = [] then format_int (px_pid r) else name)"

definition count_process :: "proc_reading \<Rightarrow> process_count \<Rightarrow> process_count" where
  "count_process r c =
     (let c1 = (case px_status r of None \<Rightarrow> c | Some statuses \<Rightarrow> update_process_count statuses c)
      in (case px_threads r of None \<Rightarrow> c1 | Some n \<Rightarrow> c1\<lparr>pc_thread := pc_thread c1 + n\<rparr>))"

definition process_share :: "proc_reading \<Rightarrow> int \<Rightarrow> process_manager \<Rightarrow> f64 \<times> process_manager" where
  "process_share r now m = (case px_times r of
     None \<Rightarrow> (Num 0, m)
   | Some t \<Rightarrow> (case process_cpu_percent (px_pid r) (create_value (px_create r)) (process_times_total t) now m of
       (share, m') \<Rightarrow> (two_decimals share, m')))"

definition process_of :: "proc_reading \<Rightarrow> f64 \<Rightarrow> process_item" where
  "process_of r share =
     \<lparr>pr_pid = px_pid r, pr_name = process_name r, pr_cmdline = or_else [] (px_cmdline r),
      pr_username = or_else [] (px_username r),
      pr_status = (case px_status r of None \<Rightarrow> [] | Some statuses \<Rightarrow> join_with '','' statuses),
      pr_num_threads = or_else 0 (px_threads r), pr_cpu_percent = share,
      pr_memory_percent = (case px_memory_percent r of None \<Rightarrow> Num 0 | Some p \<Rightarrow> two_decimals p),
      pr_memory_info = or_else zero_memory_info (px_memory_info r), pr_nice = or_else 0 (px_nice r),
      pr_create_time = (case px_create r of CreateTime t \<Rightarrow> t | _ \<Rightarrow> 0),
      pr_io_counters = or_else zero_io_counters (px_io_counters r)\<rparr>"

text \<open>\<open>collectOneProcess\<close>: an error, or the process if it is still there, and the new state and counts.\<close>

definition collect_one_process :: "proc_reading \<Rightarrow> int \<Rightarrow> process_manager \<times> process_count
    \<Rightarrow> process_item option res \<times> process_manager \<times> process_count" where
  "collect_one_process r now state = (case state of (m, counts) \<Rightarrow>
     (case px_ctx_created r of
        Some e \<Rightarrow> (Inl e, m, counts)
      | None \<Rightarrow> (case px_create r of
          NotRunning _ \<Rightarrow> (Inr None, m, counts)
        | _ \<Rightarrow> (case process_share r now m of (share, m') \<Rightarrow>
            let counts' = count_process r counts in
            case px_ctx_end r of
              Some e \<Rightarrow> (Inl e, m', counts')
            | None \<Rightarrow> (Inr (Some (process_of r share)), m', counts'\<lparr>pc_total := pc_total counts' + 1\<rparr>)))))"

section \<open>Programs\<close>

definition program_before :: "program_item \<Rightarrow> program_item \<Rightarrow> bool" where
  "program_before a b =
     (if \<not> feq (pg_cpu_percent a) (pg_cpu_percent b) then flt (pg_cpu_percent b) (pg_cpu_percent a)
      else if \<not> feq (pg_memory_percent a) (pg_memory_percent b) then flt (pg_memory_percent b) (pg_memory_percent a)
      else pg_name a < pg_name b)"

definition process_before :: "process_item \<Rightarrow> process_item \<Rightarrow> bool" where
  "process_before a b =
     (if \<not> feq (pr_cpu_percent a) (pr_cpu_percent b) then flt (pr_cpu_percent b) (pr_cpu_percent a)
      else if \<not> feq (pr_memory_percent a) (pr_memory_percent b) then flt (pr_memory_percent b) (pr_memory_percent a)
      else pr_pid a < pr_pid b)"

definition add_to_program :: "process_item \<Rightarrow> (string, program_item) gmap \<Rightarrow> (string, program_item) gmap" where
  "add_to_program p groups =
     (let name = (if pr_name p = [] then ''unknown'' else pr_name p);
          group = or_else \<lparr>pg_name = name, pg_count = 0, pg_cpu_percent = Num 0, pg_memory_percent = Num 0,
            pg_memory_rss_bytes = 0, pg_pids = []\<rparr> (mget groups name)
      in mput name (group\<lparr>pg_count := pg_count group + 1,
           pg_cpu_percent := fadd (pg_cpu_percent group) (pr_cpu_percent p),
           pg_memory_percent := fadd (pg_memory_percent group) (pr_memory_percent p),
           pg_memory_rss_bytes := pg_memory_rss_bytes group + mi_rss (pr_memory_info p),
           pg_pids := pg_pids group @ [pr_pid p]\<rparr>) groups)"

definition finish_program :: "program_item \<Rightarrow> program_item" where
  "finish_program g = g\<lparr>pg_cpu_percent := two_decimals (pg_cpu_percent g),
     pg_memory_percent := two_decimals (pg_memory_percent g), pg_pids := sort (pg_pids g)\<rparr>"

definition group_program_stats :: "process_item list \<Rightarrow> program_item list" where
  "group_program_stats processes =
     sort_slice program_before (map (finish_program \<circ> snd) (fold add_to_program processes []))"

section \<open>The collection\<close>

record process_world =
  pw_procs :: "proc_reading option list res"
  pw_ctx_listed :: "go_error option"
  pw_ctx_loop :: "nat \<Rightarrow> go_error option"
  pw_now :: int
  pw_pid_max :: "string option"

definition read_pid_max :: "string option \<Rightarrow> int" where
  "read_pid_max file = (let raw = read_string_file file in if raw = [] then 0 else or_else 0 (parse_int64 raw))"

definition zero_count :: process_count where
  "zero_count = \<lparr>pc_total = 0, pc_running = 0, pc_sleeping = 0, pc_stopped = 0, pc_zombie = 0, pc_blocked = 0,
     pc_idle = 0, pc_thread = 0, pc_pid_max = 0\<rparr>"

fun collect_loop :: "(nat \<Rightarrow> go_error option) \<Rightarrow> int \<Rightarrow> nat \<Rightarrow> proc_reading option list \<Rightarrow> process_manager \<times> process_count
    \<Rightarrow> process_item list res \<times> process_manager \<times> process_count" where
  "collect_loop ctx now i [] state = (Inr [], state)"
| "collect_loop ctx now i (proc # procs) state = (case ctx i of
     Some e \<Rightarrow> (Inl e, state)
   | None \<Rightarrow> (case proc of
       None \<Rightarrow> collect_loop ctx now (Suc i) procs state
     | Some r \<Rightarrow> (case collect_one_process r now state of
         (Inl e, state') \<Rightarrow> (Inl e, state')
       | (Inr item, state') \<Rightarrow> (case collect_loop ctx now (Suc i) procs state' of
           (Inl e, state'') \<Rightarrow> (Inl e, state'')
         | (Inr items, state'') \<Rightarrow> (Inr (case item of None \<Rightarrow> items | Some p \<Rightarrow> p # items), state'')))))"

text \<open>The result: the counts, the processes and the programs, or an error.\<close>

definition collect_process_stats :: "process_world \<Rightarrow> process_manager
    \<Rightarrow> (process_count \<times> process_item list \<times> program_item list) res \<times> process_manager" where
  "collect_process_stats w m = (case pw_procs w of
     Inl e \<Rightarrow> (case pw_ctx_listed w of Some c \<Rightarrow> (Inl c, m) | None \<Rightarrow> (Inr (zero_count, [], []), m))
   | Inr procs \<Rightarrow>
       (case collect_loop (pw_ctx_loop w) (pw_now w) 0 procs (m, zero_count\<lparr>pc_pid_max := read_pid_max (pw_pid_max w)\<rparr>) of
          (Inl e, m1, _) \<Rightarrow> (Inl e, m1)
        | (Inr items0, m1, counts) \<Rightarrow>
            let m2 = prune_process_cpu_cache (pr_pid ` set items0) m1;
                items = sort_slice process_before items0
            in (Inr (counts, items, group_program_stats items), m2)))"

end
