(* ===== verification/Process_Properties.thy ===== *)
theory Process_Properties
  imports Process Float_Facts "HOL-Library.Multiset"
begin

text \<open>
  The programs partition the processes, and what is collected does not depend on the order in which
  the processes are listed.
\<close>

section \<open>Sorting\<close>

lemma mset_insert_sorted [simp]: "mset (insert_sorted before x xs) = add_mset x (mset xs)"
  by (induction xs) auto

lemma mset_sort_slice [simp]: "mset (sort_slice before xs) = mset xs"
  by (induction xs) (simp_all add: sort_slice_def)

lemma set_sort_slice [simp]: "set (sort_slice before xs) = set xs"
  by (metis mset_sort_slice set_mset_mset)

text \<open>A strict order that is total on the elements of a list determines the sorted list.\<close>

definition strict_total_on :: "'a set \<Rightarrow> ('a \<Rightarrow> 'a \<Rightarrow> bool) \<Rightarrow> bool" where
  "strict_total_on A before = ((\<forall>x \<in> A. \<not> before x x) \<and> (\<forall>x \<in> A. \<forall>y \<in> A. x \<noteq> y \<longrightarrow> before x y \<or> before y x)
     \<and> (\<forall>x \<in> A. \<forall>y \<in> A. \<forall>z \<in> A. before x y \<longrightarrow> before y z \<longrightarrow> before x z))"

lemma strict_total_on_subset: "strict_total_on A before \<Longrightarrow> B \<subseteq> A \<Longrightarrow> strict_total_on B before"
  unfolding strict_total_on_def by blast

lemma set_insert_sorted [simp]: "set (insert_sorted before x xs) = insert x (set xs)"
  by (induction xs) auto

lemma insert_sorted_sorted:
  assumes "strict_total_on (insert x (set ys)) before" "x \<notin> set ys" "sorted_wrt before ys"
  shows "sorted_wrt before (insert_sorted before x ys)"
  using assms
proof (induction ys)
  case (Cons y ys)
  have t: "strict_total_on (insert x (set ys)) before"
    using Cons.prems(1) by (rule strict_total_on_subset) auto
  have IH: "sorted_wrt before (insert_sorted before x ys)" using Cons t by simp
  show ?case
  proof (cases "before y x")
    case True
    then show ?thesis using IH Cons.prems(3) by auto
  next
    case False
    then have "before x y" using Cons.prems(1,2) unfolding strict_total_on_def by auto
    moreover have "before x z" if "z \<in> set ys" for z
      using \<open>before x y\<close> Cons.prems(1,3) that unfolding strict_total_on_def by (metis insertCI list.set_intros sorted_wrt.simps(2))
    ultimately show ?thesis using False Cons.prems(3) by simp
  qed
qed simp

lemma sort_slice_sorted:
  assumes "strict_total_on (set xs) before" "distinct xs"
  shows "sorted_wrt before (sort_slice before xs)"
  using assms
proof (induction xs)
  case (Cons x xs)
  have "strict_total_on (set xs) before" using Cons.prems(1) by (rule strict_total_on_subset) auto
  then have "sorted_wrt before (sort_slice before xs)" using Cons by simp
  moreover have "sort_slice before (x # xs) = insert_sorted before x (sort_slice before xs)" by (simp add: sort_slice_def)
  ultimately show ?case
    using insert_sorted_sorted [of x "sort_slice before xs" before] Cons.prems by simp
qed (simp add: sort_slice_def)

lemma sorted_unique:
  assumes "strict_total_on (set xs) before" "sorted_wrt before xs" "sorted_wrt before ys" "mset xs = mset ys"
  shows "xs = ys"
  using assms
proof (induction xs arbitrary: ys)
  case (Cons x xs)
  obtain y ys' where y: "ys = y # ys'" using Cons.prems(4) by (cases ys) auto
  have e: "set (x # xs) = set (y # ys')" using Cons.prems(4) y by (metis set_mset_mset)
  have "x = y"
  proof (rule ccontr)
    assume n: "x \<noteq> y"
    then have "x \<in> set ys'" "y \<in> set xs" using e by auto
    then have "before y x" "before x y" using Cons.prems(2,3) y by auto
    moreover have "x \<in> set (x # xs)" "y \<in> set (x # xs)" using e by auto
    ultimately show False using Cons.prems(1) unfolding strict_total_on_def by blast
  qed
  moreover have "strict_total_on (set xs) before" using Cons.prems(1) by (rule strict_total_on_subset) auto
  ultimately show ?case using Cons y by simp
qed simp

lemma sort_slice_unique:
  assumes "strict_total_on (set xs) before" "distinct xs" "mset xs = mset ys"
  shows "sort_slice before xs = sort_slice before ys"
proof -
  have s: "set ys = set xs" "distinct ys" using assms(2,3) by (metis set_mset_mset, metis mset_eq_imp_distinct_iff)
  show ?thesis
    using assms s by (intro sorted_unique [of _ before] sort_slice_sorted) simp_all
qed

section \<open>Entries of a map\<close>

lemma sum_mput:
  fixes f :: "'v \<Rightarrow> 'c::comm_monoid_add"
  shows "msorted m \<Longrightarrow> (\<Sum>(a, w) \<leftarrow> mput k v m. f w) + (case mget m k of None \<Rightarrow> 0 | Some old \<Rightarrow> f old) = (\<Sum>(a, w) \<leftarrow> m. f w) + f v"
proof (induction k v m rule: mput.induct)
  case (2 k v a w m)
  have "mget m k = None" if "k < a"
    using 2(2) that by (force simp: msorted_Cons mget_None_iff)
  then show ?case using 2 by (auto simp: msorted_Cons ac_simps split: option.splits)
qed simp

lemma mput_commute: "msorted m \<Longrightarrow> a \<noteq> b \<Longrightarrow> mput a x (mput b y m) = mput b y (mput a x m)"
  by (rule msorted_ext) (auto simp: msorted_mput)

section \<open>Programs\<close>

text \<open>The groups made of the processes so far.\<close>

definition groups_of :: "process_item list \<Rightarrow> (string, program_item) gmap \<Rightarrow> bool" where
  "groups_of ps groups = (msorted groups
     \<and> (\<forall>(name, g) \<in> set groups. pg_name g = name \<and> pg_count g = int (length (pg_pids g)))
     \<and> (\<Sum>(name, g) \<leftarrow> groups. mset (pg_pids g)) = mset (map pr_pid ps)
     \<and> (\<Sum>(name, g) \<leftarrow> groups. pg_memory_rss_bytes g) = (\<Sum>p \<leftarrow> ps. mi_rss (pr_memory_info p)))"

lemma add_to_program_groups:
  assumes "groups_of ps groups"
  shows "groups_of (ps @ [p]) (add_to_program p groups)"
proof -
  define name where "name = (if pr_name p = [] then ''unknown'' else pr_name p)"
  define group where "group = or_else \<lparr>pg_name = name, pg_count = 0, pg_cpu_percent = Num 0, pg_memory_percent = Num 0,
            pg_memory_rss_bytes = 0, pg_pids = []\<rparr> (mget groups name)"
  define new where "new = group\<lparr>pg_count := pg_count group + 1,
           pg_cpu_percent := fadd (pg_cpu_percent group) (pr_cpu_percent p),
           pg_memory_percent := fadd (pg_memory_percent group) (pr_memory_percent p),
           pg_memory_rss_bytes := pg_memory_rss_bytes group + mi_rss (pr_memory_info p),
           pg_pids := pg_pids group @ [pr_pid p]\<rparr>"
  have s: "msorted groups" using assms by (simp add: groups_of_def)
  have a: "add_to_program p groups = mput name new groups"
    by (simp add: add_to_program_def Let_def name_def [symmetric] group_def [symmetric] new_def)
  have g: "pg_name group = name \<and> pg_count group = int (length (pg_pids group))"
    using assms by (auto simp: group_def or_else_def groups_of_def dest: mget_SomeD split: option.splits)
  have "(\<Sum>(name, g) \<leftarrow> mput name new groups. mset (pg_pids g)) + mset (pg_pids group)
      = (\<Sum>(name, g) \<leftarrow> groups. mset (pg_pids g)) + mset (pg_pids new)"
    using sum_mput [OF s, of "\<lambda>g. mset (pg_pids g)" name new] by (cases "mget groups name") (simp_all add: group_def or_else_def)
  then have m: "(\<Sum>(name, g) \<leftarrow> mput name new groups. mset (pg_pids g)) = mset (map pr_pid ps) + {#pr_pid p#}"
    using assms by (simp add: groups_of_def new_def)
  have "(\<Sum>(name, g) \<leftarrow> mput name new groups. pg_memory_rss_bytes g) + pg_memory_rss_bytes group
      = (\<Sum>(name, g) \<leftarrow> groups. pg_memory_rss_bytes g) + pg_memory_rss_bytes new"
    using sum_mput [OF s, of pg_memory_rss_bytes name new] by (cases "mget groups name") (simp_all add: group_def or_else_def)
  then have r: "(\<Sum>(name, g) \<leftarrow> mput name new groups. pg_memory_rss_bytes g) = (\<Sum>p \<leftarrow> ps. mi_rss (pr_memory_info p)) + mi_rss (pr_memory_info p)"
    using assms by (simp add: groups_of_def new_def)
  have n: "pg_name new = name \<and> pg_count new = int (length (pg_pids new))" using g by (simp add: new_def)
  show ?thesis
    unfolding groups_of_def a
    using s m r n set_mput [of name new groups] assms by (auto simp: msorted_mput groups_of_def)
qed

lemma fold_add_groups: "groups_of ps groups \<Longrightarrow> groups_of (ps @ qs) (fold add_to_program qs groups)"
proof (induction qs arbitrary: ps groups)
  case (Cons q qs)
  from Cons.IH [OF add_to_program_groups [OF Cons.prems]] show ?case by simp
qed simp

lemma mset_concat_sum: "mset (concat (map f xs)) = (\<Sum>x \<leftarrow> xs. mset (f x))"
  by (induction xs) auto

text \<open>
  C25: The programs partition the processes: every process is in exactly one program, each name stands
  for one program, the count of a program is the number of its processes, and no resident memory is
  lost or counted twice.
\<close>

theorem programs_partition:
  "mset (concat (map pg_pids (group_program_stats ps))) = mset (map pr_pid ps)
    \<and> distinct (map pg_name (group_program_stats ps))
    \<and> list_all (\<lambda>g. pg_count g = int (length (pg_pids g)) \<and> sorted (pg_pids g)) (group_program_stats ps)
    \<and> (\<Sum>g \<leftarrow> group_program_stats ps. pg_memory_rss_bytes g) = (\<Sum>p \<leftarrow> ps. mi_rss (pr_memory_info p))"
proof -
  define groups where "groups = fold add_to_program ps []"
  have g: "groups_of ps groups" using fold_add_groups [of "[]" "[]" ps] by (simp add: groups_def groups_of_def)
  define programs where "programs = map (finish_program \<circ> snd) groups"
  have m: "mset (group_program_stats ps) = mset programs"
    by (simp add: group_program_stats_def programs_def groups_def)
  have sums: "(\<Sum>x \<leftarrow> xs. f x) = (\<Sum>x \<leftarrow> ys. f x)" if "mset xs = mset ys" for xs ys and f :: "program_item \<Rightarrow> 'c::comm_monoid_add"
    using that by (metis mset_map sum_mset_sum_list)
  have "mset (concat (map pg_pids (group_program_stats ps))) = (\<Sum>g \<leftarrow> programs. mset (pg_pids g))"
    unfolding mset_concat_sum by (rule sums [OF m])
  also have "\<dots> = mset (map pr_pid ps)"
    using g by (simp add: programs_def groups_of_def finish_program_def case_prod_unfold comp_def)
  finally have 1: "mset (concat (map pg_pids (group_program_stats ps))) = mset (map pr_pid ps)" .
  have "map pg_name programs = map fst groups"
    using g by (auto simp: programs_def groups_of_def finish_program_def)
  then have "distinct (map pg_name programs)"
    using g by (simp add: groups_of_def msorted_def strict_sorted_iff)
  then have 2: "distinct (map pg_name (group_program_stats ps))"
    using m by (metis mset_eq_imp_distinct_iff mset_map)
  have "set (group_program_stats ps) = set programs" using m by (metis set_mset_mset)
  then have 3: "list_all (\<lambda>g. pg_count g = int (length (pg_pids g)) \<and> sorted (pg_pids g)) (group_program_stats ps)"
    using g by (auto simp: list_all_iff programs_def groups_of_def finish_program_def)
  have "(\<Sum>g \<leftarrow> group_program_stats ps. pg_memory_rss_bytes g) = (\<Sum>g \<leftarrow> programs. pg_memory_rss_bytes g)"
    by (rule sums [OF m])
  also have "\<dots> = (\<Sum>p \<leftarrow> ps. mi_rss (pr_memory_info p))"
    using g by (simp add: programs_def groups_of_def finish_program_def case_prod_unfold comp_def)
  finally show ?thesis using 1 2 3 by blast
qed

section \<open>The collection\<close>

lemma feq_refl [simp]: "x \<noteq> NaN \<Longrightarrow> feq x x"
  by (simp add: feq_def)

lemma process_before_total:
  assumes "inj_on pr_pid A" "\<And>p. p \<in> A \<Longrightarrow> pr_cpu_percent p \<noteq> NaN \<and> pr_memory_percent p \<noteq> NaN"
  shows "strict_total_on A process_before"
proof -
  have flt_fle: "flt x y \<longleftrightarrow> fle x y \<and> \<not> fle y x" if "x \<noteq> NaN" "y \<noteq> NaN" for x y
    using that not_flt [of x y] flt_imp_fle [of x y] by auto
  have total: "fle x y \<or> fle y x" if "x \<noteq> NaN" "y \<noteq> NaN" for x y
    using that not_flt [of x y] flt_imp_fle [of x y] by auto
  have b: "process_before p q \<longleftrightarrow> \<not> fle (pr_cpu_percent p) (pr_cpu_percent q)
      \<or> fle (pr_cpu_percent q) (pr_cpu_percent p) \<and> (\<not> fle (pr_memory_percent p) (pr_memory_percent q)
        \<or> fle (pr_memory_percent q) (pr_memory_percent p) \<and> pr_pid p < pr_pid q)" if "p \<in> A" "q \<in> A" for p q
    using assms(2) [OF that(1)] assms(2) [OF that(2)]
      total [of "pr_cpu_percent p" "pr_cpu_percent q"] total [of "pr_memory_percent p" "pr_memory_percent q"]
      flt_fle [of "pr_cpu_percent q" "pr_cpu_percent p"] flt_fle [of "pr_memory_percent q" "pr_memory_percent p"]
    by (auto simp: process_before_def feq_def)
  have irr: "\<not> process_before p p" if "p \<in> A" for p
    using assms(2) [OF that] by (simp add: process_before_def)
  have tot: "process_before p q \<or> process_before q p" if "p \<in> A" "q \<in> A" "p \<noteq> q" for p q
  proof -
    have "pr_pid p \<noteq> pr_pid q" using assms(1) that by (auto dest: inj_onD)
    then show ?thesis
      unfolding b [OF that(1,2)] b [OF that(2,1)] using assms(2) that total by force
  qed
  have tr: "process_before p r" if "p \<in> A" "q \<in> A" "r \<in> A" "process_before p q" "process_before q r" for p q r
    using that(4,5) unfolding b [OF that(1,2)] b [OF that(2,3)] b [OF that(1,3)]
    by (meson fle_trans less_trans total assms(2) that(1-3))
  show ?thesis unfolding strict_total_on_def using irr tot tr by blast
qed

text \<open>What one process that is still running contributes.\<close>

definition still_running :: "proc_reading \<Rightarrow> bool" where
  "still_running r = (case px_create r of NotRunning _ \<Rightarrow> False | _ \<Rightarrow> True)"

definition items_of :: "process_manager \<Rightarrow> int \<Rightarrow> proc_reading \<Rightarrow> process_item list" where
  "items_of m now r = (if still_running r then [process_of r (fst (process_share r now m))] else [])"

definition counted :: "proc_reading \<Rightarrow> process_count \<Rightarrow> process_count" where
  "counted r c = (if still_running r then (count_process r c)\<lparr>pc_total := pc_total (count_process r c) + 1\<rparr> else c)"

definition remembered :: "int \<Rightarrow> proc_reading \<Rightarrow> process_manager \<Rightarrow> process_manager" where
  "remembered now r m = (if still_running r then snd (process_share r now m) else m)"

definition readings :: "proc_reading option list \<Rightarrow> proc_reading list" where
  "readings procs = concat (map (\<lambda>p. case p of None \<Rightarrow> [] | Some r \<Rightarrow> [r]) procs)"

definition undisturbed :: "proc_reading option list \<Rightarrow> bool" where
  "undisturbed procs = list_all (\<lambda>r. px_ctx_created r = None \<and> px_ctx_end r = None) (readings procs)"

lemma process_cpu_percent_state: "snd (process_cpu_percent pid created cpu_total now m)
    = m\<lparr>pm_prev := mput pid \<lparr>pp_create_time = created, pp_total = cpu_total, pp_read_time = Some now\<rparr> (pm_prev m)\<rparr>"
  by (simp add: process_cpu_percent_def Let_def split: option.splits)

lemma process_cpu_percent_local: "mget (pm_prev m) pid = mget (pm_prev m') pid \<Longrightarrow>
    fst (process_cpu_percent pid created cpu_total now m) = fst (process_cpu_percent pid created cpu_total now m')"
  by (simp add: process_cpu_percent_def Let_def split: option.splits)

lemma process_share_state: "snd (process_share r now m) = (case px_times r of None \<Rightarrow> m
    | Some t \<Rightarrow> m\<lparr>pm_prev := mput (px_pid r) \<lparr>pp_create_time = create_value (px_create r),
        pp_total = process_times_total t, pp_read_time = Some now\<rparr> (pm_prev m)\<rparr>)"
  by (simp add: process_share_def case_prod_unfold process_cpu_percent_state split: option.splits)

lemma items_of_local: "mget (pm_prev m) (px_pid r) = mget (pm_prev m') (px_pid r) \<Longrightarrow> items_of m now r = items_of m' now r"
  using process_cpu_percent_local [of m "px_pid r" m']
  by (simp add: items_of_def process_share_def case_prod_unfold split: option.splits)

lemma remembered_other: "pid \<noteq> px_pid r \<Longrightarrow> mget (pm_prev (remembered now r m)) pid = mget (pm_prev m) pid"
  by (simp add: remembered_def process_share_state split: option.splits)

lemma collect_one_ok:
  assumes "px_ctx_created r = None" "px_ctx_end r = None"
  shows "collect_one_process r now (m, c)
    = (Inr (if still_running r then Some (process_of r (fst (process_share r now m))) else None), remembered now r m, counted r c)"
  using assms by (simp add: collect_one_process_def still_running_def remembered_def counted_def case_prod_unfold Let_def split: create_time.splits)

lemma collect_loop_ok:
  assumes "\<And>i. ctx i = None" "undisturbed procs" "distinct (map px_pid (readings procs))"
    "\<And>r. r \<in> set (readings procs) \<Longrightarrow> mget (pm_prev m) (px_pid r) = mget (pm_prev m0) (px_pid r)"
  shows "collect_loop ctx now i procs (m, c)
    = (Inr (concat (map (items_of m0 now) (readings procs))), fold (remembered now) (readings procs) m, fold counted (readings procs) c)"
  using assms(2-)
proof (induction procs arbitrary: i m c)
  case Nil
  then show ?case by (simp add: readings_def)
next
  case (Cons p procs)
  show ?case
  proof (cases p)
    case None
    then have "readings (p # procs) = readings procs" by (simp add: readings_def)
    then show ?thesis using Cons None assms(1) by (simp add: undisturbed_def)
  next
    case (Some r)
    have rd: "readings (p # procs) = r # readings procs" by (simp add: readings_def Some)
    have IH: "collect_loop ctx now (Suc i) procs (remembered now r m, counted r c)
      = (Inr (concat (map (items_of m0 now) (readings procs))), fold (remembered now) (readings procs) (remembered now r m),
         fold counted (readings procs) (counted r c))"
      using Cons.prems rd by (intro Cons.IH) (auto simp: undisturbed_def remembered_other image_iff)
    have "items_of m now r = items_of m0 now r"
      using Cons.prems(3) rd by (intro items_of_local) simp
    then have "items_of m0 now r = (if still_running r then [process_of r (fst (process_share r now m))] else [])"
      by (simp add: items_of_def)
    then show ?thesis
      using Cons.prems(1) rd assms(1) [of i] IH collect_one_ok [of r now m c] by (simp add: Some undisturbed_def)
  qed
qed

lemma count_status_commute: "count_status (count_status c a) b = count_status (count_status c b) a"
  by (simp add: count_status_def)

lemma update_process_count_commute:
  "update_process_count xs (update_process_count ys c) = update_process_count ys (update_process_count xs c)"
proof -
  have 1: "foldl count_status (count_status c a) xs = count_status (foldl count_status c xs) a" for c a xs
    by (induction xs arbitrary: c) (simp_all add: count_status_commute [of _ a])
  show ?thesis
    unfolding update_process_count_def by (induction ys arbitrary: c) (simp_all add: 1)
qed

lemma count_status_keeps: "count_status (c\<lparr>pc_thread := n\<rparr>) s = (count_status c s)\<lparr>pc_thread := n\<rparr>"
    "count_status (c\<lparr>pc_total := n\<rparr>) s = (count_status c s)\<lparr>pc_total := n\<rparr>"
    "pc_thread (count_status c s) = pc_thread c" "pc_total (count_status c s) = pc_total c"
  by (simp_all add: count_status_def)

lemma update_process_count_thread: "update_process_count xs (c\<lparr>pc_thread := n\<rparr>) = (update_process_count xs c)\<lparr>pc_thread := n\<rparr>"
    "update_process_count xs (c\<lparr>pc_total := n\<rparr>) = (update_process_count xs c)\<lparr>pc_total := n\<rparr>"
    "pc_thread (update_process_count xs c) = pc_thread c" "pc_total (update_process_count xs c) = pc_total c"
  unfolding update_process_count_def by (induction xs arbitrary: c) (simp_all add: count_status_keeps)

lemma counted_commute: "counted r (counted s c) = counted s (counted r c)"
  by (simp add: counted_def count_process_def Let_def update_process_count_thread update_process_count_commute
    split: option.splits)

lemma remembered_msorted: "msorted (pm_prev m) \<Longrightarrow> msorted (pm_prev (remembered now r m))"
  by (simp add: remembered_def process_share_state msorted_mput split: option.splits)

lemma remembered_commute:
  assumes "msorted (pm_prev m)" "px_pid r \<noteq> px_pid s"
  shows "remembered now r (remembered now s m) = remembered now s (remembered now r m)"
  using assms by (simp add: remembered_def process_share_state mput_commute split: option.splits)

lemma remembered_permuted:
  assumes "mset rs = mset ss" "msorted (pm_prev m)" "distinct (map px_pid rs)"
  shows "fold (remembered now) rs m = fold (remembered now) ss m"
proof (rule fold_permuted_eq [where P = "\<lambda>m. msorted (pm_prev m)"])
  show "mset rs = mset ss" "msorted (pm_prev m)" using assms by simp_all
  show "msorted (pm_prev (remembered now r m))" if "r \<in> set rs" "msorted (pm_prev m)" for r m
    using that remembered_msorted by blast
  show "remembered now r (remembered now s m) = remembered now s (remembered now r m)"
    if "r \<in> set rs" "s \<in> set rs" "msorted (pm_prev m)" for r s m
  proof (cases "r = s")
    case False
    then have "px_pid r \<noteq> px_pid s" using that assms(3) by (auto simp: distinct_map dest: inj_onD)
    then show ?thesis using that remembered_commute by blast
  qed simp
qed

lemma counted_permuted: "mset rs = mset ss \<Longrightarrow> fold counted rs c = fold counted ss c"
  by (rule fold_permuted_eq [where P = "\<lambda>_. True"]) (simp_all add: counted_commute)

lemma items_pids: "map pr_pid (concat (map (items_of m now) rs)) = map px_pid (filter still_running rs)"
  by (induction rs) (simp_all add: items_of_def process_of_def)

lemma mset_concat_perm: "mset xs = mset ys \<Longrightarrow> mset (concat (map f xs)) = mset (concat (map f ys))"
proof -
  have "mset (concat (map f zs)) = (\<Sum>z \<in># mset zs. mset (f z))" for zs
    by (induction zs) simp_all
  then show "mset xs = mset ys \<Longrightarrow> ?thesis" by simp
qed

lemma readings_perm: "mset procs = mset procs' \<Longrightarrow> mset (readings procs) = mset (readings procs')"
  unfolding readings_def by (rule mset_concat_perm)

text \<open>
  C24: What is collected does not depend on the order in which the operating system lists the
  processes: the counts, the order of the processes and programs that are reported, and the CPU
  baselines for the next collection are the same for every permutation of the list.
\<close>

theorem process_order_irrelevant:
  assumes "pw_procs w = Inr procs" "mset procs' = mset procs" "\<And>i. pw_ctx_loop w i = None" "undisturbed procs"
    "distinct (map px_pid (readings procs))" "msorted (pm_prev m)"
    "\<And>p. p \<in> set (concat (map (items_of m (pw_now w)) (readings procs))) \<Longrightarrow> pr_cpu_percent p \<noteq> NaN \<and> pr_memory_percent p \<noteq> NaN"
  shows "collect_process_stats (w\<lparr>pw_procs := Inr procs'\<rparr>) m = collect_process_stats w m"
proof -
  define start where "start = zero_count\<lparr>pc_pid_max := read_pid_max (pw_pid_max w)\<rparr>"
  define its where "its = (\<lambda>ps. concat (map (items_of m (pw_now w)) (readings ps)))"
  have perm: "mset (readings procs') = mset (readings procs)" by (rule readings_perm [OF assms(2)])
  have "set (readings procs') = set (readings procs)" using perm by (rule mset_eq_setD)
  then have u: "undisturbed procs'" "distinct (map px_pid (readings procs'))"
    using assms(4,5) mset_eq_imp_distinct_iff [of "map px_pid (readings procs')" "map px_pid (readings procs)"] perm
    by (simp_all add: undisturbed_def list_all_iff)
  have loop: "collect_loop (pw_ctx_loop w) (pw_now w) 0 ps (m, start)
      = (Inr (its ps), fold (remembered (pw_now w)) (readings ps) m, fold counted (readings ps) start)"
    if "undisturbed ps" "distinct (map px_pid (readings ps))" for ps
    unfolding its_def using that assms(3) by (intro collect_loop_ok) simp_all
  have s1: "fold (remembered (pw_now w)) (readings procs') m = fold (remembered (pw_now w)) (readings procs) m"
    using perm u(2) assms(6) by (intro remembered_permuted)
  have s2: "fold counted (readings procs') start = fold counted (readings procs) start"
    by (rule counted_permuted [OF perm])
  have m: "mset (its procs') = mset (its procs)"
    unfolding its_def by (rule mset_concat_perm [OF perm])
  have d: "distinct (map pr_pid (its procs))"
    unfolding its_def items_pids using assms(5) by (rule distinct_map_filter)
  have sorted: "sort_slice process_before (its procs) = sort_slice process_before (its procs')"
  proof (rule sort_slice_unique)
    show "strict_total_on (set (its procs)) process_before"
      using d assms(7) by (intro process_before_total) (auto simp: distinct_map its_def)
    show "distinct (its procs)" using d by (simp add: distinct_map)
    show "mset (its procs) = mset (its procs')" using m by simp
  qed
  have "set (its procs') = set (its procs)" using m by (rule mset_eq_setD)
  then show ?thesis
    using loop [OF assms(4,5)] loop [OF u] s1 s2 sorted
    by (simp add: collect_process_stats_def assms(1) start_def [symmetric])
qed

text \<open>Two processes, listed in either order.\<close>

definition seen_process :: "int \<Rightarrow> proc_reading" where
  "seen_process pid = \<lparr>px_pid = pid, px_create = CreateTime 0, px_ctx_created = None, px_name = Some ''sh'', px_cmdline = None,
     px_username = None, px_status = Some [''sleep''], px_threads = Some 2, px_nice = None, px_memory_info = None,
     px_memory_percent = None, px_io_counters = None, px_times = None, px_ctx_end = None\<rparr>"

definition two_processes :: process_world where
  "two_processes = \<lparr>pw_procs = Inr [Some (seen_process 7), Some (seen_process 3)], pw_ctx_listed = None,
     pw_ctx_loop = (\<lambda>_. None), pw_now = 0, pw_pid_max = Some ''4194304''\<rparr>"

theorem process_order_irrelevant_witness:
  "collect_process_stats (two_processes\<lparr>pw_procs := Inr [Some (seen_process 3), Some (seen_process 7)]\<rparr>) new_process_manager
     = collect_process_stats two_processes new_process_manager"
proof (rule process_order_irrelevant)
  show "pw_procs two_processes = Inr [Some (seen_process 7), Some (seen_process 3)]" by (simp add: two_processes_def)
  show "pr_cpu_percent p \<noteq> NaN \<and> pr_memory_percent p \<noteq> NaN"
    if "p \<in> set (concat (map (items_of new_process_manager (pw_now two_processes)) (readings [Some (seen_process 7), Some (seen_process 3)])))" for p
    using that by (auto simp: readings_def items_of_def still_running_def seen_process_def process_of_def process_share_def)
qed (simp_all add: two_processes_def undisturbed_def readings_def seen_process_def new_process_manager_def)

text \<open>
  After a successful collection the CPU baselines are exactly of processes that are still there:
  the memory that the collector keeps does not grow with processes that have ended.
\<close>

theorem process_baselines_pruned:
  assumes "pw_procs w = Inr procs" "collect_process_stats w m = (Inr (counts, items, programs), m')"
  shows "fst ` set (pm_prev m') \<subseteq> pr_pid ` set items"
  using assms by (auto simp: collect_process_stats_def prune_process_cpu_cache_def Let_def split: prod.splits sum.splits)

theorem process_baselines_pruned_witness:
  "\<exists>counts items programs m'. collect_process_stats two_processes new_process_manager = (Inr (counts, items, programs), m')
     \<and> length items = 2 \<and> fst ` set (pm_prev m') \<subseteq> pr_pid ` set items"
proof -
  obtain counts items programs m' where c: "collect_process_stats two_processes new_process_manager = (Inr (counts, items, programs), m')"
    "length items = 2"
    by (simp add: collect_process_stats_def two_processes_def seen_process_def collect_one_process_def process_share_def
      sort_slice_def Let_def)
  have "pw_procs two_processes = Inr [Some (seen_process 7), Some (seen_process 3)]" by (simp add: two_processes_def)
  from process_baselines_pruned [OF this c(1)] c show ?thesis by blast
qed

end
