(* ===== verification/Sensors.thy ===== *)
theory Sensors
  imports Codecs Golib Go_Text
begin

text \<open>
  \<open>internal/app/sensors.go\<close>: the choice of the temperature sensors, the temperatures of a snapshot,
  and the gate that keeps a sensor read that does not return from being started again and again.
  What a read of the sensors gives is an argument.  A Go map that serves as a set is a list here.
\<close>

section \<open>Configuration\<close>

record sensor_config =
  sc_sensors :: "string list"
  sc_primary_sensor :: string
  sc_timeout :: int
  sc_is_blacklist :: bool
  sc_has_wildcards :: bool
  sc_skip_collection :: bool
  sc_first_run :: bool
  sc_env_map :: "string option"

definition new_sensor_config_with_env :: "string \<Rightarrow> string \<Rightarrow> string \<Rightarrow> string \<Rightarrow> bool \<Rightarrow> sensor_config" where
  "new_sensor_config_with_env primary_sensor sys_sensors sensors_env sensors_timeout skip =
     (let blacklist = has_prefix ''-'' sensors_env;
          names = filter (\<lambda>s. s \<noteq> []) (map trim_space (split_on (CHR '','') (if blacklist then tl sensors_env else sensors_env)))
      in \<lparr>sc_sensors = names, sc_primary_sensor = primary_sensor,
          sc_timeout = (if sensors_timeout = [] then 2 * second
             else (case parse_duration sensors_timeout of Some d \<Rightarrow> d | None \<Rightarrow> 2 * second)),
          sc_is_blacklist = blacklist, sc_has_wildcards = list_ex (contains_str ''*'') names,
          sc_skip_collection = skip, sc_first_run = True,
          sc_env_map = (if sys_sensors = [] then None else Some sys_sensors)\<rparr>)"

definition new_sensor_config :: "(string \<Rightarrow> string option) \<Rightarrow> sensor_config" where
  "new_sensor_config env =
     (let get = (\<lambda>name. case env name of None \<Rightarrow> [] | Some v \<Rightarrow> v)
      in new_sensor_config_with_env (get ''PRIMARY_SENSOR'') (get ''SYS_SENSORS'') (get ''SENSORS'') (get ''SENSORS_TIMEOUT'')
           (env ''SENSORS'' = Some []))"

definition is_valid_sensor :: "string \<Rightarrow> sensor_config \<Rightarrow> bool" where
  "is_valid_sensor name cfg =
     (if sc_sensors cfg = [] then True
      else if name \<in> set (sc_sensors cfg) then \<not> sc_is_blacklist cfg
      else if \<not> sc_has_wildcards cfg then sc_is_blacklist cfg
      else if list_ex (\<lambda>p. contains_str ''*'' p \<and> path_match p name) (sc_sensors cfg) then \<not> sc_is_blacklist cfg
      else sc_is_blacklist cfg)"

definition scale_temperature :: "f64 \<Rightarrow> f64" where
  "scale_temperature temp =
     (if flt (Num 1) temp then temp
      else let scaled100 = fmul temp (Num 100); scaled1000 = fmul temp (Num 1000) in
        if fle (Num 15) scaled100 \<and> fle scaled100 (Num 95) then scaled100
        else if fle (Num 15) scaled1000 \<and> fle scaled1000 (Num 95) then scaled1000
        else scaled100)"

section \<open>The temperatures of a snapshot\<close>

record temperature_stat =
  tp_sensor_key :: string
  tp_temperature :: f64

definition scaled_reading :: "f64 \<Rightarrow> f64" where
  "scaled_reading t = (if \<not> feq t (Num 0) \<and> flt t (Num 1) then scale_temperature t else t)"

definition unreasonable :: "f64 \<Rightarrow> bool" where
  "unreasonable t = (fle t (Num 0) \<or> fle (Num 200) t)"

definition add_temperature :: "sensor_config \<Rightarrow> (string, f64) gmap \<times> f64 \<Rightarrow> nat \<times> temperature_stat \<Rightarrow> (string, f64) gmap \<times> f64" where
  "add_temperature cfg state reading = (case state of (temps, dashboard) \<Rightarrow> case reading of (i, sensor) \<Rightarrow>
     let temp = scaled_reading (tp_temperature sensor) in
     if unreasonable temp then (temps, dashboard)
     else let name = (if mget temps (tp_sensor_key sensor) = None then tp_sensor_key sensor
                      else tp_sensor_key sensor @ ''_'' @ nat_digits i) in
       if \<not> is_valid_sensor name cfg then (temps, dashboard)
       else (mput name (two_decimals temp) temps,
             if sc_primary_sensor cfg = [] then fmax dashboard temp
             else if sc_primary_sensor cfg = name then temp else dashboard))"

definition collect_temperatures :: "sensor_config \<Rightarrow> temperature_stat list \<Rightarrow> f64 \<Rightarrow> (string, f64) gmap \<times> f64" where
  "collect_temperatures cfg temps dashboard = foldl (add_temperature cfg) ([], dashboard) (enumerate 0 temps)"

definition err_temperature_fetch_timeout :: go_error where
  "err_temperature_fetch_timeout = ErrText ''temperature collection timed out''"

text \<open>
  \<open>updateTemperatures\<close>: the context's error at the start and after each attempt, and what the two
  attempts give, an error being a timeout or a panic of the library.
\<close>

record sensor_world =
  sn_ctx :: "go_error option"
  sn_first :: "temperature_stat list res"
  sn_ctx_first :: "go_error option"
  sn_second :: "temperature_stat list res"
  sn_ctx_second :: "go_error option"

definition sensors_read :: "sensor_world \<Rightarrow> temperature_stat list option res" where
  "sensors_read w = (case sn_first w of
     Inr temps \<Rightarrow> Inr (Some temps)
   | Inl e \<Rightarrow> (case sn_ctx_first w of
       Some c \<Rightarrow> Inl c
     | None \<Rightarrow>
         if e = err_temperature_fetch_timeout then (case sn_ctx_second w of Some c \<Rightarrow> Inl c | None \<Rightarrow> Inr None)
         else (case sn_second w of
             Inr temps \<Rightarrow> Inr (Some temps)
           | Inl _ \<Rightarrow> (case sn_ctx_second w of Some c \<Rightarrow> Inl c | None \<Rightarrow> Inr None))))"

definition update_temperatures :: "sensor_world \<Rightarrow> sensor_config \<Rightarrow> info \<times> stats \<Rightarrow> go_error option \<times> info \<times> stats" where
  "update_temperatures w cfg state = (case state of (sys, st) \<Rightarrow>
     (case sn_ctx w of
        Some e \<Rightarrow> (Some e, sys, st)
      | None \<Rightarrow>
          if sc_skip_collection cfg then (None, sys, st)
          else let sys0 = sys\<lparr>in_dashboard_temp := Num 0\<rparr> in
            (case sensors_read w of
               Inl e \<Rightarrow> (Some e, sys0, st)
             | Inr None \<Rightarrow> (None, sys0,
                 if s_temperatures st \<noteq> None \<and> s_temperatures st \<noteq> Some [] then st\<lparr>s_temperatures := Some []\<rparr> else st)
             | Inr (Some temps) \<Rightarrow>
                 if temps = [] then (None, sys0, st)
                 else (case collect_temperatures cfg temps (Num 0) of
                     (collected, dashboard) \<Rightarrow>
                       (None, sys0\<lparr>in_dashboard_temp := dashboard\<rparr>, st\<lparr>s_temperatures := Some collected\<rparr>)))))"

section \<open>The gate of a read\<close>

text \<open>
  The semaphore of one place, the goroutines that read, and what the caller waits for.  A worker
  first reads, then hands over its result (or finds the context done), and only then, in its deferred
  call, empties the semaphore.
\<close>

datatype read_phase = Reading | Delivered

datatype read_outcome = GotResult | GotPanic | TimedOut | Refused

record gate =
  gt_sem :: bool
  gt_workers :: "read_phase list"
  gt_waiting :: bool
  gt_outcomes :: "read_outcome list"

definition new_gate :: gate where
  "new_gate = \<lparr>gt_sem = False, gt_workers = [], gt_waiting = False, gt_outcomes = []\<rparr>"

definition try_start_read :: "gate \<Rightarrow> bool \<times> gate" where
  "try_start_read g = (if gt_sem g then (False, g) else (True, g\<lparr>gt_sem := True\<rparr>))"

definition finish_read :: "gate \<Rightarrow> gate" where
  "finish_read g = g\<lparr>gt_sem := False\<rparr>"

text \<open>A call of \<open>getTempsWithTimeout\<close> that is refused returns at once; another one starts a worker.\<close>

definition begin_read :: "gate \<Rightarrow> gate" where
  "begin_read g = (case try_start_read g of
     (False, g') \<Rightarrow> g'\<lparr>gt_outcomes := gt_outcomes g' @ [Refused]\<rparr>
   | (True, g') \<Rightarrow> g'\<lparr>gt_workers := gt_workers g' @ [Reading], gt_waiting := True\<rparr>)"

inductive gate_step :: "gate \<Rightarrow> gate \<Rightarrow> bool" where
  call: "\<not> gt_waiting g \<Longrightarrow> gate_step g (begin_read g)"
| deliver: "gt_workers g = before @ Reading # after \<Longrightarrow> gt_waiting g \<Longrightarrow> outcome \<in> {GotResult, GotPanic} \<Longrightarrow>
    gate_step g (g\<lparr>gt_workers := before @ Delivered # after, gt_waiting := False, gt_outcomes := gt_outcomes g @ [outcome]\<rparr>)"
| timeout: "gt_waiting g \<Longrightarrow> gate_step g (g\<lparr>gt_waiting := False, gt_outcomes := gt_outcomes g @ [TimedOut]\<rparr>)"
| too_late: "gt_workers g = before @ Reading # after \<Longrightarrow> \<not> gt_waiting g \<Longrightarrow>
    gate_step g (g\<lparr>gt_workers := before @ Delivered # after\<rparr>)"
| finish: "gt_workers g = before @ Delivered # after \<Longrightarrow>
    gate_step g ((finish_read g)\<lparr>gt_workers := before @ after\<rparr>)"

end
