(* ===== verification/Sensors_Properties.thy ===== *)
theory Sensors_Properties
  imports Sensors Float_Facts
begin

text \<open>
  The gate lets one read of the sensors run at a time, and which temperatures are reported.
\<close>

section \<open>The gate\<close>

definition gate_inv :: "gate \<Rightarrow> bool" where
  "gate_inv g = (length (gt_workers g) \<le> 1 \<and> (gt_sem g \<longleftrightarrow> gt_workers g \<noteq> []))"

inductive gate_reachable :: "gate \<Rightarrow> bool" where
  fresh: "gate_reachable new_gate"
| step: "gate_reachable g \<Longrightarrow> gate_step g g' \<Longrightarrow> gate_reachable g'"

lemma gate_step_inv: "gate_step g g' \<Longrightarrow> gate_inv g \<Longrightarrow> gate_inv g'"
  by (induction rule: gate_step.induct) (auto simp: gate_inv_def begin_read_def try_start_read_def finish_read_def)

text \<open>
  C27: However calls, results, timeouts and late returns follow each other, at most one goroutine reads
  the sensors, and the semaphore is taken exactly while one exists: a read that never returns does not
  make further ones start.
\<close>

theorem one_read_at_a_time:
  assumes "gate_reachable g"
  shows "length (gt_workers g) \<le> 1 \<and> (gt_sem g \<longleftrightarrow> gt_workers g \<noteq> [])"
proof -
  have "gate_inv g" using assms by (induction rule: gate_reachable.induct) (simp add: gate_inv_def new_gate_def, rule gate_step_inv)
  then show ?thesis by (simp add: gate_inv_def)
qed

definition delivered_panic :: gate where
  "delivered_panic = \<lparr>gt_sem = True, gt_workers = [Delivered], gt_waiting = False, gt_outcomes = [GotPanic]\<rparr>"

lemma panic_reachable: "gate_reachable delivered_panic"
proof -
  have 1: "gate_reachable \<lparr>gt_sem = True, gt_workers = [Reading], gt_waiting = True, gt_outcomes = []\<rparr>"
    using step [OF fresh call] by (simp add: new_gate_def begin_read_def try_start_read_def)
  have "gate_step \<lparr>gt_sem = True, gt_workers = [Reading], gt_waiting = True, gt_outcomes = []\<rparr> delivered_panic"
    using deliver [of "\<lparr>gt_sem = True, gt_workers = [Reading], gt_waiting = True, gt_outcomes = []\<rparr>" "[]" "[]" GotPanic]
    by (simp add: delivered_panic_def)
  with 1 show ?thesis by (rule step)
qed

theorem one_read_at_a_time_witness: "length (gt_workers delivered_panic) \<le> 1 \<and> gt_sem delivered_panic"
  using one_read_at_a_time [OF panic_reachable] by (simp add: delivered_panic_def)

text \<open>
  The second attempt after a panic of the library can be refused although nothing is being read
  any more: the goroutine hands over its result before it empties the semaphore.
\<close>

theorem retry_refused:
  "\<exists>g. gate_reachable g \<and> gt_outcomes g = [GotPanic, Refused] \<and> Reading \<notin> set (gt_workers g)"
proof (intro exI conjI)
  have "\<not> gt_waiting delivered_panic" by (simp add: delivered_panic_def)
  then show "gate_reachable (begin_read delivered_panic)"
    by (rule step [OF panic_reachable call])
qed (simp_all add: delivered_panic_def begin_read_def try_start_read_def)

section \<open>Temperatures\<close>

definition accepted :: "sensor_config \<Rightarrow> temperature_stat \<Rightarrow> bool" where
  "accepted cfg s = (\<not> unreasonable (scaled_reading (tp_temperature s)) \<and> is_valid_sensor (tp_sensor_key s) cfg)"

lemma collect_snoc: "collect_temperatures cfg (temps @ [s]) d
    = add_temperature cfg (collect_temperatures cfg temps d) (length temps, s)"
  by (simp add: collect_temperatures_def enumerate_append_eq)

lemma collect_keys_values:
  assumes "distinct (map tp_sensor_key temps)"
  shows "mget (fst (collect_temperatures cfg temps d)) key = Some v
    \<longleftrightarrow> (\<exists>s \<in> set temps. key = tp_sensor_key s \<and> accepted cfg s \<and> v = two_decimals (scaled_reading (tp_temperature s)))"
  using assms
proof (induction temps arbitrary: key v rule: rev_induct)
  case Nil
  then show ?case by (simp add: collect_temperatures_def)
next
  case (snoc s temps)
  obtain m dash where c: "collect_temperatures cfg temps d = (m, dash)" by fastforce
  have IH: "mget m key = Some v
    \<longleftrightarrow> (\<exists>s \<in> set temps. key = tp_sensor_key s \<and> accepted cfg s \<and> v = two_decimals (scaled_reading (tp_temperature s)))" for key v
    using snoc by (simp add: c)
  have n: "mget m (tp_sensor_key s) = None"
  proof (rule ccontr)
    assume "mget m (tp_sensor_key s) \<noteq> None"
    then show False using IH snoc.prems by force
  qed
  have "fst (add_temperature cfg (m, dash) (length temps, s))
      = (if accepted cfg s then mput (tp_sensor_key s) (two_decimals (scaled_reading (tp_temperature s))) m else m)"
    using n by (simp add: add_temperature_def accepted_def Let_def)
  then show ?case
    using IH n snoc.prems unfolding collect_snoc c by auto
qed

lemma collect_dashboard:
  assumes "distinct (map tp_sensor_key temps)" "sc_primary_sensor cfg = []" "d \<noteq> NaN"
    "\<And>s. s \<in> set temps \<Longrightarrow> scaled_reading (tp_temperature s) \<noteq> NaN"
  shows "snd (collect_temperatures cfg temps d) \<noteq> NaN \<and> fle d (snd (collect_temperatures cfg temps d))
    \<and> (\<forall>s \<in> set temps. accepted cfg s \<longrightarrow> fle (scaled_reading (tp_temperature s)) (snd (collect_temperatures cfg temps d)))"
  using assms
proof (induction temps rule: rev_induct)
  case Nil
  then show ?case by (simp add: collect_temperatures_def)
next
  case (snoc s temps)
  obtain m dash where c: "collect_temperatures cfg temps d = (m, dash)" by fastforce
  have IH: "dash \<noteq> NaN" "fle d dash" "\<forall>s \<in> set temps. accepted cfg s \<longrightarrow> fle (scaled_reading (tp_temperature s)) dash"
    using snoc by (simp_all add: c)
  have n: "mget m (tp_sensor_key s) = None"
  proof (rule ccontr)
    assume "mget m (tp_sensor_key s) \<noteq> None"
    then show False using collect_keys_values [of temps cfg d "tp_sensor_key s"] snoc.prems(1) by (force simp: c)
  qed
  define t where "t = scaled_reading (tp_temperature s)"
  have t: "t \<noteq> NaN" using snoc.prems(4) by (simp add: t_def)
  have s: "snd (add_temperature cfg (m, dash) (length temps, s)) = (if accepted cfg s then fmax dash t else dash)"
    using n snoc.prems(2) by (simp add: add_temperature_def accepted_def Let_def t_def)
  have f: "fle dash (fmax dash t)" "fle t (fmax dash t)" "fmax dash t \<noteq> NaN"
    using IH(1) t by (simp_all add: fmax_ub)
  show ?case
    unfolding collect_snoc c s using IH f fle_trans by (auto simp: t_def [symmetric])
qed

text \<open>
  Exactly the sensors that the configuration lets through and whose scaled reading is between 0
  and 200 degrees are reported, each with its reading to two decimals; without a primary sensor no
  reported sensor is hotter than the temperature that the dashboard shows.
\<close>

theorem temperatures_reported:
  assumes "distinct (map tp_sensor_key temps)" "sc_primary_sensor cfg = []"
    "\<And>s. s \<in> set temps \<Longrightarrow> scaled_reading (tp_temperature s) \<noteq> NaN"
  shows "(mget (fst (collect_temperatures cfg temps (Num 0))) key = Some v
      \<longleftrightarrow> (\<exists>s \<in> set temps. key = tp_sensor_key s \<and> accepted cfg s \<and> v = two_decimals (scaled_reading (tp_temperature s))))
    \<and> (\<forall>s \<in> set temps. accepted cfg s \<longrightarrow> fle (scaled_reading (tp_temperature s)) (snd (collect_temperatures cfg temps (Num 0))))"
  using collect_keys_values [OF assms(1)] collect_dashboard [OF assms(1,2) _ assms(3), of "Num 0"] by simp

text \<open>A processor at 45 degrees, a disk that the blacklist names, and a sensor without a reading.\<close>

definition some_temps :: "temperature_stat list" where
  "some_temps = [\<lparr>tp_sensor_key = ''cpu'', tp_temperature = Num 45\<rparr>, \<lparr>tp_sensor_key = ''nvme_1'', tp_temperature = Num 60\<rparr>,
     \<lparr>tp_sensor_key = ''none'', tp_temperature = Num 0\<rparr>]"

definition no_nvme :: sensor_config where
  "no_nvme = new_sensor_config_with_env [] [] ''-nvme*'' [] False"

lemma no_nvme_allows: "is_valid_sensor ''cpu'' no_nvme" "\<not> is_valid_sensor ''nvme_1'' no_nvme"
  by code_simp+

theorem temperatures_reported_witness:
  "mget (fst (collect_temperatures no_nvme some_temps (Num 0))) ''cpu'' = Some (two_decimals (Num 45))
    \<and> mget (fst (collect_temperatures no_nvme some_temps (Num 0))) ''nvme_1'' = None
    \<and> fle (Num 45) (snd (collect_temperatures no_nvme some_temps (Num 0)))"
proof -
  have d: "distinct (map tp_sensor_key some_temps)" by (simp add: some_temps_def)
  have p: "sc_primary_sensor no_nvme = []" by (simp add: no_nvme_def new_sensor_config_with_env_def Let_def)
  have s: "scaled_reading (Num 45) = Num 45" "scaled_reading (Num 60) = Num 60" "scaled_reading (Num 0) = Num 0"
    by (simp_all add: scaled_reading_def feq_def)
  have n: "scaled_reading (tp_temperature s) \<noteq> NaN" if "s \<in> set some_temps" for s
    using that by (auto simp: some_temps_def s)
  have a: "accepted no_nvme \<lparr>tp_sensor_key = ''cpu'', tp_temperature = Num 45\<rparr>"
    by (simp add: accepted_def unreasonable_def s no_nvme_allows)
  note t = temperatures_reported [OF d p n]
  have "\<exists>v. mget (fst (collect_temperatures no_nvme some_temps (Num 0))) ''nvme_1'' = Some v \<Longrightarrow> False"
    using t no_nvme_allows by (auto simp: some_temps_def accepted_def)
  then have "mget (fst (collect_temperatures no_nvme some_temps (Num 0))) ''nvme_1'' = None" by (meson not_None_eq)
  then show ?thesis
    using t [of "''cpu''" "two_decimals (Num 45)"] a by (simp add: some_temps_def s)
qed

end
