(* ===== verification/Gpu.thy ===== *)
theory Gpu
  imports Codecs Go_Number Go_Text
begin

text \<open>
  \<open>internal/app/gpu.go\<close>, \<open>gpu_nvtop.go\<close>, \<open>gpu_intel.go\<close>: the accumulated readings of the GPUs, the
  parsers of what the vendor tools print, and the averages since the last call with the same cache
  key.  All of these run under the manager's mutex.  A line is one that the scanner's buffer holds.
\<close>

section \<open>State\<close>

record gpu_snapshot =
  gs_count :: "32 word"
  gs_usage :: f64
  gs_power :: f64
  gs_power_pkg :: f64
  gs_engines :: "(string, f64) gmap option"

record gpu_manager =
  gm_data :: "(string, gpu_data) gmap"
  gm_last_avg :: "(string, gpu_data) gmap"
  gm_snapshots :: "16 word \<Rightarrow> (string \<rightharpoonup> gpu_snapshot)"

definition new_gpu_manager :: gpu_manager where
  "new_gpu_manager = \<lparr>gm_data = [], gm_last_avg = [], gm_snapshots = (\<lambda>_ _. None)\<rparr>"

definition named_gpu :: "string \<Rightarrow> gpu_data" where
  "named_gpu name = zero_gpu_data\<lparr>gpu_name := name\<rparr>"

text \<open>The entry of a GPU, made if it is not there, after an update.\<close>

definition with_gpu :: "string \<Rightarrow> gpu_data \<Rightarrow> (gpu_data \<Rightarrow> gpu_data) \<Rightarrow> gpu_manager \<Rightarrow> gpu_manager" where
  "with_gpu gid fresh upd m =
     m\<lparr>gm_data := mput gid (upd (case mget (gm_data m) gid of None \<Rightarrow> fresh | Some g \<Rightarrow> g)) (gm_data m)\<rparr>"

definition mebibytes_in_a_megabyte :: f64 where "mebibytes_in_a_megabyte = rnd False (1024 / 1000)"
definition milliwatts_in_a_watt :: f64 where "milliwatts_in_a_watt = Num 1000"

section \<open>Parsers\<close>

definition nvidia_gpu_name :: "string \<Rightarrow> string" where
  "nvidia_gpu_name name = trim_suffix '' Laptop GPU'' (trim_prefix ''NVIDIA '' name)"

text \<open>One line of \<open>nvidia-smi\<close>: whether it has the fields, and the new state.\<close>

definition parse_nvidia_line :: "bool \<times> gpu_manager \<Rightarrow> string \<Rightarrow> bool \<times> gpu_manager" where
  "parse_nvidia_line state line = (case state of (valid, m) \<Rightarrow>
     let fs = split_str '', '' (trim_space line) in
     if length fs < 7 then (valid, m)
     else (True, with_gpu (fs ! 0) (named_gpu (nvidia_gpu_name (fs ! 1))) (\<lambda>g. g\<lparr>
            gpu_temperature := float_or_zero (fs ! 2),
            gpu_memory_used := fdiv (float_or_zero (fs ! 3)) mebibytes_in_a_megabyte,
            gpu_memory_total := fdiv (float_or_zero (fs ! 4)) mebibytes_in_a_megabyte,
            gpu_usage := fadd (gpu_usage g) (float_or_zero (fs ! 5)),
            gpu_power := fadd (gpu_power g) (float_or_zero (fs ! 6)),
            gpu_count := fadd (gpu_count g) (Num 1)\<rparr>) m))"

definition parse_nvidia_data :: "string \<Rightarrow> gpu_manager \<Rightarrow> bool \<times> gpu_manager" where
  "parse_nvidia_data output m = foldl parse_nvidia_line (False, m) (scan_lines output)"

text \<open>\<open>rocm-smi\<close>: the cards by their keys, each a struct of strings.\<close>

record rocm_smi =
  rs_id :: string
  rs_name :: string
  rs_temperature :: string
  rs_memory_used :: string
  rs_memory_total :: string
  rs_usage :: string
  rs_power_package :: string
  rs_power_socket :: string

definition zero_rocm_smi :: rocm_smi where
  "zero_rocm_smi = \<lparr>rs_id = [], rs_name = [], rs_temperature = [], rs_memory_used = [], rs_memory_total = [],
     rs_usage = [], rs_power_package = [], rs_power_socket = []\<rparr>"

definition dec_rocm_smi :: "json \<Rightarrow> rocm_smi res" where
  "dec_rocm_smi = dec_struct (\<lambda>fs.
     attempt (jfield fs ''guid'' [] dec_str) (\<lambda>gid.
     attempt (jfield fs ''card series'' [] dec_str) (\<lambda>name.
     attempt (jfield fs ''temperature (sensor edge) (c)'' [] dec_str) (\<lambda>temp.
     attempt (jfield fs ''vram total used memory (b)'' [] dec_str) (\<lambda>used.
     attempt (jfield fs ''vram total memory (b)'' [] dec_str) (\<lambda>capacity.
     attempt (jfield fs ''gpu use (%)'' [] dec_str) (\<lambda>usage.
     attempt (jfield fs ''average graphics package power (w)'' [] dec_str) (\<lambda>package.
     attempt (jfield fs ''current socket graphics package power (w)'' [] dec_str) (\<lambda>socket.
     Inr \<lparr>rs_id = gid, rs_name = name, rs_temperature = temp, rs_memory_used = used, rs_memory_total = capacity,
       rs_usage = usage, rs_power_package = package, rs_power_socket = socket\<rparr>))))))))) zero_rocm_smi"

definition update_rocm_card :: "gpu_manager \<Rightarrow> rocm_smi \<Rightarrow> gpu_manager" where
  "update_rocm_card m v =
     (let watts = float_or_zero (if rs_power_package v \<noteq> [] then rs_power_package v else rs_power_socket v)
      in with_gpu (rs_id v) (named_gpu (rs_name v)) (\<lambda>g. g\<lparr>
           gpu_temperature := float_or_zero (rs_temperature v),
           gpu_memory_used := bytes_to_megabytes (float_or_zero (rs_memory_used v)),
           gpu_memory_total := bytes_to_megabytes (float_or_zero (rs_memory_total v)),
           gpu_usage := fadd (gpu_usage g) (float_or_zero (rs_usage v)),
           gpu_power := fadd (gpu_power g) watts,
           gpu_count := fadd (gpu_count g) (Num 1)\<rparr>) m)"

text \<open>Go's map gives the cards in any order; here they come in the order of their keys.\<close>

definition dec_rocm_cards :: "json \<Rightarrow> (string, rocm_smi) gmap res" where
  "dec_rocm_cards j = (case j of
     JObj fs \<Rightarrow> fold_res (\<lambda>m (key, v). attempt (dec_rocm_smi v) (\<lambda>c. Inr (mput key c m))) [] fs
   | JNull \<Rightarrow> Inr [] | _ \<Rightarrow> Inl ErrJson)"

definition parse_amd_data :: "jtext \<Rightarrow> gpu_manager \<Rightarrow> bool \<times> gpu_manager" where
  "parse_amd_data output m = (case unmarshal dec_rocm_cards output of
     Inl _ \<Rightarrow> (False, m)
   | Inr cards \<Rightarrow> if cards = [] then (False, m) else (True, foldl update_rocm_card m (map snd cards)))"

section \<open>tegrastats\<close>

text \<open>
  The patterns are found at the leftmost place where they match.  In each of them a repetition is
  followed by a byte that it cannot take, so that it takes all it can.
\<close>

fun leftmost :: "(string \<Rightarrow> 'a option) \<Rightarrow> string \<Rightarrow> 'a option" where
  "leftmost f [] = f []"
| "leftmost f (c # cs) = (case f (c # cs) of Some x \<Rightarrow> Some x | None \<Rightarrow> leftmost f cs)"

definition literal_then :: "string \<Rightarrow> (string \<Rightarrow> 'a option) \<Rightarrow> string \<Rightarrow> 'a option" where
  "literal_then lit f s = (if has_prefix lit s then f (drop (length lit) s) else None)"

text \<open>One or more digits, which are handed on with the rest.\<close>

definition digits_then :: "(string \<Rightarrow> string \<Rightarrow> 'a option) \<Rightarrow> string \<Rightarrow> 'a option" where
  "digits_then f s = (let ds = takeWhile is_digit s in if ds = [] then None else f ds (dropWhile is_digit s))"

definition ram_pattern :: "string \<Rightarrow> (string \<times> string) option" where
  "ram_pattern = literal_then ''RAM '' (digits_then (\<lambda>used. literal_then ''/'' (digits_then (\<lambda>capacity.
     literal_then ''MB'' (\<lambda>_. Some (used, capacity))))))"

definition gr3d_pattern :: "string \<Rightarrow> string option" where
  "gr3d_pattern = literal_then ''GR3D_FREQ '' (digits_then (\<lambda>ds. literal_then ''%'' (\<lambda>_. Some ds)))"

definition degrees :: "string \<Rightarrow> string option" where
  "degrees = digits_then (\<lambda>ds rest.
     let (point, rest1) = (if has_prefix ''.'' rest then (''.'', tl rest) else ([], rest))
     in literal_then ''C'' (\<lambda>_. Some (ds @ point @ takeWhile is_digit rest1)) (dropWhile is_digit rest1))"

definition temp_pattern :: "string \<Rightarrow> string option" where
  "temp_pattern s = (case literal_then ''tj@'' degrees s of
     Some t \<Rightarrow> Some t | None \<Rightarrow> literal_then ''GPU@'' degrees s)"

definition regexp_space :: "char \<Rightarrow> bool" where
  "regexp_space c = (c \<in> {CHR 0x09, CHR 0x0A, CHR 0x0C, CHR 0x0D, CHR '' ''})"

definition spaces_then :: "(string \<Rightarrow> 'a option) \<Rightarrow> string \<Rightarrow> 'a option" where
  "spaces_then f s = (if s = [] \<or> \<not> regexp_space (hd s) then None else f (dropWhile regexp_space s))"

definition power_pattern :: "string \<Rightarrow> string option" where
  "power_pattern s =
     (let milliwatts = spaces_then (digits_then (\<lambda>ds. literal_then ''mW'' (\<lambda>_. Some ds)))
      in case literal_then ''GPU_SOC'' milliwatts s of
           Some p \<Rightarrow> Some p
         | None \<Rightarrow> (case literal_then ''CPU_GPU_CV'' milliwatts s of
             Some p \<Rightarrow> Some p
           | None \<Rightarrow> literal_then ''VDD_SYS_GPU'' (spaces_then (digits_then (\<lambda>ds. literal_then ''/'' (digits_then (\<lambda>_ _. Some ds))))) s))"

definition parse_jetson :: "string \<Rightarrow> gpu_data \<Rightarrow> gpu_data" where
  "parse_jetson output g0 =
     (let g1 = (case leftmost ram_pattern output of None \<Rightarrow> g0
            | Some (used, capacity) \<Rightarrow> g0\<lparr>gpu_memory_used := float_or_zero used, gpu_memory_total := float_or_zero capacity\<rparr>);
          g2 = (case leftmost gr3d_pattern output of None \<Rightarrow> g1
            | Some usage \<Rightarrow> g1\<lparr>gpu_usage := fadd (gpu_usage g1) (float_or_zero usage)\<rparr>);
          g3 = (case leftmost temp_pattern output of None \<Rightarrow> g2
            | Some temp \<Rightarrow> g2\<lparr>gpu_temperature := float_or_zero temp\<rparr>);
          g4 = (case leftmost power_pattern output of None \<Rightarrow> g3
            | Some milliwatts \<Rightarrow> g3\<lparr>gpu_power := fadd (gpu_power g3) (fdiv (float_or_zero milliwatts) milliwatts_in_a_watt)\<rparr>)
      in g4\<lparr>gpu_count := fadd (gpu_count g4) (Num 1)\<rparr>)"

text \<open>Making the parser puts the entry; the parser then works on that entry.\<close>

definition start_jetson :: "gpu_manager \<Rightarrow> gpu_manager" where
  "start_jetson m = m\<lparr>gm_data := mput ''0'' (named_gpu ''GPU'') (gm_data m)\<rparr>"

definition parse_jetson_data :: "string \<Rightarrow> gpu_manager \<Rightarrow> bool \<times> gpu_manager" where
  "parse_jetson_data output m = (True, with_gpu ''0'' (named_gpu ''GPU'') (parse_jetson output) m)"

section \<open>nvtop\<close>

record nvtop_snapshot =
  nt_device_name :: string
  nt_temp :: "string option"
  nt_power_draw :: "string option"
  nt_gpu_util :: "string option"
  nt_mem_total :: "string option"
  nt_mem_used :: "string option"

definition parse_nvtop_number :: "string \<Rightarrow> f64" where
  "parse_nvtop_number raw = float_or_zero (trim_suffix ''%'' (trim_suffix ''W'' (trim_suffix ''C'' (trim_space raw))))"

text \<open>
  The entry that a device is booked under: its index, unless another device is there and a free entry
  has its name.  Of several the code takes any; here it is the first.
\<close>

definition nvtop_slot :: "string set \<Rightarrow> string \<Rightarrow> string \<Rightarrow> gpu_manager \<Rightarrow> string" where
  "nvtop_slot used index_id device m =
     (case mget (gm_data m) index_id of
        None \<Rightarrow> index_id
      | Some g \<Rightarrow>
          if gpu_name g \<noteq> [] \<and> gpu_name g \<noteq> device
          then (case find (\<lambda>(k, g'). has_prefix ''n'' k \<and> k \<notin> used \<and> gpu_name g' = device) (gm_data m) of
              Some (k, _) \<Rightarrow> k | None \<Rightarrow> index_id)
          else index_id)"

definition apply_nvtop_sample :: "nvtop_snapshot \<Rightarrow> gpu_data \<Rightarrow> gpu_data" where
  "apply_nvtop_sample s g0 =
     (let set_if = (\<lambda>v f g. case v of None \<Rightarrow> g | Some raw \<Rightarrow> f (parse_nvtop_number raw) g);
          g1 = g0\<lparr>gpu_name := nt_device_name s\<rparr>;
          g2 = set_if (nt_temp s) (\<lambda>x g. g\<lparr>gpu_temperature := x\<rparr>) g1;
          g3 = set_if (nt_mem_used s) (\<lambda>x g. g\<lparr>gpu_memory_used := bytes_to_megabytes x\<rparr>) g2;
          g4 = set_if (nt_mem_total s) (\<lambda>x g. g\<lparr>gpu_memory_total := bytes_to_megabytes x\<rparr>) g3;
          g5 = set_if (nt_gpu_util s) (\<lambda>x g. g\<lparr>gpu_usage := fadd (gpu_usage g) x\<rparr>) g4;
          g6 = set_if (nt_power_draw s) (\<lambda>x g. g\<lparr>gpu_power := fadd (gpu_power g) x\<rparr>) g5
      in g6\<lparr>gpu_count := fadd (gpu_count g6) (Num 1)\<rparr>)"

definition nvtop_step :: "bool \<times> string set \<times> gpu_manager \<Rightarrow> nat \<times> nvtop_snapshot \<Rightarrow> bool \<times> string set \<times> gpu_manager" where
  "nvtop_step state sample = (case state of (valid, used, m) \<Rightarrow> case sample of (i, s) \<Rightarrow>
     if nt_device_name s = [] then (valid, used, m)
     else let gid = nvtop_slot used (''n'' @ nat_digits i) (nt_device_name s) m
       in (True, insert gid used, with_gpu gid (named_gpu (nt_device_name s)) (apply_nvtop_sample s) m))"

definition update_nvtop_snapshots :: "nvtop_snapshot list \<Rightarrow> gpu_manager \<Rightarrow> bool \<times> gpu_manager" where
  "update_nvtop_snapshots snapshots m =
     (case foldl nvtop_step (False, {}, m) (enumerate 0 snapshots) of (valid, _, m') \<Rightarrow> (valid, m'))"

section \<open>intel_gpu_top\<close>

record intel_sample =
  is_power_gpu :: f64
  is_power_pkg :: f64
  is_engines :: "(string, f64) gmap"

definition update_intel_from_stats :: "intel_sample \<Rightarrow> gpu_manager \<Rightarrow> gpu_manager" where
  "update_intel_from_stats sample =
     with_gpu ''i0'' ((named_gpu ''GPU'')\<lparr>gpu_engines := Some []\<rparr>) (\<lambda>g. g\<lparr>
       gpu_power := fadd (gpu_power g) (is_power_gpu sample),
       gpu_power_pkg := fadd (gpu_power_pkg g) (is_power_pkg sample),
       gpu_engines := Some (foldl (\<lambda>es (name, e). mput name (fadd (case mget es name of None \<Rightarrow> Num 0 | Some x \<Rightarrow> x) e) es)
         (case gpu_engines g of None \<Rightarrow> [] | Some es \<Rightarrow> es) (is_engines sample)),
       gpu_count := fadd (gpu_count g) (Num 1)\<rparr>)"

definition friendly_names :: "(string \<times> string) list" where
  "friendly_names = [(''RCS'', ''Render/3D''), (''BCS'', ''Blitter''), (''VCS'', ''Video''),
     (''VECS'', ''VideoEnhance''), (''CCS'', ''Compute'')]"

definition engine_key :: "string \<Rightarrow> string" where
  "engine_key col = rev (dropWhile (\<lambda>c. is_digit c \<or> c = CHR ''/'') (rev col))"

text \<open>The index of the first column that says \<open>gpu\<close> among the columns before the engines.\<close>

fun gpu_column :: "nat \<Rightarrow> string list \<Rightarrow> nat option" where
  "gpu_column i [] = None"
| "gpu_column i (c # cs) = (if equal_fold c ''gpu'' then Some i else gpu_column (Suc i) cs)"

record intel_header =
  ih_friendly :: "string list"
  ih_power_index :: "nat option"
  ih_pre_engine_cols :: nat

definition parse_intel_headers :: "string \<Rightarrow> string \<Rightarrow> intel_header" where
  "parse_intel_headers header1 header2 =
     (let h2 = Prelude.fields header2;
          friendly = concat (map (\<lambda>col. case map_of friendly_names (engine_key col) of None \<Rightarrow> [] | Some f \<Rightarrow> [f]) (Prelude.fields header1));
          n = length friendly;
          pre = length h2 - 3 * n
      in if n = 0 then \<lparr>ih_friendly = [], ih_power_index = None, ih_pre_engine_cols = 0\<rparr>
         else \<lparr>ih_friendly = friendly, ih_power_index = gpu_column 0 (take pre h2), ih_pre_engine_cols = pre\<rparr>)"

text \<open>A field of a row, which is a Go slice: \<open>None\<close> is an index out of range, a panic.\<close>

definition field_number :: "string list \<Rightarrow> nat \<Rightarrow> f64 option" where
  "field_number fs i = (if i < length fs then Some (case parse_float (fs ! i) of Some v \<Rightarrow> v | None \<Rightarrow> Num 0) else None)"

definition intel_engines :: "intel_header \<Rightarrow> string list \<Rightarrow> (string, f64) gmap" where
  "intel_engines h fs = foldl (\<lambda>es (k, friendly).
       let base = ih_pre_engine_cols h + 3 * k in
       case field_number fs base of
         None \<Rightarrow> mput friendly (Num 0) es
       | Some busy \<Rightarrow> mput friendly (fadd (case mget es friendly of None \<Rightarrow> Num 0 | Some x \<Rightarrow> x) busy) es)
     [] (enumerate 0 (ih_friendly h))"

definition err_no_valid_data :: go_error where
  "err_no_valid_data = ErrText ''no valid GPU data found''"

definition parse_intel_data :: "string \<Rightarrow> intel_header \<Rightarrow> intel_sample res option" where
  "parse_intel_data line h =
     (let fs = Prelude.fields line in
      if fs = [] \<or> length fs < ih_pre_engine_cols h + 3 * length (ih_friendly h) then Some (Inl err_no_valid_data)
      else let engines = intel_engines h fs in
        case ih_power_index h of
          None \<Rightarrow> Some (Inr \<lparr>is_power_gpu = Num 0, is_power_pkg = Num 0, is_engines = engines\<rparr>)
        | Some i \<Rightarrow>
            if \<not> i < length fs then Some (Inr \<lparr>is_power_gpu = Num 0, is_power_pkg = Num 0, is_engines = engines\<rparr>)
            else (case (field_number fs i, field_number fs (i + 1)) of
                (Some gpu, Some pkg) \<Rightarrow> Some (Inr \<lparr>is_power_gpu = gpu, is_power_pkg = pkg, is_engines = engines\<rparr>)
              | _ \<Rightarrow> None))"

text \<open>
  \<open>collectIntelStats\<close> on the lines that the command prints: the headers may come again, and the first
  row is skipped.  Before the headers \<open>powerIndex\<close> is the zero of its type, a column.
\<close>

record intel_loop =
  il_header1 :: string
  il_header :: intel_header
  il_had_data_row :: bool
  il_skipped :: bool

definition intel_start :: intel_loop where
  "intel_start = \<lparr>il_header1 = [], il_header = \<lparr>ih_friendly = [], ih_power_index = Some 0, ih_pre_engine_cols = 0\<rparr>,
     il_had_data_row = False, il_skipped = False\<rparr>"

fun intel_lines :: "string list \<Rightarrow> intel_loop \<Rightarrow> gpu_manager \<Rightarrow> (intel_loop res \<times> gpu_manager) option" where
  "intel_lines [] s m = Some (Inr s, m)"
| "intel_lines (raw # lines) s m = (let line = trim_space raw in
     if line = [] then intel_lines lines s m
     else if has_prefix ''Freq'' line then intel_lines lines (s\<lparr>il_header1 := line\<rparr>) m
     else if has_prefix ''req'' line then intel_lines lines (s\<lparr>il_header := parse_intel_headers (il_header1 s) line\<rparr>) m
     else if \<not> il_skipped s then intel_lines lines (s\<lparr>il_skipped := True\<rparr>) m
     else (case parse_intel_data line (il_header s) of
         None \<Rightarrow> None
       | Some (Inl e) \<Rightarrow> Some (Inl e, m)
       | Some (Inr sample) \<Rightarrow> intel_lines lines (s\<lparr>il_had_data_row := True\<rparr>) (update_intel_from_stats sample m)))"

definition collect_intel_stats :: "string \<Rightarrow> go_error option \<Rightarrow> gpu_manager \<Rightarrow> (unit res \<times> gpu_manager) option" where
  "collect_intel_stats output scan_err m = (case intel_lines (scan_lines output) intel_start m of
     None \<Rightarrow> None
   | Some (Inl e, m') \<Rightarrow> Some (Inl e, m')
   | Some (Inr s, m') \<Rightarrow> Some (case scan_err of
        Some e \<Rightarrow> Inl e
      | None \<Rightarrow> if il_had_data_row s then Inr () else Inl err_no_valid_data, m'))"

section \<open>Averages\<close>

definition to_uint32 :: "f64 \<Rightarrow> 32 word" where
  "to_uint32 x = ucast (to_uint64 x)"

definition of_uint32 :: "32 word \<Rightarrow> f64" where
  "of_uint32 w = of_uint64 (ucast w)"

definition count_gpu_names :: "gpu_manager \<Rightarrow> string \<Rightarrow> nat" where
  "count_gpu_names m name = length (filter (\<lambda>(gid, g). gpu_name g = name) (gm_data m))"

definition calculate_delta_count :: "32 word \<Rightarrow> gpu_snapshot option \<Rightarrow> 32 word" where
  "calculate_delta_count current snap = (case snap of None \<Rightarrow> current | Some s \<Rightarrow> current - gs_count s)"

definition calculate_deltas :: "gpu_data \<Rightarrow> gpu_snapshot option \<Rightarrow> f64 \<times> f64 \<times> f64" where
  "calculate_deltas g snap = (case snap of
     None \<Rightarrow> (gpu_usage g, gpu_power g, gpu_power_pkg g)
   | Some s \<Rightarrow> (fsub (gpu_usage g) (gs_usage s), fsub (gpu_power g) (gs_power s), fsub (gpu_power_pkg g) (gs_power_pkg s)))"

text \<open>The share of an engine since the last snapshot, and the engines with the largest of them.\<close>

definition engine_delta :: "gpu_snapshot option \<Rightarrow> string \<Rightarrow> f64 \<Rightarrow> f64" where
  "engine_delta snap name engine = (case snap of
     None \<Rightarrow> engine
   | Some s \<Rightarrow> (case gs_engines s of
       None \<Rightarrow> engine
     | Some es \<Rightarrow> fsub engine (case mget es name of None \<Rightarrow> Num 0 | Some x \<Rightarrow> x)))"

definition calculate_intel_gpu_usage :: "(string, f64) gmap \<Rightarrow> gpu_snapshot option \<Rightarrow> 32 word \<Rightarrow> (string, f64) gmap \<times> f64" where
  "calculate_intel_gpu_usage engines snap n =
     (let shares = map (\<lambda>(name, e). (name, fdiv (engine_delta snap name e) (of_uint32 n))) engines
      in (map (\<lambda>(name, x). (name, two_decimals x)) shares,
          two_decimals (foldl (\<lambda>most (name, x). fmax most x) (Num 0) shares)))"

definition calculate_gpu_average :: "string \<Rightarrow> gpu_data \<Rightarrow> 16 word \<Rightarrow> gpu_manager \<Rightarrow> gpu_data \<times> gpu_manager" where
  "calculate_gpu_average gid g key m =
     (let snap = gm_snapshots m key gid; n = calculate_delta_count (to_uint32 (gpu_count g)) snap in
      if n = 0 then
        (if feq (gpu_temperature g) (Num 0) \<and> feq (gpu_memory_used g) (Num 0) then named_gpu (gpu_name g)
         else case mget (gm_last_avg m) gid of None \<Rightarrow> zero_gpu_data | Some avg \<Rightarrow> avg, m)
      else
        (case calculate_deltas g snap of (usage, watts, pkg) \<Rightarrow>
           let g1 = g\<lparr>gpu_power := two_decimals (fdiv watts (of_uint32 n))\<rparr>;
               avg = (case gpu_engines g of
                  None \<Rightarrow> g1\<lparr>gpu_usage := two_decimals (fdiv usage (of_uint32 n))\<rparr>
                | Some es \<Rightarrow> (case calculate_intel_gpu_usage es snap n of (engines, most) \<Rightarrow>
                    g1\<lparr>gpu_engines := Some engines, gpu_usage := most, gpu_power_pkg := two_decimals (fdiv pkg (of_uint32 n))\<rparr>))
           in (avg, m\<lparr>gm_last_avg := mput gid avg (gm_last_avg m)\<rparr>)))"

definition update_instantaneous_values :: "gpu_data \<Rightarrow> gpu_data \<Rightarrow> gpu_data" where
  "update_instantaneous_values g avg = avg\<lparr>gpu_temperature := two_decimals (gpu_temperature g),
     gpu_memory_used := two_decimals (gpu_memory_used g), gpu_memory_total := two_decimals (gpu_memory_total g)\<rparr>"

definition store_snapshot :: "string \<Rightarrow> gpu_data \<Rightarrow> 16 word \<Rightarrow> gpu_manager \<Rightarrow> gpu_manager" where
  "store_snapshot gid g key m = m\<lparr>gm_snapshots := (gm_snapshots m)(key := (gm_snapshots m key)(gid \<mapsto>
     \<lparr>gs_count = to_uint32 (gpu_count g), gs_usage = gpu_usage g, gs_power = gpu_power g, gs_power_pkg = gpu_power_pkg g,
      gs_engines = gpu_engines g\<rparr>))\<rparr>"

definition current_data_step :: "16 word \<Rightarrow> (string, gpu_data) gmap \<times> gpu_manager \<Rightarrow> string \<times> gpu_data \<Rightarrow> (string, gpu_data) gmap \<times> gpu_manager" where
  "current_data_step key state entry = (case state of (out, m) \<Rightarrow> case entry of (gid, g) \<Rightarrow>
     (case calculate_gpu_average gid g key m of (avg0, m1) \<Rightarrow>
        let avg1 = update_instantaneous_values g avg0;
            avg = (if 1 < count_gpu_names m (gpu_name g) then avg1\<lparr>gpu_name := gpu_name g @ '' '' @ gid\<rparr> else avg1)
        in (mput gid avg out, store_snapshot gid g key m1)))"

definition get_current_data :: "16 word \<Rightarrow> gpu_manager \<Rightarrow> (string, gpu_data) gmap \<times> gpu_manager" where
  "get_current_data key m = foldl (current_data_step key) ([], m) (gm_data m)"

end
