(* ===== verification/Gpu_Collect.thy ===== *)
theory Gpu_Collect
  imports Gpu
begin

text \<open>
  \<open>internal/app/gpu.go\<close>: which collectors are started, what happens when nvtop fails, and when the
  loops of the collectors give up.  A loop is followed by the outcomes of its rounds; a context that
  is done ends any of them.
\<close>

section \<open>Sources\<close>

datatype collector_source = NVTop | NVML | NvidiaSMI | IntelGpuTop | AmdSysfs | RocmSMI

definition collector_sources :: "(string \<times> collector_source) list" where
  "collector_sources = [(''nvtop'', NVTop), (''nvml'', NVML), (''nvidia-smi'', NvidiaSMI),
     (''intel_gpu_top'', IntelGpuTop), (''amd_sysfs'', AmdSysfs), (''rocm-smi'', RocmSMI)]"

record gpu_capabilities =
  has_nvidia_smi :: bool
  has_nvml :: bool
  has_rocm_smi :: bool
  has_amd_sysfs :: bool
  has_tegrastats :: bool
  has_intel_gpu_top :: bool
  has_nvtop :: bool

definition has_any_gpu_collector :: "gpu_capabilities \<Rightarrow> bool" where
  "has_any_gpu_collector caps = (has_nvidia_smi caps \<or> has_nvml caps \<or> has_rocm_smi caps \<or> has_amd_sysfs caps
     \<or> has_tegrastats caps \<or> has_intel_gpu_top caps \<or> has_nvtop caps)"

text \<open>The definition of a collector: its group, which nvtop has none of, and whether it can be started.\<close>

datatype collector_group = Nvidia | Intel | Amd

definition collector_group_of :: "collector_source \<Rightarrow> collector_group option" where
  "collector_group_of s = (case s of
     NVML \<Rightarrow> Some Nvidia | NvidiaSMI \<Rightarrow> Some Nvidia | IntelGpuTop \<Rightarrow> Some Intel
   | AmdSysfs \<Rightarrow> Some Amd | RocmSMI \<Rightarrow> Some Amd | NVTop \<Rightarrow> None)"

definition collector_available :: "gpu_capabilities \<Rightarrow> collector_source \<Rightarrow> bool" where
  "collector_available caps s = (case s of
     NVML \<Rightarrow> True | NvidiaSMI \<Rightarrow> has_nvidia_smi caps | IntelGpuTop \<Rightarrow> has_intel_gpu_top caps
   | AmdSysfs \<Rightarrow> has_amd_sysfs caps | RocmSMI \<Rightarrow> has_rocm_smi caps | NVTop \<Rightarrow> has_nvtop caps)"

text \<open>Only NVML can fail to start, when its library does not initialise.\<close>

definition collector_starts :: "bool \<Rightarrow> collector_source \<Rightarrow> bool" where
  "collector_starts nvml_inits s = (s = NVML \<longrightarrow> nvml_inits)"

definition parse_collector_priority :: "string \<Rightarrow> collector_source list" where
  "parse_collector_priority text = concat (map (\<lambda>raw.
     case map_of collector_sources (trim_space (to_lower raw)) of None \<Rightarrow> [] | Some s \<Rightarrow> [s]) (split_on (CHR '','') text))"

definition resolve_auto_collector_priority :: "gpu_capabilities \<Rightarrow> collector_source list" where
  "resolve_auto_collector_priority caps =
     (let given = (if has_tegrastats caps then [] else
            (if has_nvidia_smi caps then [NvidiaSMI] else []) @ (if has_nvml caps then [NVML] else []))
          @ (if has_amd_sysfs caps then [AmdSysfs] else []) @ (if has_rocm_smi caps then [RocmSMI] else [])
          @ (if has_intel_gpu_top caps then [IntelGpuTop] else [])
      in if given = [] \<and> has_nvtop caps then [NVTop] else given)"

section \<open>Starting\<close>

text \<open>
  \<open>startCollectorsByPriority\<close> from a point of the list on, with the groups that have one: what is
  started, and the rest of the list for the case that nvtop, when it was started, fails.
\<close>

fun start_by_priority :: "gpu_capabilities \<Rightarrow> bool \<Rightarrow> collector_group set \<Rightarrow> collector_source list
    \<Rightarrow> collector_source list \<times> collector_source list option" where
  "start_by_priority caps nvml groups [] = ([], None)"
| "start_by_priority caps nvml groups (s # rest) =
     (if \<not> collector_available caps s then start_by_priority caps nvml groups rest
      else case collector_group_of s of
        None \<Rightarrow> if groups \<noteq> {} then start_by_priority caps nvml groups rest else ([NVTop], Some rest)
      | Some g \<Rightarrow>
          if g \<in> groups then start_by_priority caps nvml groups rest
          else if collector_starts nvml s
          then (case start_by_priority caps nvml (insert g groups) rest of (started, fallback) \<Rightarrow> (s # started, fallback))
          else start_by_priority caps nvml groups rest)"

definition start_collectors_by_priority :: "gpu_capabilities \<Rightarrow> bool \<Rightarrow> collector_source list
    \<Rightarrow> collector_source list \<times> collector_source list option" where
  "start_collectors_by_priority caps nvml = start_by_priority caps nvml {}"

lemma start_by_priority_fallback:
  "start_by_priority caps nvml groups ps = (started, Some rest) \<Longrightarrow> length rest < length ps"
  by (induction ps arbitrary: groups started) (force split: if_splits option.splits prod.splits)+

text \<open>
  The generations of collectors that run one after the other if nvtop fails each time that it is
  started: its failure starts what the rest of the list gives.
\<close>

function generations :: "gpu_capabilities \<Rightarrow> bool \<Rightarrow> collector_source list \<Rightarrow> collector_source list list" where
  "generations caps nvml ps = (case start_collectors_by_priority caps nvml ps of
     (started, None) \<Rightarrow> [started]
   | (started, Some rest) \<Rightarrow> started # generations caps nvml rest)"
  by pat_completeness auto
termination
  by (relation "Wellfounded.measure (\<lambda>(_, _, ps). length ps)")
    (auto simp: start_collectors_by_priority_def dest!: start_by_priority_fallback [OF sym])

declare generations.simps [simp del]

text \<open>What runs after \<open>Start\<close>: \<open>Running\<close> is whether a context is there, which \<open>Stop\<close> removes.\<close>

datatype started = Nothing | Tegrastats | Collectors "collector_source list"

definition gpu_start :: "string option \<Rightarrow> gpu_capabilities \<Rightarrow> bool \<Rightarrow> bool \<Rightarrow> go_error option \<times> bool \<times> started" where
  "gpu_start config caps nvml running =
     (if running then (None, True, Nothing)
      else if has_tegrastats caps then (None, True, Tegrastats)
      else if config \<noteq> None \<and> trim_space (the config) \<noteq> [] then
        (case start_collectors_by_priority caps nvml (parse_collector_priority (the config)) of
           (started, _) \<Rightarrow> if started = [] then (Some (ErrText ''no configured GPU collectors are available''), False, Nothing)
             else (None, True, Collectors started))
      else if \<not> has_any_gpu_collector caps then (Some (ErrText ''no GPU found''), False, Nothing)
      else (case start_collectors_by_priority caps nvml (resolve_auto_collector_priority caps) of
           (started, _) \<Rightarrow> if started = [] then (Some (ErrText ''no GPU found''), False, Nothing)
             else (None, True, Collectors started)))"

definition skip_gpu :: "string option \<Rightarrow> bool" where
  "skip_gpu env = (env = Some ''true'')"

section \<open>Giving up\<close>

definition max_failure_retries :: nat where "max_failure_retries = 5"

datatype loop_end = GivesUp | KeepsRunning

text \<open>
  \<open>runRetryingCollector\<close>, with the outcomes of the rounds (\<open>None\<close> is success) and what the handler
  says to an error; the loop of \<open>pollAmdStats\<close> is the same one with a handler that says true.
\<close>

fun run_retrying_collector :: "(go_error \<Rightarrow> bool) \<Rightarrow> nat \<Rightarrow> go_error option list \<Rightarrow> loop_end" where
  "run_retrying_collector handle failures [] = KeepsRunning"
| "run_retrying_collector handle failures (outcome # outcomes) = (case outcome of
     None \<Rightarrow> run_retrying_collector handle 0 outcomes
   | Some e \<Rightarrow>
       if max_failure_retries < failures + 1 then GivesUp
       else if \<not> handle e then GivesUp
       else run_retrying_collector handle (failures + 1) outcomes)"

fun poll_amd_stats :: "nat \<Rightarrow> bool list \<Rightarrow> loop_end" where
  "poll_amd_stats failures [] = KeepsRunning"
| "poll_amd_stats failures (has_data # rounds) =
     (if has_data then poll_amd_stats 0 rounds
      else if max_failure_retries < failures + 1 then GivesUp else poll_amd_stats (failures + 1) rounds)"

text \<open>The loop of the rocm-smi collector.\<close>

fun rocm_smi_loop :: "nat \<Rightarrow> go_error option list \<Rightarrow> loop_end" where
  "rocm_smi_loop failures [] = KeepsRunning"
| "rocm_smi_loop failures (outcome # outcomes) = (case outcome of
     None \<Rightarrow> rocm_smi_loop failures outcomes
   | Some _ \<Rightarrow> if max_failure_retries < failures + 1 then GivesUp else rocm_smi_loop (failures + 1) outcomes)"

text \<open>\<open>gpuCollector.start\<close>: only output without valid data ends it.\<close>

fun gpu_collector_start :: "go_error option list \<Rightarrow> loop_end" where
  "gpu_collector_start [] = KeepsRunning"
| "gpu_collector_start (outcome # outcomes) =
     (if outcome = Some err_no_valid_data then GivesUp else gpu_collector_start outcomes)"

text \<open>\<open>gpuCollector.collect\<close> once the command runs: its lines until one without valid data.\<close>

fun collect_lines :: "(string \<Rightarrow> gpu_manager \<Rightarrow> bool \<times> gpu_manager) \<Rightarrow> go_error option \<Rightarrow> string list \<Rightarrow> gpu_manager
    \<Rightarrow> go_error option \<times> gpu_manager" where
  "collect_lines parse scan_err [] m = (map_option (ErrWrap ''scanner error'') scan_err, m)"
| "collect_lines parse scan_err (line # lines) m = (case parse line m of
     (False, m') \<Rightarrow> (Some err_no_valid_data, m')
   | (True, m') \<Rightarrow> collect_lines parse scan_err lines m')"

text \<open>\<open>collectNvtopStats\<close> on the batches that are decoded until the output ends or does not decode.\<close>

fun collect_nvtop_stats :: "nvtop_snapshot list list \<Rightarrow> go_error option \<Rightarrow> bool \<Rightarrow> gpu_manager \<Rightarrow> go_error option \<times> gpu_manager" where
  "collect_nvtop_stats [] decode_err found m =
     (case decode_err of Some e \<Rightarrow> Some e | None \<Rightarrow> if found then None else Some err_no_valid_data, m)"
| "collect_nvtop_stats (batch # batches) decode_err found m = (case update_nvtop_snapshots batch m of
     (valid, m') \<Rightarrow> collect_nvtop_stats batches decode_err (found \<or> valid) m')"

end
