(* ===== verification/Gpu_Amd.thy ===== *)
theory Gpu_Amd
  imports Gpu
begin

text \<open>
  \<open>internal/app/gpu_amd.go\<close>: the readings of AMD cards from sysfs and the names of the cards.  The
  contents of the files and the directories that a pattern finds are arguments.
\<close>

type_synonym sysfs = "string \<Rightarrow> string option"

definition read_string_file_limited :: "nat \<Rightarrow> string option \<Rightarrow> string option" where
  "read_string_file_limited n file = map_option (\<lambda>s. trim_space (take n s)) file"

definition is_amd_gpu :: "sysfs \<Rightarrow> string \<Rightarrow> bool" where
  "is_amd_gpu read card_path = (read_string_file_limited 64 (read (path_join card_path ''device/vendor'')) = Some ''0x1002'')"

definition has_amd_sysfs_vendor :: "sysfs \<Rightarrow> string list \<Rightarrow> bool" where
  "has_amd_sysfs_vendor read vendor_paths =
     list_ex (\<lambda>p. read_string_file_limited 64 (read p) = Some ''0x1002'') vendor_paths"

definition discover_amd_gpu_paths :: "sysfs \<Rightarrow> string list \<Rightarrow> string list" where
  "discover_amd_gpu_paths read cards =
     filter (\<lambda>card_path. \<not> contains_str ''-'' (path_base card_path) \<and> is_amd_gpu read card_path) cards"

text \<open>The number in a file: the value that is left, and whether it was read without error.\<close>

definition read_sysfs_float :: "sysfs \<Rightarrow> string \<Rightarrow> f64 \<times> bool" where
  "read_sysfs_float read path = (case read_string_file_limited 64 (read path) of
     None \<Rightarrow> (Num 0, False)
   | Some raw \<Rightarrow> (float_or_zero raw, parse_float raw \<noteq> None))"

section \<open>Names\<close>

record amdgpu_name_cache =
  an_hits :: "string \<rightharpoonup> string"
  an_misses :: "string set"

definition empty_name_cache :: amdgpu_name_cache where
  "empty_name_cache = \<lparr>an_hits = (\<lambda>_. None), an_misses = {}\<rparr>"

definition normalize_hex_id :: "string \<Rightarrow> string" where
  "normalize_hex_id raw = trim_prefix ''0x'' (to_lower (trim_space raw))"

definition cache_key_for_amdgpu :: "string \<Rightarrow> string \<Rightarrow> string" where
  "cache_key_for_amdgpu device revision = (if revision \<noteq> [] then device @ '':'' @ revision else device)"

text \<open>A line of the names file: device, revision and product, split at the first two commas.\<close>

definition amdgpu_line :: "string \<Rightarrow> (string \<times> string \<times> string) option" where
  "amdgpu_line raw = (let line = trim_space raw in
     if line = [] \<or> has_prefix ''#'' line then None
     else case cut_at (CHR '','') line of
       None \<Rightarrow> None
     | Some (device, rest) \<Rightarrow> (case cut_at (CHR '','') rest of
         None \<Rightarrow> None
       | Some (revision, product) \<Rightarrow> Some (normalize_hex_id device, normalize_hex_id revision, trim_space product)))"

text \<open>The search from a line on, with the first product of the device so far.\<close>

fun lookup_lines :: "string \<Rightarrow> string \<Rightarrow> string \<Rightarrow> string list \<Rightarrow> (string \<times> bool) option" where
  "lookup_lines device revision by_device [] = (if by_device \<noteq> [] then Some (by_device, False) else None)"
| "lookup_lines device revision by_device (raw # lines) = (case amdgpu_line raw of
     None \<Rightarrow> lookup_lines device revision by_device lines
   | Some (dev, rv, product) \<Rightarrow>
       if dev = [] \<or> product = [] \<or> dev \<noteq> device then lookup_lines device revision by_device lines
       else if revision \<noteq> [] \<and> rv = revision then Some (product, True)
       else lookup_lines device revision (if by_device = [] then product else by_device) lines)"

definition lookup_amdgpu_name_in_file :: "string \<Rightarrow> string \<Rightarrow> string option \<Rightarrow> (string \<times> bool) option" where
  "lookup_amdgpu_name_in_file device revision file = (case file of
     None \<Rightarrow> None | Some text \<Rightarrow> lookup_lines device revision [] (scan_lines text))"

text \<open>The name in the cache, if there is one, and whether the search can be spared.\<close>

definition get_cached_amdgpu_name :: "string \<Rightarrow> string \<Rightarrow> amdgpu_name_cache \<Rightarrow> string option \<times> bool" where
  "get_cached_amdgpu_name device revision c =
     (let keys = cache_key_for_amdgpu device revision # (if revision \<noteq> [] then [device] else [])
      in case find (\<lambda>k. an_hits c k \<noteq> None) keys of
           Some k \<Rightarrow> (an_hits c k, True)
         | None \<Rightarrow> (None, list_all (\<lambda>k. k \<in> an_misses c) keys))"

definition normalize_amdgpu_name :: "string \<Rightarrow> string" where
  "normalize_amdgpu_name name = trim_suffix '' Series'' (trim_suffix '' Graphics'' name)"

definition cache_amdgpu_name :: "string \<Rightarrow> string \<Rightarrow> string \<Rightarrow> bool \<Rightarrow> amdgpu_name_cache \<Rightarrow> amdgpu_name_cache" where
  "cache_amdgpu_name device revision name exact c =
     (let n = normalize_amdgpu_name name;
          hits = (if exact \<and> revision \<noteq> [] then (an_hits c)(cache_key_for_amdgpu device revision \<mapsto> n) else an_hits c)
      in c\<lparr>an_hits := hits(device \<mapsto> n)\<rparr>)"

definition cache_missing_amdgpu_name :: "string \<Rightarrow> string \<Rightarrow> amdgpu_name_cache \<Rightarrow> amdgpu_name_cache" where
  "cache_missing_amdgpu_name device revision c =
     c\<lparr>an_misses := an_misses c \<union> {device} \<union> (if revision \<noteq> [] then {cache_key_for_amdgpu device revision} else {})\<rparr>"

definition amd_name_of :: "string option \<Rightarrow> string \<Rightarrow> string \<Rightarrow> amdgpu_name_cache \<Rightarrow> string \<times> amdgpu_name_cache" where
  "amd_name_of ids_file device revision c =
     (let unknown = ''AMD GPU ('' @ device @ '')'' in
      case get_cached_amdgpu_name device revision c of
        (Some name, _) \<Rightarrow> (name, c)
      | (None, True) \<Rightarrow> (unknown, c)
      | (None, False) \<Rightarrow> (case lookup_amdgpu_name_in_file device revision ids_file of
          Some (name, exact) \<Rightarrow> (normalize_amdgpu_name name, cache_amdgpu_name device revision name exact c)
        | None \<Rightarrow> (unknown, cache_missing_amdgpu_name device revision c)))"

definition get_amd_gpu_name :: "sysfs \<Rightarrow> string option \<Rightarrow> string \<Rightarrow> amdgpu_name_cache \<Rightarrow> string \<times> amdgpu_name_cache" where
  "get_amd_gpu_name read ids_file device_path c =
     (case read_string_file_limited 128 (read (path_join device_path ''product_name'')) of
        Some product \<Rightarrow> (product, c)
      | None \<Rightarrow> (case read_string_file_limited 64 (read (path_join device_path ''device'')) of
          None \<Rightarrow> (''AMD GPU'', c)
        | Some device \<Rightarrow> amd_name_of ids_file (normalize_hex_id device)
            (case read_string_file_limited 64 (read (path_join device_path ''revision'')) of
               None \<Rightarrow> [] | Some rv \<Rightarrow> normalize_hex_id rv) c))"

section \<open>Readings\<close>

definition hwmon_step :: "sysfs \<Rightarrow> f64 \<times> f64 \<Rightarrow> string \<Rightarrow> f64 \<times> f64" where
  "hwmon_step read state dir = (case state of (temp, watts) \<Rightarrow>
     let temp1 = (case read_sysfs_float read (path_join dir ''temp1_input'') of
            (t, True) \<Rightarrow> fdiv t (Num 1000) | _ \<Rightarrow> temp);
         watts1 = (case read_sysfs_float read (path_join dir ''power1_average'') of
            (p, True) \<Rightarrow> fadd watts (fdiv p (Num 1000000))
          | _ \<Rightarrow> (case read_sysfs_float read (path_join dir ''power1_input'') of
              (p, True) \<Rightarrow> fadd watts (fdiv p (Num 1000000)) | _ \<Rightarrow> watts))
     in (temp1, watts1))"

definition amd_memory :: "sysfs \<Rightarrow> string \<Rightarrow> (f64 \<times> bool) \<times> f64" where
  "amd_memory read device_path =
     (let (mem_used, used_ok) = read_sysfs_float read (path_join device_path ''mem_info_vram_used'');
          mem_total = fst (read_sysfs_float read (path_join device_path ''mem_info_vram_total''));
          (gtt_used, gtt_ok) = read_sysfs_float read (path_join device_path ''mem_info_gtt_used'');
          (gtt_total, gtt_total_ok) = read_sysfs_float read (path_join device_path ''mem_info_gtt_total'')
      in if gtt_ok \<and> flt (Num 0) gtt_used \<and> gtt_total_ok
         then ((fadd mem_used gtt_used, used_ok), fadd mem_total gtt_total)
         else ((mem_used, used_ok), mem_total))"

definition update_amd_gpu_data :: "sysfs \<Rightarrow> (string \<Rightarrow> string list) \<Rightarrow> string option \<Rightarrow> string
    \<Rightarrow> gpu_manager \<times> amdgpu_name_cache \<Rightarrow> bool \<times> gpu_manager \<times> amdgpu_name_cache" where
  "update_amd_gpu_data read hwmons ids_file card_path state = (case state of (m, c) \<Rightarrow>
     let device_path = path_join card_path ''device''; gid = path_base card_path;
         (usage, usage_ok) = read_sysfs_float read (path_join device_path ''gpu_busy_percent'');
         ((mem_used, mem_ok), mem_total) = amd_memory read device_path;
         (temp, watts) = foldl (hwmon_step read) (Num 0, Num 0) (hwmons device_path)
     in if \<not> usage_ok \<and> \<not> mem_ok \<and> feq temp (Num 0) then (False, m, c)
        else let (name, c1) = (if mget (gm_data m) gid = None then get_amd_gpu_name read ids_file device_path c else ([], c))
          in (True, with_gpu gid (named_gpu name) (\<lambda>g. g\<lparr>
                gpu_usage := (if usage_ok then fadd (gpu_usage g) usage else gpu_usage g),
                gpu_memory_used := bytes_to_megabytes mem_used,
                gpu_memory_total := bytes_to_megabytes mem_total,
                gpu_temperature := temp,
                gpu_power := fadd (gpu_power g) watts,
                gpu_count := fadd (gpu_count g) (Num 1)\<rparr>) m, c1))"

definition update_amd_gpu_paths :: "sysfs \<Rightarrow> (string \<Rightarrow> string list) \<Rightarrow> string option \<Rightarrow> string list
    \<Rightarrow> gpu_manager \<times> amdgpu_name_cache \<Rightarrow> bool \<times> gpu_manager \<times> amdgpu_name_cache" where
  "update_amd_gpu_paths read hwmons ids_file cards state =
     foldl (\<lambda>(has_data, st) card_path. case update_amd_gpu_data read hwmons ids_file card_path st of
        (ok, st') \<Rightarrow> (has_data \<or> ok, st')) (False, state) cards"

end
