(* ===== verification/Gpu_Properties.thy ===== *)
theory Gpu_Properties
  imports Gpu_Collect Gpu_Amd Smart_Data Float_Facts
begin

text \<open>
  The parsers are safe, one collector per vendor is chosen, the loops end when they should, the usage
  is averaged over the interval of the caller, and how the names of AMD cards are found.
\<close>

section \<open>Rows of intel_gpu_top\<close>

lemma gpu_column_bound: "gpu_column i cols = Some k \<Longrightarrow> k < i + length cols"
  by (induction i cols rule: gpu_column.induct) (auto split: if_splits)

definition header_ok :: "intel_header \<Rightarrow> bool" where
  "header_ok h = (case ih_power_index h of None \<Rightarrow> True | Some i \<Rightarrow> i + 1 < ih_pre_engine_cols h + 3 * length (ih_friendly h))"

lemma parse_intel_headers_ok: "header_ok (parse_intel_headers h1 h2)"
proof -
  define friendly where "friendly = concat (map (\<lambda>col. case map_of friendly_names (engine_key col) of None \<Rightarrow> [] | Some f \<Rightarrow> [f]) (Prelude.fields h1))"
  define pre where "pre = length (Prelude.fields h2) - 3 * length friendly"
  have h: "parse_intel_headers h1 h2 = (if length friendly = 0 then \<lparr>ih_friendly = [], ih_power_index = None, ih_pre_engine_cols = 0\<rparr>
      else \<lparr>ih_friendly = friendly, ih_power_index = gpu_column 0 (take pre (Prelude.fields h2)), ih_pre_engine_cols = pre\<rparr>)"
    by (simp only: parse_intel_headers_def Let_def friendly_def pre_def)
  have "i < pre" if "gpu_column 0 (take pre (Prelude.fields h2)) = Some i" for i
    using gpu_column_bound [OF that] by simp
  then show ?thesis
    unfolding h header_ok_def by (cases friendly) (fastforce split: option.splits)+
qed

lemma parse_intel_data_ok: "header_ok h \<Longrightarrow> parse_intel_data line h \<noteq> None"
  by (auto simp: header_ok_def parse_intel_data_def field_number_def Let_def split: option.splits)

lemma intel_lines_ok: "header_ok (il_header s) \<Longrightarrow> intel_lines lines s m \<noteq> None"
proof (induction lines arbitrary: s m)
  case (Cons raw lines)
  obtain r where r: "parse_intel_data (trim_space raw) (il_header s) = Some r"
    using parse_intel_data_ok [OF Cons.prems] by blast
  show ?case
    using Cons r parse_intel_headers_ok by (cases r) (simp_all add: Let_def)
qed simp

text \<open>
  Once a header is read no row of \<open>intel_gpu_top\<close> makes the agent index past the end of a row, whatever
  headers and rows follow.  Before the header the power column is column 0, the zero of its type: when the second
  row comes without one and is a single word, the column after it is read and the agent panics.
\<close>

theorem intel_rows_safe:
  "intel_lines lines (s\<lparr>il_header := parse_intel_headers h1 h2\<rparr>) m \<noteq> None
   \<and> collect_intel_stats (''a'' @ [CHR 0x0A] @ ''b'') scan_err m = None"
proof
  show "intel_lines lines (s\<lparr>il_header := parse_intel_headers h1 h2\<rparr>) m \<noteq> None"
    by (rule intel_lines_ok) (simp add: parse_intel_headers_ok)
  have l: "scan_lines (''a'' @ [CHR 0x0A] @ ''b'') = [''a'', ''b'']" by code_simp
  have t: "trim_space ''a'' = ''a''" "trim_space ''b'' = ''b''" by code_simp+
  have d: "parse_intel_data ''b'' (il_header intel_start) = None" by code_simp
  show "collect_intel_stats (''a'' @ [CHR 0x0A] @ ''b'') scan_err m = None"
    unfolding collect_intel_stats_def l using d by (simp add: t intel_start_def has_prefix_def)
qed

section \<open>Choosing collectors\<close>

lemma start_by_priority_shape:
  assumes "start_by_priority caps nvml groups ps = (started, fallback)"
  shows "if fallback = None then NVTop \<notin> set started \<and> distinct (map collector_group_of started)
        \<and> collector_group_of ` set started \<inter> Some ` groups = {} \<and> list_all (collector_available caps) started
      else groups = {} \<and> started = [NVTop] \<and> has_nvtop caps"
  using assms
proof (induction ps arbitrary: groups started fallback)
  case (Cons s ps)
  show ?case
  proof (cases "collector_available caps s")
    case False
    then have "start_by_priority caps nvml groups ps = (started, fallback)" using Cons.prems by simp
    then show ?thesis by (rule Cons.IH)
  next
    case av: True
    show ?thesis
    proof (cases "collector_group_of s")
      case None
      then have "s = NVTop" by (cases s) (simp_all add: collector_group_of_def)
      moreover have "collector_available caps NVTop = has_nvtop caps" by (simp add: collector_available_def)
      ultimately show ?thesis
        using Cons.IH [of groups started fallback] Cons.prems None av by (cases "groups = {}") auto
    next
      case (Some g)
      show ?thesis
      proof (cases "g \<notin> groups \<and> collector_starts nvml s")
        case False
        then have "start_by_priority caps nvml groups ps = (started, fallback)" using Cons.prems Some av by (auto split: if_splits)
        then show ?thesis by (rule Cons.IH)
      next
        case True
        obtain st fb where r: "start_by_priority caps nvml (insert g groups) ps = (st, fb)" by fastforce
        have n: "s \<noteq> NVTop" using Some by (auto simp: collector_group_of_def)
        have e: "started = s # st" "fallback = fb" using Cons.prems Some True av r by auto
        show ?thesis
        proof (cases fb)
          case None
          then show ?thesis using Cons.IH [OF r] Some True av n e by auto
        next
          case (Some x)
          then show ?thesis using Cons.IH [OF r] by simp
        qed
      qed
    qed
  qed
qed simp

lemma fallback_suffix:
  "start_by_priority caps nvml groups ps = (started, Some rest) \<Longrightarrow> \<exists>before. ps = before @ NVTop # rest"
proof (induction ps arbitrary: groups started)
  case (Cons s ps)
  show ?case
  proof (cases "collector_available caps s \<and> collector_group_of s = None \<and> groups = {}")
    case True
    then have "s = NVTop" by (cases s) (simp_all add: collector_group_of_def)
    then show ?thesis using Cons.prems True by (intro exI [of _ "[]"]) simp
  next
    case False
    then obtain groups' started' where "start_by_priority caps nvml groups' ps = (started', Some rest)"
      using Cons.prems by (auto split: if_splits option.splits prod.splits)
    from Cons.IH [OF this] show ?thesis by (metis append_Cons)
  qed
qed simp

definition good_generation :: "gpu_capabilities \<Rightarrow> collector_source list \<Rightarrow> bool" where
  "good_generation caps started = (started = [NVTop] \<and> has_nvtop caps
     \<or> (NVTop \<notin> set started \<and> distinct (map collector_group_of started) \<and> list_all (collector_available caps) started))"

text \<open>
  C29: Whatever list of collectors is configured, at any time either nvtop runs alone or at most one
  available collector of each vendor; and if nvtop fails every time it is started, the fallbacks end
  after at most as many failures as the list names nvtop.
\<close>

theorem collectors_per_vendor:
  "list_all (good_generation caps) (generations caps nvml ps)
    \<and> length (generations caps nvml ps) \<le> 1 + length (filter (\<lambda>s. s = NVTop) ps)"
proof (induction caps nvml ps rule: generations.induct)
  case (1 caps nvml ps)
  obtain started fallback where s: "start_collectors_by_priority caps nvml ps = (started, fallback)" by fastforce
  have g: "good_generation caps started"
    using start_by_priority_shape [of caps nvml "{}" ps started fallback] s
    by (auto simp: start_collectors_by_priority_def good_generation_def split: if_splits)
  show ?case
  proof (cases fallback)
    case None
    then show ?thesis using g s by (simp add: generations.simps [of caps nvml ps])
  next
    case (Some rest)
    obtain before where "ps = before @ NVTop # rest"
      using fallback_suffix s Some by (metis start_collectors_by_priority_def)
    then show ?thesis using g s Some 1 [OF s [symmetric] Some]
      by (simp add: generations.simps [of caps nvml "before @ NVTop # rest"])
  qed
qed

section \<open>Giving up\<close>

definition fails_at :: "nat \<Rightarrow> nat \<Rightarrow> go_error option list \<Rightarrow> bool" where
  "fails_at i k outcomes = (i + k \<le> length outcomes \<and> list_all (\<lambda>r. r \<noteq> None) (take k (drop i outcomes)))"

lemma fails_at_Cons_0: "0 < k \<Longrightarrow> fails_at 0 k (r # rs) \<longleftrightarrow> r \<noteq> None \<and> fails_at 0 (k - 1) rs"
  by (cases k) (auto simp: fails_at_def)

lemma fails_at_Cons_Suc: "fails_at (Suc i) k (r # rs) = fails_at i k rs"
  by (simp add: fails_at_def)

lemma ex_fails_Cons: "(\<exists>i. fails_at i 6 (r # rs)) \<longleftrightarrow> r \<noteq> None \<and> fails_at 0 5 rs \<or> (\<exists>i. fails_at i 6 rs)"
proof
  assume "\<exists>i. fails_at i 6 (r # rs)"
  then obtain i where "fails_at i 6 (r # rs)" by blast
  then show "r \<noteq> None \<and> fails_at 0 5 rs \<or> (\<exists>i. fails_at i 6 rs)"
    using fails_at_Cons_0 [of 6 r rs] fails_at_Cons_Suc by (cases i) auto
next
  assume "r \<noteq> None \<and> fails_at 0 5 rs \<or> (\<exists>i. fails_at i 6 rs)"
  then show "\<exists>i. fails_at i 6 (r # rs)"
  proof (elim disjE exE conjE)
    assume "r \<noteq> None" "fails_at 0 5 rs"
    then have "fails_at 0 6 (r # rs)" using fails_at_Cons_0 [of 6 r rs] by simp
    then show ?thesis by blast
  next
    fix i assume "fails_at i 6 rs"
    then have "fails_at (Suc i) 6 (r # rs)" by (simp add: fails_at_Cons_Suc)
    then show ?thesis by blast
  qed
qed

lemma fails_at_less: "fails_at 0 k rs \<Longrightarrow> j \<le> k \<Longrightarrow> fails_at 0 j rs"
  by (auto simp: fails_at_def list_all_length)

lemma run_retrying_iff:
  "f \<le> 5 \<Longrightarrow> run_retrying_collector (\<lambda>_. True) f rs = GivesUp \<longleftrightarrow> fails_at 0 (6 - f) rs \<or> (\<exists>i. fails_at i 6 rs)"
proof (induction rs arbitrary: f)
  case Nil
  then show ?case by (simp add: fails_at_def)
next
  case (Cons r rs)
  show ?case
  proof (cases r)
    case None
    then show ?thesis
      using Cons.IH [of 0] Cons.prems fails_at_Cons_0 [of "6 - f" r rs] ex_fails_Cons [of r rs] by auto
  next
    case (Some e)
    show ?thesis
    proof (cases "f = 5")
      case True
      then show ?thesis
        using Some fails_at_Cons_0 [of 1 r rs] by (simp add: max_failure_retries_def fails_at_def)
    next
      case False
      have "fails_at 0 5 rs \<Longrightarrow> fails_at 0 (5 - f) rs" by (erule fails_at_less) simp
      then show ?thesis
        using Cons.IH [of "f + 1"] Cons.prems False Some fails_at_Cons_0 [of "6 - f" r rs] ex_fails_Cons [of r rs]
        by (auto simp: max_failure_retries_def)
    qed
  qed
qed

lemma rocm_iff: "f \<le> 5 \<Longrightarrow> rocm_smi_loop f rs = GivesUp \<longleftrightarrow> 6 \<le> f + length (filter (\<lambda>r. r \<noteq> None) rs)"
  by (induction rs arbitrary: f) (auto simp: max_failure_retries_def split: option.splits)

text \<open>
  C40: A retrying collector gives up exactly after six failures in a row.  The collector of rocm-smi
  does not: it gives up at its sixth failure, however many successes there were in between.
\<close>

theorem collectors_give_up:
  "(run_retrying_collector (\<lambda>_. True) 0 outcomes = GivesUp \<longleftrightarrow>
      (\<exists>i. i + 6 \<le> length outcomes \<and> list_all (\<lambda>r. r \<noteq> None) (take 6 (drop i outcomes))))
    \<and> (rocm_smi_loop 0 outcomes = GivesUp \<longleftrightarrow> 6 \<le> length (filter (\<lambda>r. r \<noteq> None) outcomes))"
proof -
  have "run_retrying_collector (\<lambda>_. True) 0 outcomes = GivesUp \<longleftrightarrow> (\<exists>i. fails_at i 6 outcomes)"
    using run_retrying_iff [of 0 outcomes] by auto
  then show ?thesis using rocm_iff [of 0 outcomes] unfolding fails_at_def by simp
qed

section \<open>Averages\<close>

lemma rnd_of_nat_sign: "n \<le> 2 ^ 53 \<Longrightarrow> n \<noteq> 0 \<or> \<not> s \<Longrightarrow> rnd s (of_nat n) = Num (of_nat n)"
  using rnd_of_nat [of n] by (auto simp: rnd_def Let_def split: if_splits)

lemma fadd_nat: "a + b \<le> 2 ^ 53 \<Longrightarrow> fadd (Num (of_nat a)) (Num (of_nat b)) = Num (of_nat (a + b))"
  using rnd_of_nat_sign [of "a + b" False] by simp

lemma fsub_nat:
  assumes "b \<le> a" "a \<le> 2 ^ 53"
  shows "fsub (Num (of_nat a)) (Num (of_nat b)) = Num (of_nat (a - b))"
proof (cases "b = 0")
  case True
  have "rnd False (of_nat a) = Num (of_nat a)" using assms(2) by (intro rnd_of_nat_sign) simp_all
  then show ?thesis using True by (simp add: fsub_def)
next
  case False
  have d: "(of_nat a :: rat) + - of_nat b = of_nat (a - b)" using assms(1) by (simp only: of_nat_diff diff_conv_add_uminus)
  have "fsub (Num (of_nat a)) (Num (of_nat b)) = rnd ((of_nat a :: rat) + - of_nat b < 0) (of_nat a + - of_nat b)"
    using False by (simp add: fsub_def)
  also have "\<dots> = rnd False (of_nat (a - b))" unfolding d by simp
  also have "\<dots> = Num (of_nat (a - b))" using assms by (intro rnd_of_nat_sign) simp_all
  finally show ?thesis .
qed

lemma to_uint32_nat: "n < 2 ^ 32 \<Longrightarrow> to_uint32 (Num (of_nat n)) = word_of_nat n"
proof -
  assume "n < 2 ^ 32"
  then have n: "n < 2 ^ 64" by simp
  have "take_bit 64 n = n" by (rule take_bit_nat_eq_self [OF n])
  then show ?thesis using to_uint64_of_nat [OF n] by (simp add: to_uint32_def unsigned_of_nat)
qed

lemma of_uint32_nat: "n < 2 ^ 32 \<Longrightarrow> of_uint32 (word_of_nat n) = Num (of_nat n)"
proof -
  assume n: "n < 2 ^ 32"
  have "uint (ucast (word_of_nat n :: 32 word) :: 64 word) = int n"
  proof -
    have "n < 2 ^ 64" using n by simp
    then have "take_bit 32 n = n" "take_bit 64 n = n" using n by (simp_all only: take_bit_nat_eq_self)
    then show ?thesis by (simp add: unsigned_ucast_eq unsigned_of_nat take_bit_of_nat)
  qed
  moreover have "rnd False (of_nat n) = Num (of_nat n)" using n by (intro rnd_of_nat_sign) simp_all
  ultimately show ?thesis by (simp add: of_uint32_def of_uint64_def)
qed

lemma float_or_zero_digits: "u \<le> 2 ^ 53 \<Longrightarrow> float_or_zero (nat_digits u) = Num (of_nat u)"
  using parse_float_digits [of u] by (auto simp: parse_float_def float_or_zero_def split: option.splits bool.splits prod.splits)

text \<open>Readings of one card by rocm-smi, and calls with some cache key.\<close>

datatype gpu_event = CardRead nat | Asked "16 word"

fun gpu_event_step :: "rocm_smi \<Rightarrow> gpu_manager \<Rightarrow> gpu_event \<Rightarrow> gpu_manager" where
  "gpu_event_step c m (CardRead u) = update_rocm_card m (c\<lparr>rs_usage := nat_digits u\<rparr>)"
| "gpu_event_step c m (Asked k) = snd (get_current_data k m)"

fun read_total :: "gpu_event list \<Rightarrow> nat" where
  "read_total [] = 0"
| "read_total (CardRead u # es) = u + read_total es"
| "read_total (Asked k # es) = read_total es"

fun reads :: "gpu_event list \<Rightarrow> nat" where
  "reads [] = 0"
| "reads (CardRead u # es) = Suc (reads es)"
| "reads (Asked k # es) = reads es"

lemma read_total_append [simp]: "read_total (a @ b) = read_total a + read_total b"
  by (induction a rule: read_total.induct) auto

lemma reads_append [simp]: "reads (a @ b) = reads a + reads b"
  by (induction a rule: reads.induct) auto

text \<open>The state after some readings of the card: the accumulated usage and count, nothing else in the map.\<close>

definition card_state :: "rocm_smi \<Rightarrow> nat \<Rightarrow> nat \<Rightarrow> gpu_manager \<Rightarrow> bool" where
  "card_state c used n m = (if n = 0 then used = 0 \<and> gm_data m = []
     else \<exists>g. gm_data m = [(rs_id c, g)] \<and> gpu_usage g = Num (of_nat used) \<and> gpu_count g = Num (of_nat n) \<and> gpu_engines g = None)"

definition snapshot_at :: "rocm_smi \<Rightarrow> 16 word \<Rightarrow> nat \<Rightarrow> nat \<Rightarrow> gpu_manager \<Rightarrow> bool" where
  "snapshot_at c key used n m = (if n = 0 then used = 0 \<and> gm_snapshots m key (rs_id c) = None
     else \<exists>s. gm_snapshots m key (rs_id c) = Some s \<and> gs_count s = word_of_nat n \<and> gs_usage s = Num (of_nat used))"

lemma read_step:
  assumes "card_state c used n m" "used + u \<le> 2 ^ 53" "n < 2 ^ 32" "u \<le> 100"
  shows "card_state c (used + u) (Suc n) (gpu_event_step c m (CardRead u))"
    and "gm_snapshots (gpu_event_step c m (CardRead u)) = gm_snapshots m"
proof -
  have z: "fadd (Num 0) (Num (of_nat u)) = Num (of_nat u)" using fadd_nat [of 0 u] assms(4) by simp
  have i: "fadd (Num (of_nat used)) (Num (of_nat u)) = Num (of_nat (used + u))" by (rule fadd_nat [OF assms(2)])
  have one: "fadd (Num (of_nat n)) (Num 1) = Num (of_nat (Suc n))" using fadd_nat [of n 1] assms(3) by simp
  have f: "float_or_zero (nat_digits u) = Num (of_nat u)" using assms(4) by (intro float_or_zero_digits) simp
  have z1: "fadd (Num 0) (Num 1) = Num 1" using fadd_nat [of 0 1] by simp
  show "card_state c (used + u) (Suc n) (gpu_event_step c m (CardRead u))"
  proof (cases "n = 0")
    case True
    then show ?thesis using assms(1) z z1 f
      by (simp add: card_state_def update_rocm_card_def with_gpu_def named_gpu_def zero_gpu_data_def Let_def)
  next
    case False
    then obtain g where g: "gm_data m = [(rs_id c, g)]" "gpu_usage g = Num (of_nat used)" "gpu_count g = Num (of_nat n)" "gpu_engines g = None"
      using assms(1) by (auto simp: card_state_def)
    then show ?thesis using i one f
      by (simp add: card_state_def update_rocm_card_def with_gpu_def Let_def del: of_nat_Suc of_nat_add)
  qed
  show "gm_snapshots (gpu_event_step c m (CardRead u)) = gm_snapshots m"
    by (simp add: update_rocm_card_def with_gpu_def Let_def)
qed

lemma calculate_keeps:
  "gm_data (snd (calculate_gpu_average gid g key m)) = gm_data m \<and> gm_snapshots (snd (calculate_gpu_average gid g key m)) = gm_snapshots m"
  by (simp add: calculate_gpu_average_def Let_def case_prod_unfold)

lemma ask_step:
  assumes "card_state c used n m" "n < 2 ^ 32"
  shows "card_state c used n (gpu_event_step c m (Asked k))"
    and "snapshot_at c k used n (gpu_event_step c m (Asked k)) \<or> n = 0"
    and "n = 0 \<Longrightarrow> gpu_event_step c m (Asked k) = m"
    and "key \<noteq> k \<Longrightarrow> gm_snapshots (gpu_event_step c m (Asked k)) key = gm_snapshots m key"
proof -
  have e: "gpu_event_step c m (Asked k) = (if n = 0 then m
    else store_snapshot (rs_id c) (snd (hd (gm_data m))) k (snd (calculate_gpu_average (rs_id c) (snd (hd (gm_data m))) k m)))"
    using assms(1) by (auto simp: card_state_def get_current_data_def current_data_step_def case_prod_unfold Let_def)
  show "card_state c used n (gpu_event_step c m (Asked k))"
    unfolding e using assms(1) calculate_keeps [of "rs_id c" "snd (hd (gm_data m))" k m]
    by (auto simp: card_state_def store_snapshot_def)
  show "snapshot_at c k used n (gpu_event_step c m (Asked k)) \<or> n = 0"
    unfolding e using assms to_uint32_nat [OF assms(2)] by (auto simp: card_state_def snapshot_at_def store_snapshot_def)
  show "n = 0 \<Longrightarrow> gpu_event_step c m (Asked k) = m" unfolding e by simp
  show "key \<noteq> k \<Longrightarrow> gm_snapshots (gpu_event_step c m (Asked k)) key = gm_snapshots m key"
    unfolding e using calculate_keeps [of "rs_id c" "snd (hd (gm_data m))" k m] by (simp add: store_snapshot_def)
qed

definition percents :: "gpu_event list \<Rightarrow> bool" where
  "percents es = list_all (\<lambda>e. case e of CardRead u \<Rightarrow> u \<le> 100 | Asked _ \<Rightarrow> True) es"

lemma read_total_le: "percents es \<Longrightarrow> read_total es \<le> 100 * reads es"
  by (induction es rule: reads.induct) (auto simp: percents_def)

lemma reads_le: "reads es \<le> length es"
  by (induction es rule: reads.induct) auto

lemma run_card_state:
  assumes "card_state c used n m" "percents es" "n + length es < 2 ^ 32" "used \<le> 100 * n"
  shows "card_state c (used + read_total es) (n + reads es) (foldl (gpu_event_step c) m es)
    \<and> (Asked key \<notin> set es \<longrightarrow> gm_snapshots (foldl (gpu_event_step c) m es) key = gm_snapshots m key)"
  using assms
proof (induction es arbitrary: used n m)
  case (Cons e es)
  show ?case
  proof (cases e)
    case (CardRead u)
    have u: "u \<le> 100" "used + u \<le> 2 ^ 53" using Cons.prems CardRead by (simp_all add: percents_def)
    note r = read_step [OF Cons.prems(1) u(2) _ u(1)]
    have "card_state c ((used + u) + read_total es) (Suc n + reads es) (foldl (gpu_event_step c) (gpu_event_step c m (CardRead u)) es)
      \<and> (Asked key \<notin> set es \<longrightarrow> gm_snapshots (foldl (gpu_event_step c) (gpu_event_step c m (CardRead u)) es) key
          = gm_snapshots (gpu_event_step c m (CardRead u)) key)"
      using Cons.prems CardRead u by (intro Cons.IH r) (simp_all add: percents_def)
    then show ?thesis using CardRead r(2) Cons.prems(3) by (simp add: add.assoc)
  next
    case (Asked k)
    have n: "n < 2 ^ 32" using Cons.prems(3) by simp
    note a = ask_step [OF Cons.prems(1) n]
    have "card_state c (used + read_total es) (n + reads es) (foldl (gpu_event_step c) (gpu_event_step c m (Asked k)) es)
      \<and> (Asked key \<notin> set es \<longrightarrow> gm_snapshots (foldl (gpu_event_step c) (gpu_event_step c m (Asked k)) es) key
          = gm_snapshots (gpu_event_step c m (Asked k)) key)"
      using Cons.prems Asked by (intro Cons.IH a(1)) (simp_all add: percents_def)
    then show ?thesis using Asked a(4) [of key k] by auto
  qed
qed simp

lemma start_card_state: "card_state c 0 0 new_gpu_manager"
  by (simp add: card_state_def new_gpu_manager_def)

lemma run_from_start:
  assumes "percents es" "length es < 2 ^ 32"
  shows "card_state c (read_total es) (reads es) (foldl (gpu_event_step c) new_gpu_manager es)"
  using run_card_state [OF start_card_state assms(1)] assms(2) by simp

lemma no_reads_no_snapshot:
  assumes "reads es = 0" "percents es" "length es < 2 ^ 32"
  shows "gm_snapshots (foldl (gpu_event_step c) new_gpu_manager es) k (rs_id c) = None"
  using assms
proof (induction es rule: rev_induct)
  case (snoc e es)
  then obtain k' where e: "e = Asked k'" by (cases e) auto
  have "card_state c (read_total es) (reads es) (foldl (gpu_event_step c) new_gpu_manager es)"
    using snoc.prems by (intro run_from_start) (simp_all add: percents_def)
  from ask_step(3) [OF this] show ?case using snoc e by (simp add: percents_def)
qed (simp add: new_gpu_manager_def)

text \<open>After a call with a key, the snapshot for the key is what had been accumulated.\<close>

lemma snapshot_after_call:
  assumes "before = [] \<or> last before = Asked key" "percents before" "length before < 2 ^ 32"
  shows "snapshot_at c key (read_total before) (reads before) (foldl (gpu_event_step c) new_gpu_manager before)"
proof (cases "before = []")
  case True
  then show ?thesis by (simp add: snapshot_at_def new_gpu_manager_def)
next
  case False
  then obtain es where b: "before = es @ [Asked key]" using assms(1) by (metis append_butlast_last_id)
  have p: "percents es" "length es < 2 ^ 32" using assms(2,3) b by (simp_all add: percents_def)
  have n: "reads before < 2 ^ 32" using reads_le [of before] assms(3) by simp
  have s: "card_state c (read_total before) (reads before) (foldl (gpu_event_step c) new_gpu_manager es)"
    using run_from_start [OF p] by (simp add: b)
  show ?thesis
  proof (cases "reads before = 0")
    case True
    then show ?thesis
      using no_reads_no_snapshot [OF True assms(2,3)] s by (simp add: snapshot_at_def card_state_def)
  next
    case False
    then show ?thesis using ask_step(2) [OF s n, of key] by (simp add: b)
  qed
qed

text \<open>The average from the accumulated values and those of the snapshot.\<close>

lemma average_of_difference:
  assumes "card_state c (u0 + u) (n0 + n) m" "snapshot_at c key u0 n0 m" "n0 + n < 2 ^ 32" "u0 + u \<le> 2 ^ 53" "0 < n"
  shows "\<exists>avg. mget (fst (get_current_data key m)) (rs_id c) = Some avg
    \<and> gpu_usage avg = two_decimals (fdiv (Num (of_nat u)) (Num (of_nat n)))"
proof -
  obtain g where g: "gm_data m = [(rs_id c, g)]" "gpu_usage g = Num (of_nat (u0 + u))"
    "gpu_count g = Num (of_nat (n0 + n))" "gpu_engines g = None"
    using assms(1,5) by (auto simp: card_state_def)
  have t: "to_uint32 (gpu_count g) = word_of_nat (n0 + n)"
    unfolding g(3) by (rule to_uint32_nat [OF assms(3)])
  have n0: "(word_of_nat n :: 32 word) \<noteq> 0"
    using assms(3,5) by (simp add: word_of_nat_eq_0_iff dvd_def) (auto dest: nat_dvd_not_less)
  have k: "calculate_delta_count (to_uint32 (gpu_count g)) (gm_snapshots m key (rs_id c)) = word_of_nat n"
    using assms(2) unfolding t by (auto simp: snapshot_at_def calculate_delta_count_def split: if_splits)
  have d: "fst (calculate_deltas g (gm_snapshots m key (rs_id c))) = Num (of_nat u)"
  proof (cases "n0 = 0")
    case True
    then show ?thesis using assms(2) by (simp add: snapshot_at_def calculate_deltas_def g(2))
  next
    case False
    then obtain s where "gm_snapshots m key (rs_id c) = Some s" "gs_usage s = Num (of_nat u0)"
      using assms(2) by (auto simp: snapshot_at_def)
    then show ?thesis
      using fsub_nat [of u0 "u0 + u"] assms(4) by (simp add: calculate_deltas_def g(2) del: of_nat_add)
  qed
  have "n < 2 ^ 32" using assms(3) by simp
  from of_uint32_nat [OF this]
  have "gpu_usage (fst (calculate_gpu_average (rs_id c) g key m)) = two_decimals (fdiv (Num (of_nat u)) (Num (of_nat n)))"
    using d n0 by (simp add: calculate_gpu_average_def Let_def k case_prod_unfold g(4))
  then show ?thesis
    by (simp add: g(1) get_current_data_def current_data_step_def case_prod_unfold update_instantaneous_values_def Let_def)
qed



section \<open>Names of AMD cards\<close>

text \<open>
  Two cards of the same device with different revisions: the second one is reported under the name
  of the first, although the names file has an exact entry for it, because the first look-up stores
  its exact name for the device without a revision too.  Without the first card it has its own name.
\<close>

theorem other_revision_name:
  assumes "lookup_amdgpu_name_in_file dev rev1 file = Some (name1, True)" "lookup_amdgpu_name_in_file dev rev2 file = Some (name2, True)"
    "rev1 \<noteq> rev2" "rev1 \<noteq> []" "rev2 \<noteq> []"
  shows "fst (amd_name_of file dev rev2 (snd (amd_name_of file dev rev1 empty_name_cache))) = normalize_amdgpu_name name1
    \<and> fst (amd_name_of file dev rev2 empty_name_cache) = normalize_amdgpu_name name2"
  using assms
  by (simp add: amd_name_of_def get_cached_amdgpu_name_def cache_amdgpu_name_def empty_name_cache_def cache_key_for_amdgpu_def Let_def)

definition ids_file :: string where
  "ids_file = ''# device,revision,product'' @ [CHR 0x0A] @ ''744C, C8, AMD Radeon RX 7900 XTX'' @ [CHR 0x0A]
     @ ''744C, CC, AMD Radeon RX 7900 XT'' @ [CHR 0x0A]"

theorem other_revision_name_witness:
  "fst (amd_name_of (Some ids_file) ''744c'' ''cc'' (snd (amd_name_of (Some ids_file) ''744c'' ''c8'' empty_name_cache)))
     = ''AMD Radeon RX 7900 XTX''"
proof -
  have l: "lookup_amdgpu_name_in_file ''744c'' ''c8'' (Some ids_file) = Some (''AMD Radeon RX 7900 XTX'', True)"
    "lookup_amdgpu_name_in_file ''744c'' ''cc'' (Some ids_file) = Some (''AMD Radeon RX 7900 XT'', True)"
    by code_simp+
  have "normalize_amdgpu_name ''AMD Radeon RX 7900 XTX'' = ''AMD Radeon RX 7900 XTX''" by code_simp
  then show ?thesis using other_revision_name [OF l] by simp
qed

end
