(* ===== verification/Config_File.thy ===== *)
theory Config_File
  imports Config Go_Text
begin

text \<open>
  The configuration file (\<open>internal/config/config.go\<close>): where it is, how a configuration is written
  to it, and what reading it back gives.  A file is what reading it gives, the JSON text or an error; the
  answers of the other file operations are arguments.  The white space of the text is not modelled.
\<close>

section \<open>Default paths\<close>

text \<open>\<open>dir\<close> is the user's configuration or cache directory, \<open>None\<close> where Go gives an error.\<close>

definition default_path :: "(string \<Rightarrow> string) \<Rightarrow> bool \<Rightarrow> string option \<Rightarrow> string" where
  "default_path getenv superuser dir =
     (let path = trim_space (getenv ''CONFIG_FILE'') in
      if path \<noteq> [] then path
      else if superuser then ''/etc/go-monitoring/config.json''
      else case dir of
        Some d \<Rightarrow> if d \<noteq> [] then path_join (path_join d ''go-monitoring'') ''config.json'' else ''go-monitoring.json''
      | None \<Rightarrow> ''go-monitoring.json'')"

definition default_command_socket_path :: "(string \<Rightarrow> string) \<Rightarrow> bool \<Rightarrow> string option \<Rightarrow> string \<Rightarrow> string" where
  "default_command_socket_path getenv superuser dir temp_dir =
     (let socket = (\<lambda>d. path_join (path_join d ''go-monitoring'') ''agent.sock'');
          runtime_dir = trim_space (getenv ''XDG_RUNTIME_DIR'') in
      if superuser then ''/run/go-monitoring/agent.sock''
      else if runtime_dir \<noteq> [] then socket runtime_dir
      else case dir of
        Some d \<Rightarrow> if d \<noteq> [] then socket d else socket temp_dir
      | None \<Rightarrow> socket temp_dir)"

section \<open>Writing\<close>

definition enc_duration :: "int \<Rightarrow> json" where
  "enc_duration d = JStr (duration_string d)"

definition enc_listener :: "listener \<Rightarrow> json" where
  "enc_listener l = JObj (jf ''name'' (JStr (ls_name l)) @ jf ''address'' (JStr (ls_address l))
     @ jf ''apis'' (enc_arr JStr (ls_apis l)))"

definition enc_config :: "config \<Rightarrow> json" where
  "enc_config c = JObj (jf ''version'' (JInt (cf_version c)) @ jf ''listeners'' (enc_arr enc_listener (cf_listeners c))
     @ jopt (cf_allow_remote_commands c) ''allow_remote_commands'' (JBool (cf_allow_remote_commands c))
     @ jf ''collector_interval'' (enc_duration (cf_collector_interval c))
     @ jf ''smart_refresh_interval'' (enc_duration (cf_smart_refresh_interval c))
     @ jf ''history'' (JStr (cf_history c))
     @ jf ''cache_ttl'' (enc_opt (enc_map enc_duration) (cf_cache_ttl c)))"

type_synonym config_file = "go_error + jtext"

text \<open>A write that fails leaves something in the file.\<close>

datatype write_answer = WriteOk | MkdirFails go_error | WriteFails go_error config_file

definition save_config :: "write_answer \<Rightarrow> config \<Rightarrow> config_file \<Rightarrow> unit res \<times> config_file" where
  "save_config wa cfg file = (case validate cfg of
     Inl e \<Rightarrow> (Inl e, file)
   | Inr _ \<Rightarrow> (case wa of
       MkdirFails e \<Rightarrow> (Inl e, file)
     | WriteFails e left \<Rightarrow> (Inl e, left)
     | WriteOk \<Rightarrow> (Inr (), Inr (JText (enc_config cfg)))))"

text \<open>
  \<open>SaveIfMissing\<close> opens with \<open>O_EXCL\<close>: the file is there, cannot be created, or is new; then the
  write and the close can fail.
\<close>

datatype create_answer =
    CreateMkdirFails go_error
  | CreateExists
  | CreateFails go_error
  | CreateWriteFails go_error "go_error option" config_file
  | CreateCloseFails go_error config_file
  | CreateOk

definition save_if_missing :: "create_answer \<Rightarrow> config \<Rightarrow> config_file \<Rightarrow> bool res \<times> config_file" where
  "save_if_missing ca cfg file = (case validate cfg of
     Inl e \<Rightarrow> (Inl e, file)
   | Inr _ \<Rightarrow> (case ca of
       CreateMkdirFails e \<Rightarrow> (Inl e, file)
     | CreateExists \<Rightarrow> (Inr False, file)
     | CreateFails e \<Rightarrow> (Inl e, file)
     | CreateWriteFails e close_err left \<Rightarrow> (Inl (case close_err of None \<Rightarrow> e | Some e' \<Rightarrow> ErrJoin e e'), left)
     | CreateCloseFails e left \<Rightarrow> (Inl e, left)
     | CreateOk \<Rightarrow> (Inr True, Inr (JText (enc_config cfg)))))"

end
