(* ===== verification/Cli.thy ===== *)
theory Cli
  imports Config_File
begin

text \<open>
  The command line (\<open>cmd/root.go\<close>): the values of its flags, the configuration that a command works
  with, and what each command does to the configuration file.  \<open>pflag\<close>, which splits the arguments into
  flags, the menus and the agent itself are arguments; what is printed is not modelled.
\<close>

section \<open>Flag values\<close>

text \<open>The error of \<open>time.ParseDuration\<close> names the text.\<close>

definition parsed_duration :: "string \<Rightarrow> int res" where
  "parsed_duration s = (case parse_duration s of
     None \<Rightarrow> Inl (ErrText (''time: invalid duration '' @ s)) | Some d \<Rightarrow> Inr d)"

text \<open>\<open>durationMapFlag.Set\<close>: the map is nil until the first value of an empty flag.\<close>

definition duration_map_set :: "string \<Rightarrow> (string, int) gmap \<Rightarrow> (string, int) gmap res" where
  "duration_map_set raw values = (case cut_at (CHR ''='') raw of
     None \<Rightarrow> Inl (ErrText ''expected plugin=duration'')
   | Some (key, v) \<Rightarrow> attempt (parsed_duration (trim_space v)) (\<lambda>ttl.
       if ttl < 0 then Inl (ErrText ''duration must not be negative'')
       else Inr (mput (to_lower (trim_space key)) ttl values)))"

text \<open>\<open>strings.FieldsFunc\<close> at the separators, then the pieces that are not blank.\<close>

definition split_listener_apis :: "string \<Rightarrow> string list" where
  "split_listener_apis raw =
     filter (\<lambda>f. f \<noteq> []) (map trim_space (filter (\<lambda>f. f \<noteq> [])
       (concat (map (\<lambda>p. concat (map (split_on (CHR '';'')) (split_on (CHR ''+'') p))) (split_on (CHR ''|'') raw)))))"

definition listener_part :: "listener \<Rightarrow> string \<Rightarrow> listener res" where
  "listener_part l part = (case cut_at (CHR ''='') part of
     None \<Rightarrow> Inl (ErrText ''expected key=value in listener spec'')
   | Some (key0, value0) \<Rightarrow>
       let key = to_lower (trim_space key0); v = trim_space value0 in
       if key = ''name'' then Inr (l\<lparr>ls_name := v\<rparr>)
       else if key \<in> {''address'', ''addr''} then Inr (l\<lparr>ls_address := v\<rparr>)
       else if key \<in> {''apis'', ''api''} then Inr (l\<lparr>ls_apis := split_listener_apis v\<rparr>)
       else Inl (ErrText (''unknown listener key '' @ key)))"

definition listener_list_set :: "string \<Rightarrow> listener list \<Rightarrow> listener list res" where
  "listener_list_set raw values =
     attempt (fold_res listener_part zero_listener (split_on (CHR '','') raw)) (\<lambda>l0.
     let l1 = (if ls_name l0 = [] then l0\<lparr>ls_name := ''listener-'' @ format_int (int (length values) + 1)\<rparr> else l0) in
     if ls_address l1 = [] then Inl (ErrText ''listener address is required'')
     else Inr (values @ [if ls_apis l1 = [] then l1\<lparr>ls_apis := [APIKindMetrics]\<rparr> else l1]))"

section \<open>Options\<close>

datatype command = CommandRun | CommandConfig | CommandDB | CommandStatus | CommandMenu | CommandHealth | CommandHelp

record cmd_options =
  co_command :: command
  co_config_path :: string
  co_listeners :: "listener list"
  co_listeners_set :: bool
  co_collector_interval :: int
  co_collector_interval_set :: bool
  co_history :: string
  co_history_set :: bool
  co_api_cache_default :: int
  co_api_cache_default_set :: bool
  co_api_cache_expensive :: int
  co_api_cache_expensive_set :: bool
  co_cache_ttl :: "(string, int) gmap"
  co_config_print :: bool
  co_config_init :: bool
  co_config_action :: string
  co_data_dir :: string
  co_db_force :: bool
  co_db_action :: string

definition zero_options :: "command \<Rightarrow> string \<Rightarrow> cmd_options" where
  "zero_options command path = \<lparr>co_command = command, co_config_path = path, co_listeners = [], co_listeners_set = False,
     co_collector_interval = 0, co_collector_interval_set = False, co_history = [], co_history_set = False,
     co_api_cache_default = 0, co_api_cache_default_set = False, co_api_cache_expensive = 0,
     co_api_cache_expensive_set = False, co_cache_ttl = [], co_config_print = False, co_config_init = False,
     co_config_action = [], co_data_dir = [], co_db_force = False, co_db_action = []\<rparr>"

definition parse_command :: "string \<Rightarrow> command \<times> bool" where
  "parse_command raw = (case map_of
       [(''run'', CommandRun), (''config'', CommandConfig), (''db'', CommandDB), (''health'', CommandHealth),
        (''help'', CommandHelp), (''status'', CommandStatus), (''menu'', CommandMenu)] (to_lower (trim_space raw)) of
     Some c \<Rightarrow> (c, True) | None \<Rightarrow> (CommandHelp, False))"

text \<open>
  What \<open>pflag\<close> finds: the values of the flags, whether each was given, and the other arguments.
  \<open>None\<close> is an error.  The listeners and cache times it finds come from the \<open>Set\<close> methods above.
\<close>

record parsed_flags =
  pf_options :: cmd_options
  pf_args :: "string list"
  pf_version :: bool
  pf_help :: bool

datatype parsed = Done int | Continue cmd_options

definition parse_options :: "bool \<Rightarrow> unit res \<Rightarrow> string \<Rightarrow> (cmd_options \<Rightarrow> string list \<Rightarrow> parsed_flags option)
    \<Rightarrow> string list \<Rightarrow> parsed" where
  "parse_options terminal health path pflag args = (case args of
     [] \<Rightarrow> if terminal then Continue (zero_options CommandMenu path) else Done 0
   | first # rest \<Rightarrow>
       let (subcommand, found) = parse_command first in
       if \<not> found \<and> \<not> has_prefix ''-'' first then Done 1
       else if subcommand = CommandHealth then (case health of Inl _ \<Rightarrow> Done 1 | Inr _ \<Rightarrow> Done 0)
       else (case pflag (zero_options subcommand path) (if found then rest else args) of
           None \<Rightarrow> Done 2
         | Some pf \<Rightarrow>
             if pf_version pf \<or> pf_help pf \<or> subcommand = CommandHelp then Done 0
             else Continue ((pf_options pf)\<lparr>
               co_config_action := (if subcommand = CommandConfig \<and> pf_args pf \<noteq> [] then to_lower (hd (pf_args pf)) else []),
               co_db_action := (if subcommand = CommandDB \<and> pf_args pf \<noteq> [] then to_lower (hd (pf_args pf)) else [])\<rparr>)))"

section \<open>The effective configuration\<close>

text \<open>The map of cache times is visited in some order: that of the list.\<close>

definition apply_cli_to_config :: "cmd_options \<Rightarrow> config \<Rightarrow> config res" where
  "apply_cli_to_config opts cfg =
     (let c1 = (if co_listeners_set opts then cfg\<lparr>cf_listeners := co_listeners opts\<rparr> else cfg) in
      attempt (if co_collector_interval_set opts then
            (if co_collector_interval opts \<le> 0 then Inl (ErrText ''collector interval must be greater than zero'')
             else Inr (c1\<lparr>cf_collector_interval := co_collector_interval opts\<rparr>))
          else Inr c1) (\<lambda>c2.
      let c3 = (if co_history_set opts then c2\<lparr>cf_history := co_history opts\<rparr> else c2);
          c4 = (if co_api_cache_default_set opts then apply_cache_default (co_api_cache_default opts) c3 else c3)
      in attempt (if co_api_cache_expensive_set opts then apply_cache_expensive (co_api_cache_expensive opts) c4 else Inr c4) (\<lambda>c5.
         attempt (fold_res (\<lambda>c (key, ttl). set_cache_ttl key ttl c) c5 (co_cache_ttl opts)) (\<lambda>c6.
         attempt (validate c6) (\<lambda>_. Inr c6)))))"

definition config_was_mutated :: "cmd_options \<Rightarrow> bool" where
  "config_was_mutated opts = (co_listeners_set opts \<or> co_collector_interval_set opts \<or> co_history_set opts
     \<or> co_api_cache_default_set opts \<or> co_api_cache_expensive_set opts \<or> co_cache_ttl opts \<noteq> [])"

record effective_config =
  ec_cfg :: config
  ec_loaded :: bool
  ec_source :: string

definition load_effective_config :: "string \<Rightarrow> env \<Rightarrow> cmd_options \<Rightarrow> config_file \<Rightarrow> effective_config res" where
  "load_effective_config socket_path env opts file =
     attempt (load_config socket_path file) (\<lambda>(cfg, loaded).
     attempt (apply_cli_to_config opts (apply_env env cfg)) (\<lambda>cfg'.
     Inr \<lparr>ec_cfg = cfg', ec_loaded = loaded, ec_source = (if loaded then ''loaded'' else ''defaults'')\<rparr>))"

definition maybe_save_default_config :: "create_answer \<Rightarrow> config \<Rightarrow> string \<Rightarrow> config_file \<Rightarrow> string \<times> config_file" where
  "maybe_save_default_config ca cfg source file = (case save_if_missing ca cfg file of
     (Inl _, file') \<Rightarrow> (source, file')
   | (Inr created, file') \<Rightarrow> (if created then ''created'' else source, file'))"

section \<open>Commands\<close>

text \<open>The menu edits the configuration and the file; its result says whether the agent is to be run.\<close>

type_synonym menu = "config \<Rightarrow> bool \<Rightarrow> config_file \<Rightarrow> (bool \<times> config) res \<times> config_file"

definition handle_config_command :: "bool \<Rightarrow> menu \<Rightarrow> write_answer \<Rightarrow> cmd_options \<Rightarrow> config \<Rightarrow> bool \<Rightarrow> string \<Rightarrow> config_file
    \<Rightarrow> (bool \<times> config \<times> string) res \<times> config_file" where
  "handle_config_command terminal menu wa opts cfg loaded source file =
     (if co_config_action opts = ''validate'' then (Inr (False, cfg, source), file)
      else if co_config_action opts \<noteq> [] then (Inl (ErrText ''unknown config action''), file)
      else let mutated = config_was_mutated opts;
               saved = (if co_config_init opts \<and> loaded \<and> \<not> mutated then (Inr (), file)
                 else if co_config_init opts \<or> mutated then save_config wa cfg file else (Inr (), file))
           in (case saved of
                (Inl e, file') \<Rightarrow> (Inl (ErrWrap ''failed to save config'' e), file')
              | (Inr _, file') \<Rightarrow>
                  if co_config_print opts \<or> co_config_init opts \<or> mutated \<or> \<not> terminal then (Inr (False, cfg, source), file')
                  else (case menu cfg loaded file' of
                      (Inl e, file2) \<Rightarrow> (Inl (ErrWrap ''config menu failed'' e), file2)
                    | (Inr (run, cfg'), file2) \<Rightarrow>
                        (Inr (if run then (True, cfg', ''loaded'') else (False, cfg, source)), file2))))"

definition err_config_menu_interrupted :: go_error where
  "err_config_menu_interrupted = ErrText ''interrupted''"

definition config_command_error_code :: "go_error \<Rightarrow> int" where
  "config_command_error_code e = (if err_is err_config_menu_interrupted e then 130 else 1)"

text \<open>
  \<open>Run\<close>: \<open>db\<close>, \<open>main_menu\<close>, \<open>status\<close> and \<open>start\<close> are the database command, the main menu, the
  status command and the agent, which runs until it stops.  The exit code and the file are the result.
\<close>

record cli_world =
  cl_terminal :: bool
  cl_health :: "unit res"
  cl_path :: string
  cl_socket_path :: string
  cl_env :: env
  cl_pflag :: "cmd_options \<Rightarrow> string list \<Rightarrow> parsed_flags option"
  cl_menu :: menu
  cl_write :: write_answer
  cl_create :: create_answer
  cl_db :: "cmd_options \<Rightarrow> unit res"
  cl_main_menu :: "cmd_options \<Rightarrow> config_file \<Rightarrow> int \<times> config_file"
  cl_status :: "config \<Rightarrow> unit res"
  cl_start :: "cmd_options \<Rightarrow> config \<Rightarrow> string \<Rightarrow> config_file \<Rightarrow> unit res \<times> config_file"

definition exit_code :: "unit res \<Rightarrow> int" where
  "exit_code r = (case r of Inl _ \<Rightarrow> 1 | Inr _ \<Rightarrow> 0)"

definition start_agent_exit :: "cli_world \<Rightarrow> cmd_options \<Rightarrow> config \<Rightarrow> string \<Rightarrow> config_file \<Rightarrow> int \<times> config_file" where
  "start_agent_exit w opts cfg source file = (case cl_start w opts cfg source file of (r, file') \<Rightarrow> (exit_code r, file'))"

definition run_effective :: "cli_world \<Rightarrow> cmd_options \<Rightarrow> effective_config \<Rightarrow> config_file \<Rightarrow> int \<times> config_file" where
  "run_effective w opts ec file =
     (let cfg = ec_cfg ec;
          (source, file1) = (if co_command opts = CommandRun \<and> \<not> ec_loaded ec
            then maybe_save_default_config (cl_create w) cfg (ec_source ec) file else (ec_source ec, file))
      in if co_command opts = CommandConfig then
           (case handle_config_command (cl_terminal w) (cl_menu w) (cl_write w) opts cfg (ec_loaded ec) source file1 of
              (Inl e, file2) \<Rightarrow> (config_command_error_code e, file2)
            | (Inr (run, cfg', source'), file2) \<Rightarrow>
                if run then start_agent_exit w opts cfg' source' file2 else (0, file2))
         else if co_command opts = CommandStatus then (exit_code (cl_status w cfg), file1)
         else start_agent_exit w opts cfg source file1)"

definition run_cli :: "cli_world \<Rightarrow> string list \<Rightarrow> config_file \<Rightarrow> int \<times> config_file" where
  "run_cli w args file = (case parse_options (cl_terminal w) (cl_health w) (cl_path w) (cl_pflag w) args of
     Done code \<Rightarrow> (code, file)
   | Continue opts \<Rightarrow>
       if co_command opts = CommandMenu then cl_main_menu w opts file
       else if co_command opts = CommandConfig \<and> co_config_action opts = ''path'' then (0, file)
       else if co_command opts = CommandDB then (exit_code (cl_db w opts), file)
       else (case load_effective_config (cl_socket_path w) (cl_env w) opts file of
           Inl _ \<Rightarrow> (1, file)
         | Inr ec \<Rightarrow> run_effective w opts ec file))"

end
