(* ===== verification/Command_Api.thy ===== *)
theory Command_Api
  imports Runtime Cli
begin

text \<open>
  The command API (\<open>cmd/command_api.go\<close>) and how the command line starts the agent (\<open>startAgent\<close> of
  \<open>cmd/root.go\<close>).  A command works on the agent and on the configuration file together; what the
  outside answers during a command is a record.  \<open>None\<close> is a panic.  A nil list of listeners, which
  \<open>config.get\<close> writes as \<open>null\<close>, is the empty list here.
\<close>

section \<open>Results\<close>

record command_result =
  cs_status :: int
  cs_ok :: bool
  cs_command :: string
  cs_request_id :: string
  cs_restart_required :: bool
  cs_data :: "json option"
  cs_error :: "(string \<times> string) option"

definition enc_command_result :: "command_result \<Rightarrow> json" where
  "enc_command_result r = JObj (jf ''ok'' (JBool (cs_ok r)) @ jf ''command'' (JStr (cs_command r))
     @ jopt (cs_request_id r \<noteq> []) ''request_id'' (JStr (cs_request_id r))
     @ jopt (cs_restart_required r) ''restart_required'' (JBool (cs_restart_required r))
     @ (case cs_data r of None \<Rightarrow> [] | Some j \<Rightarrow> jf ''data'' j)
     @ (case cs_error r of None \<Rightarrow> [] | Some (code, message) \<Rightarrow>
         jf ''error'' (JObj (jf ''code'' (JStr code) @ jf ''message'' (JStr message)))))"

definition command_ok :: "command_request \<Rightarrow> json \<Rightarrow> bool \<Rightarrow> command_result" where
  "command_ok req d restart_required = \<lparr>cs_status = 200, cs_ok = True, cs_command = cq_command req,
     cs_request_id = cq_request_id req, cs_restart_required = restart_required, cs_data = Some d, cs_error = None\<rparr>"

definition command_error :: "command_request \<Rightarrow> int \<Rightarrow> string \<Rightarrow> string \<Rightarrow> command_result" where
  "command_error req status code message = \<lparr>cs_status = (if status = 0 then 500 else status), cs_ok = False,
     cs_command = cq_command req, cs_request_id = cq_request_id req, cs_restart_required = False, cs_data = None,
     cs_error = Some (code, if message = [] then code else message)\<rparr>"

definition normalize_command :: "string \<Rightarrow> string" where
  "normalize_command command = to_lower (trim_space command)"

definition command_list :: "string list" where
  "command_list = [''commands.list'', ''status.get'', ''config.get'', ''config.set'', ''config.reload'',
     ''smart.refresh'', ''db.check'', ''db.maintain'']"

section \<open>Parameters of config.set\<close>

record config_set_params =
  sp_collector_interval :: "string option"
  sp_smart_refresh_interval :: "string option"
  sp_history :: "string option"
  sp_cache_ttl :: "(string, string) gmap"
  sp_listeners :: "listener list option"
  sp_allow_remote_commands :: "bool option"

definition zero_params :: config_set_params where
  "zero_params = \<lparr>sp_collector_interval = None, sp_smart_refresh_interval = None, sp_history = None,
     sp_cache_ttl = [], sp_listeners = None, sp_allow_remote_commands = None\<rparr>"

definition dec_listeners :: "json \<Rightarrow> listener list res" where
  "dec_listeners = dec_slice_over dec_listener_over zero_listener []"

definition dec_config_set_params :: "json \<Rightarrow> config_set_params res" where
  "dec_config_set_params = dec_struct (\<lambda>fs.
     attempt (jfield fs ''collector_interval'' None (dec_ptr dec_str)) (\<lambda>collector_interval.
     attempt (jfield fs ''smart_refresh_interval'' None (dec_ptr dec_str)) (\<lambda>smart_refresh_interval.
     attempt (jfield fs ''history'' None (dec_ptr dec_str)) (\<lambda>history.
     attempt (jfield fs ''cache_ttl'' None (dec_map dec_str)) (\<lambda>cache_ttl.
     attempt (jfield fs ''listeners'' None (dec_ptr dec_listeners)) (\<lambda>listeners.
     attempt (jfield fs ''allow_remote_commands'' None (dec_ptr dec_bool)) (\<lambda>allow_remote_commands.
     Inr \<lparr>sp_collector_interval = collector_interval, sp_smart_refresh_interval = smart_refresh_interval,
       sp_history = history, sp_cache_ttl = (case cache_ttl of None \<Rightarrow> [] | Some m \<Rightarrow> m),
       sp_listeners = listeners, sp_allow_remote_commands = allow_remote_commands\<rparr>)))))))
     zero_params"

definition set_duration :: "string option \<Rightarrow> (int \<Rightarrow> config \<Rightarrow> config) \<Rightarrow> config \<Rightarrow> config res" where
  "set_duration raw f cfg = (case raw of
     None \<Rightarrow> Inr cfg | Some s \<Rightarrow> attempt (parsed_duration s) (\<lambda>d. Inr (f d cfg)))"

text \<open>The map of cache times is visited in some order: that of the list.\<close>

definition apply_config_set_params :: "config_set_params \<Rightarrow> config \<Rightarrow> (config \<times> bool) res" where
  "apply_config_set_params p cfg =
     attempt (set_duration (sp_collector_interval p) (\<lambda>d c. c\<lparr>cf_collector_interval := d\<rparr>) cfg) (\<lambda>c1.
     attempt (set_duration (sp_smart_refresh_interval p) (\<lambda>d c. c\<lparr>cf_smart_refresh_interval := d\<rparr>) c1) (\<lambda>c2.
     let c3 = (case sp_history p of None \<Rightarrow> c2 | Some h \<Rightarrow> c2\<lparr>cf_history := h\<rparr>) in
     attempt (fold_res (\<lambda>c (key, raw). attempt (parsed_duration raw) (\<lambda>ttl. set_cache_ttl key ttl c)) c3 (sp_cache_ttl p)) (\<lambda>c4.
     let c5 = (case sp_listeners p of None \<Rightarrow> c4 | Some ls \<Rightarrow> c4\<lparr>cf_listeners := ls\<rparr>);
         c6 = (case sp_allow_remote_commands p of None \<Rightarrow> c5 | Some b \<Rightarrow> c5\<lparr>cf_allow_remote_commands := b\<rparr>)
     in attempt (validate c6) (\<lambda>_. Inr (c6, sp_listeners p \<noteq> None)))))"

section \<open>Reloading\<close>

definition reload_options_of :: "config \<Rightarrow> string \<Rightarrow> reload_options" where
  "reload_options_of cfg source = \<lparr>rl_collector_interval = cf_collector_interval cfg,
     rl_smart_refresh_interval = cf_smart_refresh_interval cfg, rl_history = cf_history cfg, rl_history_set = True,
     rl_cache_ttl = Some (case cf_cache_ttl cfg of None \<Rightarrow> [] | Some m \<Rightarrow> m), rl_config_source = source,
     rl_config_version = cf_version cfg\<rparr>"

fun listeners_differ :: "listener_meta list \<Rightarrow> listener list \<Rightarrow> bool" where
  "listeners_differ (a # as) (l # ls) =
     (lm_name a \<noteq> ls_name l \<or> lm_address a \<noteq> get_address (ls_address l) \<or> listeners_differ as ls)"
| "listeners_differ _ _ = False"

definition listeners_restart_required :: "listener_meta list \<Rightarrow> config \<Rightarrow> bool" where
  "listeners_restart_required active cfg =
     (length active \<noteq> length (cf_listeners cfg) \<or> listeners_differ active (cf_listeners cfg))"

section \<open>Commands\<close>

record host =
  hs_agent :: agent
  hs_file :: config_file

record command_answers =
  ca_env :: env
  ca_socket_path :: string
  ca_write :: write_answer
  ca_version :: string
  ca_db_path :: string
  ca_smart :: smart_answers
  ca_clock :: int
  ca_check_rows :: "go_error + string list"
  ca_ctx_err :: "go_error option"
  ca_fault :: fault

definition reload_runtime_config :: "command_answers \<Rightarrow> command_request \<Rightarrow> config \<Rightarrow> string \<Rightarrow> host \<Rightarrow> command_result \<times> host" where
  "reload_runtime_config ca req cfg source h =
     (case reload_runtime (ca_env ca) (reload_options_of cfg source) (hs_agent h) of
        (Inl e, a) \<Rightarrow> (command_error req 400 ''reload_failed'' (error_text e), h\<lparr>hs_agent := a\<rparr>)
      | (Inr _, a) \<Rightarrow> (command_ok req (enc_meta_response (status_meta (ca_version ca) (ca_db_path ca) a))
            (listeners_restart_required (agent_listeners a) cfg), h\<lparr>hs_agent := a\<rparr>))"

definition handle_config_reload :: "command_answers \<Rightarrow> cmd_options \<Rightarrow> command_request \<Rightarrow> host \<Rightarrow> (command_result \<times> host) option" where
  "handle_config_reload ca opts req h =
     (case load_effective_config (ca_socket_path ca) (ca_env ca) opts (hs_file h) of
        Inl e \<Rightarrow> if e = nil_map_panic then None else Some (command_error req 400 ''invalid_config'' (error_text e), h)
      | Inr ec \<Rightarrow> Some (reload_runtime_config ca req (ec_cfg ec) (ec_source ec) h))"

definition handle_config_set :: "command_answers \<Rightarrow> command_request \<Rightarrow> host \<Rightarrow> (command_result \<times> host) option" where
  "handle_config_set ca req h =
     (case cq_params req of
        None \<Rightarrow> Some (command_error req 400 ''invalid_params'' ''params are required'', h)
      | Some j \<Rightarrow> (case dec_config_set_params j of
          Inl e \<Rightarrow> Some (command_error req 400 ''invalid_params'' (error_text e), h)
        | Inr p \<Rightarrow> (case load_config (ca_socket_path ca) (hs_file h) of
            Inl e \<Rightarrow> Some (command_error req 500 ''config_load_failed'' (error_text e), h)
          | Inr (cfg, _) \<Rightarrow> (case apply_config_set_params p cfg of
              Inl e \<Rightarrow> if e = nil_map_panic then None
                else Some (command_error req 400 ''invalid_config'' (error_text e), h)
            | Inr (cfg', restart_required) \<Rightarrow> (case save_config (ca_write ca) cfg' (hs_file h) of
                (Inl e, file) \<Rightarrow> Some (command_error req 500 ''config_save_failed'' (error_text e), h\<lparr>hs_file := file\<rparr>)
              | (Inr _, file) \<Rightarrow> (case reload_runtime_config ca req cfg' ''loaded'' (h\<lparr>hs_file := file\<rparr>) of
                  (r, h') \<Rightarrow> Some (if cs_ok r then r\<lparr>cs_restart_required := cs_restart_required r \<or> restart_required,
                      cs_data := Some (enc_config cfg')\<rparr> else r, h')))))))"

text \<open>\<open>ExecuteCommand\<close>.\<close>

definition execute_command :: "command_answers \<Rightarrow> cmd_options \<Rightarrow> command_request \<Rightarrow> host \<Rightarrow> (command_result \<times> host) option" where
  "execute_command ca opts req0 h =
     (let req = req0\<lparr>cq_command := normalize_command (cq_command req0)\<rparr>;
          command = cq_command req;
          status = status_meta (ca_version ca) (ca_db_path ca) (hs_agent h);
          path = JObj [(''path'', JStr (mr_db_path status))]
      in if command = [] then Some (command_error req 400 ''invalid_command'' ''command is required'', h)
         else if command = ''commands.list'' then Some (command_ok req (enc_arr JStr command_list) False, h)
         else if command = ''status.get'' then Some (command_ok req (enc_meta_response status) False, h)
         else if command = ''config.get'' then
           (case load_config (ca_socket_path ca) (hs_file h) of
              Inl e \<Rightarrow> Some (command_error req 500 ''config_load_failed'' (error_text e), h)
            | Inr (cfg, _) \<Rightarrow> Some (command_ok req (enc_config cfg) False, h))
         else if command = ''config.set'' then handle_config_set ca req h
         else if command = ''config.reload'' then handle_config_reload ca opts req h
         else if command = ''smart.refresh'' then
           (case refresh_smart_now (ca_smart ca) (ca_clock ca) (hs_agent h) of
              (Inl e, a) \<Rightarrow> Some (command_error req 500 ''smart_refresh_failed'' (error_text e), h\<lparr>hs_agent := a\<rparr>)
            | (Inr _, a) \<Rightarrow> Some (command_ok req (JObj [(''refreshed'', JBool True)]) False, h\<lparr>hs_agent := a\<rparr>))
         else if command = ''db.check'' then
           (case check_database (ca_check_rows ca) (hs_agent h) of
              Inl e \<Rightarrow> Some (command_error req 500 ''db_check_failed'' (error_text e), h)
            | Inr _ \<Rightarrow> Some (command_ok req path False, h))
         else if command = ''db.maintain'' then
           (case maintain_database (ca_ctx_err ca) (ca_fault ca) (ca_clock ca) (ca_check_rows ca) (hs_agent h) of
              (Inl e, a) \<Rightarrow> Some (command_error req 500 ''db_maintain_failed'' (error_text e), h\<lparr>hs_agent := a\<rparr>)
            | (Inr _, a) \<Rightarrow> Some (command_ok req path False, h\<lparr>hs_agent := a\<rparr>))
         else Some (command_error req 404 ''unknown_command'' ''unknown command'', h))"

section \<open>Starting the agent\<close>

definition run_options_of :: "string \<Rightarrow> config \<Rightarrow> string \<Rightarrow> run_options" where
  "run_options_of path cfg source = \<lparr>ro_listeners = app_listeners_from_config cfg,
     ro_collector_interval = cf_collector_interval cfg, ro_smart_refresh_interval = cf_smart_refresh_interval cfg,
     ro_history = cf_history cfg, ro_history_set = True, ro_config_path = path, ro_config_source = source,
     ro_config_version = cf_version cfg, ro_cache_ttl = Some (case cf_cache_ttl cfg of None \<Rightarrow> [] | Some m \<Rightarrow> m)\<rparr>"

text \<open>The hook that SIGHUP calls.\<close>

definition reload_config_hook :: "string \<Rightarrow> env \<Rightarrow> cmd_options \<Rightarrow> config_file \<Rightarrow> reload_options res" where
  "reload_config_hook socket_path env opts file =
     attempt (load_effective_config socket_path env opts file) (\<lambda>ec. Inr (reload_options_of (ec_cfg ec) (ec_source ec)))"

definition start_agent :: "env \<Rightarrow> (string list \<Rightarrow> store res) \<Rightarrow> tick_answers \<Rightarrow> int \<Rightarrow> (string \<Rightarrow> string res)
    \<Rightarrow> (http_runtime \<Rightarrow> go_error option) \<Rightarrow> cmd_options \<Rightarrow> config \<Rightarrow> string \<Rightarrow> agent res \<Rightarrow> unit res \<times> agent option" where
  "start_agent env opened ta now open_at shutdown opts cfg source created = (case created of
     Inl e \<Rightarrow> (Inl (ErrWrap ''failed to create agent'' e), None)
   | Inr a0 \<Rightarrow>
       let a = set_ttls_option (Some (case cf_cache_ttl cfg of None \<Rightarrow> [] | Some m \<Rightarrow> m)) a0 in
       (case start_context env opened ta now open_at shutdown (run_options_of (co_config_path opts) cfg source) a of
          (Inl e, a') \<Rightarrow> (Inl (ErrWrap ''failed to start standalone agent'' e), Some a')
        | (Inr _, a') \<Rightarrow> (Inr (), Some a')))"

end
