(* ===== verification/Config_Menu.thy ===== *)
theory Config_Menu
  imports Cli
begin

text \<open>
  The menus of the terminal (\<open>cmd/config_menu.go\<close> and the parts of \<open>cmd/main_menu.go\<close> that edit the
  configuration).  What the user types is two inputs: the bytes that are read in raw mode, key by key, and
  the lines that are read at a prompt.  An input that is used up is the error \<open>EOF\<close>.  What is drawn on
  the screen is not modelled, and switching the terminal's mode, whose errors the menus ignore, is not either.
\<close>

section \<open>Keys and prompts\<close>

datatype menu_key = KeyUnknown | KeyUp | KeyDown | KeyEnter | KeyEscape | KeyQuit | KeySave | KeyInterrupt

definition err_eof :: go_error where
  "err_eof = ErrText ''EOF''"

definition read_key :: "string \<Rightarrow> menu_key res \<times> string" where
  "read_key keys = (case keys of
     [] \<Rightarrow> (Inl err_eof, [])
   | c # ks \<Rightarrow>
       if c \<in> {CHR 0x0D, CHR 0x0A} then (Inr KeyEnter, ks)
       else if c \<in> set ''qQ'' then (Inr KeyQuit, ks)
       else if c \<in> set ''sS'' then (Inr KeySave, ks)
       else if c = CHR 0x03 then (Inr KeyInterrupt, ks)
       else if c = CHR 0x1B then (case ks of
           [] \<Rightarrow> (Inl err_eof, [])
         | c2 # ks2 \<Rightarrow>
             if c2 \<noteq> CHR ''['' then (Inr KeyEscape, ks2)
             else (case ks2 of
                 [] \<Rightarrow> (Inl err_eof, [])
               | c3 # ks3 \<Rightarrow> (Inr (if c3 = CHR ''A'' then KeyUp else if c3 = CHR ''B'' then KeyDown else KeyUnknown), ks3)))
       else (Inr KeyUnknown, ks))"

lemma read_key_shorter: "read_key keys = (Inr k, ks) \<Longrightarrow> length ks < length keys"
  by (auto simp: read_key_def split: list.splits if_splits)

text \<open>The lines still to be typed, the answers of the writes to come, and the configuration file.\<close>

record console =
  cn_lines :: "string list"
  cn_writes :: "write_answer list"
  cn_file :: config_file

definition show_prompt_error :: "console \<Rightarrow> unit res \<times> console" where
  "show_prompt_error con = (case cn_lines con of
     [] \<Rightarrow> (Inl err_eof, con) | _ # rest \<Rightarrow> (Inr (), con\<lparr>cn_lines := rest\<rparr>))"

text \<open>\<open>promptString\<close> and \<open>promptDuration\<close>: an empty line keeps the value, a bad one is asked for again.\<close>

fun prompt :: "(string \<Rightarrow> 'a res) \<Rightarrow> string list \<Rightarrow> 'a option res \<times> string list" where
  "prompt parse [] = (Inl err_eof, [])"
| "prompt parse (raw # rest) = (let v = trim_space raw in
     if v = [] then (Inr None, rest)
     else case parse v of
       Inr x \<Rightarrow> (Inr (Some x), rest)
     | Inl _ \<Rightarrow> (case rest of [] \<Rightarrow> (Inl err_eof, []) | _ # rest' \<Rightarrow> prompt parse rest'))"

definition prompt_string :: "(string \<Rightarrow> unit res) \<Rightarrow> console \<Rightarrow> string option res \<times> console" where
  "prompt_string check con = (case prompt (\<lambda>v. attempt (check v) (\<lambda>_. Inr v)) (cn_lines con) of
     (r, rest) \<Rightarrow> (r, con\<lparr>cn_lines := rest\<rparr>))"

definition prompt_duration :: "(int \<Rightarrow> unit res) \<Rightarrow> console \<Rightarrow> int option res \<times> console" where
  "prompt_duration check con =
     (case prompt (\<lambda>v. attempt (parsed_duration v) (\<lambda>d. attempt (check d) (\<lambda>_. Inr d))) (cn_lines con) of
        (r, rest) \<Rightarrow> (r, con\<lparr>cn_lines := rest\<rparr>))"

definition menu_save :: "config \<Rightarrow> console \<Rightarrow> bool res \<times> console" where
  "menu_save cfg con =
     (case save_config (case cn_writes con of [] \<Rightarrow> WriteOk | wa # _ \<Rightarrow> wa) cfg (cn_file con) of
        (Inr _, file) \<Rightarrow> (Inr True, con\<lparr>cn_writes := tl (cn_writes con), cn_file := file\<rparr>)
      | (Inl _, file) \<Rightarrow>
          (case show_prompt_error (con\<lparr>cn_writes := tl (cn_writes con), cn_file := file\<rparr>) of
             (Inl e, con') \<Rightarrow> (Inl e, con') | (Inr _, con') \<Rightarrow> (Inr False, con')))"

section \<open>The loop of a menu\<close>

text \<open>
  \<open>listenMenu\<close>, \<open>historyMenu\<close> and \<open>cacheMenu\<close> are one loop: it moves the cursor over \<open>n\<close> items, and
  \<open>enter\<close> handles the chosen one and says whether the menu is done.
\<close>

definition move_cursor :: "menu_key \<Rightarrow> nat \<Rightarrow> nat \<Rightarrow> nat" where
  "move_cursor key n cursor =
     (if key = KeyUp then (cursor + n - 1) mod n else if key = KeyDown then (cursor + 1) mod n else cursor)"

function menu_loop :: "nat \<Rightarrow> (nat \<Rightarrow> 's \<Rightarrow> console \<Rightarrow> bool res \<times> 's \<times> console) \<Rightarrow> nat \<Rightarrow> 's \<Rightarrow> console \<Rightarrow> string
    \<Rightarrow> unit res \<times> 's \<times> console \<times> string" where
  "menu_loop n enter cursor s con keys = (case read_key keys of
     (Inl e, ks) \<Rightarrow> (Inl e, s, con, ks)
   | (Inr key, ks) \<Rightarrow>
       if key \<in> {KeyEscape, KeyQuit} then (Inr (), s, con, ks)
       else if key = KeyInterrupt then (Inl err_config_menu_interrupted, s, con, ks)
       else if key = KeyEnter then (case enter cursor s con of
           (Inl e, s', con') \<Rightarrow> (Inl e, s', con', ks)
         | (Inr is_done, s', con') \<Rightarrow> if is_done then (Inr (), s', con', ks) else menu_loop n enter cursor s' con' ks)
       else menu_loop n enter (move_cursor key n cursor) s con ks)"
  by pat_completeness auto
termination
  by (relation "measure (\<lambda>(n, enter, cursor, s, con, keys). length keys)") (auto dest: read_key_shorter [OF sym])

declare menu_loop.simps [simp del]

section \<open>Listeners\<close>

abbreviation (input) "default_tcp_listen \<equiv> ''127.0.0.1:45876''"
abbreviation (input) "default_all_tcp_listen \<equiv> '':45876''"
abbreviation (input) "default_unix_socket_path \<equiv> ''/run/go-monitoring/agent.sock''"

definition remove_api :: "string list \<Rightarrow> string \<Rightarrow> string list" where
  "remove_api apis api = filter (\<lambda>v. \<not> equal_fold (trim_space v) api) apis"

definition remove_listener_api :: "string \<Rightarrow> config \<Rightarrow> config" where
  "remove_listener_api api cfg = cfg\<lparr>cf_listeners :=
     filter (\<lambda>l. ls_apis l \<noteq> []) (map (\<lambda>l. l\<lparr>ls_apis := remove_api (ls_apis l) api\<rparr>) (cf_listeners cfg))\<rparr>"

definition ensure_listener_api :: "string list \<Rightarrow> string \<Rightarrow> string list" where
  "ensure_listener_api apis api = (if list_ex (\<lambda>v. equal_fold (trim_space v) api) apis then apis else apis @ [api])"

fun set_first_commands :: "string \<Rightarrow> listener list \<Rightarrow> listener list option" where
  "set_first_commands address [] = None"
| "set_first_commands address (l # ls) =
     (if listener_has_api l APIKindCommands
      then Some (l\<lparr>ls_address := address, ls_apis := ensure_listener_api (ls_apis l) APIKindCommands\<rparr> # ls)
      else map_option (\<lambda>ls'. l # ls') (set_first_commands address ls))"

definition set_command_listener :: "string \<Rightarrow> config \<Rightarrow> config" where
  "set_command_listener listen cfg =
     (let normalized = get_address listen in
      if is_listen_disabled normalized then remove_listener_api APIKindCommands cfg
      else case set_first_commands normalized (cf_listeners cfg) of
        Some ls \<Rightarrow> cfg\<lparr>cf_listeners := ls\<rparr>
      | None \<Rightarrow> cfg\<lparr>cf_listeners := cf_listeners cfg @ [\<lparr>ls_name = ''control'', ls_address = normalized,
            ls_apis = [APIKindCommands], ls_implicit = False\<rparr>]\<rparr>)"

definition validate_listen :: "string \<Rightarrow> unit res" where
  "validate_listen v = (if trim_space v = [] then Inl (ErrText ''listen address cannot be empty'') else Inr ())"

definition validate_tcp_listen :: "string \<Rightarrow> unit res" where
  "validate_tcp_listen v = attempt (validate_listen v) (\<lambda>_.
     let normalized = get_address v in
     if is_listen_disabled normalized then Inl (ErrText ''use Disable HTTP API to turn the API off'')
     else if fst (split_listen_address normalized) \<noteq> ''tcp'' then Inl (ErrText ''tcp listen value must be a port or host:port'')
     else if split_host_port normalized = None then Inl (ErrText ''tcp listen value must be a port or host:port'')
     else Inr ())"

definition validate_unix_socket_path :: "string \<Rightarrow> unit res" where
  "validate_unix_socket_path v = attempt (validate_listen v) (\<lambda>_.
     case split_listen_address (trim_space v) of (network, address) \<Rightarrow>
       if network \<noteq> ''unix'' then Inl (ErrText ''unix socket path must be absolute or unix:/absolute/path'')
       else if \<not> has_prefix ''/'' address then Inl (ErrText ''unix socket path must be absolute'')
       else Inr ())"

definition unix_socket_listen_value :: "string \<Rightarrow> string" where
  "unix_socket_listen_value v = ''unix:'' @ snd (split_listen_address (trim_space v))"

definition handle_listen_enter :: "nat \<Rightarrow> config \<Rightarrow> console \<Rightarrow> bool res \<times> config \<times> console" where
  "handle_listen_enter cursor cfg con =
     (if cursor = 7 then (Inr True, cfg, con)
      else if cursor = 0 then
        (Inr False, (if metrics_listener cfg \<noteq> None then remove_listener_api APIKindMetrics cfg
           else set_metrics_listener default_tcp_listen cfg), con)
      else if cursor = 1 then (Inr False, set_metrics_listener default_tcp_listen cfg, con)
      else if cursor = 2 then (Inr False, set_metrics_listener default_all_tcp_listen cfg, con)
      else if cursor = 3 then (case prompt_string validate_tcp_listen con of
          (Inl e, con') \<Rightarrow> (Inl e, cfg, con')
        | (Inr next, con') \<Rightarrow> (Inr False, (case next of None \<Rightarrow> cfg | Some v \<Rightarrow> set_metrics_listener v cfg), con'))
      else if cursor = 4 then
        (Inr False, (if command_listener cfg \<noteq> None then remove_listener_api APIKindCommands cfg
           else set_command_listener (''unix:'' @ default_unix_socket_path) cfg), con)
      else if cursor = 5 then (case prompt_string validate_unix_socket_path con of
          (Inl e, con') \<Rightarrow> (Inl e, cfg, con')
        | (Inr next, con') \<Rightarrow> (Inr False, (case next of None \<Rightarrow> cfg
            | Some v \<Rightarrow> set_command_listener (unix_socket_listen_value v) cfg), con'))
      else if cursor = 6 then (Inr False, cfg\<lparr>cf_listeners := []\<rparr>, con)
      else (Inr False, cfg, con))"

definition listen_menu :: "config \<Rightarrow> console \<Rightarrow> string \<Rightarrow> unit res \<times> config \<times> console \<times> string" where
  "listen_menu = menu_loop 8 handle_listen_enter 0"

section \<open>History plugins\<close>

definition selected_history_plugins :: "string \<Rightarrow> (string \<Rightarrow> bool) res" where
  "selected_history_plugins raw = attempt (parse_history_plugins raw True (\<lambda>_. None)) (\<lambda>ps. Inr (\<lambda>p. p \<in> set ps))"

definition history_from_selection :: "(string \<Rightarrow> bool) \<Rightarrow> string" where
  "history_from_selection selected =
     (let out = filter selected plugin_names in
      if out = [] then ''none''
      else if length out = length plugin_names then ''all''
      else join_with '','' out)"

definition apply_history_enter :: "nat \<Rightarrow> (string \<Rightarrow> bool) \<Rightarrow> bool \<times> (string \<Rightarrow> bool)" where
  "apply_history_enter cursor selected =
     (if cursor = length plugin_names + 2 then (True, selected)
      else if cursor = 0 then (False, \<lambda>p. p \<in> set plugin_names \<or> selected p)
      else if cursor = 1 then (False, \<lambda>p. p \<notin> set plugin_names \<and> selected p)
      else let p = plugin_names ! (cursor - 2) in (False, selected(p := \<not> selected p)))"

definition history_menu :: "config \<Rightarrow> console \<Rightarrow> string \<Rightarrow> unit res \<times> config \<times> console \<times> string" where
  "history_menu cfg con keys = (case selected_history_plugins (cf_history cfg) of
     Inl e \<Rightarrow> (Inl e, cfg, con, keys)
   | Inr selected \<Rightarrow>
       (case menu_loop (length plugin_names + 3)
            (\<lambda>cursor sel con. case apply_history_enter cursor sel of (is_done, sel') \<Rightarrow> (Inr is_done, sel', con)) 0 selected con keys of
          (Inl e, _, con', ks) \<Rightarrow> (Inl e, cfg, con', ks)
        | (Inr _, sel, con', ks) \<Rightarrow> (Inr (), cfg\<lparr>cf_history := history_from_selection sel\<rparr>, con', ks)))"

section \<open>Cache times\<close>

text \<open>
  The configuration here is an effective one, whose map of cache times is not nil; assigning to a nil
  map would be a panic, and ends the menu here.
\<close>

definition validate_cache_ttl :: "int \<Rightarrow> unit res" where
  "validate_cache_ttl ttl = (if ttl < 0 then Inl (ErrText ''duration must not be negative'') else Inr ())"

definition validate_collector_interval :: "int \<Rightarrow> unit res" where
  "validate_collector_interval d = (if d \<le> 0 then Inl (ErrText ''duration must be greater than zero'') else Inr ())"

definition with_prompted :: "int option res \<times> console \<Rightarrow> (int \<Rightarrow> config \<Rightarrow> config res) \<Rightarrow> config \<Rightarrow> bool res \<times> config \<times> console" where
  "with_prompted answer f cfg = (case answer of
     (Inl e, con) \<Rightarrow> (Inl e, cfg, con)
   | (Inr None, con) \<Rightarrow> (Inr False, cfg, con)
   | (Inr (Some d), con) \<Rightarrow> (case f d cfg of Inl e \<Rightarrow> (Inl e, cfg, con) | Inr cfg' \<Rightarrow> (Inr False, cfg', con)))"

definition handle_cache_enter :: "string \<Rightarrow> nat \<Rightarrow> config \<Rightarrow> console \<Rightarrow> bool res \<times> config \<times> console" where
  "handle_cache_enter socket_path cursor cfg con =
     (if cursor = length cache_keys + 3 then (Inr True, cfg, con)
      else if cursor = 0 then with_prompted (prompt_duration validate_cache_ttl con) (\<lambda>d c. Inr (apply_cache_default d c)) cfg
      else if cursor = 1 then with_prompted (prompt_duration validate_cache_ttl con) apply_cache_expensive cfg
      else if cursor = 2 then (Inr False, cfg\<lparr>cf_cache_ttl := cf_cache_ttl (default_config socket_path)\<rparr>, con)
      else with_prompted (prompt_duration validate_cache_ttl con) (set_cache_ttl (cache_keys ! (cursor - 3))) cfg)"

definition cache_menu :: "string \<Rightarrow> config \<Rightarrow> console \<Rightarrow> string \<Rightarrow> unit res \<times> config \<times> console \<times> string" where
  "cache_menu socket_path = menu_loop (length cache_keys + 4) (handle_cache_enter socket_path) 0"

end
