(* ===== verification/Duration_Facts.thy ===== *)
theory Duration_Facts
  imports Golib
begin

text \<open>
  A duration that is written by \<open>Duration.String\<close> is read back exactly by \<open>ParseDuration\<close>: the
  fraction goes through floats, but only through integers that they represent.
\<close>

section \<open>Digits\<close>

definition all_digits :: "string \<Rightarrow> bool" where
  "all_digits s = list_all is_digit s"

text \<open>What follows a number does not continue it.\<close>

definition stops :: "string \<Rightarrow> bool" where
  "stops s = (s = [] \<or> \<not> is_digit (hd s))"

lemma stops_Cons [simp]: "stops (c # s) \<longleftrightarrow> \<not> is_digit c"
  by (simp add: stops_def)

lemma digit_value_None [simp]: "\<not> is_digit c \<Longrightarrow> digit_value c = None"
  by (simp add: is_digit_def)

lemma digits_value_digits: "digits_value a ds = Some v \<Longrightarrow> all_digits ds"
  by (induction ds arbitrary: a) (auto simp: all_digits_def is_digit_def simp del: digit_value_None split: option.splits)

lemma digits_value_mono: "digits_value a ds = Some v \<Longrightarrow> a \<le> v"
proof (induction ds arbitrary: a)
  case (Cons c cs)
  then obtain d where "digits_value (10 * a + d) cs = Some v" by (auto split: option.splits)
  then have "10 * a + d \<le> v" by (rule Cons.IH)
  then show ?case by simp
qed simp

lemma leading_int_digits:
  "digits_value a ds = Some v \<Longrightarrow> int v \<le> 2 ^ 63 \<Longrightarrow> stops rest \<Longrightarrow> leading_int (int a) (ds @ rest) = Some (int v, rest)"
proof (induction ds arbitrary: a)
  case Nil
  then show ?case by (cases rest) simp_all
next
  case (Cons c cs)
  obtain d where d: "digit_value c = Some d" "digits_value (10 * a + d) cs = Some v"
    using Cons.prems(1) by (auto split: option.splits)
  have m: "10 * int a + int d \<le> 2 ^ 63"
    using digits_value_mono [OF d(2)] Cons.prems(2) by simp
  then have "\<not> 2 ^ 63 div 10 < int a" by simp
  then show ?case
    using Cons.IH [OF d(2) Cons.prems(2,3)] d(1) m by (simp add: Let_def mult.commute)
qed

lemma leading_int_nat_digits:
  "int n \<le> 2 ^ 63 \<Longrightarrow> stops rest \<Longrightarrow> leading_int 0 (nat_digits n @ rest) = Some (int n, rest)"
  using leading_int_digits [OF digits_value_nat_digits] by simp

lemma nat_digits_digits: "all_digits (nat_digits n)"
  by (rule digits_value_digits [OF digits_value_nat_digits])

lemma hd_nat_digits_digit [simp]: "is_digit (hd (nat_digits n))"
  using nat_digits_digits [of n] nat_digits_not_Nil [of n] unfolding all_digits_def by (cases "nat_digits n") auto

section \<open>Fractions\<close>

lemma pow10_bound: "k \<le> 15 \<Longrightarrow> (10::int) ^ k \<le> 2 ^ 53"
proof -
  assume "k \<le> 15"
  then have "(10::int) ^ k \<le> 10 ^ 15" by (intro power_increasing) simp_all
  then show ?thesis by simp
qed

lemma rnd_of_int: "\<bar>i\<bar> \<le> 2 ^ 53 \<Longrightarrow> rnd False (of_int i) = Num (of_int i)"
proof -
  assume i: "\<bar>i\<bar> \<le> 2 ^ 53"
  have "\<bar>of_int i :: rat\<bar> \<le> of_int (2 ^ 53)"
    using i by (metis of_int_abs of_int_le_iff)
  also have "\<dots> \<le> max_f64" by (simp add: max_f64_def)
  finally have "\<not> max_f64 < \<bar>of_int i :: rat\<bar>" by simp
  moreover have "rnd_val (of_int i) = of_int i"
    using i by (intro rnd_val_of_int) simp
  ultimately show ?thesis by (simp add: rnd_def Let_def)
qed

lemma scale_step: "k + 1 \<le> 15 \<Longrightarrow> fmul (Num (10 ^ k)) (Num 10) = Num (10 ^ (k + 1))"
  using rnd_of_int [of "10 ^ (k + 1)"] pow10_bound [of "k + 1"] by (simp add: fmul_fin mult.commute)

lemma leading_fraction_digits:
  "digits_value a ds = Some v \<Longrightarrow> int v < 10 ^ 15 \<Longrightarrow> k + length ds \<le> 15 \<Longrightarrow> stops rest \<Longrightarrow>
     leading_fraction (int a) (Num (10 ^ k)) False (ds @ rest) = (int v, Num (10 ^ (k + length ds)), rest)"
proof (induction ds arbitrary: a k)
  case Nil
  then show ?case by (cases rest) simp_all
next
  case (Cons c cs)
  obtain d where d: "digit_value c = Some d" "digits_value (10 * a + d) cs = Some v"
    using Cons.prems(1) by (auto split: option.splits)
  have m: "10 * int a + int d < 10 ^ 15"
    using digits_value_mono [OF d(2)] Cons.prems(2) by simp
  have "leading_fraction (int (10 * a + d)) (Num (10 ^ (k + 1))) False (cs @ rest)
      = (int v, Num (10 ^ (k + 1 + length cs)), rest)"
    using Cons.prems by (intro Cons.IH [OF d(2)]) simp_all
  then show ?case
    using d(1) m scale_step [of k] Cons.prems(3) by (simp add: Let_def mult.commute)
qed

lemma digits_value_zeros: "digits_value a (replicate n (CHR ''0'')) = Some (a * 10 ^ n)"
  by (induction n arbitrary: a) (simp_all add: digit_value_def)

lemma dropWhile_zeros:
  obtains n where "s = rev (dropWhile (\<lambda>c. c = CHR ''0'') (rev s)) @ replicate n (CHR ''0'')"
proof -
  have "takeWhile (\<lambda>c. c = CHR ''0'') (rev s) = replicate (length (takeWhile (\<lambda>c. c = CHR ''0'') (rev s))) (CHR ''0'')"
    by (rule replicate_eqI) (auto dest: set_takeWhileD)
  then have "rev s = replicate (length (takeWhile (\<lambda>c. c = CHR ''0'') (rev s))) (CHR ''0'') @ dropWhile (\<lambda>c. c = CHR ''0'') (rev s)"
    by (metis takeWhile_dropWhile_id)
  then have "s = rev (dropWhile (\<lambda>c. c = CHR ''0'') (rev s)) @ replicate (length (takeWhile (\<lambda>c. c = CHR ''0'') (rev s))) (CHR ''0'')"
    by (metis rev_append rev_replicate rev_rev_ident)
  then show ?thesis by (rule that)
qed

lemma length_nat_digits: "n < 10 ^ k \<Longrightarrow> 0 < k \<Longrightarrow> length (nat_digits n) \<le> k"
proof (induction n arbitrary: k rule: nat_digits.induct)
  case (1 n)
  show ?case
  proof (cases "n < 10")
    case False
    then have k: "1 < k" using "1.prems" by (cases "k = 1") auto
    then have "(10::nat) ^ k = 10 ^ (k - 1) * 10" using k by (metis One_nat_def Suc_lessD power_minus_mult)
    then have "n div 10 < 10 ^ (k - 1)" using "1.prems" by (simp add: less_mult_imp_div_less)
    then have "length (nat_digits (n div 10)) \<le> k - 1" using "1.IH" [OF False, of "k - 1"] k by simp
    then show ?thesis using False k by (subst nat_digits.simps) simp
  qed (use "1.prems" in \<open>subst nat_digits.simps, simp\<close>)
qed

lemma frac_string_digits:
  assumes "0 \<le> v" "v < 10 ^ prec" "0 < prec" "v \<noteq> 0"
  obtains ds f where "frac_string prec v = CHR ''.'' # ds" "ds \<noteq> []" "digits_value 0 ds = Some f"
    "length ds \<le> prec" "int f * 10 ^ (prec - length ds) = v"
proof -
  define n where "n = nat v"
  define padded where "padded = replicate (prec - length (nat_digits n)) (CHR ''0'') @ nat_digits n"
  define ds where "ds = rev (dropWhile (\<lambda>c. c = CHR ''0'') (rev padded))"
  have n: "int n = v" "n < 10 ^ prec" using assms by (simp_all add: n_def nat_less_iff)
  have v: "digits_value 0 padded = Some n"
    by (simp add: padded_def digits_value_append digits_value_zeros digits_value_nat_digits)
  have l: "length padded = prec"
    using length_nat_digits [OF n(2) assms(3)] by (simp add: padded_def)
  obtain z where z: "padded = ds @ replicate z (CHR ''0'')"
    using dropWhile_zeros [of padded] unfolding ds_def by metis
  obtain f where f: "digits_value 0 ds = Some f" "n = f * 10 ^ z"
    using v unfolding z digits_value_append by (auto simp: digits_value_zeros split: option.splits)
  have "ds \<noteq> []"
    using f assms(4) n(1) by auto
  moreover have "frac_string prec v = CHR ''.'' # ds"
    using \<open>ds \<noteq> []\<close> assms(1) unfolding frac_string_def format_int_def Let_def ds_def padded_def n_def by simp
  moreover have "z = prec - length ds" "length ds \<le> prec" using z l by auto
  ultimately show ?thesis using that [of ds f] f n(1) by auto
qed

text \<open>The product that adds a fraction of a unit is exact.\<close>

lemma fraction_amount:
  assumes "u = 10 ^ p" "p \<le> 9" "j \<le> p" "0 \<le> f" "f < 10 ^ j"
  shows "to_uint64 (fmul (of_uint64 (word_of_int f)) (fdiv (of_uint64 (word_of_int u)) (Num (10 ^ j)))) = word_of_int (f * 10 ^ (p - j))"
proof -
  have b: "(10::int) ^ k \<le> 1000000000" if "k \<le> 9" for k
    using power_increasing [of k 9 "10::int"] that by simp
  have u: "0 \<le> u" "u \<le> 1000000000" and q: "(10::int) ^ (p - j) \<le> 1000000000" and f: "f \<le> 1000000000"
    using assms b [of p] b [of "p - j"] b [of j] by auto
  have w: "uint (word_of_int x :: 64 word) = x" if "0 \<le> x" "x \<le> 1000000000" for x
    using that by (simp add: uint_word_of_int)
  have fu: "of_uint64 (word_of_int u) = Num (of_int u)" and ff: "of_uint64 (word_of_int f) = Num (of_int f)"
    using u f assms(4) by (simp_all add: of_uint64_def w rnd_of_int)
  have s: "(10::int) ^ p = 10 ^ (p - j) * 10 ^ j" using assms(3) by (simp add: power_add [symmetric])
  then have "(of_int u :: rat) / 10 ^ j = of_int (10 ^ (p - j))" by (simp add: assms(1))
  then have d: "fdiv (Num (of_int u)) (Num (10 ^ j)) = Num (of_int (10 ^ (p - j)))"
    using rnd_of_int [of "10 ^ (p - j)"] q u(1) by (simp add: fdiv_def)
  have "f * 10 ^ (p - j) < 10 ^ j * 10 ^ (p - j)"
    using assms(5) by (intro mult_strict_right_mono) simp_all
  also have "\<dots> = 10 ^ p" using s by (simp add: mult.commute)
  finally have m: "0 \<le> f * 10 ^ (p - j)" "f * 10 ^ (p - j) \<le> 1000000000"
    using b [of p] assms(2,4) by simp_all
  have "rnd False (of_int (f * 10 ^ (p - j))) = Num (of_int (f * 10 ^ (p - j)))"
    by (rule rnd_of_int) (use m in simp)
  then have "fmul (Num (of_int f)) (Num (of_int (10 ^ (p - j)))) = Num (of_int (f * 10 ^ (p - j)))"
    using assms(4) by (simp add: fmul_fin)
  moreover have "trunc (of_int x) = x" for x by (simp add: trunc_def)
  then have "to_uint64 (Num (of_int (f * 10 ^ (p - j)))) = word_of_int (f * 10 ^ (p - j))"
    using m unfolding to_uint64_def by (simp only: fin.simps fval.simps Let_def) simp
  ultimately show ?thesis unfolding ff fu d by simp
qed

section \<open>Parts\<close>

definition unit_of :: "string \<Rightarrow> int \<Rightarrow> bool" where
  "unit_of u w = (u \<noteq> [] \<and> list_all unit_char u \<and> map_of unit_map u = Some w \<and> 0 < w)"

lemma units:
  "unit_of ''ns'' 1" "unit_of [CHR 0xC2, CHR 0xB5, CHR ''s''] 1000" "unit_of ''ms'' 1000000"
  "unit_of ''s'' 1000000000" "unit_of ''m'' 60000000000" "unit_of ''h'' 3600000000000"
  by code_simp+

text \<open>The rest after a unit: nothing, or the next number.\<close>

definition next_part :: "string \<Rightarrow> bool" where
  "next_part s = (s = [] \<or> is_digit (hd s))"

lemma next_part_simps [simp]: "next_part []" "next_part (nat_digits n @ s)"
  by (simp_all add: next_part_def)

lemma unit_char_split:
  assumes "unit_of u w" "next_part rest"
  shows "takeWhile unit_char (u @ rest) = u" "dropWhile unit_char (u @ rest) = rest"
proof -
  have "\<forall>c \<in> set u. unit_char c" using assms(1) by (simp add: unit_of_def list_all_iff)
  moreover have "takeWhile unit_char rest = []" "dropWhile unit_char rest = rest"
    using assms(2) by (cases rest; simp add: next_part_def unit_char_def)+
  ultimately show "takeWhile unit_char (u @ rest) = u" "dropWhile unit_char (u @ rest) = rest" by simp_all
qed

lemma unit_hd: "unit_of u w \<Longrightarrow> hd (u @ s) \<noteq> CHR ''.'' \<and> stops (u @ s)"
  by (cases u) (auto simp: unit_of_def unit_char_def)

lemma duration_part_plain:
  assumes "unit_of u w" "next_part rest" "int n * w \<le> 2 ^ 63"
  shows "duration_part (nat_digits n @ u @ rest) = Some (int n * w, rest)"
proof -
  have w: "0 < w" and u: "u \<noteq> []" and m: "map_of unit_map u = Some w" using assms(1) by (simp_all add: unit_of_def)
  have "int n \<le> 2 ^ 63 div w"
    using assms(3) w by (simp add: zdiv_mono1 [of "int n * w" "2 ^ 63" w, simplified])
  moreover have "int n \<le> 2 ^ 63"
    using mult_left_mono [of 1 w "int n"] w assms(3) by simp
  then have "leading_int 0 (nat_digits n @ u @ rest) = Some (int n, u @ rest)"
    using unit_hd [OF assms(1)] by (intro leading_int_nat_digits) simp_all
  ultimately show ?thesis
    unfolding duration_part_def using unit_hd [OF assms(1), of rest] u m assms(3)
    by (simp add: Let_def unit_char_split [OF assms(1,2)])
qed

lemma duration_part_frac:
  assumes "unit_of u (10 ^ p)" "0 < p" "p \<le> 9" "next_part rest" "0 \<le> v" "v < 10 ^ p" "int n * 10 ^ p + v \<le> 2 ^ 63"
  shows "duration_part (nat_digits n @ frac_string p v @ u @ rest) = Some (int n * 10 ^ p + v, rest)"
proof (cases "v = 0")
  case True
  have "rev (dropWhile (\<lambda>c. c = CHR ''0'') (rev (replicate (p - 1) (CHR ''0'') @ ''0''))) = []" by simp
  moreover have "nat_digits 0 = ''0''" by code_simp
  ultimately have "frac_string p 0 = []" by (simp add: frac_string_def format_int_def)
  then show ?thesis using True duration_part_plain [OF assms(1,4)] assms(7) by simp
next
  case False
  obtain ds f where f: "frac_string p v = CHR ''.'' # ds" "ds \<noteq> []" "digits_value 0 ds = Some f" "length ds \<le> p"
      "int f * 10 ^ (p - length ds) = v"
    using frac_string_digits [OF assms(5,6,2) False] by metis
  have u: "u \<noteq> []" "map_of unit_map u = Some (10 ^ p)" using assms(1) by (simp_all add: unit_of_def)
  have fv: "int f \<le> v" using f(5) by (metis int_ops(4) mult_right_mono one_le_numeral one_le_power mult.right_neutral mult_left_mono of_nat_0_le_iff)
  have b: "v < 10 ^ 15"
    using assms(3,6) power_increasing [of p 15 "10::int"] by simp
  have "int n * 10 ^ p \<le> 2 ^ 63" using assms(5,7) by linarith
  then have n: "int n \<le> 2 ^ 63 div 10 ^ p"
    using zdiv_mono1 [of "int n * 10 ^ p" "2 ^ 63" "10 ^ p"] by simp
  have "int n * 1 \<le> int n * 10 ^ p" by (intro mult_left_mono) simp_all
  then have "int n \<le> 2 ^ 63" using \<open>int n * 10 ^ p \<le> 2 ^ 63\<close> by simp
  then have li: "leading_int 0 (nat_digits n @ CHR ''.'' # ds @ u @ rest) = Some (int n, CHR ''.'' # ds @ u @ rest)"
    by (intro leading_int_nat_digits) (simp_all add: is_digit_def digit_value_def)
  have lf: "leading_fraction 0 (Num 1) False (ds @ u @ rest) = (int f, Num (10 ^ length ds), u @ rest)"
    using leading_fraction_digits [OF f(3), of 0 "u @ rest"] fv b assms(3) f(4) unit_hd [OF assms(1), of rest] by simp
  have "int f < 10 ^ length ds"
  proof -
    have "int f * 10 ^ (p - length ds) < 10 ^ length ds * 10 ^ (p - length ds)"
      using f(4,5) assms(6) by (simp add: power_add [symmetric])
    then show ?thesis by (rule mult_right_less_imp_less) simp
  qed
  then have am: "uint (to_uint64 (fmul (of_uint64 (word_of_int (int f))) (fdiv (of_uint64 (word_of_int (10 ^ p))) (Num (10 ^ length ds))))) = v"
    using fraction_amount [OF refl assms(3) f(4), of "int f"] f(5) b assms(5) by (simp add: uint_word_of_int)
  have "f \<noteq> 0" using f(5) False by (cases f) auto
  then show ?thesis
    unfolding duration_part_def f(1) using li lf n u am assms(7) f(2)
    by (simp add: Let_def unit_char_split [OF assms(1,4)])
qed

lemma duration_parts_step:
  "duration_part s = Some (v, rest) \<Longrightarrow> s \<noteq> [] \<Longrightarrow> d + v \<le> 2 ^ 63 \<Longrightarrow> 0 < fuel \<Longrightarrow>
    duration_parts fuel d s = duration_parts (fuel - 1) (d + v) rest"
  by (cases fuel) simp_all

lemma duration_parts_Nil [simp]: "duration_parts fuel d [] = Some d"
  by (cases fuel) simp_all

lemma parse_duration_digits:
  assumes "s = nat_digits n @ t" "t \<noteq> []" "duration_parts (length s) 0 s = Some d" "d < 2 ^ 63"
  shows "parse_duration s = Some d"
proof -
  obtain c cs where c: "s = c # cs" "c \<noteq> CHR ''-''" "c \<noteq> CHR ''+''"
    using nat_digits_unsigned [of n] assms(1) by auto
  have "2 \<le> length s" using assms(1,2) nat_digits_not_Nil [of n] by (cases "nat_digits n"; cases t) simp_all
  then have "s \<noteq> ''0''" by auto
  moreover have "hd s \<noteq> CHR ''-''" "hd s \<noteq> CHR ''+''" "s \<noteq> []" using c by simp_all
  ultimately show ?thesis using assms(3,4) unfolding parse_duration_def Let_def by simp
qed

section \<open>The round trip\<close>

lemma small_duration:
  assumes "unit_of u (10 ^ p)" "0 < p" "p \<le> 9" "0 \<le> v" "v < 10 ^ p" "d = int n * 10 ^ p + v" "d < 2 ^ 63"
  shows "parse_duration (nat_digits n @ frac_string p v @ u) = Some d"
proof (rule parse_duration_digits [OF refl])
  let ?s = "nat_digits n @ frac_string p v @ u"
  show "frac_string p v @ u \<noteq> []" using assms(1) by (simp add: unit_of_def)
  have "duration_part (nat_digits n @ frac_string p v @ u @ []) = Some (d, [])"
    unfolding assms(6) using assms by (intro duration_part_frac) simp_all
  then have "duration_parts (length ?s) 0 ?s = duration_parts (length ?s - 1) (0 + d) []"
    using assms(7) by (intro duration_parts_step) simp_all
  then show "duration_parts (length ?s) 0 ?s = Some d" by simp
qed (rule assms)

lemma long_duration:
  assumes "0 \<le> h" "0 \<le> m" "0 \<le> s" "0 \<le> v" "v < 1000000000" "d = ((h * 60 + m) * 60 + s) * 1000000000 + v" "d < 2 ^ 63"
    and "hs = (if 0 < h then format_int h @ ''h'' else [])" "ms = (if 0 < h \<or> 0 < m then format_int m @ ''m'' else [])"
  shows "parse_duration (hs @ ms @ format_int s @ frac_string 9 v @ ''s'') = Some d"
proof -
  let ?t = "nat_digits (nat s) @ frac_string 9 v @ ''s''"
  have fi: "format_int x = nat_digits (nat x)" if "0 \<le> x" for x using that by (simp add: format_int_def)
  have S: "duration_parts fuel d0 ?t = Some d" if "0 < fuel" "d0 + s * 1000000000 + v = d" "0 \<le> d0" for fuel d0
  proof -
    have "duration_part (nat_digits (nat s) @ frac_string 9 v @ ''s'' @ []) = Some (int (nat s) * 10 ^ 9 + v, [])"
      using assms(3-5,7) that units(4) by (intro duration_part_frac) simp_all
    then have "duration_parts fuel d0 ?t = duration_parts (fuel - 1) (d0 + (int (nat s) * 10 ^ 9 + v)) []"
      using assms(3,7) that by (intro duration_parts_step) simp_all
    then show ?thesis using assms(3) that(2) by simp
  qed
  have M: "duration_parts fuel d0 (nat_digits (nat m) @ ''m'' @ ?t) = Some d"
    if "1 < fuel" "d0 + (m * 60 + s) * 1000000000 + v = d" "0 \<le> d0" for fuel d0
  proof -
    have "duration_part (nat_digits (nat m) @ ''m'' @ ?t) = Some (int (nat m) * 60000000000, ?t)"
      using assms(2-4,7) that units(5) by (intro duration_part_plain) simp_all
    then have "duration_parts fuel d0 (nat_digits (nat m) @ ''m'' @ ?t) = duration_parts (fuel - 1) (d0 + int (nat m) * 60000000000) ?t"
      using assms(2-4,7) that by (intro duration_parts_step) simp_all
    also have "\<dots> = Some d" using assms(2) that by (intro S) simp_all
    finally show ?thesis .
  qed
  consider "0 < h" | "h = 0" "0 < m" | "h = 0" "m = 0" using assms(1,2) by linarith
  then show ?thesis
  proof cases
    case 1
    let ?s = "nat_digits (nat h) @ ''h'' @ nat_digits (nat m) @ ''m'' @ ?t"
    have "duration_part ?s = Some (int (nat h) * 3600000000000, nat_digits (nat m) @ ''m'' @ ?t)"
      using assms(1-4,6,7) units(6) by (intro duration_part_plain) simp_all
    then have "duration_parts (length ?s) 0 ?s = duration_parts (length ?s - 1) (0 + int (nat h) * 3600000000000) (nat_digits (nat m) @ ''m'' @ ?t)"
      using assms(1-4,6,7) by (intro duration_parts_step) simp_all
    also have "\<dots> = Some d" using assms(1,6) by (intro M) simp_all
    finally have parts: "duration_parts (length ?s) 0 ?s = Some d" .
    have "parse_duration ?s = Some d" by (rule parse_duration_digits [OF refl _ parts assms(7)]) simp
    then show ?thesis using 1 assms(1-3,8,9) by (simp add: fi)
  next
    case 2
    have "parse_duration (nat_digits (nat m) @ ''m'' @ ?t) = Some d"
      by (rule parse_duration_digits [OF refl _ M]) (use 2 assms(6,7) in simp_all)
    then show ?thesis using 2 assms(2,3,8,9) by (simp add: fi)
  next
    case 3
    have "parse_duration ?t = Some d"
      by (rule parse_duration_digits [OF refl _ S]) (use 3 assms(6,7) in simp_all)
    then show ?thesis using 3 assms(3,8,9) by (simp add: fi)
  qed
qed

lemma duration_round_trip:
  assumes "0 \<le> d" "d < 2 ^ 63"
  shows "parse_duration (duration_string d) = Some d"
proof -
  have fi: "format_int x = nat_digits (nat x)" if "0 \<le> x" for x using that by (simp add: format_int_def)
  consider "d = 0" | "0 < d" "d < 1000" | "1000 \<le> d" "d < millisecond" | "millisecond \<le> d" "d < second" | "second \<le> d"
    using assms by linarith
  then show ?thesis
  proof cases
    case 1
    have "parse_duration ''0s'' = Some 0" by code_simp
    then show ?thesis using 1 by (simp add: duration_string_def Let_def)
  next
    case 2
    have "duration_part (nat_digits (nat d) @ ''ns'' @ []) = Some (int (nat d) * 1, [])"
      using 2 units(1) by (intro duration_part_plain) simp_all
    then have "parse_duration (nat_digits (nat d) @ ''ns'') = Some d"
      using 2 by (intro parse_duration_digits [OF refl]) (simp_all add: duration_parts_step)
    then show ?thesis using 2 by (simp add: duration_string_def Let_def fi millisecond_def second_def)
  next
    case 3
    have "parse_duration (nat_digits (nat (d div 1000)) @ frac_string 3 (d mod 1000) @ [CHR 0xC2, CHR 0xB5, CHR ''s'']) = Some d"
      using 3 assms units(2) by (intro small_duration) simp_all
    then show ?thesis using 3 by (simp add: duration_string_def Let_def fi)
  next
    case 4
    have "parse_duration (nat_digits (nat (d div millisecond)) @ frac_string 6 (d mod millisecond) @ ''ms'') = Some d"
      using 4 assms units(3) by (intro small_duration) (simp_all add: millisecond_def)
    then show ?thesis using 4 by (simp add: duration_string_def Let_def fi millisecond_def)
  next
    case 5
    define secs where "secs = d div second"
    define mins where "mins = secs div 60"
    have pos: "0 \<le> secs" "0 \<le> mins" using assms by (simp_all add: secs_def mins_def second_def)
    have hm: "0 < mins \<longleftrightarrow> 0 < mins div 60 \<or> 0 < mins mod 60"
      using pos by presburger
    have "parse_duration ((if 0 < mins div 60 then format_int (mins div 60) @ ''h'' else [])
        @ (if 0 < mins div 60 \<or> 0 < mins mod 60 then format_int (mins mod 60) @ ''m'' else [])
        @ format_int (secs mod 60) @ frac_string 9 (d mod second) @ ''s'') = Some d"
      using pos assms by (intro long_duration [OF _ _ _ _ _ _ _ refl refl]) (simp_all add: mins_def secs_def second_def)
    moreover have "duration_string d = (if 0 < mins div 60 then format_int (mins div 60) @ ''h'' else [])
        @ (if 0 < mins then format_int (mins mod 60) @ ''m'' else [])
        @ format_int (secs mod 60) @ frac_string 9 (d mod second) @ ''s''"
      using 5 assms by (simp add: duration_string_def Let_def mins_def secs_def millisecond_def second_def)
    ultimately show ?thesis by (simp only: hm)
  qed
qed

lemma hd_format_int: "0 \<le> x \<Longrightarrow> is_digit (hd (format_int x)) \<and> format_int x \<noteq> []"
  by (simp add: format_int_def)

lemma duration_string_ends:
  assumes "0 \<le> d"
  shows "duration_string d \<noteq> [] \<and> is_digit (hd (duration_string d)) \<and> last (duration_string d) = CHR ''s''"
proof -
  have "is_digit (CHR ''0'')" by code_simp
  moreover have "0 \<le> d div second" using assms by (simp add: second_def)
  ultimately show ?thesis
    using assms hd_format_int by (simp add: duration_string_def Let_def second_def millisecond_def)
qed

end
