(* ===== verification/Command_Properties.thy ===== *)
theory Command_Properties
  imports Command_Api Config_Menu Duration_Facts
begin

text \<open>
  A saved configuration is read back, setting it by a command is all or nothing, and no sequence of
  commands opens the agent to the network without consent.
\<close>

section \<open>Reading back what was saved\<close>

lemma dec_strs_over: "dec_elems_over dec_str_over z olds (map JStr ss) = Inr ss"
  by (induction ss arbitrary: olds) (simp_all add: dec_str_over_def)

lemma dec_enc_listener:
  "dec_listener_over old (enc_listener l) = Inr (l\<lparr>ls_implicit := ls_implicit old\<rparr>)"
proof -
  have k: "fold_keys [(''name'', a), (''address'', b), (''apis'', c)] = [(''name'', a), (''address'', b), (''apis'', c)]" for a b c
    by (simp add: fold_keys_def to_lower_def lower_char_def)
  show ?thesis
    unfolding dec_listener_over_def enc_listener_def jf_def enc_arr_def
    by (simp add: k dec_listener_field_def dec_str_over_def dec_slice_over_def dec_strs_over)
qed

text \<open>The first listeners of a file take the hidden mark of the defaults.\<close>

fun marked :: "listener list \<Rightarrow> listener list \<Rightarrow> listener list" where
  "marked olds [] = []"
| "marked olds (l # ls) = l\<lparr>ls_implicit := (case olds of [] \<Rightarrow> False | old # _ \<Rightarrow> ls_implicit old)\<rparr>
     # marked (case olds of [] \<Rightarrow> [] | _ # rest \<Rightarrow> rest) ls"

lemma dec_enc_listeners: "dec_elems_over dec_listener_over zero_listener olds (map enc_listener ls) = Inr (marked olds ls)"
  by (induction olds ls rule: marked.induct) (simp_all add: dec_enc_listener zero_listener_def split: list.splits)

definition int64_duration :: "int \<Rightarrow> bool" where
  "int64_duration d = (0 \<le> d \<and> d < 2 ^ 63)"

lemma trim_duration: "0 \<le> d \<Longrightarrow> trim_space (duration_string d) = duration_string d"
  using duration_string_ends [of d] by (intro trim_space_fix) (auto simp: is_space_def is_digit_def digit_value_def Let_def split: if_splits)

lemma dec_enc_duration: "int64_duration d \<Longrightarrow> dec_duration (enc_duration d) = Inr d"
  by (simp add: dec_duration_def enc_duration_def trim_duration duration_round_trip int64_duration_def)

lemma mput_fold_ext:
  "fold_res (\<lambda>m (key, v). attempt (dec_duration v) (\<lambda>d. Inr (mput key d m))) old (map (\<lambda>(k, v). (k, enc_duration v)) m)
     = Inr (foldl (\<lambda>m (k, v). mput k v m) old m)"
  if "list_all (\<lambda>(k, d). int64_duration d) m"
  using that by (induction m arbitrary: old) (auto simp: dec_enc_duration)

lemma foldl_mput_mget:
  "distinct (map fst m) \<Longrightarrow> mget (foldl (\<lambda>m (k, v). mput k v m) old m) k = (case map_of m k of None \<Rightarrow> mget old k | Some v \<Rightarrow> Some v)"
proof (induction m arbitrary: old)
  case (Cons kv m)
  obtain a b where kv: "kv = (a, b)" by (cases kv)
  have "map_of m a = None" using Cons.prems by (simp add: kv map_of_eq_None_iff)
  then show ?case using Cons by (cases "a = k") (simp_all add: kv split: option.splits)
qed simp

lemma foldl_mput_sorted: "msorted old \<Longrightarrow> msorted (foldl (\<lambda>m (k, v). mput k v m) old m)"
  by (induction m arbitrary: old) (auto simp: msorted_mput)

lemma foldl_mput_over:
  assumes "msorted m" "msorted old" "fst ` set old \<subseteq> fst ` set m"
  shows "foldl (\<lambda>m (k, v). mput k v m) old m = m"
proof (rule msorted_ext)
  have d: "distinct (map fst m)" using assms(1) by (simp add: msorted_def strict_sorted_iff)
  fix k
  show "mget (foldl (\<lambda>m (k, v). mput k v m) old m) k = mget m k"
  proof (cases "map_of m k")
    case None
    then have "k \<notin> fst ` set old" using assms(3) by (auto simp: map_of_eq_None_iff)
    then show ?thesis unfolding foldl_mput_mget [OF d] using None by (simp add: mget_def [of m] mget_None_iff)
  qed (simp add: foldl_mput_mget [OF d] mget_def [of m])
qed (use assms foldl_mput_sorted in auto)

text \<open>
  What \<open>Load\<close> makes of every configuration: trimmed names, a sorted map of cache times that has the default
  keys.  Durations are 64-bit.
\<close>

definition storable :: "config \<Rightarrow> bool" where
  "storable cfg = (normalize_loaded_config cfg = cfg \<and> int64_duration (cf_collector_interval cfg)
     \<and> int64_duration (cf_smart_refresh_interval cfg)
     \<and> (case cf_cache_ttl cfg of None \<Rightarrow> True | Some m \<Rightarrow> msorted m
          \<and> list_all (\<lambda>k. k \<in> fst ` set m) (map fst default_live_current_ttls)
          \<and> list_all (\<lambda>(k, d). int64_duration d) m))"

lemma default_ttls_sorted: "msorted default_live_current_ttls"
  by code_simp

lemma dec_enc_ttls:
  assumes "msorted m" "list_all (\<lambda>k. k \<in> fst ` set m) (map fst default_live_current_ttls)" "list_all (\<lambda>(k, d). int64_duration d) m"
  shows "dec_ttls_over (Some default_live_current_ttls) (enc_map enc_duration m) = Inr (Some m)"
proof -
  have "foldl (\<lambda>m (k, v). mput k v m) default_live_current_ttls m = m"
    using assms(1,2) default_ttls_sorted by (intro foldl_mput_over) (auto simp: list_all_iff)
  then show ?thesis
    using mput_fold_ext [OF assms(3), of default_live_current_ttls] by (simp add: dec_ttls_over_def enc_map_def)
qed

lemma low_keys:
  "to_lower ''version'' = ''version''" "to_lower ''listeners'' = ''listeners''"
  "to_lower ''allow_remote_commands'' = ''allow_remote_commands''" "to_lower ''collector_interval'' = ''collector_interval''"
  "to_lower ''smart_refresh_interval'' = ''smart_refresh_interval''" "to_lower ''history'' = ''history''"
  "to_lower ''cache_ttl'' = ''cache_ttl''"
  by code_simp+

lemma marked_map:
  assumes "\<And>l b. f (l\<lparr>ls_implicit := b\<rparr>) = (f l)\<lparr>ls_implicit := b\<rparr>"
  shows "map f (marked olds ls) = marked olds (map f ls)"
  by (induction olds ls rule: marked.induct) (simp_all add: assms)

lemma normalize_marked:
  "normalize_loaded_config cfg = cfg \<Longrightarrow> normalize_loaded_config (cfg\<lparr>cf_listeners := marked olds (cf_listeners cfg)\<rparr>)
    = cfg\<lparr>cf_listeners := marked olds (cf_listeners cfg)\<rparr>"
proof -
  let ?f = "\<lambda>l. l\<lparr>ls_name := trim_space (ls_name l), ls_address := trim_space (ls_address l), ls_apis := normalize_apis (ls_apis l)\<rparr>"
  assume n: "normalize_loaded_config cfg = cfg"
  have "cf_listeners (normalize_loaded_config cfg) = map ?f (cf_listeners cfg)" by (simp add: normalize_loaded_config_def)
  then have m: "map ?f (cf_listeners cfg) = cf_listeners cfg" by (simp add: n)
  have "map ?f (marked olds (cf_listeners cfg)) = marked olds (map ?f (cf_listeners cfg))"
    by (rule marked_map) simp
  then show ?thesis by (simp add: normalize_loaded_config_def m)
qed

lemma fold_enc_config:
  assumes "cf_version cfg = 1" "storable cfg"
  shows "dec_config_over (default_config sock) (enc_config cfg)
    = Inr (cfg\<lparr>cf_listeners := marked (default_listeners sock) (cf_listeners cfg)\<rparr>)"
proof -
  have d: "dec_duration (enc_duration (cf_collector_interval cfg)) = Inr (cf_collector_interval cfg)"
    "dec_duration (enc_duration (cf_smart_refresh_interval cfg)) = Inr (cf_smart_refresh_interval cfg)"
    using assms(2) by (simp_all add: storable_def dec_enc_duration)
  have t: "dec_ttls_over (Some default_live_current_ttls) (enc_opt (enc_map enc_duration) (cf_cache_ttl cfg)) = Inr (cf_cache_ttl cfg)"
    using assms(2) dec_enc_ttls by (auto simp: storable_def enc_opt_def split: option.splits) (simp add: dec_ttls_over_def)
  have i: "dec_int 64 (JInt 1) = Inr 1" by code_simp
  show ?thesis
    unfolding dec_config_over_def enc_config_def
    by (simp add: fold_keys_def jf_def jopt_def low_keys dec_config_field_def dec_int_over_def i assms(1) dec_slice_over_def
      enc_arr_def dec_enc_listeners dec_bool_over_def d t dec_str_over_def default_config_def)
qed

lemma load_saved:
  assumes v: "validate cfg = Inr ()" and s: "storable cfg"
  shows "load_config sock (Inr (JText (enc_config cfg))) = Inr (cfg\<lparr>cf_listeners := marked (default_listeners sock) (cf_listeners cfg)\<rparr>, True)"
proof -
  have c: "valid_config cfg" using v by (simp add: validate_iff)
  have "map_res (\<lambda>(key, _). validate_cache_key key) m = Inr (map (\<lambda>_. ()) m)"
    if "\<forall>(key, ttl) \<in> set m. to_lower (trim_space key) \<in> insert ''system_summary'' (set plugin_names) \<and> 0 \<le> ttl" for m :: "(string, int) gmap"
    using that by (intro map_res_total) (auto simp: validate_cache_key_def is_plugin_name_def Let_def)
  then show ?thesis
    using c fold_enc_config [of cfg sock] normalize_marked [of cfg "default_listeners sock"] s
    by (simp add: load_config_def valid_config_def storable_def Let_def)
qed



section \<open>Setting the configuration\<close>

lemma valid_history: "valid_config cfg \<Longrightarrow> \<exists>ps. parse_history_plugins (cf_history cfg) True env = Inr ps"
  unfolding valid_config_def parse_history_ok_iff by blast

lemma valid_intervals: "valid_config cfg \<Longrightarrow> 0 < cf_collector_interval cfg \<and> 0 < cf_smart_refresh_interval cfg"
  by (simp add: valid_config_def)

lemma reload_valid:
  assumes "valid_config cfg"
  obtains a' ps where "reload_runtime env (reload_options_of cfg source) a = (Inr (), a')"
    "parse_history_plugins (cf_history cfg) True env = Inr ps"
    "collector_interval a' = cf_collector_interval cfg" "ag_history_plugins a' = ps"
    "lv_ttls (ag_live a') = (case cf_cache_ttl cfg of None \<Rightarrow> [] | Some m \<Rightarrow> m)"
    "ag_http a' = ag_http a" "ag_config_source a' = source"
proof -
  obtain ps where ps: "parse_history_plugins (cf_history cfg) True env = Inr ps"
    using valid_history [OF assms] by blast
  obtain a' where a': "reload_runtime env (reload_options_of cfg source) a = (Inr (), a')"
    by (auto simp: reload_runtime_def apply_reload_def reload_options_of_def ps Let_def)
  have "collector_interval a' = cf_collector_interval cfg" "ag_history_plugins a' = ps"
    "lv_ttls (ag_live a') = (case cf_cache_ttl cfg of None \<Rightarrow> [] | Some m \<Rightarrow> m)" "ag_http a' = ag_http a" "ag_config_source a' = source"
    using a' valid_intervals [OF assms]
    by (auto simp: reload_runtime_def apply_reload_def reload_options_of_def ps Let_def set_runtime_config_def
      set_smart_refresh_interval_def set_ttls_option_def set_live_current_ttls_def collector_interval_def positive_or_def)
  then show ?thesis using that a' ps by blast
qed

text \<open>A write either happens or does not: the two cases in which a command is predictable.\<close>

definition clean_write :: "write_answer \<Rightarrow> bool" where
  "clean_write wa = (case wa of WriteFails _ _ \<Rightarrow> False | _ \<Rightarrow> True)"

lemma config_set_cases:
  assumes "handle_config_set ca req h = Some (r, h')" "clean_write (ca_write ca)"
  obtains (error) "h' = h" "\<not> cs_ok r"
  | (saved) j p cfg0 b0 cfg b r0 where "cq_params req = Some j" "dec_config_set_params j = Inr p"
      "load_config (ca_socket_path ca) (hs_file h) = Inr (cfg0, b0)" "apply_config_set_params p cfg0 = Inr (cfg, b)"
      "validate cfg = Inr ()"
      "reload_runtime_config ca req cfg ''loaded'' (h\<lparr>hs_file := Inr (JText (enc_config cfg))\<rparr>) = (r0, h')"
      "r = (if cs_ok r0 then r0\<lparr>cs_restart_required := cs_restart_required r0 \<or> b, cs_data := Some (enc_config cfg)\<rparr> else r0)"
  using assms by (auto simp: handle_config_set_def clean_write_def save_config_def command_error_def
    split: option.splits sum.splits prod.splits if_splits write_answer.splits)


definition sample_answers :: command_answers where
  "sample_answers = \<lparr>ca_env = \<lambda>_. None, ca_socket_path = ''/s'', ca_write = WriteOk, ca_version = ''1'', ca_db_path = ''/db'',
     ca_smart = \<lparr>sa_refresh = idle_refresh, sa_ctx_err = None, sa_fault = (\<lambda>_. None)\<rparr>, ca_clock = 0, ca_check_rows = Inr [], ca_ctx_err = None, ca_fault = (\<lambda>_. None)\<rparr>"

definition sample_set :: command_request where
  "sample_set = \<lparr>cq_command = ''config.set'',
     cq_params = Some (JObj [(''collector_interval'', JStr ''30s'')]), cq_request_id = ''1''\<rparr>"

definition sample_host :: host where
  "sample_host = \<lparr>hs_agent = sample_agent, hs_file = Inl ErrNotExist\<rparr>"

abbreviation slow_config :: config where
  "slow_config \<equiv> (default_config ''/s'')\<lparr>cf_collector_interval := 30 * second\<rparr>"

lemma slow_valid: "validate slow_config = Inr ()"
proof -
  have "isl (validate slow_config) = False" by code_simp
  then show ?thesis by (cases "validate slow_config") auto
qed

lemma sample_set_runs:
  "\<exists>r h'. handle_config_set sample_answers sample_set sample_host = Some (r, h') \<and> cs_ok r
     \<and> hs_file h' = Inr (JText (enc_config slow_config)) \<and> ag_http (hs_agent h') = ag_http sample_agent"
proof -
  obtain a' ps where a: "reload_runtime (\<lambda>_. None) (reload_options_of slow_config ''loaded'') sample_agent = (Inr (), a')"
    "ag_http a' = ag_http sample_agent"
    using reload_valid [of slow_config "\<lambda>_. None" "''loaded''" sample_agent] slow_valid by (metis validate_iff)
  have p: "dec_config_set_params (JObj [(''collector_interval'', JStr ''30s'')]) = Inr (zero_params\<lparr>sp_collector_interval := Some ''30s''\<rparr>)"
    by code_simp
  have d: "parsed_duration ''30s'' = Inr (30 * second)" by code_simp
  have l: "load_config ''/s'' (Inl ErrNotExist) = Inr (default_config ''/s'', False)" by (simp add: load_config_def)
  have s: "apply_config_set_params (zero_params\<lparr>sp_collector_interval := Some ''30s''\<rparr>) (default_config ''/s'') = Inr (slow_config, False)"
    using slow_valid by (simp add: apply_config_set_params_def set_duration_def d zero_params_def)
  show ?thesis
    by (simp add: handle_config_set_def sample_set_def sample_answers_def sample_host_def p l s save_config_def slow_valid
      reload_runtime_config_def a command_ok_def)
qed


section \<open>No remote commands without consent\<close>

definition run_command :: "cmd_options \<Rightarrow> host \<Rightarrow> command_answers \<times> command_request \<Rightarrow> host" where
  "run_command opts h entry = (case entry of (ca, req) \<Rightarrow>
     (case execute_command ca opts req h of None \<Rightarrow> h | Some (_, h') \<Rightarrow> h'))"

definition gives_consent :: "command_request \<Rightarrow> bool" where
  "gives_consent req = (case cq_params req of
     None \<Rightarrow> False
   | Some j \<Rightarrow> (case dec_config_set_params j of Inl _ \<Rightarrow> False | Inr p \<Rightarrow> sp_allow_remote_commands p = Some True))"

lemma allow_env [simp]: "cf_allow_remote_commands (apply_env env cfg) = cf_allow_remote_commands cfg"
  by (simp add: apply_env_def Let_def split: option.splits)

lemma allow_set_ttl: "set_cache_ttl key ttl cfg = Inr c \<Longrightarrow> cf_allow_remote_commands c = cf_allow_remote_commands cfg"
  by (auto simp: set_cache_ttl_def Let_def attempt_Inr_iff split: if_splits option.splits)

lemma allow_fold_ttls:
  assumes f: "fold_res (\<lambda>c (key, raw). attempt (f raw) (\<lambda>ttl. set_cache_ttl key ttl c)) cfg m = Inr c"
  shows "cf_allow_remote_commands c = cf_allow_remote_commands cfg"
  by (rule fold_res_invariant [OF f, where I = "\<lambda>c. cf_allow_remote_commands c = cf_allow_remote_commands cfg"])
     (auto simp: attempt_Inr_iff dest!: allow_set_ttl)

lemma allow_cli:
  assumes "apply_cli_to_config opts cfg = Inr c"
  shows "cf_allow_remote_commands c = cf_allow_remote_commands cfg \<and> validate c = Inr ()"
proof -
  have f: "fold_res (\<lambda>c (key, ttl). set_cache_ttl key ttl c) c5 m = Inr c6 \<Longrightarrow> cf_allow_remote_commands c6 = cf_allow_remote_commands c5" for c5 c6 m
    using allow_fold_ttls [of Inr c5 m c6] by simp
  show ?thesis
    using assms by (auto simp: apply_cli_to_config_def Let_def attempt_Inr_iff apply_cache_default_def apply_cache_expensive_def
      dest!: f split: if_splits option.splits)
qed

lemma params_cases:
  assumes "apply_config_set_params p cfg = Inr (c, b)"
  obtains c1 c2 c4 where
    "set_duration (sp_collector_interval p) (\<lambda>d c. c\<lparr>cf_collector_interval := d\<rparr>) cfg = Inr c1"
    "set_duration (sp_smart_refresh_interval p) (\<lambda>d c. c\<lparr>cf_smart_refresh_interval := d\<rparr>) c1 = Inr c2"
    "fold_res (\<lambda>c (key, raw). attempt (parsed_duration raw) (\<lambda>ttl. set_cache_ttl key ttl c))
       (case sp_history p of None \<Rightarrow> c2 | Some h \<Rightarrow> c2\<lparr>cf_history := h\<rparr>) (sp_cache_ttl p) = Inr c4"
    "c = (let c5 = (case sp_listeners p of None \<Rightarrow> c4 | Some ls \<Rightarrow> c4\<lparr>cf_listeners := ls\<rparr>) in
       (case sp_allow_remote_commands p of None \<Rightarrow> c5 | Some b \<Rightarrow> c5\<lparr>cf_allow_remote_commands := b\<rparr>))"
  using assms unfolding apply_config_set_params_def Let_def attempt_Inr_iff by blast

lemma allow_duration:
  assumes "set_duration raw f c1 = Inr c2" "\<And>d c. cf_allow_remote_commands (f d c) = cf_allow_remote_commands c"
  shows "cf_allow_remote_commands c2 = cf_allow_remote_commands c1"
  using assms by (auto simp: set_duration_def attempt_Inr_iff split: option.splits)

lemma allow_params:
  assumes "apply_config_set_params p cfg = Inr (c, b)" "sp_allow_remote_commands p \<noteq> Some True" "\<not> cf_allow_remote_commands cfg"
  shows "\<not> cf_allow_remote_commands c"
  using assms(1)
proof (cases rule: params_cases)
  case (1 c1 c2 c4)
  have "cf_allow_remote_commands c2 = cf_allow_remote_commands cfg"
    using allow_duration [OF 1(1)] allow_duration [OF 1(2)] by simp
  moreover have "cf_allow_remote_commands c4 = cf_allow_remote_commands c2"
    using allow_fold_ttls [OF 1(3)] by (simp split: option.splits)
  ultimately show ?thesis
    using assms(2,3) 1(4) by (cases "sp_allow_remote_commands p"; cases "sp_listeners p") simp_all
qed

lemma allow_saved:
  assumes "load_config sock (Inr (JText (enc_config c))) = Inr (c', b)"
  shows "cf_allow_remote_commands c' = cf_allow_remote_commands c"
  using assms by (cases "cf_allow_remote_commands c")
    (auto simp: load_config_def dec_config_over_def enc_config_def attempt_Inr_iff Let_def fold_keys_def jf_def jopt_def
      low_keys dec_config_field_def dec_bool_over_def normalize_loaded_config_def default_config_def)

definition closed_file :: "string \<Rightarrow> config_file \<Rightarrow> bool" where
  "closed_file sock fc = (case load_config sock fc of Inl _ \<Rightarrow> True | Inr (cfg, _) \<Rightarrow> \<not> cf_allow_remote_commands cfg)"

lemma reload_keeps:
  "reload_runtime_config ca req cfg source h = (r, h') \<Longrightarrow> hs_file h' = hs_file h \<and> ag_http (hs_agent h') = ag_http (hs_agent h)"
  by (auto simp: reload_runtime_config_def reload_runtime_def apply_reload_def Let_def set_runtime_config_def
    set_smart_refresh_interval_def set_ttls_option_def split: prod.splits sum.splits option.splits)

lemma store_keeps_http [simp]: "ag_http (snd (with_store f a)) = ag_http a"
  by (simp add: with_store_def case_prod_unfold split: option.splits)

lemma refresh_keeps_http: "ag_http (snd (refresh_smart_now sa now a)) = ag_http a"
proof -
  have "ag_http (snd (refresh_smart sa now force a)) = ag_http a" for force
    using store_keeps_http by (auto simp: refresh_smart_def Let_def case_prod_unfold split: option.splits sum.splits)
  moreover have "ag_http (snd (log_smart_refresh_result r a)) = ag_http a" for r a
    by (simp add: log_smart_refresh_result_def Let_def split: option.splits)
  ultimately show ?thesis by (simp add: refresh_smart_now_def case_prod_unfold)
qed

lemma maintain_keeps_http: "ag_http (snd (maintain_database ce fault now rows a)) = ag_http a"
  by (auto simp: maintain_database_def case_prod_unfold split: option.splits sum.splits)

lemma config_set_keeps:
  assumes "handle_config_set ca req h = Some (r, h')" "clean_write (ca_write ca)" "\<not> gives_consent req" "closed_file (ca_socket_path ca) (hs_file h)"
  shows "closed_file (ca_socket_path ca) (hs_file h') \<and> ag_http (hs_agent h') = ag_http (hs_agent h)"
proof -
  have e: "closed_file sock (Inr (JText (enc_config c)))" if "\<not> cf_allow_remote_commands c" for c sock
    using allow_saved [of sock c] that by (auto simp: closed_file_def split: sum.splits prod.splits)
  show ?thesis
    using assms(1,2)
  proof (cases rule: config_set_cases)
    case error
    then show ?thesis using assms(4) by simp
  next
    case (saved j p cfg0 b0 cfg b r0)
    have "\<not> cf_allow_remote_commands cfg"
      using allow_params [OF saved(4)] assms(3,4) saved(1-3) by (simp add: gives_consent_def closed_file_def)
    then show ?thesis using reload_keeps [OF saved(6)] e by simp
  qed
qed

lemma command_cases:
  assumes "execute_command ca opts req h = Some (r, h')"
  obtains "h' = h"
  | req' where "gives_consent req' = gives_consent req" "handle_config_set ca req' h = Some (r, h')"
  | req' where "handle_config_reload ca opts req' h = Some (r, h')"
  | "hs_file h' = hs_file h" "ag_http (hs_agent h') = ag_http (hs_agent h)"
proof -
  let ?req = "req\<lparr>cq_command := normalize_command (cq_command req)\<rparr>" and ?c = "normalize_command (cq_command req)"
  have g: "gives_consent ?req = gives_consent req" by (simp add: gives_consent_def)
  consider "?c = ''config.set''" | "?c = ''config.reload''" | "?c = ''smart.refresh''" | "?c = ''db.maintain''"
    | "?c \<notin> {''config.set'', ''config.reload'', ''smart.refresh'', ''db.maintain''}" by blast
  then show thesis
  proof cases
    case 1
    then show thesis using assms that(2) [OF g] by (simp add: execute_command_def Let_def)
  next
    case 2
    then show thesis using assms that(3) [of ?req] by (simp add: execute_command_def Let_def)
  next
    case 3
    then have "h' = h\<lparr>hs_agent := snd (refresh_smart_now (ca_smart ca) (ca_clock ca) (hs_agent h))\<rparr>"
      using assms by (auto simp: execute_command_def Let_def split: prod.splits sum.splits)
    then show thesis using that(4) refresh_keeps_http by simp
  next
    case 4
    then have "h' = h\<lparr>hs_agent := snd (maintain_database (ca_ctx_err ca) (ca_fault ca) (ca_clock ca) (ca_check_rows ca) (hs_agent h))\<rparr>"
      using assms by (auto simp: execute_command_def Let_def split: prod.splits sum.splits)
    then show thesis using that(4) maintain_keeps_http by simp
  next
    case 5
    then have "h' = h"
      using assms unfolding execute_command_def Let_def by (simp split: if_splits sum.splits prod.splits)
    then show thesis by (rule that(1))
  qed
qed

lemma command_keeps:
  assumes "clean_write (ca_write ca)" "\<not> gives_consent req" "closed_file (ca_socket_path ca) (hs_file h)"
    "execute_command ca opts req h = Some (r, h')"
  shows "closed_file (ca_socket_path ca) (hs_file h') \<and> ag_http (hs_agent h') = ag_http (hs_agent h)"
  using assms(4)
proof (cases rule: command_cases)
  case (2 req')
  then show ?thesis using config_set_keeps assms(1-3) by simp
next
  case (3 req')
  then show ?thesis
    using assms(3) by (auto simp: handle_config_reload_def dest: reload_keeps split: sum.splits if_splits)
qed (use assms(3) in auto)

lemma run_keeps:
  assumes "clean_write (ca_write ca)" "\<not> gives_consent req" "closed_file (ca_socket_path ca) (hs_file h)"
  shows "closed_file (ca_socket_path ca) (hs_file (run_command opts h (ca, req)))
    \<and> ag_http (hs_agent (run_command opts h (ca, req))) = ag_http (hs_agent h)"
  using assms command_keeps [OF assms] by (auto simp: run_command_def split: option.splits)

lemma commands_keep:
  assumes "list_all (\<lambda>(ca, req). ca_socket_path ca = sock \<and> clean_write (ca_write ca) \<and> \<not> gives_consent req) cmds"
    "closed_file sock (hs_file h)"
  shows "closed_file sock (hs_file (foldl (run_command opts) h cmds))
    \<and> ag_http (hs_agent (foldl (run_command opts) h cmds)) = ag_http (hs_agent h)"
  using assms
proof (induction cmds arbitrary: h)
  case (Cons c cmds)
  obtain ca req where c: "c = (ca, req)" by (cases c)
  have k: "closed_file sock (hs_file (run_command opts h c)) \<and> ag_http (hs_agent (run_command opts h c)) = ag_http (hs_agent h)"
    using run_keeps [of ca req h opts] Cons.prems by (simp add: c)
  then have "closed_file sock (hs_file (foldl (run_command opts) (run_command opts h c) cmds))
    \<and> ag_http (hs_agent (foldl (run_command opts) (run_command opts h c) cmds)) = ag_http (hs_agent (run_command opts h c))"
    using Cons by simp
  with k show ?case by simp
qed simp

lemma closed_effective:
  assumes "closed_file sock fc" "load_effective_config sock env opts fc = Inr ec"
  shows "validate (ec_cfg ec) = Inr () \<and> \<not> cf_allow_remote_commands (ec_cfg ec)"
proof -
  obtain cfg b c where "load_config sock fc = Inr (cfg, b)" "apply_cli_to_config opts (apply_env env cfg) = Inr c" "ec_cfg ec = c"
    using assms(2) by (auto simp: load_effective_config_def attempt_Inr_iff)
  with assms(1) allow_cli [of opts "apply_env env cfg" c] show ?thesis by (simp add: closed_file_def)
qed

lemma listeners_local:
  assumes "validate cfg = Inr ()" "\<not> cf_allow_remote_commands cfg" "lo \<in> set (app_listeners_from_config cfg)"
    "''commands'' \<in> api_set (lo_apis lo)"
  shows "local_only (lo_address lo)"
  using assms by (auto simp: app_listeners_from_config_def validate_iff valid_config_def valid_listener_def)

text \<open>
  C4: The command API is not opened to the network without consent: starting from a configuration that does
  not allow remote commands, whatever commands the agent executes, as long as no \<open>config.set\<close> among
  them says \<open>allow_remote_commands: true\<close>, the listeners that it serves are the ones it has, and an
  agent that is started afterwards, with any environment and flags, serves commands only on a unix
  socket or a loopback address.
\<close>

theorem remote_commands_need_consent:
  assumes "list_all (\<lambda>(ca, req). ca_socket_path ca = sock \<and> clean_write (ca_write ca) \<and> \<not> gives_consent req) cmds"
    "closed_file sock (hs_file h)" "h' = foldl (run_command opts) h cmds"
    "load_effective_config sock env opts' (hs_file h') = Inr ec"
    "lo \<in> set (app_listeners_from_config (ec_cfg ec))" "''commands'' \<in> api_set (lo_apis lo)"
  shows "local_only (lo_address lo) \<and> ag_http (hs_agent h') = ag_http (hs_agent h)"
  using commands_keep [OF assms(1,2), of opts] closed_effective [OF _ assms(4)] listeners_local [OF _ _ assms(5,6)] assms(3)
  by simp

theorem remote_commands_need_consent_witness:
  "\<exists>h' ec lo. h' = foldl (run_command (zero_options CommandRun [])) sample_host [(sample_answers, sample_set)]
     \<and> hs_file h' = Inr (JText (enc_config slow_config))
     \<and> load_effective_config ''/s'' (\<lambda>_. None) (zero_options CommandRun []) (hs_file h') = Inr ec
     \<and> lo \<in> set (app_listeners_from_config (ec_cfg ec)) \<and> local_only (lo_address lo)"
proof -
  let ?opts = "zero_options CommandRun []" and ?lo = "hd (filter (\<lambda>lo. ''commands'' \<in> api_set (lo_apis lo)) (app_listeners_from_config slow_config))"
  obtain r h' where s: "handle_config_set sample_answers sample_set sample_host = Some (r, h')"
    "hs_file h' = Inr (JText (enc_config slow_config))"
    using sample_set_runs by blast
  have "normalize_command ''config.set'' = ''config.set''" by code_simp
  then have "run_command ?opts sample_host (sample_answers, sample_set) = h'"
    using s(1) by (simp add: run_command_def execute_command_def sample_set_def Let_def)
  then have h: "h' = foldl (run_command ?opts) sample_host [(sample_answers, sample_set)]" by simp
  have g: "gives_consent sample_set = False" by code_simp
  have n: "normalize_loaded_config slow_config = slow_config" by code_simp
  have st: "storable slow_config" unfolding storable_def n by (simp, intro conjI) code_simp+
  have m: "marked (default_listeners ''/s'') (cf_listeners slow_config) = cf_listeners slow_config" by code_simp
  have l: "load_config ''/s'' (hs_file h') = Inr (slow_config, True)"
    unfolding s(2) load_saved [OF slow_valid st] by (simp only: m) simp
  have e: "apply_env (\<lambda>_. None) slow_config = slow_config" by code_simp
  let ?ec = "\<lparr>ec_cfg = slow_config, ec_loaded = True, ec_source = ''loaded''\<rparr>"
  have ec: "load_effective_config ''/s'' (\<lambda>_. None) ?opts (hs_file h') = Inr ?ec"
    using slow_valid by (simp add: load_effective_config_def l e apply_cli_to_config_def zero_options_def)
  have lo: "?lo \<in> set (app_listeners_from_config slow_config)" "''commands'' \<in> api_set (lo_apis ?lo)"
    by code_simp+
  have q: "list_all (\<lambda>(ca, req). ca_socket_path ca = ''/s'' \<and> clean_write (ca_write ca) \<and> \<not> gives_consent req) [(sample_answers, sample_set)]"
    by (simp add: g) (simp add: sample_answers_def clean_write_def)
  have f: "closed_file ''/s'' (hs_file sample_host)"
    by (simp add: closed_file_def sample_host_def load_config_def default_config_def)
  have "local_only (lo_address ?lo)"
    using remote_commands_need_consent [OF q f h ec] lo by simp
  then show ?thesis using h s(2) ec lo(1)
    by (intro exI [of _ h'] exI [of _ ?ec] exI [of _ ?lo]) simp
qed

end
