(* ===== verification/Main_Menu.thy ===== *)
theory Main_Menu
  imports Config_Menu
begin

text \<open>
  The main menu (\<open>cmd/main_menu.go\<close>) and the loop of the configuration menu (\<open>runWithOptions\<close>): which
  keys and lines lead to which action, and what is written to the configuration file on the way.  The
  processes and the service manager that the agent menu starts and stops are an argument, whose state \<open>'m\<close>
  is theirs.  A cancelled context, which ends the program, is not modelled.
\<close>

section \<open>Keys that are left\<close>

lemma read_key_le: "read_key keys = (k, ks) \<Longrightarrow> length ks \<le> length keys"
  by (auto simp: read_key_def split: list.splits if_splits)

lemma menu_loop_keys: "menu_loop n enter cursor s con keys = (r, s', con', ks) \<Longrightarrow> length ks \<le> length keys"
proof (induction n enter cursor s con keys rule: menu_loop.induct)
  case (1 n enter cursor s con keys)
  obtain k ks0 where k: "read_key keys = (k, ks0)" by fastforce
  show ?case
  proof (cases k)
    case (Inl e)
    then show ?thesis using "1.prems" k read_key_le [OF k] by (simp add: menu_loop.simps [of n enter cursor s con keys])
  next
    case (Inr key)
    show ?thesis
      using "1.prems" "1.IH" [OF k [symmetric] Inr] read_key_le [OF k] k Inr
      by (subst (asm) menu_loop.simps) (fastforce split: if_splits prod.splits sum.splits)
  qed
qed

section \<open>The loop of the configuration menu\<close>

datatype config_menu_result = NoResult | PauseWith config | RunWith config

definition reset_general_config :: "string \<Rightarrow> config \<Rightarrow> config" where
  "reset_general_config socket_path cfg = (let defaults = default_config socket_path in
     cfg\<lparr>cf_collector_interval := cf_collector_interval defaults, cf_smart_refresh_interval := cf_smart_refresh_interval defaults,
       cf_history := cf_history defaults\<rparr>)"

definition saved_as :: "(config \<Rightarrow> config_menu_result) \<Rightarrow> config \<Rightarrow> console \<Rightarrow> config_menu_result option res \<times> console" where
  "saved_as result cfg con = (case menu_save cfg con of
     (Inl e, con') \<Rightarrow> (Inl e, con')
   | (Inr saved, con') \<Rightarrow> (Inr (if saved then Some (result cfg) else None), con'))"

definition handle_run_enter :: "string \<Rightarrow> nat \<Rightarrow> config \<Rightarrow> console \<Rightarrow> string
    \<Rightarrow> config_menu_result option res \<times> config \<times> console \<times> string" where
  "handle_run_enter socket_path cursor cfg con keys =
     (if cursor = 0 then (case prompt_duration validate_collector_interval con of
          (Inl e, con') \<Rightarrow> (Inl e, cfg, con', keys)
        | (Inr next, con') \<Rightarrow> (Inr None, (case next of None \<Rightarrow> cfg | Some d \<Rightarrow> cfg\<lparr>cf_collector_interval := d\<rparr>), con', keys))
      else if cursor = 1 then (case prompt_duration validate_collector_interval con of
          (Inl e, con') \<Rightarrow> (Inl e, cfg, con', keys)
        | (Inr next, con') \<Rightarrow> (Inr None, (case next of None \<Rightarrow> cfg | Some d \<Rightarrow> cfg\<lparr>cf_smart_refresh_interval := d\<rparr>), con', keys))
      else if cursor = 2 then (case history_menu cfg con keys of
          (Inl e, cfg', con', ks) \<Rightarrow> (Inl e, cfg', con', ks)
        | (Inr _, cfg', con', ks) \<Rightarrow> (Inr None, cfg', con', ks))
      else if cursor = 3 then (Inr None, reset_general_config socket_path cfg, con, keys)
      else if cursor = 4 then (case saved_as PauseWith cfg con of (r, con') \<Rightarrow> (r, cfg, con', keys))
      else if cursor = 5 then (case saved_as RunWith cfg con of (r, con') \<Rightarrow> (r, cfg, con', keys))
      else if cursor = 6 then (Inr (Some NoResult), cfg, con, keys)
      else (Inr None, cfg, con, keys))"

lemma history_menu_keys: "history_menu cfg con keys = (r, cfg', con', ks) \<Longrightarrow> length ks \<le> length keys"
  by (auto simp: history_menu_def dest: menu_loop_keys split: sum.splits prod.splits)

lemma handle_run_enter_keys:
  "handle_run_enter socket_path cursor cfg con keys = (r, cfg', con', ks) \<Longrightarrow> length ks \<le> length keys"
  by (auto simp: handle_run_enter_def dest: history_menu_keys split: if_splits sum.splits prod.splits)

function run_config_menu :: "string \<Rightarrow> nat \<Rightarrow> config \<Rightarrow> console \<Rightarrow> string \<Rightarrow> config_menu_result res \<times> console \<times> string" where
  "run_config_menu socket_path cursor cfg con keys = (case read_key keys of
     (Inl e, ks) \<Rightarrow> (Inl e, con, ks)
   | (Inr key, ks) \<Rightarrow>
       if key \<in> {KeyQuit, KeyEscape} then (Inr NoResult, con, ks)
       else if key = KeyInterrupt then (Inl err_config_menu_interrupted, con, ks)
       else if key = KeySave then (case saved_as PauseWith cfg con of
           (Inl e, con') \<Rightarrow> (Inl e, con', ks)
         | (Inr (Some result), con') \<Rightarrow> (Inr result, con', ks)
         | (Inr None, con') \<Rightarrow> run_config_menu socket_path cursor cfg con' ks)
       else if key = KeyEnter then (case handle_run_enter socket_path cursor cfg con ks of
           (Inl e, _, con', ks') \<Rightarrow> (Inl e, con', ks')
         | (Inr (Some result), _, con', ks') \<Rightarrow> (Inr result, con', ks')
         | (Inr None, cfg', con', ks') \<Rightarrow> run_config_menu socket_path cursor cfg' con' ks')
       else run_config_menu socket_path (move_cursor key 7 cursor) cfg con ks)"
  by pat_completeness auto
termination
  by (relation "measure (\<lambda>(socket_path, cursor, cfg, con, keys). length keys)")
     (auto dest!: read_key_shorter [OF sym] handle_run_enter_keys [OF sym])

declare run_config_menu.simps [simp del]

section \<open>Choosing an item\<close>

text \<open>The items are given by which of them are disabled.\<close>

definition normalize_menu_cursor :: "bool list \<Rightarrow> nat \<Rightarrow> nat option" where
  "normalize_menu_cursor disabled cursor =
     (if cursor < length disabled \<and> \<not> disabled ! cursor then Some cursor
      else find (\<lambda>i. \<not> disabled ! i) [0..<length disabled])"

fun next_enabled :: "bool list \<Rightarrow> bool \<Rightarrow> nat \<Rightarrow> nat \<Rightarrow> nat \<Rightarrow> nat" where
  "next_enabled disabled up cursor next 0 = cursor"
| "next_enabled disabled up cursor next (Suc k) =
     (let next' = (if up then (next + length disabled - 1) mod length disabled else (next + 1) mod length disabled)
      in if disabled ! next' then next_enabled disabled up cursor next' k else next')"

definition next_enabled_menu_index :: "bool list \<Rightarrow> nat \<Rightarrow> bool \<Rightarrow> nat" where
  "next_enabled_menu_index disabled cursor up =
     (if disabled = [] then 0 else next_enabled disabled up cursor cursor (length disabled))"

function select_loop :: "bool list \<Rightarrow> nat \<Rightarrow> string \<Rightarrow> nat option res \<times> nat \<times> string" where
  "select_loop disabled cursor keys = (case read_key keys of
     (Inl e, ks) \<Rightarrow> (Inl e, cursor, ks)
   | (Inr key, ks) \<Rightarrow>
       if key = KeyUp then select_loop disabled (next_enabled_menu_index disabled cursor True) ks
       else if key = KeyDown then select_loop disabled (next_enabled_menu_index disabled cursor False) ks
       else if key \<in> {KeyQuit, KeyEscape} then (Inr None, cursor, ks)
       else if key = KeyInterrupt then (Inl err_config_menu_interrupted, cursor, ks)
       else if key = KeyEnter \<and> \<not> disabled ! cursor then (Inr (Some cursor), cursor, ks)
       else select_loop disabled cursor ks)"
  by pat_completeness auto
termination
  by (relation "measure (\<lambda>(disabled, cursor, keys). length keys)") (auto dest: read_key_shorter [OF sym])

declare select_loop.simps [simp del]

definition select_menu_item :: "bool list \<Rightarrow> nat \<Rightarrow> string \<Rightarrow> nat option res \<times> nat \<times> string" where
  "select_menu_item disabled cursor keys = (case normalize_menu_cursor disabled cursor of
     None \<Rightarrow> (Inr None, (if disabled = [] then 0 else cursor), keys)
   | Some cursor' \<Rightarrow> select_loop disabled cursor' keys)"

lemma select_loop_keys: "select_loop disabled cursor keys = (Inr i, c, ks) \<Longrightarrow> length ks < length keys"
proof (induction disabled cursor keys rule: select_loop.induct)
  case (1 disabled cursor keys)
  obtain k ks0 where k: "read_key keys = (k, ks0)" by fastforce
  show ?case
  proof (cases k)
    case (Inl e)
    then show ?thesis using "1.prems" k by (simp add: select_loop.simps [of disabled cursor keys])
  next
    case (Inr key)
    note l = read_key_shorter [OF k [unfolded Inr]]
    show ?thesis
      using "1.prems" "1.IH" [OF k [symmetric] Inr] l k Inr
      by (subst (asm) select_loop.simps) (fastforce split: if_splits)
  qed
qed

lemma select_item_keys: "select_menu_item disabled cursor keys = (Inr (Some i), c, ks) \<Longrightarrow> length ks < length keys"
  by (auto simp: select_menu_item_def dest: select_loop_keys split: option.splits)

lemma select_loop_le: "select_loop disabled cursor keys = (r, c, ks) \<Longrightarrow> length ks \<le> length keys"
proof (induction disabled cursor keys rule: select_loop.induct)
  case (1 disabled cursor keys)
  obtain k ks0 where k: "read_key keys = (k, ks0)" by fastforce
  show ?case
  proof (cases k)
    case (Inl e)
    then show ?thesis using "1.prems" k read_key_le [OF k] by (simp add: select_loop.simps [of disabled cursor keys])
  next
    case (Inr key)
    show ?thesis
      using "1.prems" "1.IH" [OF k [symmetric] Inr] read_key_le [OF k] k Inr
      by (subst (asm) select_loop.simps) (fastforce split: if_splits)
  qed
qed

lemma select_item_le: "select_menu_item disabled cursor keys = (r, c, ks) \<Longrightarrow> length ks \<le> length keys"
  by (auto simp: select_menu_item_def dest: select_loop_le split: option.splits)

text \<open>\<open>pause\<close> waits for a line, as \<open>showPromptError\<close> does.\<close>

abbreviation (input) "pause \<equiv> show_prompt_error"

section \<open>The API menu\<close>

definition reset_api_config :: "string \<Rightarrow> config \<Rightarrow> config" where
  "reset_api_config socket_path cfg = (let defaults = default_config socket_path in
     cfg\<lparr>cf_listeners := cf_listeners defaults, cf_allow_remote_commands := cf_allow_remote_commands defaults,
       cf_cache_ttl := cf_cache_ttl defaults\<rparr>)"

text \<open>One choice: whether the menu is done.\<close>

definition api_choice :: "string \<Rightarrow> nat \<Rightarrow> config \<Rightarrow> console \<Rightarrow> string \<Rightarrow> bool res \<times> config \<times> console \<times> string" where
  "api_choice socket_path choice cfg con keys =
     (if choice = 0 then (case listen_menu cfg con keys of (r, cfg', con', ks) \<Rightarrow> (attempt r (\<lambda>_. Inr False), cfg', con', ks))
      else if choice = 1 then
        (case cache_menu socket_path cfg con keys of (r, cfg', con', ks) \<Rightarrow> (attempt r (\<lambda>_. Inr False), cfg', con', ks))
      else if choice = 2 then (Inr False, reset_api_config socket_path cfg, con, keys)
      else if choice = 3 then (case menu_save cfg con of
          (Inl e, con') \<Rightarrow> (Inl e, cfg, con', keys)
        | (Inr saved, con') \<Rightarrow>
            if saved then (case pause con' of (r, con2) \<Rightarrow> (attempt r (\<lambda>_. Inr True), cfg, con2, keys))
            else (Inr False, cfg, con', keys))
      else (Inr True, cfg, con, keys))"

lemma api_choice_keys: "api_choice socket_path choice cfg con keys = (r, cfg', con', ks) \<Longrightarrow> length ks \<le> length keys"
  by (auto simp: api_choice_def listen_menu_def cache_menu_def dest: menu_loop_keys split: if_splits sum.splits prod.splits)

function api_loop :: "string \<Rightarrow> nat \<Rightarrow> config \<Rightarrow> console \<Rightarrow> string \<Rightarrow> unit res \<times> console \<times> string" where
  "api_loop socket_path cursor cfg con keys = (case select_menu_item (replicate 5 False) cursor keys of
     (Inl e, _, ks) \<Rightarrow> (Inl e, con, ks)
   | (Inr None, _, ks) \<Rightarrow> (Inr (), con, ks)
   | (Inr (Some choice), cursor', ks) \<Rightarrow> (case api_choice socket_path choice cfg con ks of
         (Inl e, _, con', ks') \<Rightarrow> (Inl e, con', ks')
       | (Inr is_done, cfg', con', ks') \<Rightarrow>
           if is_done then (Inr (), con', ks') else api_loop socket_path cursor' cfg' con' ks'))"
  by pat_completeness auto
termination
  by (relation "measure (\<lambda>(socket_path, cursor, cfg, con, keys). length keys)")
     (auto dest!: select_item_keys [OF sym] api_choice_keys [OF sym])

declare api_loop.simps [simp del]

text \<open>What the menus work with: the answers of the surroundings, and the flags of the command line.\<close>

definition api_menu :: "cli_world \<Rightarrow> cmd_options \<Rightarrow> console \<Rightarrow> string \<Rightarrow> unit res \<times> console \<times> string" where
  "api_menu w opts con keys =
     (case load_effective_config (cl_socket_path w) (cl_env w) opts (cn_file con) of
        Inl e \<Rightarrow> (case pause con of (r, con') \<Rightarrow> (r, con', keys))
      | Inr ec \<Rightarrow> api_loop (cl_socket_path w) 0 (ec_cfg ec) con keys)"

section \<open>Running the agent\<close>

definition run_agent_in :: "cli_world \<Rightarrow> cmd_options \<Rightarrow> config \<Rightarrow> string \<Rightarrow> console \<Rightarrow> int \<times> console" where
  "run_agent_in w opts cfg source con =
     (case start_agent_exit w opts cfg source (cn_file con) of (code, file) \<Rightarrow> (code, con\<lparr>cn_file := file\<rparr>))"

definition menu_run_agent :: "cli_world \<Rightarrow> cmd_options \<Rightarrow> console \<Rightarrow> int \<times> console" where
  "menu_run_agent w opts con =
     (case load_effective_config (cl_socket_path w) (cl_env w) opts (cn_file con) of
        Inl e \<Rightarrow> (1, con)
      | Inr ec \<Rightarrow>
          let (source, file) = (if ec_loaded ec then (ec_source ec, cn_file con)
            else maybe_save_default_config (cl_create w) (ec_cfg ec) (ec_source ec) (cn_file con))
          in run_agent_in w opts (ec_cfg ec) source (con\<lparr>cn_file := file\<rparr>))"

text \<open>The exit code, if the program is to end.\<close>

definition menu_edit_config :: "cli_world \<Rightarrow> cmd_options \<Rightarrow> console \<Rightarrow> string \<Rightarrow> int option \<times> console \<times> string" where
  "menu_edit_config w opts con keys =
     (let code = (\<lambda>r. case r of Inl e \<Rightarrow> Some (config_command_error_code e) | Inr _ \<Rightarrow> None) in
      case load_effective_config (cl_socket_path w) (cl_env w) opts (cn_file con) of
        Inl e \<Rightarrow> (case pause con of (r, con') \<Rightarrow> (code r, con', keys))
      | Inr ec \<Rightarrow> (case run_config_menu (cl_socket_path w) 0 (ec_cfg ec) con keys of
            (Inl e, con', ks) \<Rightarrow> (Some (config_command_error_code e), con', ks)
          | (Inr (RunWith cfg), con', ks) \<Rightarrow> (case run_agent_in w opts cfg ''loaded'' con' of (c, con2) \<Rightarrow> (Some c, con2, ks))
          | (Inr (PauseWith cfg), con', ks) \<Rightarrow> (case pause con' of (r, con2) \<Rightarrow> (code r, con2, ks))
          | (Inr NoResult, con', ks) \<Rightarrow> (None, con', ks)))"

section \<open>The database menu\<close>

definition confirm_reset :: "console \<Rightarrow> bool res \<times> console" where
  "confirm_reset con = (case cn_lines con of
     [] \<Rightarrow> (Inl err_eof, con)
   | raw # rest \<Rightarrow> (Inr (trim_space raw \<noteq> [] \<and> equal_fold (trim_space raw) ''yes''), con\<lparr>cn_lines := rest\<rparr>))"

definition db_actions :: "string list" where
  "db_actions = [''check'', ''maintain'', ''repair'', ''reset'', ''path'']"

text \<open>The commands that are run, in order, are part of the result.\<close>

definition database_choice :: "cmd_options \<Rightarrow> nat \<Rightarrow> console \<Rightarrow> unit res \<times> cmd_options list \<times> console" where
  "database_choice opts choice con =
     (let db_opts = (zero_options CommandDB [])\<lparr>co_data_dir := co_data_dir opts, co_db_action := db_actions ! choice\<rparr>;
          run = (\<lambda>db_opts con. case pause con of (r, con') \<Rightarrow> (r, [db_opts], con'))
      in if db_actions ! choice = ''reset'' then (case confirm_reset con of
             (Inl e, con') \<Rightarrow> (Inl e, [], con')
           | (Inr confirmed, con') \<Rightarrow>
               if confirmed then run (db_opts\<lparr>co_db_force := True\<rparr>) con'
               else (case pause con' of (r, con2) \<Rightarrow> (r, [], con2)))
         else run db_opts con)"

function database_loop :: "cmd_options \<Rightarrow> nat \<Rightarrow> console \<Rightarrow> string \<Rightarrow> unit res \<times> cmd_options list \<times> console \<times> string" where
  "database_loop opts cursor con keys = (case select_menu_item (replicate 6 False) cursor keys of
     (Inl e, _, ks) \<Rightarrow> (Inl e, [], con, ks)
   | (Inr None, _, ks) \<Rightarrow> (Inr (), [], con, ks)
   | (Inr (Some choice), cursor', ks) \<Rightarrow>
       if choice \<ge> length db_actions then (Inr (), [], con, ks)
       else (case database_choice opts choice con of
           (Inl e, db_cmds, con') \<Rightarrow> (Inl e, db_cmds, con', ks)
         | (Inr _, db_cmds, con') \<Rightarrow> (case database_loop opts cursor' con' ks of
               (r, db_cmds', con2, ks') \<Rightarrow> (r, db_cmds @ db_cmds', con2, ks'))))"
  by pat_completeness auto
termination
  by (relation "measure (\<lambda>(opts, cursor, con, keys). length keys)") (auto dest!: select_item_keys [OF sym])

declare database_loop.simps [simp del]

section \<open>The agent menu\<close>

text \<open>
  The machine: whether the agent answers and whether there is something to stop, and what starting,
  stopping and asking for the status do; each of these ends with a pause.
\<close>

record 'm agent_os =
  ao_reachable :: "config_file \<Rightarrow> 'm \<Rightarrow> bool \<times> 'm"
  ao_stoppable :: "'m \<Rightarrow> bool"
  ao_start :: "config_file \<Rightarrow> 'm \<Rightarrow> 'm"
  ao_stop :: "'m \<Rightarrow> 'm"
  ao_status :: "config_file \<Rightarrow> 'm \<Rightarrow> 'm"

text \<open>\<open>buildAgentItems\<close>: which of the five items are disabled.\<close>

definition agent_items :: "bool \<Rightarrow> bool \<Rightarrow> bool list" where
  "agent_items api_reachable stoppable = [False, api_reachable, \<not> stoppable, \<not> api_reachable, False]"

text \<open>The exit code, if the program is to end.\<close>

function agent_loop :: "'m agent_os \<Rightarrow> cli_world \<Rightarrow> cmd_options \<Rightarrow> nat \<Rightarrow> 'm \<Rightarrow> console \<Rightarrow> string
    \<Rightarrow> int option \<times> 'm \<times> console \<times> string" where
  "agent_loop ao w opts cursor mach con keys =
     (let (api_reachable, mach) = ao_reachable ao (cn_file con) mach in
      case select_menu_item (agent_items api_reachable (api_reachable \<or> ao_stoppable ao mach)) cursor keys of
        (Inl e, _, ks) \<Rightarrow> (Some (config_command_error_code e), mach, con, ks)
      | (Inr None, _, ks) \<Rightarrow> (None, mach, con, ks)
      | (Inr (Some choice), cursor', ks) \<Rightarrow>
          if choice = 0 then (case menu_run_agent w opts con of (c, con') \<Rightarrow> (Some c, mach, con', ks))
          else if choice \<in> {1, 2, 3} then
            let mach' = (if choice = 1 then ao_start ao (cn_file con) mach else if choice = 2 then ao_stop ao mach
                  else ao_status ao (cn_file con) mach)
            in (case pause con of
                  (Inl e, con') \<Rightarrow> (Some (config_command_error_code e), mach', con', ks)
                | (Inr _, con') \<Rightarrow> agent_loop ao w opts cursor' mach' con' ks)
          else (None, mach, con, ks))"
  by pat_completeness auto
termination
  by (relation "measure (\<lambda>(ao, w, opts, cursor, mach, con, keys). length keys)") (auto dest!: select_item_keys [OF sym])

declare agent_loop.simps [simp del]

section \<open>The main menu\<close>

text \<open>\<open>handleMainMenuChoice\<close>; the database commands that it ran are part of the result.\<close>

definition main_menu_choice :: "'m agent_os \<Rightarrow> cli_world \<Rightarrow> cmd_options \<Rightarrow> nat \<Rightarrow> 'm \<Rightarrow> console \<Rightarrow> string
    \<Rightarrow> int option \<times> cmd_options list \<times> 'm \<times> console \<times> string" where
  "main_menu_choice ao w opts choice mach con keys =
     (let code = (\<lambda>r. case r of Inl e \<Rightarrow> Some (config_command_error_code e) | Inr _ \<Rightarrow> None) in
      if choice = 0 then (case agent_loop ao w opts 0 mach con keys of (c, mach', con', ks) \<Rightarrow> (c, [], mach', con', ks))
      else if choice = 1 then (case menu_edit_config w opts con keys of (c, con', ks) \<Rightarrow> (c, [], mach, con', ks))
      else if choice = 2 then (case database_loop opts 0 con keys of (r, db_cmds, con', ks) \<Rightarrow> (code r, db_cmds, mach, con', ks))
      else if choice = 3 then (case api_menu w opts con keys of (r, con', ks) \<Rightarrow> (code r, [], mach, con', ks))
      else (Some 0, [], mach, con, keys))"

lemma api_loop_keys: "api_loop socket_path cursor cfg con keys = (r, con', ks) \<Longrightarrow> length ks \<le> length keys"
proof (induction socket_path cursor cfg con keys rule: api_loop.induct)
  case (1 socket_path cursor cfg con keys)
  obtain c cursor' ks0 where c: "select_menu_item (replicate 5 False) cursor keys = (c, cursor', ks0)" by (metis prod_cases3)
  show ?case
  proof (cases "\<exists>choice. c = Inr (Some choice)")
    case True
    then obtain choice where ch: "c = Inr (Some choice)" by blast
    obtain d cfg' con2 ks2 where d: "api_choice socket_path choice cfg con ks0 = (d, cfg', con2, ks2)" by (metis prod_cases4)
    show ?thesis
      using "1.prems" "1.IH" [OF c [symmetric] ch refl refl d [symmetric] _ refl refl] select_item_le [OF c] api_choice_keys [OF d] c ch d
      by (subst (asm) api_loop.simps) (fastforce split: sum.splits if_splits)
  next
    case False
    then show ?thesis using "1.prems" c select_item_le [OF c]
      by (subst (asm) api_loop.simps) (fastforce split: sum.splits option.splits)
  qed
qed

lemma api_menu_keys: "api_menu w opts con keys = (r, con', ks) \<Longrightarrow> length ks \<le> length keys"
  by (auto simp: api_menu_def dest: api_loop_keys split: sum.splits prod.splits)

lemma database_loop_keys: "database_loop opts cursor con keys = (r, db_cmds, con', ks) \<Longrightarrow> length ks \<le> length keys"
proof (induction opts cursor con keys arbitrary: r db_cmds con' ks rule: database_loop.induct)
  case (1 opts cursor con keys)
  obtain c cursor' ks0 where c: "select_menu_item (replicate 6 False) cursor keys = (c, cursor', ks0)" by (metis prod_cases3)
  show ?case
  proof (cases "\<exists>choice < length db_actions. c = Inr (Some choice)")
    case True
    then obtain choice where ch: "c = Inr (Some choice)" "\<not> length db_actions \<le> choice" by auto
    obtain d cs con2 where d: "database_choice opts choice con = (d, cs, con2)" by (metis prod_cases3)
    show ?thesis
      using "1.prems" "1.IH" [OF c [symmetric] ch(1) refl refl ch(2) d [symmetric] _ refl] select_item_le [OF c] c ch d
      by (subst (asm) database_loop.simps) (fastforce split: sum.splits prod.splits)
  next
    case False
    then have "c = Inr (Some choice) \<Longrightarrow> length db_actions \<le> choice" for choice by auto
    then show ?thesis using "1.prems" c select_item_le [OF c]
      by (subst (asm) database_loop.simps) (cases c; auto split: option.splits)
  qed
qed

lemma run_config_menu_keys: "run_config_menu socket_path cursor cfg con keys = (r, con', ks) \<Longrightarrow> length ks \<le> length keys"
proof (induction socket_path cursor cfg con keys rule: run_config_menu.induct)
  case (1 socket_path cursor cfg con keys)
  obtain k ks0 where k: "read_key keys = (k, ks0)" by fastforce
  show ?case
  proof (cases k)
    case (Inl e)
    then show ?thesis using "1.prems" k read_key_le [OF k] by (simp add: run_config_menu.simps [of socket_path cursor cfg con keys])
  next
    case (Inr key)
    obtain d cfg' con2 ks2 where d: "handle_run_enter socket_path cursor cfg con ks0 = (d, cfg', con2, ks2)" by (metis prod_cases4)
    show ?thesis
      using "1.prems" "1.IH" [OF k [symmetric] Inr] read_key_le [OF k] handle_run_enter_keys [OF d] k Inr d
      by (subst (asm) run_config_menu.simps) (fastforce split: if_splits prod.splits sum.splits option.splits)
  qed
qed

lemma menu_edit_config_keys: "menu_edit_config w opts con keys = (c, con', ks) \<Longrightarrow> length ks \<le> length keys"
  by (auto simp: menu_edit_config_def Let_def dest: run_config_menu_keys
    split: sum.splits prod.splits config_menu_result.splits)

lemma agent_loop_keys: "agent_loop ao w opts cursor mach con keys = (c, mach', con', ks) \<Longrightarrow> length ks \<le> length keys"
proof (induction ao w opts cursor mach con keys arbitrary: c rule: agent_loop.induct)
  case (1 ao w opts cursor mach con keys)
  obtain up mach1 where m: "ao_reachable ao (cn_file con) mach = (up, mach1)" by fastforce
  obtain c cursor' ks0 where c: "select_menu_item (agent_items up (up \<or> ao_stoppable ao mach1)) cursor keys = (c, cursor', ks0)"
    by (metis prod_cases3)
  obtain d con2 where d: "show_prompt_error con = (d, con2)" by fastforce
  show ?case
  proof (cases "\<exists>choice \<in> {1, 2, 3}. c = Inr (Some choice)")
    case True
    then obtain choice where ch0: "choice \<in> {1, 2, 3}" "c = Inr (Some choice)" by (elim bexE)
    then have "choice \<noteq> 0" by auto
    note ch = ch0(2) this ch0(1)
    let ?mach = "if choice = 1 then ao_start ao (cn_file con) mach1 else if choice = 2 then ao_stop ao mach1
      else ao_status ao (cn_file con) mach1"
    have e: "agent_loop ao w opts cursor mach con keys = (case d of
        Inl e \<Rightarrow> (Some (config_command_error_code e), ?mach, con2, ks0)
      | Inr _ \<Rightarrow> agent_loop ao w opts cursor' ?mach con2 ks0)"
      using ch by (subst agent_loop.simps) (simp add: m c d Let_def)
    show ?thesis
    proof (cases d)
      case (Inr u)
      have "agent_loop ao w opts cursor' ?mach con2 ks0 = (c', mach', con', ks) \<Longrightarrow> length ks \<le> length ks0" for c'
        by (rule "1.IH" [OF refl m [symmetric] c [symmetric] ch(1) refl refl ch(2,3) refl d [symmetric] Inr])
      then show ?thesis using "1.prems" e Inr select_item_le [OF c] by simp
    qed (use "1.prems" e select_item_le [OF c] in simp)
  next
    case False
    then have "c = Inr (Some choice) \<Longrightarrow> choice \<notin> {1, 2, 3}" for choice by blast
    then show ?thesis using "1.prems" m c select_item_le [OF c]
      by (subst (asm) agent_loop.simps) (cases c; auto simp: Let_def split: option.splits prod.splits if_splits)
  qed
qed

lemma main_menu_choice_keys:
  "main_menu_choice ao w opts choice mach con keys = (c, db_cmds, mach', con', ks) \<Longrightarrow> length ks \<le> length keys"
  by (auto simp: main_menu_choice_def Let_def dest: agent_loop_keys menu_edit_config_keys database_loop_keys api_menu_keys
    split: prod.splits if_splits)

function main_menu_loop :: "'m agent_os \<Rightarrow> cli_world \<Rightarrow> cmd_options \<Rightarrow> nat \<Rightarrow> 'm \<Rightarrow> console \<Rightarrow> string
    \<Rightarrow> int \<times> cmd_options list \<times> 'm \<times> console" where
  "main_menu_loop ao w opts cursor mach con keys = (case select_menu_item (replicate 5 False) cursor keys of
     (Inl e, _, ks) \<Rightarrow> (config_command_error_code e, [], mach, con)
   | (Inr None, _, ks) \<Rightarrow> (0, [], mach, con)
   | (Inr (Some choice), cursor', ks) \<Rightarrow> (case main_menu_choice ao w opts choice mach con ks of
         (Some code, db_cmds, mach', con', ks') \<Rightarrow> (code, db_cmds, mach', con')
       | (None, db_cmds, mach', con', ks') \<Rightarrow> (case main_menu_loop ao w opts cursor' mach' con' ks' of
             (code, db_cmds', mach2, con2) \<Rightarrow> (code, db_cmds @ db_cmds', mach2, con2))))"
  by pat_completeness auto
termination
  by (relation "measure (\<lambda>(ao, w, opts, cursor, mach, con, keys). length keys)")
     (auto dest!: select_item_keys [OF sym] main_menu_choice_keys [OF sym])

declare main_menu_loop.simps [simp del]

definition run_main_menu :: "'m agent_os \<Rightarrow> cli_world \<Rightarrow> cmd_options \<Rightarrow> 'm \<Rightarrow> console \<Rightarrow> string
    \<Rightarrow> int \<times> cmd_options list \<times> 'm \<times> console" where
  "run_main_menu ao w opts mach con keys =
     (if cl_terminal w then main_menu_loop ao w opts 0 mach con keys else (1, [], mach, con))"

end
