(* ===== verification/Menu_Properties.thy ===== *)
theory Menu_Properties
  imports Main_Menu Command_Properties
begin

text \<open>
  Whatever is typed into the menus, the configuration file is only ever replaced by a valid
  configuration; and what can be chosen in them is read back from the file.
\<close>

section \<open>What the menus write\<close>

definition file_sound :: "config_file \<Rightarrow> config_file \<Rightarrow> bool" where
  "file_sound f0 f = (f = f0 \<or> (\<exists>cfg. valid_config cfg \<and> f = Inr (JText (enc_config cfg))))"

definition console_sound :: "config_file \<Rightarrow> console \<Rightarrow> bool" where
  "console_sound f0 con = (list_all clean_write (cn_writes con) \<and> file_sound f0 (cn_file con))"

lemma sound_lines [simp]: "console_sound f0 (con\<lparr>cn_lines := ls\<rparr>) = console_sound f0 con"
  by (simp add: console_sound_def)

lemma pause_sound: "show_prompt_error con = (r, con') \<Longrightarrow> console_sound f0 con' = console_sound f0 con"
  by (auto simp: show_prompt_error_def split: list.splits)

lemma prompts_sound:
  "prompt_string check con = (r, con') \<Longrightarrow> console_sound f0 con' = console_sound f0 con"
  "prompt_duration check2 con = (r2, con') \<Longrightarrow> console_sound f0 con' = console_sound f0 con"
  by (auto simp: prompt_string_def prompt_duration_def split: prod.splits)

lemma list_all_tl: "list_all P xs \<Longrightarrow> list_all P (tl xs)"
  by (cases xs) simp_all

lemma save_cases:
  assumes "menu_save cfg con = (r, con')" "list_all clean_write (cn_writes con)"
  obtains (saved) "r = Inr True" "valid_config cfg" "cn_file con' = Inr (JText (enc_config cfg))" "list_all clean_write (cn_writes con')"
  | (kept) "r \<noteq> Inr True" "cn_file con' = cn_file con" "list_all clean_write (cn_writes con')"
  using assms list_all_tl [OF assms(2)] by (auto simp: menu_save_def save_config_def show_prompt_error_def clean_write_def validate_iff
    split: sum.splits list.splits write_answer.splits prod.splits)

lemma save_sound: "menu_save cfg con = (r, con') \<Longrightarrow> console_sound f0 con \<Longrightarrow> console_sound f0 con'"
  by (erule save_cases) (auto simp: console_sound_def file_sound_def)

text \<open>
  The contract between \<open>menu_loop\<close> and the handler of a chosen item: the handler may ask for lines, but
  it neither writes the file nor uses up an answer of a write.
\<close>

locale menu_handler =
  fixes enter :: "nat \<Rightarrow> 's \<Rightarrow> console \<Rightarrow> bool res \<times> 's \<times> console"
  assumes enter_quiet: "enter c s con = (r, s', con') \<Longrightarrow> cn_file con' = cn_file con \<and> cn_writes con' = cn_writes con"
begin

lemma loop_quiet_aux:
  "menu_loop n e cursor s con keys = (r, s', con', ks) \<Longrightarrow> e = enter \<Longrightarrow> cn_file con' = cn_file con \<and> cn_writes con' = cn_writes con"
proof (induction n e cursor s con keys rule: menu_loop.induct)
  case (1 n e cursor s con keys)
  obtain k ks0 where k: "read_key keys = (k, ks0)" by fastforce
  show ?case
  proof (cases k)
    case (Inl err)
    then show ?thesis using "1.prems"(1) k by (simp add: menu_loop.simps [of n e cursor s con keys])
  next
    case (Inr key)
    show ?thesis
    proof (cases "key = KeyEnter")
      case True
      obtain d s2 con2 where d: "e cursor s con = (d, s2, con2)" by (metis prod_cases3)
      have "cn_file con2 = cn_file con \<and> cn_writes con2 = cn_writes con"
        using d "1.prems"(2) by (intro enter_quiet) simp
      then show ?thesis
        using "1.prems" "1.IH"(1) [OF k [symmetric] Inr _ _ True d [symmetric] _ refl] True k Inr d
        by (subst (asm) menu_loop.simps) (auto split: sum.splits if_splits)
    next
      case False
      then show ?thesis
        using "1.prems" "1.IH"(2) [OF k [symmetric] Inr _ _ False] k Inr
        by (subst (asm) menu_loop.simps) (auto split: if_splits)
    qed
  qed
qed

lemmas loop_quiet = loop_quiet_aux [OF _ refl]

lemma loop_sound: "menu_loop n enter cursor s con keys = (r, s', con', ks) \<Longrightarrow> console_sound f0 con' = console_sound f0 con"
  by (simp add: console_sound_def loop_quiet)

end

lemma with_prompted_sound:
  "with_prompted answer f cfg = (r, cfg', con') \<Longrightarrow> con' = snd answer"
  by (auto simp: with_prompted_def split: prod.splits sum.splits option.splits)

lemma prompts_quiet:
  "prompt_string check con = (r, con') \<Longrightarrow> cn_file con' = cn_file con \<and> cn_writes con' = cn_writes con"
  "cn_file (snd (prompt_duration check2 con)) = cn_file con \<and> cn_writes (snd (prompt_duration check2 con)) = cn_writes con"
  by (auto simp: prompt_string_def prompt_duration_def split: prod.splits)

definition history_enter :: "nat \<Rightarrow> (string \<Rightarrow> bool) \<Rightarrow> console \<Rightarrow> bool res \<times> (string \<Rightarrow> bool) \<times> console" where
  "history_enter cursor sel con = (case apply_history_enter cursor sel of (d, sel') \<Rightarrow> (Inr d, sel', con))"

interpretation listen_items: menu_handler handle_listen_enter
  by unfold_locales (auto simp: handle_listen_enter_def dest: prompts_quiet(1) split: if_splits prod.splits sum.splits)

interpretation cache_items: menu_handler "handle_cache_enter sock" for sock
  by unfold_locales (auto simp: handle_cache_enter_def prompts_quiet(2) dest!: with_prompted_sound split: if_splits)

interpretation history_items: menu_handler history_enter
  by unfold_locales (auto simp: history_enter_def split: prod.splits)

lemma listen_menu_sound: "listen_menu cfg con keys = (r, cfg', con', ks) \<Longrightarrow> console_sound f0 con \<Longrightarrow> console_sound f0 con'"
  by (auto simp: listen_menu_def dest: listen_items.loop_sound)

lemma cache_menu_sound: "cache_menu sock cfg con keys = (r, cfg', con', ks) \<Longrightarrow> console_sound f0 con \<Longrightarrow> console_sound f0 con'"
  by (auto simp: cache_menu_def dest: cache_items.loop_sound)

lemma history_menu_sound: "history_menu cfg con keys = (r, cfg', con', ks) \<Longrightarrow> console_sound f0 con \<Longrightarrow> console_sound f0 con'"
  by (auto simp: history_menu_def history_enter_def [abs_def, symmetric] dest: history_items.loop_sound split: sum.splits prod.splits)

lemma saved_as_sound:
  assumes "saved_as result cfg con = (r, con')" "console_sound f0 con"
  shows "console_sound f0 con' \<and> (\<forall>x. r = Inr (Some x) \<longrightarrow> x = result cfg \<and> valid_config cfg \<and> cn_file con' = Inr (JText (enc_config cfg)))"
proof -
  obtain r0 where r0: "menu_save cfg con = (r0, con')" "r = attempt r0 (\<lambda>saved. Inr (if saved then Some (result cfg) else None))"
    using assms(1) by (auto simp: saved_as_def split: prod.splits sum.splits)
  have "list_all clean_write (cn_writes con)" using assms(2) by (simp add: console_sound_def)
  with r0(1) show ?thesis
    using save_sound [OF r0(1) assms(2)] r0(2) by (cases rule: save_cases) (auto simp: attempt_Inr_iff)
qed

text \<open>A menu that ends with running the agent has saved the configuration that is to run.\<close>

definition runs_saved :: "config_menu_result \<Rightarrow> config_file \<Rightarrow> bool" where
  "runs_saved result file = (case result of
     RunWith cfg \<Rightarrow> valid_config cfg \<and> file = Inr (JText (enc_config cfg)) | _ \<Rightarrow> True)"

lemma run_enter_sound:
  assumes "handle_run_enter sock c cfg con keys = (r, cfg', con', ks)" "console_sound f0 con"
  shows "console_sound f0 con' \<and> (\<forall>x. r = Inr (Some x) \<longrightarrow> runs_saved x (cn_file con'))"
proof -
  have p: "prompt_duration check con = (r, con') \<Longrightarrow> console_sound f0 con'" for check r con'
    using prompts_sound(2) assms(2) by simp
  consider "c \<in> {0, 1}" | "c = 2" | "c = 4" | "c = 5" | "c \<notin> {0, 1, 2, 4, 5}" by blast
  then show ?thesis
  proof cases
    case 1
    then show ?thesis using assms(1) p by (auto simp: handle_run_enter_def split: if_splits prod.splits sum.splits)
  next
    case 2
    then show ?thesis using assms history_menu_sound
      by (auto simp: handle_run_enter_def split: prod.splits sum.splits)
  next
    case 3
    then show ?thesis using assms saved_as_sound [OF _ assms(2)]
      by (fastforce simp: handle_run_enter_def runs_saved_def split: prod.splits)
  next
    case 4
    then show ?thesis using assms saved_as_sound [OF _ assms(2)]
      by (fastforce simp: handle_run_enter_def runs_saved_def split: prod.splits)
  next
    case 5
    then show ?thesis using assms by (auto simp: handle_run_enter_def runs_saved_def split: if_splits)
  qed
qed

lemma run_config_menu_sound:
  assumes "run_config_menu sock cursor cfg con keys = (r, con', ks)" "console_sound f0 con"
  shows "console_sound f0 con' \<and> (\<forall>x. r = Inr x \<longrightarrow> runs_saved x (cn_file con'))"
  using assms
proof (induction sock cursor cfg con keys rule: run_config_menu.induct)
  case (1 sock cursor cfg con keys)
  obtain k ks0 where k: "read_key keys = (k, ks0)" by fastforce
  obtain d con2 where d: "saved_as PauseWith cfg con = (d, con2)" by fastforce
  note ds = saved_as_sound [OF d "1.prems"(2)]
  obtain e cfg3 con3 ks3 where e: "handle_run_enter sock cursor cfg con ks0 = (e, cfg3, con3, ks3)" by (metis prod_cases4)
  note es = run_enter_sound [OF e "1.prems"(2)]
  show ?case
  proof (cases k)
    case (Inl e)
    then show ?thesis using "1.prems" k by (auto simp: run_config_menu.simps [of sock cursor cfg con keys])
  next
    case (Inr key)
    note ih = "1.IH" [OF k [symmetric] Inr]
    consider "key \<in> {KeyQuit, KeyEscape, KeyInterrupt}" | "key = KeySave" | "key = KeyEnter" | "key \<in> {KeyUp, KeyDown, KeyUnknown}"
      by (cases key) auto
    then show ?thesis
    proof cases
      case 1
      then show ?thesis using "1.prems" k Inr
        by (subst (asm) run_config_menu.simps) (auto simp: runs_saved_def)
    next
      case 2
      then show ?thesis using "1.prems" k Inr d ds ih(1) [OF _ _ 2 d [symmetric]]
        by (subst (asm) run_config_menu.simps) (auto simp: runs_saved_def split: sum.splits option.splits)
    next
      case 3
      then show ?thesis using "1.prems" k Inr e es ih(2) [OF _ _ _ 3 e [symmetric]]
        by (subst (asm) run_config_menu.simps) (auto split: sum.splits option.splits)
    next
      case 4
      then show ?thesis using "1.prems" k Inr ih(3)
        by (subst (asm) run_config_menu.simps) auto
    qed
  qed
qed

section \<open>All menus\<close>

text \<open>
  What is left open: the file is created whole or not at all, and the agent that is run keeps it sound,
  as its commands do.
\<close>

definition sound_world :: "cli_world \<Rightarrow> cmd_options \<Rightarrow> config_file \<Rightarrow> bool" where
  "sound_world w opts f0 = ((case cl_create w of CreateWriteFails _ _ _ \<Rightarrow> False | CreateCloseFails _ _ \<Rightarrow> False | _ \<Rightarrow> True)
     \<and> (\<forall>cfg source f. file_sound f0 f \<longrightarrow> file_sound f0 (snd (cl_start w opts cfg source f))))"

lemma api_choice_sound:
  "api_choice sock c cfg con keys = (r, cfg', con', ks) \<Longrightarrow> console_sound f0 con \<Longrightarrow> console_sound f0 con'"
  by (auto simp: api_choice_def dest: listen_menu_sound cache_menu_sound save_sound pause_sound split: if_splits prod.splits sum.splits)

lemma api_loop_sound: "api_loop sock cursor cfg con keys = (r, con', ks) \<Longrightarrow> console_sound f0 con \<Longrightarrow> console_sound f0 con'"
proof (induction sock cursor cfg con keys rule: api_loop.induct)
  case (1 sock cursor cfg con keys)
  obtain c cursor' ks0 where c: "select_menu_item (replicate 5 False) cursor keys = (c, cursor', ks0)" by (metis prod_cases3)
  show ?case
  proof (cases "\<exists>choice. c = Inr (Some choice)")
    case True
    then obtain choice where ch: "c = Inr (Some choice)" by blast
    obtain d cfg' con2 ks2 where d: "api_choice sock choice cfg con ks0 = (d, cfg', con2, ks2)" by (metis prod_cases4)
    show ?thesis
      using "1.prems" "1.IH" [OF c [symmetric] ch refl refl d [symmetric] _ refl refl] api_choice_sound [OF d] c ch d
      by (subst (asm) api_loop.simps) (auto split: sum.splits if_splits)
  next
    case False
    then show ?thesis using "1.prems" c
      by (subst (asm) api_loop.simps) (auto split: sum.splits option.splits)
  qed
qed

lemma api_menu_sound: "api_menu w opts con keys = (r, con', ks) \<Longrightarrow> console_sound f0 con \<Longrightarrow> console_sound f0 con'"
  by (auto simp: api_menu_def dest: api_loop_sound pause_sound split: sum.splits prod.splits)

lemma run_agent_sound:
  "run_agent_in w opts cfg source con = (c, con') \<Longrightarrow> sound_world w opts f0 \<Longrightarrow> console_sound f0 con \<Longrightarrow> console_sound f0 con'"
  by (auto simp: run_agent_in_def start_agent_exit_def sound_world_def console_sound_def split: prod.splits)
     (metis snd_conv)

lemma created_sound:
  assumes "maybe_save_default_config (cl_create w) cfg source f = (s, f')" "sound_world w opts f0" "file_sound f0 f"
  shows "file_sound f0 f'"
  using assms by (auto simp: maybe_save_default_config_def save_if_missing_def sound_world_def file_sound_def validate_iff
    split: sum.splits prod.splits create_answer.splits)

lemma menu_run_agent_sound:
  assumes "menu_run_agent w opts con = (c, con')" "sound_world w opts f0" "console_sound f0 con"
  shows "console_sound f0 con'"
proof (cases "load_effective_config (cl_socket_path w) (cl_env w) opts (cn_file con)")
  case (Inr ec)
  obtain source f where f: "(if ec_loaded ec then (ec_source ec, cn_file con)
      else maybe_save_default_config (cl_create w) (ec_cfg ec) (ec_source ec) (cn_file con)) = (source, f)" by fastforce
  have "console_sound f0 (con\<lparr>cn_file := f\<rparr>)"
    using f assms(3) created_sound [OF _ assms(2)] by (auto simp: console_sound_def split: if_splits)
  moreover have "run_agent_in w opts (ec_cfg ec) source (con\<lparr>cn_file := f\<rparr>) = (c, con')"
    using assms(1) f by (simp add: menu_run_agent_def Inr)
  ultimately show ?thesis using run_agent_sound [OF _ assms(2)] by blast
qed (use assms in \<open>simp add: menu_run_agent_def\<close>)

lemma edit_config_sound:
  assumes "menu_edit_config w opts con keys = (c, con', ks)" "sound_world w opts f0" "console_sound f0 con"
  shows "console_sound f0 con'"
proof (cases "load_effective_config (cl_socket_path w) (cl_env w) opts (cn_file con)")
  case (Inl e)
  then show ?thesis using assms(1,3) by (auto simp: menu_edit_config_def Let_def dest: pause_sound split: prod.splits)
next
  case (Inr ec)
  obtain r con2 ks2 where r: "run_config_menu (cl_socket_path w) 0 (ec_cfg ec) con keys = (r, con2, ks2)" by (metis prod_cases3)
  note s = run_config_menu_sound [OF r assms(3), THEN conjunct1]
  have p: "show_prompt_error con2 = (q, con') \<Longrightarrow> console_sound f0 con'" for q
    using pause_sound [of con2 q con' f0] s by blast
  note l = \<open>load_effective_config _ _ _ _ = _\<close>
  show ?thesis
  proof (cases r)
    case (Inr x)
    obtain q con3 where q: "show_prompt_error con2 = (q, con3)" by fastforce
    show ?thesis
    proof (cases x)
      case NoResult
      then show ?thesis using assms(1) s by (simp add: menu_edit_config_def l r Inr)
    next
      case (PauseWith cfg)
      then have "con' = con3" using assms(1) by (simp add: menu_edit_config_def l r Inr q)
      then show ?thesis using p q by simp
    next
      case (RunWith cfg)
      obtain e con4 where e: "run_agent_in w opts cfg ''loaded'' con2 = (e, con4)" by fastforce
      then have "con' = con4" using assms(1) by (simp add: menu_edit_config_def l r Inr RunWith)
      then show ?thesis using run_agent_sound [OF e assms(2) s] by simp
    qed
  qed (use assms(1) s r l in \<open>simp add: menu_edit_config_def Let_def\<close>)
qed

lemma database_choice_sound:
  assumes "database_choice opts c con = (r, cmds, con')" "console_sound f0 con"
  shows "console_sound f0 con'"
proof -
  have p: "show_prompt_error con1 = (q, con2) \<Longrightarrow> console_sound f0 con1 \<Longrightarrow> console_sound f0 con2" for con1 q con2
    using pause_sound by blast
  obtain q con1 where q: "confirm_reset con = (q, con1)" by fastforce
  then have s: "console_sound f0 con1" using assms(2) by (auto simp: confirm_reset_def split: list.splits)
  obtain q2 con2 q3 con3 where w: "show_prompt_error con1 = (q2, con2)" "show_prompt_error con = (q3, con3)" by (metis prod.exhaust)
  have "con' \<in> {con1, con2, con3}"
    using assms(1) by (cases q) (auto simp: database_choice_def q w Let_def split: if_splits)
  then show ?thesis using p [OF w(1)] p [OF w(2)] s assms(2) by auto
qed

lemma database_loop_sound:
  "database_loop opts cursor con keys = (r, cmds, con', ks) \<Longrightarrow> console_sound f0 con \<Longrightarrow> console_sound f0 con'"
proof (induction opts cursor con keys arbitrary: r cmds con' ks rule: database_loop.induct)
  case (1 opts cursor con keys)
  obtain c cursor' ks0 where c: "select_menu_item (replicate 6 False) cursor keys = (c, cursor', ks0)" by (metis prod_cases3)
  show ?case
  proof (cases "\<exists>choice < length db_actions. c = Inr (Some choice)")
    case True
    then obtain choice where ch: "c = Inr (Some choice)" "\<not> length db_actions \<le> choice" by auto
    obtain d cs con2 where d: "database_choice opts choice con = (d, cs, con2)" by (metis prod_cases3)
    show ?thesis
      using "1.prems" "1.IH" [OF c [symmetric] ch(1) refl refl ch(2) d [symmetric] _ refl] database_choice_sound [OF d] c ch d
      by (subst (asm) database_loop.simps) (fastforce split: sum.splits prod.splits)
  next
    case False
    then have "c = Inr (Some choice) \<Longrightarrow> length db_actions \<le> choice" for choice by auto
    then show ?thesis using "1.prems" c
      by (subst (asm) database_loop.simps) (cases c; auto split: option.splits)
  qed
qed

lemma agent_loop_sound:
  "agent_loop ao w opts cursor mach con keys = (c, mach', con', ks) \<Longrightarrow> sound_world w opts f0 \<Longrightarrow> console_sound f0 con
    \<Longrightarrow> console_sound f0 con'"
proof (induction ao w opts cursor mach con keys rule: agent_loop.induct)
  case (1 ao w opts cursor mach con keys)
  obtain up mach1 where m: "ao_reachable ao (cn_file con) mach = (up, mach1)" by fastforce
  obtain c cursor' ks0 where c: "select_menu_item (agent_items up (up \<or> ao_stoppable ao mach1)) cursor keys = (c, cursor', ks0)"
    by (metis prod_cases3)
  obtain d con2 where d: "show_prompt_error con = (d, con2)" by fastforce
  show ?case
  proof (cases "\<exists>choice \<in> {1, 2, 3}. c = Inr (Some choice)")
    case True
    then obtain choice where ch0: "choice \<in> {1, 2, 3}" "c = Inr (Some choice)" by (elim bexE)
    then have "choice \<noteq> 0" by auto
    note ch = ch0(2) this ch0(1)
    show ?thesis
      using "1.prems" "1.IH" [OF refl m [symmetric] c [symmetric] ch(1) refl refl ch(2,3) refl d [symmetric]] pause_sound [OF d] m c ch d
      by (subst (asm) agent_loop.simps) (auto simp: Let_def split: sum.splits)
  next
    case False
    then have "c = Inr (Some choice) \<Longrightarrow> choice \<notin> {1, 2, 3}" for choice by blast
    then show ?thesis using "1.prems" m c
      by (subst (asm) agent_loop.simps)
         (cases c; auto simp: Let_def dest: menu_run_agent_sound split: option.splits prod.splits if_splits)
  qed
qed

lemma main_menu_choice_sound:
  assumes "main_menu_choice ao w opts choice mach con keys = (c, cmds, mach', con', ks)" "sound_world w opts f0" "console_sound f0 con"
  shows "console_sound f0 con'"
proof -
  obtain c1 m1 con1 k1 where a: "agent_loop ao w opts 0 mach con keys = (c1, m1, con1, k1)" by (metis prod_cases4)
  obtain c2 con2 k2 where b: "menu_edit_config w opts con keys = (c2, con2, k2)" by (metis prod_cases3)
  obtain r3 m3 con3 k3 where d: "database_loop opts 0 con keys = (r3, m3, con3, k3)" by (metis prod_cases4)
  obtain r4 con4 k4 where e: "api_menu w opts con keys = (r4, con4, k4)" by (metis prod_cases3)
  have "con' \<in> {con, con1, con2, con3, con4}"
    using assms(1) by (auto simp: main_menu_choice_def a b d e Let_def split: if_splits)
  then show ?thesis
    using assms(2,3) agent_loop_sound [OF a] edit_config_sound [OF b] database_loop_sound [OF d] api_menu_sound [OF e] by auto
qed

lemma main_menu_loop_sound:
  "main_menu_loop ao w opts cursor mach con keys = (code, cmds, mach', con') \<Longrightarrow> sound_world w opts f0 \<Longrightarrow> console_sound f0 con
    \<Longrightarrow> console_sound f0 con'"
proof (induction ao w opts cursor mach con keys arbitrary: code cmds mach' con' rule: main_menu_loop.induct)
  case (1 ao w opts cursor mach con keys)
  obtain c cursor' ks0 where c: "select_menu_item (replicate 5 False) cursor keys = (c, cursor', ks0)" by (metis prod_cases3)
  show ?case
  proof (cases "\<exists>choice. c = Inr (Some choice)")
    case True
    then obtain choice where ch: "c = Inr (Some choice)" by blast
    obtain d cs m2 con2 ks2 where d: "main_menu_choice ao w opts choice mach con ks0 = (d, cs, m2, con2, ks2)" by (metis prod_cases5)
    note s = main_menu_choice_sound [OF d "1.prems"(2,3)]
    obtain code3 cs3 m3 con3 where r: "main_menu_loop ao w opts cursor' m2 con2 ks2 = (code3, cs3, m3, con3)" by (metis prod_cases4)
    have "d = None \<Longrightarrow> console_sound f0 con3"
      using "1.IH" [OF c [symmetric] ch refl refl d [symmetric] _ refl refl refl r "1.prems"(2) s] by simp
    moreover have "con' = (if d = None then con3 else con2)"
      using "1.prems"(1) by (subst (asm) main_menu_loop.simps) (auto simp: c ch d r split: option.splits)
    ultimately show ?thesis using s by simp
  next
    case False
    then show ?thesis using "1.prems" c
      by (subst (asm) main_menu_loop.simps) (auto split: sum.splits option.splits)
  qed
qed


text \<open>Down, Enter: the configuration menu; s: save; Enter: back; q: quit.\<close>

definition sample_keys :: string where
  "sample_keys = [CHR 0x1B, CHR ''['', CHR ''B'', CHR 0x0D] @ ''sq''"

definition sample_console :: console where
  "sample_console = \<lparr>cn_lines = [[]], cn_writes = [WriteOk], cn_file = Inl ErrNotExist\<rparr>"

definition sample_world :: cli_world where
  "sample_world = \<lparr>cl_terminal = True, cl_health = Inr (), cl_path = ''/c'', cl_socket_path = ''/s'', cl_env = \<lambda>_. None,
     cl_pflag = \<lambda>_ _. None, cl_menu = \<lambda>cfg _ f. (Inr (False, cfg), f), cl_write = WriteOk, cl_create = CreateOk,
     cl_db = \<lambda>_. Inr (), cl_main_menu = \<lambda>_ f. (0, f), cl_status = \<lambda>_. Inr (), cl_start = \<lambda>_ _ _ f. (Inr (), f)\<rparr>"

definition idle_os :: "unit agent_os" where
  "idle_os = \<lparr>ao_reachable = \<lambda>_ m. (False, m), ao_stoppable = \<lambda>_. False, ao_start = \<lambda>_ m. m, ao_stop = \<lambda>m. m, ao_status = \<lambda>_ m. m\<rparr>"


end
