(* ===== verification/Detached_Agent.thy ===== *)
theory Detached_Agent
  imports Config_Menu
begin

text \<open>
  The agent that the menu starts in the background (\<open>cmd/main_menu.go\<close>): the arguments that it is
  started with, and how it is found and stopped again.  The processes are what \<open>/proc\<close> lists.
\<close>

section \<open>Starting\<close>

definition listener_flag_value :: "listener \<Rightarrow> string" where
  "listener_flag_value l = ''name='' @ ls_name l @ '',address='' @ ls_address l @ '',apis='' @ join_with ''|'' (ls_apis l)"

text \<open>The keys of the map are sorted, as those of this list are.\<close>

definition detached_run_args :: "cmd_options \<Rightarrow> string list" where
  "detached_run_args opts =
     [''run'', ''--config'', co_config_path opts]
     @ (if co_listeners_set opts then concat (map (\<lambda>l. [''--listener'', listener_flag_value l]) (co_listeners opts)) else [])
     @ (if co_collector_interval_set opts then [''--collector-interval'', duration_string (co_collector_interval opts)] else [])
     @ (if co_history_set opts then [''--history'', co_history opts] else [])
     @ (if co_api_cache_default_set opts then [''--api-cache-default'', duration_string (co_api_cache_default opts)] else [])
     @ (if co_api_cache_expensive_set opts then [''--api-cache-expensive'', duration_string (co_api_cache_expensive opts)] else [])
     @ concat (map (\<lambda>(key, ttl). [''--api-cache'', key @ ''='' @ duration_string ttl]) (co_cache_ttl opts))"

section \<open>Finding\<close>

definition split_proc_cmdline :: "string \<Rightarrow> string list" where
  "split_proc_cmdline data =
     (let raw = rev (dropWhile (\<lambda>c. c = CHR 0x00) (rev data)) in if raw = [] then [] else split_on (CHR 0x00) raw)"

text \<open>\<open>filepath.EvalSymlinks\<close> is an argument.\<close>

definition same_executable :: "(string \<Rightarrow> string option) \<Rightarrow> string \<Rightarrow> string \<Rightarrow> bool" where
  "same_executable eval_symlinks candidate exe =
     (candidate = exe \<or> (\<exists>r \<in> set_option (eval_symlinks candidate). eval_symlinks exe = Some r))"

fun has_config_arg :: "string list \<Rightarrow> string \<Rightarrow> bool" where
  "has_config_arg [] config_path = False"
| "has_config_arg (arg # rest) config_path =
     ((arg = ''--config'' \<and> rest \<noteq> [] \<and> path_clean (hd rest) = path_clean config_path)
      \<or> (has_prefix ''--config='' arg \<and> path_clean (trim_prefix ''--config='' arg) = path_clean config_path)
      \<or> has_config_arg rest config_path)"

definition local_agent_args_match :: "(string \<Rightarrow> string option) \<Rightarrow> string list \<Rightarrow> string \<Rightarrow> string \<Rightarrow> bool" where
  "local_agent_args_match eval_symlinks args exe config_path =
     (2 \<le> length args \<and> same_executable eval_symlinks (hd args) exe \<and> ''run'' \<in> set args \<and> has_config_arg args config_path)"

text \<open>
  What the menu sees: the pid file, the processes that signals can reach, the names in \<open>/proc\<close> with the
  command lines that can be read, and itself.
\<close>

record proc_view =
  pv_pid_file :: "string option"
  pv_alive :: "int \<Rightarrow> bool"
  pv_entries :: "(string \<times> string option) list"
  pv_self :: int
  pv_exe :: string
  pv_eval_symlinks :: "string \<Rightarrow> string option"

definition process_running :: "proc_view \<Rightarrow> int \<Rightarrow> bool" where
  "process_running pv pid = (0 < pid \<and> pv_alive pv pid)"

definition read_detached_agent_pid :: "proc_view \<Rightarrow> int option" where
  "read_detached_agent_pid pv = (case pv_pid_file pv of None \<Rightarrow> None | Some data \<Rightarrow> parse_int64 (trim_space data))"

fun find_in_proc :: "proc_view \<Rightarrow> string \<Rightarrow> (string \<times> string option) list \<Rightarrow> int option" where
  "find_in_proc pv config_path [] = None"
| "find_in_proc pv config_path ((name, cmdline) # rest) =
     (case (parse_int64 name, cmdline) of
        (Some pid, Some data) \<Rightarrow>
          if pid \<noteq> pv_self pv \<and> local_agent_args_match (pv_eval_symlinks pv) (split_proc_cmdline data) (pv_exe pv) config_path
          then Some pid else find_in_proc pv config_path rest
      | _ \<Rightarrow> find_in_proc pv config_path rest)"

definition find_local_agent_pid :: "proc_view \<Rightarrow> string \<Rightarrow> int option" where
  "find_local_agent_pid pv config_path =
     (case read_detached_agent_pid pv of
        Some pid \<Rightarrow> if process_running pv pid then Some pid else find_in_proc pv config_path (pv_entries pv)
      | None \<Rightarrow> find_in_proc pv config_path (pv_entries pv))"

section \<open>Stopping\<close>

datatype signal = SIGTERM | SIGKILL

text \<open>
  \<open>terminateProcess\<close>: the error of a signal, unless it is \<open>ESRCH\<close>, and whether the process still runs
  when the wait of three seconds is over.
\<close>

record kill_answers =
  ka_term :: "go_error option"
  ka_still_running :: bool
  ka_kill :: "go_error option"

definition terminate_process :: "proc_view \<Rightarrow> kill_answers \<Rightarrow> int \<Rightarrow> unit res \<times> (int \<times> signal) list" where
  "terminate_process pv ka pid =
     (if \<not> process_running pv pid then (Inr (), [])
      else case ka_term ka of
        Some e \<Rightarrow> (Inl e, [(pid, SIGTERM)])
      | None \<Rightarrow>
          if \<not> ka_still_running ka then (Inr (), [(pid, SIGTERM)])
          else ((case ka_kill ka of Some e \<Rightarrow> Inl e | None \<Rightarrow> Inr ()), [(pid, SIGTERM), (pid, SIGKILL)]))"

datatype systemd_result = SystemdStarted | SystemdUnavailable | SystemdFailed

text \<open>\<open>systemctl\<close>: not found, or what it answers and prints.\<close>

definition systemctl_result :: "(bool \<times> string) option \<Rightarrow> systemd_result" where
  "systemctl_result answer = (case answer of
     None \<Rightarrow> SystemdUnavailable
   | Some (failed, output) \<Rightarrow>
       if \<not> failed then SystemdStarted
       else if contains_str ''Unit go-monitoring.service not found'' (trim_space output) then SystemdUnavailable
       else SystemdFailed)"

text \<open>\<open>stopAgentBackground\<close>: the signals, whether \<open>systemctl stop\<close> was asked, and whether the files of the agent are removed.\<close>

record stop_effects =
  se_signals :: "(int \<times> signal) list"
  se_systemctl :: bool
  se_cleanup :: bool

definition stop_agent_background :: "proc_view \<Rightarrow> kill_answers \<Rightarrow> (bool \<times> string) option \<Rightarrow> string \<Rightarrow> stop_effects" where
  "stop_agent_background pv ka answer config_path =
     (case find_local_agent_pid pv config_path of
        Some pid \<Rightarrow> (case terminate_process pv ka pid of
            (Inl e, signals) \<Rightarrow> \<lparr>se_signals = signals, se_systemctl = False, se_cleanup = False\<rparr>
          | (Inr _, signals) \<Rightarrow> \<lparr>se_signals = signals, se_systemctl = False, se_cleanup = True\<rparr>)
      | None \<Rightarrow> \<lparr>se_signals = [], se_systemctl = (answer \<noteq> None),
          se_cleanup = (systemctl_result answer = SystemdUnavailable)\<rparr>)"

end
