(* ===== verification/Detached_Properties.thy ===== *)
theory Detached_Properties
  imports Detached_Agent Command_Properties
begin

text \<open>
  The background agent gets the flags that the menu got, and whom stopping it signals.
\<close>

section \<open>Splitting and joining\<close>

lemma split_on_nonempty [simp]: "split_on d s \<noteq> []"
  by (cases s) (auto split: list.splits)

lemma split_on_single: "d \<notin> set s \<Longrightarrow> split_on d s = [s]"
  by (induction s) auto

lemma split_on_append: "d \<notin> set a \<Longrightarrow> split_on d (a @ d # b) = a # split_on d b"
  by (induction a) auto

lemma split_on_join: "list_all (\<lambda>s. d \<notin> set s) ss \<Longrightarrow> ss \<noteq> [] \<Longrightarrow> split_on d (join_with [d] ss) = ss"
  by (induction "[d]" ss rule: join_with.induct) (auto simp: split_on_single split_on_append)

lemma split_on_pieces: "p \<in> set (split_on d s) \<Longrightarrow> d \<notin> set p \<and> set p \<subseteq> set s"
  by (induction s arbitrary: p) (fastforce split: if_splits list.splits)+

lemma cut_at_here: "d \<notin> set a \<Longrightarrow> cut_at d (a @ d # b) = Some (a, b)"
  by (induction a) auto

lemma cut_at_parts: "cut_at d s = Some (a, b) \<Longrightarrow> s = a @ d # b \<and> d \<notin> set a"
  by (induction s arbitrary: a) (auto split: if_splits)

section \<open>Listeners\<close>

text \<open>What a listener that was given by a flag looks like.\<close>

definition api_clean :: "string \<Rightarrow> bool" where
  "api_clean a = (trim_space a = a \<and> a \<noteq> [] \<and> set a \<inter> set '',|+;'' = {})"

definition flag_clean :: "listener \<Rightarrow> bool" where
  "flag_clean l = (trim_space (ls_name l) = ls_name l \<and> CHR '','' \<notin> set (ls_name l)
     \<and> trim_space (ls_address l) = ls_address l \<and> CHR '','' \<notin> set (ls_address l)
     \<and> list_all api_clean (ls_apis l) \<and> \<not> ls_implicit l)"

lemma split_apis_clean: "CHR '','' \<notin> set raw \<Longrightarrow> list_all api_clean (split_listener_apis raw)"
proof -
  assume c: "CHR '','' \<notin> set raw"
  have "set p \<inter> set '',|+;'' = {}"
    if "a \<in> set (split_on (CHR ''|'') raw)" "b \<in> set (split_on (CHR ''+'') a)" "p \<in> set (split_on (CHR '';'') b)" for a b p
    using split_on_pieces [OF that(1)] split_on_pieces [OF that(2)] split_on_pieces [OF that(3)] c by auto
  then show ?thesis
    using set_trim_space by (fastforce simp: split_listener_apis_def list_all_iff api_clean_def)
qed

lemma split_join_apis: "list_all api_clean apis \<Longrightarrow> apis \<noteq> [] \<Longrightarrow> split_listener_apis (join_with ''|'' apis) = apis"
proof -
  assume c: "list_all api_clean apis" and "apis \<noteq> []"
  then have s: "split_on (CHR ''|'') (join_with ''|'' apis) = apis"
    by (intro split_on_join) (auto simp: api_clean_def list_all_iff)
  have "concat (map (\<lambda>p. concat (map (split_on (CHR '';'')) (split_on (CHR ''+'') p))) apis) = apis"
    using c by (induction apis) (simp_all add: api_clean_def split_on_single)
  moreover have "filter (\<lambda>f. f \<noteq> []) apis = apis" "map trim_space apis = apis"
    using c by (auto simp: list_all_iff api_clean_def filter_id_conv map_idI)
  ultimately show ?thesis unfolding split_listener_apis_def s by simp
qed

lemma flag_part_clean:
  assumes "listener_part l part = Inr l'" "CHR '','' \<notin> set part" "flag_clean l"
  shows "flag_clean l'"
proof -
  obtain k v where c: "cut_at (CHR ''='') part = Some (k, v)"
    using assms(1) by (auto simp: listener_part_def split: option.splits)
  have v: "CHR '','' \<notin> set (trim_space v)" using cut_at_parts [OF c] assms(2) set_trim_space by auto
  show ?thesis
    using assms(1,3) v split_apis_clean [OF v]
    by (auto simp: listener_part_def c flag_clean_def Let_def split: if_splits)
qed

lemma flag_set_clean:
  assumes "listener_list_set raw ls = Inr ls'"
  obtains l where "ls' = ls @ [l]" "flag_clean l" "ls_address l \<noteq> []" "ls_apis l \<noteq> []" "ls_name l \<noteq> []"
proof -
  obtain l0 where l0: "fold_res listener_part zero_listener (split_on (CHR '','') raw) = Inr l0"
    using assms by (auto simp: listener_list_set_def attempt_Inr_iff)
  have "flag_clean zero_listener" by (simp add: flag_clean_def zero_listener_def trim_space_def)
  then have c: "flag_clean l0"
    by (intro fold_res_invariant [OF l0, where I = flag_clean]) (auto dest: split_on_pieces flag_part_clean)
  have d: "list_all is_digit (format_int (int (length ls) + 1))" "format_int (int (length ls) + 1) \<noteq> []"
    using is_digit_nat_digits hd_format_int [of "int (length ls) + 1"] by (simp_all add: format_int_def)
  have "is_digit (last (format_int (int (length ls) + 1)))" using d by (metis last_in_set list_all_iff)
  then have n: "trim_space (''listener-'' @ format_int (int (length ls) + 1)) = ''listener-'' @ format_int (int (length ls) + 1)"
    using d by (intro trim_space_fix) (auto simp: is_space_def is_digit_def digit_value_def Let_def split: if_splits)
  have "CHR '','' \<notin> set (format_int (int (length ls) + 1))"
    using d by (auto simp: list_all_iff is_digit_def digit_value_def)
  note n = n this
  have m: "api_clean ''metrics''" by code_simp
  show thesis
    using assms c n m by (intro that [of "last ls'"]) (auto simp: listener_list_set_def l0 Let_def flag_clean_def split: if_splits)
qed

lemma set_join: "c \<in> set (join_with sep ss) \<Longrightarrow> c \<in> set sep \<or> (\<exists>s \<in> set ss. c \<in> set s)"
  by (induction sep ss rule: join_with.induct) auto

lemma hd_join: "s \<noteq> [] \<Longrightarrow> hd (join_with sep (s # ss)) = hd s"
  by (cases ss) simp_all

lemma last_join: "ss \<noteq> [] \<Longrightarrow> last ss \<noteq> [] \<Longrightarrow> join_with sep ss \<noteq> [] \<and> last (join_with sep ss) = last (last ss)"
  by (induction sep ss rule: join_with.induct) auto

lemma join_apis_clean:
  assumes "list_all api_clean apis" "apis \<noteq> []"
  shows "trim_space (join_with ''|'' apis) = join_with ''|'' apis \<and> CHR '','' \<notin> set (join_with ''|'' apis)"
proof
  have c: "a \<noteq> []" "\<not> is_space (hd a)" "\<not> is_space (last a)" "CHR '','' \<notin> set a" if "a \<in> set apis" for a
    using assms(1) that trim_space_ends [of a] by (auto simp: list_all_iff api_clean_def)
  obtain a as where a: "apis = a # as" using assms(2) by (cases apis) auto
  have "last apis \<in> set apis" using assms(2) by simp
  then show "trim_space (join_with ''|'' apis) = join_with ''|'' apis"
    using c [of a] c [of "last apis"] hd_join [of a "''|''" as] last_join [OF assms(2), of "''|''"] a
    by (intro trim_space_fix) simp_all
  show "CHR '','' \<notin> set (join_with ''|'' apis)" using set_join c(4) by fastforce
qed

lemma flag_value_read:
  assumes "flag_clean l" "ls_address l \<noteq> []" "ls_apis l \<noteq> []" "ls_name l \<noteq> []"
  shows "listener_list_set (listener_flag_value l) ls = Inr (ls @ [l])"
proof -
  have a: "CHR '','' \<notin> set (join_with ''|'' (ls_apis l))" and t: "trim_space (join_with ''|'' (ls_apis l)) = join_with ''|'' (ls_apis l)"
    using join_apis_clean assms by (simp_all add: flag_clean_def)
  have "split_on (CHR '','') (listener_flag_value l)
      = [''name='' @ ls_name l, ''address='' @ ls_address l, ''apis='' @ join_with ''|'' (ls_apis l)]"
    using split_on_append [of "CHR '',''" "''name='' @ ls_name l"] split_on_append [of "CHR '',''" "''address='' @ ls_address l"]
      split_on_single [of "CHR '',''" "''apis='' @ join_with ''|'' (ls_apis l)"] assms(1) a
    by (simp add: listener_flag_value_def flag_clean_def)
  moreover have "cut_at (CHR ''='') (''name='' @ x) = Some (''name'', x)" "cut_at (CHR ''='') (''address='' @ x) = Some (''address'', x)"
    "cut_at (CHR ''='') (''apis='' @ x) = Some (''apis'', x)" for x
    by simp_all
  moreover have "to_lower (trim_space ''name'') = ''name''" "to_lower (trim_space ''address'') = ''address''" "to_lower (trim_space ''apis'') = ''apis''"
    by code_simp+
  ultimately show ?thesis
    using assms split_join_apis [of "ls_apis l"]
    by (simp add: listener_list_set_def listener_part_def flag_clean_def t zero_listener_def)
qed

lemma listeners_kept:
  "fold_res (\<lambda>ls raw. listener_list_set raw ls) ls0 raws = Inr ls \<Longrightarrow>
     \<exists>new. ls = ls0 @ new \<and> (\<forall>ws. fold_res (\<lambda>ls raw. listener_list_set raw ls) ws (map listener_flag_value new) = Inr (ws @ new))"
proof (induction raws arbitrary: ls0)
  case (Cons raw raws)
  obtain ls1 where ls1: "listener_list_set raw ls0 = Inr ls1" "fold_res (\<lambda>ls raw. listener_list_set raw ls) ls1 raws = Inr ls"
    using Cons.prems by (auto simp: attempt_Inr_iff)
  obtain l where l: "ls1 = ls0 @ [l]" "flag_clean l" "ls_address l \<noteq> []" "ls_apis l \<noteq> []" "ls_name l \<noteq> []"
    using flag_set_clean [OF ls1(1)] by blast
  obtain new where new: "ls = ls1 @ new"
    "\<And>ws. fold_res (\<lambda>ls raw. listener_list_set raw ls) ws (map listener_flag_value new) = Inr (ws @ new)"
    using Cons.IH [OF ls1(2)] by blast
  show ?case
    using l(1) new flag_value_read [OF l(2-5)] by (intro exI [of _ "l # new"]) simp
qed simp

section \<open>Cache times\<close>

lemma leading_int_nonneg: "leading_int x s = Some (v, r) \<Longrightarrow> 0 \<le> x \<Longrightarrow> 0 \<le> v"
  by (induction x s rule: leading_int.induct) (auto simp: Let_def split: option.splits if_splits)

lemma duration_part_nonneg: "duration_part s = Some (v, rest) \<Longrightarrow> 0 \<le> v"
proof -
  assume d: "duration_part s = Some (v, rest)"
  obtain v0 s1 where l: "leading_int 0 s = Some (v0, s1)" using d by (auto simp: duration_part_def split: if_splits option.splits)
  have "map_of unit_map u = Some w \<Longrightarrow> 0 < w" for u w by (auto simp: unit_map_def split: if_splits)
  with d leading_int_nonneg [OF l] show ?thesis
    by (fastforce simp: duration_part_def l Let_def split: if_splits option.splits prod.splits)
qed

lemma duration_parts_nonneg: "duration_parts fuel d s = Some r \<Longrightarrow> 0 \<le> d \<Longrightarrow> 0 \<le> r"
  by (induction fuel d s rule: duration_parts.induct) (auto dest: duration_part_nonneg split: if_splits option.splits)

lemma parse_duration_range: "parse_duration s = Some d \<Longrightarrow> 0 \<le> d \<Longrightarrow> d < 2 ^ 63"
  using duration_parts_nonneg [of _ 0]
  by (fastforce simp: parse_duration_def Let_def split: if_splits option.splits)

definition cache_clean :: "string \<times> int \<Rightarrow> bool" where
  "cache_clean = (\<lambda>(k, d). to_lower (trim_space k) = k \<and> CHR ''='' \<notin> set k \<and> int64_duration d)"

lemma lower_char_equals: "lower_char c = CHR ''='' \<Longrightarrow> c = CHR ''=''"
  by (auto simp: lower_char_def Let_def of_char_of split: if_splits dest: arg_cong [of _ _ "of_char :: _ \<Rightarrow> nat"])

lemma duration_set_clean:
  assumes "duration_map_set raw m = Inr m'" "msorted m \<and> list_all cache_clean m"
  shows "msorted m' \<and> list_all cache_clean m'"
proof -
  obtain key v ttl where c: "cut_at (CHR ''='') raw = Some (key, v)" "parse_duration (trim_space v) = Some ttl" "0 \<le> ttl"
    "m' = mput (to_lower (trim_space key)) ttl m"
    using assms(1) by (auto simp: duration_map_set_def attempt_Inr_iff parsed_duration_def split: option.splits if_splits)
  have "CHR ''='' \<notin> set (trim_space key)" using cut_at_parts [OF c(1)] set_trim_space by auto
  then have "CHR ''='' \<notin> set (to_lower (trim_space key))" by (auto simp: to_lower_def dest: lower_char_equals [OF sym])
  then have "cache_clean (to_lower (trim_space key), ttl)"
    using c(2,3) parse_duration_range by (simp add: cache_clean_def int64_duration_def to_lower_trim)
  then show ?thesis using assms(2) c(4) set_mput by (fastforce simp: msorted_mput list_all_iff)
qed

lemma cache_flag_read:
  "cache_clean (k, d) \<Longrightarrow> duration_map_set (k @ ''='' @ duration_string d) m = Inr (mput k d m)"
  by (simp add: duration_map_set_def cache_clean_def cut_at_here parsed_duration_def trim_duration int64_duration_def
    duration_round_trip)

lemma cache_times_kept:
  assumes "fold_res (\<lambda>m raw. duration_map_set raw m) [] raws = Inr m"
  shows "fold_res (\<lambda>m raw. duration_map_set raw m) [] (map (\<lambda>(k, d). k @ ''='' @ duration_string d) m) = Inr m"
proof -
  have c: "msorted m \<and> list_all cache_clean m"
    by (rule fold_res_invariant [OF assms, where I = "\<lambda>m. msorted m \<and> list_all cache_clean m"]) (auto dest: duration_set_clean)
  have "fold_res (\<lambda>m raw. duration_map_set raw m) old (map (\<lambda>(k, d). k @ ''='' @ duration_string d) xs)
      = Inr (foldl (\<lambda>m (k, v). mput k v m) old xs)" if "list_all cache_clean xs" for xs old
    using that by (induction xs arbitrary: old) (auto simp: cache_flag_read simp del: append.simps)
  then show ?thesis using c foldl_mput_over [of m "[]"] by simp
qed

section \<open>The command line of the background agent\<close>

text \<open>The values that follow a flag on a command line of flags with a value each.\<close>

fun flag_values :: "string \<Rightarrow> string list \<Rightarrow> string list" where
  "flag_values name (flag # v # rest) = (if flag = name then [v] else []) @ flag_values name rest"
| "flag_values name _ = []"

lemma flag_values_block:
  "flag_values name (concat (map (\<lambda>x. [flag, f x]) xs) @ rest) = (if flag = name then map f xs else []) @ flag_values name rest"
  by (induction xs) auto

lemma flag_values_pairs:
  "flag_values name (concat (map (\<lambda>(k, d). [flag, f k d]) xs)) = (if flag = name then map (\<lambda>(k, d). f k d) xs else [])"
  by (induction xs) auto

lemma flag_values_one: "flag_values name ((if b then [flag, v] else []) @ rest) = (if flag = name \<and> b then [v] else []) @ flag_values name rest"
  by simp

lemma detached_flag_values:
  defines "args opts \<equiv> tl (detached_run_args opts)"
  shows "flag_values ''--config'' (args opts) = [co_config_path opts]"
    "flag_values ''--listener'' (args opts) = (if co_listeners_set opts then map listener_flag_value (co_listeners opts) else [])"
    "flag_values ''--collector-interval'' (args opts) = (if co_collector_interval_set opts then [duration_string (co_collector_interval opts)] else [])"
    "flag_values ''--history'' (args opts) = (if co_history_set opts then [co_history opts] else [])"
    "flag_values ''--api-cache-default'' (args opts) = (if co_api_cache_default_set opts then [duration_string (co_api_cache_default opts)] else [])"
    "flag_values ''--api-cache-expensive'' (args opts) = (if co_api_cache_expensive_set opts then [duration_string (co_api_cache_expensive opts)] else [])"
    "flag_values ''--api-cache'' (args opts) = map (\<lambda>(k, d). k @ ''='' @ duration_string d) (co_cache_ttl opts)"
  unfolding args_def detached_run_args_def
  by (cases "co_listeners_set opts"; simp add: flag_values_block flag_values_one flag_values_pairs)+



section \<open>Whom stopping signals\<close>

text \<open>
  C38: Stopping the background agent signals at most one process.  If the process of the pid file runs, it
  is that one, whatever program it is; else it is one whose command line is that of an agent with this
  configuration, which may be one that the service manager runs.  Only where there is none is the
  service manager asked.
\<close>

theorem stop_signals:
  assumes "fx = stop_agent_background pv ka answer path"
  shows "(\<forall>pid. read_detached_agent_pid pv = Some pid \<and> process_running pv pid \<longrightarrow> fst ` set (se_signals fx) = {pid})
    \<and> (\<forall>pid \<in> fst ` set (se_signals fx). find_local_agent_pid pv path = Some pid
         \<and> (read_detached_agent_pid pv = Some pid
            \<or> (pid \<noteq> pv_self pv \<and> (\<exists>(name, cmdline) \<in> set (pv_entries pv). parse_int64 name = Some pid
                \<and> (\<exists>data \<in> set_option cmdline.
                     local_agent_args_match (pv_eval_symlinks pv) (split_proc_cmdline data) (pv_exe pv) path)))))
    \<and> (se_systemctl fx \<longrightarrow> se_signals fx = [])"
proof -
  have f: "find_in_proc pv path es = Some pid \<Longrightarrow> pid \<noteq> pv_self pv \<and> (\<exists>(name, cmdline) \<in> set es. parse_int64 name = Some pid
      \<and> (\<exists>data \<in> set_option cmdline. local_agent_args_match (pv_eval_symlinks pv) (split_proc_cmdline data) (pv_exe pv) path))" for es pid
    by (induction pv path es rule: find_in_proc.induct) (force split: option.splits if_splits)+
  have s: "fst ` set (snd (terminate_process pv ka pid)) = (if process_running pv pid then {pid} else {})" for pid
    by (auto simp: terminate_process_def split: option.splits)
  have g: "fst ` set (se_signals fx) = (case find_local_agent_pid pv path of
      None \<Rightarrow> {} | Some pid \<Rightarrow> if process_running pv pid then {pid} else {})"
    unfolding assms s [symmetric] by (auto simp: stop_agent_background_def split: option.splits sum.splits prod.splits)
  have c: "find_local_agent_pid pv path = Some pid \<Longrightarrow> read_detached_agent_pid pv = Some pid \<or> find_in_proc pv path (pv_entries pv) = Some pid" for pid
    by (auto simp: find_local_agent_pid_def split: option.splits if_splits)
  have m: "se_systemctl fx \<longrightarrow> se_signals fx = []"
    by (auto simp: assms stop_agent_background_def split: option.splits sum.splits prod.splits)
  have p: "read_detached_agent_pid pv = Some pid \<Longrightarrow> process_running pv pid \<Longrightarrow> find_local_agent_pid pv path = Some pid" for pid
    by (simp add: find_local_agent_pid_def)
  have u: "find_local_agent_pid pv path = Some pid" if "pid \<in> fst ` set (se_signals fx)" for pid
    using that unfolding g by (simp split: option.splits if_splits)
  have one: "fst ` set (se_signals fx) = {pid}" if "read_detached_agent_pid pv = Some pid" "process_running pv pid" for pid
    unfolding g using p [OF that] that(2) by simp
  show ?thesis
  proof (intro conjI ballI)
    show "\<forall>pid. read_detached_agent_pid pv = Some pid \<and> process_running pv pid \<longrightarrow> fst ` set (se_signals fx) = {pid}"
      using one by blast
  next
    fix pid assume pid: "pid \<in> fst ` set (se_signals fx)"
    show "find_local_agent_pid pv path = Some pid" by (rule u [OF pid])
    show "read_detached_agent_pid pv = Some pid \<or> (pid \<noteq> pv_self pv \<and> (\<exists>(name, cmdline) \<in> set (pv_entries pv).
      parse_int64 name = Some pid \<and> (\<exists>data \<in> set_option cmdline.
        local_agent_args_match (pv_eval_symlinks pv) (split_proc_cmdline data) (pv_exe pv) path)))"
      using c [OF u [OF pid]]
    proof
      assume "find_in_proc pv path (pv_entries pv) = Some pid"
      then show ?thesis by (rule disjI2 [OF f])
    qed (rule disjI1)
  qed (rule m)
qed

text \<open>A pid file that is left from an earlier boot names a process that has nothing to do with the agent.\<close>

definition stale_view :: proc_view where
  "stale_view = \<lparr>pv_pid_file = Some (''4242'' @ [CHR 0x0A]), pv_alive = (\<lambda>pid. pid = 4242),
     pv_entries = [(''4242'', Some (''sshd'' @ [CHR 0x00] @ ''-D''))], pv_self = 1, pv_exe = ''/usr/bin/go-monitoring'',
     pv_eval_symlinks = Some\<rparr>"

theorem stop_signals_witness:
  "fst ` set (se_signals (stop_agent_background stale_view \<lparr>ka_term = None, ka_still_running = True, ka_kill = None\<rparr> None ''/c'')) = {4242}
   \<and> \<not> local_agent_args_match Some (split_proc_cmdline (''sshd'' @ [CHR 0x00] @ ''-D'')) ''/usr/bin/go-monitoring'' ''/c''"
proof -
  have "trim_space (''4242'' @ [CHR 0x0A]) = format_int 4242"
    by (simp add: trim_space_def is_space_def format_int_def nat_digits.simps of_char_of) code_simp
  then have "read_detached_agent_pid stale_view = Some 4242" "process_running stale_view 4242"
    using parse_format_int [of 4242] by (simp_all add: read_detached_agent_pid_def stale_view_def process_running_def)
  then have "fst ` set (se_signals (stop_agent_background stale_view \<lparr>ka_term = None, ka_still_running = True, ka_kill = None\<rparr> None ''/c'')) = {4242}"
    by (rule stop_signals [OF refl, THEN conjunct1, rule_format, OF conjI])
  moreover have "\<not> local_agent_args_match Some (split_proc_cmdline (''sshd'' @ [CHR 0x00] @ ''-D'')) ''/usr/bin/go-monitoring'' ''/c''"
    by code_simp
  ultimately show ?thesis by blast
qed

end
