(* ===== verification/Store_Files.thy ===== *)
theory Store_Files
  imports Rollups Config_File
begin

text \<open>
  Opening, checking, repairing and resetting the database file (\<open>store/store.go\<close>), the directory it is in
  (\<open>store/data_dir.go\<close>), and the \<open>db\<close> command (\<open>cmd/root.go\<close>).  SQLite is an argument: what a statement does
  to the files, what the files hold, and its errors.  A file's content is of a type \<open>'c\<close> of its own.
\<close>

section \<open>The engine\<close>

datatype statement =
    Pragma string | CreateMeta | CreateCurrent string | CreateHistory string | CreateHistoryIndex string | SetUserVersion int

type_synonym 'c files = "string \<Rightarrow> 'c option"

record 'c engine =
  en_open :: "go_error option"
  en_exec :: "statement \<Rightarrow> 'c files \<Rightarrow> go_error option \<times> 'c files"
  en_user_version :: "'c files \<Rightarrow> int res"
  en_quick_check :: "'c files \<Rightarrow> string list res"
  en_db :: "'c files \<Rightarrow> db"
  en_code :: "go_error \<Rightarrow> int option"

fun exec_all :: "'c engine \<Rightarrow> statement list \<Rightarrow> 'c files \<Rightarrow> unit res \<times> 'c files" where
  "exec_all en [] fs = (Inr (), fs)"
| "exec_all en (s # ss) fs = (case en_exec en s fs of
     (Some e, fs') \<Rightarrow> (Inl e, fs') | (None, fs') \<Rightarrow> exec_all en ss fs')"

section \<open>Opening\<close>

definition schema_statements :: "statement list" where
  "schema_statements = [CreateMeta]
     @ concat (map (\<lambda>p. [CreateCurrent (plugin_current_table p), CreateHistory (plugin_history_table p),
         CreateHistoryIndex (plugin_history_table p)]) plugin_names)
     @ [SetUserVersion store_schema_version]"

definition open_pragmas :: "statement list" where
  "open_pragmas = map Pragma [''journal_mode = WAL'', ''synchronous = NORMAL'', ''foreign_keys = ON'', ''busy_timeout = 5000'']"

definition init_store :: "'c engine \<Rightarrow> 'c files \<Rightarrow> unit res \<times> 'c files" where
  "init_store en fs = (case exec_all en open_pragmas fs of
     (Inl e, fs1) \<Rightarrow> (Inl e, fs1)
   | (Inr _, fs1) \<Rightarrow> (case en_user_version en fs1 of
       Inl e \<Rightarrow> (Inl e, fs1)
     | Inr version \<Rightarrow>
         if version = 0 \<or> version = store_schema_version then exec_all en schema_statements fs1
         else (Inl (ErrText (''unsupported store schema version '' @ format_int version)), fs1)))"

definition open_store_db :: "'c engine \<Rightarrow> string list \<Rightarrow> 'c files \<Rightarrow> store res \<times> 'c files" where
  "open_store_db en history_plugins fs = (case en_open en of
     Some e \<Rightarrow> (Inl e, fs)
   | None \<Rightarrow> (case init_store en fs of
       (Inl e, fs') \<Rightarrow> (Inl e, fs')
     | (Inr _, fs') \<Rightarrow> (Inr \<lparr>st_db = en_db en fs', st_history_plugins = history_plugin_set history_plugins\<rparr>, fs')))"

text \<open>The primary result codes \<open>SQLITE_CORRUPT\<close> and \<open>SQLITE_NOTADB\<close> are 11 and 26.\<close>

definition recoverable_store_open_error :: "'c engine \<Rightarrow> go_error \<Rightarrow> bool" where
  "recoverable_store_open_error en e = (case en_code en e of
     None \<Rightarrow> False | Some code \<Rightarrow> code mod 256 \<in> {11, 26})"

definition database_path :: "string \<Rightarrow> string" where
  "database_path data_dir = path_join data_dir ''metrics.db''"

section \<open>Moving aside\<close>

text \<open>The errors of \<open>os.Stat\<close> on a file that is there, and of \<open>os.Rename\<close>; \<open>stamp\<close> is the formatted time.\<close>

record move_answers =
  mv_stat :: "string \<Rightarrow> go_error option"
  mv_rename :: "string \<Rightarrow> go_error option"
  mv_stamp :: string

fun move_each :: "move_answers \<Rightarrow> string \<Rightarrow> string list \<Rightarrow> 'c files \<Rightarrow> go_error option \<times> string list \<times> 'c files" where
  "move_each mv suffix [] fs = (None, [], fs)"
| "move_each mv suffix (path # paths) fs = (case mv_stat mv path of
     Some e \<Rightarrow> (Some e, [], fs)
   | None \<Rightarrow> (case fs path of
       None \<Rightarrow> move_each mv suffix paths fs
     | Some content \<Rightarrow> (case mv_rename mv path of
         Some e \<Rightarrow> (Some e, [], fs)
       | None \<Rightarrow> (case move_each mv suffix paths (fs(path @ suffix \<mapsto> content, path := None)) of
           (r, moved, fs') \<Rightarrow> (r, (path @ suffix) # moved, fs')))))"

definition store_files :: "string \<Rightarrow> string list" where
  "store_files db_path = [db_path, db_path @ ''-wal'', db_path @ ''-shm'']"

definition aside_suffix :: "move_answers \<Rightarrow> string \<Rightarrow> string" where
  "aside_suffix mv reason = ''.'' @ reason @ ''-'' @ mv_stamp mv"

definition move_aside_store_files :: "move_answers \<Rightarrow> string \<Rightarrow> string \<Rightarrow> 'c files \<Rightarrow> go_error option \<times> string list \<times> 'c files" where
  "move_aside_store_files mv db_path reason = move_each mv (aside_suffix mv reason) (store_files db_path)"

definition open_store :: "'c engine \<Rightarrow> move_answers \<Rightarrow> string \<Rightarrow> string list \<Rightarrow> 'c files \<Rightarrow> store res \<times> 'c files" where
  "open_store en mv data_dir history_plugins fs = (case open_store_db en history_plugins fs of
     (Inr s, fs1) \<Rightarrow> (Inr s, fs1)
   | (Inl e, fs1) \<Rightarrow>
       if \<not> recoverable_store_open_error en e then (Inl e, fs1)
       else (case move_aside_store_files mv (database_path data_dir) ''corrupt'' fs1 of
           (Some m, _, fs2) \<Rightarrow> (Inl (ErrWrap ''open metrics.db failed'' (ErrJoin e m)), fs2)
         | (None, _, fs2) \<Rightarrow> open_store_db en history_plugins fs2))"

section \<open>Checking, resetting, repairing\<close>

definition check_database_file :: "'c engine \<Rightarrow> go_error option \<Rightarrow> string \<Rightarrow> 'c files \<Rightarrow> unit res" where
  "check_database_file en stat_err data_dir fs =
     (case (case stat_err of Some e \<Rightarrow> Some e | None \<Rightarrow> if fs (database_path data_dir) = None then Some ErrNotExist else None) of
        Some e \<Rightarrow> Inl (ErrWrap ''stat metrics.db'' e)
      | None \<Rightarrow> (case en_open en of
          Some e \<Rightarrow> Inl e
        | None \<Rightarrow> attempt (en_quick_check en fs) (\<lambda>rows.
            attempt (check_db_integrity rows) (\<lambda>_.
            attempt (en_user_version en fs) check_database_version))))"

text \<open>The store if it was opened, the files moved, the files.\<close>

definition reset_database :: "'c engine \<Rightarrow> move_answers \<Rightarrow> go_error option \<Rightarrow> string \<Rightarrow> string list \<Rightarrow> 'c files
    \<Rightarrow> store res \<times> string list \<times> 'c files" where
  "reset_database en mv mkdir_err data_dir history_plugins fs = (case mkdir_err of
     Some e \<Rightarrow> (Inl e, [], fs)
   | None \<Rightarrow> (case move_aside_store_files mv (database_path data_dir) ''reset'' fs of
       (Some e, _, fs1) \<Rightarrow> (Inl e, [], fs1)
     | (None, moved, fs1) \<Rightarrow> (case open_store_db en history_plugins fs1 of (r, fs2) \<Rightarrow> (r, moved, fs2))))"

definition repair_database :: "'c engine \<Rightarrow> move_answers \<Rightarrow> string \<Rightarrow> string list \<Rightarrow> 'c files
    \<Rightarrow> store res \<times> string list \<times> 'c files" where
  "repair_database en mv data_dir history_plugins fs =
     (let move = (\<lambda>repair_err fs1. case move_aside_store_files mv (database_path data_dir) ''repair'' fs1 of
            (Some m, _, fs2) \<Rightarrow> (Inl (ErrWrap ''repair metrics.db failed'' (ErrJoin repair_err m)), [], fs2)
          | (None, moved, fs2) \<Rightarrow> (case open_store_db en history_plugins fs2 of (r, fs3) \<Rightarrow> (r, moved, fs3)))
      in case open_store_db en history_plugins fs of
           (Inr s, fs1) \<Rightarrow> (case attempt (en_quick_check en fs1) check_db_integrity of
               Inr _ \<Rightarrow> (Inr s, [], fs1)
             | Inl e \<Rightarrow> move e fs1)
         | (Inl e, fs1) \<Rightarrow> if recoverable_store_open_error en e then move e fs1 else (Inl e, [], fs1))"

section \<open>The data directory\<close>

text \<open>
  What the file system says of a directory: whether it exists, with the error if something else is
  there, whether a file can be created in it, now and after it was made, and whether it can be made.
\<close>

record dir_answers =
  da_exists :: "string \<Rightarrow> bool res"
  da_writable :: "string \<Rightarrow> bool"
  da_mkdir :: "string \<Rightarrow> go_error option"
  da_writable_after :: "string \<Rightarrow> bool"

definition is_valid_data_dir :: "dir_answers \<Rightarrow> string \<Rightarrow> bool" where
  "is_valid_data_dir da path = (da_exists da path = Inr True \<and> da_writable da path)"

definition data_dir_created :: "dir_answers \<Rightarrow> string \<Rightarrow> bool" where
  "data_dir_created da path = (da_exists da path \<noteq> Inr True \<and> da_mkdir da path = None \<and> da_writable_after da path)"

definition test_data_dirs :: "dir_answers \<Rightarrow> string list \<Rightarrow> string res" where
  "test_data_dirs da paths = (case find (is_valid_data_dir da) paths of
     Some path \<Rightarrow> Inr path
   | None \<Rightarrow> (case find (data_dir_created da) paths of
       Some path \<Rightarrow> Inr path
     | None \<Rightarrow> Inl (ErrText ''data directory not found'')))"

definition get_data_dir :: "dir_answers \<Rightarrow> env \<Rightarrow> string res \<Rightarrow> string list \<Rightarrow> string res" where
  "get_data_dir da env home data_dirs =
     (if data_dirs \<noteq> [] then test_data_dirs da data_dirs
      else test_data_dirs da
        ((case env ''DATA_DIR'' of None \<Rightarrow> [] | Some d \<Rightarrow> if d = [] then [] else [d])
         @ [''/var/lib/go-monitoring'']
         @ (case home of Inl _ \<Rightarrow> [] | Inr h \<Rightarrow> [path_join (path_join h ''.config'') ''go-monitoring''])))"

section \<open>The db command\<close>

definition resolve_data_dir :: "dir_answers \<Rightarrow> env \<Rightarrow> string res \<Rightarrow> string \<Rightarrow> string res" where
  "resolve_data_dir da env home path = get_data_dir da env home (if trim_space path \<noteq> [] then [path] else [])"

text \<open>What the command meets: SQLite, the moves, the clock in milliseconds and the error of \<open>VACUUM\<close>.\<close>

record 'c db_surroundings =
  ds_engine :: "'c engine"
  ds_move :: move_answers
  ds_stat :: "go_error option"
  ds_mkdir :: "go_error option"
  ds_fault :: fault
  ds_now :: int
  ds_vacuum :: "go_error option"

definition run_database_maintenance :: "'c db_surroundings \<Rightarrow> 'c files \<Rightarrow> store \<Rightarrow> unit res \<times> store" where
  "run_database_maintenance ds fs s = (case run_maintenance (ds_fault ds) (ds_now ds) s of
     (Inl e, s') \<Rightarrow> (Inl e, s')
   | (Inr _, s') \<Rightarrow> (case ds_vacuum ds of
       Some e \<Rightarrow> (Inl e, s')
     | None \<Rightarrow> (attempt (en_quick_check (ds_engine ds) fs) check_db_integrity, s')))"

definition handle_db_check :: "'c db_surroundings \<Rightarrow> string \<Rightarrow> 'c files \<Rightarrow> unit res" where
  "handle_db_check ds data_dir fs = check_database_file (ds_engine ds) (ds_stat ds) data_dir fs"

text \<open>The store as it is left when it is closed.\<close>

definition handle_db_maintain :: "'c db_surroundings \<Rightarrow> string \<Rightarrow> 'c files \<Rightarrow> unit res \<times> store option \<times> 'c files" where
  "handle_db_maintain ds data_dir fs =
     (case open_store (ds_engine ds) (ds_move ds) data_dir default_history_plugin_names fs of
        (Inl e, fs') \<Rightarrow> (Inl e, None, fs')
      | (Inr s, fs') \<Rightarrow> (case run_database_maintenance ds fs' s of (r, s') \<Rightarrow> (r, Some s', fs')))"

definition handle_db_repair :: "'c db_surroundings \<Rightarrow> string \<Rightarrow> 'c files \<Rightarrow> unit res \<times> store option \<times> 'c files" where
  "handle_db_repair ds data_dir fs =
     (case repair_database (ds_engine ds) (ds_move ds) data_dir default_history_plugin_names fs of
        (Inl e, _, fs') \<Rightarrow> (Inl e, None, fs')
      | (Inr s, _, fs') \<Rightarrow> (case run_database_maintenance ds fs' s of (r, s') \<Rightarrow> (r, Some s', fs')))"

definition handle_db_reset :: "'c db_surroundings \<Rightarrow> string \<Rightarrow> bool \<Rightarrow> 'c files \<Rightarrow> unit res \<times> store option \<times> 'c files" where
  "handle_db_reset ds data_dir force fs =
     (if \<not> force then (Inl (ErrText ''db reset requires --force''), None, fs)
      else case reset_database (ds_engine ds) (ds_move ds) (ds_mkdir ds) data_dir default_history_plugin_names fs of
        (Inl e, _, fs') \<Rightarrow> (Inl e, None, fs')
      | (Inr s, _, fs') \<Rightarrow> (attempt (en_quick_check (ds_engine ds) fs') check_db_integrity, Some s, fs'))"

definition handle_db_command :: "'c db_surroundings \<Rightarrow> string res \<Rightarrow> string \<Rightarrow> bool \<Rightarrow> 'c files \<Rightarrow> unit res \<times> store option \<times> 'c files" where
  "handle_db_command ds dir action force fs = (case dir of
     Inl e \<Rightarrow> (Inl e, None, fs)
   | Inr data_dir \<Rightarrow>
       if action = ''path'' then (Inr (), None, fs)
       else if action \<in> {[], ''check''} then (handle_db_check ds data_dir fs, None, fs)
       else if action = ''maintain'' then handle_db_maintain ds data_dir fs
       else if action = ''repair'' then handle_db_repair ds data_dir fs
       else if action = ''reset'' then handle_db_reset ds data_dir force fs
       else (Inl (ErrText (''unknown db action '' @ action)), None, fs))"

section \<open>Nothing is lost\<close>

text \<open>SQLite writes its own three files, and a time stamp that no file has yet.\<close>

definition engine_local :: "'c engine \<Rightarrow> string \<Rightarrow> bool" where
  "engine_local en path = (\<forall>s fs q. q \<notin> set (store_files path) \<longrightarrow> snd (en_exec en s fs) q = fs q)"

lemma exec_all_local:
  assumes "engine_local en path" "q \<notin> set (store_files path)"
  shows "snd (exec_all en ss fs) q = fs q"
proof (induction ss arbitrary: fs)
  case (Cons s ss)
  obtain e fs1 where e: "en_exec en s fs = (e, fs1)" by fastforce
  have "snd (en_exec en s fs) q = fs q" using assms unfolding engine_local_def by blast
  then have "fs1 q = fs q" by (simp add: e)
  then show ?case using Cons.IH [of fs1] by (simp add: e split: option.splits)
qed simp

lemma open_local: "engine_local en path \<Longrightarrow> q \<notin> set (store_files path) \<Longrightarrow> snd (open_store_db en hist fs) q = fs q"
  using exec_all_local [of en path q] unfolding open_store_db_def init_store_def
  by (auto split: option.splits prod.splits sum.splits) (metis snd_conv)+

lemma move_each_facts:
  assumes "distinct paths" "\<And>p. p \<in> set paths \<Longrightarrow> fs (p @ suffix) = None" "\<And>p q. p \<in> set paths \<Longrightarrow> q \<in> set paths \<Longrightarrow> p @ suffix \<noteq> q"
    "move_each mv suffix paths fs = (r, moved, fs')"
  shows "(\<forall>p \<in> set paths. fs' p = None \<and> fs' (p @ suffix) = fs p \<or> fs' p = fs p \<and> r \<noteq> None)
    \<and> (\<forall>q. q \<notin> set paths \<longrightarrow> q \<notin> (\<lambda>p. p @ suffix) ` set paths \<longrightarrow> fs' q = fs q)"
  using assms
proof (induction paths arbitrary: fs moved)
  case (Cons path paths)
  show ?case
  proof (cases "mv_stat mv path")
    case None
    show ?thesis
    proof (cases "fs path")
      case n: None
      have ih: "(\<forall>p \<in> set paths. fs' p = None \<and> fs' (p @ suffix) = fs p \<or> fs' p = fs p \<and> r \<noteq> None)
          \<and> (\<forall>q. q \<notin> set paths \<longrightarrow> q \<notin> (\<lambda>p. p @ suffix) ` set paths \<longrightarrow> fs' q = fs q)"
        using Cons.prems n None by (intro Cons.IH [of fs moved]) auto
      have "path \<notin> (\<lambda>p. p @ suffix) ` set paths"
      proof
        assume "path \<in> (\<lambda>p. p @ suffix) ` set paths"
        then obtain p where "p \<in> set paths" "path = p @ suffix" by (rule imageE)
        then show False using Cons.prems(3) [of p path] by simp
      qed
      moreover have "path @ suffix \<notin> set paths" using Cons.prems(3) [of path "path @ suffix"] by auto
      moreover have "path @ suffix \<notin> (\<lambda>p. p @ suffix) ` set paths" using Cons.prems(1) by auto
      ultimately have "fs' path = None" "fs' (path @ suffix) = None"
        using ih Cons.prems(1,2) n by auto
      then show ?thesis using ih n by auto
    next
      case (Some content)
      show ?thesis
      proof (cases "mv_rename mv path")
        case rn: None
        let ?fs = "fs(path @ suffix \<mapsto> content, path := None)"
        obtain m where m: "move_each mv suffix paths ?fs = (r, m, fs')"
          using Cons.prems(4) None rn Some by (auto split: prod.splits)
        have ih: "(\<forall>p \<in> set paths. fs' p = None \<and> fs' (p @ suffix) = ?fs p \<or> fs' p = ?fs p \<and> r \<noteq> None)
          \<and> (\<forall>q. q \<notin> set paths \<longrightarrow> q \<notin> (\<lambda>p. p @ suffix) ` set paths \<longrightarrow> fs' q = ?fs q)"
          using Cons.prems(1-3) by (intro Cons.IH [OF _ _ _ m]) auto
        have p: "p @ suffix \<noteq> path" "path @ suffix \<noteq> p" "p \<noteq> path" if "p \<in> set paths" for p
          using Cons.prems(1,3) that by auto
        have s: "path @ suffix \<noteq> path" using Cons.prems(3) by auto
        have "path \<notin> (\<lambda>p. p @ suffix) ` set paths" using p(1) by fastforce
        then have "fs' path = None" using ih Cons.prems(1) by simp
        moreover have "path @ suffix \<notin> set paths" "path @ suffix \<notin> (\<lambda>p. p @ suffix) ` set paths"
          using p(2) Cons.prems(1) by auto
        then have "fs' (path @ suffix) = Some content" using ih s by simp
        ultimately have "fs' path = None" "fs' (path @ suffix) = Some content" by auto
        moreover have "?fs q = fs q" if "q \<in> set paths" for q using p(2,3) [OF that] by auto
        ultimately show ?thesis using ih Some by (simp add: imp_conjL)
      next
        case e: (Some err)
        then have "r = Some err" "fs' = fs" using Cons.prems(4) None Some by auto
        then show ?thesis by simp
      qed
    qed
  qed (use Cons.prems in auto)
qed simp

lemma store_files_apart:
  "distinct (store_files path)" "suffix \<noteq> ''-wal'' \<Longrightarrow> suffix \<noteq> ''-shm'' \<Longrightarrow> suffix \<noteq> []
     \<Longrightarrow> p \<in> set (store_files path) \<Longrightarrow> q \<in> set (store_files path) \<Longrightarrow> p @ suffix \<noteq> q"
  by (auto simp: store_files_def)

text \<open>The content of a file is still there, at its place or beside it.\<close>

definition kept_aside :: "string \<Rightarrow> 'c files \<Rightarrow> string \<Rightarrow> 'c \<Rightarrow> bool" where
  "kept_aside suffix fs p c = (fs p = Some c \<or> fs (p @ suffix) = Some c)"

definition fresh_suffix :: "move_answers \<Rightarrow> string \<Rightarrow> string \<Rightarrow> 'c files \<Rightarrow> bool" where
  "fresh_suffix mv path reason fs = list_all (\<lambda>p. fs (p @ aside_suffix mv reason) = None) (store_files path)"

lemma aside_apart:
  assumes "p \<in> set (store_files path)" "q \<in> set (store_files path)"
  shows "p @ aside_suffix mv reason \<noteq> q"
  using assms by (intro store_files_apart(2)) (simp_all add: aside_suffix_def)

lemma move_aside_keeps:
  assumes "fresh_suffix mv path reason fs" "p \<in> set (store_files path)"
    "move_aside_store_files mv path reason fs = (r, moved, fs')"
  shows "fs' p = None \<and> fs' (p @ aside_suffix mv reason) = fs p \<or> fs' p = fs p \<and> r \<noteq> None"
proof -
  have "(\<forall>p \<in> set (store_files path). fs' p = None \<and> fs' (p @ aside_suffix mv reason) = fs p \<or> fs' p = fs p \<and> r \<noteq> None)
    \<and> (\<forall>q. q \<notin> set (store_files path) \<longrightarrow> q \<notin> (\<lambda>p. p @ aside_suffix mv reason) ` set (store_files path) \<longrightarrow> fs' q = fs q)"
    by (rule move_each_facts [where mv = mv and moved = moved])
       (use assms aside_apart store_files_apart(1) in \<open>auto simp: move_aside_store_files_def fresh_suffix_def list_all_iff\<close>)
  then show ?thesis using assms(2) by blast
qed

lemma open_keeps_aside:
  assumes "engine_local en path" "p \<in> set (store_files path)" "fs (p @ aside_suffix mv reason) = Some c"
    "open_store_db en hist fs = (r, fs')"
  shows "fs' (p @ aside_suffix mv reason) = Some c"
proof -
  have "p @ aside_suffix mv reason \<notin> set (store_files path)" using aside_apart [OF assms(2)] by blast
  from open_local [OF assms(1) this, of hist fs] show ?thesis using assms(3,4) by simp
qed

lemma move_then_open:
  assumes "engine_local en path" "fresh_suffix mv path reason fs" "p \<in> set (store_files path)" "fs p = Some c"
    "move_aside_store_files mv path reason fs = (r, moved, fs1)"
  shows "kept_aside (aside_suffix mv reason) fs1 p c
    \<and> (r = None \<longrightarrow> kept_aside (aside_suffix mv reason) (snd (open_store_db en hist fs1)) p c)"
proof -
  have k: "fs1 (p @ aside_suffix mv reason) = Some c \<or> fs1 p = Some c \<and> r \<noteq> None"
    using move_aside_keeps [OF assms(2,3,5)] assms(4) by auto
  obtain r2 fs2 where o: "open_store_db en hist fs1 = (r2, fs2)" by fastforce
  show ?thesis
    using k open_keeps_aside [OF assms(1,3) _ o] o by (auto simp: kept_aside_def)
qed

text \<open>
  C11: No file of the database is ever lost by setting it aside: whatever SQLite and the file system answer,
  also when a move or the opening of the new database fails, the content that a file of the database
  had before is afterwards at its place or beside it under the name with the reason and the time; on
  resetting that is the content from before the command, and on opening and repairing the one from
  before the move.
\<close>

theorem old_files_kept:
  assumes "engine_local en (database_path dir)" "p \<in> set (store_files (database_path dir))"
    "fresh_suffix mv (database_path dir) ''reset'' fs" "fs1 = snd (open_store_db en hist fs)"
    "fresh_suffix mv (database_path dir) ''repair'' fs1" "fresh_suffix mv (database_path dir) ''corrupt'' fs1"
  shows "(\<forall>c. fs p = Some c \<longrightarrow> mkdir_err = None \<longrightarrow>
        kept_aside (aside_suffix mv ''reset'') (snd (snd (reset_database en mv mkdir_err dir hist fs))) p c)
    \<and> (\<forall>c. fs1 p = Some c \<longrightarrow> kept_aside (aside_suffix mv ''repair'') (snd (snd (repair_database en mv dir hist fs))) p c)
    \<and> (\<forall>c. fs1 p = Some c \<longrightarrow> kept_aside (aside_suffix mv ''corrupt'') (snd (open_store en mv dir hist fs)) p c)"
proof -
  have k: "kept_aside suffix fs1 p c" if "fs1 p = Some c" for suffix c using that by (simp add: kept_aside_def)
  obtain r0 fs0 where o: "open_store_db en hist fs = (r0, fs0)" by fastforce
  then have f: "fs1 = fs0" using assms(4) by simp
  obtain r1 m1 g1 r2 m2 g2 r3 m3 g3 where
    m: "move_aside_store_files mv (database_path dir) ''reset'' fs = (r1, m1, g1)"
      "move_aside_store_files mv (database_path dir) ''repair'' fs1 = (r2, m2, g2)"
      "move_aside_store_files mv (database_path dir) ''corrupt'' fs1 = (r3, m3, g3)" by (metis prod_cases3)
  note reset = move_then_open [OF assms(1,3,2) _ m(1), of _ hist]
  note repair = move_then_open [OF assms(1,5,2) _ m(2), of _ hist]
  note corrupt = move_then_open [OF assms(1,6,2) _ m(3), of _ hist]
  show ?thesis
  proof (intro conjI allI impI)
    fix c assume "fs p = Some c" "mkdir_err = None"
    then show "kept_aside (aside_suffix mv ''reset'') (snd (snd (reset_database en mv mkdir_err dir hist fs))) p c"
      using reset [of c] by (cases r1) (simp_all add: reset_database_def m case_prod_unfold)
  next
    fix c assume c: "fs1 p = Some c"
    show "kept_aside (aside_suffix mv ''repair'') (snd (snd (repair_database en mv dir hist fs))) p c"
      using repair [OF c] k [OF c] m(2)
      by (cases r0; cases r2) (auto simp: repair_database_def o f Let_def case_prod_unfold split: sum.splits)
    show "kept_aside (aside_suffix mv ''corrupt'') (snd (open_store en mv dir hist fs)) p c"
      using corrupt [OF c] k [OF c] m(3) by (cases r0; cases r3) (auto simp: open_store_def o f)
  qed
qed

text \<open>A database file as its schema version, where \<open>-1\<close> is no database at all.\<close>

definition toy_engine :: "string \<Rightarrow> int engine" where
  "toy_engine path = \<lparr>en_open = None,
     en_exec = (\<lambda>s fs. if fs path = Some (- 1) then (Some (ErrSql ''file is not a database''), fs)
       else (None, fs(path \<mapsto> (case s of SetUserVersion v \<Rightarrow> v | _ \<Rightarrow> (case fs path of None \<Rightarrow> 0 | Some v \<Rightarrow> v))))),
     en_user_version = (\<lambda>fs. Inr (case fs path of None \<Rightarrow> 0 | Some v \<Rightarrow> v)), en_quick_check = (\<lambda>_. Inr [''ok'']),
     en_db = (\<lambda>_. empty_db), en_code = (\<lambda>e. if e = ErrSql ''file is not a database'' then Some 26 else None)\<rparr>"

abbreviation toy_path :: string where
  "toy_path \<equiv> database_path ''/d''"

definition plain_moves :: move_answers where
  "plain_moves = \<lparr>mv_stat = \<lambda>_. None, mv_rename = \<lambda>_. None, mv_stamp = ''20240101T000000.000000000Z''\<rparr>"

lemma toy_local: "engine_local (toy_engine path) path"
  by (auto simp: engine_local_def toy_engine_def store_files_def)

lemma toy_open_corrupt:
  "fs path = Some (- 1) \<Longrightarrow> open_store_db (toy_engine path) hist fs = (Inl (ErrSql ''file is not a database''), fs)"
  by (simp add: open_store_db_def init_store_def open_pragmas_def toy_engine_def)

theorem old_files_kept_witness:
  "kept_aside (aside_suffix plain_moves ''corrupt'')
     (snd (open_store (toy_engine toy_path) plain_moves ''/d'' [] [toy_path \<mapsto> - 1, toy_path @ ''-wal'' \<mapsto> 7])) (toy_path @ ''-wal'') 7"
proof -
  let ?fs = "[toy_path \<mapsto> - 1, toy_path @ ''-wal'' \<mapsto> 7 :: int]"
  have o: "snd (open_store_db (toy_engine toy_path) [] ?fs) = ?fs"
    by (subst toy_open_corrupt) simp_all
  have p: "toy_path @ ''-wal'' \<in> set (store_files toy_path)" by (simp add: store_files_def)
  have f: "fresh_suffix plain_moves toy_path reason ?fs" for reason
    by (simp add: fresh_suffix_def store_files_def aside_suffix_def)
  show ?thesis
    using old_files_kept [OF toy_local p f o [symmetric] f f, of None] by simp
qed

section \<open>An obsolete schema\<close>

text \<open>
  C39: A database of an earlier schema cannot be used, and the advice that \<open>db check\<close> gives does not help:
  the check says to run \<open>db repair\<close>, but repairing fails without moving anything, as opening does; the
  file is as the opening left it.
\<close>

theorem obsolete_schema_stuck:
  assumes "en_open en = None" "exec_all en open_pragmas fs = (Inr (), fs1)" "en_user_version en fs1 = Inr v" "v \<in> {1, 2, 3}"
    "en_code en (ErrText (''unsupported store schema version '' @ format_int v)) = None"
    "fs1 (database_path dir) \<noteq> None" "en_quick_check en fs1 = Inr [''ok'']"
  shows "check_database_file en None dir fs1
      = Inl (ErrText (''obsolete metrics.db schema version '' @ format_int v @ ''; run db repair to recreate current schema''))
    \<and> repair_database en mv dir hist fs = (Inl (ErrText (''unsupported store schema version '' @ format_int v)), [], fs1)
    \<and> open_store en mv dir hist fs = (Inl (ErrText (''unsupported store schema version '' @ format_int v)), fs1)"
proof -
  have i: "init_store en fs = (Inl (ErrText (''unsupported store schema version '' @ format_int v)), fs1)"
    using assms(2-4) by (auto simp: init_store_def store_schema_version_def)
  then have o: "open_store_db en hist fs = (Inl (ErrText (''unsupported store schema version '' @ format_int v)), fs1)"
    by (simp add: open_store_db_def assms(1))
  have "check_database_file en None dir fs1
      = Inl (ErrText (''obsolete metrics.db schema version '' @ format_int v @ ''; run db repair to recreate current schema''))"
    using assms(1,3,4,6,7) by (auto simp: check_database_file_def check_db_integrity_def check_database_version_def store_schema_version_def)
  then show ?thesis
    using assms(5) by (simp add: o repair_database_def open_store_def recoverable_store_open_error_def Let_def)
qed

theorem obsolete_schema_stuck_witness:
  "check_database_file (toy_engine toy_path) None ''/d'' [toy_path \<mapsto> 3]
      = Inl (ErrText ''obsolete metrics.db schema version 3; run db repair to recreate current schema'')
   \<and> fst (repair_database (toy_engine toy_path) plain_moves ''/d'' [] [toy_path \<mapsto> 3]) = Inl (ErrText ''unsupported store schema version 3'')"
proof -
  have n: "format_int 3 = ''3''" by code_simp
  have p: "exec_all (toy_engine toy_path) open_pragmas [toy_path \<mapsto> 3] = (Inr (), [toy_path \<mapsto> 3])"
    by (simp add: open_pragmas_def toy_engine_def)
  show ?thesis
    using obsolete_schema_stuck [OF _ p, of 3 "''/d''" plain_moves "[]"] n by (simp add: toy_engine_def)
qed

end
