(* ===== verification/Journald.thy ===== *)
theory Journald
  imports Golib Live_Cache
begin

text \<open>
  Logging to the journal (\<open>logging/journald/handler.go\<close>, \<open>sender.go\<close>, \<open>logging/logging.go\<close>): the fields that
  a record becomes, and the bytes that are sent.  The caches of field names and the pool of buffers hold
  what is computed anew here.  Attributes are resolved values; how floats, times and values of other
  types are written as text are arguments.
\<close>

section \<open>Attributes\<close>

datatype any_value =
    AnyNil | AnyText string | AnyBool bool | AnyInt int | AnyUint nat | AnyDuration int
  | AnyFloat32 f64 | AnyFloat64 f64 | AnyOther "string res" string

text \<open>An error, a time and a \<open>Stringer\<close> are their texts; another value has its JSON, or else its \<open>%v\<close>.\<close>

datatype slog_value =
    VBool bool | VDuration int | VFloat64 f64 | VInt64 int | VString string | VTime string | VUint64 nat
  | VAny any_value | VGroup "(string \<times> slog_value) list"

definition format_bool :: "bool \<Rightarrow> string" where
  "format_bool b = (if b then ''true'' else ''false'')"

text \<open>\<open>ff bits\<close> is \<open>strconv.FormatFloat\<close> with format \<open>g\<close> and shortest precision.\<close>

definition encode_any_value :: "(nat \<Rightarrow> f64 \<Rightarrow> string) \<Rightarrow> any_value \<Rightarrow> string option" where
  "encode_any_value ff v = (case v of
     AnyNil \<Rightarrow> None
   | AnyText s \<Rightarrow> Some s
   | AnyBool b \<Rightarrow> Some (format_bool b)
   | AnyInt i \<Rightarrow> Some (format_int i)
   | AnyUint n \<Rightarrow> Some (format_int (int n))
   | AnyDuration d \<Rightarrow> Some (duration_string d)
   | AnyFloat32 x \<Rightarrow> Some (ff 32 x)
   | AnyFloat64 x \<Rightarrow> Some (ff 64 x)
   | AnyOther (Inr json) _ \<Rightarrow> Some json
   | AnyOther (Inl _) plain \<Rightarrow> Some plain)"

definition field_value_for_attr :: "(nat \<Rightarrow> f64 \<Rightarrow> string) \<Rightarrow> slog_value \<Rightarrow> string option" where
  "field_value_for_attr ff v = (case v of
     VBool b \<Rightarrow> Some (format_bool b)
   | VDuration d \<Rightarrow> Some (duration_string d)
   | VFloat64 x \<Rightarrow> Some (ff 64 x)
   | VInt64 i \<Rightarrow> Some (format_int i)
   | VString s \<Rightarrow> Some s
   | VTime s \<Rightarrow> Some s
   | VUint64 n \<Rightarrow> Some (format_int (int n))
   | VAny a \<Rightarrow> encode_any_value ff a
   | VGroup _ \<Rightarrow> None)"

section \<open>Field names\<close>

definition standard_passthrough_fields :: "string list" where
  "standard_passthrough_fields = [''CODE_FILE'', ''CODE_FUNC'', ''CODE_LINE'', ''DOCUMENTATION'', ''ERRNO'', ''MESSAGE_ID'', ''TID'']"

text \<open>
  The bytes of a rune beyond ASCII count one by one here; as a run of other characters is one
  underscore, the result is the same.
\<close>

fun normalize_runes :: "bool \<Rightarrow> string \<Rightarrow> string" where
  "normalize_runes last_underscore [] = []"
| "normalize_runes last_underscore (r # rs) =
     (let u = upper_char r; n = of_char u :: nat in
      if (65 \<le> n \<and> n \<le> 90) \<or> (48 \<le> n \<and> n \<le> 57) then u # normalize_runes False rs
      else if last_underscore then normalize_runes True rs
      else CHR ''_'' # normalize_runes True rs)"

definition normalize_field_component :: "string \<Rightarrow> string" where
  "normalize_field_component component = trim_set ''_'' (normalize_runes False (trim_space component))"

record handler =
  jh_identifier :: string
  jh_level :: int
  jh_add_source :: bool
  jh_field_prefix :: string
  jh_attrs :: "(string \<times> slog_value) list"
  jh_groups :: "string list"

definition final_field_name :: "handler \<Rightarrow> string \<Rightarrow> string" where
  "final_field_name h name =
     (if name = [] then []
      else if name \<in> set standard_passthrough_fields then name
      else if jh_field_prefix h = [] then name
      else jh_field_prefix h @ ''_'' @ name)"

definition field_name_for_attr :: "handler \<Rightarrow> string list \<Rightarrow> string \<Rightarrow> string" where
  "field_name_for_attr h groups key =
     (if groups = [] then final_field_name h (normalize_field_component key)
      else let parts = filter (\<lambda>p. p \<noteq> []) (map normalize_field_component (groups @ [key])) in
        if parts = [] then [] else final_field_name h (join_with ''_'' parts))"

section \<open>The fields of a record\<close>

text \<open>The fields in order; the index of the state says at which place a name is.\<close>

type_synonym journal_fields = "(string \<times> string) list"

fun set_field :: "string \<Rightarrow> string \<Rightarrow> journal_fields \<Rightarrow> journal_fields" where
  "set_field name v [] = [(name, v)]"
| "set_field name v ((n, w) # fs) = (if n = name then (n, v) # fs else (n, w) # set_field name v fs)"

definition set_if_missing :: "string \<Rightarrow> string \<Rightarrow> journal_fields \<Rightarrow> journal_fields" where
  "set_if_missing name v fs = (if name \<in> fst ` set fs then fs else fs @ [(name, v)])"

record source_frame =
  sf_file :: string
  sf_function :: string
  sf_line :: int

definition add_source_fields :: "source_frame \<Rightarrow> journal_fields \<Rightarrow> journal_fields" where
  "add_source_fields fr fs0 =
     (let fs1 = (if sf_file fr \<noteq> [] then set_if_missing ''CODE_FILE'' (sf_file fr) fs0 else fs0);
          fs2 = (if sf_function fr \<noteq> [] then set_if_missing ''CODE_FUNC'' (sf_function fr) fs1 else fs1)
      in if sf_line fr \<noteq> 0 then set_if_missing ''CODE_LINE'' (format_int (sf_line fr)) fs2 else fs2)"

fun add_attr :: "(nat \<Rightarrow> f64 \<Rightarrow> string) \<Rightarrow> handler \<Rightarrow> string list \<Rightarrow> string \<times> slog_value \<Rightarrow> journal_fields \<Rightarrow> journal_fields" where
  "add_attr ff h groups (key, VGroup children) fs =
     foldl (\<lambda>fs child. add_attr ff h (if key = [] then groups else groups @ [key]) child fs) fs children"
| "add_attr ff h groups (key, v) fs =
     (if key = [] \<and> v = VAny AnyNil then fs
      else let name = field_name_for_attr h groups key in
        if name = [] then fs
        else case field_value_for_attr ff v of None \<Rightarrow> fs | Some x \<Rightarrow> set_field name x fs)"

abbreviation (input) "LevelDebug \<equiv> (- 4 :: int)"
abbreviation (input) "LevelInfo \<equiv> (0 :: int)"
abbreviation (input) "LevelWarn \<equiv> (4 :: int)"
abbreviation (input) "LevelError \<equiv> (8 :: int)"

definition priority_for_level :: "int \<Rightarrow> string" where
  "priority_for_level level =
     (if level < LevelInfo then ''7'' else if level < LevelWarn then ''6'' else if level < LevelError then ''4'' else ''3'')"

record log_record =
  lr_message :: string
  lr_level :: int
  lr_source :: "source_frame option"
  lr_attrs :: "(string \<times> slog_value) list"

definition handler_enabled :: "handler \<Rightarrow> int \<Rightarrow> bool" where
  "handler_enabled h level = (jh_level h \<le> level)"

definition record_fields :: "(nat \<Rightarrow> f64 \<Rightarrow> string) \<Rightarrow> handler \<Rightarrow> log_record \<Rightarrow> journal_fields" where
  "record_fields ff h lr =
     (let fs0 = set_field ''SYSLOG_IDENTIFIER'' (jh_identifier h)
            (set_field ''PRIORITY'' (priority_for_level (lr_level lr)) (set_field ''MESSAGE'' (lr_message lr) []));
          fs1 = (case lr_source lr of Some fr \<Rightarrow> if jh_add_source h then add_source_fields fr fs0 else fs0 | None \<Rightarrow> fs0)
      in foldl (\<lambda>fs a. add_attr ff h (jh_groups h) a fs) fs1 (jh_attrs h @ lr_attrs lr))"

definition new_handler :: "string \<Rightarrow> int option \<Rightarrow> bool \<Rightarrow> unit res \<Rightarrow> string \<Rightarrow> handler res" where
  "new_handler identifier level add_source sender prefix =
     (if trim_space identifier = [] then Inl (ErrText ''journald handler requires an identifier'')
      else attempt sender (\<lambda>_. Inr \<lparr>jh_identifier = identifier, jh_level = (case level of None \<Rightarrow> LevelInfo | Some l \<Rightarrow> l),
        jh_add_source = add_source, jh_field_prefix = normalize_field_component prefix, jh_attrs = [], jh_groups = []\<rparr>))"

definition with_attrs :: "(string \<times> slog_value) list \<Rightarrow> handler \<Rightarrow> handler" where
  "with_attrs attrs h = h\<lparr>jh_attrs := jh_attrs h @ attrs\<rparr>"

definition with_group :: "string \<Rightarrow> handler \<Rightarrow> handler" where
  "with_group name h = (if name = [] then h else h\<lparr>jh_groups := jh_groups h @ [name]\<rparr>)"

section \<open>The bytes\<close>

definition le64 :: "nat \<Rightarrow> string" where
  "le64 n = map (\<lambda>i. char_of (n div 256 ^ i)) [0..<8]"

definition append_field :: "string \<Rightarrow> string \<Rightarrow> string" where
  "append_field name v =
     (if CHR 0x0A \<in> set v then name @ [CHR 0x0A] @ le64 (length v) @ v @ [CHR 0x0A]
      else name @ ''='' @ v @ [CHR 0x0A])"

definition encode_fields :: "journal_fields \<Rightarrow> string" where
  "encode_fields fs = concat (map (\<lambda>(name, v). if name = [] then [] else append_field name v) fs)"

text \<open>
  \<open>Send\<close>: a datagram, or, when it is too big for the socket, a sealed memory file whose descriptor is
  sent.  The result is what reaches the journal.
\<close>

record send_answers =
  sn_write :: "go_error option"
  sn_too_big :: bool
  sn_large :: "go_error option"

definition send_fields :: "send_answers \<Rightarrow> journal_fields \<Rightarrow> unit res \<times> string option" where
  "send_fields sn fs = (case sn_write sn of
     None \<Rightarrow> (Inr (), Some (encode_fields fs))
   | Some e \<Rightarrow>
       if \<not> sn_too_big sn then (Inl e, None)
       else (case sn_large sn of None \<Rightarrow> (Inr (), Some (encode_fields fs)) | Some e2 \<Rightarrow> (Inl e2, None)))"

definition handle_record :: "(nat \<Rightarrow> f64 \<Rightarrow> string) \<Rightarrow> send_answers \<Rightarrow> handler \<Rightarrow> log_record \<Rightarrow> unit res \<times> string option" where
  "handle_record ff sn h lr = send_fields sn (record_fields ff h lr)"

section \<open>Configuring\<close>

definition level_from_env :: "env \<Rightarrow> int" where
  "level_from_env getenv = (let l = to_lower (case getenv ''LOG_LEVEL'' of None \<Rightarrow> [] | Some s \<Rightarrow> s) in
     if l = ''debug'' then LevelDebug else if l = ''warn'' then LevelWarn else if l = ''error'' then LevelError else LevelInfo)"

text \<open>The handler that writes to the journal, or \<open>None\<close> for text on standard error.\<close>

definition journal_handler :: "env \<Rightarrow> unit res \<Rightarrow> string \<Rightarrow> handler option" where
  "journal_handler getenv sender identifier =
     (if (case getenv ''JOURNAL_STREAM'' of None \<Rightarrow> [] | Some s \<Rightarrow> s) = [] then None
      else case new_handler identifier (Some (level_from_env getenv)) True sender ''GOMON'' of
        Inl _ \<Rightarrow> None | Inr h \<Rightarrow> Some h)"

end
