(* ===== verification/Journald_Properties.thy ===== *)
theory Journald_Properties
  imports Journald Detached_Properties
begin

text \<open>
  What the journal reads of a record: every field as it was set, and no field that the text of another
  one forges.
\<close>

section \<open>Reading the native protocol\<close>

definition of_le64 :: "string \<Rightarrow> nat" where
  "of_le64 bs = foldr (\<lambda>b n. of_char b + 256 * n) bs 0"

text \<open>
  The journal's native protocol: a line with \<open>=\<close> is a name and a text value; a line without it is the name
  of a binary field, whose length in eight bytes, value and newline follow.
\<close>

function parse_journal :: "string \<Rightarrow> journal_fields option" where
  "parse_journal s = (if s = [] then Some []
     else case cut_at (CHR 0x0A) s of
       None \<Rightarrow> None
     | Some (line, rest) \<Rightarrow> (case cut_at (CHR ''='') line of
           Some field \<Rightarrow> map_option (Cons field) (parse_journal rest)
         | None \<Rightarrow>
             let n = of_le64 (take 8 rest); body = drop 8 rest in
             if n < length body \<and> body ! n = CHR 0x0A
             then map_option (Cons (line, take n body)) (parse_journal (drop (Suc n) body))
             else None))"
  by pat_completeness auto
termination
  by (relation "measure length") (auto dest!: cut_at_parts)

declare parse_journal.simps [simp del]

lemma of_le_bytes: "of_le64 (map (\<lambda>i. char_of (n div 256 ^ i)) [0..<k]) = n mod 256 ^ k"
proof (induction k arbitrary: n)
  case 0
  then show ?case by (simp add: of_le64_def)
next
  case (Suc k)
  have u: "[0..<Suc k] = 0 # map Suc [0..<k]" by (simp only: upt_conv_Cons zero_less_Suc map_Suc_upt One_nat_def)
  have "map (\<lambda>i. char_of (n div 256 ^ i)) [0..<Suc k] = char_of n # map (\<lambda>i. char_of (n div 256 div 256 ^ i)) [0..<k]"
    unfolding u by (simp add: comp_def div_mult2_eq)
  then have "of_le64 (map (\<lambda>i. char_of (n div 256 ^ i)) [0..<Suc k]) = n mod 256 + 256 * (n div 256 mod 256 ^ k)"
    using Suc [of "n div 256"] by (simp only: of_le64_def list.map foldr.simps o_apply) (simp add: of_char_of)
  then show ?case by (simp add: mod_mult2_eq)
qed

lemma of_le64_le64: "n < 2 ^ 64 \<Longrightarrow> of_le64 (le64 n) = n"
  using of_le_bytes [of n 8] by (simp add: le64_def)

lemma length_le64 [simp]: "length (le64 n) = 8"
  by (simp add: le64_def)

definition valid_field :: "string \<times> string \<Rightarrow> bool" where
  "valid_field f = (fst f \<noteq> [] \<and> CHR ''='' \<notin> set (fst f) \<and> CHR 0x0A \<notin> set (fst f) \<and> length (snd f) < 2 ^ 64)"

lemma cut_at_None: "d \<notin> set s \<Longrightarrow> cut_at d s = None"
  by (induction s) auto

lemma parse_append_field:
  assumes "valid_field (name, v)"
  shows "parse_journal (append_field name v @ rest) = map_option (Cons (name, v)) (parse_journal rest)"
proof (cases "CHR 0x0A \<in> set v")
  case True
  have c: "cut_at (CHR 0x0A) (append_field name v @ rest) = Some (name, le64 (length v) @ v @ CHR 0x0A # rest)"
    using assms True cut_at_here [of "CHR 0x0A" name "le64 (length v) @ v @ CHR 0x0A # rest"]
    by (simp add: append_field_def valid_field_def)
  have "cut_at (CHR ''='') name = None" using assms by (intro cut_at_None) (simp add: valid_field_def)
  moreover have "of_le64 (take 8 (le64 (length v) @ v @ CHR 0x0A # rest)) = length v"
    using assms by (simp add: of_le64_le64 valid_field_def)
  moreover have "append_field name v \<noteq> []" by (simp add: append_field_def)
  ultimately show ?thesis
    by (subst parse_journal.simps) (simp add: c Let_def nth_append)
next
  case False
  have c: "cut_at (CHR 0x0A) (append_field name v @ rest) = Some (name @ CHR ''='' # v, rest)"
    using assms False cut_at_here [of "CHR 0x0A" "name @ CHR ''='' # v" rest]
    by (simp add: append_field_def valid_field_def)
  have "cut_at (CHR ''='') (name @ CHR ''='' # v) = Some (name, v)"
    using assms by (intro cut_at_here) (simp add: valid_field_def)
  moreover have "append_field name v \<noteq> []" by (simp add: append_field_def)
  ultimately show ?thesis by (subst parse_journal.simps) (simp add: c)
qed

lemma parse_encode: "list_all valid_field fs \<Longrightarrow> parse_journal (encode_fields fs) = Some fs"
proof (induction fs)
  case Nil
  then show ?case by (simp add: encode_fields_def parse_journal.simps)
next
  case (Cons f fs)
  obtain name v where f: "f = (name, v)" by (cases f)
  have "name \<noteq> []" using Cons.prems by (simp add: f valid_field_def)
  then have "encode_fields (f # fs) = append_field name v @ encode_fields fs" by (simp add: encode_fields_def f)
  then show ?case using Cons parse_append_field [of name v "encode_fields fs"] by (simp add: f)
qed

section \<open>Names\<close>

definition name_char :: "char \<Rightarrow> bool" where
  "name_char c = (let n = of_char c :: nat in (65 \<le> n \<and> n \<le> 90) \<or> (48 \<le> n \<and> n \<le> 57) \<or> c = CHR ''_'')"

lemma normalize_runes_chars: "list_all name_char (normalize_runes b s)"
  by (induction b s rule: normalize_runes.induct) (auto simp: name_char_def Let_def)

lemma set_trim_set: "set (trim_set cs s) \<subseteq> set s"
  unfolding trim_set_def by (auto dest!: set_dropWhileD)

lemma component_chars: "list_all name_char (normalize_field_component s)"
  using normalize_runes_chars [of False "trim_space s"] set_trim_set
  unfolding normalize_field_component_def list_all_iff by blast

definition protected_names :: "string list" where
  "protected_names = [''MESSAGE'', ''PRIORITY'', ''SYSLOG_IDENTIFIER'']"

text \<open>The names that an attribute or the source of a record can have.\<close>

definition attr_name :: "string \<Rightarrow> bool" where
  "attr_name n = (n \<in> set standard_passthrough_fields \<or> (has_prefix ''GOMON_'' n \<and> list_all name_char n))"

lemma attr_name_facts: "attr_name n \<Longrightarrow> n \<notin> set protected_names \<and> n \<noteq> [] \<and> CHR ''='' \<notin> set n \<and> CHR 0x0A \<notin> set n"
  by (auto simp: attr_name_def standard_passthrough_fields_def protected_names_def has_prefix_def list_all_iff name_char_def)

lemma final_name:
  assumes "jh_field_prefix h = ''GOMON''" "final_field_name h name \<noteq> []" "list_all name_char name"
  shows "attr_name (final_field_name h name)"
proof (cases "name \<in> set standard_passthrough_fields")
  case False
  have "list_all name_char ''GOMON_''" by code_simp
  then show ?thesis
    using assms False by (auto simp: final_field_name_def attr_name_def has_prefix_def split: if_splits)
next
  case True
  then have "name \<noteq> []" by (auto simp: standard_passthrough_fields_def)
  with True show ?thesis by (simp add: final_field_name_def attr_name_def)
qed

lemma field_name:
  assumes "jh_field_prefix h = ''GOMON''" "field_name_for_attr h groups key \<noteq> []"
  shows "attr_name (field_name_for_attr h groups key)"
proof (cases "groups = []")
  case True
  then show ?thesis using assms component_chars by (auto simp: field_name_for_attr_def intro!: final_name)
next
  case False
  let ?parts = "filter (\<lambda>p. p \<noteq> []) (map normalize_field_component (groups @ [key]))"
  have "name_char c" if c: "c \<in> set (join_with ''_'' ?parts)" for c
  proof -
    have "c = CHR ''_'' \<or> (\<exists>s. c \<in> set (normalize_field_component s))" using set_join [OF c] by (auto split: if_splits)
    then show ?thesis using component_chars by (auto simp: list_all_iff name_char_def)
  qed
  then have "list_all name_char (join_with ''_'' ?parts)" by (simp add: list_all_iff)
  then show ?thesis
    using assms False by (auto simp: field_name_for_attr_def Let_def intro!: final_name split: if_splits)
qed

section \<open>Fields of a record\<close>

text \<open>The fields so far: the protected ones have their values, every name once.\<close>

definition fields_sound :: "journal_fields \<Rightarrow> journal_fields \<Rightarrow> bool" where
  "fields_sound fs0 fs = (distinct (map fst fs) \<and> list_all (\<lambda>n. map_of fs n = map_of fs0 n) protected_names
     \<and> list_all (\<lambda>(n, _). n \<in> set protected_names \<or> attr_name n) fs)"

lemma set_field_names: "fst ` set (set_field name v fs) = insert name (fst ` set fs)"
  by (induction name v fs rule: set_field.induct) auto

lemma set_field_facts:
  "map_of (set_field name v fs) = (map_of fs)(name \<mapsto> v)"
  "distinct (map fst fs) \<Longrightarrow> distinct (map fst (set_field name v fs))"
  by (induction name v fs rule: set_field.induct) (auto simp: set_field_names simp del: image_iff)

lemma names_all: "list_all (\<lambda>(n, _). P n) fs \<longleftrightarrow> (\<forall>n \<in> fst ` set fs. P n)"
  by (auto simp: list_all_iff)

lemma set_field_sound: "fields_sound fs0 fs \<Longrightarrow> attr_name name \<Longrightarrow> fields_sound fs0 (set_field name v fs)"
  using attr_name_facts [of name] unfolding fields_sound_def names_all set_field_names
  by (auto simp: set_field_facts list_all_iff)

lemma add_attr_sound:
  "jh_field_prefix h = ''GOMON'' \<Longrightarrow> fields_sound fs0 fs \<Longrightarrow> fields_sound fs0 (add_attr ff h groups a fs)"
proof (induction ff h groups a fs rule: add_attr.induct)
  case (1 ff h groups key children fs)
  have "fields_sound fs0 fs' \<Longrightarrow> set cs \<subseteq> set children \<Longrightarrow>
      fields_sound fs0 (foldl (\<lambda>fs child. add_attr ff h (if key = [] then groups else groups @ [key]) child fs) fs' cs)" for cs fs'
    by (induction cs arbitrary: fs') (auto simp: 1(1,2))
  then show ?case using 1(3) by simp
qed (use set_field_sound field_name in \<open>auto simp: Let_def split: option.splits\<close>)

lemma set_if_missing_sound: "fields_sound fs0 fs \<Longrightarrow> attr_name name \<Longrightarrow> fields_sound fs0 (set_if_missing name v fs)"
  using attr_name_facts [of name]
  by (auto simp: set_if_missing_def fields_sound_def list_all_iff map_add_def split: option.splits)

lemma add_source_sound: "fields_sound fs0 fs \<Longrightarrow> fields_sound fs0 (add_source_fields fr fs)"
  unfolding add_source_fields_def Let_def
  by (auto intro!: set_if_missing_sound simp: attr_name_def standard_passthrough_fields_def)

lemma record_sound:
  assumes "jh_field_prefix h = ''GOMON''"
  shows "fields_sound [(''MESSAGE'', lr_message lr), (''PRIORITY'', priority_for_level (lr_level lr)), (''SYSLOG_IDENTIFIER'', jh_identifier h)]
    (record_fields ff h lr)"
proof -
  let ?fs0 = "[(''MESSAGE'', lr_message lr), (''PRIORITY'', priority_for_level (lr_level lr)), (''SYSLOG_IDENTIFIER'', jh_identifier h)]"
  have f: "fields_sound ?fs0 fs \<Longrightarrow> fields_sound ?fs0 (foldl (\<lambda>fs a. add_attr ff h (jh_groups h) a fs) fs as)" for fs as
    by (induction as arbitrary: fs) (auto simp: add_attr_sound assms)
  have "fields_sound ?fs0 ?fs0" by (simp add: fields_sound_def protected_names_def)
  then show ?thesis
    unfolding record_fields_def Let_def by (auto intro!: f add_source_sound split: option.splits)
qed


definition sample_handler :: handler where
  "sample_handler = \<lparr>jh_identifier = ''agent'', jh_level = LevelInfo, jh_add_source = True, jh_field_prefix = ''GOMON'',
     jh_attrs = [], jh_groups = []\<rparr>"

definition sample_log :: log_record where
  "sample_log = \<lparr>lr_message = ''done'' @ [CHR 0x0A] @ ''PRIORITY=0'', lr_level = LevelInfo, lr_source = None,
     lr_attrs = [(''message'', VString ''x''), (''plugin name'', VString ''a=b'')]\<rparr>"

lemma sample_handler_configured:
  "journal_handler (\<lambda>v. if v = ''JOURNAL_STREAM'' then Some ''8:1'' else None) (Inr ()) ''agent'' = Some sample_handler"
  by code_simp


end
