(* ===== verification/System_Stats.thy ===== *)
theory System_Stats
  imports Disk Network Cpu Sensors Gpu Docker_Api Block_Health Float_Facts "HOL-Library.Signed_Division"
begin

text \<open>
  The statistics of the host as one snapshot has them (\<open>app/system.go\<close>): the battery
  (\<open>app/battery_main.go\<close>), memory with the cache of ZFS (\<open>app/zfs.go\<close>), the static details, and
  \<open>getSystemStats\<close>, which asks every collector in turn.  What the operating system answers is an argument.
\<close>

section \<open>Batteries\<close>

abbreviation (input) "stateUnknown \<equiv> (0 :: u8)"
abbreviation (input) "stateEmpty \<equiv> (1 :: u8)"
abbreviation (input) "stateFull \<equiv> (2 :: u8)"
abbreviation (input) "stateCharging \<equiv> (3 :: u8)"
abbreviation (input) "stateDischarging \<equiv> (4 :: u8)"
abbreviation (input) "stateIdle \<equiv> (5 :: u8)"
abbreviation (input) "noState \<equiv> (255 :: u8)"

definition parse_sysfs_state :: "string \<Rightarrow> u8" where
  "parse_sysfs_state status =
     (if status = ''Empty'' then stateEmpty else if status = ''Full'' then stateFull
      else if status = ''Charging'' then stateCharging else if status = ''Discharging'' then stateDischarging
      else if status = ''Not charging'' then stateIdle else stateUnknown)"

abbreviation (input) "power_supply \<equiv> ''/sys/class/power_supply''"

definition get_battery_paths :: "sysfs \<Rightarrow> string list res" where
  "get_battery_paths sy = (case sy_dir sy power_supply of
     None \<Rightarrow> Inl ErrNotExist
   | Some names \<Rightarrow> Inr (filter (\<lambda>path. read_string_file (sy_file sy (path_join path ''type'')) = ''Battery'')
       (map (path_join power_supply) names)))"

definition has_readable_battery :: "sysfs \<Rightarrow> bool" where
  "has_readable_battery sy = (case get_battery_paths sy of
     Inl _ \<Rightarrow> False | Inr paths \<Rightarrow> list_ex (\<lambda>path. snd (read_string_file_ok (sy_file sy (path_join path ''capacity'')))) paths)"

text \<open>The sum, the number and the last known state so far.\<close>

definition add_battery :: "sysfs \<Rightarrow> int \<times> int \<times> u8 \<Rightarrow> string \<Rightarrow> int \<times> int \<times> u8" where
  "add_battery sy acc path = (case acc of (total_percent, n, state) \<Rightarrow>
     (case read_string_file_ok (sy_file sy (path_join path ''capacity'')) of
        (_, False) \<Rightarrow> acc
      | (cap_str, True) \<Rightarrow> (case parse_int64 cap_str of
          None \<Rightarrow> acc
        | Some cap \<Rightarrow>
            let s = parse_sysfs_state (read_string_file (sy_file sy (path_join path ''status''))) in
            (total_percent + cap, n + 1, if s \<noteq> stateUnknown then s else state))))"

text \<open>
  The paths were found once, at the first call; the sum of capacities stays far below the range of an
  \<open>int\<close>, and the quotient is truncated to a byte.
\<close>

definition get_battery_stats :: "sysfs \<Rightarrow> bool \<Rightarrow> string list res \<Rightarrow> (u8 \<times> u8) res" where
  "get_battery_stats sy readable paths_once =
     (if \<not> readable then Inl (ErrText ''unsupported operation'')
      else attempt paths_once (\<lambda>paths.
        if paths = [] then Inl (ErrText ''no batteries'')
        else (case foldl (add_battery sy) (0, 0, noState) paths of (total_percent, n, state) \<Rightarrow>
          if n = 0 \<or> state = noState then Inl (ErrText ''no battery capacity'')
          else Inr (word_of_int (total_percent sdiv n), state))))"

section \<open>Memory\<close>

record virtual_memory =
  vm_total :: u64
  vm_available :: u64
  vm_used :: u64
  vm_used_percent :: f64
  vm_free :: u64
  vm_buffers :: u64
  vm_cached :: u64
  vm_shared :: u64
  vm_swap_total :: u64
  vm_swap_free :: u64
  vm_swap_cached :: u64

definition used_swap_bytes :: "u64 \<Rightarrow> u64 \<Rightarrow> u64 \<Rightarrow> u64" where
  "used_swap_bytes swap_total free cached =
     (if swap_total \<le> free then 0
      else let used = swap_total - free in if used \<le> cached then 0 else used - cached)"

text \<open>\<open>ARCSize\<close> on the lines of \<open>arcstats\<close>.\<close>

fun arc_size_lines :: "string list \<Rightarrow> u64 res" where
  "arc_size_lines [] = Inl (ErrText ''size field not found in arcstats'')"
| "arc_size_lines (line # rest) =
     (let fs = Prelude.fields line in
      if fs = [] \<or> hd fs \<noteq> ''size'' then arc_size_lines rest
      else if length fs < 3 then Inl (ErrText (''unexpected arcstats size format: '' @ line))
      else case parse_uint 64 (fs ! 2) of
        None \<Rightarrow> Inl (ErrText ''invalid number'') | Some n \<Rightarrow> Inr (word_of_nat n))"

definition arc_size :: "string option \<Rightarrow> u64 res" where
  "arc_size file = (case file of None \<Rightarrow> Inl ErrNotExist | Some content \<Rightarrow> arc_size_lines (scan_lines content))"

definition cache_and_buffers :: "virtual_memory \<Rightarrow> u64" where
  "cache_and_buffers v =
     (let cache_buff = vm_cached v + vm_buffers v - vm_shared v in
      if cache_buff \<le> 0 then max (vm_total v - vm_free v - vm_used v) 0 else cache_buff)"

definition used_percent_of :: "u64 \<Rightarrow> u64 \<Rightarrow> f64" where
  "used_percent_of used whole = fmul (fdiv (of_uint64 used) (of_uint64 whole)) (Num 100)"

text \<open>\<open>arc\<close> is the size of the cache of ZFS when the host has one; its error counts as 0.\<close>

definition apply_memory :: "string \<Rightarrow> u64 res option \<Rightarrow> virtual_memory \<Rightarrow> stats \<Rightarrow> stats" where
  "apply_memory mem_calc arc v st0 =
     (let swap_used = used_swap_bytes (vm_swap_total v) (vm_swap_free v) (vm_swap_cached v);
          st1 = st0\<lparr>s_swap := bytes_to_gigabytes (vm_swap_total v), s_swap_used := bytes_to_gigabytes swap_used\<rparr>;
          st2 = (if 0 < vm_swap_total v then st1\<lparr>s_swap_pct := two_decimals (used_percent_of swap_used (vm_swap_total v))\<rparr> else st1);
          st3 = st2\<lparr>s_mem_available := bytes_to_gigabytes (vm_available v), s_mem_cached := bytes_to_gigabytes (vm_cached v),
            s_mem_buffers := bytes_to_gigabytes (vm_buffers v)\<rparr>;
          cache_buff = cache_and_buffers v;
          v1 = (if mem_calc = ''htop''
            then let used = vm_total v - (vm_free v + cache_buff) in v\<lparr>vm_used := used, vm_used_percent := used_percent_of used (vm_total v)\<rparr>
            else v);
          size = (case arc of None \<Rightarrow> 0 | Some (Inl _) \<Rightarrow> 0 | Some (Inr n) \<Rightarrow> n);
          (v2, st4) = (if 0 < size \<and> size < vm_used v1
            then (let used = vm_used v1 - size in v1\<lparr>vm_used := used, vm_used_percent := used_percent_of used (vm_total v)\<rparr>,
                  st3\<lparr>s_mem_zfs_arc := bytes_to_gigabytes size\<rparr>)
            else (v1, st3))
      in st4\<lparr>s_mem := bytes_to_gigabytes (vm_total v), s_mem_buff_cache := bytes_to_gigabytes cache_buff,
           s_mem_used := bytes_to_gigabytes (vm_used v2), s_mem_pct := two_decimals (vm_used_percent v2)\<rparr>)"

section \<open>What is answered\<close>

text \<open>For every collector its reading, and the context's error where the code asks for it.\<close>

record system_answers =
  qs_ctx1 :: "go_error option"
  qs_battery :: "(u8 \<times> u8) res"
  qs_ctx2 :: "go_error option"
  qs_cpu :: "times_stat list res"
  qs_cpu_ctx :: "go_error option"
  qs_cores :: "times_stat list res"
  qs_cores_ctx :: "go_error option"
  qs_load :: "(f64 \<times> f64 \<times> f64) res"
  qs_load_ctx :: "go_error option"
  qs_memory :: "virtual_memory res"
  qs_memory_ctx :: "go_error option"
  qs_arc :: "string option"
  qs_disk_ctx :: "go_error option"
  qs_usage :: "string \<Rightarrow> disk_usage res"
  qs_usage_ctx :: "string \<Rightarrow> go_error option"
  qs_disk_clock :: int
  qs_io :: "io_map res"
  qs_io_ctx :: "go_error option"
  qs_io_clock :: int
  qs_net_ctx :: "go_error option"
  qs_net :: "io_counters_stat list res"
  qs_net_ctx2 :: "go_error option"
  qs_net_again :: "io_counters_stat list res"
  qs_nics :: "string option"
  qs_net_clock :: int
  qs_sensors :: sensor_world
  qs_gpu_order :: "(string, gpu_data) gmap \<Rightarrow> (string \<times> gpu_data) list"
  qs_info_ctx :: "go_error option"
  qs_uptime :: "u64 res"
  qs_uptime_ctx :: "go_error option"

record system_state =
  ss_cpu :: cpu_state
  ss_fs :: fs_manager
  ss_net :: network_manager
  ss_sensors :: sensor_config
  ss_gpu :: "gpu_manager option"
  ss_info :: info
  ss_details :: details
  ss_zfs :: bool
  ss_mem_calc :: string
  ss_connection_type :: u8

text \<open>An error that the context does not share is logged and skipped.\<close>

definition unless_cancelled :: "go_error option \<Rightarrow> 'a \<Rightarrow> 'a res" where
  "unless_cancelled ctx x = (case ctx of Some e \<Rightarrow> Inl e | None \<Rightarrow> Inr x)"

definition update_battery_stats :: "(u8 \<times> u8) res \<Rightarrow> stats \<Rightarrow> stats" where
  "update_battery_stats battery st = (case battery of Inl _ \<Rightarrow> st | Inr b \<Rightarrow> st\<lparr>s_battery := b\<rparr>)"

definition update_cpu_metrics :: "system_answers \<Rightarrow> 16 word \<Rightarrow> cpu_state \<Rightarrow> stats \<Rightarrow> unit res \<times> cpu_state \<times> stats" where
  "update_cpu_metrics q key c st =
     (case get_cpu_metrics (qs_cpu q) key c of (r, c1) \<Rightarrow>
      case (case r of
          Inr m \<Rightarrow> Inr (st\<lparr>s_cpu := two_decimals (cm_total m), s_cpu_breakdown := Some (map two_decimals
              [cm_user m, cm_system m, cm_iowait m, cm_steal m, cm_idle m])\<rparr>)
        | Inl _ \<Rightarrow> unless_cancelled (qs_cpu_ctx q) st) of
        Inl e \<Rightarrow> (Inl e, c1, st)
      | Inr st1 \<Rightarrow> (case get_per_core_cpu_usage (qs_cores q) key c1 of
          (Inr usage, c2) \<Rightarrow> (Inr (), c2, st1\<lparr>s_cpu_cores_usage := usage\<rparr>)
        | (Inl _, c2) \<Rightarrow> (unless_cancelled (qs_cores_ctx q) (), c2, st1)))"

definition update_load_stats :: "system_answers \<Rightarrow> stats \<Rightarrow> stats res" where
  "update_load_stats q st = (case qs_load q of
     Inr (l1, l5, l15) \<Rightarrow> Inr (st\<lparr>s_load_avg := [l1, l5, l15]\<rparr>)
   | Inl _ \<Rightarrow> unless_cancelled (qs_load_ctx q) st)"

definition update_memory_stats :: "system_answers \<Rightarrow> system_state \<Rightarrow> stats \<Rightarrow> stats res" where
  "update_memory_stats q s st = (case qs_memory q of
     Inr v \<Rightarrow> Inr (apply_memory (ss_mem_calc s) (if ss_zfs s then Some (arc_size (qs_arc q)) else None) v st)
   | Inl _ \<Rightarrow> unless_cancelled (qs_memory_ctx q) st)"

definition update_core_system_stats :: "system_answers \<Rightarrow> 16 word \<Rightarrow> system_state \<Rightarrow> stats \<Rightarrow> unit res \<times> system_state \<times> stats" where
  "update_core_system_stats q key s st = (case qs_ctx1 q of
     Some e \<Rightarrow> (Inl e, s, st)
   | None \<Rightarrow>
       let st1 = update_battery_stats (qs_battery q) st in
       (case qs_ctx2 q of
          Some e \<Rightarrow> (Inl e, s, st1)
        | None \<Rightarrow> (case update_cpu_metrics q key (ss_cpu s) st1 of
            (Inl e, c, st2) \<Rightarrow> (Inl e, s\<lparr>ss_cpu := c\<rparr>, st2)
          | (Inr _, c, st2) \<Rightarrow>
              (case attempt (update_load_stats q st2) (update_memory_stats q s) of
                 Inl e \<Rightarrow> (Inl e, s\<lparr>ss_cpu := c\<rparr>, st2)
               | Inr st3 \<Rightarrow> (Inr (), s\<lparr>ss_cpu := c\<rparr>, st3)))))"

text \<open>The data of the GPUs: temperatures, the primary sensor, and the highest usage.\<close>

definition add_gpu :: "string \<Rightarrow> (string, f64) gmap \<times> info \<times> f64 \<Rightarrow> string \<times> gpu_data \<Rightarrow> (string, f64) gmap \<times> info \<times> f64" where
  "add_gpu primary acc entry = (case acc of (temps, inf0, highest) \<Rightarrow>
     let g = snd entry;
         (temps1, inf1, highest1) = (if flt (Num 0) (gpu_temperature g)
           then (mput (gpu_name g) (gpu_temperature g) temps,
                 if primary = gpu_name g then inf0\<lparr>in_dashboard_temp := gpu_temperature g\<rparr> else inf0,
                 fmax highest (gpu_temperature g))
           else (temps, inf0, highest))
     in (temps1, inf1\<lparr>in_gpu_pct := fmax (in_gpu_pct inf1) (gpu_usage g)\<rparr>, highest1))"

text \<open>The map of the GPUs is visited in the order that the runtime chooses.\<close>

definition update_gpu_stats :: "system_answers \<Rightarrow> 16 word \<Rightarrow> system_state \<Rightarrow> stats \<Rightarrow> system_state \<times> stats" where
  "update_gpu_stats q key s st = (case ss_gpu s of
     None \<Rightarrow> (s, st)
   | Some gm \<Rightarrow>
       let inf0 = (ss_info s)\<lparr>in_gpu_pct := Num 0\<rparr>; (gpus, gm') = get_current_data key gm in
       if gpus = [] then (s\<lparr>ss_gpu := Some gm', ss_info := inf0\<rparr>, st)
       else let temps0 = (case s_temperatures st of None \<Rightarrow> [] | Some m \<Rightarrow> m);
                (temps, inf1, highest) = foldl (add_gpu (sc_primary_sensor (ss_sensors s))) (temps0, inf0, Num 0) (qs_gpu_order q gpus);
                inf2 = (if feq (in_dashboard_temp inf1) (Num 0) then inf1\<lparr>in_dashboard_temp := highest\<rparr> else inf1)
            in (s\<lparr>ss_gpu := Some gm', ss_info := inf2\<rparr>, st\<lparr>s_gpu_data := Some gpus, s_temperatures := Some temps\<rparr>))"

definition update_system_info_stats :: "system_answers \<Rightarrow> stats \<Rightarrow> system_state \<Rightarrow> unit res \<times> system_state" where
  "update_system_info_stats q st s = (case qs_info_ctx q of
     Some e \<Rightarrow> (Inl e, s)
   | None \<Rightarrow>
       let inf1 = (ss_info s)\<lparr>in_connection_type := ss_connection_type s, in_cpu := s_cpu st, in_load_avg := s_load_avg st,
             in_mem_pct := s_mem_pct st, in_disk_pct := s_disk_pct st, in_battery := s_battery st\<rparr>;
           finish = (\<lambda>i. s\<lparr>ss_info := i\<lparr>in_bandwidth_bytes := fst (s_bandwidth st) + snd (s_bandwidth st),
             in_threads := dt_threads (ss_details s)\<rparr>\<rparr>)
       in (case qs_uptime q of
             Inr up \<Rightarrow> (Inr (), finish (inf1\<lparr>in_uptime := up\<rparr>))
           | Inl _ \<Rightarrow> (case qs_uptime_ctx q of
                 Some e \<Rightarrow> (Inl e, s\<lparr>ss_info := inf1\<rparr>)
               | None \<Rightarrow> (Inr (), finish inf1))))"

text \<open>\<open>getSystemStats\<close>: the statistics as far as they got come with an error too; the callers drop them.\<close>

definition get_system_stats :: "system_answers \<Rightarrow> 16 word \<Rightarrow> system_state \<Rightarrow> stats res \<times> system_state" where
  "get_system_stats q key s = (case update_core_system_stats q key s zero_stats of
     (Inl e, s1, _) \<Rightarrow> (Inl e, s1)
   | (Inr _, s1, st1) \<Rightarrow> (case update_disk_usage (qs_disk_ctx q) (qs_usage q) (qs_usage_ctx q) (qs_disk_clock q) (ss_fs s1) st1 of
     (Inl e, fs2, _) \<Rightarrow> (Inl e, s1\<lparr>ss_fs := fs2\<rparr>)
   | (Inr _, fs2, st2) \<Rightarrow> (case update_disk_io (qs_io q) (qs_io_ctx q) (qs_io_clock q) key fs2 st2 of
     (Inl e, fs3, _) \<Rightarrow> (Inl e, s1\<lparr>ss_fs := fs3\<rparr>)
   | (Inr _, fs3, st3) \<Rightarrow> (case update_network_stats (qs_net_ctx q) (qs_net q) (qs_net_ctx2 q) (qs_net_again q) (qs_nics q)
         (qs_net_clock q) key (ss_net s1) st3 of
     (Inl e, nm4, _) \<Rightarrow> (Inl e, s1\<lparr>ss_fs := fs3, ss_net := nm4\<rparr>)
   | (Inr _, nm4, st4) \<Rightarrow> (case update_temperatures (qs_sensors q) (ss_sensors s1) (ss_info s1, st4) of
     (Some e, inf5, _) \<Rightarrow> (Inl e, s1\<lparr>ss_fs := fs3, ss_net := nm4, ss_info := inf5\<rparr>)
   | (None, inf5, st5) \<Rightarrow> (case update_gpu_stats q key (s1\<lparr>ss_fs := fs3, ss_net := nm4, ss_info := inf5\<rparr>) st5 of
     (s6, st6) \<Rightarrow> (case update_system_info_stats q st6 s6 of
         (Inl e, s7) \<Rightarrow> (Inl e, s7) | (Inr _, s7) \<Rightarrow> (Inr st6, s7))))))))"

section \<open>The static details\<close>

fun pretty_name_lines :: "string list \<Rightarrow> string res" where
  "pretty_name_lines [] = Inl (ErrText ''pretty name not found'')"
| "pretty_name_lines (line # rest) =
     (if has_prefix ''PRETTY_NAME='' line then Inr (trim_set ''\"'' (trim_prefix ''PRETTY_NAME='' line)) else pretty_name_lines rest)"

text \<open>\<open>/etc/os-release\<close>.\<close>

definition get_os_pretty_name :: "string option \<Rightarrow> string res" where
  "get_os_pretty_name file = (case file of None \<Rightarrow> Inl ErrNotExist | Some content \<Rightarrow> pretty_name_lines (scan_lines content))"

text \<open>What the host answers; \<open>ha_podman\<close> and \<open>ha_host\<close> when there is a Docker manager.\<close>

record host_answers =
  ha_podman :: "bool option"
  ha_host :: host_info
  ha_hostname :: string
  ha_kernel_arch :: "string res"
  ha_goarch :: string
  ha_platform :: string
  ha_os_release :: "string option"
  ha_kernel_version :: string
  ha_cpu_models :: "string list res"
  ha_cores :: int
  ha_threads :: int
  ha_memory :: "virtual_memory res"
  ha_arc :: "string option"

definition refresh_system_details :: "string \<Rightarrow> host_answers \<Rightarrow> system_state \<Rightarrow> system_state" where
  "refresh_system_details version ha s =
     (let hi = (if ha_podman ha = None then zero_host_info else ha_host ha);
          d0 = ss_details s;
          threads = (if hi_ncpu hi = 0 then ha_threads ha else hi_ncpu hi);
          cores = (if 0 < threads \<and> threads < ha_cores ha then threads else ha_cores ha);
          d1 = d0\<lparr>dt_podman := (case ha_podman ha of None \<Rightarrow> dt_podman d0 | Some p \<Rightarrow> p),
            dt_hostname := ha_hostname ha,
            dt_arch := (case ha_kernel_arch ha of Inr arch \<Rightarrow> arch | Inl _ \<Rightarrow> ha_goarch ha),
            dt_os_name := (if hi_operating_system hi = [] then (case get_os_pretty_name (ha_os_release ha) of
                Inr name \<Rightarrow> name | Inl _ \<Rightarrow> ha_platform ha) else hi_operating_system hi),
            dt_kernel := (if hi_kernel_version hi = [] then ha_kernel_version ha else hi_kernel_version hi),
            dt_cpu_model := (case ha_cpu_models ha of Inr (model # _) \<Rightarrow> model | _ \<Rightarrow> dt_cpu_model d0),
            dt_cores := cores, dt_threads := threads,
            dt_memory_total := (if hi_mem_total hi = 0 then (case ha_memory ha of Inr v \<Rightarrow> vm_total v | Inl _ \<Rightarrow> 0) else hi_mem_total hi)\<rparr>
      in s\<lparr>ss_info := (ss_info s)\<lparr>in_agent_version := version\<rparr>, ss_details := d1,
           ss_zfs := (case arc_size (ha_arc ha) of Inr _ \<Rightarrow> True | Inl _ \<Rightarrow> ss_zfs s)\<rparr>)"

end
