(* ===== verification/System_Properties.thy ===== *)
theory System_Properties
  imports System_Stats
begin

text \<open>
  What a snapshot's statistics are: memory and swap within their bounds, and every reading by itself,
  whatever the others answer.
\<close>

section \<open>Memory\<close>

lemma of_uint64_mono: "v \<le> w \<Longrightarrow> fval (of_uint64 v) \<le> fval (of_uint64 w)"
proof -
  assume "v \<le> w"
  then have "rnd_val (of_int (uint v)) \<le> rnd_val (of_int (uint w))" by (intro rnd_val_mono) (simp only: of_int_le_iff word_le_def)
  moreover have "fval (of_uint64 x) = rnd_val (of_int (uint x))" for x
    using of_uint64_range [of x] unfolding of_uint64_def by (auto simp: rnd_def Let_def split: if_splits)
  ultimately show ?thesis by simp
qed

lemma used_percent_range:
  assumes "used \<le> whole" "whole \<noteq> 0"
  shows "fin (used_percent_of used whole) \<and> of_int 0 \<le> fval (used_percent_of used whole) \<and> fval (used_percent_of used whole) \<le> of_int 100"
proof -
  let ?u = "of_uint64 used" and ?w = "of_uint64 whole"
  have u: "fin ?u" "0 \<le> fval ?u" and w: "fin ?w" "1 \<le> fval ?w" using of_uint64_range assms(2) by auto
  have le: "fval ?u \<le> fval ?w" using assms(1) by (rule of_uint64_mono)
  have "fin (fdiv ?u ?w) \<and> of_int 0 \<le> fval (fdiv ?u ?w) \<and> fval (fdiv ?u ?w) \<le> of_int 1"
    using u w le by (simp only: fdiv_fin) (intro rnd_between; simp add: divide_le_eq)
  then show ?thesis unfolding used_percent_of_def
    by (simp only: fmul_fin fin.simps) (intro rnd_between; simp)
qed

lemma used_swap_le: "used_swap_bytes whole free cached \<le> whole"
  by (auto simp: used_swap_bytes_def Let_def word_le_nat_alt unat_sub not_le)

lemma percent_of_used:
  "used \<le> whole \<Longrightarrow> whole \<noteq> 0 \<Longrightarrow>
    fin (two_decimals (used_percent_of used whole)) \<and> 0 \<le> fval (two_decimals (used_percent_of used whole))
      \<and> fval (two_decimals (used_percent_of used whole)) \<le> 100"
  using two_decimals_range [of "used_percent_of used whole" 0 100] used_percent_range [of used whole] by simp

text \<open>The memory in use after the cache of ZFS is taken off.\<close>

definition used_after_arc :: "u64 res option \<Rightarrow> u64 \<Rightarrow> u64" where
  "used_after_arc arc used = (let size = (case arc of Some (Inr n) \<Rightarrow> n | _ \<Rightarrow> 0) in if 0 < size \<and> size < used then used - size else used)"

lemma used_after_arc_le: "used_after_arc arc used \<le> used"
  by (auto simp: used_after_arc_def Let_def word_le_nat_alt word_less_nat_alt unat_sub)

lemma apply_memory_swap: "s_swap_pct (apply_memory calc arc v st)
    = (if 0 < vm_swap_total v then two_decimals (used_percent_of (used_swap_bytes (vm_swap_total v) (vm_swap_free v) (vm_swap_cached v)) (vm_swap_total v))
       else s_swap_pct st)"
  by (simp add: apply_memory_def Let_def)

lemma apply_memory_htop:
  fixes v :: virtual_memory and arc :: "u64 res option"
  assumes "calc = ''htop''"
  defines "used \<equiv> used_after_arc arc (vm_total v - (vm_free v + cache_and_buffers v))"
  shows "s_mem_pct (apply_memory calc arc v st) = two_decimals (used_percent_of used (vm_total v))"
    "s_mem_used (apply_memory calc arc v st) = bytes_to_gigabytes used"
  using assms by (auto simp: apply_memory_def used_after_arc_def Let_def split: option.splits sum.splits)

lemma htop_used_le:
  assumes "unat (vm_free v) + unat (cache_and_buffers v) \<le> unat (vm_total v)"
  shows "vm_total v - (vm_free v + cache_and_buffers v) \<le> vm_total v"
    "unat (vm_total v - (vm_free v + cache_and_buffers v)) + unat (vm_free v) + unat (cache_and_buffers v) = unat (vm_total v)"
proof -
  have "unat (vm_total v) < 2 ^ LENGTH(64)" by (rule unsigned_less)
  then have "unat (vm_free v + cache_and_buffers v) = unat (vm_free v) + unat (cache_and_buffers v)"
    using assms by (subst unat_add_lem [THEN iffD1]) simp_all
  then show "vm_total v - (vm_free v + cache_and_buffers v) \<le> vm_total v"
    "unat (vm_total v - (vm_free v + cache_and_buffers v)) + unat (vm_free v) + unat (cache_and_buffers v) = unat (vm_total v)"
    using assms by (simp_all add: word_le_nat_alt unat_sub)
qed

text \<open>
  C33: Swap is never more than full, whatever the kernel reports, and with the counting of htop used memory,
  free memory and caches add up to the total, so the share is a percentage.
\<close>

theorem memory_within_bounds:
  fixes v :: virtual_memory
  shows "(vm_swap_total v \<noteq> 0 \<longrightarrow> fin (s_swap_pct (apply_memory calc arc v st))
      \<and> 0 \<le> fval (s_swap_pct (apply_memory calc arc v st)) \<and> fval (s_swap_pct (apply_memory calc arc v st)) \<le> 100)
    \<and> (vm_total v \<noteq> 0 \<and> unat (vm_free v) + unat (cache_and_buffers v) \<le> unat (vm_total v)
      \<longrightarrow> fin (s_mem_pct (apply_memory ''htop'' arc v st)) \<and> 0 \<le> fval (s_mem_pct (apply_memory ''htop'' arc v st))
        \<and> fval (s_mem_pct (apply_memory ''htop'' arc v st)) \<le> 100)"
proof (intro conjI [of "_ \<longrightarrow> _"] impI)
  assume "vm_swap_total v \<noteq> 0"
  then show "fin (s_swap_pct (apply_memory calc arc v st))
      \<and> 0 \<le> fval (s_swap_pct (apply_memory calc arc v st)) \<and> fval (s_swap_pct (apply_memory calc arc v st)) \<le> 100"
    using percent_of_used [OF used_swap_le] by (simp add: apply_memory_swap word_neq_0_conv)
next
  assume t: "vm_total v \<noteq> 0 \<and> unat (vm_free v) + unat (cache_and_buffers v) \<le> unat (vm_total v)"
  have "used_after_arc arc (vm_total v - (vm_free v + cache_and_buffers v)) \<le> vm_total v"
    by (rule order_trans [OF used_after_arc_le htop_used_le(1) [OF conjunct2 [OF t]]])
  from percent_of_used [OF this conjunct1 [OF t]]
  show "fin (s_mem_pct (apply_memory ''htop'' arc v st)) \<and> 0 \<le> fval (s_mem_pct (apply_memory ''htop'' arc v st))
        \<and> fval (s_mem_pct (apply_memory ''htop'' arc v st)) \<le> 100"
    by (simp only: apply_memory_htop [OF refl])
qed

definition sample_memory :: virtual_memory where
  "sample_memory = \<lparr>vm_total = 1000, vm_available = 500, vm_used = 400, vm_used_percent = Num 40, vm_free = 300, vm_buffers = 100,
     vm_cached = 200, vm_shared = 50, vm_swap_total = 100, vm_swap_free = 40, vm_swap_cached = 10\<rparr>"

theorem memory_within_bounds_witness:
  "fval (s_swap_pct (apply_memory ''htop'' None sample_memory zero_stats)) \<le> 100
    \<and> fval (s_mem_pct (apply_memory ''htop'' None sample_memory zero_stats)) \<le> 100"
proof -
  have "vm_swap_total sample_memory \<noteq> 0" "vm_total sample_memory \<noteq> 0"
    "unat (vm_free sample_memory) + unat (cache_and_buffers sample_memory) \<le> unat (vm_total sample_memory)"
    by (simp_all add: sample_memory_def cache_and_buffers_def)
  then show ?thesis using memory_within_bounds [of sample_memory "''htop''" None zero_stats] by blast
qed

section \<open>Every reading by itself\<close>

text \<open>The fields that the later collectors leave alone.\<close>

definition memory_fields :: "stats \<Rightarrow> f64 list" where
  "memory_fields st = [s_mem st, s_mem_used st, s_mem_pct st, s_mem_buff_cache st, s_mem_zfs_arc st, s_mem_available st,
     s_mem_cached st, s_mem_buffers st, s_swap st, s_swap_used st, s_swap_pct st]"

definition host_fields :: "stats \<Rightarrow> f64 list \<times> f64 list \<times> (u8 \<times> u8) \<times> f64 \<times> f64 list option \<times> u8 list option" where
  "host_fields st = (memory_fields st, s_load_avg st, s_battery st, s_cpu st, s_cpu_breakdown st, s_cpu_cores_usage st)"

lemma usage_loop_host: "host_fields (snd (snd (usage_loop cache usage ctx fs st))) = host_fields st"
  by (induction cache usage ctx fs st rule: usage_loop.induct)
     (auto simp: host_fields_def memory_fields_def root_usage_stats_def split: prod.splits sum.splits option.splits if_splits)

lemma update_disk_usage_host: "update_disk_usage e usage ctx now m st = (r, m', st') \<Longrightarrow> host_fields st' = host_fields st"
  using usage_loop_host [of _ usage ctx "fm_fs_stats m" st]
  by (auto simp: update_disk_usage_def Let_def split: option.splits prod.splits) (metis snd_conv)+

lemma apply_disk_counter_host: "host_fields (snd (apply_disk_counter key io now (m, st) entry)) = host_fields st"
  by (auto simp: apply_disk_counter_def host_fields_def memory_fields_def set_root_rates_def Let_def
    split: prod.splits option.splits disk_verdict.splits)

lemma foldl_disk_host: "host_fields (snd (foldl (apply_disk_counter key io now) s es)) = host_fields (snd s)"
  by (induction es arbitrary: s) (auto simp: apply_disk_counter_host split: prod.splits simp flip: prod.collapse)

lemma update_disk_io_host: "update_disk_io io ctx now key m st = (r, m', st') \<Longrightarrow> host_fields st' = host_fields st"
  using foldl_disk_host [of key _ now "(_, st)"]
  by (auto simp: update_disk_io_def apply_disk_io_counters_def Let_def split: sum.splits option.splits prod.splits) (metis snd_conv)+

lemma foldl_nic_host: "host_fields (snd (snd (foldl (track_nic nics ms) s vs))) = host_fields (snd (snd s))"
proof (induction vs arbitrary: s)
  case (Cons v vs)
  have "host_fields (snd (snd (track_nic nics ms s v))) = host_fields (snd (snd s))"
    by (auto simp: track_nic_def host_fields_def memory_fields_def Let_def split: prod.splits)
  then show ?case using Cons by simp
qed simp

lemma network_totals_host: "host_fields (snd (apply_network_totals nics again key nis totals rates m st)) = host_fields st"
  by (simp add: apply_network_totals_def host_fields_def memory_fields_def Let_def)

lemma ensure_map_host: "host_fields (ensure_network_interfaces_map st) = host_fields st"
  by (simp add: ensure_network_interfaces_map_def host_fields_def memory_fields_def split: option.splits)

lemma sum_nics_host: "host_fields (snd (snd (sum_and_track_per_nic_deltas key ms io m st))) = host_fields st"
  using foldl_nic_host [of "nm_net_interfaces m" ms "(_, _, st)" io]
  by (auto simp: sum_and_track_per_nic_deltas_def Let_def split: prod.splits) (metis snd_conv)+

lemma update_network_stats_host: "update_network_stats e0 io e1 again nics now key m st = (r, m', st') \<Longrightarrow> host_fields st' = host_fields st"
  by (auto simp: update_network_stats_def Let_def ensure_map_host split: option.splits sum.splits prod.splits)
    (metis network_totals_host sum_nics_host ensure_map_host snd_conv)+

lemma update_temperatures_host: "update_temperatures w cfg (inf0, st) = (r, inf1, st') \<Longrightarrow> host_fields st' = host_fields st"
  by (auto simp: update_temperatures_def host_fields_def memory_fields_def Let_def split: option.splits sum.splits prod.splits if_splits)

lemma update_gpu_stats_host: "update_gpu_stats q key s st = (s', st') \<Longrightarrow> host_fields st' = host_fields st"
  by (auto simp: update_gpu_stats_def host_fields_def memory_fields_def Let_def split: option.splits prod.splits if_splits)

definition nothing_cancelled :: "system_answers \<Rightarrow> bool" where
  "nothing_cancelled q = (qs_ctx1 q = None \<and> qs_ctx2 q = None \<and> qs_cpu_ctx q = None \<and> qs_cores_ctx q = None \<and> qs_load_ctx q = None
     \<and> qs_memory_ctx q = None \<and> qs_disk_ctx q = None \<and> qs_usage_ctx q = (\<lambda>_. None) \<and> qs_io_ctx q = None \<and> qs_net_ctx q = None
     \<and> qs_net_ctx2 q = None \<and> sn_ctx (qs_sensors q) = None \<and> sn_ctx_first (qs_sensors q) = None
     \<and> sn_ctx_second (qs_sensors q) = None \<and> qs_info_ctx q = None \<and> qs_uptime_ctx q = None)"

lemma usage_loop_total: "fst (usage_loop cache usage (\<lambda>_. None) fs st) = None"
  by (induction cache usage "\<lambda>_ :: string. None :: go_error option" fs st rule: usage_loop.induct)
     (auto split: prod.splits sum.splits if_splits)

text \<open>What each reading alone gives.\<close>

definition memory_of :: "system_answers \<Rightarrow> system_state \<Rightarrow> stats" where
  "memory_of q s = (case qs_memory q of Inl _ \<Rightarrow> zero_stats
     | Inr v \<Rightarrow> apply_memory (ss_mem_calc s) (if ss_zfs s then Some (arc_size (qs_arc q)) else None) v zero_stats)"

definition cpu_of :: "system_answers \<Rightarrow> 16 word \<Rightarrow> system_state \<Rightarrow> f64" where
  "cpu_of q key s = (case fst (get_cpu_metrics (qs_cpu q) key (ss_cpu s)) of Inl _ \<Rightarrow> Num 0 | Inr m \<Rightarrow> two_decimals (cm_total m))"

definition load_of :: "system_answers \<Rightarrow> f64 list" where
  "load_of q = (case qs_load q of Inl _ \<Rightarrow> s_load_avg zero_stats | Inr (l1, l5, l15) \<Rightarrow> [l1, l5, l15])"

definition battery_of :: "system_answers \<Rightarrow> u8 \<times> u8" where
  "battery_of q = (case qs_battery q of Inl _ \<Rightarrow> (0, 0) | Inr b \<Rightarrow> b)"

definition core_view :: "stats \<Rightarrow> f64 list \<times> f64 list \<times> (u8 \<times> u8) \<times> f64" where
  "core_view st = (memory_fields st, s_load_avg st, s_battery st, s_cpu st)"

lemma host_fields_view: "host_fields st = host_fields st' \<Longrightarrow> core_view st = core_view st'"
  by (simp add: host_fields_def core_view_def)

lemma apply_memory_alone:
  "memory_fields st = memory_fields zero_stats \<Longrightarrow> memory_fields (apply_memory calc arc v st) = memory_fields (apply_memory calc arc v zero_stats)"
  by (auto simp: memory_fields_def apply_memory_def Let_def)

lemma apply_memory_rest: "s_load_avg (apply_memory calc arc v st) = s_load_avg st \<and> s_battery (apply_memory calc arc v st) = s_battery st
    \<and> s_cpu (apply_memory calc arc v st) = s_cpu st"
  by (simp add: apply_memory_def Let_def)

lemma update_cpu_metrics_alone:
  assumes "qs_cpu_ctx q = None" "qs_cores_ctx q = None" "s_cpu st = Num 0"
  obtains c' st' where "update_cpu_metrics q key (ss_cpu s) st = (Inr (), c', st')"
    "memory_fields st' = memory_fields st" "s_load_avg st' = s_load_avg st" "s_battery st' = s_battery st" "s_cpu st' = cpu_of q key s"
proof -
  obtain r c1 where m: "get_cpu_metrics (qs_cpu q) key (ss_cpu s) = (r, c1)" by fastforce
  obtain u c2 where u: "get_per_core_cpu_usage (qs_cores q) key c1 = (u, c2)" by fastforce
  show thesis
    by (rule that [of c2 "snd (snd (update_cpu_metrics q key (ss_cpu s) st))"])
      (cases r; cases u; simp add: update_cpu_metrics_def unless_cancelled_def cpu_of_def memory_fields_def m u assms)+
qed

lemma core_stats_alone:
  assumes "nothing_cancelled q"
  obtains c' st' where "update_core_system_stats q key s zero_stats = (Inr (), s\<lparr>ss_cpu := c'\<rparr>, st')"
    "core_view st' = (memory_fields (memory_of q s), load_of q, battery_of q, cpu_of q key s)"
proof -
  note ctx = assms [unfolded nothing_cancelled_def]
  let ?st1 = "update_battery_stats (qs_battery q) zero_stats"
  have st1: "memory_fields ?st1 = memory_fields zero_stats" "s_load_avg ?st1 = s_load_avg zero_stats" "s_battery ?st1 = battery_of q"
    "s_cpu ?st1 = Num 0"
    by (simp_all add: update_battery_stats_def memory_fields_def battery_of_def zero_stats_def split: sum.splits)
  obtain c2 st2 where st2: "update_cpu_metrics q key (ss_cpu s) ?st1 = (Inr (), c2, st2)"
    "memory_fields st2 = memory_fields zero_stats" "s_load_avg st2 = s_load_avg zero_stats" "s_battery st2 = battery_of q" "s_cpu st2 = cpu_of q key s"
    by (rule update_cpu_metrics_alone [of q ?st1 key s]) (use ctx st1 in simp_all)
  obtain st3 where st3: "update_load_stats q st2 = Inr st3"
    "memory_fields st3 = memory_fields zero_stats" "s_load_avg st3 = load_of q" "s_battery st3 = battery_of q" "s_cpu st3 = cpu_of q key s"
    by (cases "qs_load q")
      (use ctx st2 in \<open>auto simp: update_load_stats_def unless_cancelled_def load_of_def memory_fields_def split: prod.splits\<close>)
  obtain st4 where st4: "update_memory_stats q s st3 = Inr st4"
    "core_view st4 = (memory_fields (memory_of q s), load_of q, battery_of q, cpu_of q key s)"
    by (cases "qs_memory q")
      (use ctx st3 apply_memory_alone [of st3] in \<open>auto simp: update_memory_stats_def unless_cancelled_def memory_of_def core_view_def apply_memory_rest\<close>)
  show thesis
    by (rule that [of c2 st4]) (use ctx st2 st3 st4 in \<open>simp_all add: update_core_system_stats_def Let_def\<close>)
qed

lemma disk_usage_total:
  obtains m' st' where "update_disk_usage None usage (\<lambda>_. None) now m st = (Inr (), m', st')" "core_view st' = core_view st"
proof -
  obtain r fs st' where u: "usage_loop (extra_usage_cached now m) usage (\<lambda>_. None) (fm_fs_stats m) st = (r, fs, st')"
    by (metis prod_cases3)
  have "r = None" using usage_loop_total [of "extra_usage_cached now m" usage "fm_fs_stats m" st] u by simp
  with u show thesis
    using that usage_loop_host [of "extra_usage_cached now m" usage "\<lambda>_. None" "fm_fs_stats m" st]
    by (auto simp: update_disk_usage_def Let_def intro: host_fields_view)
qed

lemma disk_io_total:
  obtains m' st' where "update_disk_io io None now key m st = (Inr (), m', st')" "core_view st' = core_view st"
proof -
  obtain r m' st' where u: "update_disk_io io None now key m st = (r, m', st')" by (metis prod_cases3)
  then have "r = Inr ()" by (auto simp: update_disk_io_def split: sum.splits prod.splits)
  with u show thesis using that update_disk_io_host [OF u] host_fields_view by metis
qed

lemma network_total:
  obtains m' st' where "update_network_stats None io None again nics now key m st = (Inr (), m', st')" "core_view st' = core_view st"
proof -
  obtain r m' st' where u: "update_network_stats None io None again nics now key m st = (r, m', st')" by (metis prod_cases3)
  then have "r = Inr ()" by (auto simp: update_network_stats_def Let_def split: sum.splits prod.splits)
  with u show thesis using that update_network_stats_host [OF u] host_fields_view by metis
qed

lemma temperatures_total:
  assumes "sn_ctx w = None" "sn_ctx_first w = None" "sn_ctx_second w = None"
  obtains inf1 st' where "update_temperatures w cfg (inf0, st) = (None, inf1, st')" "core_view st' = core_view st"
proof -
  obtain r inf1 st' where u: "update_temperatures w cfg (inf0, st) = (r, inf1, st')" by (metis prod_cases3)
  have "sensors_read w \<noteq> Inl e" for e using assms by (auto simp: sensors_read_def split: sum.splits option.splits)
  with u have "r = None" using assms(1)
    by (auto simp: update_temperatures_def Let_def split: sum.splits option.splits prod.splits if_splits)
  with u show thesis using that update_temperatures_host [OF u] host_fields_view by metis
qed

lemma info_total:
  assumes "qs_info_ctx q = None" "qs_uptime_ctx q = None"
  obtains s' where "update_system_info_stats q st s = (Inr (), s')"
    "in_cpu (ss_info s') = s_cpu st" "in_mem_pct (ss_info s') = s_mem_pct st" "in_disk_pct (ss_info s') = s_disk_pct st"
    "in_bandwidth_bytes (ss_info s') = fst (s_bandwidth st) + snd (s_bandwidth st)"
  by (cases "qs_uptime q") (use assms in \<open>auto simp: update_system_info_stats_def Let_def intro: that\<close>)


text \<open>A host on which only the memory can be read.\<close>

definition failing_answers :: system_answers where
  "failing_answers = (let e = ErrPermission in
     \<lparr>qs_ctx1 = None, qs_battery = Inl e, qs_ctx2 = None, qs_cpu = Inl e, qs_cpu_ctx = None, qs_cores = Inl e, qs_cores_ctx = None,
      qs_load = Inl e, qs_load_ctx = None, qs_memory = Inr sample_memory, qs_memory_ctx = None, qs_arc = None, qs_disk_ctx = None,
      qs_usage = (\<lambda>_. Inl e), qs_usage_ctx = (\<lambda>_. None), qs_disk_clock = 0, qs_io = Inl e, qs_io_ctx = None, qs_io_clock = 0,
      qs_net_ctx = None, qs_net = Inl e, qs_net_ctx2 = None, qs_net_again = Inl e, qs_nics = None, qs_net_clock = 0,
      qs_sensors = \<lparr>sn_ctx = None, sn_first = Inl e, sn_ctx_first = None, sn_second = Inl e, sn_ctx_second = None\<rparr>,
      qs_gpu_order = (\<lambda>gpus. gpus), qs_info_ctx = None, qs_uptime = Inl e, qs_uptime_ctx = None\<rparr>)"

definition plain_system :: system_state where
  "plain_system = \<lparr>ss_cpu = empty_cpu_state, ss_fs = new_fs_manager None, ss_net = new_network_manager,
     ss_sensors = \<lparr>sc_sensors = [], sc_primary_sensor = [], sc_timeout = 0, sc_is_blacklist = False, sc_has_wildcards = False,
       sc_skip_collection = False, sc_first_run = False, sc_env_map = None\<rparr>,
     ss_gpu = None, ss_info = zero_info, ss_details = zero_details, ss_zfs = False, ss_mem_calc = [], ss_connection_type = 0\<rparr>"


end
