(* ===== verification/Spec2Isabelle.thy ===== *)
theory Spec2Isabelle
  imports Runtime Rollups Snapshots Network Cpu Config Smart_Properties Disk_Properties Docker_Properties Systemd_Properties Process_Properties Sensors_Properties Gpu_Properties Command_Properties Menu_Properties Detached_Properties Store_Files Journald_Properties System_Properties
begin

text \<open>
  A verification development for go-monitoring, an agent that samples a Linux host (CPU, memory, disks,
  network, sensors, GPUs, processes, services, containers, SMART), keeps current values and
  aggregated history in SQLite, and serves them over HTTP on TCP and unix sockets.

  How the program works.  \<open>cmd/root.go\<close> reads flags, the configuration file and the environment and starts
  the agent (\<open>internal/app/runtime.go\<close>).  On every tick of the collector the agent gathers a snapshot
  (\<open>agent.go\<close>, which asks one manager per kind of data), writes it in one transaction
  (\<open>internal/store/store.go\<close>), runs maintenance (\<open>rollups.go\<close>) and touches the health file.  The HTTP API
  (\<open>internal/api/http\<close>) answers current values live or from the store and history from the store; its commands
  go to \<open>cmd/command_api.go\<close>, which may rewrite the configuration and reload the agent.  The terminal menus
  (\<open>cmd/main_menu.go\<close>, \<open>config_menu.go\<close>) edit the same file, start and stop an agent and run the database commands.

  Conventions.  A struct is a record with the struct's fields, an enumeration a datatype, \<open>uint64\<close> and the
  narrower unsigned types are words, so that subtraction of counters wraps as in the code; \<open>int\<close>, \<open>int64\<close>, times
  and durations are integers; \<open>float64\<close> is IEEE binary64 (\<open>Float64\<close>).  An error is a value of
  \<open>go_error\<close> and a fallible function returns \<open>go_error + 'a\<close>.  Strings are bytes; letter case and white space are
  those of ASCII.  A Go map that is marshalled or ranged over is a list sorted by key, one that is looked up
  a function to options; where the order of a range matters to the result it is an argument or the theorem says that it does not.
  Clocks, files, the environment, and the answers of the kernel, of libraries (gopsutil, D-Bus, NVML), of SQLite and of
  external programs are arguments: a reading, or a record of readings, with failures among them.  A mutex-protected method is one step.

  The theories, from the bottom:
    \<^item> \<open>Prelude\<close>: errors, text, sorted maps; \<open>Float64\<close>, \<open>Float_Facts\<close>: floats; \<open>Json\<close>, \<open>Json_Over\<close>: what is
      used of \<open>encoding/json\<close>, also decoding over old values; \<open>Golib\<close>, \<open>Go_Text\<close>, \<open>Go_Number\<close>, \<open>Duration_Facts\<close>: \<open>time\<close>, \<open>net\<close>,
      \<open>strings\<close>, \<open>path/filepath\<close> and \<open>strconv\<close>.
    \<^item> \<open>System_Model\<close>, \<open>Codecs\<close>: \<open>internal/domain\<close> (all but \<open>smart\<close>) with the JSON codecs of every struct; the interface
      \<open>value_codec\<close> of the values of a map, with one interpretation per kind of value.
    \<^item> \<open>Delta_Tracker\<close> (\<open>internal/deltatracker\<close>), with the interface \<open>interval_tracker\<close> and its interpretation \<open>dt\<close>.
    \<^item> \<open>Plugins\<close>, \<open>Aggregation\<close>: \<open>store/plugins.go\<close> and the averaging of \<open>store/rollups.go\<close>.
    \<^item> \<open>Store\<close>, \<open>Rollups\<close>, \<open>Snapshots\<close>, \<open>History_Store\<close>: \<open>store/store.go\<close> and \<open>rollups.go\<close>; a transaction is a program over the database in which any
      statement may fail (\<open>fault\<close>); the interface \<open>history_store\<close> of the HTTP API and its interpretation \<open>hs\<close>.
    \<^item> \<open>Store_Files\<close>: opening, checking, repairing and resetting the database file, \<open>store/data_dir.go\<close>, and the \<open>db\<close> command.
    \<^item> \<open>Live_Cache\<close>: \<open>app/live_current.go\<close>, \<open>agent.go\<close> (\<open>gatherStats\<close>), \<open>agent_cache.go\<close>.
    \<^item> \<open>Network\<close> (\<open>network.go\<close>, \<open>network_detail.go\<close>), \<open>Cpu\<close>, \<open>Disk\<close> and \<open>Disk_Properties\<close>, \<open>Process\<close> and \<open>Process_Properties\<close>, \<open>Sensors\<close> and
      \<open>Sensors_Properties\<close>, \<open>Systemd\<close> and \<open>Systemd_Properties\<close>, \<open>Docker_Api\<close>, \<open>Docker\<close> and \<open>Docker_Properties\<close>, \<open>Gpu\<close> (\<open>gpu.go\<close>, \<open>gpu_intel.go\<close>, \<open>gpu_nvtop.go\<close>),
      \<open>Gpu_Amd\<close>, \<open>Gpu_Collect\<close> and \<open>Gpu_Properties\<close>: the managers of \<open>internal/app\<close> and \<open>internal/integration/docker\<close>.
    \<^item> \<open>Smart_Data\<close> (\<open>domain/smart\<close>), \<open>Block_Health\<close> (\<open>mdraid.go\<close>, \<open>emmc.go\<close>), \<open>Smart_Manager\<close>, \<open>Smart_Collect\<close>, \<open>Smart_Properties\<close> (\<open>app/smart.go\<close>).
    \<^item> \<open>System_Stats\<close>, \<open>System_Properties\<close>: \<open>app/system.go\<close> (\<open>getSystemStats\<close> over all of these managers), \<open>battery_main.go\<close>, \<open>zfs.go\<close>.
    \<^item> \<open>Listen\<close> (\<open>app/listen.go\<close>), \<open>Config\<close>, \<open>Config_File\<close> (\<open>internal/config\<close>), \<open>Health\<close>, \<open>Http_Api\<close> (\<open>internal/api/http\<close>), \<open>Runtime\<close> (\<open>app/runtime.go\<close>).
    \<^item> \<open>Cli\<close> (\<open>cmd/root.go\<close>), \<open>Command_Api\<close>, \<open>Config_Menu\<close>, \<open>Main_Menu\<close>, \<open>Detached_Agent\<close> (\<open>cmd\<close>), with \<open>Command_Properties\<close>, \<open>Menu_Properties\<close> (the interface
      \<open>menu_handler\<close> between the loop of a menu and what it calls, interpreted for the three menus), \<open>Detached_Properties\<close>.
    \<^item> \<open>Journald\<close>, \<open>Journald_Properties\<close>: \<open>internal/logging\<close> with its \<open>journald\<close> handler and sender.

  What the theorems show.  Storage: a snapshot write and a maintenance run implement abstract specifications, are
  atomic under any failing statement and keep the tables well-formed; rollups hold the aggregates of exactly their windows; retention
  deletes exactly what is old; what is written is read back, also through the history endpoint; no database file is lost when one
  is set aside.  Configuration: validation accepts exactly the specified configurations, a saved one is loaded again, commands are
  served only locally without consent, neither \<open>config.set\<close> nor the menus ever leave an invalid file, and a reload is all or
  nothing.  API: a listener answers only the APIs that it has.  Collectors: rates and percentages are those of their own interval and bounded, the answers do
  not depend on the order in which maps and processes are visited, no read of a sensor overlaps another, programs partition the processes,
  reports contain only what exists, and one failing reading spoils no other.  SMART: output is read by a fitting parser
  and merging of device lists loses nothing.  Logging: what the journal reads is the record, without forged fields.  Some theorems state what
  the code does where its comments promise something else (an obsolete database schema, the process that stopping signals, the
  loop of rocm-smi).

  Bounds and termination.  Loops over data are structural recursion; the menus terminate because each round reads a key
  (a measure on the input), the rollup loop because each window is later than the one before.  Fuel occurs in two parsers only
  (\<open>duration_parts\<close>, \<open>ipv6_groups\<close> of \<open>Golib\<close>): each round takes at least one byte, so the length of the text is enough.
  Retries have the constants of the code (six failures of a GPU collector, two attempts of a Docker request and of a
  sensor read).  Nothing bounds the number of ticks, keys, commands or rows.

  Not modelled: drawing on the terminal and its modes, help texts and log messages, \<open>cmd/status.go\<close> (an HTTP client that prints tables), starting
  processes and asking \<open>systemctl\<close> beyond its answer, NVML (calls of a C library), the HTTP transports, timeouts other than as
  answers of a context, the wiring in \<open>app.New\<close>, and data races (each locked method is one step).  They have no state of their own
  or are outside the repository.
\<close>

end
